(* ===== verification/Operator_Prelude.thy ===== *)
theory Operator_Prelude
  imports
    Main
    "HOL-Library.Word"
    "HOL-Library.Char_ord"
    "HOL-Library.List_Lexorder"
    "HOL-Library.Product_Lexorder"
    "HOL-Library.Sublist"
begin

text \<open>
  Shared vocabulary of the krabka-operator development: the machine-integer
  names, errors as values, the parts of the Rust standard library that the
  operator calls on strings (splitting, searching, trimming, decimal printing
  and parsing, debug quoting, UTF-8 validation), ordered maps as the sorted
  association lists a \<open>BTreeMap\<close> iterates over, and the interfaces
  (locales) several components promise or rely on.

  Strings are lists of bytes. Rust's \<open>str::trim\<close> removes Unicode white
  space; \<open>trim_str\<close> removes the ASCII part of it, which is all a byte can
  hold. Spans and instants are integers counting nanoseconds; the floating
  point rounding of the \<open>Time\<close> quantity is not modelled.
\<close>

named_theorems str_simps
named_theorems codec_simps
named_theorems outcome_simps

type_synonym u32 = "32 word"
type_synonym u64 = "64 word"
type_synonym time = int

section \<open>Errors as values\<close>

definition bind_result :: "'e + 'a \<Rightarrow> ('a \<Rightarrow> 'e + 'b) \<Rightarrow> 'e + 'b" where
  "bind_result m f = (case m of Inl e \<Rightarrow> Inl e | Inr x \<Rightarrow> f x)"

lemma bind_result_simps [simp, outcome_simps]:
  "bind_result (Inl e) f = Inl e"
  "bind_result (Inr x) f = f x"
  by (simp_all add: bind_result_def)

lemma bind_result_Inr:
  "bind_result m f = Inr y \<longleftrightarrow> (\<exists>x. m = Inr x \<and> f x = Inr y)"
  by (cases m) simp_all

definition ok_or :: "'e \<Rightarrow> 'a option \<Rightarrow> 'e + 'a" where
  "ok_or e v = (case v of None \<Rightarrow> Inl e | Some x \<Rightarrow> Inr x)"

lemma ok_or_simps [simp, outcome_simps]:
  "ok_or e None = Inl e"
  "ok_or e (Some x) = Inr x"
  by (simp_all add: ok_or_def)

lemma ok_or_Inr [simp]: "ok_or e v = Inr x \<longleftrightarrow> v = Some x"
  by (cases v) simp_all

definition result_ok :: "'e + 'a \<Rightarrow> 'a option" where
  "result_ok m = (case m of Inl _ \<Rightarrow> None | Inr x \<Rightarrow> Some x)"

lemma result_ok_simps [simp]:
  "result_ok (Inl e) = None"
  "result_ok (Inr x) = Some x"
  by (simp_all add: result_ok_def)

text \<open>A guard, and a loop over checks that stops at the first failure.\<close>

definition require :: "bool \<Rightarrow> 'e \<Rightarrow> 'e + unit" where
  "require c e = (if c then Inr () else Inl e)"

lemma require_Inr [simp, outcome_simps]: "require c e = Inr u \<longleftrightarrow> c"
  by (simp add: require_def)

lemma require_simps [simp]: "require True e = Inr ()" "require False e = Inl e"
  by (simp_all add: require_def)

fun each_ok :: "('a \<Rightarrow> 'e + unit) \<Rightarrow> 'a list \<Rightarrow> 'e + unit" where
  "each_ok f [] = Inr ()"
| "each_ok f (x # xs) = bind_result (f x) (\<lambda>_. each_ok f xs)"

lemma each_ok_Inr [simp]: "each_ok f xs = Inr u \<longleftrightarrow> (\<forall>x \<in> set xs. f x = Inr ())"
  by (induction xs) (auto simp: bind_result_Inr)

text \<open>A set that is filled in a loop and refuses the first repeated member.\<close>

fun first_repeated :: "'a list \<Rightarrow> 'a list \<Rightarrow> 'a option" where
  "first_repeated seen [] = None"
| "first_repeated seen (x # xs) = (if x \<in> set seen then Some x else first_repeated (x # seen) xs)"

lemma first_repeated_None [simp]: "first_repeated seen xs = None \<longleftrightarrow> distinct xs \<and> set xs \<inter> set seen = {}"
  by (induction xs arbitrary: seen) auto

definition or_else :: "'a option \<Rightarrow> 'a option \<Rightarrow> 'a option" where
  "or_else a b = (case a of None \<Rightarrow> b | Some x \<Rightarrow> Some x)"

definition unwrap_or :: "'a \<Rightarrow> 'a option \<Rightarrow> 'a" where
  "unwrap_or d a = (case a of None \<Rightarrow> d | Some x \<Rightarrow> x)"

lemma option_pick_simps [simp]:
  "or_else None b = b" "or_else (Some x) b = Some x"
  "unwrap_or d None = d" "unwrap_or d (Some x) = x"
  by (simp_all add: or_else_def unwrap_or_def)

section \<open>Searching by a key\<close>

text \<open>\<open>Iterator::min_by_key\<close> gives the first minimum, \<open>Iterator::max_by_key\<close> the last maximum.\<close>

fun min_by :: "('a \<Rightarrow> 'k::linorder) \<Rightarrow> 'a list \<Rightarrow> 'a option" where
  "min_by f [] = None"
| "min_by f (x # xs) =
     (case min_by f xs of None \<Rightarrow> Some x | Some y \<Rightarrow> if f y < f x then Some y else Some x)"

fun max_by :: "('a \<Rightarrow> 'k::linorder) \<Rightarrow> 'a list \<Rightarrow> 'a option" where
  "max_by f [] = None"
| "max_by f (x # xs) =
     (case max_by f xs of None \<Rightarrow> Some x | Some y \<Rightarrow> if f y < f x then Some x else Some y)"

lemma min_by_None [simp]: "min_by f xs = None \<longleftrightarrow> xs = []"
  by (cases xs) (auto split: option.splits)

lemma max_by_None [simp]: "max_by f xs = None \<longleftrightarrow> xs = []"
  by (cases xs) (auto split: option.splits)

lemma min_by_Some: "min_by f xs = Some x \<Longrightarrow> x \<in> set xs \<and> (\<forall>y \<in> set xs. f x \<le> f y)"
  by (induction xs arbitrary: x) (fastforce split: option.splits if_splits)+

lemma max_by_Some: "max_by f xs = Some x \<Longrightarrow> x \<in> set xs \<and> (\<forall>y \<in> set xs. f y \<le> f x)"
  by (induction xs arbitrary: x) (fastforce split: option.splits if_splits)+

section \<open>Splitting, searching and trimming strings\<close>

text \<open>\<open>str::split(c)\<close>: always at least one piece.\<close>

fun split_on :: "char \<Rightarrow> string \<Rightarrow> string list" where
  "split_on c [] = [[]]"
| "split_on c (x # xs) =
     (if x = c then [] # split_on c xs
      else (case split_on c xs of [] \<Rightarrow> [[x]] | p # ps \<Rightarrow> (x # p) # ps))"

lemma split_on_not_Nil [simp]: "split_on c s \<noteq> []"
  by (induction s) (auto split: list.splits)

lemma split_on_plain [simp, str_simps]: "c \<notin> set s \<Longrightarrow> split_on c s = [s]"
  by (induction s) auto

lemma split_on_append [str_simps]:
  "c \<notin> set a \<Longrightarrow> split_on c (a @ c # b) = a # split_on c b"
  by (induction a) auto

text \<open>\<open>str::split_once(p)\<close>, \<open>str::find(p)\<close> with the index as the length of what precedes.\<close>

fun find_sub :: "string \<Rightarrow> string \<Rightarrow> nat option" where
  "find_sub p [] = (if p = [] then Some 0 else None)"
| "find_sub p (x # xs) =
     (if take (length p) (x # xs) = p then Some 0 else map_option Suc (find_sub p xs))"

lemma find_sub_Some:
  "find_sub p s = Some i \<Longrightarrow> take (length p) (drop i s) = p \<and> i + length p \<le> length s"
proof (induction p s arbitrary: i rule: find_sub.induct)
  case (1 p)
  then show ?case by (auto split: if_splits)
next
  case (2 p x xs)
  show ?case
  proof (cases "take (length p) (x # xs) = p")
    case True
    with 2 show ?thesis
      by (metis add_0 drop0 find_sub.simps(2) le_cases length_take min.absorb2 min.commute
          min_le_iff_disj option.inject order_refl)
  next
    case False
    with 2 show ?thesis by (auto split: if_splits)
  qed
qed

lemma find_sub_prefix [str_simps]: "p \<noteq> [] \<Longrightarrow> find_sub p (p @ s) = Some 0"
  by (cases p) auto

definition split_once :: "string \<Rightarrow> string \<Rightarrow> (string \<times> string) option" where
  "split_once p s =
     map_option (\<lambda>i. (take i s, drop (i + length p) s)) (find_sub p s)"

text \<open>\<open>str::rsplit_once(c)\<close>: at the last occurrence of the character.\<close>

definition rsplit_once :: "char \<Rightarrow> string \<Rightarrow> (string \<times> string) option" where
  "rsplit_once c s =
     (if c \<in> set s
      then Some (rev (tl (dropWhile (\<lambda>x. x \<noteq> c) (rev s))), rev (takeWhile (\<lambda>x. x \<noteq> c) (rev s)))
      else None)"

definition is_space :: "char \<Rightarrow> bool" where
  "is_space c \<longleftrightarrow> c \<in> {CHR 0x20, CHR 0x09, CHR 0x0A, CHR 0x0B, CHR 0x0C, CHR 0x0D}"

definition trim_str :: "string \<Rightarrow> string" where
  "trim_str s = rev (dropWhile is_space (rev (dropWhile is_space s)))"

lemma trim_str_id:
  assumes "s = [] \<or> \<not> is_space (hd s) \<and> \<not> is_space (last s)"
  shows "trim_str s = s"
proof -
  have "dropWhile is_space s = s" "dropWhile is_space (rev s) = rev s"
    using assms by (auto simp: dropWhile_eq_self_iff hd_rev)
  then show ?thesis by (simp add: trim_str_def)
qed

lemma trim_str_Nil [simp]: "trim_str [] = []"
  by (simp add: trim_str_def)

definition starts_with :: "string \<Rightarrow> string \<Rightarrow> bool" where
  "starts_with p s \<longleftrightarrow> take (length p) s = p"

lemma rsplit_once_Some:
  assumes "rsplit_once c s = Some (a, b)"
  shows "s = a @ c # b \<and> c \<notin> set b"
proof -
  from assms have mem: "c \<in> set (rev s)"
    and a: "a = rev (tl (dropWhile (\<lambda>x. x \<noteq> c) (rev s)))"
    and b: "b = rev (takeWhile (\<lambda>x. x \<noteq> c) (rev s))"
    by (auto simp: rsplit_once_def split: if_splits)
  from mem have ne: "dropWhile (\<lambda>x. x \<noteq> c) (rev s) \<noteq> []"
    by (metis (mono_tags, lifting) dropWhile_eq_Nil_conv)
  have "hd (dropWhile (\<lambda>x. x \<noteq> c) (rev s)) = c"
    using hd_dropWhile[OF ne] by simp
  with ne have "dropWhile (\<lambda>x. x \<noteq> c) (rev s) = c # rev a"
    unfolding a by (metis hd_Cons_tl rev_rev_ident)
  then have "rev s = rev b @ c # rev a"
    unfolding b by (metis rev_rev_ident takeWhile_dropWhile_id)
  then have "s = a @ c # b"
    by (metis append.assoc append_Cons append_Nil rev_append rev_rev_ident rev_singleton_conv
        rev.simps(2))
  moreover have "c \<notin> set b"
    unfolding b by (auto dest: set_takeWhileD)
  ultimately show ?thesis by simp
qed

lemma split_once_Some:
  assumes "split_once p s = Some (a, b)"
  shows "s = a @ p @ b"
proof -
  from assms obtain i where i: "find_sub p s = Some i" and a: "a = take i s"
    and b: "b = drop (i + length p) s"
    by (auto simp: split_once_def)
  from find_sub_Some[OF i] have "take (length p) (drop i s) = p" by simp
  then have "drop i s = p @ b"
    unfolding b by (metis add.commute append_take_drop_id drop_drop)
  then show ?thesis unfolding a by (metis append_take_drop_id)
qed

definition strip_prefix :: "string \<Rightarrow> string \<Rightarrow> string option" where
  "strip_prefix p s = (if starts_with p s then Some (drop (length p) s) else None)"

text \<open>\<open>[str]::join\<close>.\<close>

fun join_with :: "string \<Rightarrow> string list \<Rightarrow> string" where
  "join_with sep [] = []"
| "join_with sep [x] = x"
| "join_with sep (x # y # ys) = x @ sep @ join_with sep (y # ys)"

definition ends_with :: "string \<Rightarrow> string \<Rightarrow> bool" where
  "ends_with p s \<longleftrightarrow> starts_with (rev p) (rev s)"

definition strip_suffix :: "string \<Rightarrow> string \<Rightarrow> string option" where
  "strip_suffix p s = (if ends_with p s then Some (take (length s - length p) s) else None)"

lemma starts_with_iff: "starts_with p s \<longleftrightarrow> (\<exists>r. s = p @ r)"
  unfolding starts_with_def by (metis append_eq_conv_conj append_take_drop_id)

lemma ends_with_iff: "ends_with p s \<longleftrightarrow> (\<exists>r. s = r @ p)"
proof
  assume "ends_with p s"
  then obtain r where "rev s = rev p @ r" by (auto simp: ends_with_def starts_with_iff)
  then have "s = rev r @ p" by (metis rev_append rev_rev_ident)
  then show "\<exists>r. s = r @ p" by blast
next
  assume "\<exists>r. s = r @ p"
  then show "ends_with p s" by (auto simp: ends_with_def starts_with_def)
qed

definition is_ascii_digit :: "char \<Rightarrow> bool" where
  "is_ascii_digit c \<longleftrightarrow> 48 \<le> (of_char c :: nat) \<and> (of_char c :: nat) \<le> 57"

definition is_ascii_upper :: "char \<Rightarrow> bool" where
  "is_ascii_upper c \<longleftrightarrow> 65 \<le> (of_char c :: nat) \<and> (of_char c :: nat) \<le> 90"

definition is_ascii_lower :: "char \<Rightarrow> bool" where
  "is_ascii_lower c \<longleftrightarrow> 97 \<le> (of_char c :: nat) \<and> (of_char c :: nat) \<le> 122"

definition is_ascii_alphanumeric :: "char \<Rightarrow> bool" where
  "is_ascii_alphanumeric c \<longleftrightarrow> is_ascii_digit c \<or> is_ascii_upper c \<or> is_ascii_lower c"

definition to_ascii_lower_char :: "char \<Rightarrow> char" where
  "to_ascii_lower_char c = (if is_ascii_upper c then char_of ((of_char c :: nat) + 32) else c)"

definition to_ascii_lowercase :: "string \<Rightarrow> string" where
  "to_ascii_lowercase = map to_ascii_lower_char"

definition eq_ignore_ascii_case :: "string \<Rightarrow> string \<Rightarrow> bool" where
  "eq_ignore_ascii_case a b \<longleftrightarrow> to_ascii_lowercase a = to_ascii_lowercase b"

section \<open>Decimal integers\<close>

text \<open>
  \<open>to_string\<close> and \<open>parse\<close> of Rust's integers: no leading zero is
  printed; parsing takes an optional sign (a minus only for signed types), at
  least one digit and nothing else, and fails outside the range of the type.
\<close>

definition digit_char :: "nat \<Rightarrow> char" where
  "digit_char d = char_of (48 + d)"

definition char_digit :: "char \<Rightarrow> nat option" where
  "char_digit c = (if is_ascii_digit c then Some ((of_char c :: nat) - 48) else None)"

lemma of_char_digit_char: "d < 10 \<Longrightarrow> (of_char (digit_char d) :: nat) = 48 + d"
  by (simp add: digit_char_def)

lemma char_digit_digit_char [simp]: "d < 10 \<Longrightarrow> char_digit (digit_char d) = Some d"
  by (simp add: char_digit_def is_ascii_digit_def of_char_digit_char)

lemma is_ascii_digit_digit_char [simp]: "d < 10 \<Longrightarrow> is_ascii_digit (digit_char d)"
  by (simp add: is_ascii_digit_def of_char_digit_char)

fun nat_to_string :: "nat \<Rightarrow> string" where
  "nat_to_string n =
     (if n < 10 then [digit_char n] else nat_to_string (n div 10) @ [digit_char (n mod 10)])"

declare nat_to_string.simps [simp del]

fun digits_value :: "nat \<Rightarrow> string \<Rightarrow> nat option" where
  "digits_value acc [] = Some acc"
| "digits_value acc (c # cs) =
     (case char_digit c of None \<Rightarrow> None | Some d \<Rightarrow> digits_value (acc * 10 + d) cs)"

lemma digits_value_append:
  "digits_value acc (a @ b) = Option.bind (digits_value acc a) (\<lambda>v. digits_value v b)"
  by (induction a arbitrary: acc) (auto split: option.splits)

lemma digits_value_nat_to_string: "digits_value 0 (nat_to_string n) = Some n"
proof (induction n rule: nat_to_string.induct)
  case (1 n)
  show ?case
  proof (cases "n < 10")
    case True
    then show ?thesis by (subst nat_to_string.simps) simp
  next
    case False
    with 1 have "digits_value 0 (nat_to_string (n div 10)) = Some (n div 10)" by simp
    with False show ?thesis
      by (subst nat_to_string.simps) (simp add: digits_value_append)
  qed
qed

lemma nat_to_string_digits: "c \<in> set (nat_to_string n) \<Longrightarrow> is_ascii_digit c"
proof (induction n rule: nat_to_string.induct)
  case (1 n)
  then show ?case
    by (cases "n < 10") (auto simp: nat_to_string.simps [of n])
qed

lemma nat_to_string_not_Nil [simp]: "nat_to_string n \<noteq> []"
  by (subst nat_to_string.simps) simp

lemma non_digits [simp]:
  "\<not> is_ascii_digit (CHR ''+'')" "\<not> is_ascii_digit (CHR ''-'')"
  "\<not> is_ascii_digit (CHR ''.'')" "\<not> is_ascii_digit (CHR '':'')"
  by (simp_all add: is_ascii_digit_def)

lemma nat_to_string_no_mark [simp]:
  "CHR ''.'' \<notin> set (nat_to_string n)" "CHR ''-'' \<notin> set (nat_to_string n)"
  "CHR ''+'' \<notin> set (nat_to_string n)" "CHR '':'' \<notin> set (nat_to_string n)"
  using nat_to_string_digits non_digits by blast+

definition strip_plus :: "string \<Rightarrow> string" where
  "strip_plus s = (case s of [] \<Rightarrow> [] | c # cs \<Rightarrow> if c = CHR ''+'' then cs else s)"

definition parse_nat_str :: "string \<Rightarrow> nat option" where
  "parse_nat_str s = (let ds = strip_plus s in if ds = [] then None else digits_value 0 ds)"

definition parse_word :: "string \<Rightarrow> 'a::len word option" where
  "parse_word s =
     (case parse_nat_str s of
        None \<Rightarrow> None
      | Some n \<Rightarrow> if n < 2 ^ LENGTH('a) then Some (word_of_nat n) else None)"

definition print_word :: "'a::len word \<Rightarrow> string" where
  "print_word w = nat_to_string (unat w)"

lemma strip_plus_nat_to_string [simp]: "strip_plus (nat_to_string n) = nat_to_string n"
proof -
  have "hd (nat_to_string n) \<noteq> CHR ''+''"
    by (metis hd_in_set nat_to_string_no_mark(3) nat_to_string_not_Nil)
  then show ?thesis by (auto simp: strip_plus_def split: list.splits)
qed

lemma parse_nat_str_print [simp, codec_simps]: "parse_nat_str (nat_to_string n) = Some n"
  by (simp add: parse_nat_str_def digits_value_nat_to_string)

lemma parse_word_print [simp, codec_simps]:
  "parse_word (print_word w) = Some (w :: 'a::len word)"
  by (simp add: parse_word_def print_word_def)

text \<open>Signed 32-bit integers, as \<open>int\<close> with the range written out.\<close>

definition in_i32 :: "int \<Rightarrow> bool" where
  "in_i32 v \<longleftrightarrow> - (2 ^ 31) \<le> v \<and> v < 2 ^ 31"

definition int_to_string :: "int \<Rightarrow> string" where
  "int_to_string v = (if v < 0 then CHR ''-'' # nat_to_string (nat (- v)) else nat_to_string (nat v))"

definition parse_i32 :: "string \<Rightarrow> int option" where
  "parse_i32 s =
     (let v = (case s of
                 [] \<Rightarrow> None
               | c # cs \<Rightarrow>
                   if c = CHR ''-'' then
                     (if cs = [] then None else map_option (\<lambda>n. - int n) (digits_value 0 cs))
                   else map_option int (parse_nat_str s))
      in case v of None \<Rightarrow> None | Some x \<Rightarrow> if in_i32 x then Some x else None)"

lemma parse_i32_print [codec_simps]:
  assumes "in_i32 v"
  shows "parse_i32 (int_to_string v) = Some v"
proof (cases "v < 0")
  case True
  with assms show ?thesis
    by (simp add: parse_i32_def int_to_string_def digits_value_nat_to_string)
next
  case False
  then obtain c cs where s: "nat_to_string (nat v) = c # cs" and "c \<noteq> CHR ''-''"
    by (metis list.exhaust list.set_intros(1) nat_to_string_no_mark(2) nat_to_string_not_Nil)
  moreover have "parse_nat_str (c # cs) = Some (nat v)"
    by (simp flip: s)
  ultimately show ?thesis
    using assms False by (simp add: parse_i32_def int_to_string_def)
qed

lemma int_to_string_inj: "in_i32 i \<Longrightarrow> in_i32 j \<Longrightarrow> int_to_string i = int_to_string j \<longleftrightarrow> i = j"
  by (metis parse_i32_print option.inject)

section \<open>Debug quoting\<close>

text \<open>The \<open>{:?}\<close> form of a string: quotes around it, and escapes for the
  quote, the backslash and the ASCII control characters.\<close>

definition hex_char :: "nat \<Rightarrow> char" where
  "hex_char d = (if d < 10 then digit_char d else char_of (87 + d))"

definition debug_char :: "char \<Rightarrow> string" where
  "debug_char c =
     (let n = (of_char c :: nat) in
      if n = 0 then [CHR 0x5C, CHR ''0'']
      else if n = 9 then [CHR 0x5C, CHR ''t'']
      else if n = 10 then [CHR 0x5C, CHR ''n'']
      else if n = 13 then [CHR 0x5C, CHR ''r'']
      else if n = 34 \<or> n = 92 then [CHR 0x5C, c]
      else if n < 16 then [CHR 0x5C, CHR ''u'', CHR ''{'', hex_char n, CHR ''}'']
      else if n < 32 \<or> n = 127
        then [CHR 0x5C, CHR ''u'', CHR ''{'', hex_char (n div 16), hex_char (n mod 16), CHR ''}'']
      else [c])"

definition debug_str :: "string \<Rightarrow> string" where
  "debug_str s = [CHR 0x22] @ concat (map debug_char s) @ [CHR 0x22]"

section \<open>UTF-8\<close>

text \<open>
  \<open>String::from_utf8\<close> on a byte sequence: \<open>None\<close> when it is valid, else
  where the first invalid sequence starts and its length (\<open>None\<close> when the
  input ends inside a sequence).
\<close>

definition cont_byte :: "nat \<Rightarrow> bool" where
  "cont_byte b \<longleftrightarrow> 128 \<le> b \<and> b \<le> 191"

definition utf8_second :: "nat \<Rightarrow> nat \<Rightarrow> bool" where
  "utf8_second b0 b1 \<longleftrightarrow>
     (if b0 = 224 then 160 \<le> b1 \<and> b1 \<le> 191
      else if b0 = 237 then 128 \<le> b1 \<and> b1 \<le> 159
      else if b0 = 240 then 144 \<le> b1 \<and> b1 \<le> 191
      else if b0 = 244 then 128 \<le> b1 \<and> b1 \<le> 143
      else cont_byte b1)"

definition utf8_width :: "nat \<Rightarrow> nat" where
  "utf8_width b =
     (if b < 128 then 1 else if 194 \<le> b \<and> b \<le> 223 then 2
      else if 224 \<le> b \<and> b \<le> 239 then 3 else if 240 \<le> b \<and> b \<le> 244 then 4 else 0)"

definition utf8_head :: "nat list \<Rightarrow> nat + nat option" where
  "utf8_head bs =
     (case bs of
        [] \<Rightarrow> Inl 0
      | b # r \<Rightarrow>
          (let w = utf8_width b in
           if w = 0 then Inr (Some 1)
           else if w = 1 then Inl 1
           else case r of
                  [] \<Rightarrow> Inr None
                | c # r1 \<Rightarrow>
                    if \<not> utf8_second b c then Inr (Some 1)
                    else if w = 2 then Inl 2
                    else case r1 of
                           [] \<Rightarrow> Inr None
                         | d # r2 \<Rightarrow>
                             if \<not> cont_byte d then Inr (Some 2)
                             else if w = 3 then Inl 3
                             else case r2 of
                                    [] \<Rightarrow> Inr None
                                  | e # _ \<Rightarrow> if cont_byte e then Inl 4 else Inr (Some 3)))"

fun utf8_check :: "nat \<Rightarrow> nat list \<Rightarrow> (nat \<times> nat option) option" where
  "utf8_check pos [] = None"
| "utf8_check pos (b # r) =
     (case utf8_head (b # r) of
        Inr e \<Rightarrow> Some (pos, e)
      | Inl n \<Rightarrow> utf8_check (pos + n) (drop (n - 1) r))"

definition utf8_error :: "string \<Rightarrow> (nat \<times> nat option) option" where
  "utf8_error s = utf8_check 0 (map of_char s)"

definition utf8_error_text :: "nat \<times> nat option \<Rightarrow> string" where
  "utf8_error_text e =
     (case snd e of
        Some n \<Rightarrow> ''invalid utf-8 sequence of '' @ nat_to_string n @ '' bytes from index ''
                  @ nat_to_string (fst e)
      | None \<Rightarrow> ''incomplete utf-8 byte sequence from index '' @ nat_to_string (fst e))"

definition from_utf8 :: "string \<Rightarrow> string + string" where
  "from_utf8 s = (case utf8_error s of None \<Rightarrow> Inr s | Some e \<Rightarrow> Inl (utf8_error_text e))"

lemma utf8_check_ascii: "\<forall>b \<in> set bs. b < 128 \<Longrightarrow> utf8_check pos bs = None"
proof (induction bs arbitrary: pos)
  case (Cons b r)
  then have "utf8_head (b # r) = Inl 1"
    by (simp add: utf8_head_def utf8_width_def)
  with Cons show ?case by simp
qed simp

lemma from_utf8_Inr: "from_utf8 s = Inr t \<Longrightarrow> t = s"
  by (auto simp: from_utf8_def split: option.splits)

section \<open>Evaluating concrete strings\<close>

lemma digit_char_eval:
  "digit_char 0 = CHR ''0''" "digit_char 1 = CHR ''1''" "digit_char (Suc 0) = CHR ''1''"
  "digit_char 2 = CHR ''2''" "digit_char 3 = CHR ''3''" "digit_char 4 = CHR ''4''"
  "digit_char 5 = CHR ''5''" "digit_char 6 = CHR ''6''" "digit_char 7 = CHR ''7''"
  "digit_char 8 = CHR ''8''" "digit_char 9 = CHR ''9''"
  by (simp_all add: digit_char_def char_of_def bit_0)

lemmas eval_simps =
  trim_str_def is_space_def strip_plus_def parse_nat_str_def parse_word_def print_word_def
  char_digit_def is_ascii_digit_def digit_char_eval nat_to_string.simps

end
