(* ===== verification/Ordered_Map.thy ===== *)
theory Ordered_Map
  imports Operator_Prelude
begin

text \<open>
  \<open>BTreeMap<String, _>\<close> as the association list its iterator yields: keys in
  strictly increasing order. The operator reads such maps (labels, annotations,
  Secret data, topic configuration) by key and iterates over them in order, so
  both views matter. \<open>key_store\<close> is the interface the components rely on; the
  interpretation at the end shows that these lists provide it.
\<close>

type_synonym ('k, 'v) bmap = "('k \<times> 'v) list"

definition bm_ok :: "('k::linorder, 'v) bmap \<Rightarrow> bool" where
  "bm_ok m \<longleftrightarrow> sorted_wrt (<) (map fst m)"

abbreviation bm_get :: "('k, 'v) bmap \<Rightarrow> 'k \<Rightarrow> 'v option" where
  "bm_get \<equiv> map_of"

fun bm_insert :: "'k::linorder \<Rightarrow> 'v \<Rightarrow> ('k, 'v) bmap \<Rightarrow> ('k, 'v) bmap" where
  "bm_insert k v [] = [(k, v)]"
| "bm_insert k v ((a, b) # m) =
     (if k < a then (k, v) # (a, b) # m
      else if k = a then (k, v) # m
      else (a, b) # bm_insert k v m)"

definition bm_remove :: "'k \<Rightarrow> ('k, 'v) bmap \<Rightarrow> ('k, 'v) bmap" where
  "bm_remove k m = filter (\<lambda>p. fst p \<noteq> k) m"

definition bm_collect :: "('k::linorder \<times> 'v) list \<Rightarrow> ('k, 'v) bmap" where
  "bm_collect kvs = foldl (\<lambda>m (k, v). bm_insert k v m) [] kvs"

lemma bm_get_insert [simp]: "bm_get (bm_insert k v m) = (bm_get m)(k \<mapsto> v)"
  by (induction k v m rule: bm_insert.induct) (auto simp: fun_eq_iff)

lemma keys_bm_insert [simp]: "set (map fst (bm_insert k v m)) = insert k (set (map fst m))"
  by (induction k v m rule: bm_insert.induct) auto

lemma bm_ok_Nil [simp]: "bm_ok []"
  by (simp add: bm_ok_def)

lemma bm_ok_Cons:
  "bm_ok ((k, v) # m) \<longleftrightarrow> (\<forall>k' \<in> set (map fst m). k < k') \<and> bm_ok m"
  by (auto simp: bm_ok_def)

lemma bm_ok_insert [simp]: "bm_ok m \<Longrightarrow> bm_ok (bm_insert k v m)"
proof (induction k v m rule: bm_insert.induct)
  case (2 k v a b m)
  then show ?case
    using keys_bm_insert[of k v m] by (auto simp: bm_ok_Cons less_imp_not_less)
qed (simp add: bm_ok_def)

lemma bm_ok_filter [simp]: "bm_ok m \<Longrightarrow> bm_ok (filter P m)"
  by (induction m) (auto simp: bm_ok_def)

lemma bm_ok_remove [simp]: "bm_ok m \<Longrightarrow> bm_ok (bm_remove k m)"
  by (simp add: bm_remove_def)

lemma bm_get_remove [simp]: "bm_get (bm_remove k m) = (bm_get m)(k := None)"
  by (induction m) (auto simp: bm_remove_def fun_eq_iff)

lemma bm_ok_distinct: "bm_ok m \<Longrightarrow> distinct (map fst m)"
  unfolding bm_ok_def by (rule strict_sorted_iff [THEN iffD1, THEN conjunct2])

lemma bm_ok_keys_eq:
  assumes "bm_ok m" "bm_ok m'" "set (map fst m) = set (map fst m')"
  shows "map fst m = map fst m'"
  using assms unfolding bm_ok_def by (intro strict_sorted_equal) auto

lemma list_of_keys:
  assumes "distinct (map fst m)"
  shows "m = map (\<lambda>k. (k, the (bm_get m k))) (map fst m)"
proof -
  have "map (\<lambda>p. (fst p, the (bm_get m (fst p)))) m = m"
    using assms by (intro map_idI) auto
  then show ?thesis by (simp add: comp_def)
qed

text \<open>Two ordered maps that answer every lookup alike are the same list.\<close>

lemma bm_ext:
  assumes "bm_ok m" "bm_ok m'" "bm_get m = bm_get m'"
  shows "m = m'"
proof -
  have "set (map fst m) = set (map fst m')"
    using assms(3) dom_map_of_conv_image_fst[of m] dom_map_of_conv_image_fst[of m'] by simp
  then have keys: "map fst m = map fst m'"
    using assms(1,2) by (rule bm_ok_keys_eq [rotated 2])
  have "m = map (\<lambda>k. (k, the (bm_get m k))) (map fst m)"
    using assms(1) by (intro list_of_keys bm_ok_distinct)
  also have "\<dots> = map (\<lambda>k. (k, the (bm_get m' k))) (map fst m')"
    by (simp only: keys assms(3))
  also have "\<dots> = m'"
    using assms(2) by (intro list_of_keys [symmetric] bm_ok_distinct)
  finally show ?thesis .
qed

lemma bm_ok_collect_from:
  "bm_ok m \<Longrightarrow> bm_ok (foldl (\<lambda>m (k, v). bm_insert k v m) m kvs)"
  by (induction kvs arbitrary: m) auto

lemma bm_ok_collect [simp]: "bm_ok (bm_collect kvs)"
  by (simp add: bm_collect_def bm_ok_collect_from)

lemma bm_get_collect_from:
  "bm_get (foldl (\<lambda>m (k, v). bm_insert k v m) m kvs) = bm_get m ++ map_of (rev kvs)"
  by (induction kvs arbitrary: m) auto

lemma bm_get_collect: "bm_get (bm_collect kvs) = map_of (rev kvs)"
  by (simp add: bm_collect_def bm_get_collect_from)

section \<open>The interface of a key-indexed store\<close>

locale key_store =
  fixes empty :: "'m"
    and get :: "'m \<Rightarrow> 'k \<Rightarrow> 'v option"
    and put :: "'k \<Rightarrow> 'v \<Rightarrow> 'm \<Rightarrow> 'm"
    and del :: "'k \<Rightarrow> 'm \<Rightarrow> 'm"
    and ok :: "'m \<Rightarrow> bool"
  assumes get_empty: "get empty = Map.empty"
    and get_put: "ok m \<Longrightarrow> get (put k v m) = (get m)(k \<mapsto> v)"
    and get_del: "ok m \<Longrightarrow> get (del k m) = (get m)(k := None)"
    and ok_empty: "ok empty"
    and ok_put: "ok m \<Longrightarrow> ok (put k v m)"
    and ok_del: "ok m \<Longrightarrow> ok (del k m)"
    and ext: "ok m \<Longrightarrow> ok m' \<Longrightarrow> get m = get m' \<Longrightarrow> m = m'"
begin

lemma put_put_same: "ok m \<Longrightarrow> put k v (put k w m) = put k v m"
  by (rule ext) (simp_all add: ok_put get_put)

lemma put_put_other: "ok m \<Longrightarrow> k \<noteq> l \<Longrightarrow> put k v (put l w m) = put l w (put k v m)"
  by (rule ext) (simp_all add: ok_put get_put fun_upd_twist)

lemma del_put: "ok m \<Longrightarrow> get m k = None \<Longrightarrow> del k (put k v m) = m"
  by (rule ext) (auto simp: ok_put ok_del get_put get_del)

lemma del_absent: "ok m \<Longrightarrow> get m k = None \<Longrightarrow> del k m = m"
  by (rule ext) (auto simp: ok_del get_del)

lemma put_id: "ok m \<Longrightarrow> get m k = Some v \<Longrightarrow> put k v m = m"
  by (rule ext) (auto simp: ok_put get_put)

end

interpretation bm: key_store "[]" bm_get bm_insert bm_remove "bm_ok :: ('k::linorder, 'v) bmap \<Rightarrow> bool"
  by unfold_locales (auto intro: bm_ext)

end
