(* ===== verification/Interfaces.thy ===== *)
theory Interfaces
  imports Ordered_Map
begin

text \<open>
  The contracts that several controllers share: a textual encoding that can be
  read back (phases, states and generations stored in annotations and
  conditions), a desired-state synchroniser (a diff whose operations bring the
  observed state to the desired one), and a machine whose invariant every step
  keeps. Each is a locale whose consequences are proved once; the component
  theories interpret it on their own definitions.
\<close>

section \<open>Values stored as text\<close>

locale text_codec =
  fixes print :: "'a \<Rightarrow> string"
    and parse :: "string \<Rightarrow> 'a option"
  assumes parse_print: "parse (print x) = Some x"
begin

lemma print_inj: "print x = print y \<longleftrightarrow> x = y"
  using parse_print by (metis option.inject)

lemma print_eq_parse: "print x = s \<Longrightarrow> parse s = Some x"
  using parse_print by auto

lemma parse_get_print: "get k = Some (print x) \<Longrightarrow> Option.bind (get k) parse = Some x"
  by (simp add: parse_print)

end

interpretation u64_text: text_codec "print_word :: u64 \<Rightarrow> string" parse_word
  by unfold_locales simp

interpretation u32_text: text_codec "print_word :: u32 \<Rightarrow> string" parse_word
  by unfold_locales simp

section \<open>Synchronising an observed state with a desired one\<close>

locale state_sync =
  fixes diff :: "'s \<Rightarrow> 's \<Rightarrow> 'op list"
    and exec :: "'op \<Rightarrow> 's \<Rightarrow> 's"
    and ok :: "'s \<Rightarrow> bool"
  assumes diff_same: "ok s \<Longrightarrow> diff s s = []"
    and exec_diff: "ok cur \<Longrightarrow> ok des \<Longrightarrow> fold exec (diff cur des) cur = des"
begin

lemma converges: "ok cur \<Longrightarrow> ok des \<Longrightarrow> diff (fold exec (diff cur des) cur) des = []"
  by (simp add: exec_diff diff_same)

lemma diff_empty_iff: "ok cur \<Longrightarrow> ok des \<Longrightarrow> diff cur des = [] \<longleftrightarrow> cur = des"
  using exec_diff diff_same by fastforce

end

section \<open>Machines and invariants\<close>

inductive reach :: "('s \<Rightarrow> bool) \<Rightarrow> ('s \<Rightarrow> 's \<Rightarrow> bool) \<Rightarrow> 's \<Rightarrow> bool"
  for init :: "'s \<Rightarrow> bool" and step :: "'s \<Rightarrow> 's \<Rightarrow> bool" where
  reach_init: "init s \<Longrightarrow> reach init step s"
| reach_step: "reach init step s \<Longrightarrow> step s t \<Longrightarrow> reach init step t"

locale invariant_machine =
  fixes init :: "'s \<Rightarrow> bool"
    and step :: "'s \<Rightarrow> 's \<Rightarrow> bool"
    and inv :: "'s \<Rightarrow> bool"
  assumes inv_init: "init s \<Longrightarrow> inv s"
    and inv_step: "inv s \<Longrightarrow> step s t \<Longrightarrow> inv t"
begin

lemma reach_inv: "reach init step s \<Longrightarrow> inv s"
  by (induction rule: reach.induct) (auto intro: inv_init inv_step)

lemma steps_inv: "step\<^sup>*\<^sup>* s t \<Longrightarrow> inv s \<Longrightarrow> inv t"
  by (induction rule: rtranclp_induct) (auto intro: inv_step)

end

end
