(* ===== verification/Kafka_Version.thy ===== *)
theory Kafka_Version
  imports Interfaces
begin

text \<open>
  \<open>version.rs\<close>: the version model and the gate that decides whether the
  declared binary version and metadata version of a \<open>Kafka\<close> may be rolled
  out. The table of metadata versions belongs to the \<open>krabka_metadata\<close> crate,
  so it is the argument \<open>levels\<close> of the gate.
\<close>

section \<open>Data\<close>

datatype kafka_version = KafkaVersion (major: u32) (minor: u32) (patch: u32)

instantiation kafka_version :: linorder
begin

definition less_eq_kafka_version :: "kafka_version \<Rightarrow> kafka_version \<Rightarrow> bool" where
  "less_eq_kafka_version a b \<longleftrightarrow> (major a, minor a, patch a) \<le> (major b, minor b, patch b)"

definition less_kafka_version :: "kafka_version \<Rightarrow> kafka_version \<Rightarrow> bool" where
  "less_kafka_version a b \<longleftrightarrow> (major a, minor a, patch a) < (major b, minor b, patch b)"

instance
  by standard
    (auto simp: less_eq_kafka_version_def less_kafka_version_def kafka_version.expand)

end

datatype version_error = VersionError string

datatype version_reason = InvalidVersion | MetadataVersionTooHigh | MetadataVersionTooLow

datatype version_outcome =
    ValidVersion (resolved_metadata: string)
  | InvalidVersionOutcome (version_reason: version_reason) (version_message: string)

text \<open>What the gate asks of the metadata-version table: the feature level of
  a release, the oldest level a broker starts with, and the oldest level an
  online downgrade may reach.\<close>

record metadata_levels =
  from_version_string :: "string \<Rightarrow> int option"
  metadata_version_min :: int
  online_downgrade_min_level :: int

section \<open>Parsing and printing\<close>

definition parse_component :: "string option \<Rightarrow> string \<Rightarrow> version_error + u32" where
  "parse_component c original =
     ok_or (VersionError original) (Option.bind c parse_word)"

definition parse_optional_component ::
  "string list \<Rightarrow> nat \<Rightarrow> string \<Rightarrow> version_error + u32" where
  "parse_optional_component parts i original =
     (if i < length parts then parse_component (Some (parts ! i)) original else Inr 0)"

definition parse_version :: "string \<Rightarrow> version_error + kafka_version" where
  "parse_version s =
     (let trimmed = trim_str s in
      if trimmed = [] then Inl (VersionError s)
      else
        let core = hd (split_on (CHR ''-'') trimmed);
            parts = split_on (CHR ''.'') core
        in bind_result (parse_component (Some (hd parts)) s) (\<lambda>maj.
           bind_result (parse_optional_component parts 1 s) (\<lambda>min.
           bind_result (parse_optional_component parts 2 s) (\<lambda>pat.
           if 3 < length parts then Inl (VersionError s)
           else Inr (KafkaVersion maj min pat)))))"

definition metadata_key :: "kafka_version \<Rightarrow> u32 \<times> u32" where
  "metadata_key v = (major v, minor v)"

definition short :: "kafka_version \<Rightarrow> string" where
  "short v = print_word (major v) @ ''.'' @ print_word (minor v)"

definition version_reason_str :: "version_reason \<Rightarrow> string" where
  "version_reason_str r =
     (case r of
        InvalidVersion \<Rightarrow> ''InvalidVersion''
      | MetadataVersionTooHigh \<Rightarrow> ''MetadataVersionTooHigh''
      | MetadataVersionTooLow \<Rightarrow> ''MetadataVersionTooLow'')"

section \<open>The gate\<close>

definition resolve_version :: "kafka_version \<Rightarrow> string option \<Rightarrow> version_outcome + kafka_version" where
  "resolve_version binary spec_metadata_version =
     (case spec_metadata_version of
        None \<Rightarrow> Inr binary
      | Some raw \<Rightarrow>
          (case parse_version raw of
             Inl _ \<Rightarrow> Inl (InvalidVersionOutcome InvalidVersion
                       (''spec.metadataVersion '' @ debug_str raw @ '' is not a valid version''))
           | Inr v \<Rightarrow> Inr v))"

definition evaluate ::
  "metadata_levels \<Rightarrow> string \<Rightarrow> string option \<Rightarrow> string option \<Rightarrow> version_outcome" where
  "evaluate levels kafka_version spec_metadata_version finalized_metadata_version =
     (case parse_version kafka_version of
        Inl _ \<Rightarrow> InvalidVersionOutcome InvalidVersion
                  (''spec.kafkaVersion '' @ debug_str kafka_version @ '' is not a valid version'')
      | Inr binary \<Rightarrow>
     (case resolve_version binary spec_metadata_version of
        Inl outcome \<Rightarrow> outcome
      | Inr resolved \<Rightarrow>
      if metadata_key resolved > metadata_key binary then
        InvalidVersionOutcome MetadataVersionTooHigh
          (''metadata.version '' @ short resolved @ '' is newer than kafkaVersion ''
           @ short binary @ ''; upgrade the binary first'')
      else
     (case from_version_string levels (short resolved) of
        None \<Rightarrow> InvalidVersionOutcome MetadataVersionTooLow
                  (''metadata.version '' @ short resolved @ '' is not a supported level'')
      | Some level \<Rightarrow>
      if level < metadata_version_min levels then
        InvalidVersionOutcome MetadataVersionTooLow
          (''metadata.version '' @ short resolved
           @ '' is below the broker's supported floor (3.3-IV3)'')
      else
        let finalized = Option.bind finalized_metadata_version (\<lambda>v. result_ok (parse_version v)) in
        if (case finalized of None \<Rightarrow> False | Some f \<Rightarrow> metadata_key resolved < metadata_key f)
           \<and> level < online_downgrade_min_level levels then
          InvalidVersionOutcome MetadataVersionTooLow
            (''online metadata.version downgrade to '' @ short resolved
             @ '' is below the supported floor (3.7-IV0)'')
        else ValidVersion (short resolved))))"

section \<open>Round trips\<close>

lemma print_word_plain [simp]:
  "CHR ''.'' \<notin> set (print_word w)" "CHR ''-'' \<notin> set (print_word w)" "print_word w \<noteq> []"
  by (simp_all add: print_word_def)

lemma digit_not_space: "is_ascii_digit c \<Longrightarrow> \<not> is_space c"
  by (auto simp: is_ascii_digit_def is_space_def)

lemma trim_digits_ends:
  assumes "a \<noteq> []" "\<forall>c \<in> set a. is_ascii_digit c" "b \<noteq> []" "\<forall>c \<in> set b. is_ascii_digit c"
  shows "trim_str (a @ m @ b) = a @ m @ b"
  using assms by (intro trim_str_id) (auto intro!: digit_not_space)

lemma print_word_digits: "\<forall>c \<in> set (print_word w). is_ascii_digit c"
  by (auto simp: print_word_def dest: nat_to_string_digits)

lemma trim_short [simp]: "trim_str (short v) = short v"
  unfolding short_def
  using trim_digits_ends [of "print_word (major v)" "print_word (minor v)" "''.''"]
    print_word_digits by auto

lemma parse_component_print [simp]: "parse_component (Some (print_word w)) s = Inr w"
  by (simp add: parse_component_def)

lemma parse_short: "parse_version (short v) = Inr (KafkaVersion (major v) (minor v) 0)"
proof -
  have "short v \<noteq> []" by (simp add: short_def)
  moreover have "split_on (CHR ''-'') (short v) = [short v]"
    by (rule split_on_plain) (simp add: short_def)
  moreover have "split_on (CHR ''.'') (short v) = [print_word (major v), print_word (minor v)]"
    by (simp add: short_def split_on_append)
  ultimately show ?thesis
    by (simp add: parse_version_def parse_optional_component_def)
qed

lemma parse_full:
  "parse_version (print_word a @ ''.'' @ print_word b @ ''.'' @ print_word c) =
     Inr (KafkaVersion a b c)" (is "parse_version ?s = _")
proof -
  have "trim_str ?s = ?s"
    using trim_digits_ends [of "print_word a" "print_word c" "''.'' @ print_word b @ ''.''"]
      print_word_digits by auto
  moreover have "split_on (CHR ''-'') ?s = [?s]"
    by (rule split_on_plain) simp
  moreover have "split_on (CHR ''.'') ?s = [print_word a, print_word b, print_word c]"
    by (simp add: split_on_append)
  ultimately show ?thesis
    by (simp add: parse_version_def parse_optional_component_def)
qed

lemma metadata_key_parse_short:
  "parse_version (short v) = Inr w \<Longrightarrow> metadata_key w = metadata_key v"
  by (auto simp: parse_short metadata_key_def)

lemma short_determines_key: "short v = short w \<longleftrightarrow> metadata_key v = metadata_key w"
proof
  assume "short v = short w"
  then have "Inr (KafkaVersion (major v) (minor v) 0) =
      (Inr (KafkaVersion (major w) (minor w) 0) :: version_error + kafka_version)"
    by (metis parse_short)
  then show "metadata_key v = metadata_key w" by (simp add: metadata_key_def)
qed (simp add: short_def metadata_key_def)

section \<open>What the gate guarantees\<close>

lemma resolve_version_parsed:
  "resolve_version binary sp = Inr v \<Longrightarrow>
     v = binary \<or> (\<exists>raw. sp = Some raw \<and> parse_version raw = Inr v)"
  by (auto simp: resolve_version_def split: option.splits sum.splits)

lemma resolve_version_Inl:
  "resolve_version binary sp = Inl out \<Longrightarrow> \<exists>m. out = InvalidVersionOutcome InvalidVersion m"
  by (auto simp: resolve_version_def split: option.splits sum.splits)

definition downgrade_allowed :: "metadata_levels \<Rightarrow> string option \<Rightarrow> kafka_version \<Rightarrow> int \<Rightarrow> bool" where
  "downgrade_allowed levels finalized resolved level \<longleftrightarrow>
     (\<forall>f fv. finalized = Some f \<longrightarrow> parse_version f = Inr fv \<longrightarrow>
        metadata_key resolved < metadata_key fv \<longrightarrow> online_downgrade_min_level levels \<le> level)"

lemma downgrade_allowed_iff:
  "downgrade_allowed levels fin resolved level \<longleftrightarrow>
     \<not> ((case Option.bind fin (\<lambda>v. result_ok (parse_version v)) of
           None \<Rightarrow> False | Some f \<Rightarrow> metadata_key resolved < metadata_key f)
        \<and> level < online_downgrade_min_level levels)"
proof (cases fin)
  case (Some f)
  then show ?thesis
    by (cases "parse_version f") (auto simp: downgrade_allowed_def)
qed (simp add: downgrade_allowed_def)

lemma evaluate_Valid:
  "evaluate levels kv sp fin = ValidVersion r \<longleftrightarrow>
     (\<exists>binary resolved level.
        parse_version kv = Inr binary \<and> resolve_version binary sp = Inr resolved \<and>
        metadata_key resolved \<le> metadata_key binary \<and>
        from_version_string levels (short resolved) = Some level \<and>
        metadata_version_min levels \<le> level \<and>
        downgrade_allowed levels fin resolved level \<and> r = short resolved)"
proof (cases "parse_version kv")
  case (Inl e)
  then show ?thesis by (simp add: evaluate_def)
next
  case (Inr binary)
  show ?thesis
  proof (cases "resolve_version binary sp")
    case (Inl out)
    with Inr resolve_version_Inl [OF Inl] show ?thesis by (auto simp: evaluate_def)
  next
    case (Inr resolved)
    with \<open>parse_version kv = Inr binary\<close> show ?thesis
      by (auto simp: evaluate_def downgrade_allowed_iff Let_def not_less split: option.splits)
  qed
qed


text \<open>the gate is stable. Once it accepted a cluster and the operator
  finalized the resolved metadata version, pinning that version is accepted
  again with the same result, whatever was finalized before.\<close>

theorem evaluate_stable:
  assumes "evaluate levels kv sp fin = ValidVersion r"
  shows "evaluate levels kv (Some r) (Some r) = ValidVersion r"
proof -
  from assms obtain binary resolved level where ok:
    "parse_version kv = Inr binary" "resolve_version binary sp = Inr resolved"
    "metadata_key resolved \<le> metadata_key binary"
    "from_version_string levels (short resolved) = Some level"
    "metadata_version_min levels \<le> level" "r = short resolved"
    using evaluate_Valid by blast
  define pinned where "pinned = KafkaVersion (major resolved) (minor resolved) 0"
  have "resolve_version binary (Some r) = Inr pinned"
    by (simp add: resolve_version_def ok parse_short pinned_def)
  moreover have "metadata_key pinned = metadata_key resolved" "short pinned = short resolved"
    by (simp_all add: pinned_def metadata_key_def short_def)
  moreover have "downgrade_allowed levels (Some r) pinned level"
    by (simp add: downgrade_allowed_def ok parse_short pinned_def metadata_key_def)
  ultimately show ?thesis using ok by (simp add: evaluate_Valid)
qed

text \<open>a version printed as \<open>major.minor.patch\<close> is parsed back to the same
  version, for every value of the three 32-bit components.\<close>

theorem version_roundtrip:
  "parse_version (print_word a @ ''.'' @ print_word b @ ''.'' @ print_word c) =
     Inr (KafkaVersion a b c)"
  by (rule parse_full)

section \<open>Witnesses\<close>

definition sample_levels :: metadata_levels where
  "sample_levels = \<lparr>
     from_version_string = (\<lambda>s. if s = ''3.3'' then Some 7 else if s = ''3.9'' then Some 21
                                else if s = ''4.0'' then Some 25 else None),
     metadata_version_min = 7, online_downgrade_min_level = 15\<rparr>"

lemma sample_evaluate: "evaluate sample_levels ''4.0.1'' None (Some ''3.9'') = ValidVersion ''4.0''"
  by (simp add: evaluate_def parse_version_def resolve_version_def parse_component_def
      parse_optional_component_def eval_simps sample_levels_def short_def metadata_key_def)


theorem evaluate_stable_witness:
  "evaluate sample_levels ''4.0.1'' (Some ''4.0'') (Some ''4.0'') = ValidVersion ''4.0''"
  by (rule evaluate_stable [OF sample_evaluate])

end
