(* ===== verification/Kube_Objects.thy ===== *)
theory Kube_Objects
  imports Interfaces
begin

text \<open>
  What the controllers share of Kubernetes: object metadata, Secrets, status
  conditions, the error type of a reconcile pass (\<open>controller/common.rs\<close>), the
  parent version gate, and computations that log the calls they make. A
  reconcile pass is modelled as a function from the object and an environment
  (what every outside call answers) to a result and the list of effects, in
  the order the code issues them.
\<close>

section \<open>Objects\<close>

record owner_reference =
  owner_api_version :: string
  owner_kind :: string
  owner_name :: string
  owner_uid :: string
  owner_controller :: bool
  owner_block_deletion :: bool

record object_meta =
  meta_name :: string
  meta_namespace :: "string option"
  meta_uid :: "string option"
  meta_generation :: "int option"
  meta_deletion_timestamp :: "string option"
  meta_labels :: "(string, string) bmap option"
  meta_annotations :: "(string, string) bmap option"
  meta_finalizers :: "string list option"
  meta_owner_references :: "owner_reference list"

definition plain_meta :: "string \<Rightarrow> object_meta" where
  "plain_meta n = \<lparr>meta_name = n, meta_namespace = None, meta_uid = None, meta_generation = None,
     meta_deletion_timestamp = None, meta_labels = None, meta_annotations = None,
     meta_finalizers = None, meta_owner_references = []\<rparr>"

definition meta_label :: "object_meta \<Rightarrow> string \<Rightarrow> string option" where
  "meta_label m k = Option.bind (meta_labels m) (\<lambda>l. bm_get l k)"

definition meta_annotation :: "object_meta \<Rightarrow> string \<Rightarrow> string option" where
  "meta_annotation m k = Option.bind (meta_annotations m) (\<lambda>a. bm_get a k)"

record secret =
  secret_meta :: object_meta
  secret_type :: "string option"
  secret_data :: "(string, string) bmap option"

definition secret_value :: "secret \<Rightarrow> string \<Rightarrow> string option" where
  "secret_value s k = Option.bind (secret_data s) (\<lambda>d. bm_get d k)"

text \<open>A merge patch of some keys; text given as \<open>stringData\<close> ends up in the data the same way.\<close>

definition merge_data :: "(string, string) bmap \<Rightarrow> secret \<Rightarrow> secret" where
  "merge_data entries s =
     s\<lparr>secret_data := Some (foldl (\<lambda>m (k, v). bm_insert k v m) (unwrap_or [] (secret_data s)) entries)\<rparr>"

lemma secret_value_merge: "secret_value (merge_data entries s) k
    = (case map_of (rev entries) k of Some v \<Rightarrow> Some v | None \<Rightarrow> secret_value s k)"
proof -
  have "bm_get (foldl (\<lambda>m (k, v). bm_insert k v m) m entries) k
      = (case map_of (rev entries) k of Some v \<Rightarrow> Some v | None \<Rightarrow> bm_get m k)" for m :: "(string, string) bmap"
    by (induction entries rule: rev_induct) (auto split: prod.splits option.splits)
  then show ?thesis
    by (cases "secret_data s"; cases "map_of (rev entries) k") (simp_all add: secret_value_def merge_data_def)
qed

lemma secret_value_merge1: "secret_value (merge_data [(k, v)] s) = (secret_value s)(k \<mapsto> v)"
  by (auto simp: secret_value_merge fun_eq_iff)

definition read_pem_key :: "secret \<Rightarrow> string \<Rightarrow> string option" where
  "read_pem_key s k = Option.bind (secret_value s k) (\<lambda>b. result_ok (from_utf8 b))"

record kafka_condition =
  cond_type :: string
  cond_status :: string
  cond_reason :: string
  cond_message :: string
  cond_last_transition_time :: string

definition condition :: "string \<Rightarrow> string \<Rightarrow> string \<Rightarrow> string \<Rightarrow> string \<Rightarrow> kafka_condition" where
  "condition t ty status reason message =
     \<lparr>cond_type = ty, cond_status = status, cond_reason = reason, cond_message = message,
      cond_last_transition_time = t\<rparr>"

section \<open>Errors and actions\<close>

datatype kube_error = ApiStatus int string | TransportFailure string

text \<open>\<open>ReconcileError\<close>; a panic of the code is the extra constructor \<open>Panic\<close>.\<close>

datatype reconcile_error =
    Kube kube_error
  | MissingUid
  | Serde string
  | MalformedSecret string
  | MetricsMutuallyExclusive
  | PrometheusOperatorCrdsMissing
  | Malformed string
  | Ca string
  | CertParse string
  | ByoCaMissing string
  | ByoCaMalformed string string
  | CaSecretMissing string
  | MissingOauthTrustSecret string
  | MissingOauthTrustKey string string
  | EmptyOauthTrustValue string string
  | InvalidListenerOauthAccessTokenIsJwt string
  | MissingOauthIntrospectionSecret string
  | MissingOauthIntrospectionKey string string
  | EmptyOauthIntrospectionValue string string
  | MissingGssapiKeytabSecret string
  | MissingGssapiKeytabKey string string
  | MissingKrb5ConfSecret string
  | MissingKrb5ConfKey string string
  | TieredStorageInvalid string
  | TracingInvalid string
  | KafkaConfigInvalid string
  | SchemaRegistryConfigInvalid string
  | GatewayConfigInvalid string
  | Producer string
  | Admin string
  | Panic string

datatype action = Requeue time | AwaitChange

definition requeue :: "time \<Rightarrow> action" where
  "requeue delay = Requeue delay"

section \<open>Owner references\<close>

definition owner_ref :: "string \<Rightarrow> string \<Rightarrow> object_meta \<Rightarrow> reconcile_error + owner_reference" where
  "owner_ref api_version kind m =
     bind_result (ok_or MissingUid (meta_uid m)) (\<lambda>uid.
       Inr \<lparr>owner_api_version = api_version, owner_kind = kind, owner_name = meta_name m,
            owner_uid = uid, owner_controller = True, owner_block_deletion = True\<rparr>)"

section \<open>The version gate of child resources\<close>

datatype parent_version_gate = Cleared | InvalidParent kafka_condition | Waiting

definition parent_version_gate ::
  "kafka_condition list option \<Rightarrow> string option \<Rightarrow> parent_version_gate" where
  "parent_version_gate conditions finalized =
     (let version_cond = Option.bind conditions (find (\<lambda>c. cond_type c = ''KafkaVersionValid'')) in
      if finalized \<noteq> None
         \<or> (case version_cond of None \<Rightarrow> False | Some c \<Rightarrow> cond_status c = ''True'')
      then Cleared
      else case version_cond of Some c \<Rightarrow> InvalidParent c | None \<Rightarrow> Waiting)"

section \<open>Logged computations\<close>

type_synonym ('e, 'a, 'f) logged = "('e + 'a) \<times> 'f list"

definition ret_log :: "'a \<Rightarrow> ('e, 'a, 'f) logged" where
  "ret_log x = (Inr x, [])"

definition fail_log :: "'e \<Rightarrow> ('e, 'a, 'f) logged" where
  "fail_log e = (Inl e, [])"

definition emit :: "'f \<Rightarrow> ('e, unit, 'f) logged" where
  "emit f = (Inr (), [f])"

definition bind_log ::
  "('e, 'a, 'f) logged \<Rightarrow> ('a \<Rightarrow> ('e, 'b, 'f) logged) \<Rightarrow> ('e, 'b, 'f) logged" where
  "bind_log m f =
     (case m of
        (Inl e, es) \<Rightarrow> (Inl e, es)
      | (Inr x, es) \<Rightarrow> (case f x of (r, es') \<Rightarrow> (r, es @ es')))"

definition then_log :: "('e, unit, 'f) logged \<Rightarrow> ('e, 'b, 'f) logged \<Rightarrow> ('e, 'b, 'f) logged" where
  "then_log m k = bind_log m (\<lambda>_. k)"

definition lift_log :: "'e + 'a \<Rightarrow> ('e, 'a, 'f) logged" where
  "lift_log r = (r, [])"

text \<open>A call that takes effect when the environment reports no error.\<close>

definition attempt :: "('k \<Rightarrow> 'e) \<Rightarrow> 'k option \<Rightarrow> 'f \<Rightarrow> ('e, unit, 'f) logged" where
  "attempt wrap failure f = (case failure of Some e \<Rightarrow> fail_log (wrap e) | None \<Rightarrow> emit f)"

text \<open>The effects of a callee seen by its caller, and an error that the caller handles.\<close>

definition map_log :: "('f \<Rightarrow> 'g) \<Rightarrow> ('e, 'a, 'f) logged \<Rightarrow> ('e, 'a, 'g) logged" where
  "map_log f m = (fst m, map f (snd m))"

definition try_log ::
  "('e, 'a, 'f) logged \<Rightarrow> ('a \<Rightarrow> ('d, 'b, 'f) logged) \<Rightarrow> ('e \<Rightarrow> ('d, 'b, 'f) logged) \<Rightarrow> ('d, 'b, 'f) logged" where
  "try_log m f h =
     (let r = (case fst m of Inr x \<Rightarrow> f x | Inl e \<Rightarrow> h e) in (fst r, snd m @ snd r))"

lemma bind_log_simps [simp]:
  "bind_log (ret_log x) f = f x"
  "bind_log (fail_log e) f = fail_log e"
  "bind_log (lift_log (Inr x)) f = f x"
  "bind_log (lift_log (Inl e)) f = fail_log e"
  "bind_log (emit a) g = (fst (g ()), a # snd (g ()))"
  by (simp_all add: bind_log_def ret_log_def fail_log_def lift_log_def emit_def split: prod.splits)

lemma log_parts [simp]:
  "fst (ret_log x) = Inr x" "snd (ret_log x) = []"
  "fst (fail_log e) = Inl e" "snd (fail_log e) = []"
  "fst (emit f) = Inr ()" "snd (emit f) = [f]"
  "fst (lift_log r) = r" "snd (lift_log r) = []"
  by (simp_all add: ret_log_def fail_log_def emit_def lift_log_def)

lemma set_snd_bind_log:
  "set (snd (bind_log m f)) =
     set (snd m) \<union> (case fst m of Inl _ \<Rightarrow> {} | Inr x \<Rightarrow> set (snd (f x)))"
  by (auto simp: bind_log_def split: prod.splits sum.splits)

lemma fst_bind_log:
  "fst (bind_log m f) = (case fst m of Inl e \<Rightarrow> Inl e | Inr x \<Rightarrow> fst (f x))"
  by (auto simp: bind_log_def split: prod.splits sum.splits)

lemma fst_then_log:
  "fst (then_log m k) = (case fst m of Inl e \<Rightarrow> Inl e | Inr _ \<Rightarrow> fst k)"
  by (simp add: then_log_def fst_bind_log)

lemma set_snd_then_log:
  "set (snd (then_log m k)) = set (snd m) \<union> (case fst m of Inl _ \<Rightarrow> {} | Inr _ \<Rightarrow> set (snd k))"
  by (simp add: then_log_def set_snd_bind_log)

lemma set_snd_attempt:
  "set (snd (attempt w failure f)) = (if failure = None then {f} else {})"
  by (auto simp: attempt_def split: option.splits)

lemma fst_attempt:
  "fst (attempt w failure f) = (case failure of None \<Rightarrow> Inr () | Some e \<Rightarrow> Inl (w e))"
  by (auto simp: attempt_def split: option.splits)

lemma map_log_simps [simp]: "fst (map_log f m) = fst m" "snd (map_log f m) = map f (snd m)"
  by (simp_all add: map_log_def)

lemma try_log_simps:
  "fst (try_log m f h) = (case fst m of Inr x \<Rightarrow> fst (f x) | Inl e \<Rightarrow> fst (h e))"
  "snd (try_log m f h) = snd m @ (case fst m of Inr x \<Rightarrow> snd (f x) | Inl e \<Rightarrow> snd (h e))"
  by (auto simp: try_log_def Let_def split: sum.splits)

lemmas log_simps = fst_bind_log set_snd_bind_log fst_then_log set_snd_then_log
  set_snd_attempt fst_attempt

lemma snd_then_log: "snd (then_log m k) = snd m @ (case fst m of Inl _ \<Rightarrow> [] | Inr _ \<Rightarrow> snd k)"
  by (cases m) (auto simp: then_log_def bind_log_def split: sum.splits prod.splits)

lemma snd_bind_log: "snd (bind_log m k) = snd m @ (case fst m of Inl _ \<Rightarrow> [] | Inr x \<Rightarrow> snd (k x))"
  by (cases m) (auto simp: bind_log_def split: sum.splits prod.splits)

text \<open>A property of every effect of a computation.\<close>

abbreviation logs :: "('f \<Rightarrow> bool) \<Rightarrow> ('e, 'a, 'f) logged \<Rightarrow> bool" where
  "logs P m \<equiv> list_all P (snd m)"

lemma logs_bind: "logs P m \<Longrightarrow> (\<And>x. fst m = Inr x \<Longrightarrow> logs P (f x)) \<Longrightarrow> logs P (bind_log m f)"
  by (cases "fst m") (auto simp: snd_bind_log)

lemma logs_then: "logs P m \<Longrightarrow> logs P k \<Longrightarrow> logs P (then_log m k)"
  by (cases "fst m") (auto simp: snd_then_log)

lemma logs_try:
  "logs P m \<Longrightarrow> (\<And>x. logs P (f x)) \<Longrightarrow> (\<And>e. logs P (h e)) \<Longrightarrow> logs P (try_log m f h)"
  by (simp add: try_log_simps split: sum.splits)

lemmas logs_intros = logs_bind logs_then logs_try

end
