(* ===== verification/Leader_Election.thy ===== *)
theory Leader_Election
  imports Kube_Objects
begin

text \<open>
  \<open>leader_election.rs\<close>: one operator replica holds a Kubernetes Lease while
  it reconciles. The Kubernetes API server and the clocks are not part of the
  repository, so they are the argument \<open>api\<close> of every operation, over an
  abstract world \<open>'w\<close>: other replicas may act in every call. What the
  operator relies on is the documented optimistic concurrency of the API
  server, stated by \<open>optimistic_api\<close> over the history of versions the lease
  went through.

  Instants are nanoseconds since the epoch.
\<close>

section \<open>Data\<close>

type_synonym timestamp = int

record lease_spec =
  holder_identity :: "string option"
  lease_duration_seconds :: "int option"
  acquire_time :: "timestamp option"
  renew_time :: "timestamp option"
  lease_transitions :: "int option"

record lease =
  resource_version :: "string option"
  spec :: "lease_spec option"

datatype release_result = Released | NotHeld | Conflict

datatype release_error = ReleaseApi kube_error | TimedOut

datatype renew_error = Lost string | Retry kube_error

datatype election_error = DurationOutOfRange int | ElectionApi kube_error

record 'w lease_api =
  get_opt :: "'w \<Rightarrow> (kube_error + lease option) \<times> 'w"
  create :: "lease \<Rightarrow> 'w \<Rightarrow> (kube_error + unit) \<times> 'w"
  replace :: "lease \<Rightarrow> 'w \<Rightarrow> (kube_error + unit) \<times> 'w"
  now :: "'w \<Rightarrow> timestamp \<times> 'w"
  instant :: "'w \<Rightarrow> int \<times> 'w"
  sleep :: "time \<Rightarrow> 'w \<Rightarrow> 'w"

definition default_spec :: lease_spec where
  "default_spec = \<lparr>holder_identity = None, lease_duration_seconds = None, acquire_time = None,
                   renew_time = None, lease_transitions = None\<rparr>"

section \<open>Predicates and updates of a lease\<close>

definition nanos_per_sec :: int where
  "nanos_per_sec = 1000000000"

definition as_second :: "timestamp \<Rightarrow> int" where
  "as_second t = (if 0 \<le> t then t div nanos_per_sec else - ((- t) div nanos_per_sec))"

definition from_secs :: "int \<Rightarrow> time" where
  "from_secs n = n * nanos_per_sec"

definition lease_seconds :: "(time \<Rightarrow> int) \<Rightarrow> time \<Rightarrow> election_error + int" where
  "lease_seconds secs_i64 extent =
     (let n = secs_i64 extent in if in_i32 n then Inr n else Inl (DurationOutOfRange n))"

definition held_by_us :: "lease \<Rightarrow> string \<Rightarrow> bool" where
  "held_by_us l identity \<longleftrightarrow> Option.bind (spec l) holder_identity = Some identity"

definition is_vacant :: "lease \<Rightarrow> bool" where
  "is_vacant l \<longleftrightarrow>
     (case Option.bind (spec l) holder_identity of None \<Rightarrow> True | Some h \<Rightarrow> h = [])"

definition is_expired :: "lease \<Rightarrow> time \<Rightarrow> timestamp \<Rightarrow> bool" where
  "is_expired l fallback_duration t \<longleftrightarrow>
     (case spec l of
        None \<Rightarrow> True
      | Some s \<Rightarrow>
          (case renew_time s of
             None \<Rightarrow> True
           | Some renew \<Rightarrow>
               (let duration = (case lease_duration_seconds s of
                                  None \<Rightarrow> fallback_duration
                                | Some raw \<Rightarrow> from_secs raw)
                in from_secs (as_second t - as_second renew) > duration)))"

definition is_claimable :: "lease \<Rightarrow> time \<Rightarrow> timestamp \<Rightarrow> bool" where
  "is_claimable l fallback_duration t \<longleftrightarrow> is_vacant l \<or> is_expired l fallback_duration t"

definition released :: "lease \<Rightarrow> string \<Rightarrow> timestamp \<Rightarrow> lease option" where
  "released l identity t =
     (if \<not> held_by_us l identity then None
      else
        let s = (case spec l of None \<Rightarrow> default_spec | Some s \<Rightarrow> s)
        in Some (l\<lparr>spec := Some (s\<lparr>holder_identity := None, lease_duration_seconds := Some 1,
                                  acquire_time := Some t, renew_time := Some t\<rparr>)\<rparr>))"

definition saturating_succ_i32 :: "int \<Rightarrow> int" where
  "saturating_succ_i32 n = (if n < 2 ^ 31 - 1 then n + 1 else 2 ^ 31 - 1)"

definition claim :: "lease \<Rightarrow> string \<Rightarrow> int \<Rightarrow> timestamp \<Rightarrow> lease" where
  "claim l identity duration_seconds t =
     (let s = (case spec l of None \<Rightarrow> default_spec | Some s \<Rightarrow> s);
          changed_holder = (holder_identity s \<noteq> Some identity);
          s' = s\<lparr>holder_identity := Some identity,
                 lease_duration_seconds := Some duration_seconds,
                 acquire_time := Some t, renew_time := Some t\<rparr>
      in l\<lparr>spec := Some (if changed_holder
            then s'\<lparr>lease_transitions :=
                       Some (saturating_succ_i32
                              (case lease_transitions s of None \<Rightarrow> 0 | Some n \<Rightarrow> n))\<rparr>
            else s')\<rparr>)"

definition renewed :: "lease \<Rightarrow> int \<Rightarrow> timestamp \<Rightarrow> lease" where
  "renewed l duration_seconds t =
     (let s = (case spec l of None \<Rightarrow> default_spec | Some s \<Rightarrow> s)
      in l\<lparr>spec := Some (s\<lparr>lease_duration_seconds := Some duration_seconds,
                           renew_time := Some t\<rparr>)\<rparr>)"

definition fresh_lease :: "string \<Rightarrow> int \<Rightarrow> timestamp \<Rightarrow> timestamp \<Rightarrow> lease" where
  "fresh_lease identity duration_seconds t1 t2 =
     \<lparr>resource_version = None,
      spec = Some \<lparr>holder_identity = Some identity,
                   lease_duration_seconds = Some duration_seconds,
                   acquire_time = Some t1, renew_time = Some t2,
                   lease_transitions = Some 1\<rparr>\<rparr>"

section \<open>Acquiring\<close>

text \<open>One turn of the loop of \<open>acquire\<close>: \<open>Inr True\<close> breaks out of it,
  \<open>Inr False\<close> goes round again, \<open>Inl\<close> returns the error.\<close>

definition create_turn ::
  "'w lease_api \<Rightarrow> string \<Rightarrow> int \<Rightarrow> 'w \<Rightarrow> (kube_error + bool) \<times> 'w" where
  "create_turn api identity duration_seconds w =
     (let (t1, w1) = now api w;
          (t2, w2) = now api w1
      in case create api (fresh_lease identity duration_seconds t1 t2) w2 of
           (Inr _, w3) \<Rightarrow> (Inr True, w3)
         | (Inl (ApiStatus code m), w3) \<Rightarrow>
             if code = 409 then (Inr False, w3) else (Inl (ApiStatus code m), w3)
         | (Inl e, w3) \<Rightarrow> (Inl e, w3))"

definition takeover_turn ::
  "'w lease_api \<Rightarrow> string \<Rightarrow> time \<Rightarrow> int \<Rightarrow> time \<Rightarrow> lease \<Rightarrow> 'w \<Rightarrow> (kube_error + bool) \<times> 'w" where
  "takeover_turn api identity lease_duration duration_seconds retry_interval existing w =
     (if held_by_us existing identity then (Inr True, w)
      else
        let (t, w1) = now api w in
        if is_claimable existing lease_duration t then
          let (t', w2) = now api w1 in
          case replace api (claim existing identity duration_seconds t') w2 of
            (Inr _, w3) \<Rightarrow> (Inr True, w3)
          | (Inl _, w3) \<Rightarrow> (Inr False, sleep api retry_interval w3)
        else (Inr False, sleep api retry_interval w1))"

definition acquire_turn ::
  "'w lease_api \<Rightarrow> string \<Rightarrow> time \<Rightarrow> int \<Rightarrow> time \<Rightarrow> 'w \<Rightarrow> (kube_error + bool) \<times> 'w" where
  "acquire_turn api identity lease_duration duration_seconds retry_interval w =
     (case get_opt api w of
        (Inl e, w1) \<Rightarrow> (Inl e, w1)
      | (Inr None, w1) \<Rightarrow> create_turn api identity duration_seconds w1
      | (Inr (Some existing), w1) \<Rightarrow>
          takeover_turn api identity lease_duration duration_seconds retry_interval existing w1)"

text \<open>The loop may go round forever while another replica holds the lease, so
  it takes fuel: \<open>None\<close> means that it is still waiting.\<close>

fun acquire_loop ::
  "nat \<Rightarrow> 'w lease_api \<Rightarrow> string \<Rightarrow> time \<Rightarrow> int \<Rightarrow> time \<Rightarrow> 'w
     \<Rightarrow> (kube_error + unit) option \<times> 'w" where
  "acquire_loop 0 api identity lease_duration duration_seconds retry_interval w = (None, w)"
| "acquire_loop (Suc fuel) api identity lease_duration duration_seconds retry_interval w =
     (case acquire_turn api identity lease_duration duration_seconds retry_interval w of
        (Inl e, w1) \<Rightarrow> (Some (Inl e), w1)
      | (Inr True, w1) \<Rightarrow> (Some (Inr ()), w1)
      | (Inr False, w1) \<Rightarrow>
          acquire_loop fuel api identity lease_duration duration_seconds retry_interval w1)"

definition acquire ::
  "nat \<Rightarrow> (time \<Rightarrow> int) \<Rightarrow> 'w lease_api \<Rightarrow> string \<Rightarrow> time \<Rightarrow> time \<Rightarrow> 'w
     \<Rightarrow> (election_error + unit) option \<times> 'w" where
  "acquire fuel secs_i64 api identity lease_duration retry_interval w =
     (case lease_seconds secs_i64 lease_duration of
        Inl e \<Rightarrow> (Some (Inl e), w)
      | Inr n \<Rightarrow>
          (case acquire_loop fuel api identity lease_duration n retry_interval w of
             (None, w1) \<Rightarrow> (None, w1)
           | (Some (Inl e), w1) \<Rightarrow> (Some (Inl (ElectionApi e)), w1)
           | (Some (Inr _), w1) \<Rightarrow> (Some (Inr ()), w1)))"

section \<open>Renewing and releasing\<close>

definition renew_once ::
  "'w lease_api \<Rightarrow> string \<Rightarrow> int \<Rightarrow> 'w \<Rightarrow> (renew_error + unit) \<times> 'w" where
  "renew_once api identity duration_seconds w =
     (case get_opt api w of
        (Inl e, w1) \<Rightarrow> (Inl (Retry e), w1)
      | (Inr None, w1) \<Rightarrow> (Inl (Lost ''lease was deleted''), w1)
      | (Inr (Some l), w1) \<Rightarrow>
          if \<not> held_by_us l identity then
            (Inl (Lost (''holder changed to ''
                        @ (case Option.bind (spec l) holder_identity of
                             None \<Rightarrow> ''<none>'' | Some h \<Rightarrow> h))), w1)
          else
            let (t, w2) = now api w1 in
            (case replace api (renewed l duration_seconds t) w2 of
               (Inr _, w3) \<Rightarrow> (Inr (), w3)
             | (Inl e, w3) \<Rightarrow> (Inl (Retry e), w3)))"

text \<open>One turn of \<open>renew_loop\<close>: \<open>Inr\<close> carries the instant of the last
  success into the next turn, \<open>Inl\<close> ends the loop and with it the leadership.\<close>

datatype leadership_end = LeaseLost string | DeadlineMissed kube_error

definition renew_turn ::
  "'w lease_api \<Rightarrow> string \<Rightarrow> time \<Rightarrow> time \<Rightarrow> int \<Rightarrow> int \<Rightarrow> 'w
     \<Rightarrow> (leadership_end + int) \<times> 'w" where
  "renew_turn api identity lease_duration retry_interval duration_seconds last_success w =
     (case renew_once api identity duration_seconds (sleep api retry_interval w) of
        (Inr _, w1) \<Rightarrow> (let (i, w2) = instant api w1 in (Inr i, w2))
      | (Inl (Lost reason), w1) \<Rightarrow> (Inl (LeaseLost reason), w1)
      | (Inl (Retry e), w1) \<Rightarrow>
          (let (i, w2) = instant api w1 in
           if i - last_success \<ge> lease_duration then (Inl (DeadlineMissed e), w2)
           else (Inr last_success, w2)))"

fun renew_loop ::
  "nat \<Rightarrow> 'w lease_api \<Rightarrow> string \<Rightarrow> time \<Rightarrow> time \<Rightarrow> int \<Rightarrow> int \<Rightarrow> 'w
     \<Rightarrow> leadership_end option \<times> 'w" where
  "renew_loop 0 api identity lease_duration retry_interval duration_seconds last_success w = (None, w)"
| "renew_loop (Suc fuel) api identity lease_duration retry_interval duration_seconds last_success w =
     (case renew_turn api identity lease_duration retry_interval duration_seconds last_success w of
        (Inl e, w1) \<Rightarrow> (Some e, w1)
      | (Inr i, w1) \<Rightarrow>
          renew_loop fuel api identity lease_duration retry_interval duration_seconds i w1)"

definition release_lease ::
  "'w lease_api \<Rightarrow> string \<Rightarrow> timestamp \<Rightarrow> 'w \<Rightarrow> (kube_error + release_result) \<times> 'w" where
  "release_lease api identity t w =
     (case get_opt api w of
        (Inl e, w1) \<Rightarrow> (Inl e, w1)
      | (Inr None, w1) \<Rightarrow> (Inr NotHeld, w1)
      | (Inr (Some l), w1) \<Rightarrow>
          (case released l identity t of
             None \<Rightarrow> (Inr NotHeld, w1)
           | Some l' \<Rightarrow>
               (case replace api l' w1 of
                  (Inr _, w2) \<Rightarrow> (Inr Released, w2)
                | (Inl (ApiStatus code m), w2) \<Rightarrow>
                    if code = 409 then (Inr Conflict, w2) else (Inl (ApiStatus code m), w2)
                | (Inl e, w2) \<Rightarrow> (Inl e, w2))))"

text \<open>\<open>Leadership::release\<close>: the renewer is stopped, then the release must
  finish in \<open>limit\<close>, which the clock argument \<open>in_time\<close> decides.\<close>

definition release ::
  "(time \<Rightarrow> 'w \<Rightarrow> 'w \<Rightarrow> bool) \<Rightarrow> 'w lease_api \<Rightarrow> string \<Rightarrow> time \<Rightarrow> 'w
     \<Rightarrow> (release_error + release_result) \<times> 'w" where
  "release in_time api identity limit w =
     (let (t, w1) = now api w;
          (r, w2) = release_lease api identity t w1
      in if \<not> in_time limit w1 w2 then (Inl TimedOut, w2)
         else case r of Inl e \<Rightarrow> (Inl (ReleaseApi e), w2) | Inr x \<Rightarrow> (Inr x, w2))"

section \<open>What the API server promises\<close>

text \<open>
  \<open>hist w\<close> is the sequence of versions of the lease object up to the world
  \<open>w\<close>, newest first. Every call may see other replicas write before and after
  it. A read returns some version; a create or a replace that succeeds adds a
  version with the written spec; a replace succeeds only directly on top of the
  version whose \<open>resourceVersion\<close> it carries; versions never share a
  \<open>resourceVersion\<close>.
\<close>

definition grows :: "('w \<Rightarrow> lease list) \<Rightarrow> ('w \<Rightarrow> 'w) \<Rightarrow> bool" where
  "grows hist f \<longleftrightarrow> (\<forall>w. suffix (hist w) (hist (f w)))"

definition optimistic_api :: "'w lease_api \<Rightarrow> ('w \<Rightarrow> lease list) \<Rightarrow> bool" where
  "optimistic_api api hist \<longleftrightarrow>
     grows hist (\<lambda>w. snd (get_opt api w)) \<and>
     (\<forall>l. grows hist (\<lambda>w. snd (create api l w))) \<and>
     (\<forall>l. grows hist (\<lambda>w. snd (replace api l w))) \<and>
     grows hist (\<lambda>w. snd (now api w)) \<and>
     grows hist (\<lambda>w. snd (instant api w)) \<and>
     (\<forall>t. grows hist (sleep api t)) \<and>
     (\<forall>w l w'. get_opt api w = (Inr (Some l), w') \<longrightarrow> l \<in> set (hist w')) \<and>
     (\<forall>w l w'. create api l w = (Inr (), w') \<longrightarrow>
        (\<exists>h l' rest. hist w' = h @ l' # rest \<and> spec l' = spec l \<and> suffix (hist w) rest)) \<and>
     (\<forall>w l w'. resource_version l \<noteq> None \<longrightarrow> replace api l w = (Inr (), w') \<longrightarrow>
        (\<exists>h l' pre rest. hist w' = h @ l' # pre # rest \<and> spec l' = spec l \<and>
           suffix (hist w) (pre # rest) \<and> resource_version pre = resource_version l)) \<and>
     (\<forall>w. distinct (map resource_version (hist w)) \<and>
          (\<forall>l \<in> set (hist w). resource_version l \<noteq> None))"

lemma held_spec: "spec l' = spec l \<Longrightarrow> held_by_us l' i = held_by_us l i"
  by (simp add: held_by_us_def)

lemma suffix_set_mono: "suffix xs ys \<Longrightarrow> x \<in> set xs \<Longrightarrow> x \<in> set ys"
  by (auto simp: suffix_def)

lemma same_version:
  assumes "optimistic_api api hist" "a \<in> set (hist w)" "b \<in> set (hist w)"
    and "resource_version a = resource_version b"
  shows "a = b"
proof -
  from assms(1) have "distinct (map resource_version (hist w))"
    by (simp add: optimistic_api_def)
  with assms(2-4) show ?thesis by (auto simp: distinct_map dest: inj_onD)
qed

text \<open>The consequence everything rests on: a successful replace of a version
  that was read earlier sits directly on top of that very version.\<close>

lemma replace_on_read:
  assumes api: "optimistic_api api hist"
    and read: "l \<in> set (hist w)"
    and rv: "resource_version l' = resource_version l"
    and ok: "replace api l' w = (Inr (), w')"
  shows "\<exists>h n rest. hist w' = h @ n # l # rest \<and> spec n = spec l'"
proof -
  from api read rv have "resource_version l' \<noteq> None"
    by (auto simp: optimistic_api_def)
  with api ok obtain h n pre rest where h: "hist w' = h @ n # pre # rest" "spec n = spec l'"
    "suffix (hist w) (pre # rest)" "resource_version pre = resource_version l'"
    unfolding optimistic_api_def by metis
  have "l \<in> set (hist w')" "pre \<in> set (hist w')"
    using h read suffix_set_mono by fastforce+
  with api h(4) rv have "pre = l" by (metis same_version)
  with h show ?thesis by blast
qed

lemma read_known:
  assumes "optimistic_api api hist" "get_opt api w = (Inr (Some l), w1)"
  shows "l \<in> set (hist w1)"
  using assms unfolding optimistic_api_def by blast

lemma now_keeps:
  assumes "optimistic_api api hist" "now api w = (t, w1)" "l \<in> set (hist w)"
  shows "l \<in> set (hist w1)"
proof -
  from assms(1) have "suffix (hist w) (hist (snd (now api w)))"
    by (simp add: optimistic_api_def grows_def)
  with assms(2,3) show ?thesis by (auto intro: suffix_set_mono)
qed

lemma claim_facts [simp]:
  "resource_version (claim l i d t) = resource_version l" "held_by_us (claim l i d t) i"
  by (simp_all add: claim_def held_by_us_def Let_def split: option.splits)

lemma renewed_facts [simp]:
  "resource_version (renewed l d t) = resource_version l"
  "held_by_us (renewed l d t) i \<longleftrightarrow> held_by_us l i"
  by (auto simp: renewed_def held_by_us_def default_spec_def Let_def split: option.splits)

lemma released_facts:
  assumes "released l i t = Some l'"
  shows "held_by_us l i" "resource_version l' = resource_version l" "is_vacant l'"
  using assms by (auto simp: released_def is_vacant_def Let_def split: if_splits)

lemma vacant_spec: "spec l' = spec l \<Longrightarrow> is_vacant l' = is_vacant l"
  by (simp add: is_vacant_def)

section \<open>Taking the lease over\<close>

text \<open>How the version that makes a replica the holder came about: it was read
  as already held, it was created when none existed, or it directly follows a
  version that was claimable when this replica read it.\<close>

definition lease_obtained ::
  "'w lease_api \<Rightarrow> ('w \<Rightarrow> lease list) \<Rightarrow> string \<Rightarrow> time \<Rightarrow> 'w \<Rightarrow> bool" where
  "lease_obtained api hist identity duration w \<longleftrightarrow>
     (\<exists>h l rest. hist w = h @ l # rest \<and> held_by_us l identity \<and>
        ((\<exists>w0 w1. get_opt api w0 = (Inr (Some l), w1)) \<or>
         (\<exists>w0 w1. get_opt api w0 = (Inr None, w1)) \<or>
         (\<exists>w0 w1 pre rest'. rest = pre # rest' \<and> get_opt api w0 = (Inr (Some pre), w1) \<and>
            is_claimable pre duration (fst (now api w1)))))"

lemma create_turn_obtained:
  assumes api: "optimistic_api api hist"
    and none: "get_opt api w0 = (Inr None, w)"
    and turn: "create_turn api identity n w = (Inr True, w')"
  shows "lease_obtained api hist identity duration w'"
proof -
  obtain t1 w1 t2 w2 where t: "now api w = (t1, w1)" "now api w1 = (t2, w2)"
    by (meson surj_pair)
  with turn have "create api (fresh_lease identity n t1 t2) w2 = (Inr (), w')"
    by (auto simp: create_turn_def split: sum.splits prod.splits kube_error.splits if_splits)
  with api obtain h l' rest where "hist w' = h @ l' # rest"
    "spec l' = spec (fresh_lease identity n t1 t2)"
    unfolding optimistic_api_def by metis
  moreover from this(2) have "held_by_us l' identity"
    by (simp add: held_by_us_def fresh_lease_def)
  ultimately show ?thesis using none unfolding lease_obtained_def by blast
qed

lemma takeover_turn_obtained:
  assumes api: "optimistic_api api hist"
    and read: "get_opt api w0 = (Inr (Some existing), w)"
    and turn: "takeover_turn api identity duration n retry existing w = (Inr True, w')"
  shows "lease_obtained api hist identity duration w'"
proof (cases "held_by_us existing identity")
  case True
  with turn have "w' = w" by (simp add: takeover_turn_def)
  moreover have "existing \<in> set (hist w)" using api read by (rule read_known)
  ultimately obtain h rest where "hist w' = h @ existing # rest" by (auto dest: split_list)
  with True read show ?thesis unfolding lease_obtained_def by blast
next
  case False
  obtain t w1 t' w2 where t: "now api w = (t, w1)" "now api w1 = (t', w2)"
    by (meson surj_pair)
  with turn False have claimable: "is_claimable existing duration t"
    and ok: "replace api (claim existing identity n t') w2 = (Inr (), w')"
    by (auto simp: takeover_turn_def split: sum.splits prod.splits if_splits)
  have "existing \<in> set (hist w2)"
    using api read t by (meson now_keeps read_known)
  with api ok obtain h l' rest where "hist w' = h @ l' # existing # rest"
    "spec l' = spec (claim existing identity n t')"
    using replace_on_read [of api hist existing w2 "claim existing identity n t'" w'] by auto
  moreover from this(2) have "held_by_us l' identity"
    using held_spec claim_facts(2) by blast
  moreover have "is_claimable existing duration (fst (now api w))"
    using claimable t by simp
  ultimately show ?thesis using read unfolding lease_obtained_def by blast
qed

lemma acquire_turn_obtained:
  assumes "optimistic_api api hist"
    and "acquire_turn api identity duration n retry w = (Inr True, w')"
  shows "lease_obtained api hist identity duration w'"
  using assms create_turn_obtained takeover_turn_obtained
  by (fastforce simp: acquire_turn_def split: prod.splits sum.splits option.splits)

lemma acquire_loop_obtained:
  assumes "optimistic_api api hist"
    and "acquire_loop fuel api identity duration n retry w = (Some (Inr ()), w')"
  shows "lease_obtained api hist identity duration w'"
  using assms(2)
proof (induction fuel arbitrary: w)
  case (Suc fuel)
  then show ?case
    using acquire_turn_obtained [OF assms(1)]
    by (auto split: prod.splits sum.splits bool.splits)
qed simp


text \<open>C21: a renewal never resurrects a lost lease: when \<open>renew_once\<close> succeeds,
  the version it wrote directly follows a version that this replica held, and
  it changed nothing but the duration and the renewal time, so the holder, the
  acquire time and the transition count are those of that version.\<close>

theorem renew_once_safe:
  assumes api: "optimistic_api api hist"
    and ok: "renew_once api identity n w = (Inr (), w')"
  shows "\<exists>h l pre rest s s'. hist w' = h @ l # pre # rest \<and> held_by_us pre identity \<and>
           spec pre = Some s \<and> spec l = Some s' \<and>
           holder_identity s' = holder_identity s \<and> acquire_time s' = acquire_time s \<and>
           lease_transitions s' = lease_transitions s"
proof -
  from ok obtain pre w1 where read: "get_opt api w = (Inr (Some pre), w1)"
    and ours: "held_by_us pre identity"
    by (auto simp: renew_once_def split: prod.splits sum.splits option.splits if_splits)
  obtain t w2 where t: "now api w1 = (t, w2)" by (meson surj_pair)
  with ok read ours have "replace api (renewed pre n t) w2 = (Inr (), w')"
    by (auto simp: renew_once_def split: prod.splits sum.splits)
  moreover have "pre \<in> set (hist w2)" using api read t by (meson now_keeps read_known)
  ultimately obtain h l rest where "hist w' = h @ l # pre # rest" "spec l = spec (renewed pre n t)"
    using api replace_on_read [of api hist pre w2 "renewed pre n t" w'] by auto
  moreover from ours obtain s where s: "spec pre = Some s"
    by (auto simp: held_by_us_def bind_eq_Some_conv)
  moreover from this have "spec (renewed pre n t) =
      Some (s\<lparr>lease_duration_seconds := Some n, renew_time := Some t\<rparr>)"
    by (simp add: renewed_def)
  ultimately show ?thesis using ours by fastforce
qed

text \<open>a release never clears the lease of another replica: when
  \<open>release_lease\<close> reports \<open>Released\<close>, the vacant version it wrote directly
  follows a version this replica held.\<close>

theorem release_lease_safe:
  assumes api: "optimistic_api api hist"
    and ok: "release_lease api identity t w = (Inr Released, w')"
  shows "\<exists>h l pre rest. hist w' = h @ l # pre # rest \<and> held_by_us pre identity \<and> is_vacant l"
proof -
  from ok obtain pre w1 l' where read: "get_opt api w = (Inr (Some pre), w1)"
    and rel: "released pre identity t = Some l'" and rep: "replace api l' w1 = (Inr (), w')"
    by (auto simp: release_lease_def
        split: prod.splits sum.splits option.splits kube_error.splits if_splits)
  from api read have "pre \<in> set (hist w1)" by (rule read_known)
  with api rep released_facts [OF rel] show ?thesis
    using replace_on_read [of api hist pre w1 l' w'] vacant_spec by metis
qed

section \<open>Expiry, hand-over and the renewal deadline\<close>

lemma not_claimable_iff:
  assumes "spec l = Some s" "holder_identity s = Some h" "h \<noteq> []"
    and "renew_time s = Some r" "lease_duration_seconds s = Some d"
  shows "is_claimable l fallback t \<longleftrightarrow> as_second r + d < as_second t"
proof -
  have "from_secs (as_second t - as_second r) > from_secs d \<longleftrightarrow> as_second r + d < as_second t"
    by (auto simp: from_secs_def nanos_per_sec_def)
  with assms show ?thesis
    by (simp add: is_claimable_def is_vacant_def is_expired_def)
qed

text \<open>a lease with a named holder can be claimed exactly when more than its
  duration, counted in whole seconds, has passed since its last renewal. Until
  then no other replica may take it, whatever duration that replica is
  configured with.\<close>

theorem lease_protected_until_expiry:
  assumes "spec l = Some s" "holder_identity s = Some h" "h \<noteq> []"
    and "renew_time s = Some r" "lease_duration_seconds s = Some d"
  shows "is_claimable l fallback t \<longleftrightarrow> as_second r + d < as_second t"
  using assms by (rule not_claimable_iff)

text \<open>after a release, the next replica does not wait for an expiry: the
  released lease is claimable at every instant, and the first turn of the
  acquire loop that reads it and whose replace is accepted makes its caller
  the holder.\<close>

theorem released_lease_taken_at_once:
  assumes rel: "released l old t = Some l'"
    and read: "get_opt api w = (Inr (Some l'), w1)"
    and accepted: "\<And>c w2. \<exists>w3. replace api c w2 = (Inr (), w3)"
  shows "is_claimable l' fallback t' \<and>
         (\<exists>w'. acquire_turn api identity duration n retry w = (Inr True, w'))"
proof -
  have vacant: "is_vacant l'" using rel by (rule released_facts)
  then have claimable: "is_claimable l' f u" for f u by (simp add: is_claimable_def)
  obtain t1 w2 t2 w3 where t: "now api w1 = (t1, w2)" "now api w2 = (t2, w3)"
    by (meson surj_pair)
  obtain w4 where "replace api (claim l' identity n t2) w3 = (Inr (), w4)"
    using accepted by blast
  with read t claimable show ?thesis
    by (auto simp: acquire_turn_def takeover_turn_def)
qed

lemma as_second_add_secs:
  assumes "0 \<le> r" "0 \<le> k"
  shows "as_second (r + from_secs k) = as_second r + k"
  using assms by (simp add: as_second_def from_secs_def nanos_per_sec_def)

text \<open>the renewal deadline does not keep two replicas apart. It counts from
  the moment the last renewal returned, and it is as long as the lease itself.
  Let the last renewal carry the time \<open>r\<close> and return more than a second later.
  Then at \<open>r\<close> plus the duration plus one second every other replica may claim
  the lease, while a renewal attempt of the holder that fails at that instant
  leaves the holder leading.\<close>

theorem renewal_deadline_overlaps_expiry:
  assumes lease: "spec l = Some s" "holder_identity s = Some h" "h \<noteq> []"
      "renew_time s = Some r" "lease_duration_seconds s = Some d"
    and time: "0 \<le> r" "0 \<le> d" "t = r + from_secs (d + 1)"
    and late: "last_success > r + from_secs 1"
    and failing: "get_opt api (sleep api retry w) = (Inl e, w1)" "instant api w1 = (t, w2)"
  shows "is_claimable l fallback t \<and>
         renew_turn api h (from_secs d) retry n last_success w = (Inr last_success, w2)"
proof -
  have "as_second t = as_second r + (d + 1)"
    using time as_second_add_secs [of r "d + 1"] by simp
  then have "is_claimable l fallback t"
    by (simp add: not_claimable_iff [OF lease])
  moreover have "t - last_success < from_secs d"
    using late time(3) by (simp add: from_secs_def algebra_simps)
  ultimately show ?thesis
    using failing by (simp add: renew_turn_def renew_once_def)
qed

section \<open>Witnesses\<close>

text \<open>A lease store with a clock: the versions of the lease are numbered by
  their position, and nobody else writes.\<close>

type_synonym demo_world = "lease_spec option list \<times> int"

fun number_versions :: "lease_spec option list \<Rightarrow> lease list" where
  "number_versions [] = []"
| "number_versions (s # ss) =
     \<lparr>resource_version = Some (nat_to_string (length ss)), spec = s\<rparr> # number_versions ss"

definition demo_hist :: "demo_world \<Rightarrow> lease list" where
  "demo_hist w = number_versions (fst w)"

definition demo_api :: "demo_world lease_api" where
  "demo_api = \<lparr>
     get_opt = (\<lambda>w. (Inr (case demo_hist w of [] \<Rightarrow> None | l # _ \<Rightarrow> Some l), w)),
     create = (\<lambda>l w. if fst w = [] then (Inr (), ([spec l], snd w)) else (Inl (ApiStatus 409 []), w)),
     replace = (\<lambda>l w. case demo_hist w of
                         [] \<Rightarrow> (Inl (ApiStatus 404 []), w)
                       | x # _ \<Rightarrow> if resource_version l = resource_version x
                                  then (Inr (), (spec l # fst w, snd w))
                                  else (Inl (ApiStatus 409 []), w)),
     now = (\<lambda>w. (snd w, w)),
     instant = (\<lambda>w. (snd w, w)),
     sleep = (\<lambda>t w. (fst w, snd w + t))\<rparr>"

lemma nat_to_string_inj: "nat_to_string m = nat_to_string n \<longleftrightarrow> m = n"
  by (metis option.inject parse_nat_str_print)

lemma number_versions_rv:
  "l \<in> set (number_versions ss) \<Longrightarrow>
     \<exists>i < length ss. resource_version l = Some (nat_to_string i)"
  by (induction ss) (auto simp: less_Suc_eq)

lemma number_versions_distinct: "distinct (map resource_version (number_versions ss))"
proof (induction ss)
  case (Cons s ss)
  then show ?case
    using number_versions_rv [of _ ss] by (fastforce simp: nat_to_string_inj)
qed simp

lemma number_versions_some: "\<forall>l \<in> set (number_versions ss). resource_version l \<noteq> None"
  using number_versions_rv by fastforce

lemma demo_create:
  assumes "create demo_api l w = (Inr (), w')"
  shows "\<exists>h l' rest. demo_hist w' = h @ l' # rest \<and> spec l' = spec l \<and> suffix (demo_hist w) rest"
proof -
  from assms have "demo_hist w' =
      [] @ \<lparr>resource_version = Some (nat_to_string 0), spec = spec l\<rparr> # []" "demo_hist w = []"
    by (auto simp: demo_api_def demo_hist_def split: if_splits)
  then show ?thesis by fastforce
qed

lemma demo_replace:
  assumes "replace demo_api l w = (Inr (), w')"
  shows "\<exists>h l' pre rest. demo_hist w' = h @ l' # pre # rest \<and> spec l' = spec l \<and>
           suffix (demo_hist w) (pre # rest) \<and> resource_version pre = resource_version l"
proof -
  from assms obtain x xs where "demo_hist w = x # xs" "resource_version x = resource_version l"
    and w': "w' = (spec l # fst w, snd w)"
    by (auto simp: demo_api_def split: list.splits if_splits)
  moreover from w' have "demo_hist w' =
      [] @ \<lparr>resource_version = Some (nat_to_string (length (fst w))), spec = spec l\<rparr> # demo_hist w"
    by (simp add: demo_hist_def)
  ultimately show ?thesis by fastforce
qed

lemma demo_grows:
  "grows demo_hist (\<lambda>w. snd (get_opt demo_api w))"
  "grows demo_hist (\<lambda>w. snd (create demo_api l w))"
  "grows demo_hist (\<lambda>w. snd (replace demo_api l w))"
  "grows demo_hist (\<lambda>w. snd (now demo_api w))"
  "grows demo_hist (\<lambda>w. snd (instant demo_api w))"
  "grows demo_hist (sleep demo_api t)"
  by (auto simp: grows_def demo_api_def demo_hist_def suffix_def split: list.splits)

lemma demo_read: "get_opt demo_api w = (Inr (Some l), w') \<Longrightarrow> l \<in> set (demo_hist w')"
  by (auto simp: demo_api_def split: list.splits)

lemma demo_optimistic: "optimistic_api demo_api demo_hist"
  unfolding optimistic_api_def
  using demo_create demo_replace demo_grows demo_read number_versions_distinct number_versions_some
  by (simp add: demo_hist_def)

definition held_by_a :: lease_spec where
  "held_by_a = \<lparr>holder_identity = Some ''a'', lease_duration_seconds = Some 15,
                acquire_time = Some 0, renew_time = Some 0, lease_transitions = Some 1\<rparr>"

definition expired_world :: demo_world where
  "expired_world = ([Some held_by_a], 16 * nanos_per_sec)"

definition whole_secs :: "time \<Rightarrow> int" where
  "whole_secs t = t div nanos_per_sec"

lemmas demo_simps = demo_api_def demo_hist_def expired_world_def held_by_a_def held_by_us_def
  is_claimable_def is_vacant_def is_expired_def as_second_def from_secs_def nanos_per_sec_def
  claim_def renewed_def released_def whole_secs_def lease_seconds_def in_i32_def

lemma demo_acquire:
  "\<exists>w'. acquire 1 whole_secs demo_api ''b'' (from_secs 15) (from_secs 2) expired_world = (Some (Inr ()), w')"
  by (simp add: acquire_def acquire_turn_def takeover_turn_def demo_simps)


theorem renew_once_safe_witness:
  "\<exists>w' h l pre rest s s'. renew_once demo_api ''a'' 15 expired_world = (Inr (), w') \<and>
     demo_hist w' = h @ l # pre # rest \<and> held_by_us pre ''a'' \<and>
     spec pre = Some s \<and> spec l = Some s' \<and> holder_identity s' = holder_identity s \<and>
     acquire_time s' = acquire_time s \<and> lease_transitions s' = lease_transitions s"
proof -
  have "\<exists>w'. renew_once demo_api ''a'' 15 expired_world = (Inr (), w')"
    by (simp add: renew_once_def demo_simps)
  then obtain w' where "renew_once demo_api ''a'' 15 expired_world = (Inr (), w')" ..
  with renew_once_safe [OF demo_optimistic this] show ?thesis by blast
qed

theorem release_lease_safe_witness:
  "\<exists>w' h l pre rest. release_lease demo_api ''a'' 5 expired_world = (Inr Released, w') \<and>
     demo_hist w' = h @ l # pre # rest \<and> held_by_us pre ''a'' \<and> is_vacant l"
proof -
  have "\<exists>w'. release_lease demo_api ''a'' 5 expired_world = (Inr Released, w')"
    by (simp add: release_lease_def demo_simps)
  then obtain w' where "release_lease demo_api ''a'' 5 expired_world = (Inr Released, w')" ..
  with release_lease_safe [OF demo_optimistic this] show ?thesis by blast
qed

theorem lease_protected_until_expiry_witness:
  "is_claimable \<lparr>resource_version = None, spec = Some held_by_a\<rparr> 0 (16 * nanos_per_sec)
     \<longleftrightarrow> as_second 0 + 15 < as_second (16 * nanos_per_sec)"
  by (rule lease_protected_until_expiry [where s = held_by_a and h = "''a''"])
     (simp_all add: held_by_a_def)

definition accepting_api :: "lease \<Rightarrow> unit lease_api" where
  "accepting_api l = \<lparr>get_opt = (\<lambda>w. (Inr (Some l), w)), create = (\<lambda>_ w. (Inr (), w)),
     replace = (\<lambda>_ w. (Inr (), w)), now = (\<lambda>w. (0, w)), instant = (\<lambda>w. (0, w)), sleep = (\<lambda>_ w. w)\<rparr>"

theorem released_lease_taken_at_once_witness:
  "\<exists>l'. released \<lparr>resource_version = None, spec = Some held_by_a\<rparr> ''a'' 5 = Some l' \<and>
     is_claimable l' 0 5 \<and>
     (\<exists>w'. acquire_turn (accepting_api l') ''b'' 15 15 2 () = (Inr True, w'))"
proof -
  obtain l' where rel: "released \<lparr>resource_version = None, spec = Some held_by_a\<rparr> ''a'' 5 = Some l'"
    by (simp add: demo_simps)
  from released_lease_taken_at_once [OF rel, of "accepting_api l'" "()" "()"] rel
  show ?thesis by (auto simp: accepting_api_def)
qed

definition unreachable_api :: "int \<Rightarrow> unit lease_api" where
  "unreachable_api t = \<lparr>get_opt = (\<lambda>w. (Inl (TransportFailure ''timeout''), w)),
     create = (\<lambda>_ w. (Inl (TransportFailure ''timeout''), w)),
     replace = (\<lambda>_ w. (Inl (TransportFailure ''timeout''), w)),
     now = (\<lambda>w. (t, w)), instant = (\<lambda>w. (t, w)), sleep = (\<lambda>_ w. w)\<rparr>"

theorem renewal_deadline_overlaps_expiry_witness:
  "is_claimable \<lparr>resource_version = None, spec = Some held_by_a\<rparr> 0 (from_secs 16) \<and>
   renew_turn (unreachable_api (from_secs 16)) ''a'' (from_secs 15) 0 15 (from_secs 2) () =
     (Inr (from_secs 2), ())"
  by (rule renewal_deadline_overlaps_expiry [where s = held_by_a and r = 0 and d = 15 and
        e = "TransportFailure ''timeout''" and ?w1.0 = "()"])
     (simp_all add: held_by_a_def unreachable_api_def from_secs_def nanos_per_sec_def)

end
