(* ===== verification/Rebalancer_Client.thy ===== *)
theory Rebalancer_Client
  imports Kube_Objects
begin

text \<open>
  \<open>rebalancer_client.rs\<close>: the Connect client of the rebalancer service and
  the decoding of its proto3 JSON. The HTTP stack and the JSON parser are
  library code, so they are the argument \<open>transport\<close> of the calls.
\<close>

section \<open>JSON values\<close>

datatype json_number = JInt int | JFloat string

datatype json =
    JNull
  | JBool bool
  | JNum json_number
  | JStr string
  | JArr "json list"
  | JObj "(string \<times> json) list"

definition as_i64 :: "json_number \<Rightarrow> int option" where
  "as_i64 n =
     (case n of
        JInt v \<Rightarrow> if - (2 ^ 63) \<le> v \<and> v < 2 ^ 63 then Some v else None
      | JFloat _ \<Rightarrow> None)"

definition json_get :: "json \<Rightarrow> string \<Rightarrow> json option" where
  "json_get v k = (case v of JObj fs \<Rightarrow> map_of fs k | _ \<Rightarrow> None)"

definition as_str :: "json \<Rightarrow> string option" where
  "as_str v = (case v of JStr s \<Rightarrow> Some s | _ \<Rightarrow> None)"

definition as_array :: "json \<Rightarrow> json list option" where
  "as_array v = (case v of JArr vs \<Rightarrow> Some vs | _ \<Rightarrow> None)"

section \<open>Proposals\<close>

datatype kafka_rebalance_mode = Full | RemoveBrokers | AddBrokers

datatype proposal_status = Unspecified | Computed | Executing | Completed | Failed | Cancelled

record proposal_summary =
  replica_movements :: int
  leader_movements :: int
  max_replicas_before :: int
  max_replicas_after :: int
  max_leaders_before :: int
  max_leaders_after :: int

record rebalancer_proposal =
  prop_id :: string
  prop_status :: proposal_status
  prop_summary :: proposal_summary
  goals_applied :: "string list"
  movement_count :: nat
  failure_reason :: "string option"

datatype rebalancer_error = Transport string | Rpc string string | Decode string

definition rebalancer_error_text :: "rebalancer_error \<Rightarrow> string" where
  "rebalancer_error_text e =
     (case e of
        Transport m \<Rightarrow> ''rebalancer transport error: '' @ m
      | Rpc code m \<Rightarrow> ''rebalancer rpc error ['' @ code @ '']: '' @ m
      | Decode m \<Rightarrow> ''rebalancer response decode error: '' @ m)"

definition status_from_json :: "json \<Rightarrow> proposal_status" where
  "status_from_json v =
     (case v of
        JStr s \<Rightarrow>
          if s = ''PROPOSAL_STATUS_COMPUTED'' then Computed
          else if s = ''PROPOSAL_STATUS_EXECUTING'' then Executing
          else if s = ''PROPOSAL_STATUS_COMPLETED'' then Completed
          else if s = ''PROPOSAL_STATUS_FAILED'' then Failed
          else if s = ''PROPOSAL_STATUS_CANCELLED'' then Cancelled
          else Unspecified
      | JNum n \<Rightarrow>
          if as_i64 n = Some 1 then Computed
          else if as_i64 n = Some 2 then Executing
          else if as_i64 n = Some 3 then Completed
          else if as_i64 n = Some 4 then Failed
          else if as_i64 n = Some 5 then Cancelled
          else Unspecified
      | _ \<Rightarrow> Unspecified)"

definition json_i32 :: "json \<Rightarrow> string \<Rightarrow> string \<Rightarrow> int" where
  "json_i32 obj camel snake =
     (case or_else (json_get obj camel) (json_get obj snake) of
        Some (JNum n) \<Rightarrow>
          unwrap_or 0 (Option.bind (as_i64 n) (\<lambda>v. if in_i32 v then Some v else None))
      | Some (JStr s) \<Rightarrow> unwrap_or 0 (parse_i32 s)
      | _ \<Rightarrow> 0)"

definition summary_from_json :: "json \<Rightarrow> proposal_summary" where
  "summary_from_json summary = \<lparr>
     replica_movements = json_i32 summary ''replicaMovements'' ''replica_movements'',
     leader_movements = json_i32 summary ''leaderMovements'' ''leader_movements'',
     max_replicas_before = json_i32 summary ''maxReplicasBefore'' ''max_replicas_before'',
     max_replicas_after = json_i32 summary ''maxReplicasAfter'' ''max_replicas_after'',
     max_leaders_before = json_i32 summary ''maxLeadersBefore'' ''max_leaders_before'',
     max_leaders_after = json_i32 summary ''maxLeadersAfter'' ''max_leaders_after''\<rparr>"

definition proposal_from_json :: "json \<Rightarrow> rebalancer_proposal" where
  "proposal_from_json body =
     (let p = unwrap_or body (json_get body ''proposal'');
          summary = unwrap_or JNull (json_get p ''summary'')
      in \<lparr>prop_id = unwrap_or [] (Option.bind (json_get p ''id'') as_str),
          prop_status = status_from_json (unwrap_or JNull (json_get p ''status'')),
          prop_summary = summary_from_json summary,
          goals_applied = unwrap_or [] (map_option (List.map_filter as_str)
             (Option.bind (or_else (json_get p ''goalsApplied'') (json_get p ''goals_applied'')) as_array)),
          movement_count = unwrap_or 0 (map_option length
             (Option.bind (json_get p ''movements'') as_array)),
          failure_reason = Option.bind (or_else (json_get p ''failureReason'')
             (json_get p ''failure_reason'')) as_str\<rparr>)"

section \<open>Requests\<close>

record http_request =
  req_url :: string
  req_body :: json
  req_bearer :: "string option"

record transport =
  http_send :: "http_request \<Rightarrow> string + nat \<times> string"
  json_from_str :: "string \<Rightarrow> string + json"

definition service_path :: string where
  "service_path = ''krabka.rebalancer.v1.Rebalancer''"

definition execute_body :: "string \<Rightarrow> int option \<Rightarrow> json" where
  "execute_body i throttle =
     JObj ([(''id'', JStr i)]
       @ (case throttle of None \<Rightarrow> [] | Some r \<Rightarrow> [(''throttleBytesPerSec'', JStr (int_to_string r))]))"

definition create_proposal_body :: "kafka_rebalance_mode \<Rightarrow> int list \<Rightarrow> string list \<Rightarrow> json" where
  "create_proposal_body mode brokers goals =
     JObj [(''mode'', JStr (case mode of
                Full \<Rightarrow> ''PROPOSAL_MODE_FULL''
              | RemoveBrokers \<Rightarrow> ''PROPOSAL_MODE_REMOVE_BROKERS''
              | AddBrokers \<Rightarrow> ''PROPOSAL_MODE_ADD_BROKERS'')),
           (''brokers'', JArr (map (\<lambda>b. JNum (JInt b)) brokers)),
           (''goals'', JArr (map JStr goals))]"

definition connect_error :: "transport \<Rightarrow> string \<Rightarrow> nat \<Rightarrow> rebalancer_error" where
  "connect_error tr text http_status =
     (let parsed = result_ok (json_from_str tr text);
          code = unwrap_or (''http_'' @ nat_to_string http_status)
             (Option.bind (Option.bind parsed (\<lambda>v. json_get v ''code'')) as_str);
          message = unwrap_or (trim_str text)
             (Option.bind (Option.bind parsed (\<lambda>v. json_get v ''message'')) as_str)
      in Rpc code message)"

definition base_url_of :: "string \<Rightarrow> string" where
  "base_url_of u = rev (dropWhile (\<lambda>c. c = CHR ''/'') (rev u))"

definition call ::
  "transport \<Rightarrow> string \<Rightarrow> string \<Rightarrow> json \<Rightarrow> string option \<Rightarrow> rebalancer_error + json" where
  "call tr base_url method body token =
     (case http_send tr \<lparr>req_url = base_url @ ''/'' @ service_path @ ''/'' @ method,
                         req_body = body, req_bearer = token\<rparr> of
        Inl e \<Rightarrow> Inl (Transport e)
      | Inr (status, text) \<Rightarrow>
          if 200 \<le> status \<and> status < 300
          then (case json_from_str tr text of Inl e \<Rightarrow> Inl (Decode e) | Inr v \<Rightarrow> Inr v)
          else Inl (connect_error tr text status))"

datatype rpc_call =
    CreateProposalCall kafka_rebalance_mode "int list" "string list" "string option"
  | GetProposalCall string
  | ExecuteProposalCall string "int option" "string option"
  | CancelExecutionCall string

text \<open>The four methods of \<open>ConnectRebalancerClient\<close>.\<close>

definition send_call :: "transport \<Rightarrow> string \<Rightarrow> rpc_call \<Rightarrow> rebalancer_error + rebalancer_proposal" where
  "send_call tr base_url c =
     bind_result
       (case c of
          CreateProposalCall mode brokers goals token \<Rightarrow>
            call tr base_url ''CreateProposal'' (create_proposal_body mode brokers goals) token
        | GetProposalCall i \<Rightarrow> call tr base_url ''GetProposal'' (JObj [(''id'', JStr i)]) None
        | ExecuteProposalCall i throttle token \<Rightarrow>
            call tr base_url ''ExecuteProposal'' (execute_body i throttle) token
        | CancelExecutionCall i \<Rightarrow> call tr base_url ''CancelExecution'' (JObj [(''id'', JStr i)]) None)
       (\<lambda>v. Inr (proposal_from_json v))"

section \<open>Decoding what the service encodes\<close>

text \<open>The proto3 JSON form of a proposal, as the header of the source file
  describes it: lowerCamelCase names, enum names, and default values left out.\<close>

definition status_json :: "proposal_status \<Rightarrow> json" where
  "status_json s =
     JStr (case s of
        Unspecified \<Rightarrow> ''PROPOSAL_STATUS_UNSPECIFIED''
      | Computed \<Rightarrow> ''PROPOSAL_STATUS_COMPUTED''
      | Executing \<Rightarrow> ''PROPOSAL_STATUS_EXECUTING''
      | Completed \<Rightarrow> ''PROPOSAL_STATUS_COMPLETED''
      | Failed \<Rightarrow> ''PROPOSAL_STATUS_FAILED''
      | Cancelled \<Rightarrow> ''PROPOSAL_STATUS_CANCELLED'')"

definition int_field :: "string \<Rightarrow> int \<Rightarrow> (string \<times> json) list" where
  "int_field k v = (if v = 0 then [] else [(k, JNum (JInt v))])"

definition summary_json :: "proposal_summary \<Rightarrow> json" where
  "summary_json s =
     JObj (int_field ''replicaMovements'' (replica_movements s)
         @ int_field ''leaderMovements'' (leader_movements s)
         @ int_field ''maxReplicasBefore'' (max_replicas_before s)
         @ int_field ''maxReplicasAfter'' (max_replicas_after s)
         @ int_field ''maxLeadersBefore'' (max_leaders_before s)
         @ int_field ''maxLeadersAfter'' (max_leaders_after s))"

definition proposal_json :: "json list \<Rightarrow> rebalancer_proposal \<Rightarrow> json" where
  "proposal_json movements p =
     JObj ((if prop_id p = [] then [] else [(''id'', JStr (prop_id p))])
         @ (if prop_status p = Unspecified then [] else [(''status'', status_json (prop_status p))])
         @ [(''summary'', summary_json (prop_summary p))]
         @ (if goals_applied p = [] then [] else [(''goalsApplied'', JArr (map JStr (goals_applied p)))])
         @ (if movements = [] then [] else [(''movements'', JArr movements)])
         @ (case failure_reason p of None \<Rightarrow> [] | Some r \<Rightarrow> [(''failureReason'', JStr r)]))"

definition summary_in_range :: "proposal_summary \<Rightarrow> bool" where
  "summary_in_range s \<longleftrightarrow>
     in_i32 (replica_movements s) \<and> in_i32 (leader_movements s) \<and>
     in_i32 (max_replicas_before s) \<and> in_i32 (max_replicas_after s) \<and>
     in_i32 (max_leaders_before s) \<and> in_i32 (max_leaders_after s)"

lemma status_json_roundtrip [simp]: "status_from_json (status_json s) = s"
  by (cases s) (simp_all add: status_from_json_def status_json_def)

lemma map_of_int_field [simp]:
  "map_of (int_field k v) = (if v = 0 then Map.empty else [k \<mapsto> JNum (JInt v)])"
  by (simp add: int_field_def)

lemma as_i64_in_i32: "in_i32 v \<Longrightarrow> as_i64 (JInt v) = Some v"
  by (simp add: in_i32_def as_i64_def)

lemma summary_roundtrip: "summary_in_range s \<Longrightarrow> summary_from_json (summary_json s) = s"
  by (cases s)
     (simp add: summary_from_json_def summary_json_def json_i32_def json_get_def map_add_def
        summary_in_range_def as_i64_in_i32)

lemma map_filter_JStr [simp]: "List.map_filter as_str (map JStr gs) = gs"
  by (induction gs) (simp_all add: as_str_def)

lemma json_get_fields: "json_get (JObj fs) k = map_of fs k"
  by (simp add: json_get_def)

lemma proposal_json_fields:
  "json_get (proposal_json ms p) ''proposal'' = None"
  "json_get (proposal_json ms p) ''id'' = (if prop_id p = [] then None else Some (JStr (prop_id p)))"
  "json_get (proposal_json ms p) ''status'' =
     (if prop_status p = Unspecified then None else Some (status_json (prop_status p)))"
  "json_get (proposal_json ms p) ''summary'' = Some (summary_json (prop_summary p))"
  "json_get (proposal_json ms p) ''goalsApplied'' =
     (if goals_applied p = [] then None else Some (JArr (map JStr (goals_applied p))))"
  "json_get (proposal_json ms p) ''goals_applied'' = None"
  "json_get (proposal_json ms p) ''movements'' = (if ms = [] then None else Some (JArr ms))"
  "json_get (proposal_json ms p) ''failureReason'' = map_option JStr (failure_reason p)"
  "json_get (proposal_json ms p) ''failure_reason'' = None"
  by (simp_all add: proposal_json_def json_get_fields split: option.splits)

lemma status_default [simp]: "status_from_json JNull = Unspecified"
  by (simp add: status_from_json_def)

lemma proposal_unwraps:
  assumes "json_get p ''proposal'' = None"
  shows "proposal_from_json (JObj [(''proposal'', p)]) = proposal_from_json p"
  using assms by (simp add: proposal_from_json_def json_get_fields)

lemma reason_decode [simp]: "Option.bind (or_else (map_option JStr r) None) as_str = r"
  by (cases r) (simp_all add: as_str_def)

lemma proposal_decode:
  assumes "summary_in_range (prop_summary p)" "movement_count p = length ms"
  shows "proposal_from_json (proposal_json ms p) = p"
  using assms
  by (cases p)
     (auto simp: proposal_from_json_def proposal_json_fields summary_roundtrip Let_def as_array_def
        as_str_def split: option.splits)

text \<open>decoding a proposal gives back what the rebalancer encoded, whether
  the service answers with the proposal itself (create, get) or wraps it under
  \<open>proposal\<close> (execute, cancel), and with default-valued fields left out. Every
  counter must fit the 32 bits of its protobuf field.\<close>

theorem proposal_roundtrip:
  assumes "summary_in_range (prop_summary p)" "movement_count p = length ms"
  shows "proposal_from_json (proposal_json ms p) = p \<and>
         proposal_from_json (JObj [(''proposal'', proposal_json ms p)]) = p"
  using assms by (simp add: proposal_unwraps proposal_json_fields proposal_decode)

definition sample_proposal :: rebalancer_proposal where
  "sample_proposal = \<lparr>prop_id = ''p-1'', prop_status = Computed,
     prop_summary = \<lparr>replica_movements = 12, leader_movements = 0, max_replicas_before = 40,
       max_replicas_after = 33, max_leaders_before = 9, max_leaders_after = 7\<rparr>,
     goals_applied = [''RackAware''], movement_count = 1, failure_reason = None\<rparr>"

theorem proposal_roundtrip_witness:
  "proposal_from_json (proposal_json [JNull] sample_proposal) = sample_proposal \<and>
   proposal_from_json (JObj [(''proposal'', proposal_json [JNull] sample_proposal)]) = sample_proposal"
  by (rule proposal_roundtrip)
     (simp_all add: sample_proposal_def summary_in_range_def in_i32_def)

end
