(* ===== verification/Rebalance.thy ===== *)
theory Rebalance
  imports Rebalancer_Client
begin

text \<open>
  \<open>controller/rebalance.rs\<close>: the annotation-driven life cycle of a
  \<open>KafkaRebalance\<close>. One reconcile pass reads the object, decides on at most one
  call to the rebalancer, and persists the outcome. The environment of a pass
  says what the Secret read, the call and the two patches answer; the effects
  of a pass are the calls sent and the patches accepted.
\<close>

section \<open>Data\<close>

datatype rebalance_state = New | ProposalReady | Rebalancing | Ready | NotReady | Stopped

datatype rebalance_command = Approve | Refresh | Stop

datatype rebalance_action = CreateProposal | Execute | PollExecution | Cancel | Idle

record optimization_result =
  opt_replica_movements :: int
  opt_leader_movements :: int
  opt_max_replicas_before :: int
  opt_max_replicas_after :: int
  opt_max_leaders_before :: int
  opt_max_leaders_after :: int
  opt_goals :: "string list"

record kafka_rebalance_spec =
  kr_mode :: kafka_rebalance_mode
  kr_brokers :: "int list"
  kr_secret_ref :: "(string \<times> string) option"
  kr_goals :: "string list option"
  kr_throttle :: "int option"
  kr_endpoint :: "string option"

record kafka_rebalance_status =
  kr_conditions :: "kafka_condition list"
  kr_observed_generation :: "int option"
  kr_session_id :: "string option"
  kr_optimization :: "optimization_result option"

record kafka_rebalance =
  kr_meta :: object_meta
  kr_spec :: kafka_rebalance_spec
  kr_status :: "kafka_rebalance_status option"

record rebalance_config =
  rebalancer_idle_interval :: time
  rebalancer_poll_interval :: time
  controller_error_requeue :: time

record rebalance_outcome =
  out_state :: rebalance_state
  out_reason :: string
  out_message :: string
  out_requeue :: time
  new_session :: "string option"
  new_optimization :: "optimization_result option"
  advance_generation :: bool

section \<open>Reading the object\<close>

definition rebalance_state_str :: "rebalance_state \<Rightarrow> string" where
  "rebalance_state_str s =
     (case s of New \<Rightarrow> ''New'' | ProposalReady \<Rightarrow> ''ProposalReady'' | Rebalancing \<Rightarrow> ''Rebalancing''
      | Ready \<Rightarrow> ''Ready'' | NotReady \<Rightarrow> ''NotReady'' | Stopped \<Rightarrow> ''Stopped'')"

definition from_condition_type :: "string \<Rightarrow> rebalance_state option" where
  "from_condition_type t =
     (if t = ''New'' then Some New else if t = ''ProposalReady'' then Some ProposalReady
      else if t = ''Rebalancing'' then Some Rebalancing else if t = ''Ready'' then Some Ready
      else if t = ''NotReady'' then Some NotReady else if t = ''Stopped'' then Some Stopped
      else None)"

definition parse_command :: "string \<Rightarrow> rebalance_command option" where
  "parse_command v =
     (let t = trim_str v in
      if t = ''approve'' then Some Approve else if t = ''refresh'' then Some Refresh
      else if t = ''stop'' then Some Stop else None)"

definition rebalance_annotation :: string where
  "rebalance_annotation = ''krabka.io/rebalance''"

definition active_of :: "kafka_condition list \<Rightarrow> kafka_condition option" where
  "active_of cs = find (\<lambda>c. cond_status c = ''True'') (rev cs)"

definition current_state :: "kafka_rebalance \<Rightarrow> rebalance_state" where
  "current_state obj =
     unwrap_or New
       (Option.bind (active_of (case kr_status obj of None \<Rightarrow> [] | Some s \<Rightarrow> kr_conditions s))
          (\<lambda>c. from_condition_type (cond_type c)))"

definition read_command :: "kafka_rebalance \<Rightarrow> rebalance_command option" where
  "read_command obj = Option.bind (meta_annotation (kr_meta obj) rebalance_annotation) parse_command"

definition session_of :: "kafka_rebalance \<Rightarrow> string option" where
  "session_of obj = Option.bind (kr_status obj) kr_session_id"

section \<open>Deciding\<close>

definition decide :: "rebalance_state \<Rightarrow> rebalance_command option \<Rightarrow> bool \<Rightarrow> rebalance_action" where
  "decide state command has_session =
     (case command of
        Some Refresh \<Rightarrow> CreateProposal
      | Some Stop \<Rightarrow> if state = Rebalancing \<and> has_session then Cancel else Idle
      | Some Approve \<Rightarrow> if state = ProposalReady \<and> has_session then Execute else Idle
      | None \<Rightarrow>
          (case state of
             New \<Rightarrow> CreateProposal
           | Rebalancing \<Rightarrow> if has_session then PollExecution else CreateProposal
           | ProposalReady \<Rightarrow> Idle | Ready \<Rightarrow> Idle | NotReady \<Rightarrow> Idle | Stopped \<Rightarrow> Idle))"

section \<open>Outcomes\<close>

definition optimization_result_from :: "rebalancer_proposal \<Rightarrow> optimization_result" where
  "optimization_result_from p = \<lparr>
     opt_replica_movements = replica_movements (prop_summary p),
     opt_leader_movements = leader_movements (prop_summary p),
     opt_max_replicas_before = max_replicas_before (prop_summary p),
     opt_max_replicas_after = max_replicas_after (prop_summary p),
     opt_max_leaders_before = max_leaders_before (prop_summary p),
     opt_max_leaders_after = max_leaders_after (prop_summary p),
     opt_goals = goals_applied p\<rparr>"

definition transient :: "rebalance_state \<Rightarrow> string \<Rightarrow> string \<Rightarrow> time \<Rightarrow> rebalance_outcome" where
  "transient state reason message delay = \<lparr>
     out_state = state, out_reason = reason, out_message = message, out_requeue = delay,
     new_session = None, new_optimization = None, advance_generation = False\<rparr>"

definition from_create :: "rebalancer_proposal \<Rightarrow> time \<Rightarrow> rebalance_outcome" where
  "from_create p idle_interval =
     (case prop_status p of
        Computed \<Rightarrow> \<lparr>
          out_state = ProposalReady, out_reason = ''ProposalReady'',
          out_message = ''proposal '' @ prop_id p @ '' computed: ''
            @ int_to_string (replica_movements (prop_summary p)) @ '' replica / ''
            @ int_to_string (leader_movements (prop_summary p)) @ '' leader movements'',
          out_requeue = idle_interval, new_session = Some (prop_id p),
          new_optimization = Some (optimization_result_from p), advance_generation = True\<rparr>
      | Completed \<Rightarrow> \<lparr>
          out_state = Ready, out_reason = ''AlreadyBalanced'',
          out_message = ''proposal '' @ prop_id p @ '' required no movements'',
          out_requeue = idle_interval, new_session = Some (prop_id p),
          new_optimization = Some (optimization_result_from p), advance_generation = True\<rparr>
      | _ \<Rightarrow> \<lparr>
          out_state = NotReady, out_reason = ''UnexpectedProposalStatus'',
          out_message = ''CreateProposal returned non-Computed status for '' @ prop_id p,
          out_requeue = idle_interval, new_session = Some (prop_id p),
          new_optimization = None, advance_generation = False\<rparr>)"

definition from_execute_or_poll ::
  "rebalancer_proposal \<Rightarrow> time \<Rightarrow> time \<Rightarrow> rebalance_outcome" where
  "from_execute_or_poll p poll_interval idle_interval =
     (case prop_status p of
        Executing \<Rightarrow> transient Rebalancing ''Rebalancing'' (''executing proposal '' @ prop_id p) poll_interval
      | Computed \<Rightarrow> transient Rebalancing ''Rebalancing'' (''executing proposal '' @ prop_id p) poll_interval
      | Completed \<Rightarrow> transient Ready ''Ready'' (''proposal '' @ prop_id p @ '' completed'') idle_interval
      | Failed \<Rightarrow> transient NotReady ''RebalanceFailed''
          (unwrap_or (''proposal '' @ prop_id p @ '' failed'') (failure_reason p)) idle_interval
      | Cancelled \<Rightarrow> transient Stopped ''Stopped'' (''proposal '' @ prop_id p @ '' cancelled'') idle_interval
      | Unspecified \<Rightarrow> transient NotReady ''UnexpectedProposalStatus''
          (''proposal '' @ prop_id p @ '' reported an unknown status'') idle_interval)"

definition from_cancel :: "rebalancer_proposal \<Rightarrow> time \<Rightarrow> rebalance_outcome" where
  "from_cancel p idle_interval =
     transient Stopped ''Stopped'' (''execution of proposal '' @ prop_id p @ '' cancelled'') idle_interval"

definition retryable_rpc_codes :: "string list" where
  "retryable_rpc_codes =
     [''failed_precondition'', ''unavailable'', ''aborted'', ''resource_exhausted'',
      ''deadline_exceeded'', ''http_502'', ''http_503'', ''http_504'']"

definition is_retryable :: "rebalancer_error \<Rightarrow> bool" where
  "is_retryable e =
     (case e of Transport _ \<Rightarrow> True | Rpc code _ \<Rightarrow> code \<in> set retryable_rpc_codes | Decode _ \<Rightarrow> False)"

definition from_rpc_error ::
  "rebalance_action \<Rightarrow> rebalancer_error \<Rightarrow> time \<Rightarrow> time \<Rightarrow> rebalance_outcome" where
  "from_rpc_error action e retry_interval idle_interval =
     (if action = CreateProposal \<and> is_retryable e
      then transient New ''RetryingProposal''
             (''CreateProposal will retry: '' @ rebalancer_error_text e) retry_interval
      else transient NotReady ''RebalancerError'' (rebalancer_error_text e) idle_interval)"

section \<open>The endpoint guard\<close>

definition cluster_internal_suffixes :: "string list" where
  "cluster_internal_suffixes = [''.svc'', ''.svc.cluster.local'', ''.cluster.local'']"

definition authority_of :: "string \<Rightarrow> string" where
  "authority_of rest = takeWhile (\<lambda>c. c \<notin> {CHR ''/'', CHR ''?'', CHR ''#''}) rest"

definition drop_userinfo :: "string \<Rightarrow> string" where
  "drop_userinfo authority =
     (case rsplit_once (CHR ''@'') authority of None \<Rightarrow> authority | Some (_, hp) \<Rightarrow> hp)"

definition host_of :: "string \<Rightarrow> string" where
  "host_of host_port =
     (case rsplit_once (CHR '':'') host_port of
        Some (h, port) \<Rightarrow> if port \<noteq> [] \<and> list_all is_ascii_digit port then h else host_port
      | None \<Rightarrow> host_port)"

definition is_ip_literal :: "string \<Rightarrow> bool" where
  "is_ip_literal host \<longleftrightarrow>
     list_all (\<lambda>seg. seg \<noteq> [] \<and> list_all is_ascii_digit seg) (split_on (CHR ''.'') host)"

definition suffix_list_text :: string where
  "suffix_list_text = [CHR 0x5B] @ debug_str ''.svc'' @ '', '' @ debug_str ''.svc.cluster.local'' @ '', ''
     @ debug_str ''.cluster.local'' @ [CHR 0x5D]"

definition validate_endpoint :: "string \<Rightarrow> string + unit" where
  "validate_endpoint endpoint =
     (case split_once ''://'' endpoint of
        None \<Rightarrow> Inl (''spec.endpoint '' @ debug_str endpoint @ '' is not an absolute http(s) URL'')
      | Some (scheme, rest) \<Rightarrow>
          if \<not> eq_ignore_ascii_case scheme ''http'' \<and> \<not> eq_ignore_ascii_case scheme ''https'' then
            Inl (''spec.endpoint scheme '' @ debug_str scheme
                 @ '' is not allowed; only http/https are permitted'')
          else
            let host_port = drop_userinfo (authority_of rest) in
            if host_port \<noteq> [] \<and> hd host_port = CHR 0x5B then
              Inl (''spec.endpoint host ''
                   @ debug_str (takeWhile (\<lambda>c. c \<noteq> CHR 0x5D) (tl host_port))
                   @ '' is an IP literal; only cluster-internal DNS names are allowed'')
            else
              let host = host_of host_port in
              if host = [] then Inl (''spec.endpoint '' @ debug_str endpoint @ '' has no host'')
              else if is_ip_literal host then
                Inl (''spec.endpoint host '' @ debug_str host
                     @ '' is an IP literal; only cluster-internal DNS names are allowed'')
              else if list_ex (\<lambda>s. ends_with s (to_ascii_lowercase host)) cluster_internal_suffixes
              then Inr ()
              else Inl (''spec.endpoint host '' @ debug_str host
                        @ '' is not cluster-internal; it must end in one of '' @ suffix_list_text))"

definition cluster_label :: "kafka_rebalance \<Rightarrow> string option" where
  "cluster_label obj = meta_label (kr_meta obj) ''krabka.io/cluster''"

definition resolve_endpoint :: "kafka_rebalance \<Rightarrow> string \<Rightarrow> string + string option" where
  "resolve_endpoint obj namespace =
     (case kr_endpoint (kr_spec obj) of
        Some ep \<Rightarrow>
          if ep \<noteq> [] then bind_result (validate_endpoint ep) (\<lambda>_. Inr (Some ep))
          else Inr (case cluster_label obj of
                      Some c \<Rightarrow> if c \<noteq> [] then Some (''http://'' @ c @ ''-rebalancer.'' @ namespace
                                  @ ''.svc.cluster.local:9300'') else None
                    | None \<Rightarrow> None)
      | None \<Rightarrow> Inr (case cluster_label obj of
                      Some c \<Rightarrow> if c \<noteq> [] then Some (''http://'' @ c @ ''-rebalancer.'' @ namespace
                                  @ ''.svc.cluster.local:9300'') else None
                    | None \<Rightarrow> None))"

section \<open>One reconcile pass\<close>

record rebalance_env =
  env_now :: string
  env_get_secret :: "string \<Rightarrow> kube_error + secret option"
  env_rpc :: "string \<Rightarrow> rpc_call \<Rightarrow> rebalancer_error + rebalancer_proposal"
  env_patch_annotation :: "kube_error option"
  env_patch_status :: "kube_error option"

datatype kr_effect =
    SendRpc string rpc_call
  | RemoveCommand
  | PatchStatus kafka_rebalance_status
  | DropClient string

definition resolve_evacuation_credential ::
  "rebalance_env \<Rightarrow> kafka_rebalance \<Rightarrow> reconcile_error + (string \<times> string) + string" where
  "resolve_evacuation_credential env obj =
     (let reference = or_else (kr_secret_ref (kr_spec obj))
            (map_option (\<lambda>c. (c @ ''-rebalancer-auth'', ''token'')) (cluster_label obj))
      in case reference of
           None \<Rightarrow> Inr (Inl (''MissingAuthorizationSecretRef'',
             ''removeBrokers requires spec.authorizationSecretRef or a krabka.io/cluster label''))
         | Some (name, key) \<Rightarrow>
             (case env_get_secret env name of
                Inl e \<Rightarrow> Inl (Kube e)
              | Inr None \<Rightarrow> Inr (Inl (''MissingAuthorizationSecret'',
                  ''removeBrokers authorization Secret '' @ debug_str name @ '' was not found''))
              | Inr (Some sec) \<Rightarrow>
                  (case secret_value sec key of
                     None \<Rightarrow> Inr (Inl (''InvalidAuthorizationSecret'',
                       ''removeBrokers authorization Secret '' @ debug_str name @ '' has no key ''
                       @ debug_str key))
                   | Some bytes \<Rightarrow>
                       (case from_utf8 bytes of
                          Inr token \<Rightarrow>
                            if token \<noteq> [] then Inr (Inr token)
                            else Inr (Inl (''InvalidAuthorizationSecret'',
                              ''removeBrokers authorization Secret '' @ debug_str name @ '' key ''
                              @ debug_str key @ '' is empty''))
                        | Inl e \<Rightarrow> Inr (Inl (''InvalidAuthorizationSecret'',
                            ''removeBrokers authorization Secret '' @ debug_str name @ '' key ''
                            @ debug_str key @ '' is not UTF-8: '' @ e))))))"

definition active_condition ::
  "string \<Rightarrow> kafka_rebalance_status option \<Rightarrow> rebalance_outcome \<Rightarrow> kafka_condition" where
  "active_condition t existing out =
     (let active = condition t (rebalance_state_str (out_state out)) ''True'' (out_reason out)
                     (out_message out)
      in case Option.bind existing (\<lambda>s. active_of (kr_conditions s)) of
           Some previous \<Rightarrow>
             if cond_type previous = cond_type active
             then active\<lparr>cond_last_transition_time := cond_last_transition_time previous\<rparr>
             else active
         | None \<Rightarrow> active)"

definition status_body :: "string \<Rightarrow> kafka_rebalance \<Rightarrow> rebalance_outcome \<Rightarrow> kafka_rebalance_status" where
  "status_body t obj out = \<lparr>
     kr_conditions = [active_condition t (kr_status obj) out],
     kr_observed_generation =
       (if advance_generation out then meta_generation (kr_meta obj)
        else Option.bind (kr_status obj) kr_observed_generation),
     kr_session_id = or_else (new_session out) (session_of obj),
     kr_optimization = or_else (new_optimization out) (Option.bind (kr_status obj) kr_optimization)\<rparr>"

definition write_status ::
  "rebalance_env \<Rightarrow> kafka_rebalance \<Rightarrow> rebalance_outcome \<Rightarrow> (reconcile_error, unit, kr_effect) logged" where
  "write_status env obj out =
     attempt Kube (env_patch_status env) (PatchStatus (status_body (env_now env) obj out))"

definition remove_command_annotation ::
  "rebalance_env \<Rightarrow> (reconcile_error, unit, kr_effect) logged" where
  "remove_command_annotation env = attempt Kube (env_patch_annotation env) RemoveCommand"

definition report ::
  "rebalance_config \<Rightarrow> rebalance_env \<Rightarrow> kafka_rebalance \<Rightarrow> string \<Rightarrow> string
     \<Rightarrow> (reconcile_error, action, kr_effect) logged" where
  "report cfg env obj reason message =
     then_log (write_status env obj
                 (transient NotReady reason message (rebalancer_idle_interval cfg)))
       (ret_log (requeue (rebalancer_idle_interval cfg)))"

text \<open>Step 4 of the pass: the call of an action, and how its answer is read.\<close>

definition rpc_for ::
  "kafka_rebalance \<Rightarrow> rebalance_action \<Rightarrow> string option \<Rightarrow> rpc_call option" where
  "rpc_for obj act token =
     (let i = unwrap_or [] (session_of obj) in
      case act of
        CreateProposal \<Rightarrow> Some (CreateProposalCall (kr_mode (kr_spec obj)) (kr_brokers (kr_spec obj))
                                   (unwrap_or [] (kr_goals (kr_spec obj))) token)
      | Execute \<Rightarrow> Some (ExecuteProposalCall i (kr_throttle (kr_spec obj)) token)
      | PollExecution \<Rightarrow> Some (GetProposalCall i)
      | Cancel \<Rightarrow> Some (CancelExecutionCall i)
      | Idle \<Rightarrow> None)"

definition read_answer ::
  "rebalance_config \<Rightarrow> rebalance_action \<Rightarrow> rebalancer_proposal \<Rightarrow> rebalance_outcome" where
  "read_answer cfg act p =
     (case act of
        CreateProposal \<Rightarrow> from_create p (rebalancer_idle_interval cfg)
      | Cancel \<Rightarrow> from_cancel p (rebalancer_idle_interval cfg)
      | _ \<Rightarrow> from_execute_or_poll p (rebalancer_poll_interval cfg) (rebalancer_idle_interval cfg))"

text \<open>Steps 4 to 7 for an action other than \<open>Idle\<close>.\<close>

definition call_and_persist ::
  "rebalance_config \<Rightarrow> rebalance_env \<Rightarrow> kafka_rebalance \<Rightarrow> string \<Rightarrow> rebalance_action
     \<Rightarrow> string option \<Rightarrow> (reconcile_error, action, kr_effect) logged" where
  "call_and_persist cfg env obj endpoint act token =
     (case rpc_for obj act token of
        None \<Rightarrow> fail_log (Panic ''Idle handled above'')
      | Some c \<Rightarrow>
          then_log (emit (SendRpc endpoint c))
            (case env_rpc env endpoint c of
               Inl (Transport m) \<Rightarrow>
                 then_log (emit (DropClient endpoint))
                   (ret_log (requeue (controller_error_requeue cfg)))
             | r \<Rightarrow>
                 (let out = (case r of
                               Inr p \<Rightarrow> read_answer cfg act p
                             | Inl e \<Rightarrow> from_rpc_error act e (controller_error_requeue cfg)
                                          (rebalancer_idle_interval cfg))
                  in then_log (if read_command obj \<noteq> None then remove_command_annotation env
                               else ret_log ())
                       (then_log (write_status env obj out) (ret_log (requeue (out_requeue out)))))))"

definition needs_credential :: "kafka_rebalance \<Rightarrow> rebalance_action \<Rightarrow> bool" where
  "needs_credential obj act \<longleftrightarrow>
     kr_mode (kr_spec obj) = RemoveBrokers \<and> (act = CreateProposal \<or> act = Execute)"

definition reconcile_rebalance ::
  "rebalance_config \<Rightarrow> rebalance_env \<Rightarrow> kafka_rebalance \<Rightarrow> (reconcile_error, action, kr_effect) logged" where
  "reconcile_rebalance cfg env obj =
     (let ns = unwrap_or ''default'' (meta_namespace (kr_meta obj)) in
      case resolve_endpoint obj ns of
        Inl message \<Rightarrow> report cfg env obj ''InvalidEndpoint'' message
      | Inr None \<Rightarrow> report cfg env obj ''MissingEndpoint''
          ''spec.endpoint is unset and no krabka.io/cluster label is present to derive it''
      | Inr (Some endpoint) \<Rightarrow>
          (let command = read_command obj;
               act = decide (current_state obj) command (session_of obj \<noteq> None)
           in if act = Idle then
                then_log (if command \<noteq> None then remove_command_annotation env else ret_log ())
                  (ret_log (requeue (rebalancer_idle_interval cfg)))
              else if needs_credential obj act then
                (case resolve_evacuation_credential env obj of
                   Inl e \<Rightarrow> fail_log e
                 | Inr (Inl (reason, message)) \<Rightarrow> report cfg env obj reason message
                 | Inr (Inr token) \<Rightarrow> call_and_persist cfg env obj endpoint act (Some token))
              else call_and_persist cfg env obj endpoint act None))"

section \<open>The object between passes\<close>

text \<open>
  What the API server makes of the patches. The status patch is a JSON merge
  patch: the condition list and the scalars are replaced, an absent session
  becomes null, and the fields of \<open>optimizationResult\<close> are merged one by one, so a
  \<open>goals\<close> field that the serializer skips because it is empty keeps its old value.
\<close>

definition merge_optimization ::
  "optimization_result option \<Rightarrow> optimization_result option \<Rightarrow> optimization_result option" where
  "merge_optimization old new =
     (case (old, new) of
        (Some o1, Some o2) \<Rightarrow> Some (if opt_goals o2 = [] then o2\<lparr>opt_goals := opt_goals o1\<rparr> else o2)
      | (_, _) \<Rightarrow> new)"

definition merge_status ::
  "kafka_rebalance_status option \<Rightarrow> kafka_rebalance_status \<Rightarrow> kafka_rebalance_status" where
  "merge_status old new =
     new\<lparr>kr_optimization := merge_optimization (Option.bind old kr_optimization) (kr_optimization new)\<rparr>"

definition drop_annotation :: "string \<Rightarrow> object_meta \<Rightarrow> object_meta" where
  "drop_annotation k m = m\<lparr>meta_annotations := map_option (bm_remove k) (meta_annotations m)\<rparr>"

record kr_world =
  w_obj :: kafka_rebalance
  w_history :: "(rpc_call \<times> (rebalancer_error + rebalancer_proposal)) list"

fun apply_effect :: "rebalance_env \<Rightarrow> kr_effect \<Rightarrow> kr_world \<Rightarrow> kr_world" where
  "apply_effect env (SendRpc ep c) w = w\<lparr>w_history := w_history w @ [(c, env_rpc env ep c)]\<rparr>"
| "apply_effect env RemoveCommand w =
     w\<lparr>w_obj := (w_obj w)\<lparr>kr_meta := drop_annotation rebalance_annotation (kr_meta (w_obj w))\<rparr>\<rparr>"
| "apply_effect env (PatchStatus st) w =
     w\<lparr>w_obj := (w_obj w)\<lparr>kr_status := Some (merge_status (kr_status (w_obj w)) st)\<rparr>\<rparr>"
| "apply_effect env (DropClient ep) w = w"

text \<open>
  A step is a pass of the operator, cut off after any number of its effects (the
  process may die between two calls), or an edit of metadata and spec by a user;
  the status subresource belongs to the operator.
\<close>

inductive kr_step :: "rebalance_config \<Rightarrow> kr_world \<Rightarrow> kr_world \<Rightarrow> bool" for cfg where
  kr_pass: "kr_step cfg w
     (fold (apply_effect env) (take n (snd (reconcile_rebalance cfg env (w_obj w)))) w)"
| kr_edit: "kr_status obj = kr_status (w_obj w) \<Longrightarrow> kr_step cfg w (w\<lparr>w_obj := obj\<rparr>)"

inductive_cases kr_stepE: "kr_step cfg w w'"

definition kr_init :: "kr_world \<Rightarrow> bool" where
  "kr_init w \<longleftrightarrow> kr_status (w_obj w) = None \<and> w_history w = []"

definition computed_in :: "(rpc_call \<times> (rebalancer_error + rebalancer_proposal)) list \<Rightarrow> string \<Rightarrow> bool" where
  "computed_in hist i \<longleftrightarrow>
     list_ex (\<lambda>(c, r). case (c, r) of
                (CreateProposalCall _ _ _ _, Inr p) \<Rightarrow> prop_id p = i \<and> prop_status p = Computed
              | _ \<Rightarrow> False) hist"

definition executed_in :: "(rpc_call \<times> (rebalancer_error + rebalancer_proposal)) list \<Rightarrow> string \<Rightarrow> bool" where
  "executed_in hist i \<longleftrightarrow>
     list_ex (\<lambda>(c, r). case c of ExecuteProposalCall j _ _ \<Rightarrow> j = i | _ \<Rightarrow> False) hist"

definition kr_ok ::
  "kafka_rebalance \<Rightarrow> (rpc_call \<times> (rebalancer_error + rebalancer_proposal)) list \<Rightarrow> bool" where
  "kr_ok obj hist \<longleftrightarrow>
     (current_state obj = ProposalReady \<longrightarrow> (\<exists>i. session_of obj = Some i \<and> computed_in hist i)) \<and>
     (current_state obj = Rebalancing \<longrightarrow> (\<exists>i. session_of obj = Some i \<and> executed_in hist i)) \<and>
     (\<forall>i. executed_in hist i \<longrightarrow> computed_in hist i)"

definition kr_inv :: "kr_world \<Rightarrow> bool" where
  "kr_inv w \<longleftrightarrow> kr_ok (w_obj w) (w_history w)"

section \<open>States and their condition types\<close>

interpretation state_text: text_codec rebalance_state_str from_condition_type
  by unfold_locales (auto simp: rebalance_state_str_def from_condition_type_def split: rebalance_state.split)

lemma active_of_single [simp]:
  "active_of [c] = (if cond_status c = ''True'' then Some c else None)"
  by (simp add: active_of_def)

lemma active_condition_parts [simp]:
  "cond_type (active_condition t ex out) = rebalance_state_str (out_state out)"
  "cond_status (active_condition t ex out) = ''True''"
  "cond_reason (active_condition t ex out) = out_reason out"
  "cond_message (active_condition t ex out) = out_message out"
  by (auto simp: active_condition_def condition_def Let_def split: option.splits)

lemma status_body_parts [simp]:
  "kr_conditions (status_body t obj out) = [active_condition t (kr_status obj) out]"
  "kr_session_id (status_body t obj out) = or_else (new_session out) (session_of obj)"
  by (simp_all add: status_body_def)

lemma merge_status_parts [simp]:
  "kr_conditions (merge_status old st) = kr_conditions st"
  "kr_session_id (merge_status old st) = kr_session_id st"
  "kr_observed_generation (merge_status old st) = kr_observed_generation st"
  by (simp_all add: merge_status_def)

lemma state_after_patch [simp]:
  "current_state (obj\<lparr>kr_status := Some (merge_status old (status_body t obj' out))\<rparr>) = out_state out"
  by (simp add: current_state_def state_text.parse_print)

lemma session_after_patch [simp]:
  "session_of (obj\<lparr>kr_status := Some (merge_status old (status_body t obj' out))\<rparr>)
     = or_else (new_session out) (session_of obj')"
  by (simp add: session_of_def)

lemma read_back_meta [simp]:
  "current_state (obj\<lparr>kr_meta := m\<rparr>) = current_state obj"
  "session_of (obj\<lparr>kr_meta := m\<rparr>) = session_of obj"
  by (simp_all add: current_state_def session_of_def)

lemma current_state_status_only:
  "kr_status obj = kr_status obj' \<Longrightarrow> current_state obj = current_state obj' \<and> session_of obj = session_of obj'"
  by (simp add: current_state_def session_of_def)

lemma history_snoc [simp]:
  "computed_in (h @ [(c, r)]) i \<longleftrightarrow> computed_in h i \<or> computed_in [(c, r)] i"
  "executed_in (h @ [(c, r)]) i \<longleftrightarrow> executed_in h i \<or> executed_in [(c, r)] i"
  by (simp_all add: computed_in_def executed_in_def)

lemma history_nil [simp]: "\<not> computed_in [] i" "\<not> executed_in [] i"
  by (simp_all add: computed_in_def executed_in_def)

section \<open>The shape of a pass\<close>

text \<open>The outcome that a pass persists for an answer of the rebalancer.\<close>

definition answer_outcome ::
  "rebalance_config \<Rightarrow> rebalance_action \<Rightarrow> rebalancer_error + rebalancer_proposal \<Rightarrow> rebalance_outcome" where
  "answer_outcome cfg act r =
     (case r of
        Inr p \<Rightarrow> read_answer cfg act p
      | Inl e \<Rightarrow> from_rpc_error act e (controller_error_requeue cfg) (rebalancer_idle_interval cfg))"

definition planned_action :: "kafka_rebalance \<Rightarrow> rebalance_action" where
  "planned_action obj = decide (current_state obj) (read_command obj) (session_of obj \<noteq> None)"

lemma history_single [simp]:
  "executed_in [(ExecuteProposalCall j th tok, r)] i \<longleftrightarrow> j = i"
  "\<not> executed_in [(CreateProposalCall mo bs gs tok, r)] i"
  "\<not> executed_in [(GetProposalCall j, r)] i"
  "\<not> executed_in [(CancelExecutionCall j, r)] i"
  "computed_in [(CreateProposalCall mo bs gs tok, Inr p)] i \<longleftrightarrow> prop_id p = i \<and> prop_status p = Computed"
  by (simp_all add: executed_in_def computed_in_def)

lemma persist_effects:
  "snd (then_log (if b then remove_command_annotation env else ret_log ())
          (then_log (write_status env obj out) (ret_log x)))
     \<in> {[], [RemoveCommand], [PatchStatus (status_body (env_now env) obj out)],
        [RemoveCommand, PatchStatus (status_body (env_now env) obj out)]}"
  by (cases b; cases "env_patch_annotation env"; cases "env_patch_status env")
    (simp_all add: then_log_def remove_command_annotation_def write_status_def attempt_def)

lemma call_effects:
  assumes "act \<noteq> Idle"
  obtains c rest where "rpc_for obj act token = Some c"
    "snd (call_and_persist cfg env obj ep act token) = SendRpc ep c # rest"
    "rest \<in> {[], [DropClient ep], [RemoveCommand]}
     \<or> (\<forall>m. env_rpc env ep c \<noteq> Inl (Transport m)) \<and> rest \<in>
          {[PatchStatus (status_body (env_now env) obj (answer_outcome cfg act (env_rpc env ep c)))],
           [RemoveCommand, PatchStatus (status_body (env_now env) obj (answer_outcome cfg act (env_rpc env ep c)))]}"
proof -
  from \<open>act \<noteq> Idle\<close> obtain c where c: "rpc_for obj act token = Some c"
    by (cases act) (auto simp: rpc_for_def Let_def)
  show ?thesis
  proof (cases "\<exists>m. env_rpc env ep c = Inl (Transport m)")
    case True
    then obtain m where "env_rpc env ep c = Inl (Transport m)" by blast
    with c show ?thesis
      by (intro that[OF c, of "[DropClient ep]"]) (simp_all add: call_and_persist_def then_log_def)
  next
    case False
    define out where "out = answer_outcome cfg act (env_rpc env ep c)"
    define k where "k = then_log (if read_command obj \<noteq> None then remove_command_annotation env else ret_log ())
                       (then_log (write_status env obj out) (ret_log (requeue (out_requeue out))) )"
    from False c have "call_and_persist cfg env obj ep act token = then_log (emit (SendRpc ep c)) k"
      by (auto simp: call_and_persist_def k_def out_def answer_outcome_def Let_def
          split: sum.splits rebalancer_error.splits)
    moreover have "snd k \<in> {[], [RemoveCommand], [PatchStatus (status_body (env_now env) obj out)],
        [RemoveCommand, PatchStatus (status_body (env_now env) obj out)]}"
      unfolding k_def by (rule persist_effects)
    ultimately show ?thesis
      using False by (intro that[OF c, of "snd k"]) (auto simp: then_log_def out_def)
  qed
qed

lemma reconcile_rebalance_alt:
  "reconcile_rebalance cfg env obj =
     (case resolve_endpoint obj (unwrap_or ''default'' (meta_namespace (kr_meta obj))) of
        Inl message \<Rightarrow> report cfg env obj ''InvalidEndpoint'' message
      | Inr None \<Rightarrow> report cfg env obj ''MissingEndpoint''
          ''spec.endpoint is unset and no krabka.io/cluster label is present to derive it''
      | Inr (Some endpoint) \<Rightarrow>
          if planned_action obj = Idle then
            then_log (if read_command obj \<noteq> None then remove_command_annotation env else ret_log ())
              (ret_log (requeue (rebalancer_idle_interval cfg)))
          else if needs_credential obj (planned_action obj) then
            (case resolve_evacuation_credential env obj of
               Inl e \<Rightarrow> fail_log e
             | Inr (Inl (reason, message)) \<Rightarrow> report cfg env obj reason message
             | Inr (Inr token) \<Rightarrow> call_and_persist cfg env obj endpoint (planned_action obj) (Some token))
          else call_and_persist cfg env obj endpoint (planned_action obj) None)"
  unfolding reconcile_rebalance_def planned_action_def Let_def by (rule refl)

lemma report_effects:
  "snd (report cfg env obj reason message) =
     (if env_patch_status env = None
      then [PatchStatus (status_body (env_now env) obj
              (transient NotReady reason message (rebalancer_idle_interval cfg)))] else [])"
  by (cases "env_patch_status env") (simp_all add: report_def then_log_def write_status_def attempt_def)

lemma idle_effects:
  "snd (then_log (if b then remove_command_annotation env else ret_log ()) (ret_log x)) \<in> {[], [RemoveCommand]}"
  by (cases "env_patch_annotation env")
    (simp_all add: then_log_def remove_command_annotation_def attempt_def)

lemma pass_effects:
  obtains (Nothing) "snd (reconcile_rebalance cfg env obj) \<in> {[], [RemoveCommand]}"
  | (Report) reason msg where "snd (reconcile_rebalance cfg env obj) =
      [PatchStatus (status_body (env_now env) obj
        (transient NotReady reason msg (rebalancer_idle_interval cfg)))]"
  | (Call) ep token where
      "reconcile_rebalance cfg env obj = call_and_persist cfg env obj ep (planned_action obj) token"
      "planned_action obj \<noteq> Idle"
      "resolve_endpoint obj (unwrap_or ''default'' (meta_namespace (kr_meta obj))) = Inr (Some ep)"
      "if needs_credential obj (planned_action obj)
       then \<exists>t. token = Some t \<and> resolve_evacuation_credential env obj = Inr (Inr t)
       else token = None"
proof -
  have reported: thesis if "reconcile_rebalance cfg env obj = report cfg env obj r m" for r m
    using that Nothing Report[of r m] by (cases "env_patch_status env") (simp_all add: report_effects)
  show thesis
proof (cases "resolve_endpoint obj (unwrap_or ''default'' (meta_namespace (kr_meta obj)))")
  case (Inl message)
  then show ?thesis
    by (intro reported) (simp add: reconcile_rebalance_alt)
next
  case (Inr o1)
  show ?thesis
  proof (cases o1)
    case None
    with Inr show ?thesis
      by (intro reported) (simp add: reconcile_rebalance_alt)
  next
    case (Some ep)
    note ep = Inr[unfolded Some]
    consider "planned_action obj = Idle" | "planned_action obj \<noteq> Idle" "\<not> needs_credential obj (planned_action obj)"
      | "planned_action obj \<noteq> Idle" "needs_credential obj (planned_action obj)" by blast
    then show ?thesis
    proof cases
      case 1
      with ep have "reconcile_rebalance cfg env obj =
          then_log (if read_command obj \<noteq> None then remove_command_annotation env else ret_log ())
              (ret_log (requeue (rebalancer_idle_interval cfg)))"
        by (simp add: reconcile_rebalance_alt)
      then show ?thesis using Nothing idle_effects by metis
    next
      case 2
      then show ?thesis using Call[of ep None] ep by (simp add: reconcile_rebalance_alt)
    next
      case 3
      then show ?thesis
      proof (cases "resolve_evacuation_credential env obj")
        case (Inl e)
        with 3 ep show ?thesis by (intro Nothing) (simp add: reconcile_rebalance_alt)
      next
        case (Inr b)
        show ?thesis
        proof (cases b)
          case (Inl f)
          obtain r m where "f = (r, m)" by fastforce
          with Inr Inl 3 ep show ?thesis by (intro reported) (simp add: reconcile_rebalance_alt)
        next
          case (Inr t)
          with \<open>resolve_evacuation_credential env obj = Inr b\<close> 3 ep show ?thesis
            by (intro Call[of ep "Some t"]) (simp_all add: reconcile_rebalance_alt)
        qed
      qed
    qed
  qed
qed
qed


lemma planned_action_cases:
  "planned_action obj = Execute \<Longrightarrow> read_command obj = Some Approve
     \<and> current_state obj = ProposalReady \<and> (\<exists>i. session_of obj = Some i)"
  "planned_action obj = PollExecution \<Longrightarrow> current_state obj = Rebalancing \<and> (\<exists>i. session_of obj = Some i)"
  "planned_action obj = Cancel \<Longrightarrow> read_command obj = Some Stop
     \<and> current_state obj = Rebalancing \<and> (\<exists>i. session_of obj = Some i)"
  by (auto simp: planned_action_def decide_def
      split: option.splits rebalance_command.splits rebalance_state.splits if_splits)

lemma rpc_call_cases:
  assumes "rpc_for obj (planned_action obj) token = Some c"
  obtains (Create) "planned_action obj = CreateProposal"
      "c = CreateProposalCall (kr_mode (kr_spec obj)) (kr_brokers (kr_spec obj))
             (unwrap_or [] (kr_goals (kr_spec obj))) token"
  | (Execute) i where "planned_action obj = Execute" "read_command obj = Some Approve"
      "current_state obj = ProposalReady" "session_of obj = Some i"
      "c = ExecuteProposalCall i (kr_throttle (kr_spec obj)) token"
  | (Poll) i where "planned_action obj = PollExecution" "current_state obj = Rebalancing"
      "session_of obj = Some i" "c = GetProposalCall i"
  | (Cancel) i where "planned_action obj = Cancel" "read_command obj = Some Stop"
      "current_state obj = Rebalancing" "session_of obj = Some i" "c = CancelExecutionCall i"
proof (cases "planned_action obj")
  case CreateProposal
  with assms that(1) show thesis by (simp add: rpc_for_def Let_def)
next
  case Execute
  with planned_action_cases(1)[of obj] obtain i where "read_command obj = Some Approve"
      "current_state obj = ProposalReady" "session_of obj = Some i" by blast
  with Execute assms that(2) show thesis by (simp add: rpc_for_def Let_def)
next
  case PollExecution
  with planned_action_cases(2)[of obj] obtain i where "current_state obj = Rebalancing"
      "session_of obj = Some i" by blast
  with PollExecution assms that(3) show thesis by (simp add: rpc_for_def Let_def)
next
  case Cancel
  with planned_action_cases(3)[of obj] obtain i where "read_command obj = Some Stop"
      "current_state obj = Rebalancing" "session_of obj = Some i" by blast
  with Cancel assms that(4) show thesis by (simp add: rpc_for_def Let_def)
next
  case Idle
  with assms show thesis by (simp add: rpc_for_def Let_def)
qed

lemma sent_call:
  assumes "SendRpc ep c \<in> set (snd (reconcile_rebalance cfg env obj))"
  obtains token where "rpc_for obj (planned_action obj) token = Some c"
    "resolve_endpoint obj (unwrap_or ''default'' (meta_namespace (kr_meta obj))) = Inr (Some ep)"
    "if needs_credential obj (planned_action obj)
     then \<exists>t. token = Some t \<and> resolve_evacuation_credential env obj = Inr (Inr t)
     else token = None"
proof (cases rule: pass_effects[of cfg env obj])
  case (Call ep' token)
  obtain c' rest
    where c': "rpc_for obj (planned_action obj) token = Some c'"
      and es: "snd (call_and_persist cfg env obj ep' (planned_action obj) token) = SendRpc ep' c' # rest"
      and rest: "SendRpc ep c \<notin> set rest"
    by (rule call_effects[OF Call(2), of obj token cfg env ep']) auto
  from assms Call(1) es rest have "c' = c" "ep' = ep" by auto
  with c' Call(3,4) show ?thesis using that by blast
qed (use assms in auto)

lemma outcome_state:
  "out_state (answer_outcome cfg act r) = ProposalReady \<Longrightarrow>
     act = CreateProposal \<and> (\<exists>p. r = Inr p \<and> prop_status p = Computed
       \<and> new_session (answer_outcome cfg act r) = Some (prop_id p))"
  "out_state (answer_outcome cfg act r) = Rebalancing \<Longrightarrow>
     (act = Execute \<or> act = PollExecution \<or> act = Idle) \<and> new_session (answer_outcome cfg act r) = None"
  by (cases act; auto simp: answer_outcome_def read_answer_def from_create_def from_cancel_def
        from_execute_or_poll_def from_rpc_error_def transient_def
      split: sum.splits proposal_status.splits if_splits)+

lemma ok_meta [simp]: "kr_ok (obj\<lparr>kr_meta := m\<rparr>) hist = kr_ok obj hist"
  by (simp add: kr_ok_def)

lemma ok_report:
  "kr_ok obj hist \<Longrightarrow> kr_ok (obj\<lparr>kr_status :=
     Some (merge_status old (status_body t obj (transient NotReady reason msg d)))\<rparr>) hist"
  by (simp add: kr_ok_def transient_def)

lemma ok_call:
  assumes ok: "kr_ok obj hist" and c: "rpc_for obj (planned_action obj) token = Some c"
  shows "kr_ok obj (hist @ [(c, r)])"
  using c by (cases rule: rpc_call_cases) (use ok in \<open>auto simp: kr_ok_def\<close>)

lemma ok_answer:
  assumes ok: "kr_ok obj hist" and c: "rpc_for obj (planned_action obj) token = Some c"
  shows "kr_ok (obj'\<lparr>kr_status := Some (merge_status old (status_body t obj
            (answer_outcome cfg (planned_action obj) r)))\<rparr>) (hist @ [(c, r)])"
  using c by (cases rule: rpc_call_cases) (use ok in \<open>auto simp: kr_ok_def dest!: outcome_state\<close>)

lemma inv_pass:
  assumes inv: "kr_inv w"
  shows "kr_inv (fold (apply_effect env) (take n (snd (reconcile_rebalance cfg env (w_obj w)))) w)"
proof (cases rule: pass_effects[of cfg env "w_obj w"])
  case Nothing
  then show ?thesis using inv by (cases n) (auto simp: kr_inv_def)
next
  case (Report reason msg)
  then show ?thesis using inv by (cases n) (auto simp: kr_inv_def ok_report)
next
  case (Call ep token)
  let ?act = "planned_action (w_obj w)"
  obtain c rest where c: "rpc_for (w_obj w) ?act token = Some c"
    and es: "snd (call_and_persist cfg env (w_obj w) ep ?act token) = SendRpc ep c # rest"
    and rest: "rest \<in> {[], [DropClient ep], [RemoveCommand]} \<or> rest \<in>
        {[PatchStatus (status_body (env_now env) (w_obj w) (answer_outcome cfg ?act (env_rpc env ep c)))],
         [RemoveCommand, PatchStatus (status_body (env_now env) (w_obj w)
            (answer_outcome cfg ?act (env_rpc env ep c)))]}"
    by (rule call_effects[OF Call(2), of "w_obj w" token cfg env ep]) blast
  note ok = inv[unfolded kr_inv_def]
  note sent = ok_call[OF ok c] and answered = ok_answer[OF ok c]
  consider "n = 0" | "n = 1" | "n = 2" | k where "n = Suc (Suc (Suc k))"
    by (metis One_nat_def Suc_1 not0_implies_Suc)
  then show ?thesis
    using rest es Call(1) inv sent answered by cases (auto simp: kr_inv_def numeral_2_eq_2)
qed

interpretation kr: invariant_machine kr_init "kr_step cfg" kr_inv for cfg
proof
  show "kr_inv s" if "kr_init s" for s
    using that by (simp add: kr_init_def kr_inv_def kr_ok_def current_state_def active_of_def)
  show "kr_inv t" if inv: "kr_inv s" and "kr_step cfg s t" for s t
    using \<open>kr_step cfg s t\<close>
  proof (cases rule: kr_step.cases)
    case (kr_pass env n)
    then show ?thesis using inv inv_pass by simp
  next
    case (kr_edit obj)
    then show ?thesis
      using inv current_state_status_only[of obj "w_obj s"] by (simp add: kr_inv_def kr_ok_def)
  qed
qed


lemma credential_nonempty:
  "resolve_evacuation_credential env obj = Inr (Inr t) \<Longrightarrow> t \<noteq> []"
  by (auto simp: resolve_evacuation_credential_def Let_def
      split: option.splits sum.splits prod.splits if_splits)

lemma no_empty_credential [simp]: "resolve_evacuation_credential env obj \<noteq> Inr (Inr [])"
  using credential_nonempty by blast

lemma credential_error:
  "resolve_evacuation_credential env obj = Inl e \<Longrightarrow> \<exists>k. e = Kube k"
  by (auto simp: resolve_evacuation_credential_def Let_def
      split: option.splits sum.splits prod.splits if_splits)

lemma persist_error:
  "fst (then_log (if b then remove_command_annotation env else ret_log ()) m) = Inl e \<Longrightarrow>
     (\<exists>k. e = Kube k) \<or> fst m = Inl e"
  "fst (then_log (write_status env obj out) (ret_log x)) = Inl e \<Longrightarrow> \<exists>k. e = Kube k"
  by (auto simp: fst_then_log remove_command_annotation_def write_status_def fst_attempt
      split: if_splits sum.splits option.splits)

lemma call_error:
  assumes "fst (call_and_persist cfg env obj ep act token) = Inl e" and "act \<noteq> Idle"
  shows "\<exists>k. e = Kube k"
proof -
  from \<open>act \<noteq> Idle\<close> obtain c where c: "rpc_for obj act token = Some c"
    by (cases act) (auto simp: rpc_for_def Let_def)
  with assms(1) show ?thesis
    by (auto simp: call_and_persist_def fst_then_log Let_def remove_command_annotation_def
          write_status_def fst_attempt
        split: sum.splits rebalancer_error.splits option.splits if_splits)
qed

lemma report_error: "fst (report cfg env obj r m) = Inl e \<Longrightarrow> \<exists>k. e = Kube k"
  unfolding report_def by (rule persist_error(2))

lemma pass_error:
  assumes "fst (reconcile_rebalance cfg env obj) = Inl e"
  shows "\<exists>k. e = Kube k"
proof -
  have idle: "\<exists>k. e = Kube k" if "fst (then_log (if b then remove_command_annotation env else ret_log ())
      (ret_log x)) = Inl e" for b x
    using persist_error(1)[OF that] by simp
  show ?thesis
    using assms idle[of "read_command obj \<noteq> None"]
    by (auto simp: reconcile_rebalance_alt split: sum.splits option.splits prod.splits if_split_asm
        dest: report_error credential_error call_error)
qed

lemma read_command_after [simp]:
  "read_command (obj\<lparr>kr_meta := drop_annotation rebalance_annotation m, kr_status := st\<rparr>) = None"
  "read_command (obj\<lparr>kr_meta := drop_annotation rebalance_annotation m\<rparr>) = None"
  "read_command (obj\<lparr>kr_status := st\<rparr>) = read_command obj"
  by (auto simp: read_command_def meta_annotation_def drop_annotation_def split: Option.bind_split)

section \<open>Properties\<close>

text \<open>C4: only an approval moves data. In every object that passes and user edits can
  produce, a pass that sends ExecuteProposal for \<open>i\<close> read the approve command, found the
  object in ProposalReady with session \<open>i\<close>, the rebalancer had answered an earlier
  CreateProposal with the computed proposal \<open>i\<close>, and a RemoveBrokers object supplied a
  non-empty bearer token.\<close>
theorem only_approval_executes:
  assumes "reach kr_init (kr_step cfg) w"
    and "SendRpc ep (ExecuteProposalCall i thr tok) \<in> set (snd (reconcile_rebalance cfg' env (w_obj w)))"
  shows "read_command (w_obj w) = Some Approve \<and> current_state (w_obj w) = ProposalReady
    \<and> session_of (w_obj w) = Some i \<and> computed_in (w_history w) i
    \<and> (kr_mode (kr_spec (w_obj w)) = RemoveBrokers \<longrightarrow> (\<exists>t. tok = Some t \<and> t \<noteq> []))"
proof -
  from assms(2) obtain token where c: "rpc_for (w_obj w) (planned_action (w_obj w)) token = Some (ExecuteProposalCall i thr tok)"
    and cred: "if needs_credential (w_obj w) (planned_action (w_obj w))
     then \<exists>t. token = Some t \<and> resolve_evacuation_credential env (w_obj w) = Inr (Inr t) else token = None"
    by (rule sent_call)
  note inv = kr.reach_inv[OF assms(1), unfolded kr_inv_def kr_ok_def]
  from c show ?thesis
  proof (cases rule: rpc_call_cases)
    case (Execute j)
    with inv cred show ?thesis by (auto simp: needs_credential_def)
  qed simp_all
qed

text \<open>the state Rebalancing is only ever reported for a session whose execution was sent, and
  every executed session was computed first.\<close>
theorem rebalancing_was_executed:
  assumes "reach kr_init (kr_step cfg) w" and "current_state (w_obj w) = Rebalancing"
  shows "\<exists>i. session_of (w_obj w) = Some i \<and> executed_in (w_history w) i \<and> computed_in (w_history w) i"
  using kr.reach_inv[OF assms(1)] assms(2) by (auto simp: kr_inv_def kr_ok_def)

text \<open>a pass fails only with an error of the Kubernetes API; it never reaches the arm
  that the code marks unreachable.\<close>
theorem rebalance_fails_only_on_kube:
  assumes "fst (reconcile_rebalance cfg env obj) = Inl e"
  shows "\<exists>k. e = Kube k"
  using assms by (rule pass_error)




lemma merge_optimization_again [simp]:
  "merge_optimization (merge_optimization a b) b = merge_optimization a b"
  "merge_optimization a a = a"
  by (auto simp: merge_optimization_def split: option.splits)

text \<open>writing the same outcome again, at any later time, leaves the stored object exactly as the
  first write left it, transition time and merged fields included, so a proposal that is retried does
  not change its object on every pass.\<close>
theorem rewriting_is_idempotent:
  "let w1 = apply_effect env (PatchStatus (status_body t (w_obj w) out)) w
   in apply_effect env (PatchStatus (status_body t' (w_obj w1) out)) w1 = w1"
  by (cases "new_optimization out")
    (auto simp: Let_def merge_status_def status_body_def active_condition_def condition_def session_of_def
      or_else_def split: option.splits)

lemma validate_host:
  assumes "validate_endpoint ep = Inr ()"
  obtains scheme rest where "ep = scheme @ ''://'' @ rest"
    "eq_ignore_ascii_case scheme ''http'' \<or> eq_ignore_ascii_case scheme ''https''"
    "host_of (drop_userinfo (authority_of rest)) \<noteq> []"
    "\<not> is_ip_literal (host_of (drop_userinfo (authority_of rest)))"
    "\<exists>s \<in> set cluster_internal_suffixes. ends_with s (to_ascii_lowercase (host_of (drop_userinfo (authority_of rest))))"
  using assms
  by (auto simp: validate_endpoint_def Let_def list_ex_iff intro: that[OF split_once_Some]
      split: option.splits if_splits prod.splits)

lemma authority_split:
  obtains tail where "rest = authority_of rest @ tail" "tail = [] \<or> hd tail \<in> {CHR ''/'', CHR ''?'', CHR ''#''}"
    "\<forall>c \<in> set (authority_of rest). c \<notin> {CHR ''/'', CHR ''?'', CHR ''#''}"
proof
  let ?P = "\<lambda>c. c \<notin> {CHR ''/'', CHR ''?'', CHR ''#''}"
  show "rest = authority_of rest @ dropWhile ?P rest"
    unfolding authority_of_def by (rule takeWhile_dropWhile_id[symmetric])
  show "dropWhile ?P rest = [] \<or> hd (dropWhile ?P rest) \<in> {CHR ''/'', CHR ''?'', CHR ''#''}"
    using hd_dropWhile[of ?P rest] by blast
  show "\<forall>c \<in> set (authority_of rest). c \<notin> {CHR ''/'', CHR ''?'', CHR ''#''}"
    unfolding authority_of_def by (auto dest: set_takeWhileD)
qed

lemma userinfo_split:
  obtains ui where "a = ui @ drop_userinfo a" "ui = [] \<or> last ui = CHR ''@''" "CHR ''@'' \<notin> set (drop_userinfo a)"
proof (cases "rsplit_once (CHR ''@'') a")
  case None
  then show thesis
    by (intro that[of "[]"]) (auto simp: drop_userinfo_def rsplit_once_def split: if_splits)
next
  case (Some ab)
  obtain u hp where "ab = (u, hp)" by fastforce
  with Some rsplit_once_Some[of "CHR ''@''" a u hp] show thesis
    by (intro that[of "u @ [CHR ''@'']"]) (auto simp: drop_userinfo_def)
qed

lemma port_split:
  obtains port where "hp = host_of hp @ port"
    "port = [] \<or> (\<exists>ds. port = CHR '':'' # ds \<and> ds \<noteq> [] \<and> list_all is_ascii_digit ds)"
proof (cases "rsplit_once (CHR '':'') hp")
  case None
  then show thesis by (intro that[of "[]"]) (auto simp: host_of_def)
next
  case (Some ab)
  obtain h ds where ab: "ab = (h, ds)" by fastforce
  show thesis
  proof (cases "ds \<noteq> [] \<and> list_all is_ascii_digit ds")
    case True
    with Some ab rsplit_once_Some[of "CHR '':''" hp h ds] show thesis
      by (intro that[of "CHR '':'' # ds"]) (auto simp: host_of_def)
  next
    case False
    with Some ab show thesis by (intro that[of "[]"]) (auto simp: host_of_def)
  qed
qed

text \<open>an accepted endpoint is an http or https URL whose authority, read as RFC 3986 does,
  is an optional userinfo, a host and an optional numeric port, where the host holds no at sign, is no
  dotted-number literal and ends, up to case, in a cluster-internal suffix.\<close>
theorem accepted_endpoint_is_internal:
  assumes "validate_endpoint ep = Inr ()"
  shows "\<exists>scheme userinfo host port tail suffix d.
    ep = scheme @ ''://'' @ userinfo @ host @ port @ tail
    \<and> (eq_ignore_ascii_case scheme ''http'' \<or> eq_ignore_ascii_case scheme ''https'')
    \<and> (userinfo = [] \<or> last userinfo = CHR ''@'') \<and> CHR ''@'' \<notin> set host
    \<and> (port = [] \<or> (\<exists>ds. port = CHR '':'' # ds \<and> ds \<noteq> [] \<and> list_all is_ascii_digit ds))
    \<and> (tail = [] \<or> hd tail \<in> {CHR ''/'', CHR ''?'', CHR ''#''})
    \<and> set (userinfo @ host @ port) \<inter> {CHR ''/'', CHR ''?'', CHR ''#''} = {}
    \<and> \<not> is_ip_literal host \<and> suffix \<in> set cluster_internal_suffixes
    \<and> to_ascii_lowercase host = d @ suffix"
proof -
  from assms obtain scheme rest where ep: "ep = scheme @ ''://'' @ rest"
    and scheme: "eq_ignore_ascii_case scheme ''http'' \<or> eq_ignore_ascii_case scheme ''https''"
    and host: "\<not> is_ip_literal (host_of (drop_userinfo (authority_of rest)))"
    and suffix: "\<exists>s \<in> set cluster_internal_suffixes.
      ends_with s (to_ascii_lowercase (host_of (drop_userinfo (authority_of rest))))"
    by (rule validate_host)
  define auth where "auth = authority_of rest"
  define hp where "hp = drop_userinfo auth"
  obtain tail where tail: "rest = auth @ tail" "tail = [] \<or> hd tail \<in> {CHR ''/'', CHR ''?'', CHR ''#''}"
    "\<forall>c \<in> set (auth). c \<notin> {CHR ''/'', CHR ''?'', CHR ''#''}" unfolding auth_def by (rule authority_split)
  obtain ui where ui: "auth = ui @ hp" "ui = [] \<or> last ui = CHR ''@''" "CHR ''@'' \<notin> set hp"
    unfolding hp_def by (rule userinfo_split)
  obtain port where port: "hp = host_of hp @ port"
    "port = [] \<or> (\<exists>ds. port = CHR '':'' # ds \<and> ds \<noteq> [] \<and> list_all is_ascii_digit ds)" by (rule port_split)
  from suffix obtain s d where s: "s \<in> set cluster_internal_suffixes"
    "to_ascii_lowercase (host_of hp) = d @ s" by (auto simp: ends_with_iff hp_def auth_def)
  have split: "auth = ui @ host_of hp @ port" using ui(1) port(1) by simp
  then have "ep = scheme @ ''://'' @ ui @ host_of hp @ port @ tail"
    using ep tail(1) by (metis append.assoc)
  moreover have "set (ui @ host_of hp @ port) \<inter> {CHR ''/'', CHR ''?'', CHR ''#''} = {}"
    using tail(3) unfolding split by blast
  moreover have "CHR ''@'' \<notin> set (host_of hp)"
    using ui(3) port(1) by (metis UnI1 set_append)
  ultimately show ?thesis
    using scheme ui(2) port(2) tail(2) host[folded auth_def hp_def] s by blast
qed

text \<open>the guard accepts an endpoint whose host, for a URL parser that ends the authority
  of an http URL at a backslash, is a link-local IP address.\<close>
theorem backslash_endpoint_accepted:
  "validate_endpoint (''http://169.254.169.254'' @ [CHR 0x5C] @ ''@a.svc/latest'') = Inr ()"
  by (simp add: validate_endpoint_def split_once_def authority_of_def drop_userinfo_def rsplit_once_def
      host_of_def is_ip_literal_def eval_simps cluster_internal_suffixes_def ends_with_def starts_with_def
      to_ascii_lowercase_def to_ascii_lower_char_def is_ascii_upper_def eq_ignore_ascii_case_def)


lemma quiet_when_proposal_ready:
  assumes "current_state obj = ProposalReady" "read_command obj \<in> {None, Some Stop}"
  shows "SendRpc ep c \<notin> set (snd (reconcile_rebalance cfg env obj))"
proof
  assume "SendRpc ep c \<in> set (snd (reconcile_rebalance cfg env obj))"
  then obtain token where "rpc_for obj (planned_action obj) token = Some c" by (rule sent_call)
  moreover have "planned_action obj = Idle" using assms by (auto simp: planned_action_def decide_def)
  ultimately show False by (simp add: rpc_for_def Let_def)
qed

text \<open>an execution whose status write is lost is stranded. When the approve pass sends the
  execution, consumes the command and then fails to write the status, the object stays in
  ProposalReady although the execution runs, and from then on no pass calls the rebalancer, neither to
  poll nor, after a stop command, to cancel, until the user asks for something else.\<close>
theorem lost_status_strands_execution:
  assumes "resolve_endpoint obj (unwrap_or ''default'' (meta_namespace (kr_meta obj))) = Inr (Some ep)"
    and "read_command obj = Some Approve" "current_state obj = ProposalReady" "session_of obj = Some i"
    and "kr_mode (kr_spec obj) \<noteq> RemoveBrokers"
    and "env_rpc env ep (ExecuteProposalCall i (kr_throttle (kr_spec obj)) None) = Inr p"
    and "env_patch_annotation env = None" "env_patch_status env = Some k"
  shows "let w' = fold (apply_effect env) (snd (reconcile_rebalance cfg env obj)) \<lparr>w_obj = obj, w_history = h\<rparr>
    in fst (reconcile_rebalance cfg env obj) = Inl (Kube k) \<and> executed_in (w_history w') i
      \<and> current_state (w_obj w') = ProposalReady \<and> read_command (w_obj w') = None
      \<and> (\<forall>obj2 cfg2 env2 ep2 c. kr_status obj2 = kr_status (w_obj w') \<and> read_command obj2 \<in> {None, Some Stop}
           \<longrightarrow> SendRpc ep2 c \<notin> set (snd (reconcile_rebalance cfg2 env2 obj2)))"
proof -
  have act: "planned_action obj = Execute" using assms by (simp add: planned_action_def decide_def)
  then have "reconcile_rebalance cfg env obj = call_and_persist cfg env obj ep Execute None"
    using assms by (simp add: reconcile_rebalance_alt needs_credential_def)
  then have pass: "reconcile_rebalance cfg env obj =
      (Inl (Kube k), [SendRpc ep (ExecuteProposalCall i (kr_throttle (kr_spec obj)) None), RemoveCommand])"
    using assms by (simp add: call_and_persist_def rpc_for_def then_log_def remove_command_annotation_def
        write_status_def attempt_def fail_log_def emit_def bind_log_def Let_def)
  have quiet: "SendRpc ep2 c \<notin> set (snd (reconcile_rebalance cfg2 env2 obj2))"
    if "kr_status obj2 = kr_status obj" "read_command obj2 \<in> {None, Some Stop}" for obj2 cfg2 env2 ep2 c
    using that assms(3) current_state_status_only[of obj2 obj] by (intro quiet_when_proposal_ready) simp_all
  show ?thesis
    unfolding pass using assms(3) quiet by (simp add: Let_def)
qed


section \<open>Concrete instances\<close>

definition wit_cfg :: rebalance_config where
  "wit_cfg = \<lparr>rebalancer_idle_interval = 300, rebalancer_poll_interval = 10, controller_error_requeue = 30\<rparr>"

definition wit_meta :: "string option \<Rightarrow> object_meta" where
  "wit_meta cmd = (plain_meta ''r'')\<lparr>meta_namespace := Some ''k'', meta_labels := Some [(''krabka.io/cluster'', ''c'')],
     meta_annotations := map_option (\<lambda>v. [(''krabka.io/rebalance'', v)]) cmd\<rparr>"

definition wit_obj :: kafka_rebalance where
  "wit_obj = \<lparr>kr_meta = wit_meta None,
     kr_spec = \<lparr>kr_mode = Full, kr_brokers = [], kr_secret_ref = None, kr_goals = None, kr_throttle = None,
                kr_endpoint = Some ''http://r.svc''\<rparr>,
     kr_status = None\<rparr>"

definition wit_proposal :: "proposal_status \<Rightarrow> rebalancer_proposal" where
  "wit_proposal st = \<lparr>prop_id = ''p'', prop_status = st,
     prop_summary = \<lparr>replica_movements = 0, leader_movements = 0, max_replicas_before = 0,
       max_replicas_after = 0, max_leaders_before = 0, max_leaders_after = 0\<rparr>,
     goals_applied = [], movement_count = 0, failure_reason = None\<rparr>"

definition wit_env :: "proposal_status \<Rightarrow> kube_error option \<Rightarrow> rebalance_env" where
  "wit_env st failure = \<lparr>env_now = ''t'', env_get_secret = (\<lambda>_. Inr None), env_rpc = (\<lambda>_ _. Inr (wit_proposal st)),
     env_patch_annotation = None, env_patch_status = failure\<rparr>"

definition wit_ready :: kr_world where
  "wit_ready = fold (apply_effect (wit_env Computed None))
     (take 5 (snd (reconcile_rebalance wit_cfg (wit_env Computed None) wit_obj))) \<lparr>w_obj = wit_obj, w_history = []\<rparr>"

definition wit_approved :: kr_world where
  "wit_approved = wit_ready\<lparr>w_obj := (w_obj wit_ready)\<lparr>kr_meta := wit_meta (Some ''approve'')\<rparr>\<rparr>"

definition wit_running :: kr_world where
  "wit_running = fold (apply_effect (wit_env Executing None))
     (take 5 (snd (reconcile_rebalance wit_cfg (wit_env Executing None) (w_obj wit_approved)))) wit_approved"

lemma wit_reach:
  "reach kr_init (kr_step cfg) \<lparr>w_obj = wit_obj, w_history = []\<rparr>"
  "reach kr_init (kr_step wit_cfg) wit_ready"
  "reach kr_init (kr_step wit_cfg) wit_approved"
  "reach kr_init (kr_step wit_cfg) wit_running"
proof -
  show "reach kr_init (kr_step cfg) \<lparr>w_obj = wit_obj, w_history = []\<rparr>" for cfg
    by (rule reach_init) (simp add: kr_init_def wit_obj_def)
  from reach_step[OF this kr_pass] show 1: "reach kr_init (kr_step wit_cfg) wit_ready"
    unfolding wit_ready_def by (metis kr_world.select_convs(1))
  show 2: "reach kr_init (kr_step wit_cfg) wit_approved"
    unfolding wit_approved_def by (rule reach_step[OF 1 kr_edit]) simp
  show "reach kr_init (kr_step wit_cfg) wit_running"
    unfolding wit_running_def by (rule reach_step[OF 2 kr_pass])
qed

lemma wit_endpoint:
  "kr_spec obj = kr_spec wit_obj \<Longrightarrow> resolve_endpoint obj ns = Inr (Some ''http://r.svc'')"
  by (simp add: resolve_endpoint_def wit_obj_def validate_endpoint_def split_once_def authority_of_def
      drop_userinfo_def rsplit_once_def host_of_def is_ip_literal_def eval_simps
      cluster_internal_suffixes_def ends_with_def starts_with_def bind_result_def
      to_ascii_lowercase_def to_ascii_lower_char_def is_ascii_upper_def eq_ignore_ascii_case_def)

lemma wit_obj_reads:
  "read_command wit_obj = None" "current_state wit_obj = New" "session_of wit_obj = None"
  "kr_spec obj = kr_spec wit_obj \<Longrightarrow> \<not> needs_credential obj act"
  "kr_status wit_obj = None" "kr_throttle (kr_spec wit_obj) = None" "kr_mode (kr_spec wit_obj) = Full"
  "kr_spec (w_obj \<lparr>w_obj = wit_obj, w_history = h\<rparr>) = kr_spec wit_obj"
  by (simp_all add: read_command_def wit_obj_def wit_meta_def meta_annotation_def plain_meta_def
      current_state_def active_of_def session_of_def needs_credential_def)

lemma wit_proposal_parts [simp]: "prop_id (wit_proposal st) = ''p''" "prop_status (wit_proposal st) = st"
  by (simp_all add: wit_proposal_def)

lemmas pass_eval = reconcile_rebalance_alt planned_action_def decide_def call_and_persist_def rpc_for_def
  then_log_def remove_command_annotation_def write_status_def attempt_def emit_def bind_log_def ret_log_def
  fail_log_def

lemma wit_ready_obj:
  "w_obj wit_ready = wit_obj\<lparr>kr_status := Some (merge_status None (status_body ''t'' wit_obj
      (from_create (wit_proposal Computed) 300)))\<rparr>"
  "computed_in (w_history wit_ready) ''p''"
  by (simp_all add: wit_ready_def pass_eval wit_endpoint wit_obj_reads wit_env_def read_answer_def wit_cfg_def
      Let_def)


lemma wit_env_parts [simp]:
  "env_rpc (wit_env st f) ep c = Inr (wit_proposal st)" "env_patch_annotation (wit_env st f) = None"
  "env_patch_status (wit_env st f) = f"
  by (simp_all add: wit_env_def)

lemma wit_approved_reads:
  "read_command (w_obj wit_approved) = Some Approve" "current_state (w_obj wit_approved) = ProposalReady"
  "session_of (w_obj wit_approved) = Some ''p''" "kr_spec (w_obj wit_approved) = kr_spec wit_obj"
  by (simp_all add: wit_approved_def wit_ready_obj read_command_def meta_annotation_def wit_meta_def
      rebalance_annotation_def parse_command_def eval_simps from_create_def)

lemma wit_execute_pass:
  "reconcile_rebalance cfg (wit_env Executing failure) (w_obj wit_approved)
     = call_and_persist cfg (wit_env Executing failure) (w_obj wit_approved) ''http://r.svc'' Execute None"
  by (simp add: reconcile_rebalance_alt planned_action_def decide_def wit_endpoint wit_approved_reads wit_obj_reads)

lemma wit_execute_sent:
  "SendRpc ''http://r.svc'' (ExecuteProposalCall ''p'' None None)
     \<in> set (snd (reconcile_rebalance wit_cfg (wit_env Executing None) (w_obj wit_approved)))"
  by (simp add: wit_execute_pass call_and_persist_def rpc_for_def wit_approved_reads wit_obj_reads
      set_snd_then_log)

theorem only_approval_executes_witness:
  "reach kr_init (kr_step wit_cfg) wit_approved \<and> read_command (w_obj wit_approved) = Some Approve
     \<and> session_of (w_obj wit_approved) = Some ''p'' \<and> computed_in (w_history wit_approved) ''p''"
  using only_approval_executes[OF wit_reach(3) wit_execute_sent] wit_reach(3) by blast

lemma wit_running_state: "current_state (w_obj wit_running) = Rebalancing"
  by (simp add: wit_running_def wit_execute_pass call_and_persist_def rpc_for_def wit_approved_reads
      wit_obj_reads then_log_def remove_command_annotation_def write_status_def attempt_def Let_def
      read_answer_def from_execute_or_poll_def transient_def)

theorem rebalancing_was_executed_witness:
  "current_state (w_obj wit_running) = Rebalancing
     \<and> (\<exists>i. session_of (w_obj wit_running) = Some i \<and> executed_in (w_history wit_running) i
          \<and> computed_in (w_history wit_running) i)"
  using rebalancing_was_executed[OF wit_reach(4) wit_running_state] wit_running_state by blast

lemma wit_failed_pass:
  "fst (reconcile_rebalance wit_cfg (wit_env Executing (Some (ApiStatus 500 ''x''))) (w_obj wit_approved))
     = Inl (Kube (ApiStatus 500 ''x''))"
  by (simp add: wit_execute_pass call_and_persist_def rpc_for_def wit_approved_reads
      wit_obj_reads then_log_def remove_command_annotation_def write_status_def attempt_def Let_def)

theorem rebalance_fails_only_on_kube_witness:
  "\<exists>k. Kube (ApiStatus 500 ''x'') = Kube k
     \<and> fst (reconcile_rebalance wit_cfg (wit_env Executing (Some (ApiStatus 500 ''x''))) (w_obj wit_approved))
         = Inl (Kube (ApiStatus 500 ''x''))"
  using rebalance_fails_only_on_kube[OF wit_failed_pass] wit_failed_pass by blast


theorem lost_status_strands_execution_witness:
  "fst (reconcile_rebalance wit_cfg (wit_env Executing (Some (ApiStatus 500 ''x''))) (w_obj wit_approved))
     = Inl (Kube (ApiStatus 500 ''x''))
   \<and> executed_in (w_history (fold (apply_effect (wit_env Executing (Some (ApiStatus 500 ''x''))))
        (snd (reconcile_rebalance wit_cfg (wit_env Executing (Some (ApiStatus 500 ''x''))) (w_obj wit_approved)))
        \<lparr>w_obj = w_obj wit_approved, w_history = []\<rparr>)) ''p''"
  using lost_status_strands_execution[of "w_obj wit_approved" "''http://r.svc''" "''p''"
      "wit_env Executing (Some (ApiStatus 500 ''x''))" "wit_proposal Executing" "ApiStatus 500 ''x''" wit_cfg "[]"]
  by (simp add: wit_endpoint wit_approved_reads wit_obj_reads Let_def)

lemma wit_valid_endpoint: "validate_endpoint ''http://r.svc'' = Inr ()"
  using wit_endpoint[of wit_obj] by (simp add: resolve_endpoint_def wit_obj_def bind_result_def split: sum.splits)

theorem accepted_endpoint_is_internal_witness:
  "validate_endpoint ''http://r.svc'' = Inr ()
     \<and> (\<exists>scheme userinfo host port tail. ''http://r.svc'' = scheme @ ''://'' @ userinfo @ host @ port @ tail
          \<and> \<not> is_ip_literal host)"
proof -
  from accepted_endpoint_is_internal[OF wit_valid_endpoint] obtain scheme userinfo host port tail
    where "''http://r.svc'' = scheme @ ''://'' @ userinfo @ host @ port @ tail" "\<not> is_ip_literal host"
    by (elim exE conjE)
  then show ?thesis using wit_valid_endpoint by (intro conjI exI)
qed

text \<open>The merge patch cannot empty the list of goals: a proposal that applied no goals leaves the goals
  of the proposal before it in the status.\<close>
lemma stale_goals_survive:
  assumes "kr_status obj = Some st" "kr_optimization st = Some o1" "prop_status p = Computed"
    "goals_applied p = []"
  shows "\<exists>o2. kr_optimization (merge_status (kr_status obj) (status_body t obj (from_create p d))) = Some o2
     \<and> opt_goals o2 = opt_goals o1"
  using assms
  by (simp add: merge_status_def status_body_def from_create_def merge_optimization_def
      optimization_result_from_def)

end
