(* ===== verification/Trust_Bundle.thy ===== *)
theory Trust_Bundle
  imports Kube_Objects
begin

text \<open>
  The trust-bundle helpers of \<open>controller/cluster_ca.rs\<close>: a PEM bundle is split
  into normalised certificate blocks, blocks are joined, deduplicated and
  pruned. The expiry of a block comes from the X.509 parser, which is library
  code, so it is the argument \<open>not_after\<close>.
\<close>

section \<open>Splitting and joining\<close>

definition BEGIN_CERT :: string where
  "BEGIN_CERT = ''-----BEGIN CERTIFICATE-----''"

definition END_CERT :: string where
  "END_CERT = ''-----END CERTIFICATE-----''"

definition newline :: string where
  "newline = [CHR 0x0A]"

lemma cert_marker_lengths [simp]: "length BEGIN_CERT = 27" "length END_CERT = 25"
  by (simp_all add: BEGIN_CERT_def END_CERT_def)

function split_pem_certs :: "string \<Rightarrow> string list" where
  "split_pem_certs rest =
     (case find_sub BEGIN_CERT rest of
        None \<Rightarrow> []
      | Some b \<Rightarrow>
          (case find_sub END_CERT (drop b rest) of
             None \<Rightarrow> []
           | Some e \<Rightarrow>
               (trim_str (take (e + length END_CERT) (drop b rest)) @ newline)
                 # split_pem_certs (drop (e + length END_CERT) (drop b rest))))"
  by auto
termination
  by (relation "measure length") (auto dest!: find_sub_Some)

declare split_pem_certs.simps [simp del]

definition join_bundle :: "string list \<Rightarrow> string" where
  "join_bundle blocks = concat blocks"

fun dedup_from :: "string list \<Rightarrow> string list \<Rightarrow> string list" where
  "dedup_from seen [] = []"
| "dedup_from seen (b # bs) =
     (if b \<in> set seen then dedup_from seen bs else b # dedup_from (b # seen) bs)"

definition dedup_blocks :: "string list \<Rightarrow> string list" where
  "dedup_blocks blocks = dedup_from [] blocks"

type_synonym expiry = "string \<Rightarrow> reconcile_error + time"

definition still_valid :: "expiry \<Rightarrow> time \<Rightarrow> string \<Rightarrow> bool" where
  "still_valid not_after now b = (case not_after b of Inl _ \<Rightarrow> True | Inr na \<Rightarrow> na > now)"

definition prune_expired :: "expiry \<Rightarrow> string list \<Rightarrow> time \<Rightarrow> string list" where
  "prune_expired not_after blocks now =
     map snd (filter (\<lambda>(i, b). i = 0 \<or> still_valid not_after now b) (List.enumerate 0 blocks))"

definition normalize_block :: "string \<Rightarrow> string" where
  "normalize_block cert_pem =
     (case split_pem_certs cert_pem of [] \<Rightarrow> trim_str cert_pem @ newline | b # _ \<Rightarrow> b)"

text \<open>A block as \<open>split_pem_certs\<close> produces it.\<close>

definition pem_block :: "string \<Rightarrow> bool" where
  "pem_block b \<longleftrightarrow> starts_with BEGIN_CERT b \<and>
     (case find_sub END_CERT b of
        None \<Rightarrow> False
      | Some e \<Rightarrow> 22 \<le> e \<and> b = take (e + 25) b @ newline)"

section \<open>Blocks\<close>

lemma find_sub_append: "find_sub p s = Some i \<Longrightarrow> find_sub p (s @ r) = Some i"
proof (induction p s arbitrary: i rule: find_sub.induct)
  case (1 p)
  then show ?case by (cases r) (auto split: if_splits)
next
  case (2 p x xs)
  show ?case
  proof (cases "take (length p) (x # xs) = p")
    case True
    then have "length p \<le> length (x # xs)" by (metis length_take min.cobounded1)
    with True have "take (length p) ((x # xs) @ r) = p"
      by (metis append_Nil2 diff_is_0_eq take0 take_append)
    with True 2 show ?thesis by simp
  next
    case False
    with 2(2) obtain j where j: "find_sub p xs = Some j" "i = Suc j" by auto
    have "take (length p) (x # xs @ r) \<noteq> p"
    proof
      assume long: "take (length p) (x # xs @ r) = p"
      have "j + length p \<le> length xs" using find_sub_Some[OF j(1)] by simp
      then have "take (length p) (x # xs @ r) = take (length p) (x # xs)"
        using take_append[of "length p" "x # xs" r] by simp
      with long False show False by simp
    qed
    with False j 2(1)[OF False j(1)] show ?thesis by simp
  qed
qed

lemma end_after_begin: "find_sub END_CERT (BEGIN_CERT @ r) = Some e \<Longrightarrow> 22 \<le> e"
  by (auto simp: END_CERT_def BEGIN_CERT_def)

lemma end_marker:
  assumes "find_sub END_CERT s = Some e"
  shows "take (e + 25) s = take e s @ END_CERT" "e + 25 \<le> length s"
  using find_sub_Some[OF assms] by (auto simp: take_add)

lemma block_text:
  assumes "starts_with BEGIN_CERT s" "find_sub END_CERT s = Some e"
  shows "22 \<le> e" "trim_str (take (e + 25) s) = take (e + 25) s" "starts_with BEGIN_CERT (take (e + 25) s)"
    "find_sub END_CERT (take (e + 25) s) = Some e"
proof -
  from assms(1) obtain r where r: "s = BEGIN_CERT @ r" by (auto simp: starts_with_iff)
  show e: "22 \<le> e" using end_after_begin assms(2) r by blast
  have "take (e + 25) s = BEGIN_CERT @ take (e - 2) r" using e by (simp add: r)
  then show "starts_with BEGIN_CERT (take (e + 25) s)" by (auto simp: starts_with_iff)
  from \<open>take (e + 25) s = BEGIN_CERT @ take (e - 2) r\<close> have "hd (take (e + 25) s) = CHR ''-''"
    by (simp add: BEGIN_CERT_def)
  moreover have "last (take (e + 25) s) = CHR ''-''"
    by (simp add: end_marker[OF assms(2)] END_CERT_def)
  ultimately show "trim_str (take (e + 25) s) = take (e + 25) s"
    by (intro trim_str_id) (auto simp: is_space_def)
  show "find_sub END_CERT (take (e + 25) s) = Some e"
  proof (cases "find_sub END_CERT (take (e + 25) s)")
    case (Some e')
    with find_sub_append[OF this, of "drop (e + 25) s"] assms(2) show ?thesis by simp
  next
    case None
    have "find_sub END_CERT (t @ END_CERT) \<noteq> None" for t
      by (induction t) (auto simp: END_CERT_def)
    with None end_marker[OF assms(2)] show ?thesis by metis
  qed
qed

lemma block_at:
  assumes "find_sub BEGIN_CERT rest = Some b" "find_sub END_CERT (drop b rest) = Some e"
  shows "pem_block (trim_str (take (e + 25) (drop b rest)) @ newline)"
proof -
  have start: "starts_with BEGIN_CERT (drop b rest)"
    using find_sub_Some[OF assms(1)] by (simp add: starts_with_def)
  note tx = block_text[OF start assms(2)]
  have "starts_with BEGIN_CERT (take (e + 25) (drop b rest) @ newline)"
    using tx(3) by (auto simp: starts_with_iff)
  moreover have "find_sub END_CERT (take (e + 25) (drop b rest) @ newline) = Some e"
    using tx(4) by (rule find_sub_append)
  moreover have "take (e + 25) (take (e + 25) (drop b rest) @ newline) = take (e + 25) (drop b rest)"
    using end_marker(2)[OF assms(2)] by simp
  ultimately show ?thesis using tx(1,2) by (simp add: pem_block_def)
qed

lemma split_gives_blocks: "list_all pem_block (split_pem_certs rest)"
proof (induction rest rule: split_pem_certs.induct)
  case (1 rest)
  then show ?case
    by (subst split_pem_certs.simps) (auto simp: block_at split: option.splits)
qed

lemma find_sub_start: "starts_with p s \<Longrightarrow> p \<noteq> [] \<Longrightarrow> find_sub p s = Some 0"
  by (auto simp: starts_with_iff find_sub_prefix)

lemma split_block:
  assumes "pem_block b"
  shows "split_pem_certs (b @ r) = b # split_pem_certs (newline @ r)"
proof -
  from assms obtain e where start: "starts_with BEGIN_CERT b" and e: "find_sub END_CERT b = Some e"
    and b: "b = take (e + 25) b @ newline" by (auto simp: pem_block_def split: option.splits)
  have "starts_with BEGIN_CERT (b @ r)" using start by (auto simp: starts_with_iff)
  then have 1: "find_sub BEGIN_CERT (b @ r) = Some 0" by (rule find_sub_start) (simp add: BEGIN_CERT_def)
  have 2: "find_sub END_CERT (b @ r) = Some e" using e by (rule find_sub_append)
  have len: "length (take (e + 25) b) = e + 25" using end_marker(2)[OF e] by simp
  then have 3: "take (e + 25) (b @ r) = take (e + 25) b" "drop (e + 25) (b @ r) = newline @ r"
    using b by (metis append.assoc append_eq_conv_conj)+
  show ?thesis
    by (subst split_pem_certs.simps) (simp add: 1 2 3 block_text(2)[OF start e] b[symmetric] del: take_append drop_append)
qed

lemma split_newline: "split_pem_certs (newline @ r) = split_pem_certs r"
proof -
  have f: "find_sub BEGIN_CERT (newline @ r) = map_option Suc (find_sub BEGIN_CERT r)"
    by (simp add: newline_def BEGIN_CERT_def)
  have d: "drop (Suc b) (newline @ r) = drop b r" for b by (simp add: newline_def)
  show ?thesis
    by (subst (1 2) split_pem_certs.simps) (simp add: f d del: drop_append drop_drop split: option.splits)
qed

lemma split_join_append:
  "list_all pem_block bs \<Longrightarrow> split_pem_certs (join_bundle bs @ r) = bs @ split_pem_certs r"
proof (induction bs)
  case (Cons b bs)
  then show ?case
    using split_block[of b "concat bs @ r"] split_newline[of "concat bs @ r"]
    by (simp add: join_bundle_def)
qed (simp add: join_bundle_def)

lemma split_nil [simp]: "split_pem_certs [] = []"
  by (simp add: split_pem_certs.simps BEGIN_CERT_def)

lemma split_join: "list_all pem_block bs \<Longrightarrow> split_pem_certs (join_bundle bs) = bs"
  using split_join_append[of bs "[]"] by simp

section \<open>Deduplication and pruning\<close>

lemma set_dedup_from: "set (dedup_from seen bs) = set bs - set seen"
  by (induction seen bs rule: dedup_from.induct) auto

lemma set_dedup [simp]: "set (dedup_blocks bs) = set bs"
  by (simp add: dedup_blocks_def set_dedup_from)

lemma distinct_dedup_from: "distinct (dedup_from seen bs)"
  by (induction seen bs rule: dedup_from.induct) (auto simp: set_dedup_from)

lemma distinct_dedup [simp]: "distinct (dedup_blocks bs)"
  by (simp add: dedup_blocks_def distinct_dedup_from)

lemma dedup_id: "distinct bs \<Longrightarrow> set bs \<inter> set seen = {} \<Longrightarrow> dedup_from seen bs = bs"
  by (induction seen bs rule: dedup_from.induct) auto

lemma dedup_blocks_id: "distinct bs \<Longrightarrow> dedup_blocks bs = bs"
  by (simp add: dedup_blocks_def dedup_id)

lemma dedup_Cons: "dedup_blocks (b # bs) = b # dedup_from [b] bs"
  by (simp add: dedup_blocks_def)

lemma prune_Nil [simp]: "prune_expired na [] now = []"
  by (simp add: prune_expired_def)

lemma prune_Cons [simp]: "prune_expired na (b # bs) now = b # filter (still_valid na now) bs"
proof -
  have "map snd (filter (\<lambda>(i, b). i = 0 \<or> P b) (List.enumerate (Suc n) bs)) = filter P bs" for n P
    by (induction bs arbitrary: n) auto
  then show ?thesis by (simp add: prune_expired_def)
qed

lemma prune_subset: "set (prune_expired na bs now) \<subseteq> set bs"
  by (cases bs) auto

lemma prune_keeps_valid: "b \<in> set bs \<Longrightarrow> still_valid na now b \<Longrightarrow> b \<in> set (prune_expired na bs now)"
  by (cases bs) auto

lemma distinct_prune [simp]: "distinct bs \<Longrightarrow> distinct (prune_expired na bs now)"
  by (cases bs) auto

lemma blocks_closed [simp]:
  "list_all pem_block bs \<Longrightarrow> list_all pem_block (dedup_blocks bs)"
  "list_all pem_block bs \<Longrightarrow> list_all pem_block (prune_expired na bs now)"
  using prune_subset[of na bs now] by (auto simp: list_all_iff)

section \<open>Properties\<close>

text \<open>reading a bundle normalises it once and for all. Whatever text a bundle Secret holds,
  joining the blocks that were read and reading them again gives the same blocks, and each block is
  one certificate from its begin marker to its end marker with one newline.\<close>
theorem bundle_normal_form:
  "split_pem_certs (join_bundle (split_pem_certs s)) = split_pem_certs s
   \<and> list_all pem_block (split_pem_certs s)"
  using split_join[OF split_gives_blocks] split_gives_blocks by blast

text \<open>pruning never removes the signing block nor an anchor that is still valid or cannot
  be parsed, and keeps the order of what it keeps.\<close>
theorem prune_keeps_signer:
  assumes "bs \<noteq> []"
  shows "hd (prune_expired na bs now) = hd bs
    \<and> (\<forall>b \<in> set bs. still_valid na now b \<longrightarrow> b \<in> set (prune_expired na bs now))
    \<and> subseq (prune_expired na bs now) bs"
  using assms by (cases bs) auto

theorem prune_keeps_signer_witness:
  "hd (prune_expired (\<lambda>b. if b = ''c'' then Inr 1 else Inr 9) [''a'', ''b'', ''c''] 5) = ''a''"
  using prune_keeps_signer[of "[''a'', ''b'', ''c'']" "\<lambda>b. if b = ''c'' then Inr 1 else Inr 9" 5] by simp

end
