(* ===== verification/Cluster_Ca.thy ===== *)
theory Cluster_Ca
  imports Trust_Bundle
begin

text \<open>
  \<open>controller/cluster_ca.rs\<close>: creation and rotation of the cluster CA and the
  clients CA. Each CA is a pair of Secrets, a private key with the material
  staged during a key replacement, and a trust bundle with the rotation
  phase. Key generation, certificate signing and X.509 parsing are library
  code (\<open>krabka_security\<close>, \<open>x509_parser\<close>), so they are fields of the
  environment of a pass. Generations are 64-bit words.
\<close>

section \<open>Names\<close>

definition cluster_ca_key_name :: "string \<Rightarrow> string" where
  "cluster_ca_key_name cluster = cluster @ ''-cluster-ca''"

definition cluster_ca_cert_name :: "string \<Rightarrow> string" where
  "cluster_ca_cert_name cluster = cluster @ ''-cluster-ca-cert''"

definition clients_ca_key_name :: "string \<Rightarrow> string" where
  "clients_ca_key_name cluster = cluster @ ''-clients-ca''"

definition clients_ca_cert_name :: "string \<Rightarrow> string" where
  "clients_ca_cert_name cluster = cluster @ ''-clients-ca-cert''"

definition broker_keystore_name :: "string \<Rightarrow> string" where
  "broker_keystore_name cluster = cluster @ ''-kafka-brokers''"

definition ANN_CERT_GENERATION :: string where
  "ANN_CERT_GENERATION = ''krabka.io/ca-cert-generation''"

definition ANN_KEY_GENERATION :: string where
  "ANN_KEY_GENERATION = ''krabka.io/ca-key-generation''"

definition ANN_LEAFS_KEY_GENERATION :: string where
  "ANN_LEAFS_KEY_GENERATION = ''krabka.io/ca-leafs-key-generation''"

definition ANN_ROTATION_PHASE :: string where
  "ANN_ROTATION_PHASE = ''krabka.io/ca-rotation-phase''"

definition NEXT_KEY :: string where
  "NEXT_KEY = ''ca.key.next''"

definition NEXT_CERT :: string where
  "NEXT_CERT = ''ca.crt.next''"

section \<open>Data\<close>

datatype which_ca = Cluster | Clients

definition cn_suffix :: "which_ca \<Rightarrow> string" where
  "cn_suffix w = (case w of Cluster \<Rightarrow> ''-cluster-ca'' | Clients \<Rightarrow> ''-clients-ca'')"

definition condition_name :: "which_ca \<Rightarrow> string" where
  "condition_name w = (case w of Cluster \<Rightarrow> ''ClusterCaReady'' | Clients \<Rightarrow> ''ClientsCaReady'')"

datatype ca_phase = PhaseIdle | KeyReplaceTrust | KeyReplacePromote

definition ca_phase_str :: "ca_phase \<Rightarrow> string" where
  "ca_phase_str p =
     (case p of PhaseIdle \<Rightarrow> ''idle'' | KeyReplaceTrust \<Rightarrow> ''key-replace-trust''
      | KeyReplacePromote \<Rightarrow> ''key-replace-promote'')"

definition ca_phase_of :: "string \<Rightarrow> ca_phase option" where
  "ca_phase_of s =
     (if s = ''idle'' then Some PhaseIdle else if s = ''key-replace-trust'' then Some KeyReplaceTrust
      else if s = ''key-replace-promote'' then Some KeyReplacePromote else None)"

definition ca_phase_parse :: "string \<Rightarrow> ca_phase" where
  "ca_phase_parse s = (case ca_phase_of s of None \<Rightarrow> PhaseIdle | Some p \<Rightarrow> p)"

record ca_state =
  cs_bundle :: "string list"
  cs_key_pem :: string
  cs_pending_key :: "string option"
  cs_pending_cert :: "string option"
  cs_cert_gen :: u64
  cs_key_gen :: u64
  cs_leafs_gen :: "u64 option"
  cs_phase :: ca_phase

datatype force_rotation = ForceNone | RenewCertificate | ReplaceKey | RenewAndReplaceKey

definition renews_certificate :: "force_rotation \<Rightarrow> bool" where
  "renews_certificate f \<longleftrightarrow> f = RenewCertificate \<or> f = RenewAndReplaceKey"

definition replaces_key :: "force_rotation \<Rightarrow> bool" where
  "replaces_key f \<longleftrightarrow> f = ReplaceKey \<or> f = RenewAndReplaceKey"

record rotation_inputs =
  ri_generate :: bool
  ri_validity :: time
  ri_renewal :: time
  ri_force :: force_rotation
  ri_converged :: bool
  ri_now :: time
  ri_which :: which_ca

datatype refuse_reason = Byo

datatype ca_rotation_plan =
    NoOp | RenewCertSameKey | StartKeyReplace | PromoteNewKey | PruneOldTrust | Refuse refuse_reason

datatype ca_leaf_transition = NoTransition | Reissue | OldTrustPruned

definition requires_reissue :: "ca_leaf_transition \<Rightarrow> bool" where
  "requires_reissue t \<longleftrightarrow> t = Reissue"

definition pruned_old_trust :: "ca_leaf_transition \<Rightarrow> bool" where
  "pruned_old_trust t \<longleftrightarrow> t = OldTrustPruned"

record ca_material =
  cm_cert_pem :: string
  cm_key_pem :: string

record ca_outcome =
  co_signing :: ca_material
  co_trust_bundle :: string
  co_not_after :: string
  co_generated :: bool
  co_cert_gen :: u64
  co_key_gen :: u64
  co_phase :: ca_phase
  co_anchors :: nat
  co_transition :: ca_leaf_transition
  co_in_progress :: bool
  co_reason :: string
  co_message :: string
  co_refused :: "refuse_reason option"

record certificate_authority =
  ca_generate :: bool
  ca_validity_days :: u32
  ca_renewal_days :: u32

definition default_ca :: certificate_authority where
  "default_ca = \<lparr>ca_generate = True, ca_validity_days = 365, ca_renewal_days = 30\<rparr>"

text \<open>The part of the \<open>Kafka\<close> resource that the certificate code reads.\<close>

record kafka_owner =
  ko_meta :: object_meta
  ko_cluster_ca :: "certificate_authority option"
  ko_clients_ca :: "certificate_authority option"

record ca_env =
  ce_get_secret :: "string \<Rightarrow> kube_error + secret option"
  ce_patch_secret :: "string \<Rightarrow> kube_error option"
  ce_generate_ca :: "which_ca \<Rightarrow> string \<Rightarrow> u32 \<Rightarrow> string + ca_material"
  ce_renew_ca :: "which_ca \<Rightarrow> string \<Rightarrow> string \<Rightarrow> u32 \<Rightarrow> string + string"
  ce_not_after :: expiry
  ce_format :: "time \<Rightarrow> string + string"

datatype ca_effect = ApplySecret string secret

section \<open>Time\<close>

definition day_ns :: int where
  "day_ns = 86400 * 1000000000"

definition days :: "u32 \<Rightarrow> time" where
  "days n = uint n * day_ns"

definition whole_days :: "time \<Rightarrow> u32" where
  "whole_days extent =
     (let value = (2 * extent + day_ns) div (2 * day_ns) in
      if value \<le> 0 then 0 else if value < 2 ^ 32 then word_of_int value else - 1)"

definition renew_if_expiring :: "expiry \<Rightarrow> string \<Rightarrow> time \<Rightarrow> time \<Rightarrow> reconcile_error + bool" where
  "renew_if_expiring not_after cert_pem renewal now =
     bind_result (not_after cert_pem) (\<lambda>na. Inr (na - now \<le> renewal))"

section \<open>Planning\<close>

definition plan_ca_rotation :: "expiry \<Rightarrow> ca_state \<Rightarrow> rotation_inputs \<Rightarrow> ca_rotation_plan" where
  "plan_ca_rotation not_after state inp =
     (if \<not> ri_generate inp then
        (if renews_certificate (ri_force inp) \<or> replaces_key (ri_force inp) then Refuse Byo else NoOp)
      else case cs_phase state of
        KeyReplaceTrust \<Rightarrow> if ri_converged inp then PromoteNewKey else NoOp
      | KeyReplacePromote \<Rightarrow>
          (let leafs_converged = ri_which inp = Cluster \<or> cs_leafs_gen state = Some (cs_key_gen state)
           in if ri_converged inp \<and> leafs_converged then PruneOldTrust else NoOp)
      | PhaseIdle \<Rightarrow>
          if replaces_key (ri_force inp) then StartKeyReplace
          else
            let signing = (case cs_bundle state of [] \<Rightarrow> [] | b # _ \<Rightarrow> b);
                renew_due = renews_certificate (ri_force inp)
                  \<or> result_ok (renew_if_expiring not_after signing (ri_renewal inp) (ri_now inp)) = Some True
            in if renew_due then RenewCertSameKey
               else if list_ex (\<lambda>b. case not_after b of Inl _ \<Rightarrow> False | Inr na \<Rightarrow> na \<le> ri_now inp)
                         (drop 1 (cs_bundle state))
               then PruneOldTrust
               else NoOp)"

section \<open>Reading and writing the Secrets\<close>

definition read_optional_generation :: "secret \<Rightarrow> string \<Rightarrow> u64 option" where
  "read_optional_generation s ann = Option.bind (meta_annotation (secret_meta s) ann) parse_word"

definition read_generation :: "secret \<Rightarrow> string \<Rightarrow> u64" where
  "read_generation s ann = (case read_optional_generation s ann of None \<Rightarrow> 0 | Some g \<Rightarrow> g)"

definition read_phase :: "secret \<Rightarrow> ca_phase" where
  "read_phase s =
     (case meta_annotation (secret_meta s) ANN_ROTATION_PHASE of
        None \<Rightarrow> PhaseIdle | Some v \<Rightarrow> ca_phase_parse v)"

definition render_ca_secret ::
  "kafka_owner \<Rightarrow> string \<Rightarrow> string \<Rightarrow> (string \<times> string) list \<Rightarrow> (string \<times> string) list
     \<Rightarrow> reconcile_error + secret" where
  "render_ca_secret kafka name secret_type_label entries extra_annotations =
     (let cluster = meta_name (ko_meta kafka);
          labels = bm_collect [(''krabka.io/secret-type'', secret_type_label), (''krabka.io/cluster'', cluster)];
          annotations = bm_collect ((''krabka.io/strictly-operator-managed'', ''true'') # extra_annotations)
      in bind_result (owner_ref ''krabka.io/v1alpha1'' ''Kafka'' (ko_meta kafka)) (\<lambda>owner.
           Inr \<lparr>secret_meta = (plain_meta name)\<lparr>meta_namespace := meta_namespace (ko_meta kafka),
                  meta_labels := Some labels, meta_annotations := Some annotations,
                  meta_owner_references := [owner]\<rparr>,
                secret_type = Some ''Opaque'', secret_data = Some (bm_collect entries)\<rparr>))"

definition patch_secret ::
  "ca_env \<Rightarrow> kafka_owner \<Rightarrow> string \<Rightarrow> string \<Rightarrow> (string \<times> string) list \<Rightarrow> (string \<times> string) list
     \<Rightarrow> (reconcile_error, unit, ca_effect) logged" where
  "patch_secret env kafka name secret_type_label entries annotations =
     bind_log (lift_log (render_ca_secret kafka name secret_type_label entries annotations)) (\<lambda>s.
       attempt Kube (ce_patch_secret env name) (ApplySecret name s))"

definition patch_cert_bundle ::
  "ca_env \<Rightarrow> kafka_owner \<Rightarrow> string \<Rightarrow> string list \<Rightarrow> u64 \<Rightarrow> ca_phase
     \<Rightarrow> (reconcile_error, unit, ca_effect) logged" where
  "patch_cert_bundle env kafka cert_name bundle cert_gen phase =
     patch_secret env kafka cert_name ''ca-cert'' [(''ca.crt'', join_bundle bundle)]
       [(ANN_CERT_GENERATION, print_word cert_gen), (ANN_ROTATION_PHASE, ca_phase_str phase)]"

section \<open>Executing a plan\<close>

text \<open>The variables of \<open>apply_ca_rotation\<close> that a plan may change.\<close>

record ca_progress =
  cp_bundle :: "string list"
  cp_key_pem :: string
  cp_cert_gen :: u64
  cp_key_gen :: u64
  cp_phase :: ca_phase
  cp_force_reissue :: bool
  cp_raw_override :: "string option"
  cp_refused :: "refuse_reason option"

definition initial_progress :: "ca_state \<Rightarrow> string \<Rightarrow> ca_progress" where
  "initial_progress state raw = \<lparr>cp_bundle = cs_bundle state, cp_key_pem = cs_key_pem state,
     cp_cert_gen = cs_cert_gen state, cp_key_gen = cs_key_gen state, cp_phase = cs_phase state,
     cp_force_reissue = False, cp_raw_override = Some raw, cp_refused = None\<rparr>"

type_synonym 'a ca_step = "(reconcile_error, 'a, ca_effect) logged"

text \<open>The names \<open>(key_name, cert_name, cn)\<close> of one CA.\<close>

type_synonym ca_names = "string \<times> string \<times> string"

definition renewed_bundle :: "expiry \<Rightarrow> string list \<Rightarrow> time \<Rightarrow> string \<Rightarrow> string list" where
  "renewed_bundle not_after bundle now new_cert =
     dedup_blocks (normalize_block new_cert # prune_expired not_after bundle now)"

definition renew_cert_same_key ::
  "ca_env \<Rightarrow> kafka_owner \<Rightarrow> which_ca \<Rightarrow> ca_names \<Rightarrow> ca_state \<Rightarrow> rotation_inputs \<Rightarrow> ca_progress
     \<Rightarrow> ca_progress ca_step" where
  "renew_cert_same_key env kafka which names state inp p =
     (case names of (key_name, cert_name, cn) \<Rightarrow>
       bind_log (lift_log (map_sum Ca id
           (ce_renew_ca env which (cp_key_pem p) cn (whole_days (ri_validity inp))))) (\<lambda>new_cert.
         let bundle = renewed_bundle (ce_not_after env) (cs_bundle state) (ri_now inp) new_cert;
             cert_gen = cp_cert_gen p + 1
         in then_log (patch_cert_bundle env kafka cert_name bundle cert_gen PhaseIdle)
              (ret_log (p\<lparr>cp_bundle := bundle, cp_cert_gen := cert_gen, cp_phase := PhaseIdle,
                          cp_raw_override := None\<rparr>))))"

definition staged_bundle :: "expiry \<Rightarrow> string list \<Rightarrow> time \<Rightarrow> string \<Rightarrow> string list" where
  "staged_bundle not_after bundle now new_cert =
     dedup_blocks (prune_expired not_after bundle now @ [normalize_block new_cert])"

definition start_key_replace ::
  "ca_env \<Rightarrow> kafka_owner \<Rightarrow> which_ca \<Rightarrow> ca_names \<Rightarrow> ca_state \<Rightarrow> rotation_inputs \<Rightarrow> ca_progress
     \<Rightarrow> ca_progress ca_step" where
  "start_key_replace env kafka which names state inp p =
     (case names of (key_name, cert_name, cn) \<Rightarrow>
       bind_log (lift_log (map_sum Ca id (ce_generate_ca env which cn (whole_days (ri_validity inp)))))
         (\<lambda>new.
           let bundle = staged_bundle (ce_not_after env) (cs_bundle state) (ri_now inp) (cm_cert_pem new)
           in then_log
                (patch_secret env kafka key_name ''ca-key''
                   [(''ca.key'', cp_key_pem p), (NEXT_KEY, cm_key_pem new), (NEXT_CERT, cm_cert_pem new)]
                   [(ANN_KEY_GENERATION, print_word (cp_key_gen p))])
                (then_log
                  (patch_cert_bundle env kafka cert_name bundle (cp_cert_gen p) KeyReplaceTrust)
                  (ret_log (p\<lparr>cp_bundle := bundle, cp_phase := KeyReplaceTrust,
                              cp_raw_override := None\<rparr>)))))"

definition promoted_bundle :: "expiry \<Rightarrow> string list \<Rightarrow> time \<Rightarrow> string \<Rightarrow> string list" where
  "promoted_bundle not_after bundle now new_cert =
     prune_expired not_after
       (dedup_blocks (new_cert # filter (\<lambda>b. b \<noteq> new_cert) bundle)) now"

definition promote_new_key ::
  "ca_env \<Rightarrow> kafka_owner \<Rightarrow> ca_names \<Rightarrow> ca_state \<Rightarrow> rotation_inputs \<Rightarrow> ca_progress
     \<Rightarrow> ca_progress ca_step" where
  "promote_new_key env kafka names state inp p =
     (case names of (key_name, cert_name, cn) \<Rightarrow>
       (case (cs_pending_key state, cs_pending_cert state) of
          (None, _) \<Rightarrow> fail_log (CertParse ''promote without staged key'')
        | (Some _, None) \<Rightarrow> fail_log (CertParse ''promote without staged cert'')
        | (Some new_key, Some pending_cert) \<Rightarrow>
            (let new_cert = normalize_block pending_cert;
                 bundle = promoted_bundle (ce_not_after env) (cs_bundle state) (ri_now inp) new_cert;
                 cert_gen = cp_cert_gen p + 1;
                 key_gen = (if cs_key_pem state = new_key then cp_key_gen p else cp_key_gen p + 1)
             in then_log
                  (patch_secret env kafka key_name ''ca-key''
                     [(''ca.key'', new_key), (NEXT_KEY, new_key), (NEXT_CERT, new_cert)]
                     [(ANN_KEY_GENERATION, print_word key_gen)])
                  (then_log (patch_cert_bundle env kafka cert_name bundle cert_gen KeyReplacePromote)
                    (ret_log (p\<lparr>cp_bundle := bundle, cp_key_pem := new_key, cp_cert_gen := cert_gen,
                                cp_key_gen := key_gen, cp_phase := KeyReplacePromote,
                                cp_force_reissue := True, cp_raw_override := None\<rparr>))))))"

definition prune_old_trust ::
  "ca_env \<Rightarrow> kafka_owner \<Rightarrow> ca_names \<Rightarrow> ca_state \<Rightarrow> rotation_inputs \<Rightarrow> ca_progress
     \<Rightarrow> ca_progress ca_step" where
  "prune_old_trust env kafka names state inp p =
     (case names of (key_name, cert_name, cn) \<Rightarrow>
       (let finish = (\<lambda>bundle.
              then_log (patch_cert_bundle env kafka cert_name bundle (cp_cert_gen p) PhaseIdle)
                (ret_log (p\<lparr>cp_bundle := bundle, cp_phase := PhaseIdle, cp_raw_override := None\<rparr>)))
        in if cs_phase state = KeyReplacePromote then
             then_log
               (patch_secret env kafka key_name ''ca-key'' [(''ca.key'', cp_key_pem p)]
                  [(ANN_KEY_GENERATION, print_word (cp_key_gen p))])
               (finish (take 1 (cs_bundle state)))
           else finish (prune_expired (ce_not_after env) (cs_bundle state) (ri_now inp))))"

definition run_plan ::
  "ca_env \<Rightarrow> kafka_owner \<Rightarrow> which_ca \<Rightarrow> ca_names \<Rightarrow> ca_state \<Rightarrow> ca_rotation_plan \<Rightarrow> rotation_inputs
     \<Rightarrow> string \<Rightarrow> ca_progress ca_step" where
  "run_plan env kafka which names state plan inp raw =
     (let p = initial_progress state raw in
      case plan of
        NoOp \<Rightarrow> ret_log p
      | Refuse reason \<Rightarrow> ret_log (p\<lparr>cp_refused := Some reason\<rparr>)
      | RenewCertSameKey \<Rightarrow> renew_cert_same_key env kafka which names state inp p
      | StartKeyReplace \<Rightarrow> start_key_replace env kafka which names state inp p
      | PromoteNewKey \<Rightarrow> promote_new_key env kafka names state inp p
      | PruneOldTrust \<Rightarrow> prune_old_trust env kafka names state inp p)"

definition rotation_condition ::
  "ca_rotation_plan \<Rightarrow> ca_phase \<Rightarrow> refuse_reason option \<Rightarrow> reconcile_error + bool \<times> string \<times> string" where
  "rotation_condition plan phase refused =
     (case refused of
        Some Byo \<Rightarrow> Inr (False, ''ByoCaImmutable'',
          ''forced rotation ignored: BYO CA (generateCertificateAuthority=false)'')
      | None \<Rightarrow>
         (case plan of
            RenewCertSameKey \<Rightarrow> Inr (True, ''RenewingCert'', ''re-signing the CA cert (same key)'')
          | StartKeyReplace \<Rightarrow> Inr (True, ''DistributingTrust'',
              ''new CA generated; rolling to distribute the trust bundle'')
          | PromoteNewKey \<Rightarrow> Inr (True, ''PromotingKey'',
              ''promoting the new CA key and reissuing leaf certificates'')
          | NoOp \<Rightarrow>
             (case phase of
                KeyReplaceTrust \<Rightarrow> Inr (True, ''DistributingTrust'',
                  ''waiting for the trust-bundle roll to converge'')
              | KeyReplacePromote \<Rightarrow> Inr (True, ''PromotingKey'',
                  ''waiting for the new-key roll and leaf reissue to converge'')
              | PhaseIdle \<Rightarrow> Inr (False, ''Idle'', ''no rotation in progress''))
          | PruneOldTrust \<Rightarrow> Inr (False, ''Idle'', ''rotation complete; pruned old trust anchors'')
          | Refuse _ \<Rightarrow> Inl (Panic ''handled above'')))"

definition format_not_after :: "ca_env \<Rightarrow> string \<Rightarrow> reconcile_error + string" where
  "format_not_after env cert_pem =
     bind_result (ce_not_after env cert_pem) (\<lambda>na. map_sum CertParse id (ce_format env na))"

definition ca_result ::
  "ca_env \<Rightarrow> which_ca \<Rightarrow> ca_state \<Rightarrow> ca_rotation_plan \<Rightarrow> rotation_inputs \<Rightarrow> ca_progress
     \<Rightarrow> reconcile_error + ca_outcome" where
  "ca_result env which state plan inp p =
     (let signing_cert = (case cp_bundle p of [] \<Rightarrow> [] | b # _ \<Rightarrow> b);
          trust = (case cp_raw_override p of Some raw \<Rightarrow> raw | None \<Rightarrow> join_bundle (cp_bundle p))
      in bind_result (format_not_after env signing_cert) (\<lambda>not_after.
         bind_result (rotation_condition plan (cp_phase p) (cp_refused p)) (\<lambda>(in_progress, reason, message).
           let force_reissue = cp_force_reissue p
                 \<or> (which = Clients \<and> cp_phase p = KeyReplacePromote
                    \<and> cs_leafs_gen state \<noteq> Some (cp_key_gen p))
           in Inr \<lparr>co_signing = \<lparr>cm_cert_pem = signing_cert, cm_key_pem = cp_key_pem p\<rparr>,
                co_trust_bundle = trust, co_not_after = not_after, co_generated = ri_generate inp,
                co_cert_gen = cp_cert_gen p, co_key_gen = cp_key_gen p, co_phase = cp_phase p,
                co_anchors = length (cp_bundle p),
                co_transition = (if force_reissue then Reissue
                                 else if plan = PruneOldTrust then OldTrustPruned else NoTransition),
                co_in_progress = in_progress, co_reason = reason, co_message = message,
                co_refused = cp_refused p\<rparr>)))"

definition apply_ca_rotation ::
  "ca_env \<Rightarrow> kafka_owner \<Rightarrow> which_ca \<Rightarrow> ca_names \<Rightarrow> ca_state \<Rightarrow> ca_rotation_plan \<Rightarrow> rotation_inputs
     \<Rightarrow> string \<Rightarrow> ca_outcome ca_step" where
  "apply_ca_rotation env kafka which names state plan inp raw =
     bind_log (run_plan env kafka which names state plan inp raw) (\<lambda>p.
       lift_log (ca_result env which state plan inp p))"

section \<open>One pass over one CA\<close>

definition ca_spec_of :: "kafka_owner \<Rightarrow> which_ca \<Rightarrow> certificate_authority" where
  "ca_spec_of kafka which =
     (case (case which of Cluster \<Rightarrow> ko_cluster_ca kafka | Clients \<Rightarrow> ko_clients_ca kafka) of
        None \<Rightarrow> default_ca | Some c \<Rightarrow> c)"

definition ca_names_of :: "kafka_owner \<Rightarrow> which_ca \<Rightarrow> ca_names" where
  "ca_names_of kafka which =
     (let cluster = meta_name (ko_meta kafka) in
      (case which of
         Cluster \<Rightarrow> (cluster_ca_key_name cluster, cluster_ca_cert_name cluster, cluster @ cn_suffix which)
       | Clients \<Rightarrow> (clients_ca_key_name cluster, clients_ca_cert_name cluster, cluster @ cn_suffix which)))"

definition load_ca :: "secret option \<Rightarrow> secret option \<Rightarrow> (ca_state \<times> string) option" where
  "load_ca existing_key existing_cert =
     (case (existing_key, existing_cert) of
        (Some k, Some c) \<Rightarrow>
          (case (read_pem_key k ''ca.key'', read_pem_key c ''ca.crt'') of
             (Some key_pem, Some bundle_pem) \<Rightarrow>
               Some (\<lparr>cs_bundle = split_pem_certs bundle_pem, cs_key_pem = key_pem,
                      cs_pending_key = read_pem_key k NEXT_KEY, cs_pending_cert = read_pem_key k NEXT_CERT,
                      cs_cert_gen = read_generation c ANN_CERT_GENERATION,
                      cs_key_gen = read_generation k ANN_KEY_GENERATION,
                      cs_leafs_gen = read_optional_generation c ANN_LEAFS_KEY_GENERATION,
                      cs_phase = read_phase c\<rparr>, bundle_pem)
           | _ \<Rightarrow> None)
      | _ \<Rightarrow> None)"

definition force_of :: "bool \<Rightarrow> bool \<Rightarrow> force_rotation" where
  "force_of force_renew force_replace_key =
     (case (force_renew, force_replace_key) of
        (False, False) \<Rightarrow> ForceNone | (True, False) \<Rightarrow> RenewCertificate
      | (False, True) \<Rightarrow> ReplaceKey | (True, True) \<Rightarrow> RenewAndReplaceKey)"

definition create_ca ::
  "ca_env \<Rightarrow> kafka_owner \<Rightarrow> which_ca \<Rightarrow> ca_names \<Rightarrow> certificate_authority \<Rightarrow> ca_outcome ca_step" where
  "create_ca env kafka which names spec =
     (case names of (key_name, cert_name, cn) \<Rightarrow>
       bind_log (lift_log (map_sum Ca id (ce_generate_ca env which cn (ca_validity_days spec)))) (\<lambda>m.
         then_log (patch_secret env kafka key_name ''ca-key'' [(''ca.key'', cm_key_pem m)]
                     [(ANN_KEY_GENERATION, ''0'')])
           (then_log (patch_secret env kafka cert_name ''ca-cert'' [(''ca.crt'', cm_cert_pem m)]
                        [(ANN_CERT_GENERATION, ''0'')])
             (bind_log (lift_log (format_not_after env (cm_cert_pem m))) (\<lambda>not_after.
               ret_log \<lparr>co_signing = m, co_trust_bundle = cm_cert_pem m, co_not_after = not_after,
                 co_generated = True, co_cert_gen = 0, co_key_gen = 0, co_phase = PhaseIdle,
                 co_anchors = 1, co_transition = NoTransition, co_in_progress = False,
                 co_reason = ''Idle'', co_message = ''no rotation in progress'', co_refused = None\<rparr>)))))"

definition reconcile_ca ::
  "ca_env \<Rightarrow> kafka_owner \<Rightarrow> which_ca \<Rightarrow> bool \<Rightarrow> bool \<Rightarrow> bool \<Rightarrow> time \<Rightarrow> ca_outcome ca_step" where
  "reconcile_ca env kafka which force_renew force_replace_key rollout_converged now =
     (let spec = ca_spec_of kafka which; names = ca_names_of kafka which in
      bind_log (lift_log (map_sum Kube id (ce_get_secret env (fst names)))) (\<lambda>existing_key.
      bind_log (lift_log (map_sum Kube id (ce_get_secret env (fst (snd names))))) (\<lambda>existing_cert.
        case load_ca existing_key existing_cert of
          Some (state, bundle_pem) \<Rightarrow>
            (let inp = \<lparr>ri_generate = ca_generate spec, ri_validity = days (ca_validity_days spec),
                        ri_renewal = days (ca_renewal_days spec),
                        ri_force = force_of force_renew force_replace_key,
                        ri_converged = rollout_converged, ri_now = now, ri_which = which\<rparr>
             in apply_ca_rotation env kafka which names state
                  (plan_ca_rotation (ce_not_after env) state inp) inp bundle_pem)
        | None \<Rightarrow>
            if \<not> ca_generate spec then fail_log (ByoCaMissing (condition_name which))
            else create_ca env kafka which names spec)))"

text \<open>The marker that every client leaf carries the key generation: a merge patch of one annotation.\<close>

definition set_annotation :: "string \<Rightarrow> string \<Rightarrow> object_meta \<Rightarrow> object_meta" where
  "set_annotation k v m =
     m\<lparr>meta_annotations := Some (bm_insert k v (case meta_annotations m of None \<Rightarrow> [] | Some a \<Rightarrow> a))\<rparr>"

definition mark_leafs_reissued :: "u64 \<Rightarrow> secret \<Rightarrow> secret" where
  "mark_leafs_reissued generation c =
     c\<lparr>secret_meta := set_annotation ANN_LEAFS_KEY_GENERATION (print_word generation) (secret_meta c)\<rparr>"

section \<open>Properties of the planner and of day counts\<close>

text \<open>a day count of the resource survives its way through a time span, for every 32-bit value,
  so a certificate is issued for exactly the configured number of days.\<close>
theorem whole_days_days: "whole_days (days n) = n"
proof -
  have "(2 * (uint n * day_ns) + day_ns) div (2 * day_ns) = uint n"
    by (simp add: day_ns_def)
  moreover have "uint n < 2 ^ 32" using uint_lt2p[of n] by simp
  ultimately show ?thesis
    by (auto simp: whole_days_def days_def Let_def word_of_int_uint)
       (metis uint_0_iff uint_ge_0 order_antisym)
qed

text \<open>the planner starts a step of a key replacement only in its own phase and, past the
  first, only after the rollout of the step before it converged; for the clients CA the old trust is
  pruned only after the leaf marker caught up with the key.\<close>
theorem plan_follows_phases:
  "(plan_ca_rotation na st inp = PromoteNewKey \<longrightarrow> cs_phase st = KeyReplaceTrust \<and> ri_converged inp)
   \<and> (plan_ca_rotation na st inp = StartKeyReplace \<longrightarrow> cs_phase st = PhaseIdle \<and> replaces_key (ri_force inp))
   \<and> (plan_ca_rotation na st inp = RenewCertSameKey \<longrightarrow> cs_phase st = PhaseIdle)
   \<and> (plan_ca_rotation na st inp = PruneOldTrust \<and> cs_phase st = KeyReplacePromote \<longrightarrow>
        ri_converged inp \<and> (ri_which inp = Clients \<longrightarrow> cs_leafs_gen st = Some (cs_key_gen st)))"
  by (auto simp: plan_ca_rotation_def Let_def split: if_splits ca_phase.splits)

definition plan_sample :: ca_state where
  "plan_sample = \<lparr>cs_bundle = [''x''], cs_key_pem = ''k'', cs_pending_key = Some ''n'', cs_pending_cert = Some ''c'',
     cs_cert_gen = 0, cs_key_gen = 0, cs_leafs_gen = None, cs_phase = KeyReplaceTrust\<rparr>"

definition plan_sample_inputs :: rotation_inputs where
  "plan_sample_inputs = \<lparr>ri_generate = True, ri_validity = 0, ri_renewal = 0, ri_force = ForceNone,
     ri_converged = True, ri_now = 0, ri_which = Cluster\<rparr>"

theorem plan_follows_phases_witness:
  "plan_ca_rotation (\<lambda>_. Inr 9) plan_sample plan_sample_inputs = PromoteNewKey
     \<and> cs_phase plan_sample = KeyReplaceTrust \<and> ri_converged plan_sample_inputs"
proof -
  have "plan_ca_rotation (\<lambda>_. Inr 9) plan_sample plan_sample_inputs = PromoteNewKey"
    by (simp add: plan_ca_rotation_def plan_sample_def plan_sample_inputs_def)
  then show ?thesis
    using plan_follows_phases[of "\<lambda>_. Inr 9" plan_sample plan_sample_inputs] by simp
qed

end
