(* ===== verification/Ca_Rotation.thy ===== *)
theory Ca_Rotation
  imports Cluster_Ca
begin

text \<open>
  The rotation of a CA over many passes. A world holds the Secret pair, the
  trust bundles that some peer may be running with, and the keys that may
  have signed a leaf in service. Steps are passes of the operator, cut off
  after any number of their patches, leaf issuance, completed rollouts and
  the marker of reissued client leafs. The main result is that no peer ever
  runs with a bundle that lacks an anchor for a leaf in service.
\<close>

section \<open>The machine\<close>

text \<open>
  A forced server-side apply by the operator's field manager replaces the data
  and annotations it owns; the marker of reissued leafs was written by another
  manager and stays.
\<close>

definition ssa :: "secret option \<Rightarrow> secret \<Rightarrow> secret" where
  "ssa old new =
     (case Option.bind old (\<lambda>o1. meta_annotation (secret_meta o1) ANN_LEAFS_KEY_GENERATION) of
        None \<Rightarrow> new
      | Some v \<Rightarrow> new\<lparr>secret_meta := set_annotation ANN_LEAFS_KEY_GENERATION v (secret_meta new)\<rparr>)"

record ca_world =
  cw_key :: "secret option"
  cw_cert :: "secret option"
  cw_bundles :: "string list list"
  cw_signers :: "string list"

definition bundle_of :: "secret \<Rightarrow> string list" where
  "bundle_of c = (case read_pem_key c ''ca.crt'' of None \<Rightarrow> [] | Some p \<Rightarrow> split_pem_certs p)"

fun apply_ca_effect :: "ca_names \<Rightarrow> ca_effect \<Rightarrow> ca_world \<Rightarrow> ca_world" where
  "apply_ca_effect names (ApplySecret n s) w =
     (if n = fst names then w\<lparr>cw_key := Some (ssa (cw_key w) s)\<rparr>
      else if n = fst (snd names)
      then w\<lparr>cw_cert := Some (ssa (cw_cert w) s), cw_bundles := bundle_of s # cw_bundles w\<rparr>
      else w)"

definition is_ascii_text :: "string \<Rightarrow> bool" where
  "is_ascii_text s \<longleftrightarrow> list_all (\<lambda>c. (of_char c :: nat) < 128) s"

text \<open>
  What the certificate library promises: PEM text is ASCII and holds a
  certificate block, a generated certificate belongs to its key, and a
  renewed one to the key it was renewed for. \<open>pairs\<close> says which block belongs
  to which private key.
\<close>

definition sound_crypto :: "(string \<Rightarrow> string \<Rightarrow> bool) \<Rightarrow> ca_env \<Rightarrow> bool" where
  "sound_crypto pairs env \<longleftrightarrow>
     (\<forall>which cn d m. ce_generate_ca env which cn d = Inr m \<longrightarrow>
        is_ascii_text (cm_key_pem m) \<and> is_ascii_text (cm_cert_pem m)
        \<and> split_pem_certs (cm_cert_pem m) \<noteq> [] \<and> pairs (normalize_block (cm_cert_pem m)) (cm_key_pem m)) \<and>
     (\<forall>which k cn d c. ce_renew_ca env which k cn d = Inr c \<longrightarrow>
        is_ascii_text c \<and> split_pem_certs c \<noteq> [] \<and> pairs (normalize_block c) k)"

text \<open>
  \<open>rollout_converged\<close> means that the peers run the stored bundle and serve leafs
  of the stored key; a promotion happens while the signing certificate is
  still valid.
\<close>

definition pass_allowed :: "ca_env \<Rightarrow> bool \<Rightarrow> time \<Rightarrow> ca_world \<Rightarrow> bool" where
  "pass_allowed env conv now w \<longleftrightarrow>
     (case load_ca (cw_key w) (cw_cert w) of
        None \<Rightarrow> True
      | Some (st, _) \<Rightarrow>
          (conv \<longrightarrow> set (cw_bundles w) \<subseteq> {cs_bundle st} \<and> set (cw_signers w) \<subseteq> {cs_key_pem st})
          \<and> (cs_phase st = KeyReplaceTrust \<longrightarrow> still_valid (ce_not_after env) now (hd (cs_bundle st))))"

inductive ca_machine :: "(string \<Rightarrow> string \<Rightarrow> bool) \<Rightarrow> ca_names \<Rightarrow> ca_world \<Rightarrow> ca_world \<Rightarrow> bool"
  for pairs names where
  ca_pass: "sound_crypto pairs env \<Longrightarrow> ca_names_of kafka which = names \<Longrightarrow>
     ce_get_secret env (fst names) = Inr (cw_key w) \<Longrightarrow>
     ce_get_secret env (fst (snd names)) = Inr (cw_cert w) \<Longrightarrow>
     pass_allowed env conv now w \<Longrightarrow>
     ca_machine pairs names w
       (fold (apply_ca_effect names) (take n (snd (reconcile_ca env kafka which fr fk conv now))) w)"
| ca_issue: "load_ca (cw_key w) (cw_cert w) = Some (st, raw) \<Longrightarrow>
     ca_machine pairs names w (w\<lparr>cw_signers := cs_key_pem st # cw_signers w\<rparr>)"
| ca_converge: "load_ca (cw_key w) (cw_cert w) = Some (st, raw) \<Longrightarrow>
     ca_machine pairs names w (w\<lparr>cw_bundles := [cs_bundle st], cw_signers := [cs_key_pem st]\<rparr>)"
| ca_mark: "cw_cert w = Some c \<Longrightarrow>
     ca_machine pairs names w (w\<lparr>cw_cert := Some (mark_leafs_reissued g c)\<rparr>)"

definition ca_init :: "ca_world \<Rightarrow> bool" where
  "ca_init w \<longleftrightarrow> cw_key w = None \<and> cw_cert w = None \<and> cw_bundles w = [] \<and> cw_signers w = []"

definition anchors :: "(string \<Rightarrow> string \<Rightarrow> bool) \<Rightarrow> string list \<Rightarrow> string \<Rightarrow> bool" where
  "anchors pairs bundle key \<longleftrightarrow> list_ex (\<lambda>b. pairs b key) bundle"

definition ca_ok ::
  "(string \<Rightarrow> string \<Rightarrow> bool) \<Rightarrow> ca_state \<Rightarrow> string list set \<Rightarrow> string set \<Rightarrow> bool" where
  "ca_ok pairs st bundles signers \<longleftrightarrow>
     cs_bundle st \<noteq> [] \<and> list_all pem_block (cs_bundle st) \<and> list_all is_ascii_text (cs_bundle st)
     \<and> is_ascii_text (cs_key_pem st) \<and> cs_bundle st \<in> bundles
     \<and> (\<forall>B \<in> bundles. \<forall>K \<in> insert (cs_key_pem st) signers. anchors pairs B K)
     \<and> (case cs_phase st of
          PhaseIdle \<Rightarrow> pairs (hd (cs_bundle st)) (cs_key_pem st) \<and> signers \<subseteq> {cs_key_pem st}
        | KeyReplaceTrust \<Rightarrow>
            (\<exists>nk nc. cs_pending_key st = Some nk \<and> cs_pending_cert st = Some nc \<and> is_ascii_text nk
               \<and> is_ascii_text nc \<and> split_pem_certs nc \<noteq> [] \<and> pairs (normalize_block nc) nk
               \<and> normalize_block nc \<in> set (cs_bundle st)
               \<and> (pairs (hd (cs_bundle st)) (cs_key_pem st) \<and> signers \<subseteq> {cs_key_pem st}
                  \<or> cs_key_pem st = nk))
        | KeyReplacePromote \<Rightarrow> pairs (hd (cs_bundle st)) (cs_key_pem st))"

definition ca_inv :: "(string \<Rightarrow> string \<Rightarrow> bool) \<Rightarrow> ca_world \<Rightarrow> bool" where
  "ca_inv pairs w \<longleftrightarrow>
     (cw_cert w = None \<and> cw_bundles w = [] \<and> cw_signers w = [])
     \<or> (\<exists>st raw. load_ca (cw_key w) (cw_cert w) = Some (st, raw)
          \<and> ca_ok pairs st (set (cw_bundles w)) (set (cw_signers w)))"

section \<open>Reading back what was written\<close>

interpretation phase_text: text_codec ca_phase_str ca_phase_of
  by unfold_locales (auto simp: ca_phase_str_def ca_phase_of_def split: ca_phase.split)

lemma ca_phase_parse_str [simp]: "ca_phase_parse (ca_phase_str p) = p"
  by (simp add: ca_phase_parse_def phase_text.parse_print)

lemma ascii_closed [simp]:
  "is_ascii_text (a @ b) \<longleftrightarrow> is_ascii_text a \<and> is_ascii_text b"
  "is_ascii_text (concat bs) \<longleftrightarrow> list_all is_ascii_text bs"
  by (auto simp: is_ascii_text_def list_all_iff)

lemma ascii_read [simp]: "is_ascii_text s \<Longrightarrow> from_utf8 s = Inr s"
  by (simp add: is_ascii_text_def from_utf8_def utf8_error_def utf8_check_ascii list_all_iff)

lemma set_trim: "set (trim_str s) \<subseteq> set s"
  unfolding trim_str_def by (auto dest!: set_dropWhileD)

lemma ascii_subset: "set a \<subseteq> set b \<Longrightarrow> is_ascii_text b \<Longrightarrow> is_ascii_text a"
  by (auto simp: is_ascii_text_def list_all_iff)

lemma ascii_split: "is_ascii_text s \<Longrightarrow> list_all is_ascii_text (split_pem_certs s)"
proof (induction s rule: split_pem_certs.induct)
  case (1 rest)
  have nl: "is_ascii_text newline" by (simp add: is_ascii_text_def newline_def)
  have sub: "is_ascii_text (trim_str (take n (drop b rest)))" "is_ascii_text (drop n (drop b rest))" for n b
    using 1(2) set_trim[of "take n (drop b rest)"] set_take_subset[of n "drop b rest"]
      set_drop_subset[of b rest] set_drop_subset[of n "drop b rest"]
    by (auto intro!: ascii_subset[of _ rest])
  show ?case
    using 1(1) sub
    by (subst split_pem_certs.simps) (auto simp: nl simp del: drop_drop split: option.splits)
qed

lemma norm_block:
  assumes "split_pem_certs c \<noteq> []"
  shows "normalize_block c = hd (split_pem_certs c)" "pem_block (normalize_block c)"
    "is_ascii_text c \<Longrightarrow> is_ascii_text (normalize_block c)"
    "split_pem_certs (normalize_block c) = [normalize_block c]"
    "normalize_block (normalize_block c) = normalize_block c"
proof -
  show 1: "normalize_block c = hd (split_pem_certs c)"
    using assms by (auto simp: normalize_block_def split: list.splits)
  show 2: "pem_block (normalize_block c)"
    using assms split_gives_blocks[of c] by (auto simp: 1 list_all_iff)
  show "is_ascii_text (normalize_block c)" if "is_ascii_text c"
    using assms ascii_split[OF that] by (auto simp: 1 list_all_iff)
  show 3: "split_pem_certs (normalize_block c) = [normalize_block c]"
    using split_join[of "[normalize_block c]"] 2 by (simp add: join_bundle_def)
  show "normalize_block (normalize_block c) = normalize_block c"
    using 3 by (simp add: normalize_block_def[of "normalize_block c"])
qed

lemma rendered:
  assumes "render_ca_secret kafka name lbl es anns = Inr s"
  shows "secret_value s k = map_of (rev es) k"
    "meta_annotation (secret_meta s) a
       = map_of (rev ((''krabka.io/strictly-operator-managed'', ''true'') # anns)) a"
  using assms
  by (auto simp: render_ca_secret_def Let_def bind_result_def secret_value_def meta_annotation_def
      bm_get_collect split: sum.splits)

lemma annotation_set [simp]:
  "meta_annotation (set_annotation k v m) a = (if a = k then Some v else meta_annotation m a)"
  by (auto simp: set_annotation_def meta_annotation_def split: option.splits)

lemma ssa_reads [simp]:
  "secret_value (ssa old s) k = secret_value s k"
  "read_pem_key (ssa old s) k = read_pem_key s k"
  "a \<noteq> ANN_LEAFS_KEY_GENERATION \<Longrightarrow>
     meta_annotation (secret_meta (ssa old s)) a = meta_annotation (secret_meta s) a"
  by (auto simp: ssa_def secret_value_def read_pem_key_def split: option.splits)

lemma ann_names [simp]:
  "ANN_KEY_GENERATION \<noteq> ANN_LEAFS_KEY_GENERATION" "ANN_CERT_GENERATION \<noteq> ANN_LEAFS_KEY_GENERATION"
  "ANN_ROTATION_PHASE \<noteq> ANN_LEAFS_KEY_GENERATION" "ANN_ROTATION_PHASE \<noteq> ANN_CERT_GENERATION"
  "ANN_CERT_GENERATION \<noteq> ANN_ROTATION_PHASE"
  "ANN_LEAFS_KEY_GENERATION \<noteq> ANN_CERT_GENERATION" "ANN_LEAFS_KEY_GENERATION \<noteq> ANN_ROTATION_PHASE"
  "ANN_LEAFS_KEY_GENERATION \<noteq> ''krabka.io/strictly-operator-managed''"
  "ANN_ROTATION_PHASE \<noteq> ''krabka.io/strictly-operator-managed''"
  "NEXT_KEY \<noteq> ''ca.key''" "NEXT_CERT \<noteq> ''ca.key''" "NEXT_CERT \<noteq> NEXT_KEY" "NEXT_KEY \<noteq> NEXT_CERT"
  "''ca.key'' \<noteq> NEXT_KEY" "''ca.key'' \<noteq> NEXT_CERT"
  by (simp_all add: ANN_KEY_GENERATION_def ANN_LEAFS_KEY_GENERATION_def ANN_CERT_GENERATION_def
      ANN_ROTATION_PHASE_def NEXT_KEY_def NEXT_CERT_def)

lemma read_pem_rendered:
  assumes "render_ca_secret kafka name lbl es anns = Inr s" "map_of (rev es) k = Some v" "is_ascii_text v"
  shows "read_pem_key s k = Some v"
  using rendered(1)[OF assms(1)] assms(2,3) by (simp add: read_pem_key_def result_ok_def)

lemma read_pem_absent:
  assumes "render_ca_secret kafka name lbl es anns = Inr s" "map_of (rev es) k = None"
  shows "read_pem_key s k = None"
  using rendered(1)[OF assms(1)] assms(2) by (simp add: read_pem_key_def)

lemma read_generation_rendered:
  assumes "render_ca_secret kafka name lbl es anns = Inr s"
    "map_of (rev ((''krabka.io/strictly-operator-managed'', ''true'') # anns)) a = Some (print_word g)"
    "a \<noteq> ANN_LEAFS_KEY_GENERATION"
  shows "read_generation (ssa old s) a = g"
  using rendered(2)[OF assms(1)] assms(2,3)
  by (simp add: read_generation_def read_optional_generation_def)

lemma load_key_write:
  assumes load: "load_ca key (Some c) = Some (st, raw)"
    and s: "render_ca_secret kafka name lbl es [(ANN_KEY_GENERATION, print_word g)] = Inr s"
    and es: "map_of (rev es) ''ca.key'' = Some k" "map_of (rev es) NEXT_KEY = nk" "map_of (rev es) NEXT_CERT = nc"
    and ascii: "is_ascii_text k" "\<forall>x. nk = Some x \<longrightarrow> is_ascii_text x" "\<forall>x. nc = Some x \<longrightarrow> is_ascii_text x"
  shows "load_ca (Some (ssa key s)) (Some c) = Some (st\<lparr>cs_key_pem := k, cs_pending_key := nk,
    cs_pending_cert := nc, cs_key_gen := g\<rparr>, raw)"
proof -
  have "read_pem_key s ''ca.key'' = Some k" using read_pem_rendered[OF s es(1) ascii(1)] .
  moreover have "read_pem_key s NEXT_KEY = nk"
    using read_pem_rendered[OF s, of NEXT_KEY] read_pem_absent[OF s, of NEXT_KEY] es(2) ascii(2) by (cases nk) auto
  moreover have "read_pem_key s NEXT_CERT = nc"
    using read_pem_rendered[OF s, of NEXT_CERT] read_pem_absent[OF s, of NEXT_CERT] es(3) ascii(3) by (cases nc) auto
  moreover have "read_generation (ssa key s) ANN_KEY_GENERATION = g"
    by (rule read_generation_rendered[OF s]) simp_all
  ultimately show ?thesis
    using load by (auto simp: load_ca_def split: option.splits)
qed

lemma load_cert_write:
  assumes load: "load_ca key (Some c) = Some (st, raw)"
    and s: "render_ca_secret kafka name lbl [(''ca.crt'', join_bundle B)]
        [(ANN_CERT_GENERATION, print_word g), (ANN_ROTATION_PHASE, ca_phase_str ph)] = Inr s"
    and B: "list_all pem_block B" "list_all is_ascii_text B"
  shows "load_ca key (Some (ssa (Some c) s)) = Some (st\<lparr>cs_bundle := B, cs_cert_gen := g, cs_phase := ph\<rparr>, join_bundle B)"
    "bundle_of s = B"
proof -
  have "read_pem_key s ''ca.crt'' = Some (join_bundle B)"
    by (rule read_pem_rendered[OF s]) (use B in \<open>simp_all add: join_bundle_def\<close>)
  moreover have "read_generation (ssa (Some c) s) ANN_CERT_GENERATION = g"
    by (rule read_generation_rendered[OF s]) simp_all
  moreover have "read_phase (ssa (Some c) s) = ph"
    using rendered(2)[OF s] by (simp add: read_phase_def)
  moreover have "read_optional_generation (ssa (Some c) s) ANN_LEAFS_KEY_GENERATION
      = read_optional_generation c ANN_LEAFS_KEY_GENERATION"
    using rendered(2)[OF s, of ANN_LEAFS_KEY_GENERATION]
    by (auto simp: read_optional_generation_def ssa_def split: option.splits)
  ultimately show "load_ca key (Some (ssa (Some c) s))
      = Some (st\<lparr>cs_bundle := B, cs_cert_gen := g, cs_phase := ph\<rparr>, join_bundle B)" "bundle_of s = B"
    using load split_join[OF B(1)] by (auto simp: load_ca_def bundle_of_def split: option.splits)
qed

section \<open>Safety of the individual writes\<close>

lemma anchors_mono: "anchors pairs B K \<Longrightarrow> set B \<subseteq> set B' \<Longrightarrow> anchors pairs B' K"
  by (auto simp: anchors_def list_ex_iff)

lemma anchorsI: "b \<in> set B \<Longrightarrow> pairs b K \<Longrightarrow> anchors pairs B K"
  by (auto simp: anchors_def list_ex_iff)

lemma bundle_blocks:
  assumes "list_all P bundle" "P (normalize_block c)"
  shows "list_all P (renewed_bundle na bundle now c)" "list_all P (staged_bundle na bundle now c)"
    "P c \<Longrightarrow> list_all P (promoted_bundle na bundle now c)"
    "list_all P (take 1 bundle)" "list_all P (prune_expired na bundle now)"
  using assms prune_subset[of na "bundle" now]
    prune_subset[of na "dedup_blocks (c # filter (\<lambda>b. b \<noteq> c) bundle)" now] set_take_subset[of 1 "bundle"]
  by (auto simp: list_all_iff renewed_bundle_def staged_bundle_def promoted_bundle_def)

lemma bundle_heads:
  "hd (renewed_bundle na bundle now c) = normalize_block c"
  "hd (promoted_bundle na bundle now c) = c"
  "bundle \<noteq> [] \<Longrightarrow> hd (staged_bundle na bundle now c) = hd bundle"
  "bundle \<noteq> [] \<Longrightarrow> hd (prune_expired na bundle now) = hd bundle"
  "renewed_bundle na bundle now c \<noteq> []" "promoted_bundle na bundle now c \<noteq> []"
  "bundle \<noteq> [] \<Longrightarrow> staged_bundle na bundle now c \<noteq> []"
  "bundle \<noteq> [] \<Longrightarrow> prune_expired na bundle now \<noteq> []"
  by (cases "bundle";
      simp add: renewed_bundle_def promoted_bundle_def staged_bundle_def dedup_Cons)+

lemma ok_renew:
  assumes ok: "ca_ok pairs st Bs Ss" and idle: "cs_phase st = PhaseIdle"
    and c: "split_pem_certs c \<noteq> []" "is_ascii_text c" "pairs (normalize_block c) (cs_key_pem st)"
    and B_def: "B = renewed_bundle na (cs_bundle st) now c"
  shows "ca_ok pairs (st\<lparr>cs_bundle := B, cs_cert_gen := g, cs_phase := PhaseIdle\<rparr>) (insert B Bs) Ss"
proof -
  have "anchors pairs B (cs_key_pem st)"
    using c(3) bundle_heads(1,5) unfolding B_def by (metis anchorsI list.set_sel(1))
  then show ?thesis
    using ok idle c norm_block[OF c(1)] bundle_blocks(1)[of _ "cs_bundle st"]
    by (auto simp: ca_ok_def B_def bundle_heads)
qed

lemma ok_stage_key:
  assumes "ca_ok pairs st Bs Ss" "cs_phase st \<noteq> KeyReplaceTrust"
  shows "ca_ok pairs (st\<lparr>cs_key_pem := cs_key_pem st, cs_pending_key := nk, cs_pending_cert := nc, cs_key_gen := g\<rparr>) Bs Ss"
  using assms by (cases "cs_phase st") (auto simp: ca_ok_def)

lemma ok_stage_bundle:
  assumes ok: "ca_ok pairs st Bs Ss" and idle: "cs_phase st = PhaseIdle"
    and c: "split_pem_certs c \<noteq> []" "is_ascii_text c" "pairs (normalize_block c) k"
    and pend: "cs_pending_key st = Some k" "cs_pending_cert st = Some c" "is_ascii_text k"
    and B_def: "B = staged_bundle na (cs_bundle st) now c"
  shows "ca_ok pairs (st\<lparr>cs_bundle := B, cs_cert_gen := g, cs_phase := KeyReplaceTrust\<rparr>) (insert B Bs) Ss"
proof -
  have ne: "cs_bundle st \<noteq> []" using ok by (simp add: ca_ok_def)
  then have hd: "hd B = hd (cs_bundle st)" "B \<noteq> []" by (simp_all add: B_def bundle_heads)
  have "pairs (hd B) (cs_key_pem st)" using ok idle hd by (simp add: ca_ok_def)
  moreover from this hd(2) have "anchors pairs B (cs_key_pem st)" by (auto intro: anchorsI[of "hd B"])
  moreover have "normalize_block c \<in> set B" by (simp add: B_def staged_bundle_def)
  ultimately show ?thesis
    using ok idle c pend hd norm_block[OF c(1)] bundle_blocks(2)[of _ "cs_bundle st"]
    by (auto simp: ca_ok_def B_def)
qed

lemma ok_promote_key:
  assumes ok: "ca_ok pairs st Bs Ss" and trust: "cs_phase st = KeyReplaceTrust"
    and conv: "Bs \<subseteq> {cs_bundle st}"
    and pend: "cs_pending_key st = Some nk" "cs_pending_cert st = Some nc"
  shows "ca_ok pairs (st\<lparr>cs_key_pem := nk, cs_pending_key := Some nk,
     cs_pending_cert := Some (normalize_block nc), cs_key_gen := g\<rparr>) Bs Ss"
proof -
  have nc: "split_pem_certs nc \<noteq> []" "pairs (normalize_block nc) nk" "normalize_block nc \<in> set (cs_bundle st)"
    using ok trust pend by (auto simp: ca_ok_def)
  then have "anchors pairs (cs_bundle st) nk" by (auto intro: anchorsI)
  with ok trust pend conv nc norm_block[OF nc(1)] show ?thesis by (auto simp: ca_ok_def)
qed

lemma ok_promote_bundle:
  assumes ok: "ca_ok pairs st Bs Ss" and ph: "cs_phase st = KeyReplaceTrust"
    and key: "cs_key_pem st = nk" and nc: "pem_block nc" "is_ascii_text nc" "pairs nc nk"
    and signers: "\<forall>K \<in> Ss. K = nk \<or> (pairs (hd (cs_bundle st)) K \<and> still_valid na now (hd (cs_bundle st)))"
    and split: "split_pem_certs nc \<noteq> []" "normalize_block nc = nc"
    and B_def: "B = promoted_bundle na (cs_bundle st) now nc"
  shows "ca_ok pairs (st\<lparr>cs_bundle := B, cs_cert_gen := g, cs_phase := KeyReplacePromote\<rparr>) (insert B Bs) Ss"
proof -
  have ne: "cs_bundle st \<noteq> []" using ok by (simp add: ca_ok_def)
  have hd: "hd B = nc" "B \<noteq> []" by (simp_all add: B_def bundle_heads)
  have nk: "anchors pairs B nk" using hd nc(3) by (metis anchorsI list.set_sel(1))
  have "anchors pairs B K" if "K \<in> Ss" for K
  proof (cases "K = nk")
    case False
    with signers that have K: "pairs (hd (cs_bundle st)) K" "still_valid na now (hd (cs_bundle st))" by auto
    have "hd (cs_bundle st) \<in> set (dedup_blocks (nc # filter (\<lambda>b. b \<noteq> nc) (cs_bundle st)))"
      using ne by auto
    from prune_keeps_valid[OF this K(2)] K(1) show ?thesis
      by (auto simp: B_def promoted_bundle_def intro: anchorsI)
  qed (use nk in simp)
  then show ?thesis
    using ok ph nk key hd nc split bundle_blocks(3)[of _ "cs_bundle st" nc] unfolding B_def
    by (auto simp: ca_ok_def)
qed

lemma ok_prune_promoted:
  assumes ok: "ca_ok pairs st Bs Ss" and ph: "cs_phase st = KeyReplacePromote"
    and conv: "Ss \<subseteq> {cs_key_pem st}"
  shows "ca_ok pairs (st\<lparr>cs_bundle := take 1 (cs_bundle st), cs_cert_gen := g, cs_phase := PhaseIdle\<rparr>)
     (insert (take 1 (cs_bundle st)) Bs) Ss"
proof -
  obtain b bs where b: "cs_bundle st = b # bs" using ok by (cases "cs_bundle st") (auto simp: ca_ok_def)
  then have "pairs b (cs_key_pem st)" using ok ph by (simp add: ca_ok_def)
  then have "anchors pairs [b] (cs_key_pem st)" by (simp add: anchors_def)
  with ok ph conv b show ?thesis by (auto simp: ca_ok_def)
qed

lemma ok_prune_idle:
  assumes ok: "ca_ok pairs st Bs Ss" and ph: "cs_phase st = PhaseIdle"
    and B_def: "B = prune_expired na (cs_bundle st) now"
  shows "ca_ok pairs (st\<lparr>cs_bundle := B, cs_cert_gen := g, cs_phase := PhaseIdle\<rparr>) (insert B Bs) Ss"
proof -
  have ne: "cs_bundle st \<noteq> []" using ok by (simp add: ca_ok_def)
  have hd: "hd B = hd (cs_bundle st)" "B \<noteq> []" using ne by (simp_all add: B_def bundle_heads)
  have "pairs (hd B) (cs_key_pem st)" using ok ph hd by (simp add: ca_ok_def)
  then have "anchors pairs B (cs_key_pem st)" using hd(2) by (metis anchorsI list.set_sel(1))
  with ok ph hd show ?thesis
    using bundle_blocks(5)[of _ "cs_bundle st"] blocks_closed(2) unfolding B_def
    by (auto simp: ca_ok_def list_all_iff dest: prune_subset[THEN subsetD])
qed

section \<open>Safety of a pass\<close>

fun along :: "(ca_world \<Rightarrow> bool) \<Rightarrow> ca_names \<Rightarrow> ca_effect list \<Rightarrow> ca_world \<Rightarrow> bool" where
  "along P names [] w \<longleftrightarrow> P w"
| "along P names (e # es) w \<longleftrightarrow> P w \<and> along P names es (apply_ca_effect names e w)"

lemma along_take: "along P names es w \<Longrightarrow> P (fold (apply_ca_effect names) (take n es) w)"
  by (induction es arbitrary: n w) (auto simp: take_Cons split: nat.split)

lemma patch_cases:
  obtains (failed) e where "patch_secret env kafka name lbl es anns = (Inl e, [])"
  | (applied) s where "render_ca_secret kafka name lbl es anns = Inr s"
      "patch_secret env kafka name lbl es anns = (Inr (), [ApplySecret name s])"
  by (cases "render_ca_secret kafka name lbl es anns"; cases "ce_patch_secret env name")
    (auto simp: patch_secret_def attempt_def fail_log_def emit_def bind_log_def lift_log_def)

lemma along_patch:
  assumes "P w"
    and "\<And>s. render_ca_secret kafka name lbl es anns = Inr s \<Longrightarrow>
           along P names (snd rest) (apply_ca_effect names (ApplySecret name s) w)"
  shows "along P names (snd (then_log (patch_secret env kafka name lbl es anns) rest)) w"
  by (cases rule: patch_cases[of env kafka name lbl es anns])
    (use assms in \<open>auto simp: then_log_def bind_log_def split: prod.splits\<close>)

lemma names_distinct [simp]:
  "fst (ca_names_of kafka which) \<noteq> fst (snd (ca_names_of kafka which))"
  "fst (snd (ca_names_of kafka which)) \<noteq> fst (ca_names_of kafka which)"
  by (cases which; simp add: ca_names_of_def Let_def cluster_ca_key_name_def cluster_ca_cert_name_def
      clients_ca_key_name_def clients_ca_cert_name_def)+

lemma load_ca_Some: "load_ca k c = Some r \<Longrightarrow> \<exists>k' c'. k = Some k' \<and> c = Some c'"
  by (auto simp: load_ca_def split: option.splits)

text \<open>The world of a loaded state, and its invariant after each of the two writes.\<close>

lemma inv_key_write:
  assumes load: "load_ca (cw_key w) (cw_cert w) = Some (st, raw)"
    and s: "render_ca_secret kafka (fst names) lbl es [(ANN_KEY_GENERATION, print_word g)] = Inr s"
    and es: "map_of (rev es) ''ca.key'' = Some k" "map_of (rev es) NEXT_KEY = nk" "map_of (rev es) NEXT_CERT = nc"
    and ascii: "is_ascii_text k" "\<forall>x. nk = Some x \<longrightarrow> is_ascii_text x" "\<forall>x. nc = Some x \<longrightarrow> is_ascii_text x"
  shows "load_ca (cw_key (apply_ca_effect names (ApplySecret (fst names) s) w))
           (cw_cert (apply_ca_effect names (ApplySecret (fst names) s) w))
         = Some (st\<lparr>cs_key_pem := k, cs_pending_key := nk, cs_pending_cert := nc, cs_key_gen := g\<rparr>, raw)"
    "cw_bundles (apply_ca_effect names (ApplySecret (fst names) s) w) = cw_bundles w"
    "cw_signers (apply_ca_effect names (ApplySecret (fst names) s) w) = cw_signers w"
proof -
  from load_ca_Some[OF load] obtain c where c: "cw_cert w = Some c" by blast
  show "load_ca (cw_key (apply_ca_effect names (ApplySecret (fst names) s) w))
           (cw_cert (apply_ca_effect names (ApplySecret (fst names) s) w))
         = Some (st\<lparr>cs_key_pem := k, cs_pending_key := nk, cs_pending_cert := nc, cs_key_gen := g\<rparr>, raw)"
    using load_key_write[OF load[unfolded c] s es ascii] by (simp add: c)
qed simp_all

lemma inv_cert_write:
  assumes load: "load_ca (cw_key w) (cw_cert w) = Some (st, raw)"
    and dist: "fst (snd names) \<noteq> fst names"
    and s: "render_ca_secret kafka (fst (snd names)) lbl [(''ca.crt'', join_bundle B)]
        [(ANN_CERT_GENERATION, print_word g), (ANN_ROTATION_PHASE, ca_phase_str ph)] = Inr s"
    and ok: "ca_ok pairs (st\<lparr>cs_bundle := B, cs_cert_gen := g, cs_phase := ph\<rparr>)
        (insert B (set (cw_bundles w))) (set (cw_signers w))"
  shows "ca_inv pairs (apply_ca_effect names (ApplySecret (fst (snd names)) s) w)"
proof -
  from load_ca_Some[OF load] obtain c where c: "cw_cert w = Some c" by blast
  from ok have B: "list_all pem_block B" "list_all is_ascii_text B" by (simp_all add: ca_ok_def)
  show ?thesis
    using load_cert_write[OF load[unfolded c] s B] ok dist c by (simp add: ca_inv_def)
qed

lemma loaded_inv:
  "load_ca (cw_key w) (cw_cert w) = Some (st, raw) \<Longrightarrow>
     ca_ok pairs st (set (cw_bundles w)) (set (cw_signers w)) \<Longrightarrow> ca_inv pairs w"
  by (auto simp: ca_inv_def)

lemma along_cert:
  assumes load: "load_ca (cw_key w) (cw_cert w) = Some (st, raw)" and dist: "fst (snd names) \<noteq> fst names"
    and ok: "ca_ok pairs st (set (cw_bundles w)) (set (cw_signers w))"
      "ca_ok pairs (st\<lparr>cs_bundle := B, cs_cert_gen := g, cs_phase := ph\<rparr>)
        (insert B (set (cw_bundles w))) (set (cw_signers w))"
  shows "along (ca_inv pairs) names
    (snd (then_log (patch_cert_bundle env kafka (fst (snd names)) B g ph) (ret_log x))) w"
  unfolding patch_cert_bundle_def
  by (rule along_patch) (simp_all add: loaded_inv[OF load ok(1)] inv_cert_write[OF load dist _ ok(2)] del: apply_ca_effect.simps)

lemma effects_of_rotation:
  "snd (apply_ca_rotation env kafka which names st plan inp raw) = snd (run_plan env kafka which names st plan inp raw)"
  by (simp add: apply_ca_rotation_def bind_log_def lift_log_def split: prod.splits sum.splits)

lemma along_bind_lift:
  assumes "P w" and "\<And>x. r = Inr x \<Longrightarrow> along P names (snd (f x)) w"
  shows "along P names (snd (bind_log (lift_log (map_sum g id r)) f)) w"
  using assms by (cases r) simp_all

lemma along_renew:
  assumes load: "load_ca (cw_key w) (cw_cert w) = Some (st, raw)" and dist: "cert \<noteq> key"
    and ok: "ca_ok pairs st (set (cw_bundles w)) (set (cw_signers w))" and crypto: "sound_crypto pairs env"
    and idle: "cs_phase st = PhaseIdle" and p: "cp_key_pem p = cs_key_pem st"
  shows "along (ca_inv pairs) (key, cert, cn)
    (snd (renew_cert_same_key env kafka which (key, cert, cn) st inp p)) w"
  unfolding renew_cert_same_key_def prod.case Let_def
proof (rule along_bind_lift[where P = "ca_inv pairs", OF loaded_inv[OF load ok]], goal_cases)
  case (1 c)
  with crypto p have "split_pem_certs c \<noteq> []" "is_ascii_text c" "pairs (normalize_block c) (cs_key_pem st)"
    by (auto simp: sound_crypto_def)
  from along_cert[OF load _ ok ok_renew[OF ok idle this refl], of "(key, cert, cn)"] dist
  show ?case by simp
qed

lemma along_start:
  assumes load: "load_ca (cw_key w) (cw_cert w) = Some (st, raw)" and dist: "cert \<noteq> key"
    and ok: "ca_ok pairs st (set (cw_bundles w)) (set (cw_signers w))" and crypto: "sound_crypto pairs env"
    and idle: "cs_phase st = PhaseIdle" and p: "cp_key_pem p = cs_key_pem st"
  shows "along (ca_inv pairs) (key, cert, cn)
    (snd (start_key_replace env kafka which (key, cert, cn) st inp p)) w"
  unfolding start_key_replace_def prod.case Let_def
proof (rule along_bind_lift[where P = "ca_inv pairs", OF loaded_inv[OF load ok]],
    rule along_patch[where P = "ca_inv pairs", OF loaded_inv[OF load ok]], goal_cases)
  case (1 m s)
  let ?w = "apply_ca_effect (key, cert, cn) (ApplySecret key s) w"
  from 1(1) crypto have m: "split_pem_certs (cm_cert_pem m) \<noteq> []" "is_ascii_text (cm_cert_pem m)"
    "pairs (normalize_block (cm_cert_pem m)) (cm_key_pem m)" "is_ascii_text (cm_key_pem m)"
    by (auto simp: sound_crypto_def)
  have "is_ascii_text (cs_key_pem st)" using ok by (simp add: ca_ok_def)
  note wr = inv_key_write[where names = "(key, cert, cn)" and k = "cs_key_pem st" and nk = "Some (cm_key_pem m)"
      and nc = "Some (cm_cert_pem m)", OF load, unfolded fst_conv, OF 1(2)[unfolded p]]
  have st1: "load_ca (cw_key ?w) (cw_cert ?w) = Some (st\<lparr>cs_key_pem := cs_key_pem st,
      cs_pending_key := Some (cm_key_pem m), cs_pending_cert := Some (cm_cert_pem m), cs_key_gen := cp_key_gen p\<rparr>, raw)"
    "cw_bundles ?w = cw_bundles w" "cw_signers ?w = cw_signers w"
    using m \<open>is_ascii_text (cs_key_pem st)\<close> by (intro wr; simp)+
  have ok1: "ca_ok pairs (st\<lparr>cs_key_pem := cs_key_pem st, cs_pending_key := Some (cm_key_pem m),
      cs_pending_cert := Some (cm_cert_pem m), cs_key_gen := cp_key_gen p\<rparr>) (set (cw_bundles ?w)) (set (cw_signers ?w))"
    unfolding st1(2,3) by (rule ok_stage_key[OF ok]) (simp add: idle)
  have "cs_phase (st\<lparr>cs_key_pem := cs_key_pem st, cs_pending_key := Some (cm_key_pem m),
      cs_pending_cert := Some (cm_cert_pem m), cs_key_gen := cp_key_gen p\<rparr>) = PhaseIdle" using idle by simp
  from along_cert[OF st1(1) _ ok1 ok_stage_bundle[OF ok1 this m(1-3) _ _ m(4) refl], of "(key, cert, cn)"] dist
  show ?case by simp
qed

lemma along_promote:
  assumes load: "load_ca (cw_key w) (cw_cert w) = Some (st, raw)" and dist: "cert \<noteq> key"
    and ok: "ca_ok pairs st (set (cw_bundles w)) (set (cw_signers w))"
    and ph: "cs_phase st = KeyReplaceTrust"
    and conv: "set (cw_bundles w) \<subseteq> {cs_bundle st}" "set (cw_signers w) \<subseteq> {cs_key_pem st}"
    and valid: "still_valid (ce_not_after env) (ri_now inp) (hd (cs_bundle st))"
  shows "along (ca_inv pairs) (key, cert, cn) (snd (promote_new_key env kafka (key, cert, cn) st inp p)) w"
proof -
  from ok ph obtain nk nc where pend: "cs_pending_key st = Some nk" "cs_pending_cert st = Some nc"
    and n: "is_ascii_text nk" "is_ascii_text nc" "split_pem_certs nc \<noteq> []" "pairs (normalize_block nc) nk"
    and key: "pairs (hd (cs_bundle st)) (cs_key_pem st) \<or> cs_key_pem st = nk"
    by (auto simp: ca_ok_def)
  note nb = norm_block[OF n(3)]
  show ?thesis
    unfolding promote_new_key_def prod.case pend option.case Let_def
  proof (rule along_patch[where P = "ca_inv pairs", OF loaded_inv[OF load ok]], goal_cases)
    case (1 s)
    let ?w = "apply_ca_effect (key, cert, cn) (ApplySecret key s) w"
    let ?g = "if cs_key_pem st = nk then cp_key_gen p else cp_key_gen p + 1"
    let ?st = "st\<lparr>cs_key_pem := nk, cs_pending_key := Some nk, cs_pending_cert := Some (normalize_block nc),
      cs_key_gen := ?g\<rparr>"
    note wr = inv_key_write[where names = "(key, cert, cn)" and k = nk and nk = "Some nk"
        and nc = "Some (normalize_block nc)", OF load, unfolded fst_conv, OF 1]
    have st1: "load_ca (cw_key ?w) (cw_cert ?w) = Some (?st, raw)"
      "cw_bundles ?w = cw_bundles w" "cw_signers ?w = cw_signers w"
      using n nb by (intro wr; simp)+
    have ok1: "ca_ok pairs ?st (set (cw_bundles ?w)) (set (cw_signers ?w))"
      unfolding st1(2,3) by (rule ok_promote_key[OF ok ph conv(1) pend])
    have "\<forall>K \<in> set (cw_signers ?w). K = nk \<or> pairs (hd (cs_bundle ?st)) K
        \<and> still_valid (ce_not_after env) (ri_now inp) (hd (cs_bundle ?st))"
      using conv(2) key valid by (auto simp: st1(3))
    from along_cert[OF st1(1) _ ok1 ok_promote_bundle[OF ok1 _ _ nb(2) nb(3)[OF n(2)] n(4) this _ nb(5) refl],
        of "(key, cert, cn)"] dist ph nb(4)
    show ?case by auto
  qed
qed

lemma along_prune:
  assumes load: "load_ca (cw_key w) (cw_cert w) = Some (st, raw)" and dist: "cert \<noteq> key"
    and ok: "ca_ok pairs st (set (cw_bundles w)) (set (cw_signers w))"
    and ph: "cs_phase st \<noteq> KeyReplaceTrust" and p: "cp_key_pem p = cs_key_pem st"
    and conv: "cs_phase st = KeyReplacePromote \<Longrightarrow> set (cw_signers w) \<subseteq> {cs_key_pem st}"
  shows "along (ca_inv pairs) (key, cert, cn) (snd (prune_old_trust env kafka (key, cert, cn) st inp p)) w"
proof (cases "cs_phase st = KeyReplacePromote")
  case False
  with ph have idle: "cs_phase st = PhaseIdle" by (cases "cs_phase st") auto
  have "along (ca_inv pairs) (key, cert, cn) (snd (then_log (patch_cert_bundle env kafka cert
      (prune_expired (ce_not_after env) (cs_bundle st) (ri_now inp)) (cp_cert_gen p) PhaseIdle) (ret_log x))) w" for x
    using along_cert[OF load _ ok ok_prune_idle[OF ok idle refl], of "(key, cert, cn)"] dist by simp
  then show ?thesis using False by (simp add: prune_old_trust_def Let_def)
next
  case True
  show ?thesis
    unfolding prune_old_trust_def prod.case Let_def True if_True simp_thms
  proof (rule along_patch[where P = "ca_inv pairs", OF loaded_inv[OF load ok]], goal_cases)
    case (1 s)
    let ?w = "apply_ca_effect (key, cert, cn) (ApplySecret key s) w"
    let ?st = "st\<lparr>cs_key_pem := cs_key_pem st, cs_pending_key := None, cs_pending_cert := None,
      cs_key_gen := cp_key_gen p\<rparr>"
    have "is_ascii_text (cs_key_pem st)" using ok by (simp add: ca_ok_def)
    note wr = inv_key_write[where names = "(key, cert, cn)" and k = "cs_key_pem st" and nk = None and nc = None,
        OF load, unfolded fst_conv, OF 1[unfolded p]]
    have st1: "load_ca (cw_key ?w) (cw_cert ?w) = Some (?st, raw)"
      "cw_bundles ?w = cw_bundles w" "cw_signers ?w = cw_signers w"
      using \<open>is_ascii_text (cs_key_pem st)\<close> by (intro wr; simp)+
    have ok1: "ca_ok pairs ?st (set (cw_bundles ?w)) (set (cw_signers ?w))"
      unfolding st1(2,3) by (rule ok_stage_key[OF ok ph])
    have "cs_phase ?st = KeyReplacePromote" "set (cw_signers ?w) \<subseteq> {cs_key_pem ?st}"
      using True conv by (simp_all add: st1(3))
    from along_cert[OF st1(1) _ ok1 ok_prune_promoted[OF ok1 this], of "(key, cert, cn)"] dist
    show ?case by simp
  qed
qed

lemma along_rotation:
  assumes load: "load_ca (cw_key w) (cw_cert w) = Some (st, raw)" and dist: "cert \<noteq> key"
    and ok: "ca_ok pairs st (set (cw_bundles w)) (set (cw_signers w))" and crypto: "sound_crypto pairs env"
    and allowed: "pass_allowed env (ri_converged inp) (ri_now inp) w"
  shows "along (ca_inv pairs) (key, cert, cn)
    (snd (apply_ca_rotation env kafka which (key, cert, cn) st (plan_ca_rotation (ce_not_after env) st inp) inp raw)) w"
proof -
  have p: "cp_key_pem (initial_progress st raw) = cs_key_pem st" by (simp add: initial_progress_def)
  have conv: "ri_converged inp \<Longrightarrow> set (cw_bundles w) \<subseteq> {cs_bundle st}"
    "ri_converged inp \<Longrightarrow> set (cw_signers w) \<subseteq> {cs_key_pem st}"
    "cs_phase st = KeyReplaceTrust \<Longrightarrow> still_valid (ce_not_after env) (ri_now inp) (hd (cs_bundle st))"
    using allowed load by (auto simp: pass_allowed_def)
  note inv = loaded_inv[OF load ok]
  show ?thesis
  proof (cases "plan_ca_rotation (ce_not_after env) st inp")
    case RenewCertSameKey
    then have "cs_phase st = PhaseIdle"
      by (auto simp: plan_ca_rotation_def Let_def split: if_splits ca_phase.splits)
    from along_renew[OF load dist ok crypto this p] RenewCertSameKey show ?thesis
      by (simp add: effects_of_rotation run_plan_def Let_def)
  next
    case StartKeyReplace
    then have "cs_phase st = PhaseIdle"
      by (auto simp: plan_ca_rotation_def Let_def split: if_splits ca_phase.splits)
    from along_start[OF load dist ok crypto this p] StartKeyReplace show ?thesis
      by (simp add: effects_of_rotation run_plan_def Let_def)
  next
    case PromoteNewKey
    then have "cs_phase st = KeyReplaceTrust" "ri_converged inp"
      by (auto simp: plan_ca_rotation_def Let_def split: if_splits ca_phase.splits)
    with along_promote[OF load dist ok] conv PromoteNewKey show ?thesis
      by (simp add: effects_of_rotation run_plan_def Let_def)
  next
    case PruneOldTrust
    then have "cs_phase st \<noteq> KeyReplaceTrust" "cs_phase st = KeyReplacePromote \<Longrightarrow> ri_converged inp"
      by (auto simp: plan_ca_rotation_def Let_def split: if_splits ca_phase.splits)
    with along_prune[OF load dist ok _ p] conv PruneOldTrust show ?thesis
      by (simp add: effects_of_rotation run_plan_def Let_def)
  qed (simp_all add: effects_of_rotation run_plan_def Let_def inv)
qed


lemma create_state:
  assumes key: "render_ca_secret kafka kn ''ca-key'' [(''ca.key'', k)] [(ANN_KEY_GENERATION, ''0'')] = Inr s1"
    and cert: "render_ca_secret kafka crt ''ca-cert'' [(''ca.crt'', c)] [(ANN_CERT_GENERATION, ''0'')] = Inr s2"
    and ascii: "is_ascii_text k" "is_ascii_text c"
  shows "\<exists>st. load_ca (Some (ssa old s1)) (Some (ssa None s2)) = Some (st, c) \<and> cs_bundle st = split_pem_certs c
     \<and> cs_key_pem st = k \<and> cs_phase st = PhaseIdle"
    "bundle_of s2 = split_pem_certs c"
proof -
  have 1: "read_pem_key s1 ''ca.key'' = Some k" by (rule read_pem_rendered[OF key]) (use ascii in simp_all)
  have 2: "read_pem_key s2 ''ca.crt'' = Some c" by (rule read_pem_rendered[OF cert]) (use ascii in simp_all)
  have 3: "read_phase (ssa None s2) = PhaseIdle" using rendered(2)[OF cert] by (simp add: read_phase_def)
  show "\<exists>st. load_ca (Some (ssa old s1)) (Some (ssa None s2)) = Some (st, c) \<and> cs_bundle st = split_pem_certs c
     \<and> cs_key_pem st = k \<and> cs_phase st = PhaseIdle"
    using 1 2 3 by (simp add: load_ca_def)
  show "bundle_of s2 = split_pem_certs c" using 2 by (simp add: bundle_of_def)
qed

lemma along_create:
  assumes none: "cw_cert w = None" "cw_bundles w = []" "cw_signers w = []" and dist: "cert \<noteq> key"
    and crypto: "sound_crypto pairs env"
  shows "along (ca_inv pairs) (key, cert, cn) (snd (create_ca env kafka which (key, cert, cn) spec)) w"
  unfolding create_ca_def prod.case
proof (rule along_bind_lift, goal_cases)
  case 1
  show ?case using none by (simp add: ca_inv_def)
next
  case (2 m)
  with crypto have m: "split_pem_certs (cm_cert_pem m) \<noteq> []" "is_ascii_text (cm_cert_pem m)"
    "pairs (normalize_block (cm_cert_pem m)) (cm_key_pem m)" "is_ascii_text (cm_key_pem m)"
    by (auto simp: sound_crypto_def)
  show ?case
  proof (rule along_patch, goal_cases)
    case 1
    show ?case using none by (simp add: ca_inv_def)
  next
    case (2 s1)
    note s1 = 2
    show ?case
    proof (rule along_patch, goal_cases)
      case 1
      show ?case using none by (simp add: ca_inv_def)
    next
      case (2 s2)
      let ?w = "apply_ca_effect (key, cert, cn) (ApplySecret cert s2) (apply_ca_effect (key, cert, cn) (ApplySecret key s1) w)"
      from create_state[OF s1 2 m(4,2)] obtain st where st:
        "load_ca (cw_key ?w) (cw_cert ?w) = Some (st, cm_cert_pem m)" "cs_bundle st = split_pem_certs (cm_cert_pem m)"
        "cs_key_pem st = cm_key_pem m" "cs_phase st = PhaseIdle" "bundle_of s2 = cs_bundle st"
        using dist none by fastforce
      have "anchors pairs (cs_bundle st) (cs_key_pem st)"
        unfolding st by (rule anchorsI[of "normalize_block (cm_cert_pem m)"])
          (use m(1,3) norm_block(1)[OF m(1)] in simp_all)
      then have "ca_ok pairs st (set (cw_bundles ?w)) (set (cw_signers ?w))"
        using m norm_block(1)[OF m(1)] dist none split_gives_blocks[of "cm_cert_pem m"] ascii_split[OF m(2)] st(5)
        by (auto simp: ca_ok_def st(2-4))
      then have inv: "ca_inv pairs ?w" by (rule loaded_inv[OF st(1)])
      show ?case
        by (cases "format_not_after env (cm_cert_pem m)") (simp_all add: inv del: apply_ca_effect.simps)
    qed
  qed
qed

lemma along_pass:
  assumes inv: "ca_inv pairs w" and crypto: "sound_crypto pairs env" and names: "ca_names_of kafka which = names"
    and gets: "ce_get_secret env (fst names) = Inr (cw_key w)" "ce_get_secret env (fst (snd names)) = Inr (cw_cert w)"
    and allowed: "pass_allowed env conv now w"
  shows "along (ca_inv pairs) names (snd (reconcile_ca env kafka which fr fk conv now)) w"
proof -
  obtain key cert cn where n: "names = (key, cert, cn)" by (cases names)
  have dist: "cert \<noteq> key" using names_distinct(2)[of kafka which] by (simp add: names n)
  let ?spec = "ca_spec_of kafka which"
  show ?thesis
  proof (cases "load_ca (cw_key w) (cw_cert w)")
    case None
    then have none: "cw_cert w = None" "cw_bundles w = []" "cw_signers w = []"
      using inv by (auto simp: ca_inv_def)
    then show ?thesis
      using along_create[OF none dist crypto, of cn kafka which ?spec] inv names gets n None
      by (auto simp: reconcile_ca_def Let_def)
  next
    case (Some r)
    then obtain st raw where load: "load_ca (cw_key w) (cw_cert w) = Some (st, raw)" by (cases r) auto
    have ok: "ca_ok pairs st (set (cw_bundles w)) (set (cw_signers w))"
      using inv load load_ca_Some[OF load] by (auto simp: ca_inv_def)
    let ?inp = "\<lparr>ri_generate = ca_generate ?spec, ri_validity = days (ca_validity_days ?spec),
        ri_renewal = days (ca_renewal_days ?spec), ri_force = force_of fr fk, ri_converged = conv,
        ri_now = now, ri_which = which\<rparr>"
    have "pass_allowed env (ri_converged ?inp) (ri_now ?inp) w" using allowed by simp
    from along_rotation[OF load dist ok crypto this, of cn kafka which] names gets n load
    show ?thesis by (simp add: reconcile_ca_def Let_def)
  qed
qed

lemma load_mark:
  "load_ca k (Some (mark_leafs_reissued g c))
     = map_option (\<lambda>(st, raw). (st\<lparr>cs_leafs_gen := Some g\<rparr>, raw)) (load_ca k (Some c))"
  by (auto simp: load_ca_def mark_leafs_reissued_def read_pem_key_def secret_value_def read_generation_def
      read_optional_generation_def read_phase_def split: option.splits)

lemma ok_leafs [simp]: "ca_ok pairs (st\<lparr>cs_leafs_gen := g\<rparr>) Bs Ss = ca_ok pairs st Bs Ss"
  by (cases "cs_phase st") (simp_all add: ca_ok_def)

interpretation ca: invariant_machine ca_init "ca_machine pairs names" "ca_inv pairs" for pairs names
proof
  show "ca_inv pairs w" if "ca_init w" for w
    using that by (simp add: ca_init_def ca_inv_def)
  show "ca_inv pairs t" if inv: "ca_inv pairs s" and "ca_machine pairs names s t" for s t
    using \<open>ca_machine pairs names s t\<close>
  proof (cases rule: ca_machine.cases)
    case (ca_pass env kafka which conv now n fr fk)
    show ?thesis unfolding ca_pass(1) by (rule along_take[OF along_pass[OF inv ca_pass(2-6)]])
  next
    case (ca_issue st raw)
    with inv load_ca_Some[OF ca_issue(2)] show ?thesis
      by (auto simp: ca_inv_def ca_ok_def split: ca_phase.splits)
  next
    case (ca_converge st raw)
    with inv load_ca_Some[OF ca_converge(2)] show ?thesis
      by (auto simp: ca_inv_def ca_ok_def split: ca_phase.splits)
  next
    case (ca_mark c g)
    with inv show ?thesis by (auto simp: ca_inv_def load_mark)
  qed
qed

section \<open>Passes without failures\<close>

definition stored_env :: "ca_env \<Rightarrow> ca_names \<Rightarrow> ca_world \<Rightarrow> ca_env" where
  "stored_env env names w =
     env\<lparr>ce_get_secret := (\<lambda>n. Inr (if n = fst names then cw_key w else cw_cert w))\<rparr>"

definition ca_run ::
  "ca_env \<Rightarrow> kafka_owner \<Rightarrow> which_ca \<Rightarrow> bool \<Rightarrow> bool \<Rightarrow> bool \<Rightarrow> time \<Rightarrow> ca_world \<Rightarrow> ca_world" where
  "ca_run env kafka which fr fk conv now w =
     fold (apply_ca_effect (ca_names_of kafka which))
       (snd (reconcile_ca (stored_env env (ca_names_of kafka which) w) kafka which fr fk conv now)) w"

definition inputs_of :: "kafka_owner \<Rightarrow> which_ca \<Rightarrow> bool \<Rightarrow> bool \<Rightarrow> bool \<Rightarrow> time \<Rightarrow> rotation_inputs" where
  "inputs_of kafka which fr fk conv now =
     \<lparr>ri_generate = ca_generate (ca_spec_of kafka which),
      ri_validity = days (ca_validity_days (ca_spec_of kafka which)),
      ri_renewal = days (ca_renewal_days (ca_spec_of kafka which)), ri_force = force_of fr fk,
      ri_converged = conv, ri_now = now, ri_which = which\<rparr>"

definition healthy :: "ca_env \<Rightarrow> kafka_owner \<Rightarrow> bool" where
  "healthy env kafka \<longleftrightarrow> (\<forall>n. ce_patch_secret env n = None) \<and> meta_uid (ko_meta kafka) \<noteq> None"

lemma stored_env_simps [simp]:
  "ce_get_secret (stored_env env names w) (fst names) = Inr (cw_key w)"
  "fst (snd names) \<noteq> fst names \<Longrightarrow> ce_get_secret (stored_env env names w) (fst (snd names)) = Inr (cw_cert w)"
  "ce_patch_secret (stored_env env names w) = ce_patch_secret env"
  "ce_generate_ca (stored_env env names w) = ce_generate_ca env"
  "ce_renew_ca (stored_env env names w) = ce_renew_ca env"
  "ce_not_after (stored_env env names w) = ce_not_after env"
  "ce_format (stored_env env names w) = ce_format env"
  by (simp_all add: stored_env_def)

lemma pass_on_loaded:
  assumes "load_ca (cw_key w) (cw_cert w) = Some (st, raw)"
  shows "reconcile_ca (stored_env env (ca_names_of kafka which) w) kafka which fr fk conv now
    = apply_ca_rotation (stored_env env (ca_names_of kafka which) w) kafka which (ca_names_of kafka which) st
        (plan_ca_rotation (ce_not_after env) st (inputs_of kafka which fr fk conv now))
        (inputs_of kafka which fr fk conv now) raw"
  using assms by (simp add: reconcile_ca_def inputs_of_def Let_def)

lemma healthy_render:
  assumes "healthy env kafka"
  obtains s where "render_ca_secret kafka name lbl es anns = Inr s"
    "patch_secret env kafka name lbl es anns = (Inr (), [ApplySecret name s])"
    "patch_secret (stored_env env names w) kafka name lbl es anns = (Inr (), [ApplySecret name s])"
proof -
  obtain s where s: "render_ca_secret kafka name lbl es anns = Inr s"
    using assms by (auto simp: healthy_def render_ca_secret_def owner_ref_def ok_or_def bind_result_def)
  then show thesis
    using assms by (intro that[OF s]) (auto simp: healthy_def patch_secret_def attempt_def emit_def)
qed

lemma healthy_cert:
  assumes "healthy env kafka" and load: "load_ca (cw_key w) (cw_cert w) = Some (st, raw)"
    and dist: "fst (snd names) \<noteq> fst names" and B: "list_all pem_block B" "list_all is_ascii_text B"
  shows "load_ca (cw_key (fold (apply_ca_effect names) (snd (then_log
            (patch_cert_bundle (stored_env env names' w') kafka (fst (snd names)) B g ph) (ret_log x))) w))
          (cw_cert (fold (apply_ca_effect names) (snd (then_log
            (patch_cert_bundle (stored_env env names' w') kafka (fst (snd names)) B g ph) (ret_log x))) w))
       = Some (st\<lparr>cs_bundle := B, cs_cert_gen := g, cs_phase := ph\<rparr>, join_bundle B)"
proof -
  from load_ca_Some[OF load] obtain c where c: "cw_cert w = Some c" by blast
  obtain s where s: "render_ca_secret kafka (fst (snd names)) ''ca-cert'' [(''ca.crt'', join_bundle B)]
        [(ANN_CERT_GENERATION, print_word g), (ANN_ROTATION_PHASE, ca_phase_str ph)] = Inr s"
    "patch_cert_bundle (stored_env env names' w') kafka (fst (snd names)) B g ph = (Inr (), [ApplySecret (fst (snd names)) s])"
    unfolding patch_cert_bundle_def by (rule healthy_render[OF assms(1)])
  show ?thesis
    using load_cert_write(1)[OF load[unfolded c] s(1) B] dist c by (simp add: s(2) then_log_def bind_log_def ret_log_def)
qed

lemma healthy_key:
  assumes "healthy env kafka" and load: "load_ca (cw_key w) (cw_cert w) = Some (st, raw)"
    and es: "map_of (rev es) ''ca.key'' = Some k" "map_of (rev es) NEXT_KEY = nk" "map_of (rev es) NEXT_CERT = nc"
    and ascii: "is_ascii_text k" "\<forall>x. nk = Some x \<longrightarrow> is_ascii_text x" "\<forall>x. nc = Some x \<longrightarrow> is_ascii_text x"
  obtains s where
    "snd (then_log (patch_secret (stored_env env names' w') kafka (fst names) lbl es [(ANN_KEY_GENERATION, print_word g)]) rest)
       = ApplySecret (fst names) s # snd rest"
    "load_ca (cw_key (apply_ca_effect names (ApplySecret (fst names) s) w))
       (cw_cert (apply_ca_effect names (ApplySecret (fst names) s) w))
     = Some (st\<lparr>cs_key_pem := k, cs_pending_key := nk, cs_pending_cert := nc, cs_key_gen := g\<rparr>, raw)"
proof -
  obtain s where s: "render_ca_secret kafka (fst names) lbl es [(ANN_KEY_GENERATION, print_word g)] = Inr s"
    "patch_secret (stored_env env names' w') kafka (fst names) lbl es [(ANN_KEY_GENERATION, print_word g)]
       = (Inr (), [ApplySecret (fst names) s])"
    by (rule healthy_render[OF assms(1)])
  show thesis
    by (rule that[OF _ inv_key_write(1)[OF load s(1) es ascii]])
      (simp add: s(2) then_log_def bind_log_def split: prod.splits)
qed


definition clean_state :: "ca_state \<Rightarrow> bool" where
  "clean_state st \<longleftrightarrow> cs_bundle st \<noteq> [] \<and> list_all pem_block (cs_bundle st)
     \<and> list_all is_ascii_text (cs_bundle st) \<and> is_ascii_text (cs_key_pem st)"

definition ca_state_of :: "ca_world \<Rightarrow> ca_state option" where
  "ca_state_of w = map_option fst (load_ca (cw_key w) (cw_cert w))"

lemma state_after_two:
  assumes h: "healthy env kafka" and load: "load_ca (cw_key w) (cw_cert w) = Some (st, raw)"
    and dist: "cert \<noteq> key"
    and es: "map_of (rev es) ''ca.key'' = Some k" "map_of (rev es) NEXT_KEY = nk" "map_of (rev es) NEXT_CERT = nc"
    and ascii: "is_ascii_text k" "\<forall>x. nk = Some x \<longrightarrow> is_ascii_text x" "\<forall>x. nc = Some x \<longrightarrow> is_ascii_text x"
    and B: "list_all pem_block B" "list_all is_ascii_text B"
  shows "ca_state_of (fold (apply_ca_effect (key, cert, cn)) (snd (then_log
      (patch_secret (stored_env env names' w') kafka key lbl es [(ANN_KEY_GENERATION, print_word g)])
      (then_log (patch_cert_bundle (stored_env env names' w') kafka cert B g2 ph) (ret_log x)))) w)
    = Some (st\<lparr>cs_key_pem := k, cs_pending_key := nk, cs_pending_cert := nc, cs_key_gen := g,
        cs_bundle := B, cs_cert_gen := g2, cs_phase := ph\<rparr>)"
proof -
  let ?rest = "then_log (patch_cert_bundle (stored_env env names' w') kafka cert B g2 ph) (ret_log x)"
  obtain s where s: "snd (then_log (patch_secret (stored_env env names' w') kafka key lbl es
        [(ANN_KEY_GENERATION, print_word g)]) ?rest) = ApplySecret key s # snd ?rest"
    and st1: "load_ca (cw_key (apply_ca_effect (key, cert, cn) (ApplySecret key s) w))
       (cw_cert (apply_ca_effect (key, cert, cn) (ApplySecret key s) w))
     = Some (st\<lparr>cs_key_pem := k, cs_pending_key := nk, cs_pending_cert := nc, cs_key_gen := g\<rparr>, raw)"
    using healthy_key[where names = "(key, cert, cn)" and names' = names' and w' = w' and lbl = lbl and g = g
        and rest = ?rest, OF h load es ascii] by auto
  show ?thesis
    using healthy_cert[OF h st1, of "(key, cert, cn)" B names' w' g2 ph x] B dist
    by (simp add: s ca_state_of_def del: apply_ca_effect.simps)
qed

lemma run_is_plan:
  assumes load: "load_ca (cw_key w) (cw_cert w) = Some (st, raw)"
    and n: "ca_names_of kafka which = (key, cert, cn)"
    and plan: "plan_ca_rotation (ce_not_after env) st (inputs_of kafka which fr fk conv now) = plan"
  shows "ca_run env kafka which fr fk conv now w = fold (apply_ca_effect (key, cert, cn))
    (snd (run_plan (stored_env env (key, cert, cn) w) kafka which (key, cert, cn) st plan
       (inputs_of kafka which fr fk conv now) raw)) w"
  using pass_on_loaded[OF load, of env kafka which fr fk conv now, unfolded n plan]
  by (simp add: ca_run_def n effects_of_rotation)

lemma state_loaded: "ca_state_of w = Some st \<Longrightarrow> \<exists>raw. load_ca (cw_key w) (cw_cert w) = Some (st, raw)"
  by (auto simp: ca_state_of_def)

lemma names_cases:
  obtains key cert cn where "ca_names_of kafka which = (key, cert, cn)" "cert \<noteq> key"
  using names_distinct(2)[of kafka which] by (cases "ca_names_of kafka which") auto

lemma run_start:
  assumes h: "healthy env kafka" and load: "ca_state_of w = Some st"
    and st: "clean_state st" "cs_phase st = PhaseIdle" "ca_generate (ca_spec_of kafka which)"
    and gen: "ce_generate_ca env which (snd (snd (ca_names_of kafka which)))
        (whole_days (days (ca_validity_days (ca_spec_of kafka which)))) = Inr m"
    and m: "is_ascii_text (cm_key_pem m)" "is_ascii_text (cm_cert_pem m)" "split_pem_certs (cm_cert_pem m) \<noteq> []"
  shows "ca_state_of (ca_run env kafka which fr True conv now w) = Some
    (st\<lparr>cs_pending_key := Some (cm_key_pem m), cs_pending_cert := Some (cm_cert_pem m),
       cs_bundle := staged_bundle (ce_not_after env) (cs_bundle st) now (cm_cert_pem m), cs_phase := KeyReplaceTrust\<rparr>)"
proof -
  obtain raw where load': "load_ca (cw_key w) (cw_cert w) = Some (st, raw)" using state_loaded[OF load] by blast
  obtain key cert cn where n: "ca_names_of kafka which = (key, cert, cn)" and dist: "cert \<noteq> key" by (rule names_cases)
  let ?B = "staged_bundle (ce_not_after env) (cs_bundle st) now (cm_cert_pem m)"
  have B: "list_all pem_block ?B" "list_all is_ascii_text ?B"
    using st(1) m norm_block[OF m(3)] by (auto simp: clean_state_def intro!: bundle_blocks(2))
  have plan: "plan_ca_rotation (ce_not_after env) st (inputs_of kafka which fr True conv now) = StartKeyReplace"
    using st by (cases fr) (simp_all add: plan_ca_rotation_def inputs_of_def force_of_def replaces_key_def)
  show ?thesis
    unfolding run_is_plan[OF load' n plan]
    using state_after_two[OF h load' dist _ _ _ _ _ _ B, of "[(''ca.key'', cs_key_pem st), (NEXT_KEY, cm_key_pem m), (NEXT_CERT, cm_cert_pem m)]"
        "cs_key_pem st" "Some (cm_key_pem m)" "Some (cm_cert_pem m)" cn "(key, cert, cn)" w "''ca-key''" "cs_key_gen st"
        "cs_cert_gen st" KeyReplaceTrust] st(1) m gen n
    by (simp add: run_plan_def start_key_replace_def initial_progress_def inputs_of_def clean_state_def Let_def)
qed

lemma run_promote:
  assumes h: "healthy env kafka" and load: "ca_state_of w = Some st"
    and st: "clean_state st" "cs_phase st = KeyReplaceTrust" "ca_generate (ca_spec_of kafka which)"
    and pend: "cs_pending_key st = Some nk" "cs_pending_cert st = Some nc"
    and nc: "is_ascii_text nk" "is_ascii_text nc" "split_pem_certs nc \<noteq> []"
  shows "ca_state_of (ca_run env kafka which fr fk True now w) = Some
    (st\<lparr>cs_key_pem := nk, cs_pending_key := Some nk, cs_pending_cert := Some (normalize_block nc),
       cs_key_gen := (if cs_key_pem st = nk then cs_key_gen st else cs_key_gen st + 1),
       cs_bundle := promoted_bundle (ce_not_after env) (cs_bundle st) now (normalize_block nc),
       cs_cert_gen := cs_cert_gen st + 1, cs_phase := KeyReplacePromote\<rparr>)"
proof -
  obtain raw where load': "load_ca (cw_key w) (cw_cert w) = Some (st, raw)" using state_loaded[OF load] by blast
  obtain key cert cn where n: "ca_names_of kafka which = (key, cert, cn)" and dist: "cert \<noteq> key" by (rule names_cases)
  let ?B = "promoted_bundle (ce_not_after env) (cs_bundle st) now (normalize_block nc)"
  have B: "list_all pem_block ?B" "list_all is_ascii_text ?B"
    using st(1) nc norm_block[OF nc(3)] by (auto simp: clean_state_def intro!: bundle_blocks(3))
  have plan: "plan_ca_rotation (ce_not_after env) st (inputs_of kafka which fr fk True now) = PromoteNewKey"
    using st by (simp add: plan_ca_rotation_def inputs_of_def)
  let ?g = "if cs_key_pem st = nk then cs_key_gen st else cs_key_gen st + 1"
  show ?thesis
    unfolding run_is_plan[OF load' n plan]
    using state_after_two[OF h load' dist _ _ _ _ _ _ B, of "[(''ca.key'', nk), (NEXT_KEY, nk), (NEXT_CERT, normalize_block nc)]"
        nk "Some nk" "Some (normalize_block nc)" cn "(key, cert, cn)" w "''ca-key''" ?g
        "cs_cert_gen st + 1" KeyReplacePromote] pend nc norm_block(3)[OF nc(3)]
    by (cases "cs_key_pem st = nk") (simp_all add: run_plan_def promote_new_key_def initial_progress_def inputs_of_def Let_def)
qed

lemma run_prune:
  assumes h: "healthy env kafka" and load: "ca_state_of w = Some st"
    and st: "clean_state st" "cs_phase st = KeyReplacePromote" "ca_generate (ca_spec_of kafka which)"
    and leafs: "which = Cluster \<or> cs_leafs_gen st = Some (cs_key_gen st)"
  shows "ca_state_of (ca_run env kafka which fr fk True now w) = Some
    (st\<lparr>cs_pending_key := None, cs_pending_cert := None, cs_bundle := take 1 (cs_bundle st), cs_phase := PhaseIdle\<rparr>)"
proof -
  obtain raw where load': "load_ca (cw_key w) (cw_cert w) = Some (st, raw)" using state_loaded[OF load] by blast
  obtain key cert cn where n: "ca_names_of kafka which = (key, cert, cn)" and dist: "cert \<noteq> key" by (rule names_cases)
  have B: "list_all pem_block (take 1 (cs_bundle st))" "list_all is_ascii_text (take 1 (cs_bundle st))"
    using st(1) by (cases "cs_bundle st"; simp add: clean_state_def)+
  have plan: "plan_ca_rotation (ce_not_after env) st (inputs_of kafka which fr fk True now) = PruneOldTrust"
    using st leafs by (auto simp: plan_ca_rotation_def inputs_of_def)
  show ?thesis
    unfolding run_is_plan[OF load' n plan]
    using state_after_two[OF h load' dist _ _ _ _ _ _ B, of "[(''ca.key'', cs_key_pem st)]"
        "cs_key_pem st" None None cn "(key, cert, cn)" w "''ca-key''" "cs_key_gen st"
        "cs_cert_gen st" PhaseIdle] st
    by (simp add: run_plan_def prune_old_trust_def initial_progress_def clean_state_def Let_def)
qed

lemma fst_then_patch: "fst (then_log (patch_secret env kafka n l es a) r) = Inr x \<Longrightarrow> fst r = Inr x"
  by (auto simp: fst_then_log split: sum.splits)

lemma fst_then_cert: "fst (then_log (patch_cert_bundle env kafka n B g ph) (ret_log y)) = Inr x \<Longrightarrow> x = y"
  by (auto simp: fst_then_log split: sum.splits)

lemma plan_signs:
  assumes ok: "ca_ok pairs st Bs Ss" and crypto: "sound_crypto pairs env"
    and whole: "cs_phase st = KeyReplaceTrust \<Longrightarrow> cs_pending_key st \<noteq> Some (cs_key_pem st)"
    and plan: "plan = plan_ca_rotation (ce_not_after env) st inp"
    and p: "fst (run_plan env kafka which names st plan inp raw) = Inr p"
  shows "cp_bundle p \<noteq> [] \<and> pairs (hd (cp_bundle p)) (cp_key_pem p)"
proof -
  obtain key cert cn where n: "names = (key, cert, cn)" by (cases names)
  have ne: "cs_bundle st \<noteq> []" using ok by (simp add: ca_ok_def)
  have signs: "pairs (hd (cs_bundle st)) (cs_key_pem st)"
    using ok whole by (cases "cs_phase st") (auto simp: ca_ok_def)
  show ?thesis
  proof (cases plan)
    case RenewCertSameKey
    with p obtain c where c: "ce_renew_ca env which (cs_key_pem st) cn (whole_days (ri_validity inp)) = Inr c"
      and b: "cp_bundle p = renewed_bundle (ce_not_after env) (cs_bundle st) (ri_now inp) c" "cp_key_pem p = cs_key_pem st"
      by (cases "ce_renew_ca env which (cs_key_pem st) cn (whole_days (ri_validity inp))")
        (auto simp: run_plan_def renew_cert_same_key_def n initial_progress_def Let_def dest!: fst_then_cert)
    from crypto c have "pairs (normalize_block c) (cs_key_pem st)" by (auto simp: sound_crypto_def)
    then show ?thesis by (simp add: b bundle_heads)
  next
    case StartKeyReplace
    with p have "(\<exists>c. cp_bundle p = staged_bundle (ce_not_after env) (cs_bundle st) (ri_now inp) c)
      \<and> cp_key_pem p = cs_key_pem st"
      by (cases "ce_generate_ca env which cn (whole_days (ri_validity inp))")
        (auto simp: run_plan_def start_key_replace_def n initial_progress_def Let_def
          dest!: fst_then_cert fst_then_patch)
    then obtain c where "cp_bundle p = staged_bundle (ce_not_after env) (cs_bundle st) (ri_now inp) c"
      "cp_key_pem p = cs_key_pem st" by blast
    then show ?thesis using ne signs by (simp add: bundle_heads)
  next
    case PromoteNewKey
    then have "cs_phase st = KeyReplaceTrust"
      by (auto simp: plan plan_ca_rotation_def Let_def split: if_splits ca_phase.splits)
    with ok obtain nk nc where pend: "cs_pending_key st = Some nk" "cs_pending_cert st = Some nc"
      "pairs (normalize_block nc) nk" by (auto simp: ca_ok_def)
    with p PromoteNewKey have "cp_key_pem p = nk"
      "cp_bundle p = promoted_bundle (ce_not_after env) (cs_bundle st) (ri_now inp) (normalize_block nc)"
      by (auto simp: run_plan_def promote_new_key_def n initial_progress_def Let_def
          dest!: fst_then_cert fst_then_patch)
    then show ?thesis using pend(3) by (simp add: bundle_heads)
  next
    case PruneOldTrust
    with p have "cp_key_pem p = cs_key_pem st" "cp_bundle p = take 1 (cs_bundle st)
       \<or> cp_bundle p = prune_expired (ce_not_after env) (cs_bundle st) (ri_now inp)"
      by (auto simp: run_plan_def prune_old_trust_def n initial_progress_def Let_def
          split: if_splits dest!: fst_then_cert fst_then_patch)
    then show ?thesis using ne signs by (cases "cs_bundle st") auto
  qed (use p ne signs in \<open>auto simp: run_plan_def initial_progress_def Let_def\<close>)
qed

lemma rotation_result:
  assumes "fst (apply_ca_rotation env kafka which names st plan inp raw) = Inr out"
  obtains p where "fst (run_plan env kafka which names st plan inp raw) = Inr p"
    "co_signing out = \<lparr>cm_cert_pem = (case cp_bundle p of [] \<Rightarrow> [] | b # _ \<Rightarrow> b), cm_key_pem = cp_key_pem p\<rparr>"
    "co_refused out = cp_refused p"
  using assms
  by (auto simp: apply_ca_rotation_def fst_bind_log ca_result_def bind_result_def Let_def
      split: sum.splits prod.splits)

section \<open>Properties\<close>


text \<open>C22: a pass hands out a matching pair. Whatever step of a rotation it runs, the signing
  certificate and the signing key that a successful pass returns belong together, unless an earlier
  promotion was cut off between its two patches.\<close>
theorem signing_material_pairs:
  assumes reach: "reach ca_init (ca_machine pairs (ca_names_of kafka which)) w"
    and crypto: "sound_crypto pairs env" and st: "ca_state_of w = Some st"
    and whole: "cs_phase st = KeyReplaceTrust \<longrightarrow> cs_pending_key st \<noteq> Some (cs_key_pem st)"
    and out: "fst (reconcile_ca (stored_env env (ca_names_of kafka which) w) kafka which fr fk conv now) = Inr out"
  shows "pairs (cm_cert_pem (co_signing out)) (cm_key_pem (co_signing out))"
proof -
  obtain raw where load: "load_ca (cw_key w) (cw_cert w) = Some (st, raw)" using state_loaded[OF st] by blast
  have ok: "ca_ok pairs st (set (cw_bundles w)) (set (cw_signers w))"
    using ca.reach_inv[OF reach] load load_ca_Some[OF load] by (auto simp: ca_inv_def)
  have crypto': "sound_crypto pairs (stored_env env (ca_names_of kafka which) w)"
    using crypto by (simp add: sound_crypto_def)
  obtain p where p: "fst (run_plan (stored_env env (ca_names_of kafka which) w) kafka which
        (ca_names_of kafka which) st (plan_ca_rotation (ce_not_after env) st (inputs_of kafka which fr fk conv now))
        (inputs_of kafka which fr fk conv now) raw) = Inr p"
    and sign: "co_signing out = \<lparr>cm_cert_pem = (case cp_bundle p of [] \<Rightarrow> [] | b # _ \<Rightarrow> b), cm_key_pem = cp_key_pem p\<rparr>"
    using out[unfolded pass_on_loaded[OF load]] by (rule rotation_result)
  show ?thesis
    using plan_signs[OF ok crypto' _ _ p] whole sign by (auto split: list.splits)
qed

lemma three_runs_replace_key:
  assumes h: "healthy env1 kafka" "healthy env2 kafka" "healthy env3 kafka"
    and st: "ca_state_of w = Some st" "clean_state st" "cs_phase st = PhaseIdle"
    and gen: "ca_generate (ca_spec_of kafka Cluster)"
      "ce_generate_ca env1 Cluster (snd (snd (ca_names_of kafka Cluster)))
        (whole_days (days (ca_validity_days (ca_spec_of kafka Cluster)))) = Inr m"
    and m: "is_ascii_text (cm_key_pem m)" "is_ascii_text (cm_cert_pem m)" "split_pem_certs (cm_cert_pem m) \<noteq> []"
      "cm_key_pem m \<noteq> cs_key_pem st"
  shows "ca_state_of (ca_run env3 kafka Cluster fr3 fk3 True t3 (ca_run env2 kafka Cluster fr2 fk2 True t2
      (ca_run env1 kafka Cluster fr1 True conv t1 w)))
    = Some (st\<lparr>cs_bundle := [normalize_block (cm_cert_pem m)], cs_key_pem := cm_key_pem m, cs_pending_key := None,
        cs_pending_cert := None, cs_cert_gen := cs_cert_gen st + 1, cs_key_gen := cs_key_gen st + 1\<rparr>)"
proof -
  note nb = norm_block[OF m(3)]
  let ?B1 = "staged_bundle (ce_not_after env1) (cs_bundle st) t1 (cm_cert_pem m)"
  let ?st1 = "st\<lparr>cs_pending_key := Some (cm_key_pem m), cs_pending_cert := Some (cm_cert_pem m),
     cs_bundle := ?B1, cs_phase := KeyReplaceTrust\<rparr>"
  have 1: "ca_state_of (ca_run env1 kafka Cluster fr1 True conv t1 w) = Some ?st1"
    by (rule run_start[OF h(1) st gen m(1-3)])
  have ne: "cs_bundle st \<noteq> []" using st(2) by (simp add: clean_state_def)
  have c1: "clean_state ?st1"
    using st(2) m nb ne by (auto simp: clean_state_def bundle_heads intro!: bundle_blocks(2))
  let ?B2 = "promoted_bundle (ce_not_after env2) ?B1 t2 (normalize_block (cm_cert_pem m))"
  let ?st2 = "?st1\<lparr>cs_key_pem := cm_key_pem m, cs_pending_key := Some (cm_key_pem m),
      cs_pending_cert := Some (normalize_block (cm_cert_pem m)), cs_key_gen := cs_key_gen st + 1, cs_bundle := ?B2,
      cs_cert_gen := cs_cert_gen st + 1, cs_phase := KeyReplacePromote\<rparr>"
  have 2: "ca_state_of (ca_run env2 kafka Cluster fr2 fk2 True t2 (ca_run env1 kafka Cluster fr1 True conv t1 w)) = Some ?st2"
    using run_promote[OF h(2) 1 c1 _ gen(1), of "cm_key_pem m" "cm_cert_pem m" fr2 fk2 t2] m by simp
  have "list_all P ?B1 \<Longrightarrow> P (normalize_block (cm_cert_pem m)) \<Longrightarrow> list_all P ?B2" for P
    using bundle_blocks(3)[of P ?B1 "normalize_block (cm_cert_pem m)"] nb(5) by simp
  then have c2: "clean_state ?st2"
    using c1 m nb by (auto simp: clean_state_def bundle_heads)
  have "take 1 ?B2 = [normalize_block (cm_cert_pem m)]"
    using bundle_heads(2,6) by (metis One_nat_def hd_Cons_tl take0 take_Suc_Cons)
  then show ?thesis
    using run_prune[OF h(3) 2 c2 _ gen(1), of fr3 fk3 t3] st(3) by simp
qed

text \<open>C14: a forced key replacement of the cluster CA completes in three passes when nothing fails
  and the rollouts converge between them: the new certificate is then the only anchor, its key signs,
  nothing stays staged, and both generations went up by one.\<close>
theorem key_replacement_completes:
  assumes h: "healthy env1 kafka" "healthy env2 kafka" "healthy env3 kafka"
    and st: "ca_state_of w = Some st" "clean_state st" "cs_phase st = PhaseIdle"
    and gen: "ca_generate (ca_spec_of kafka Cluster)"
      "ce_generate_ca env1 Cluster (snd (snd (ca_names_of kafka Cluster)))
        (whole_days (days (ca_validity_days (ca_spec_of kafka Cluster)))) = Inr m"
    and m: "is_ascii_text (cm_key_pem m)" "is_ascii_text (cm_cert_pem m)" "split_pem_certs (cm_cert_pem m) \<noteq> []"
      "cm_key_pem m \<noteq> cs_key_pem st"
  shows "ca_state_of (ca_run env3 kafka Cluster fr3 fk3 True t3 (ca_run env2 kafka Cluster fr2 fk2 True t2
      (ca_run env1 kafka Cluster fr1 True conv t1 w)))
    = Some (st\<lparr>cs_bundle := [normalize_block (cm_cert_pem m)], cs_key_pem := cm_key_pem m, cs_pending_key := None,
        cs_pending_cert := None, cs_cert_gen := cs_cert_gen st + 1, cs_key_gen := cs_key_gen st + 1\<rparr>)"
  by (rule three_runs_replace_key[OF assms])


lemma cut_promotion:
  assumes h: "healthy env kafka" and load: "ca_state_of w = Some st"
    and st: "clean_state st" "cs_phase st = KeyReplaceTrust" "ca_generate (ca_spec_of kafka which)"
    and pend: "cs_pending_key st = Some nk" "cs_pending_cert st = Some nc"
    and nc: "is_ascii_text nk" "is_ascii_text nc" "split_pem_certs nc \<noteq> []"
  shows "ca_state_of (fold (apply_ca_effect (ca_names_of kafka which)) (take 1
      (snd (reconcile_ca (stored_env env (ca_names_of kafka which) w) kafka which fr fk True now))) w) = Some
    (st\<lparr>cs_key_pem := nk, cs_pending_key := Some nk, cs_pending_cert := Some (normalize_block nc),
       cs_key_gen := (if cs_key_pem st = nk then cs_key_gen st else cs_key_gen st + 1)\<rparr>)"
proof -
  obtain raw where load': "load_ca (cw_key w) (cw_cert w) = Some (st, raw)" using state_loaded[OF load] by blast
  obtain key cert cn where n: "ca_names_of kafka which = (key, cert, cn)" and dist: "cert \<noteq> key" by (rule names_cases)
  let ?g = "if cs_key_pem st = nk then cs_key_gen st else cs_key_gen st + 1"
  let ?inp = "inputs_of kafka which fr fk True now"
  let ?env = "stored_env env (key, cert, cn) w"
  have plan: "plan_ca_rotation (ce_not_after env) st ?inp = PromoteNewKey"
    using st by (simp add: plan_ca_rotation_def inputs_of_def)
  obtain rest where rest: "promote_new_key ?env kafka (key, cert, cn) st ?inp (initial_progress st raw) = then_log
      (patch_secret ?env kafka key ''ca-key'' [(''ca.key'', nk), (NEXT_KEY, nk), (NEXT_CERT, normalize_block nc)]
         [(ANN_KEY_GENERATION, print_word (if cs_key_pem st = nk then cp_key_gen (initial_progress st raw)
             else cp_key_gen (initial_progress st raw) + 1))]) rest"
    by (rule that) (unfold promote_new_key_def pend prod.case option.case Let_def, rule refl)
  have run: "snd (reconcile_ca ?env kafka which fr fk True now) = snd (then_log
      (patch_secret ?env kafka key ''ca-key'' [(''ca.key'', nk), (NEXT_KEY, nk), (NEXT_CERT, normalize_block nc)]
         [(ANN_KEY_GENERATION, print_word ?g)]) rest)"
    using pass_on_loaded[OF load', of env kafka which fr fk True now, unfolded n plan]
    by (simp add: effects_of_rotation run_plan_def rest Let_def) (simp add: initial_progress_def)
  obtain s where s: "snd (then_log (patch_secret ?env kafka key ''ca-key''
      [(''ca.key'', nk), (NEXT_KEY, nk), (NEXT_CERT, normalize_block nc)] [(ANN_KEY_GENERATION, print_word ?g)]) rest)
      = ApplySecret key s # snd rest"
    and st1: "load_ca (cw_key (apply_ca_effect (key, cert, cn) (ApplySecret key s) w))
       (cw_cert (apply_ca_effect (key, cert, cn) (ApplySecret key s) w))
     = Some (st\<lparr>cs_key_pem := nk, cs_pending_key := Some nk, cs_pending_cert := Some (normalize_block nc),
         cs_key_gen := ?g\<rparr>, raw)"
    by (rule healthy_key[where names = "(key, cert, cn)" and names' = "(key, cert, cn)" and w' = w and rest = rest
        and k = nk and nk = "Some nk" and nc = "Some (normalize_block nc)" and lbl = "''ca-key''" and g = ?g
        and es = "[(''ca.key'', nk), (NEXT_KEY, nk), (NEXT_CERT, normalize_block nc)]", OF h load'])
      (use nc norm_block(3)[OF nc(3)] in auto)
  show ?thesis
    unfolding n using st1 by (simp add: run s ca_state_of_def del: apply_ca_effect.simps)
qed

text \<open>C15: an interrupted promotion replays. When the operator dies between the two patches of a
  promotion, the next converged pass reaches exactly the state of an uninterrupted promotion, so the
  key generation is bumped once, however often the promotion is tried.\<close>
theorem interrupted_promotion_replays:
  assumes h: "healthy env kafka" and load: "ca_state_of w = Some st"
    and st: "clean_state st" "cs_phase st = KeyReplaceTrust" "ca_generate (ca_spec_of kafka which)"
    and pend: "cs_pending_key st = Some nk" "cs_pending_cert st = Some nc"
    and nc: "is_ascii_text nk" "is_ascii_text nc" "split_pem_certs nc \<noteq> []"
  shows "ca_state_of (ca_run env kafka which fr fk True now
      (fold (apply_ca_effect (ca_names_of kafka which)) (take 1
        (snd (reconcile_ca (stored_env env (ca_names_of kafka which) w) kafka which fr fk True now))) w))
    = ca_state_of (ca_run env kafka which fr fk True now w)"
proof -
  note nb = norm_block[OF nc(3)]
  have 1: "clean_state (st\<lparr>cs_key_pem := nk, cs_pending_key := Some nk, cs_pending_cert := Some (normalize_block nc),
       cs_key_gen := (if cs_key_pem st = nk then cs_key_gen st else cs_key_gen st + 1)\<rparr>)"
    using st(1) nc by (simp add: clean_state_def)
  show ?thesis
    unfolding run_promote[OF assms]
    using run_promote[OF h cut_promotion[OF assms] 1 _ st(3), of nk "normalize_block nc" fr fk now] st(2) nc nb
    by simp
qed

text \<open>the window an interrupted promotion leaves. If the next pass finds the rollout not
  converged, it waits, and the signing material it returns is the old signing certificate with the
  new key.\<close>
theorem cut_promotion_mixes_pair:
  assumes h: "healthy env kafka" and load: "ca_state_of w = Some st"
    and st: "clean_state st" "cs_phase st = KeyReplaceTrust" "ca_generate (ca_spec_of kafka which)"
    and pend: "cs_pending_key st = Some nk" "cs_pending_cert st = Some nc"
    and nc: "is_ascii_text nk" "is_ascii_text nc" "split_pem_certs nc \<noteq> []"
    and na: "ce_not_after env (hd (cs_bundle st)) = Inr na" "ce_format env na = Inr txt"
  shows "let w1 = fold (apply_ca_effect (ca_names_of kafka which)) (take 1
        (snd (reconcile_ca (stored_env env (ca_names_of kafka which) w) kafka which fr fk True now))) w
    in \<exists>out. fst (reconcile_ca (stored_env env (ca_names_of kafka which) w1) kafka which fr' fk' False now') = Inr out
       \<and> co_signing out = \<lparr>cm_cert_pem = hd (cs_bundle st), cm_key_pem = nk\<rparr>"
proof -
  define w1 where "w1 = fold (apply_ca_effect (ca_names_of kafka which)) (take 1
        (snd (reconcile_ca (stored_env env (ca_names_of kafka which) w) kafka which fr fk True now))) w"
  let ?st = "st\<lparr>cs_key_pem := nk, cs_pending_key := Some nk, cs_pending_cert := Some (normalize_block nc),
       cs_key_gen := (if cs_key_pem st = nk then cs_key_gen st else cs_key_gen st + 1)\<rparr>"
  have "ca_state_of w1 = Some ?st" unfolding w1_def by (rule cut_promotion[OF h load st pend nc])
  then obtain raw where load1: "load_ca (cw_key w1) (cw_cert w1) = Some (?st, raw)" using state_loaded by blast
  have plan: "plan_ca_rotation (ce_not_after env) ?st (inputs_of kafka which fr' fk' False now') = NoOp"
    using st by (simp add: plan_ca_rotation_def inputs_of_def)
  obtain b bs where b: "cs_bundle st = b # bs" using st(1) by (cases "cs_bundle st") (auto simp: clean_state_def)
  have "\<exists>out. fst (reconcile_ca (stored_env env (ca_names_of kafka which) w1) kafka which fr' fk' False now') = Inr out
       \<and> co_signing out = \<lparr>cm_cert_pem = hd (cs_bundle st), cm_key_pem = nk\<rparr>"
    unfolding pass_on_loaded[OF load1] plan
    using na b st(2) by (simp add: apply_ca_rotation_def run_plan_def ca_result_def initial_progress_def format_not_after_def
        rotation_condition_def bind_result_def Let_def)
  then show ?thesis unfolding w1_def Let_def .
qed

text \<open>a CA brought by the user is never written. A pass over it patches nothing, and it
  reports a refusal exactly when a rotation was forced.\<close>
theorem byo_never_written:
  assumes "\<not> ca_generate (ca_spec_of kafka which)"
  shows "snd (reconcile_ca env kafka which fr fk conv now) = []
    \<and> (\<forall>out. fst (reconcile_ca env kafka which fr fk conv now) = Inr out \<longrightarrow>
          (co_refused out = Some Byo \<longleftrightarrow> fr \<or> fk) \<and> \<not> co_generated out)"
proof -
  have rot: "snd (apply_ca_rotation env kafka which names st (plan_ca_rotation na st inp) inp raw) = []
     \<and> (\<forall>out. fst (apply_ca_rotation env kafka which names st (plan_ca_rotation na st inp) inp raw) = Inr out \<longrightarrow>
          (co_refused out = Some Byo \<longleftrightarrow> fr \<or> fk) \<and> \<not> co_generated out)"
    if "\<not> ri_generate inp" "ri_force inp = force_of fr fk" for names st na inp raw
    using that by (auto simp: plan_ca_rotation_def effects_of_rotation run_plan_def apply_ca_rotation_def ca_result_def
        initial_progress_def force_of_def renews_certificate_def replaces_key_def bind_result_def Let_def
        split: sum.splits prod.splits bool.splits)
  show ?thesis
  proof (cases "ce_get_secret env (fst (ca_names_of kafka which))")
    case (Inr k)
    note k = this
    show ?thesis
    proof (cases "ce_get_secret env (fst (snd (ca_names_of kafka which)))")
      case (Inr c)
      show ?thesis
      proof (cases "load_ca k c")
        case (Some r)
        then show ?thesis
          using Inr k assms rot[of "inputs_of kafka which fr fk conv now"]
          by (cases r) (simp add: reconcile_ca_def inputs_of_def Let_def)
      qed (use Inr k assms in \<open>simp add: reconcile_ca_def Let_def\<close>)
    qed (use k assms in \<open>simp add: reconcile_ca_def Let_def\<close>)
  qed (use assms in \<open>simp add: reconcile_ca_def Let_def\<close>)
qed


section \<open>Concrete instances\<close>

lemma run_create:
  assumes h: "healthy env kafka" and none: "cw_key w = None" "cw_cert w = None"
    and gen: "ca_generate (ca_spec_of kafka which)"
      "ce_generate_ca env which (snd (snd (ca_names_of kafka which))) (ca_validity_days (ca_spec_of kafka which)) = Inr m"
    and m: "is_ascii_text (cm_key_pem m)" "is_ascii_text (cm_cert_pem m)"
  shows "\<exists>st. ca_state_of (ca_run env kafka which fr fk conv now w) = Some st
      \<and> cs_bundle st = split_pem_certs (cm_cert_pem m) \<and> cs_key_pem st = cm_key_pem m \<and> cs_phase st = PhaseIdle"
    "cw_bundles (ca_run env kafka which fr fk conv now w) = split_pem_certs (cm_cert_pem m) # cw_bundles w"
proof -
  obtain key cert cn where n: "ca_names_of kafka which = (key, cert, cn)" and dist: "cert \<noteq> key" by (rule names_cases)
  let ?env = "stored_env env (key, cert, cn) w"
  obtain s1 where s1: "render_ca_secret kafka key ''ca-key'' [(''ca.key'', cm_key_pem m)] [(ANN_KEY_GENERATION, ''0'')] = Inr s1"
    "patch_secret ?env kafka key ''ca-key'' [(''ca.key'', cm_key_pem m)] [(ANN_KEY_GENERATION, ''0'')] = (Inr (), [ApplySecret key s1])"
    by (rule healthy_render[OF h])
  obtain s2 where s2: "render_ca_secret kafka cert ''ca-cert'' [(''ca.crt'', cm_cert_pem m)] [(ANN_CERT_GENERATION, ''0'')] = Inr s2"
    "patch_secret ?env kafka cert ''ca-cert'' [(''ca.crt'', cm_cert_pem m)] [(ANN_CERT_GENERATION, ''0'')] = (Inr (), [ApplySecret cert s2])"
    by (rule healthy_render[OF h])
  have get: "ce_get_secret ?env key = Inr None" "ce_get_secret ?env cert = Inr None"
    using none by (simp_all add: stored_env_def)
  have "snd (reconcile_ca ?env kafka which fr fk conv now) = [ApplySecret key s1, ApplySecret cert s2]"
    using gen get by (cases "format_not_after ?env (cm_cert_pem m)")
      (simp_all add: reconcile_ca_def n load_ca_def create_ca_def s1(2) s2(2) then_log_def bind_log_def lift_log_def
        ret_log_def Let_def)
  then have run: "ca_run env kafka which fr fk conv now w
      = w\<lparr>cw_key := Some (ssa None s1), cw_cert := Some (ssa None s2), cw_bundles := bundle_of s2 # cw_bundles w\<rparr>"
    using dist none by (simp add: ca_run_def n)
  from create_state(1)[where old = None, OF s1(1) s2(1) m] create_state(2)[OF s1(1) s2(1) m]
  show "\<exists>st. ca_state_of (ca_run env kafka which fr fk conv now w) = Some st
      \<and> cs_bundle st = split_pem_certs (cm_cert_pem m) \<and> cs_key_pem st = cm_key_pem m \<and> cs_phase st = PhaseIdle"
    "cw_bundles (ca_run env kafka which fr fk conv now w) = split_pem_certs (cm_cert_pem m) # cw_bundles w"
    by (auto simp: run ca_state_of_def)
qed

definition wit_cert :: "string \<Rightarrow> string" where
  "wit_cert x = BEGIN_CERT @ x @ END_CERT @ newline"

definition wit_ca_env :: "string \<Rightarrow> string \<Rightarrow> ca_env" where
  "wit_ca_env c k = \<lparr>ce_get_secret = (\<lambda>_. Inr None), ce_patch_secret = (\<lambda>_. None),
     ce_generate_ca = (\<lambda>_ _ _. Inr \<lparr>cm_cert_pem = wit_cert c, cm_key_pem = k\<rparr>),
     ce_renew_ca = (\<lambda>_ _ _ _. Inl ''unused''), ce_not_after = (\<lambda>_. Inr 10000000000000000), ce_format = (\<lambda>_. Inr ''t'')\<rparr>"

definition wit_kafka :: "bool \<Rightarrow> kafka_owner" where
  "wit_kafka generate = \<lparr>ko_meta = (plain_meta ''k'')\<lparr>meta_uid := Some ''u''\<rparr>,
     ko_cluster_ca = Some (default_ca\<lparr>ca_generate := generate\<rparr>), ko_clients_ca = None\<rparr>"

definition wit_pairs :: "string \<Rightarrow> string \<Rightarrow> bool" where
  "wit_pairs b k \<longleftrightarrow> (b, k) \<in> {(wit_cert ''A'', ''a''), (wit_cert ''B'', ''b'')}"

definition wit_none :: ca_world where
  "wit_none = \<lparr>cw_key = None, cw_cert = None, cw_bundles = [], cw_signers = []\<rparr>"

definition wit_created :: ca_world where
  "wit_created = ca_run (wit_ca_env ''A'' ''a'') (wit_kafka True) Cluster False False False 0 wit_none"

definition wit_staged :: ca_world where
  "wit_staged = ca_run (wit_ca_env ''B'' ''b'') (wit_kafka True) Cluster False True False 0 wit_created"

lemma wit_cert_block:
  "pem_block (wit_cert ''A'')" "pem_block (wit_cert ''B'')"
  "is_ascii_text (wit_cert ''A'')" "is_ascii_text (wit_cert ''B'')"
  by (simp_all add: pem_block_def wit_cert_def BEGIN_CERT_def END_CERT_def newline_def starts_with_def is_ascii_text_def)

lemma wit_cert_split [simp]:
  "split_pem_certs (wit_cert ''A'') = [wit_cert ''A'']" "split_pem_certs (wit_cert ''B'') = [wit_cert ''B'']"
  "normalize_block (wit_cert ''A'') = wit_cert ''A''" "normalize_block (wit_cert ''B'') = wit_cert ''B''"
  using split_join[of "[wit_cert ''A'']"] split_join[of "[wit_cert ''B'']"] wit_cert_block
  by (simp_all add: join_bundle_def normalize_block_def)

lemma wit_ascii [simp]: "is_ascii_text ''a''" "is_ascii_text ''b''"
  by (simp_all add: is_ascii_text_def)

lemma wit_facts:
  "healthy (wit_ca_env c k) (wit_kafka g)" "ca_generate (ca_spec_of (wit_kafka g) Cluster) = g"
  "ce_generate_ca (wit_ca_env c k) w cn d = Inr \<lparr>cm_cert_pem = wit_cert c, cm_key_pem = k\<rparr>"
  by (simp_all add: healthy_def wit_ca_env_def wit_kafka_def ca_spec_of_def default_ca_def plain_meta_def)

lemma wit_crypto: "sound_crypto wit_pairs (wit_ca_env ''A'' ''a'')" "sound_crypto wit_pairs (wit_ca_env ''B'' ''b'')"
  by (simp_all add: sound_crypto_def wit_ca_env_def wit_pairs_def wit_cert_block)

lemma wit_created_state:
  obtains st where "ca_state_of wit_created = Some st" "cs_bundle st = [wit_cert ''A'']" "cs_key_pem st = ''a''"
    "cs_phase st = PhaseIdle" "clean_state st"
proof -
  from run_create(1)[where w = wit_none and which = Cluster, OF wit_facts(1)[of "''A''" "''a''" "True"]]
  obtain st where st: "ca_state_of wit_created = Some st" "cs_bundle st = [wit_cert ''A'']" "cs_key_pem st = ''a''"
    "cs_phase st = PhaseIdle"
    unfolding wit_created_def by (force simp: wit_none_def wit_facts wit_cert_block)
  then have "clean_state st" by (simp add: clean_state_def wit_cert_block)
  with st show thesis by (rule that)
qed


lemma ca_run_step:
  assumes "sound_crypto pairs env" "pass_allowed env conv now w"
  shows "ca_machine pairs (ca_names_of kafka which) w (ca_run env kafka which fr fk conv now w)"
proof -
  let ?env = "stored_env env (ca_names_of kafka which) w"
  have "sound_crypto pairs ?env" "pass_allowed ?env conv now w"
    using assms by (auto simp: sound_crypto_def pass_allowed_def split: option.splits)
  from ca_pass[OF this(1) refl _ _ this(2), of kafka which
      "length (snd (reconcile_ca ?env kafka which fr fk conv now))" fr fk]
  show ?thesis by (simp add: ca_run_def)
qed

lemma wit_created_reach: "reach ca_init (ca_machine wit_pairs (ca_names_of (wit_kafka True) Cluster)) wit_created"
proof -
  have "reach ca_init (ca_machine wit_pairs (ca_names_of (wit_kafka True) Cluster)) wit_none"
    by (rule reach_init) (simp add: ca_init_def wit_none_def)
  then show ?thesis
    unfolding wit_created_def
    by (rule reach_step) (rule ca_run_step[OF wit_crypto(1)], simp add: pass_allowed_def wit_none_def load_ca_def)
qed

lemma wit_created_bundles: "cw_bundles wit_created = [[wit_cert ''A'']]"
  using run_create(2)[where w = wit_none and which = Cluster, OF wit_facts(1)[of "''A''" "''a''" "True"]]
  by (simp add: wit_created_def wit_none_def wit_facts wit_cert_block)


theorem signing_material_pairs_witness:
  "\<exists>out. fst (reconcile_ca (stored_env (wit_ca_env ''B'' ''b'') (ca_names_of (wit_kafka True) Cluster) wit_created)
        (wit_kafka True) Cluster False False False 0) = Inr out
     \<and> wit_pairs (cm_cert_pem (co_signing out)) (cm_key_pem (co_signing out))"
proof -
  obtain st where st: "ca_state_of wit_created = Some st" "cs_bundle st = [wit_cert ''A'']" "cs_key_pem st = ''a''"
    "cs_phase st = PhaseIdle" by (rule wit_created_state)
  obtain raw where load: "load_ca (cw_key wit_created) (cw_cert wit_created) = Some (st, raw)"
    using state_loaded[OF st(1)] by blast
  have renewal: "days (ca_renewal_days (ca_spec_of (wit_kafka True) Cluster)) = 2592000000000000"
    by (simp add: wit_kafka_def ca_spec_of_def default_ca_def days_def day_ns_def)
  have plan: "plan_ca_rotation (ce_not_after (wit_ca_env ''B'' ''b'')) st
      (inputs_of (wit_kafka True) Cluster False False False 0) = NoOp"
    using st(2,4) renewal wit_facts(2)[of "True"]
    by (simp add: plan_ca_rotation_def inputs_of_def force_of_def replaces_key_def renews_certificate_def
        renew_if_expiring_def bind_result_def result_ok_def wit_ca_env_def Let_def)
  have "\<exists>out. fst (reconcile_ca (stored_env (wit_ca_env ''B'' ''b'') (ca_names_of (wit_kafka True) Cluster) wit_created)
        (wit_kafka True) Cluster False False False 0) = Inr out"
    unfolding pass_on_loaded[OF load] plan
    using st(4) by (simp add: apply_ca_rotation_def run_plan_def ca_result_def format_not_after_def bind_result_def
        rotation_condition_def initial_progress_def Let_def wit_ca_env_def)
  then obtain out where out: "fst (reconcile_ca (stored_env (wit_ca_env ''B'' ''b'') (ca_names_of (wit_kafka True) Cluster)
      wit_created) (wit_kafka True) Cluster False False False 0) = Inr out" by blast
  from signing_material_pairs[OF wit_created_reach wit_crypto(2) st(1) _ out] st(4) out show ?thesis by auto
qed

theorem key_replacement_completes_witness:
  "\<exists>st. ca_state_of (ca_run (wit_ca_env ''B'' ''b'') (wit_kafka True) Cluster False False True 2
      (ca_run (wit_ca_env ''B'' ''b'') (wit_kafka True) Cluster False False True 1
        (ca_run (wit_ca_env ''B'' ''b'') (wit_kafka True) Cluster False True False 0 wit_created)))
    = Some st \<and> cs_bundle st = [wit_cert ''B''] \<and> cs_key_pem st = ''b''"
proof -
  obtain st where st: "ca_state_of wit_created = Some st" "cs_bundle st = [wit_cert ''A'']" "cs_key_pem st = ''a''"
    "cs_phase st = PhaseIdle" "clean_state st" by (rule wit_created_state)
  note h = wit_facts(1)[of "''B''" "''b''" "True"]
  from key_replacement_completes[OF h h h st(1) st(5) st(4), of "\<lparr>cm_cert_pem = wit_cert ''B'', cm_key_pem = ''b''\<rparr>"] st(3)
  show ?thesis by (simp add: wit_facts wit_cert_block)
qed

lemma wit_staged_state:
  obtains st where "ca_state_of wit_staged = Some st" "cs_bundle st = [wit_cert ''A'', wit_cert ''B'']"
    "cs_phase st = KeyReplaceTrust" "clean_state st" "cs_pending_key st = Some ''b''"
    "cs_pending_cert st = Some (wit_cert ''B'')"
proof -
  obtain st where st: "ca_state_of wit_created = Some st" "cs_bundle st = [wit_cert ''A'']" "cs_key_pem st = ''a''"
    "cs_phase st = PhaseIdle" "clean_state st" by (rule wit_created_state)
  have "wit_cert ''A'' \<noteq> wit_cert ''B''" by (simp add: wit_cert_def)
  then have B: "staged_bundle na (cs_bundle st) now (wit_cert ''B'') = [wit_cert ''A'', wit_cert ''B'']" for na now
    using st(2) by (auto simp: staged_bundle_def dedup_blocks_def)
  from run_start[where which = Cluster and m = "\<lparr>cm_cert_pem = wit_cert ''B'', cm_key_pem = ''b''\<rparr>"
      and fr = False and conv = False and now = 0,
      OF wit_facts(1)[of "''B''" "''b''" "True"] st(1) st(5) st(4)] B
  show thesis
    by (intro that) (auto simp: wit_staged_def wit_facts wit_cert_block clean_state_def st(3))
qed

theorem interrupted_promotion_replays_witness:
  "ca_state_of (ca_run (wit_ca_env ''B'' ''b'') (wit_kafka True) Cluster False False True 1
      (fold (apply_ca_effect (ca_names_of (wit_kafka True) Cluster)) (take 1 (snd (reconcile_ca
        (stored_env (wit_ca_env ''B'' ''b'') (ca_names_of (wit_kafka True) Cluster) wit_staged)
        (wit_kafka True) Cluster False False True 1))) wit_staged))
    = ca_state_of (ca_run (wit_ca_env ''B'' ''b'') (wit_kafka True) Cluster False False True 1 wit_staged)"
proof -
  obtain st where st: "ca_state_of wit_staged = Some st" "cs_phase st = KeyReplaceTrust" "clean_state st"
    "cs_pending_key st = Some ''b''" "cs_pending_cert st = Some (wit_cert ''B'')" by (rule wit_staged_state)
  show ?thesis
    by (rule interrupted_promotion_replays[OF wit_facts(1) st(1) st(3) st(2) _ st(4) st(5)])
      (simp_all add: wit_facts wit_cert_block)
qed

theorem cut_promotion_mixes_pair_witness:
  "\<exists>out. fst (reconcile_ca (stored_env (wit_ca_env ''B'' ''b'') (ca_names_of (wit_kafka True) Cluster)
      (fold (apply_ca_effect (ca_names_of (wit_kafka True) Cluster)) (take 1 (snd (reconcile_ca
        (stored_env (wit_ca_env ''B'' ''b'') (ca_names_of (wit_kafka True) Cluster) wit_staged)
        (wit_kafka True) Cluster False False True 1))) wit_staged)) (wit_kafka True) Cluster False False False 2) = Inr out
    \<and> co_signing out = \<lparr>cm_cert_pem = wit_cert ''A'', cm_key_pem = ''b''\<rparr>"
proof -
  obtain st where st: "ca_state_of wit_staged = Some st" "cs_bundle st = [wit_cert ''A'', wit_cert ''B'']"
    "cs_phase st = KeyReplaceTrust" "clean_state st"
    "cs_pending_key st = Some ''b''" "cs_pending_cert st = Some (wit_cert ''B'')" by (rule wit_staged_state)
  have "ce_not_after (wit_ca_env ''B'' ''b'') (hd (cs_bundle st)) = Inr 10000000000000000"
    "ce_format (wit_ca_env ''B'' ''b'') 10000000000000000 = Inr ''t''"
    by (simp_all add: wit_ca_env_def)
  from cut_promotion_mixes_pair[where which = Cluster and fr = False and fk = False and now = 1 and fr' = False
      and fk' = False and now' = 2, OF wit_facts(1)[of "''B''" "''b''" "True"] st(1) st(4) st(3) _ st(5) st(6) _ _ _ this] st(2)
  show ?thesis by (simp add: Let_def wit_facts wit_cert_block)
qed

theorem byo_never_written_witness:
  "snd (reconcile_ca (wit_ca_env ''B'' ''b'') (wit_kafka False) Cluster True False True 0) = []"
  using byo_never_written[of "wit_kafka False" Cluster] wit_facts(2)[of False] by simp

end
