(* ===== verification/Broker_Keystore.thy ===== *)
theory Broker_Keystore
  imports Cluster_Ca
begin

text \<open>
  The broker keystore of \<open>controller/cluster_ca.rs\<close>: \<open>ensure_broker_keystore\<close>
  keeps one leaf certificate per broker in one Secret, reissues those that
  are missing, expiring, forced or whose name list changed, and prunes those
  of brokers that are gone. \<open>compute_san_digest\<close> is the fingerprint that
  detects a changed name list. Signing and SHA-256 are library code.
\<close>

section \<open>Subject alternative names\<close>

datatype ip_addr = V4 "nat list" | V6 "nat list"

datatype subject_alt_name = Dns string | Ip ip_addr

fun san_key :: "subject_alt_name \<Rightarrow> nat \<times> string \<times> nat list" where
  "san_key (Dns d) = (0, d, [])"
| "san_key (Ip (V4 octets)) = (1, [], octets)"
| "san_key (Ip (V6 octets)) = (2, [], octets)"

lemma san_key_inj: "san_key a = san_key b \<longleftrightarrow> a = b"
  by (cases a rule: san_key.cases; cases b rule: san_key.cases) auto

instantiation subject_alt_name :: linorder
begin

definition less_eq_subject_alt_name :: "subject_alt_name \<Rightarrow> subject_alt_name \<Rightarrow> bool" where
  "less_eq_subject_alt_name a b \<longleftrightarrow> san_key a \<le> san_key b"

definition less_subject_alt_name :: "subject_alt_name \<Rightarrow> subject_alt_name \<Rightarrow> bool" where
  "less_subject_alt_name a b \<longleftrightarrow> san_key a < san_key b"

instance
  by standard
    (auto simp: less_eq_subject_alt_name_def less_subject_alt_name_def san_key_inj
      dest: antisym)

end

text \<open>\<open>IpAddr::to_string\<close>.\<close>

definition hex_digit :: "nat \<Rightarrow> char" where
  "hex_digit d = (if d < 10 then char_of (48 + d) else char_of (87 + d))"

definition hex_segment :: "nat \<Rightarrow> string" where
  "hex_segment n =
     (let ds = dropWhile (\<lambda>d. d = 0) [n div 4096 mod 16, n div 256 mod 16, n div 16 mod 16, n mod 16]
      in if ds = [] then ''0'' else map hex_digit ds)"

fun segments :: "nat list \<Rightarrow> nat list" where
  "segments (a # b # r) = (256 * a + b) # segments r"
| "segments _ = []"

text \<open>The first longest run of zero segments, as start and length.\<close>

fun zero_run :: "nat \<Rightarrow> nat \<times> nat \<Rightarrow> nat \<times> nat \<Rightarrow> nat list \<Rightarrow> nat \<times> nat" where
  "zero_run i cur best [] = best"
| "zero_run i cur best (s # r) =
     (if s = 0 then
        let cur' = (if snd cur = 0 then (i, 1) else (fst cur, snd cur + 1)) in
        zero_run (i + 1) cur' (if snd cur' > snd best then cur' else best) r
      else zero_run (i + 1) (0, 0) best r)"

definition dotted :: "nat list \<Rightarrow> string" where
  "dotted octets = join_with ''.'' (map nat_to_string octets)"

definition ipv6_text :: "nat list \<Rightarrow> string" where
  "ipv6_text octets =
     (let segs = segments octets in
      if take 6 segs = [0, 0, 0, 0, 0, 65535] then ''::ffff:'' @ dotted (drop 12 octets)
      else
        let (start, len) = zero_run 0 (0, 0) (0, 0) segs in
        if len > 1 then join_with '':'' (map hex_segment (take start segs)) @ ''::''
                        @ join_with '':'' (map hex_segment (drop (start + len) segs))
        else join_with '':'' (map hex_segment segs))"

definition ip_text :: "ip_addr \<Rightarrow> string" where
  "ip_text ip = (case ip of V4 octets \<Rightarrow> dotted octets | V6 octets \<Rightarrow> ipv6_text octets)"

definition san_line :: "subject_alt_name \<Rightarrow> string" where
  "san_line s = (case s of Dns d \<Rightarrow> ''DNS:'' @ d | Ip ip \<Rightarrow> ''IP:'' @ ip_text ip) @ [CHR 0x0A]"

definition compute_san_digest ::
  "(string \<Rightarrow> string) \<Rightarrow> subject_alt_name list \<Rightarrow> subject_alt_name list \<Rightarrow> string" where
  "compute_san_digest sha256_hex base_sans extras =
     sha256_hex (concat (map san_line (remdups_adj (sort (base_sans @ extras)))))"

section \<open>The keystore\<close>

record broker_cert_request =
  br_broker_id :: int
  br_cn :: string
  br_sans :: "subject_alt_name list"
  br_extra_sans :: "subject_alt_name list"

record leaf_cert =
  leaf_cert_pem :: string
  leaf_key_pem :: string

record keystore_status =
  ks_issued :: "int list"
  ks_reused :: "int list"
  ks_pruned :: "int list"
  ks_leaf_material :: string

record keystore_env =
  ke_get_secret :: "string \<Rightarrow> kube_error + secret option"
  ke_patch_secret :: "string \<Rightarrow> kube_error option"
  ke_issue :: "string \<Rightarrow> string \<Rightarrow> string \<Rightarrow> subject_alt_name list \<Rightarrow> subject_alt_name list \<Rightarrow> u32
                 \<Rightarrow> string + leaf_cert"
  ke_not_after :: expiry
  ke_now :: time
  ke_sha256_hex :: "string \<Rightarrow> string"

type_synonym blob_map = "(string, string) bmap"

definition crt_key_of :: "int \<Rightarrow> string" where
  "crt_key_of i = int_to_string i @ ''.crt''"

definition key_key_of :: "int \<Rightarrow> string" where
  "key_key_of i = int_to_string i @ ''.key''"

definition digest_key_of :: "int \<Rightarrow> string" where
  "digest_key_of i = int_to_string i @ ''.sans-digest''"

definition leaf_expiring :: "keystore_env \<Rightarrow> time \<Rightarrow> blob_map \<Rightarrow> int \<Rightarrow> reconcile_error + bool" where
  "leaf_expiring env renewal m i =
     (case bm_get m (crt_key_of i) of
        None \<Rightarrow> Inr True
      | Some cert \<Rightarrow>
          (case from_utf8 cert of
             Inl _ \<Rightarrow> Inr True
           | Inr pem \<Rightarrow> renew_if_expiring (ke_not_after env) pem renewal (ke_now env)))"

definition needs_reissue ::
  "keystore_env \<Rightarrow> time \<Rightarrow> bool \<Rightarrow> blob_map \<Rightarrow> broker_cert_request \<Rightarrow> reconcile_error + bool" where
  "needs_reissue env renewal force_reissue m req =
     (let i = br_broker_id req;
          requested = compute_san_digest (ke_sha256_hex env) (br_sans req) (br_extra_sans req);
          has_cert = bm_get m (crt_key_of i) \<noteq> None \<and> bm_get m (key_key_of i) \<noteq> None;
          stored = Option.bind (bm_get m (digest_key_of i)) (\<lambda>b. result_ok (from_utf8 b))
      in bind_result (leaf_expiring env renewal m i) (\<lambda>expiring.
           Inr (force_reissue \<or> \<not> has_cert \<or> expiring \<or> stored = None \<or> stored \<noteq> Some requested)))"

definition put_leaf :: "int \<Rightarrow> leaf_cert \<Rightarrow> string \<Rightarrow> blob_map \<Rightarrow> blob_map" where
  "put_leaf i leaf digest m =
     bm_insert (digest_key_of i) digest
       (bm_insert (key_key_of i) (leaf_key_pem leaf) (bm_insert (crt_key_of i) (leaf_cert_pem leaf) m))"

fun issue_leafs ::
  "keystore_env \<Rightarrow> time \<Rightarrow> time \<Rightarrow> ca_material \<Rightarrow> bool \<Rightarrow> broker_cert_request list
     \<Rightarrow> blob_map \<times> int list \<times> int list \<Rightarrow> reconcile_error + blob_map \<times> int list \<times> int list" where
  "issue_leafs env validity renewal ca force_reissue [] acc = Inr acc"
| "issue_leafs env validity renewal ca force_reissue (req # reqs) (m, issued, reused) =
     bind_result (needs_reissue env renewal force_reissue m req) (\<lambda>reissue.
       if \<not> reissue then
         issue_leafs env validity renewal ca force_reissue reqs (m, issued, reused @ [br_broker_id req])
       else
         bind_result (map_sum Ca id (ke_issue env (cm_cert_pem ca) (cm_key_pem ca) (br_cn req) (br_sans req)
                        (br_extra_sans req) (whole_days validity))) (\<lambda>leaf.
           issue_leafs env validity renewal ca force_reissue reqs
             (put_leaf (br_broker_id req) leaf
                (compute_san_digest (ke_sha256_hex env) (br_sans req) (br_extra_sans req)) m,
              issued @ [br_broker_id req], reused)))"

definition want_keys :: "broker_cert_request list \<Rightarrow> string list" where
  "want_keys requests =
     concat (map (\<lambda>req. let i = br_broker_id req in [crt_key_of i, key_key_of i, digest_key_of i]) requests)"

definition pruned_id :: "string list \<Rightarrow> string \<Rightarrow> int option" where
  "pruned_id want k =
     (if k \<in> set want then None
      else Option.bind (split_once ''.'' k) (\<lambda>(id_str, _). parse_i32 id_str))"

definition prune_keystore :: "string list \<Rightarrow> blob_map \<Rightarrow> blob_map \<times> int list" where
  "prune_keystore want m =
     (filter (\<lambda>(k, _). pruned_id want k = None) m,
      remdups_adj (sort (List.map_filter (\<lambda>(k, _). pruned_id want k) m)))"

function lossy_bytes :: "string \<Rightarrow> string" where
  "lossy_bytes s =
     (case s of
        [] \<Rightarrow> []
      | c # r \<Rightarrow>
          (case utf8_head (map of_char s) of
             Inl n \<Rightarrow> take n s @ lossy_bytes (drop (max n 1) s)
           | Inr (Some n) \<Rightarrow> [CHR 0xEF, CHR 0xBF, CHR 0xBD] @ lossy_bytes (drop (max n 1) s)
           | Inr None \<Rightarrow> [CHR 0xEF, CHR 0xBF, CHR 0xBD]))"
  by auto
termination
  by (relation "measure length") auto

declare lossy_bytes.simps [simp del]

definition leaf_material :: "blob_map \<Rightarrow> string" where
  "leaf_material m =
     concat (map (\<lambda>(_, v). CHR 0x1E # lossy_bytes v) (filter (\<lambda>(k, _). ends_with ''.crt'' k) m))"

datatype keystore_effect = ApplyKeystore string secret

definition ensure_broker_keystore ::
  "keystore_env \<Rightarrow> kafka_owner \<Rightarrow> broker_cert_request list \<Rightarrow> ca_material \<Rightarrow> bool
     \<Rightarrow> (reconcile_error, keystore_status, keystore_effect) logged" where
  "ensure_broker_keystore env kafka requests cluster_ca force_reissue =
     (let cluster = meta_name (ko_meta kafka);
          name = broker_keystore_name cluster;
          validity = days (case ko_cluster_ca kafka of None \<Rightarrow> 365 | Some c \<Rightarrow> ca_validity_days c);
          renewal = days (case ko_cluster_ca kafka of None \<Rightarrow> 30 | Some c \<Rightarrow> ca_renewal_days c)
      in bind_log (lift_log (map_sum Kube id (ke_get_secret env name))) (\<lambda>existing.
         let stored = (case Option.bind existing secret_data of None \<Rightarrow> [] | Some d \<Rightarrow> d) in
         bind_log (lift_log (issue_leafs env validity renewal cluster_ca force_reissue requests (stored, [], [])))
           (\<lambda>(m, issued, reused).
             let (kept, pruned) = prune_keystore (want_keys requests) m;
                 labels = bm_collect [(''krabka.io/secret-type'', ''broker-keystore''), (''krabka.io/cluster'', cluster)]
             in bind_log (lift_log (owner_ref ''krabka.io/v1alpha1'' ''Kafka'' (ko_meta kafka))) (\<lambda>owner.
                then_log (attempt Kube (ke_patch_secret env name)
                    (ApplyKeystore name
                      \<lparr>secret_meta = (plain_meta name)\<lparr>
                         meta_namespace := Some (case meta_namespace (ko_meta kafka) of None \<Rightarrow> [] | Some n \<Rightarrow> n),
                         meta_labels := Some labels, meta_owner_references := [owner]\<rparr>,
                       secret_type = Some ''Opaque'', secret_data = Some kept\<rparr>))
                  (ret_log \<lparr>ks_issued = issued, ks_reused = reused, ks_pruned = pruned,
                            ks_leaf_material = leaf_material kept\<rparr>)))))"

section \<open>Digests\<close>

lemma distinct_remdups_sorted: "sorted xs \<Longrightarrow> distinct (remdups_adj xs)"
  by (induction xs rule: remdups_adj.induct) (auto simp: remdups_adj_set less_le)

lemma canonical_sort: "remdups_adj (sort xs) = sorted_list_of_set (set xs)"
  by (rule sorted_distinct_set_unique) (auto simp: distinct_remdups_sorted sorted_remdups_adj)

lemma digest_of_set: "set (a @ b) = set (c @ d) \<Longrightarrow> compute_san_digest h a b = compute_san_digest h c d"
  by (simp add: compute_san_digest_def canonical_sort)

text \<open>the fingerprint of a name list depends on the set of names only, not on their order,
  repetition or division into base and extra names, so a leaf renewed from its own certificate keeps
  the fingerprint it was issued with.\<close>
theorem san_digest_of_set:
  assumes "set (a @ b) = set (c @ d)"
  shows "compute_san_digest h a b = compute_san_digest h c d"
  using assms by (rule digest_of_set)

theorem san_digest_of_set_witness:
  "compute_san_digest id [Dns ''b'', Dns ''a''] [Ip (V4 [10, 0, 0, 1])]
     = compute_san_digest id [Ip (V4 [10, 0, 0, 1]), Dns ''a''] [Dns ''b'', Dns ''a'']"
  by (rule san_digest_of_set) auto

lemma suffix_differ:
  "x @ ''.crt'' \<noteq> y @ ''.key''" "x @ ''.crt'' \<noteq> y @ ''.sans-digest''" "x @ ''.key'' \<noteq> y @ ''.sans-digest''"
  "y @ ''.key'' \<noteq> x @ ''.crt''" "y @ ''.sans-digest'' \<noteq> x @ ''.crt''" "y @ ''.sans-digest'' \<noteq> x @ ''.key''"
proof -
  show "x @ ''.crt'' \<noteq> y @ ''.key''" "x @ ''.crt'' \<noteq> y @ ''.sans-digest''" "x @ ''.key'' \<noteq> y @ ''.sans-digest''"
    by (auto dest: arg_cong[where f = last])
qed (auto dest: arg_cong[where f = last])

definition slots :: "int \<Rightarrow> string list" where
  "slots i = [crt_key_of i, key_key_of i, digest_key_of i]"

lemma get_put_leaf:
  "bm_get (put_leaf i leaf dg m) (crt_key_of i) = Some (leaf_cert_pem leaf)"
  "bm_get (put_leaf i leaf dg m) (key_key_of i) = Some (leaf_key_pem leaf)"
  "bm_get (put_leaf i leaf dg m) (digest_key_of i) = Some dg"
  "k \<notin> set (slots i) \<Longrightarrow> bm_get (put_leaf i leaf dg m) k = bm_get m k"
  by (auto simp: put_leaf_def crt_key_of_def key_key_of_def digest_key_of_def suffix_differ slots_def)

lemma slots_disjoint:
  "in_i32 i \<Longrightarrow> in_i32 j \<Longrightarrow> i \<noteq> j \<Longrightarrow> set (slots i) \<inter> set (slots j) = {}"
  by (auto simp: slots_def crt_key_of_def key_key_of_def digest_key_of_def suffix_differ int_to_string_inj)

lemma needs_reissue_cong:
  "(\<And>k. k \<in> set (slots (br_broker_id req)) \<Longrightarrow> bm_get m k = bm_get m' k) \<Longrightarrow>
     needs_reissue env renewal f m req = needs_reissue env renewal f m' req"
  by (simp add: needs_reissue_def leaf_expiring_def slots_def Let_def)

definition fresh_issuer :: "keystore_env \<Rightarrow> time \<Rightarrow> bool" where
  "fresh_issuer env renewal \<longleftrightarrow>
     (\<forall>c k cn sans extras d leaf. ke_issue env c k cn sans extras d = Inr leaf \<longrightarrow>
        (\<exists>na. from_utf8 (leaf_cert_pem leaf) = Inr (leaf_cert_pem leaf)
           \<and> ke_not_after env (leaf_cert_pem leaf) = Inr na \<and> na - ke_now env > renewal)) \<and>
     (\<forall>x. from_utf8 (ke_sha256_hex env x) = Inr (ke_sha256_hex env x))"

definition served :: "keystore_env \<Rightarrow> time \<Rightarrow> blob_map \<Rightarrow> broker_cert_request \<Rightarrow> bool" where
  "served env renewal m req \<longleftrightarrow> needs_reissue env renewal False m req = Inr False"

lemma served_reads:
  assumes "served env renewal m req"
  shows "bm_get m (crt_key_of (br_broker_id req)) \<noteq> None" "bm_get m (key_key_of (br_broker_id req)) \<noteq> None"
    "bm_get m (digest_key_of (br_broker_id req))
       = Some (compute_san_digest (ke_sha256_hex env) (br_sans req) (br_extra_sans req))"
  using assms
  by (auto simp: served_def needs_reissue_def bind_result_def result_ok_def Let_def
      split: sum.splits Option.bind_splits option.splits dest: from_utf8_Inr)

lemma served_put_leaf:
  assumes "fresh_issuer env renewal" "ke_issue env c k cn sans extras d = Inr leaf"
  shows "served env renewal (put_leaf (br_broker_id req) leaf
     (compute_san_digest (ke_sha256_hex env) (br_sans req) (br_extra_sans req)) m) req"
  using assms
  by (fastforce simp: served_def needs_reissue_def leaf_expiring_def get_put_leaf fresh_issuer_def
      renew_if_expiring_def bind_result_def result_ok_def compute_san_digest_def Let_def)

lemma issue_leafs_serves:
  assumes "issue_leafs env validity renewal ca f reqs (m, iss, reu) = Inr (m', iss', reu')"
    and "distinct (map br_broker_id reqs)" "\<forall>req \<in> set reqs. in_i32 (br_broker_id req)" "fresh_issuer env renewal"
  shows "(\<forall>req \<in> set reqs. served env renewal m' req)
    \<and> (\<forall>k. (\<forall>req \<in> set reqs. k \<notin> set (slots (br_broker_id req))) \<longrightarrow> bm_get m' k = bm_get m k)"
  using assms
proof (induction reqs arbitrary: m iss reu)
  case (Cons req reqs)
  note ids = Cons.prems(2,3)
  from Cons.prems(1) obtain b where b: "needs_reissue env renewal f m req = Inr b"
    by (auto simp: bind_result_def split: sum.splits)
  obtain m1 iss1 reu1 where rest: "issue_leafs env validity renewal ca f reqs (m1, iss1, reu1) = Inr (m', iss', reu')"
    and m1: "served env renewal m1 req" "\<And>k. k \<notin> set (slots (br_broker_id req)) \<Longrightarrow> bm_get m1 k = bm_get m k"
  proof (cases b)
    case False
    then have "served env renewal m req"
      using b by (cases f) (auto simp: served_def needs_reissue_def bind_result_def Let_def split: sum.splits)
    with Cons.prems(1) b False that show thesis by (simp add: bind_result_def)
  next
    case True
    with Cons.prems(1) b obtain leaf where leaf: "ke_issue env (cm_cert_pem ca) (cm_key_pem ca) (br_cn req) (br_sans req)
        (br_extra_sans req) (whole_days validity) = Inr leaf"
      by (cases "ke_issue env (cm_cert_pem ca) (cm_key_pem ca) (br_cn req) (br_sans req)
        (br_extra_sans req) (whole_days validity)") (auto simp: bind_result_def)
    from Cons.prems(1) b True leaf show thesis
      by (intro that[OF _ served_put_leaf[OF Cons.prems(4) leaf]]) (auto simp: bind_result_def get_put_leaf)
  qed
  have IH: "\<forall>req \<in> set reqs. served env renewal m' req"
    "\<And>k. \<forall>req \<in> set reqs. k \<notin> set (slots (br_broker_id req)) \<Longrightarrow> bm_get m' k = bm_get m1 k"
    using Cons.IH[OF rest] ids Cons.prems(4) by auto
  have "k \<notin> set (slots (br_broker_id r))" if "k \<in> set (slots (br_broker_id req))" "r \<in> set reqs" for k r
    using slots_disjoint[of "br_broker_id req" "br_broker_id r"] ids that by (auto simp: image_iff)
  then have "served env renewal m' req"
    using needs_reissue_cong[of req m' m1 env renewal False] IH(2) m1(1) by (auto simp: served_def)
  with IH m1(2) show ?case by auto
qed simp

lemma get_filter_key: "bm_get (filter (\<lambda>(k, _). P k) m) k = (if P k then bm_get m k else None)"
  by (induction m) auto

lemma want_slots: "set (want_keys requests) = (\<Union>req \<in> set requests. set (slots (br_broker_id req)))"
  by (auto simp: want_keys_def slots_def Let_def)

lemma get_pruned:
  "bm_get (fst (prune_keystore want m)) k = (if pruned_id want k = None then bm_get m k else None)"
  unfolding prune_keystore_def fst_conv by (rule get_filter_key)

lemma prune_again: "prune_keystore want (fst (prune_keystore want m)) = (fst (prune_keystore want m), [])"
proof -
  have "List.map_filter (\<lambda>(k, _). pruned_id want k) (filter (\<lambda>(k, _). pruned_id want k = None) m) = []"
    by (induction m) (auto simp: List.map_filter_simps)
  then show ?thesis by (simp add: prune_keystore_def)
qed

lemma served_pruned:
  assumes "served env renewal m req" "req \<in> set requests"
  shows "served env renewal (fst (prune_keystore (want_keys requests) m)) req"
proof -
  have "k \<in> set (want_keys requests)" if "k \<in> set (slots (br_broker_id req))" for k
    using that assms(2) by (auto simp: want_slots)
  then show ?thesis
    using assms(1) needs_reissue_cong[of req "fst (prune_keystore (want_keys requests) m)" m env renewal False]
    by (simp add: served_def get_pruned pruned_id_def)
qed

lemma issue_leafs_all_served:
  "\<forall>req \<in> set reqs. served env renewal m req \<Longrightarrow>
     issue_leafs env validity renewal ca False reqs (m, iss, reu) = Inr (m, iss, reu @ map br_broker_id reqs)"
  by (induction reqs arbitrary: reu) (auto simp: served_def bind_result_def)

definition renewal_of :: "kafka_owner \<Rightarrow> time" where
  "renewal_of kafka = days (case ko_cluster_ca kafka of None \<Rightarrow> 30 | Some c \<Rightarrow> ca_renewal_days c)"

definition stored_leafs :: "keystore_env \<Rightarrow> kafka_owner \<Rightarrow> kube_error + blob_map" where
  "stored_leafs env kafka =
     map_sum id (\<lambda>e. case Option.bind e secret_data of None \<Rightarrow> [] | Some d \<Rightarrow> d)
       (ke_get_secret env (broker_keystore_name (meta_name (ko_meta kafka))))"

definition keystore_secret :: "kafka_owner \<Rightarrow> owner_reference \<Rightarrow> blob_map \<Rightarrow> secret" where
  "keystore_secret kafka owner m = \<lparr>secret_meta = (plain_meta (broker_keystore_name (meta_name (ko_meta kafka))))\<lparr>
      meta_namespace := Some (case meta_namespace (ko_meta kafka) of None \<Rightarrow> [] | Some n \<Rightarrow> n),
      meta_labels := Some (bm_collect [(''krabka.io/secret-type'', ''broker-keystore''),
        (''krabka.io/cluster'', meta_name (ko_meta kafka))]), meta_owner_references := [owner]\<rparr>,
    secret_type = Some ''Opaque'', secret_data = Some m\<rparr>"

definition validity_of :: "kafka_owner \<Rightarrow> time" where
  "validity_of kafka = days (case ko_cluster_ca kafka of None \<Rightarrow> 365 | Some c \<Rightarrow> ca_validity_days c)"

lemma keystore_run:
  assumes stored: "stored_leafs env kafka = Inr m0"
    and iss: "issue_leafs env (validity_of kafka) (renewal_of kafka) ca f requests (m0, [], []) = Inr (m, issued, reused)"
    and owner: "owner_ref ''krabka.io/v1alpha1'' ''Kafka'' (ko_meta kafka) = Inr owner"
    and patch: "ke_patch_secret env (broker_keystore_name (meta_name (ko_meta kafka))) = None"
  shows "ensure_broker_keystore env kafka requests ca f =
    (Inr \<lparr>ks_issued = issued, ks_reused = reused, ks_pruned = snd (prune_keystore (want_keys requests) m),
       ks_leaf_material = leaf_material (fst (prune_keystore (want_keys requests) m))\<rparr>,
     [ApplyKeystore (broker_keystore_name (meta_name (ko_meta kafka)))
        (keystore_secret kafka owner (fst (prune_keystore (want_keys requests) m)))])"
proof -
  obtain kept pruned where "prune_keystore (want_keys requests) m = (kept, pruned)" by fastforce
  then show ?thesis
    using assms
    by (cases "ke_get_secret env (broker_keystore_name (meta_name (ko_meta kafka)))")
      (auto simp: ensure_broker_keystore_def stored_leafs_def renewal_of_def validity_of_def keystore_secret_def Let_def
        then_log_def attempt_def emit_def bind_log_def ret_log_def lift_log_def)
qed

lemma keystore_pass:
  assumes "fst (ensure_broker_keystore env kafka requests ca f) = Inr status"
  obtains m0 m issued reused owner where "stored_leafs env kafka = Inr m0"
    "issue_leafs env (validity_of kafka) (renewal_of kafka) ca f requests (m0, [], []) = Inr (m, issued, reused)"
    "owner_ref ''krabka.io/v1alpha1'' ''Kafka'' (ko_meta kafka) = Inr owner"
    "ke_patch_secret env (broker_keystore_name (meta_name (ko_meta kafka))) = None"
proof -
  let ?name = "broker_keystore_name (meta_name (ko_meta kafka))"
  obtain e where e: "ke_get_secret env ?name = Inr e"
    using assms by (cases "ke_get_secret env ?name") (auto simp: ensure_broker_keystore_def Let_def)
  define m0 where "m0 = (case Option.bind e secret_data of None \<Rightarrow> [] | Some d \<Rightarrow> d)"
  have stored: "stored_leafs env kafka = Inr m0" by (simp add: stored_leafs_def e m0_def)
  obtain m issued reused where iss: "issue_leafs env (validity_of kafka) (renewal_of kafka) ca f requests (m0, [], [])
      = Inr (m, issued, reused)"
    using assms e
    by (cases "issue_leafs env (validity_of kafka) (renewal_of kafka) ca f requests (m0, [], [])")
      (auto simp: ensure_broker_keystore_def renewal_of_def validity_of_def m0_def Let_def)
  obtain owner where owner: "owner_ref ''krabka.io/v1alpha1'' ''Kafka'' (ko_meta kafka) = Inr owner"
    using assms e iss
    by (cases "owner_ref ''krabka.io/v1alpha1'' ''Kafka'' (ko_meta kafka)")
      (auto simp: ensure_broker_keystore_def renewal_of_def validity_of_def m0_def Let_def split: prod.splits)
  have "ke_patch_secret env ?name = None"
    using assms e iss owner
    by (cases "ke_patch_secret env ?name")
      (auto simp: ensure_broker_keystore_def renewal_of_def validity_of_def m0_def Let_def then_log_def attempt_def
        split: prod.splits)
  with stored iss owner show thesis by (rule that)
qed

lemma served_env [simp]: "served (env\<lparr>ke_get_secret := g\<rparr>) r m req = served env r m req"
  by (simp add: served_def needs_reissue_def leaf_expiring_def Let_def split: option.split sum.split)


text \<open>the keystore settles. If the issuer hands out certificates outside the renewal window, a
  second unforced pass that finds the Secret of the first one issues nothing, prunes nothing, reports
  every broker as reused and applies the same data.\<close>
theorem keystore_settles:
  assumes ok: "fst (ensure_broker_keystore env kafka requests ca f) = Inr status"
    and eff: "snd (ensure_broker_keystore env kafka requests ca f) = [ApplyKeystore name s]"
    and ids: "distinct (map br_broker_id requests)" "\<forall>req \<in> set requests. in_i32 (br_broker_id req)"
    and fresh: "fresh_issuer env (renewal_of kafka)"
  shows "ensure_broker_keystore (env\<lparr>ke_get_secret := (\<lambda>_. Inr (Some s))\<rparr>) kafka requests ca False
    = (Inr \<lparr>ks_issued = [], ks_reused = map br_broker_id requests, ks_pruned = [],
             ks_leaf_material = ks_leaf_material status\<rparr>, [ApplyKeystore name s])"
proof -
  let ?env = "env\<lparr>ke_get_secret := (\<lambda>_. Inr (Some s))\<rparr>"
  let ?w = "want_keys requests"
  from ok obtain m0 m issued reused owner where stored: "stored_leafs env kafka = Inr m0"
    and iss: "issue_leafs env (validity_of kafka) (renewal_of kafka) ca f requests (m0, [], []) = Inr (m, issued, reused)"
    and owner: "owner_ref ''krabka.io/v1alpha1'' ''Kafka'' (ko_meta kafka) = Inr owner"
    and patch: "ke_patch_secret env (broker_keystore_name (meta_name (ko_meta kafka))) = None"
    by (rule keystore_pass)
  let ?kept = "fst (prune_keystore ?w m)"
  note first = keystore_run[OF stored iss owner patch]
  have s: "s = keystore_secret kafka owner ?kept" "name = broker_keystore_name (meta_name (ko_meta kafka))"
    "ks_leaf_material status = leaf_material ?kept"
    using ok eff first by auto
  have "\<forall>req \<in> set requests. served ?env (renewal_of kafka) ?kept req"
    using served_pruned issue_leafs_serves[OF iss ids fresh] by simp
  note again = issue_leafs_all_served[OF this, of "validity_of kafka" ca "[]" "[]"]
  have "stored_leafs ?env kafka = Inr ?kept" by (simp add: stored_leafs_def s(1) keystore_secret_def)
  from keystore_run[OF this again owner] patch show ?thesis
    by (simp add: prune_again s)
qed

text \<open>a stored leaf that is text but no certificate blocks its keystore: the pass fails with
  the parse error and applies nothing, even when a reissue of every leaf is forced.\<close>
theorem unparsable_leaf_blocks_keystore:
  assumes "stored_leafs env kafka = Inr m" "requests = req # reqs"
    and "bm_get m (crt_key_of (br_broker_id req)) = Some cert" "from_utf8 cert = Inr cert"
    and "ke_not_after env cert = Inl e"
  shows "ensure_broker_keystore env kafka requests ca f = (Inl e, [])"
  using assms
  by (auto simp: ensure_broker_keystore_def stored_leafs_def needs_reissue_def leaf_expiring_def renew_if_expiring_def
      bind_result_def fail_log_def Let_def map_sum_def split: sum.splits)


section \<open>Concrete instances\<close>

definition ks_env :: "kube_error + secret option \<Rightarrow> keystore_env" where
  "ks_env stored = \<lparr>ke_get_secret = (\<lambda>_. stored), ke_patch_secret = (\<lambda>_. None),
     ke_issue = (\<lambda>_ _ _ _ _ _. Inr \<lparr>leaf_cert_pem = ''c'', leaf_key_pem = ''k''\<rparr>),
     ke_not_after = (\<lambda>b. if b = ''c'' then Inr 10000000000000000 else Inl (CertParse ''x'')), ke_now = 0,
     ke_sha256_hex = (\<lambda>_. ''d'')\<rparr>"

definition ks_kafka :: kafka_owner where
  "ks_kafka = \<lparr>ko_meta = (plain_meta ''k'')\<lparr>meta_uid := Some ''u''\<rparr>, ko_cluster_ca = None, ko_clients_ca = None\<rparr>"

definition ks_requests :: "broker_cert_request list" where
  "ks_requests = [\<lparr>br_broker_id = 0, br_cn = ''b0'', br_sans = [Dns ''b0''], br_extra_sans = []\<rparr>]"

definition ks_ca :: ca_material where
  "ks_ca = \<lparr>cm_cert_pem = ''ca'', cm_key_pem = ''cak''\<rparr>"

lemma ks_utf8: "from_utf8 ''c'' = Inr ''c''" "from_utf8 ''d'' = Inr ''d''" "from_utf8 ''x'' = Inr ''x''"
  by (simp_all add: from_utf8_def utf8_error_def utf8_head_def utf8_width_def)

lemma ks_fresh: "fresh_issuer (ks_env stored) (renewal_of ks_kafka)"
  by (simp add: fresh_issuer_def ks_env_def ks_utf8 renewal_of_def ks_kafka_def days_def day_ns_def)

lemma ks_ids: "distinct (map br_broker_id ks_requests)" "\<forall>req \<in> set ks_requests. in_i32 (br_broker_id req)"
  by (simp_all add: ks_requests_def in_i32_def)

lemma ks_first:
  "\<exists>status s. fst (ensure_broker_keystore (ks_env (Inr None)) ks_kafka ks_requests ks_ca False) = Inr status
     \<and> snd (ensure_broker_keystore (ks_env (Inr None)) ks_kafka ks_requests ks_ca False)
         = [ApplyKeystore (broker_keystore_name ''k'') s]"
  by (simp add: ensure_broker_keystore_def ks_env_def ks_kafka_def ks_requests_def needs_reissue_def leaf_expiring_def
      owner_ref_def ok_or_def bind_result_def Let_def then_log_def attempt_def plain_meta_def split: prod.splits)


theorem keystore_settles_witness:
  "\<exists>s material. ensure_broker_keystore ((ks_env (Inr None))\<lparr>ke_get_secret := (\<lambda>_. Inr (Some s))\<rparr>) ks_kafka
       ks_requests ks_ca False
     = (Inr \<lparr>ks_issued = [], ks_reused = [0], ks_pruned = [], ks_leaf_material = material\<rparr>,
        [ApplyKeystore (broker_keystore_name ''k'') s])"
proof -
  obtain status s where ok: "fst (ensure_broker_keystore (ks_env (Inr None)) ks_kafka ks_requests ks_ca False) = Inr status"
    and eff: "snd (ensure_broker_keystore (ks_env (Inr None)) ks_kafka ks_requests ks_ca False)
      = [ApplyKeystore (broker_keystore_name ''k'') s]" using ks_first by blast
  from keystore_settles[OF ok eff ks_ids ks_fresh] show ?thesis by (auto simp: ks_requests_def)
qed

theorem unparsable_leaf_blocks_keystore_witness:
  "ensure_broker_keystore (ks_env (Inr (Some \<lparr>secret_meta = plain_meta ''s'', secret_type = None,
       secret_data = Some [(''0.crt'', ''x'')]\<rparr>))) ks_kafka ks_requests ks_ca True = (Inl (CertParse ''x''), [])"
proof -
  have crt: "crt_key_of 0 = ''0.crt''" by (simp add: crt_key_of_def int_to_string_def eval_simps)
  show ?thesis
    by (rule unparsable_leaf_blocks_keystore[where m = "[(''0.crt'', ''x'')]" and req = "hd ks_requests" and reqs = "[]"
          and cert = "''x''"])
      (simp_all add: stored_leafs_def ks_env_def ks_requests_def ks_utf8 crt)
qed

end
