(* ===== verification/Renewal_Check.thy ===== *)
theory Renewal_Check
  imports Broker_Keystore
begin

text \<open>
  The \<open>ca-renewal-check\<close> job of \<open>controller/cluster_ca.rs\<close>: for every \<open>Kafka\<close>
  resource it flags CAs inside their renewal window and renews expiring
  broker leafs in place, keeping the identity that each stored certificate
  carries. The X.509 parser is library code: it answers with the common name
  and the list of general names.
\<close>

section \<open>Data\<close>

datatype general_name = DNSName string | IPAddress "nat list" | OtherName

record x509_identity =
  xi_common_name :: "string option"
  xi_alt_names :: "string + general_name list option"

record event_details =
  ev_type :: string
  ev_reason :: string
  ev_message :: string

record renewal_env =
  re_keystore :: keystore_env
  re_now :: time
  re_stamp :: "time \<Rightarrow> string + string"
  re_x509 :: "string \<Rightarrow> string + x509_identity"
  re_patch_kafka :: "kube_error option"
  re_post_event :: "event_details \<Rightarrow> kube_error option"

datatype renewal_effect =
    StampRenewAfter string string
  | EmitEvent string event_details
  | ApplyRenewed string secret

section \<open>Reading\<close>

definition read_existing_ca ::
  "renewal_env \<Rightarrow> string \<Rightarrow> which_ca \<Rightarrow> reconcile_error + ca_material" where
  "read_existing_ca env cluster which =
     (let (key_name, cert_name) =
            (case which of Cluster \<Rightarrow> (cluster_ca_key_name cluster, cluster_ca_cert_name cluster)
                         | Clients \<Rightarrow> (clients_ca_key_name cluster, clients_ca_cert_name cluster));
          get = (\<lambda>n. bind_result (map_sum Kube id (ke_get_secret (re_keystore env) n))
                       (ok_or (CaSecretMissing n)))
      in bind_result (get key_name) (\<lambda>key_secret.
         bind_result (get cert_name) (\<lambda>cert_secret.
         bind_result (ok_or (CertParse (key_name @ '' ca.key unreadable'')) (read_pem_key key_secret ''ca.key''))
           (\<lambda>key_pem.
         bind_result (ok_or (CertParse (cert_name @ '' ca.crt unreadable'')) (read_pem_key cert_secret ''ca.crt''))
           (\<lambda>cert_pem. Inr \<lparr>cm_cert_pem = cert_pem, cm_key_pem = key_pem\<rparr>)))))"

definition san_of :: "general_name \<Rightarrow> subject_alt_name option" where
  "san_of gn =
     (case gn of
        DNSName s \<Rightarrow> Some (Dns s)
      | IPAddress bytes \<Rightarrow>
          if length bytes = 4 then Some (Ip (V4 bytes))
          else if length bytes = 16 then Some (Ip (V6 bytes)) else None
      | OtherName \<Rightarrow> None)"

definition read_existing_cn_and_sans ::
  "renewal_env \<Rightarrow> string \<Rightarrow> reconcile_error + string \<times> subject_alt_name list" where
  "read_existing_cn_and_sans env cert_pem =
     bind_result (map_sum CertParse id (re_x509 env cert_pem)) (\<lambda>x.
     bind_result (ok_or (CertParse ''broker cert has no CN in subject'') (xi_common_name x)) (\<lambda>cn.
     bind_result (map_sum CertParse id (xi_alt_names x)) (\<lambda>names.
       Inr (cn, case names of None \<Rightarrow> [] | Some gns \<Rightarrow> List.map_filter san_of gns))))"

section \<open>Acting\<close>

definition emit_event ::
  "renewal_env \<Rightarrow> kafka_owner \<Rightarrow> event_details \<Rightarrow> (reconcile_error, unit, renewal_effect) logged" where
  "emit_event env kafka details =
     attempt Kube (re_post_event env details) (EmitEvent (meta_name (ko_meta kafka)) details)"

definition flag_ca_if_expiring ::
  "renewal_env \<Rightarrow> kafka_owner \<Rightarrow> string \<Rightarrow> certificate_authority \<Rightarrow> which_ca
     \<Rightarrow> (reconcile_error, unit, renewal_effect) logged" where
  "flag_ca_if_expiring env kafka ca_cert_pem spec which =
     bind_log (lift_log (renew_if_expiring (ke_not_after (re_keystore env)) ca_cert_pem
                           (days (ca_renewal_days spec)) (re_now env))) (\<lambda>expiring.
       if \<not> expiring then ret_log ()
       else if ca_generate spec then
         (if meta_annotation (ko_meta kafka) ''krabka.io/ca-renew-after'' \<noteq> None then ret_log ()
          else bind_log (lift_log (map_sum CertParse id (re_stamp env (re_now env)))) (\<lambda>stamp.
               then_log (attempt Kube (re_patch_kafka env) (StampRenewAfter (meta_name (ko_meta kafka)) stamp))
                 (emit_event env kafka
                   \<lparr>ev_type = ''Normal'', ev_reason = ''CaRenewalScheduled'',
                    ev_message = ''CA '' @ condition_name which
                      @ '' is within renewalDays; scheduled a same-key renewal on the next reconcile''\<rparr>)))
       else emit_event env kafka
              \<lparr>ev_type = ''Warning'', ev_reason = ''ByoCaExpiringSoon'',
               ev_message = ''CA '' @ condition_name which @ '' is expiring within renewalDays; ''
                 @ ''rotation is the cluster admin's responsibility (BYO)''\<rparr>)"

text \<open>\<open>Path::extension\<close> of a Secret key, which holds no slash.\<close>

definition path_extension :: "string \<Rightarrow> string option" where
  "path_extension k =
     (if k = ''..'' then None
      else case rsplit_once (CHR ''.'') k of
             None \<Rightarrow> None
           | Some (stem, ext) \<Rightarrow> if stem = [] then None else Some ext)"

definition crt_keys_of :: "blob_map \<Rightarrow> string list" where
  "crt_keys_of m =
     filter (\<lambda>k. case path_extension k of None \<Rightarrow> False | Some e \<Rightarrow> eq_ignore_ascii_case e ''crt'') (map fst m)"

definition renew_leaf ::
  "renewal_env \<Rightarrow> ca_material \<Rightarrow> time \<Rightarrow> time \<Rightarrow> string \<Rightarrow> blob_map \<times> int list
     \<Rightarrow> reconcile_error + blob_map \<times> int list" where
  "renew_leaf env ca renewal validity crt_key acc =
     (case acc of (m, renewed) \<Rightarrow>
       (case Option.bind (split_once ''.'' crt_key) (\<lambda>(id_str, _). parse_i32 id_str) of
          None \<Rightarrow> Inr acc
        | Some i \<Rightarrow>
            (case bm_get m crt_key of
               None \<Rightarrow> Inr acc
             | Some cert_bytes \<Rightarrow>
                 (case from_utf8 cert_bytes of
                    Inl _ \<Rightarrow> Inr acc
                  | Inr cert_pem \<Rightarrow>
                      bind_result (renew_if_expiring (ke_not_after (re_keystore env)) cert_pem renewal (re_now env))
                        (\<lambda>expiring.
                          if \<not> expiring then Inr acc
                          else
                            (case read_existing_cn_and_sans env cert_pem of
                               Inl _ \<Rightarrow> Inr acc
                             | Inr (cn, sans) \<Rightarrow>
                                 bind_result (map_sum Ca id (ke_issue (re_keystore env) (cm_cert_pem ca)
                                     (cm_key_pem ca) cn sans [] (whole_days validity))) (\<lambda>leaf.
                                   Inr (bm_insert (digest_key_of i)
                                          (compute_san_digest (ke_sha256_hex (re_keystore env)) sans [])
                                          (bm_insert (key_key_of i) (leaf_key_pem leaf)
                                             (bm_insert crt_key (leaf_cert_pem leaf) m)),
                                        renewed @ [i]))))))))"

fun renew_leafs ::
  "renewal_env \<Rightarrow> ca_material \<Rightarrow> time \<Rightarrow> time \<Rightarrow> string list \<Rightarrow> blob_map \<times> int list
     \<Rightarrow> reconcile_error + blob_map \<times> int list" where
  "renew_leafs env ca renewal validity [] acc = Inr acc"
| "renew_leafs env ca renewal validity (k # ks) acc =
     bind_result (renew_leaf env ca renewal validity k acc) (renew_leafs env ca renewal validity ks)"

fun emit_renewed ::
  "renewal_env \<Rightarrow> kafka_owner \<Rightarrow> int list \<Rightarrow> (reconcile_error, unit, renewal_effect) logged" where
  "emit_renewed env kafka [] = ret_log ()"
| "emit_renewed env kafka (i # is) =
     then_log (emit_event env kafka
        \<lparr>ev_type = ''Normal'', ev_reason = ''BrokerCertRenewed'',
         ev_message = ''broker='' @ int_to_string i @ '' reissued by ca-renewal-check''\<rparr>)
       (emit_renewed env kafka is)"

definition renew_broker_leafs ::
  "renewal_env \<Rightarrow> kafka_owner \<Rightarrow> ca_material \<Rightarrow> time \<Rightarrow> time
     \<Rightarrow> (reconcile_error, unit, renewal_effect) logged" where
  "renew_broker_leafs env kafka cluster_ca renewal validity =
     (let name = broker_keystore_name (meta_name (ko_meta kafka)) in
      bind_log (lift_log (map_sum Kube id (ke_get_secret (re_keystore env) name))) (\<lambda>existing.
        case existing of
          None \<Rightarrow> ret_log ()
        | Some s \<Rightarrow>
            (case secret_data s of
               None \<Rightarrow> ret_log ()
             | Some m \<Rightarrow>
                 bind_log (lift_log (renew_leafs env cluster_ca renewal validity (crt_keys_of m) (m, [])))
                   (\<lambda>(m', renewed).
                     if renewed = [] then ret_log ()
                     else then_log (attempt Kube (ke_patch_secret (re_keystore env) name)
                                      (ApplyRenewed name (s\<lparr>secret_data := Some m'\<rparr>)))
                            (emit_renewed env kafka renewed)))))"

definition renew_one :: "renewal_env \<Rightarrow> kafka_owner \<Rightarrow> (reconcile_error, unit, renewal_effect) logged" where
  "renew_one env kafka =
     (let cluster = meta_name (ko_meta kafka) in
      bind_log (lift_log (read_existing_ca env cluster Cluster)) (\<lambda>cluster_ca.
      bind_log (lift_log (read_existing_ca env cluster Clients)) (\<lambda>clients_ca.
        let cluster_spec = ca_spec_of kafka Cluster; clients_spec = ca_spec_of kafka Clients in
        then_log (flag_ca_if_expiring env kafka (cm_cert_pem cluster_ca) cluster_spec Cluster)
        (then_log (flag_ca_if_expiring env kafka (cm_cert_pem clients_ca) clients_spec Clients)
          (renew_broker_leafs env kafka cluster_ca (days (ca_renewal_days cluster_spec))
             (days (ca_validity_days cluster_spec)))))))"

text \<open>Each cluster has its own environment: its namespace's API and the instant it was checked.\<close>

fun check_each :: "(renewal_env \<times> kafka_owner) list \<Rightarrow> renewal_effect list" where
  "check_each [] = []"
| "check_each ((env, kafka) # ks) = snd (renew_one env kafka) @ check_each ks"

definition run_renewal_check ::
  "kube_error + (renewal_env \<times> kafka_owner) list \<Rightarrow> (reconcile_error, unit, renewal_effect) logged" where
  "run_renewal_check listed =
     (case listed of Inl e \<Rightarrow> fail_log (Kube e) | Inr ks \<Rightarrow> (Inr (), check_each ks))"

section \<open>Properties\<close>

lemma split_crt_key:
  assumes "in_i32 i"
  shows "Option.bind (split_once ''.'' (crt_key_of i)) (\<lambda>(s, _). parse_i32 s) = Some i"
proof -
  have no_dot: "CHR ''.'' \<notin> set (int_to_string i)"
    using nat_to_string_digits[of "CHR ''.''"] by (auto simp: int_to_string_def is_ascii_digit_def)
  have "find_sub ''.'' (s @ ''.crt'') = Some (length s)" if "CHR ''.'' \<notin> set s" for s
    using that by (induction s) auto
  from this[OF no_dot] show ?thesis
    using parse_i32_print[OF assms] by (simp add: crt_key_of_def split_once_def)
qed

lemma renewed_leaf_stored:
  assumes i: "in_i32 i"
    and cert: "bm_get m (crt_key_of i) = Some cert" "from_utf8 cert = Inr cert"
    and due: "renew_if_expiring (ke_not_after (re_keystore env)) cert renewal (re_now env) = Inr True"
    and ident: "read_existing_cn_and_sans env cert = Inr (cn, sans)"
    and leaf: "ke_issue (re_keystore env) (cm_cert_pem ca) (cm_key_pem ca) cn sans [] (whole_days validity) = Inr leaf"
  shows "renew_leaf env ca renewal validity (crt_key_of i) (m, rs)
    = Inr (put_leaf i leaf (compute_san_digest (ke_sha256_hex (re_keystore env)) sans []) m, rs @ [i])"
  using assms split_crt_key[OF i] by (simp add: renew_leaf_def put_leaf_def bind_result_def)

text \<open>a leaf renewed by the job needs no reissue by the operator. When the certificate of a
  broker expires and the operator's request asks for the names that certificate carries, in whatever
  order and division, the renewed entry is one that the next keystore pass reuses.\<close>
theorem renewed_leaf_is_reused:
  assumes "in_i32 (br_broker_id req)"
    and "bm_get m (crt_key_of (br_broker_id req)) = Some cert" "from_utf8 cert = Inr cert"
    and "renew_if_expiring (ke_not_after (re_keystore env)) cert renewal (re_now env) = Inr True"
    and "read_existing_cn_and_sans env cert = Inr (cn, sans)"
    and "ke_issue (re_keystore env) (cm_cert_pem ca) (cm_key_pem ca) cn sans [] (whole_days validity) = Inr leaf"
    and sans: "set sans = set (br_sans req @ br_extra_sans req)"
    and fresh: "fresh_issuer (re_keystore env) renewal2"
  shows "\<exists>m'. renew_leaf env ca renewal validity (crt_key_of (br_broker_id req)) (m, rs) = Inr (m', rs @ [br_broker_id req])
    \<and> needs_reissue (re_keystore env) renewal2 False m' req = Inr False"
proof -
  have digest: "compute_san_digest h sans [] = compute_san_digest h (br_sans req) (br_extra_sans req)" for h
    using sans by (intro digest_of_set) simp
  show ?thesis
    using renewed_leaf_stored[OF assms(1-6), of rs] served_put_leaf[OF fresh assms(6), of req m]
    by (simp add: digest served_def)
qed

lemma flag_stamps:
  assumes "StampRenewAfter c t \<in> set (snd (flag_ca_if_expiring env kafka pem spec which))"
  shows "ca_generate spec \<and> meta_annotation (ko_meta kafka) ''krabka.io/ca-renew-after'' = None
    \<and> renew_if_expiring (ke_not_after (re_keystore env)) pem (days (ca_renewal_days spec)) (re_now env) = Inr True"
  using assms
  by (cases "renew_if_expiring (ke_not_after (re_keystore env)) pem (days (ca_renewal_days spec)) (re_now env)";
      cases "re_stamp env (re_now env)")
    (auto simp: flag_ca_if_expiring_def emit_event_def set_snd_then_log set_snd_attempt
      split: if_splits sum.splits)

lemma renewed_events: "StampRenewAfter c t \<notin> set (snd (emit_renewed env kafka is))"
  by (induction "is") (auto simp: emit_event_def set_snd_then_log set_snd_attempt split: sum.splits)

lemma leafs_never_stamp: "StampRenewAfter c t \<notin> set (snd (renew_broker_leafs env kafka ca renewal validity))"
proof -
  have "StampRenewAfter c t \<notin> set (snd (bind_log (lift_log r) (\<lambda>(m', renewed).
      if renewed = [] then ret_log () else then_log (attempt Kube f (ApplyRenewed n (g m'))) (emit_renewed env kafka renewed))))"
    for r :: "reconcile_error + blob_map \<times> int list" and f n g
    by (cases r) (auto simp: set_snd_then_log set_snd_attempt renewed_events split: if_splits sum.splits)
  then show ?thesis
    by (cases "ke_get_secret (re_keystore env) (broker_keystore_name (meta_name (ko_meta kafka)))")
      (auto simp: renew_broker_leafs_def Let_def split: option.splits)
qed

text \<open>the job schedules a renewal only for a CA that the operator manages, whose certificate
  is inside its renewal window, and only while no renewal is scheduled; a CA brought by the user is
  never scheduled.\<close>
theorem stamps_only_managed_expiring:
  assumes "StampRenewAfter c t \<in> set (snd (renew_one env kafka))"
  shows "meta_annotation (ko_meta kafka) ''krabka.io/ca-renew-after'' = None
    \<and> (\<exists>which ca. read_existing_ca env (meta_name (ko_meta kafka)) which = Inr ca
         \<and> ca_generate (ca_spec_of kafka which)
         \<and> renew_if_expiring (ke_not_after (re_keystore env)) (cm_cert_pem ca)
             (days (ca_renewal_days (ca_spec_of kafka which))) (re_now env) = Inr True)"
proof -
  let ?cl = "meta_name (ko_meta kafka)"
  obtain a where a: "read_existing_ca env ?cl Cluster = Inr a"
    using assms by (cases "read_existing_ca env ?cl Cluster") (auto simp: renew_one_def Let_def)
  obtain b where b: "read_existing_ca env ?cl Clients = Inr b"
    using assms a by (cases "read_existing_ca env ?cl Clients") (auto simp: renew_one_def Let_def)
  have "StampRenewAfter c t \<in> set (snd (flag_ca_if_expiring env kafka (cm_cert_pem a) (ca_spec_of kafka Cluster) Cluster))
    \<or> StampRenewAfter c t \<in> set (snd (flag_ca_if_expiring env kafka (cm_cert_pem b) (ca_spec_of kafka Clients) Clients))"
    using assms a b by (auto simp: renew_one_def Let_def set_snd_then_log leafs_never_stamp split: sum.splits)
  then show ?thesis using a b flag_stamps by blast
qed


section \<open>Concrete instances\<close>

definition rn_secret :: "string \<Rightarrow> string \<Rightarrow> secret" where
  "rn_secret k v = \<lparr>secret_meta = plain_meta ''s'', secret_type = None, secret_data = Some [(k, v)]\<rparr>"

definition rn_env :: renewal_env where
  "rn_env = \<lparr>re_keystore = (ks_env (Inr None))\<lparr>ke_get_secret := (\<lambda>n.
        if n = ''k-cluster-ca'' \<or> n = ''k-clients-ca'' then Inr (Some (rn_secret ''ca.key'' ''d''))
        else if n = ''k-cluster-ca-cert'' \<or> n = ''k-clients-ca-cert'' then Inr (Some (rn_secret ''ca.crt'' ''c''))
        else Inr None),
        ke_not_after := (\<lambda>b. if b = ''c'' then Inr 10000000000000000 else Inr 0)\<rparr>,
     re_now = 10000000000000000, re_stamp = (\<lambda>_. Inr ''t''),
     re_x509 = (\<lambda>_. Inr \<lparr>xi_common_name = Some ''b0'', xi_alt_names = Inr (Some [DNSName ''b0''])\<rparr>),
     re_patch_kafka = None, re_post_event = (\<lambda>_. None)\<rparr>"

definition rn_req :: broker_cert_request where
  "rn_req = \<lparr>br_broker_id = 0, br_cn = ''b0'', br_sans = [Dns ''b0''], br_extra_sans = []\<rparr>"

lemma rn_reads:
  "read_existing_ca rn_env ''k'' which = Inr \<lparr>cm_cert_pem = ''c'', cm_key_pem = ''d''\<rparr>"
  "renew_if_expiring (ke_not_after (re_keystore rn_env)) ''c'' renewal (re_now rn_env) = Inr (0 \<le> renewal)"
  "renew_if_expiring (ke_not_after (re_keystore rn_env)) ''x'' 0 (re_now rn_env) = Inr True"
  by (cases which; simp add: read_existing_ca_def rn_env_def rn_secret_def cluster_ca_key_name_def
      cluster_ca_cert_name_def clients_ca_key_name_def clients_ca_cert_name_def ok_or_def bind_result_def
      read_pem_key_def secret_value_def ks_utf8 result_ok_def renew_if_expiring_def)+

theorem renewed_leaf_is_reused_witness:
  "\<exists>m'. renew_leaf rn_env ks_ca 0 0 (crt_key_of 0) ([(crt_key_of 0, ''x'')], []) = Inr (m', [0])
    \<and> needs_reissue (re_keystore rn_env) (- 1) False m' rn_req = Inr False"
proof -
  have fresh: "fresh_issuer (re_keystore rn_env) (- 1)"
    by (simp add: fresh_issuer_def rn_env_def ks_env_def ks_utf8)
  have ident: "read_existing_cn_and_sans rn_env ''x'' = Inr (''b0'', [Dns ''b0''])"
    by (simp add: read_existing_cn_and_sans_def rn_env_def bind_result_def ok_or_def List.map_filter_simps san_of_def)
  have leaf: "ke_issue (re_keystore rn_env) (cm_cert_pem ks_ca) (cm_key_pem ks_ca) ''b0'' [Dns ''b0''] [] (whole_days 0)
      = Inr \<lparr>leaf_cert_pem = ''c'', leaf_key_pem = ''k''\<rparr>"
    by (simp add: rn_env_def ks_env_def)
  from renewed_leaf_is_reused[where req = rn_req and m = "[(crt_key_of 0, ''x'')]" and rs = "[]", OF _ _ ks_utf8(3) rn_reads(3)
      ident leaf _ fresh]
  show ?thesis by (simp add: rn_req_def in_i32_def)
qed

theorem stamps_only_managed_expiring_witness:
  "StampRenewAfter ''k'' ''t'' \<in> set (snd (renew_one rn_env ks_kafka))
    \<and> (\<exists>which. ca_generate (ca_spec_of ks_kafka which))"
proof -
  have "meta_annotation (ko_meta ks_kafka) ''krabka.io/ca-renew-after'' = None" "meta_name (ko_meta ks_kafka) = ''k''"
    "ca_spec_of ks_kafka Cluster = default_ca"
    by (simp_all add: ks_kafka_def meta_annotation_def plain_meta_def ca_spec_of_def)
  moreover have "0 \<le> days 30" by (simp add: days_def day_ns_def)
  ultimately have "StampRenewAfter ''k'' ''t'' \<in> set (snd (flag_ca_if_expiring rn_env ks_kafka ''c'' (ca_spec_of ks_kafka Cluster) Cluster))"
    by (simp add: flag_ca_if_expiring_def rn_reads default_ca_def set_snd_then_log set_snd_attempt)
      (simp add: rn_env_def set_snd_then_log set_snd_attempt)
  then have *: "StampRenewAfter ''k'' ''t'' \<in> set (snd (renew_one rn_env ks_kafka))"
    by (simp add: renew_one_def Let_def rn_reads set_snd_then_log \<open>meta_name (ko_meta ks_kafka) = ''k''\<close>)
  from stamps_only_managed_expiring[OF *] * show ?thesis by blast
qed

end
