(* ===== verification/Listeners.thy ===== *)
theory Listeners
  imports Kube_Objects
begin

text \<open>
  The listeners of a cluster: the schema of \<open>crd/listener.rs\<close>, their validation
  (\<open>validate_listeners\<close> and its companions in \<open>controller/listeners.rs\<close>), the choice of
  the inter-broker listener and of the operator's own listener, and the bootstrap
  addresses that a ready cluster reports. The parser for Kerberos name rules
  (\<open>krabka_security\<close>) is a parameter.
\<close>

section \<open>The schema\<close>

datatype listener_type = Internal | Nodeport | Loadbalancer | Ingress | Route

record tls_trusted_certificate =
  tc_secret_name :: string
  tc_certificate :: string

text \<open>A named key of a Secret: the client secret of an introspection endpoint or a keytab.\<close>

record secret_item =
  si_secret_name :: string
  si_key :: string

record oauth_config =
  oa_valid_issuer_uri :: string
  oa_jwks_endpoint_uri :: "string option"
  oa_valid_audience :: "string option"
  oa_user_name_claim :: "string option"
  oa_custom_claim_check :: "string option"
  oa_jwks_refresh_seconds :: "32 word option"
  oa_max_clock_skew_seconds :: "32 word option"
  oa_enable_oauth_bearer :: bool
  oa_tls_trusted_certificates :: "tls_trusted_certificate list"
  oa_access_token_is_jwt :: bool
  oa_introspection_endpoint_uri :: "string option"
  oa_user_info_endpoint_uri :: "string option"
  oa_client_id :: "string option"
  oa_client_secret :: "secret_item option"
  oa_introspection_http_timeout_seconds :: "32 word option"
  oa_max_seconds_without_reauthentication :: "32 word option"
  oa_valid_token_type :: "string option"
  oa_fallback_user_name_claim :: "string option"
  oa_fallback_user_name_prefix :: "string option"
  oa_groups_claim :: "string option"
  oa_groups_claim_delimiter :: "string option"
  oa_jwks_min_refresh_pause_seconds :: "32 word option"
  oa_jwks_expiry_seconds :: "32 word option"
  oa_jwks_ignore_key_use :: "bool option"

record gssapi_config =
  ga_keytab_secret_ref :: secret_item
  ga_service_name :: "string option"
  ga_principal_to_local_rules :: "string list"
  ga_realm :: "string option"
  ga_kdc :: "string option"
  ga_max_time_skew :: "int option"

datatype listener_authentication =
    AuthTls
  | AuthScramSha512
  | AuthScramSha256
  | AuthOAuth oauth_config
  | AuthGssapi gssapi_config

record bootstrap_config =
  bc_node_port :: "int option"
  bc_load_balancer_ip :: "string option"
  bc_host :: "string option"
  bc_annotations :: "(string, string) bmap"
  bc_labels :: "(string, string) bmap"

record broker_override =
  bo_broker :: int
  bo_advertised_host :: "string option"
  bo_advertised_port :: "int option"
  bo_node_port :: "int option"
  bo_load_balancer_ip :: "string option"
  bo_host :: "string option"

record listener_configuration =
  lc_bootstrap :: "bootstrap_config option"
  lc_brokers :: "broker_override list"
  lc_ingress_class :: "string option"

text \<open>Selectors are copied into the rendered policy, so they stand for their serialized form.\<close>

text \<open>\<open>LabelSelector\<close> of the Kubernetes API: all labels and all expressions have to hold.\<close>

datatype selector_operator = LabelIn | LabelNotIn | LabelExists | LabelDoesNotExist

record selector_requirement =
  sr_key :: string
  sr_operator :: selector_operator
  sr_values :: "string list"

record label_selector =
  sel_match_labels :: "(string, string) bmap option"
  sel_match_expressions :: "selector_requirement list option"

record network_policy_peer =
  peer_pod_selector :: "label_selector option"
  peer_namespace_selector :: "label_selector option"

record listener =
  ls_name :: string
  ls_port :: int
  ls_type :: listener_type
  ls_tls :: bool
  ls_authentication :: "listener_authentication option"
  ls_configuration :: "listener_configuration option"
  ls_network_policy_peers :: "network_policy_peer list option"

section \<open>The operator listener\<close>

definition synthesized_default_listener :: listener where
  "synthesized_default_listener = \<lparr>ls_name = ''PLAIN'', ls_port = 9092, ls_type = Internal, ls_tls = False,
     ls_authentication = None, ls_configuration = None, ls_network_policy_peers = None\<rparr>"

function fresh_name :: "string list \<Rightarrow> string \<Rightarrow> string" where
  "fresh_name taken name = (if name \<in> set taken then fresh_name taken (name @ ''_'') else name)"
  by auto
termination
proof (relation "measure (\<lambda>(taken, name). length (filter (\<lambda>t. length name \<le> length t) taken))", goal_cases)
  case (2 taken name)
  have "filter (\<lambda>t. Suc (length name) \<le> length t) taken
      = filter (\<lambda>t. Suc (length name) \<le> length t) (filter (\<lambda>t. length name \<le> length t) taken)"
    by (simp add: filter_filter) (rule filter_cong, auto)
  also have "length \<dots> < length (filter (\<lambda>t. length name \<le> length t) taken)"
    using 2 by (intro length_filter_less[of name]) auto
  finally show ?case by simp
qed simp

declare fresh_name.simps [simp del]

definition reserved_ports :: "int list" where
  "reserved_ports = [9093, 9092]"

function fresh_port :: "int list \<Rightarrow> int \<Rightarrow> int" where
  "fresh_port taken port =
     (if port \<in> set reserved_ports \<or> port \<in> set taken then fresh_port taken (port + 1) else port)"
  by auto
termination
proof (relation "measure (\<lambda>(taken, port). length (filter (\<lambda>t. port \<le> t) (reserved_ports @ taken)))", goal_cases)
  case (2 taken port)
  have "filter (\<lambda>t. port + 1 \<le> t) (reserved_ports @ taken)
      = filter (\<lambda>t. port + 1 \<le> t) (filter (\<lambda>t. port \<le> t) (reserved_ports @ taken))"
    unfolding filter_filter by (rule filter_cong) auto
  also have "length \<dots> < length (filter (\<lambda>t. port \<le> t) (reserved_ports @ taken))"
    using 2 by (intro length_filter_less[of port]) auto
  finally show ?case by simp
qed simp

declare fresh_port.simps [simp del]

definition operator_listener :: "listener list \<Rightarrow> listener" where
  "operator_listener existing = \<lparr>ls_name = fresh_name (map ls_name existing) ''OPERATOR'',
     ls_port = fresh_port (map ls_port existing) 9091, ls_type = Internal, ls_tls = True,
     ls_authentication = Some AuthTls, ls_configuration = None, ls_network_policy_peers = None\<rparr>"

definition effective_inter_broker_listener_name :: "listener list \<Rightarrow> string option \<Rightarrow> string" where
  "effective_inter_broker_listener_name listeners explicit =
     (case explicit of
        Some s \<Rightarrow> s
      | None \<Rightarrow>
          if listeners = [] then ''PLAIN''
          else case find (\<lambda>l. ls_type l = Internal) listeners of None \<Rightarrow> ''PLAIN'' | Some l \<Rightarrow> ls_name l)"

record listener_status =
  lst_name :: string
  lst_type :: listener_type
  lst_bootstrap_servers :: string

record cluster_status =
  cst_conditions :: "kafka_condition list"
  cst_listeners :: "listener_status list"

text \<open>The part of the \<open>Kafka\<close> resource that topic reconciliation reads.\<close>

record cluster_view =
  cv_listeners :: "listener list"
  cv_inter_broker :: "string option"
  cv_status :: "cluster_status option"

definition ready_listener_bootstrap :: "cluster_view \<Rightarrow> (listener_status \<Rightarrow> bool) \<Rightarrow> string option" where
  "ready_listener_bootstrap kafka predicate =
     (let ready_true =
            (case Option.bind (cv_status kafka) (\<lambda>s. find (\<lambda>c. cond_type c = ''Ready'') (cst_conditions s)) of
               None \<Rightarrow> False | Some c \<Rightarrow> cond_status c = ''True'')
      in if \<not> ready_true then None
         else case cv_status kafka of
                None \<Rightarrow> None
              | Some s \<Rightarrow>
                  (case map_option lst_bootstrap_servers (find predicate (cst_listeners s)) of
                     None \<Rightarrow> None | Some b \<Rightarrow> if b \<noteq> [] then Some b else None))"

definition operator_listener_bootstrap :: "cluster_view \<Rightarrow> string option" where
  "operator_listener_bootstrap kafka =
     (let existing = (if cv_listeners kafka = [] then [synthesized_default_listener] else cv_listeners kafka);
          name = ls_name (operator_listener existing)
      in ready_listener_bootstrap kafka (\<lambda>l. lst_name l = name))"

definition internal_listener_bootstrap :: "cluster_view \<Rightarrow> string option" where
  "internal_listener_bootstrap kafka =
     (let name = effective_inter_broker_listener_name (cv_listeners kafka) (cv_inter_broker kafka)
      in ready_listener_bootstrap kafka (\<lambda>l. lst_type l = Internal \<and> lst_name l = name))"

section \<open>Protocols\<close>

datatype listener_protocol = Plaintext | Ssl | SaslPlaintext | SaslSsl

datatype sasl_mechanism = MechScramSha512 | MechScramSha256 | MechOAuthBearer | MechGssapi

text \<open>\<open>None\<close> is the \<open>unreachable!\<close> arm.\<close>

definition listener_protocol :: "listener \<Rightarrow> listener_protocol option" where
  "listener_protocol l =
     (case (ls_tls l, ls_authentication l) of
        (False, None) \<Rightarrow> Some Plaintext
      | (True, None) \<Rightarrow> Some Ssl
      | (True, Some AuthTls) \<Rightarrow> Some Ssl
      | (False, Some AuthTls) \<Rightarrow> None
      | (False, Some _) \<Rightarrow> Some SaslPlaintext
      | (True, Some _) \<Rightarrow> Some SaslSsl)"

definition sasl_mechanism :: "listener_authentication \<Rightarrow> sasl_mechanism option" where
  "sasl_mechanism auth =
     (case auth of
        AuthScramSha512 \<Rightarrow> Some MechScramSha512
      | AuthScramSha256 \<Rightarrow> Some MechScramSha256
      | AuthOAuth cfg \<Rightarrow> if oa_enable_oauth_bearer cfg then Some MechOAuthBearer else None
      | AuthGssapi _ \<Rightarrow> Some MechGssapi
      | AuthTls \<Rightarrow> None)"

section \<open>Validation\<close>

datatype validation_error =
    DuplicateListenerName string
  | DuplicateListenerPort int
  | ListenerIngressRequiresTls string
  | ListenerIngressBootstrapHostMissing string
  | DuplicateBrokerOverride string int
  | InterBrokerListenerMissing string
  | InterBrokerListenerNotInternal string
  | NoInternalListener
  | ListenerMtlsRequiresTransportTls string
  | ListenerOauthRequiresTransportTls string
  | ListenerOauthIssuerUriEmpty string
  | ListenerOauthJwksUriBadScheme string
  | ListenerOauthJwksRefreshTooSmall string "32 word"
  | ListenerOauthValidTokenTypeRejectedInIntrospectionMode string
  | ListenerOauthJwksFieldsRejectedInIntrospectionMode string
  | ConflictingOAuthListenerConfig
  | ListenerOauthAccessTokenIsJwtInvalid string
  | ListenerGssapiKeytabSecretMissing string
  | ListenerGssapiInvalidRule string
  | ConflictingGssapiListenerConfig
  | InterBrokerGssapiRequiresKerberosConfig string
  | OperatorPrincipalMayBeForged string

definition validation_reason :: "validation_error \<Rightarrow> string" where
  "validation_reason e =
     (case e of
        DuplicateListenerName _ \<Rightarrow> ''DuplicateListenerName''
      | DuplicateListenerPort _ \<Rightarrow> ''DuplicateListenerPort''
      | ListenerIngressRequiresTls _ \<Rightarrow> ''ListenerIngressRequiresTls''
      | ListenerIngressBootstrapHostMissing _ \<Rightarrow> ''ListenerIngressBootstrapHostMissing''
      | DuplicateBrokerOverride _ _ \<Rightarrow> ''DuplicateBrokerOverride''
      | InterBrokerListenerMissing _ \<Rightarrow> ''InterBrokerListenerMissing''
      | InterBrokerListenerNotInternal _ \<Rightarrow> ''InterBrokerListenerNotInternal''
      | NoInternalListener \<Rightarrow> ''NoInternalListener''
      | ListenerMtlsRequiresTransportTls _ \<Rightarrow> ''ListenerMtlsRequiresTransportTls''
      | ListenerOauthRequiresTransportTls _ \<Rightarrow> ''ListenerOauthRequiresTransportTls''
      | ListenerOauthIssuerUriEmpty _ \<Rightarrow> ''ListenerOauthInvalidUri''
      | ListenerOauthJwksUriBadScheme _ \<Rightarrow> ''ListenerOauthInvalidUri''
      | ListenerOauthJwksRefreshTooSmall _ _ \<Rightarrow> ''ListenerOauthInvalidRefresh''
      | ListenerOauthValidTokenTypeRejectedInIntrospectionMode _ \<Rightarrow> ''ListenerOauthValidTokenTypeRejectedInIntrospectionMode''
      | ListenerOauthJwksFieldsRejectedInIntrospectionMode _ \<Rightarrow> ''ListenerOauthJwksFieldsRejectedInIntrospectionMode''
      | ConflictingOAuthListenerConfig \<Rightarrow> ''ConflictingOAuthConfig''
      | ListenerOauthAccessTokenIsJwtInvalid _ \<Rightarrow> ''ListenerOauthAccessTokenIsJwtInvalid''
      | ListenerGssapiKeytabSecretMissing _ \<Rightarrow> ''ListenerGssapiKeytabSecretMissing''
      | ListenerGssapiInvalidRule _ \<Rightarrow> ''ListenerGssapiInvalidRule''
      | ConflictingGssapiListenerConfig \<Rightarrow> ''ListenerGssapiConfigConflict''
      | InterBrokerGssapiRequiresKerberosConfig _ \<Rightarrow> ''InterBrokerGssapiRequiresKerberosConfig''
      | OperatorPrincipalMayBeForged _ \<Rightarrow> ''OperatorPrincipalMayBeForged'')"

definition about_listener :: "string \<Rightarrow> string \<Rightarrow> string" where
  "about_listener name text = ''listener '' @ [CHR 0x27] @ name @ [CHR 0x27] @ text"

definition quote_name :: "string \<Rightarrow> string" where
  "quote_name s = [CHR 0x27] @ s @ [CHR 0x27]"

definition validation_message :: "validation_error \<Rightarrow> string" where
  "validation_message e =
     (case e of
        DuplicateListenerName n \<Rightarrow> ''listener name '' @ quote_name n @ '' is used more than once''
      | DuplicateListenerPort p \<Rightarrow> ''listener port '' @ int_to_string p @ '' is used more than once''
      | ListenerIngressRequiresTls n \<Rightarrow>
          about_listener n '': type=ingress/route requires tls: true (SNI-passthrough routing needs TLS)''
      | ListenerIngressBootstrapHostMissing n \<Rightarrow> about_listener n '': type=ingress/route requires configuration.bootstrap.host''
      | DuplicateBrokerOverride n b \<Rightarrow>
          about_listener n ('' has duplicate configuration.brokers entries for broker '' @ int_to_string b)
      | InterBrokerListenerMissing n \<Rightarrow> ''spec.interBrokerListenerName='' @ quote_name n @ '' does not match any listener''
      | InterBrokerListenerNotInternal n \<Rightarrow> ''spec.interBrokerListenerName='' @ quote_name n @ '' points to a non-internal listener''
      | NoInternalListener \<Rightarrow> ''spec.listeners is non-empty but contains no internal-type listener''
      | ListenerMtlsRequiresTransportTls n \<Rightarrow> about_listener n '': authentication.type=tls requires tls: true''
      | ListenerOauthRequiresTransportTls n \<Rightarrow> about_listener n '': authentication.type=oauth requires tls: true''
      | ListenerOauthIssuerUriEmpty n \<Rightarrow> about_listener n '': authentication.oauth.validIssuerUri is required''
      | ListenerOauthJwksUriBadScheme n \<Rightarrow> about_listener n '': authentication.oauth.jwksEndpointUri must be http:// or https://''
      | ListenerOauthJwksRefreshTooSmall n got \<Rightarrow>
          about_listener n ('': authentication.oauth.jwksRefreshSeconds must be >= 30 (got '' @ print_word got @ '')'')
      | ListenerOauthValidTokenTypeRejectedInIntrospectionMode m \<Rightarrow> m
      | ListenerOauthJwksFieldsRejectedInIntrospectionMode m \<Rightarrow> m
      | ConflictingOAuthListenerConfig \<Rightarrow>
          ''all OAuth listeners must share identical config (the broker oauthbearer block is broker-global)''
      | ListenerOauthAccessTokenIsJwtInvalid m \<Rightarrow> m
      | ListenerGssapiKeytabSecretMissing n \<Rightarrow>
          about_listener n '': authentication.type=gssapi requires keytabSecretRef.secretName and .key''
      | ListenerGssapiInvalidRule m \<Rightarrow> m
      | ConflictingGssapiListenerConfig \<Rightarrow>
          ''all GSSAPI listeners must share identical config (the broker [gssapi] block is broker-global)''
      | InterBrokerGssapiRequiresKerberosConfig n \<Rightarrow>
          ''interBrokerListenerName='' @ quote_name n @ '' is type=gssapi but spec.interBrokerKerberos is not set''
      | OperatorPrincipalMayBeForged n \<Rightarrow>
          about_listener n '': oauth/gssapi cannot be combined with authorization because broker super-user principals are not listener-scoped'')"

definition oauth_of :: "listener \<Rightarrow> oauth_config option" where
  "oauth_of l = (case ls_authentication l of Some (AuthOAuth cfg) \<Rightarrow> Some cfg | _ \<Rightarrow> None)"

definition gssapi_of :: "listener \<Rightarrow> gssapi_config option" where
  "gssapi_of l = (case ls_authentication l of Some (AuthGssapi cfg) \<Rightarrow> Some cfg | _ \<Rightarrow> None)"

definition validate_operator_principal_isolation :: "listener list \<Rightarrow> bool \<Rightarrow> validation_error + unit" where
  "validate_operator_principal_isolation listeners authorization_enabled =
     (if \<not> authorization_enabled then Inr ()
      else case find (\<lambda>l. oauth_of l \<noteq> None \<or> gssapi_of l \<noteq> None) listeners of
             Some l \<Rightarrow> Inl (OperatorPrincipalMayBeForged (ls_name l)) | None \<Rightarrow> Inr ())"

definition oauth_canonical :: "oauth_config \<Rightarrow> oauth_config" where
  "oauth_canonical cfg = cfg\<lparr>oa_enable_oauth_bearer := True\<rparr>"

fun validate_against :: "listener list \<Rightarrow> listener \<Rightarrow> validation_error + unit" where
  "validate_against [] l = Inr ()"
| "validate_against (prior # rest) l =
     (if ls_name prior = ls_name l then Inl (DuplicateListenerName (ls_name l))
      else if ls_port prior = ls_port l then Inl (DuplicateListenerPort (ls_port l))
      else validate_against rest l)"

fun validate_unique_from :: "listener list \<Rightarrow> listener list \<Rightarrow> validation_error + unit" where
  "validate_unique_from priors [] = Inr ()"
| "validate_unique_from priors (l # ls) =
     bind_result (validate_against priors l) (\<lambda>_. validate_unique_from (priors @ [l]) ls)"

definition validate_unique_listeners :: "listener list \<Rightarrow> validation_error + unit" where
  "validate_unique_listeners listeners = validate_unique_from [] listeners"

definition validate_gssapi_listener :: "(string \<Rightarrow> bool) \<Rightarrow> listener \<Rightarrow> gssapi_config \<Rightarrow> validation_error + unit" where
  "validate_gssapi_listener rule_ok l config =
     bind_result (require (si_secret_name (ga_keytab_secret_ref config) \<noteq> [] \<and> si_key (ga_keytab_secret_ref config) \<noteq> [])
         (ListenerGssapiKeytabSecretMissing (ls_name l))) (\<lambda>_.
       each_ok (\<lambda>spec. require (rule_ok spec)
           (ListenerGssapiInvalidRule (about_listener (ls_name l) ('': invalid principalToLocalRules entry '' @ debug_str spec))))
         (ga_principal_to_local_rules config))"

text \<open>The rules for signed tokens and for introspection exclude each other's fields.\<close>

definition jwks_fields_set :: "oauth_config \<Rightarrow> string list" where
  "jwks_fields_set cfg =
     (if oa_jwks_min_refresh_pause_seconds cfg \<noteq> None then [''jwksMinRefreshPauseSeconds''] else [])
     @ (if oa_jwks_expiry_seconds cfg \<noteq> None then [''jwksExpirySeconds''] else [])
     @ (if oa_jwks_ignore_key_use cfg \<noteq> None then [''jwksIgnoreKeyUse''] else [])"

definition validate_oauth_mode :: "string \<Rightarrow> oauth_config \<Rightarrow> validation_error + unit" where
  "validate_oauth_mode name cfg =
     (let invalid = (\<lambda>text. ListenerOauthAccessTokenIsJwtInvalid (about_listener name text))
      in if oa_access_token_is_jwt cfg then
           bind_result (require (oa_jwks_endpoint_uri cfg \<noteq> None) (invalid '': accessTokenIsJwt=true requires jwksEndpointUri'')) (\<lambda>_.
             require (oa_introspection_endpoint_uri cfg = None \<and> oa_user_info_endpoint_uri cfg = None
                 \<and> oa_client_id cfg = None \<and> oa_client_secret cfg = None \<and> oa_introspection_http_timeout_seconds cfg = None)
               (invalid '': accessTokenIsJwt=true forbids introspection-mode fields (introspectionEndpointUri/userInfoEndpointUri/clientId/clientSecret/introspectionHttpTimeoutSeconds)''))
         else
           bind_result (require (oa_jwks_endpoint_uri cfg = None) (invalid '': accessTokenIsJwt=false forbids jwksEndpointUri'')) (\<lambda>_.
           bind_result (require (oa_introspection_endpoint_uri cfg \<noteq> None) (invalid '': accessTokenIsJwt=false requires introspectionEndpointUri'')) (\<lambda>_.
           bind_result (require (oa_client_id cfg \<noteq> None) (invalid '': accessTokenIsJwt=false requires clientId'')) (\<lambda>_.
           bind_result (require (oa_client_secret cfg \<noteq> None) (invalid '': accessTokenIsJwt=false requires clientSecret'')) (\<lambda>_.
           bind_result (require (oa_valid_token_type cfg = None)
               (ListenerOauthValidTokenTypeRejectedInIntrospectionMode
                 (about_listener name '': accessTokenIsJwt=false forbids validTokenType (no JWT header in introspection responses)''))) (\<lambda>_.
             require (jwks_fields_set cfg = [])
               (ListenerOauthJwksFieldsRejectedInIntrospectionMode
                 (about_listener name ('': accessTokenIsJwt=false forbids JWKS-only fields ('' @ join_with '', '' (jwks_fields_set cfg) @ '')'')))))))))"

definition validate_oauth_listener :: "listener \<Rightarrow> oauth_config \<Rightarrow> validation_error + unit" where
  "validate_oauth_listener l cfg =
     bind_result (require (ls_tls l) (ListenerOauthRequiresTransportTls (ls_name l))) (\<lambda>_.
     bind_result (validate_oauth_mode (ls_name l) cfg) (\<lambda>_.
     bind_result (require (oa_valid_issuer_uri cfg \<noteq> []) (ListenerOauthIssuerUriEmpty (ls_name l))) (\<lambda>_.
     bind_result (case oa_jwks_endpoint_uri cfg of
         Some uri \<Rightarrow> require (starts_with ''http://'' uri \<or> starts_with ''https://'' uri) (ListenerOauthJwksUriBadScheme (ls_name l))
       | None \<Rightarrow> Inr ()) (\<lambda>_.
     case oa_jwks_refresh_seconds cfg of
         Some s \<Rightarrow> require (30 \<le> s) (ListenerOauthJwksRefreshTooSmall (ls_name l) s)
       | None \<Rightarrow> Inr ()))))"

definition bootstrap_host :: "listener \<Rightarrow> string option" where
  "bootstrap_host l = Option.bind (ls_configuration l) (\<lambda>c. Option.bind (lc_bootstrap c) bc_host)"

definition validate_exposure :: "listener \<Rightarrow> validation_error + unit" where
  "validate_exposure l =
     (if ls_type l = Ingress \<or> ls_type l = Route then
        bind_result (require (ls_tls l) (ListenerIngressRequiresTls (ls_name l))) (\<lambda>_.
          require (bootstrap_host l \<noteq> None) (ListenerIngressBootstrapHostMissing (ls_name l)))
      else Inr ())"

definition validate_overrides :: "listener \<Rightarrow> validation_error + unit" where
  "validate_overrides l =
     (case ls_configuration l of
        None \<Rightarrow> Inr ()
      | Some cfg \<Rightarrow>
          (case first_repeated [] (map bo_broker (lc_brokers cfg)) of
             Some broker \<Rightarrow> Inl (DuplicateBrokerOverride (ls_name l) broker) | None \<Rightarrow> Inr ()))"

definition validate_listener :: "(string \<Rightarrow> bool) \<Rightarrow> listener \<Rightarrow> validation_error + unit" where
  "validate_listener rule_ok l =
     bind_result (require (\<not> (ls_authentication l = Some AuthTls \<and> \<not> ls_tls l)) (ListenerMtlsRequiresTransportTls (ls_name l))) (\<lambda>_.
     bind_result (case oauth_of l of Some cfg \<Rightarrow> validate_oauth_listener l cfg | None \<Rightarrow> Inr ()) (\<lambda>_.
     bind_result (case gssapi_of l of Some cfg \<Rightarrow> validate_gssapi_listener rule_ok l cfg | None \<Rightarrow> Inr ()) (\<lambda>_.
     bind_result (validate_exposure l) (\<lambda>_. validate_overrides l))))"

definition distinct_oauth :: "listener list \<Rightarrow> oauth_config list" where
  "distinct_oauth listeners =
     fold (\<lambda>c acc. if c \<in> set acc then acc else acc @ [c]) (map oauth_canonical (List.map_filter oauth_of listeners)) []"

fun gssapi_agree :: "gssapi_config option \<Rightarrow> gssapi_config list \<Rightarrow> bool" where
  "gssapi_agree prev [] \<longleftrightarrow> True"
| "gssapi_agree None (c # cs) \<longleftrightarrow> gssapi_agree (Some c) cs"
| "gssapi_agree (Some prev) (c # cs) \<longleftrightarrow> prev = c \<and> gssapi_agree (Some prev) cs"

definition validate_inter_broker :: "listener list \<Rightarrow> string option \<Rightarrow> validation_error + unit" where
  "validate_inter_broker listeners inter_broker_listener_name =
     (if listeners = [] then Inr ()
      else bind_result (require (list_ex (\<lambda>l. ls_type l = Internal) listeners) NoInternalListener) (\<lambda>_.
        case inter_broker_listener_name of
          None \<Rightarrow> Inr ()
        | Some name \<Rightarrow>
            (case find (\<lambda>l. ls_name l = name) listeners of
               None \<Rightarrow> Inl (InterBrokerListenerMissing name)
             | Some l \<Rightarrow> require (ls_type l = Internal) (InterBrokerListenerNotInternal name))))"

definition validate_listeners :: "(string \<Rightarrow> bool) \<Rightarrow> listener list \<Rightarrow> string option \<Rightarrow> validation_error + unit" where
  "validate_listeners rule_ok listeners inter_broker_listener_name =
     bind_result (validate_unique_listeners listeners) (\<lambda>_.
     bind_result (each_ok (validate_listener rule_ok) listeners) (\<lambda>_.
     bind_result (require (length (distinct_oauth listeners) \<le> 1) ConflictingOAuthListenerConfig) (\<lambda>_.
     bind_result (require (gssapi_agree None (List.map_filter gssapi_of listeners)) ConflictingGssapiListenerConfig) (\<lambda>_.
       validate_inter_broker listeners inter_broker_listener_name))))"

definition validate_inter_broker_gssapi :: "listener list \<Rightarrow> string \<Rightarrow> bool \<Rightarrow> validation_error + unit" where
  "validate_inter_broker_gssapi listeners name ib_kerberos_present =
     require (\<not> (list_ex (\<lambda>l. ls_name l = name \<and> gssapi_of l \<noteq> None) listeners \<and> \<not> ib_kerberos_present))
       (InterBrokerGssapiRequiresKerberosConfig name)"

definition weak_auth_warnings :: "listener list \<Rightarrow> string list" where
  "weak_auth_warnings listeners =
     map (\<lambda>l. about_listener (ls_name l) '' has SCRAM auth without transport TLS; credentials traverse the network in cleartext during the SCRAM exchange. Consider tls: true.'')
       (filter (\<lambda>l. \<not> ls_tls l \<and> ls_authentication l \<in> {Some AuthScramSha512, Some AuthScramSha256}) listeners)
     @ List.map_filter (\<lambda>l. case Option.bind (oauth_of l) oa_jwks_endpoint_uri of
           Some uri \<Rightarrow> if starts_with ''http://'' uri
             then Some (about_listener (ls_name l) '' has http:// JWKS endpoint; key material traverses the network in cleartext. Consider https.'')
             else None
         | None \<Rightarrow> None) listeners"

text \<open>\<open>controller/kafka.rs\<close> takes the broker-wide settings from the first listener that has them.\<close>

definition canonical_oauth_config :: "listener list \<Rightarrow> oauth_config option" where
  "canonical_oauth_config listeners = (case List.map_filter oauth_of listeners of [] \<Rightarrow> None | c # _ \<Rightarrow> Some c)"

definition canonical_gssapi_config :: "listener list \<Rightarrow> gssapi_config option" where
  "canonical_gssapi_config listeners = (case List.map_filter gssapi_of listeners of [] \<Rightarrow> None | c # _ \<Rightarrow> Some c)"

section \<open>What validation accepts\<close>

lemma validate_against_Inr:
  "validate_against priors l = Inr u \<longleftrightarrow> ls_name l \<notin> ls_name ` set priors \<and> ls_port l \<notin> ls_port ` set priors"
  by (induction priors) auto

lemma validate_unique_from_Inr:
  "validate_unique_from priors ls = Inr u \<longleftrightarrow>
     distinct (map ls_name ls) \<and> distinct (map ls_port ls)
     \<and> ls_name ` set ls \<inter> ls_name ` set priors = {} \<and> ls_port ` set ls \<inter> ls_port ` set priors = {}"
  by (induction ls arbitrary: priors) (auto simp: bind_result_Inr validate_against_Inr)

lemma validate_unique_listeners_Inr:
  "validate_unique_listeners ls = Inr u \<longleftrightarrow> distinct (map ls_name ls) \<and> distinct (map ls_port ls)"
  by (simp add: validate_unique_listeners_def validate_unique_from_Inr)

lemma distinct_accumulated:
  "distinct acc \<Longrightarrow> distinct (fold (\<lambda>c acc. if c \<in> set acc then acc else acc @ [c]) xs acc)
     \<and> set (fold (\<lambda>c acc. if c \<in> set acc then acc else acc @ [c]) xs acc) = set acc \<union> set xs"
  by (induction xs arbitrary: acc) auto

lemma at_most_one: "distinct xs \<Longrightarrow> length xs \<le> Suc 0 \<longleftrightarrow> (\<forall>x \<in> set xs. \<forall>y \<in> set xs. x = y)"
  by (cases xs; cases "tl xs") auto

lemma set_map_filter_Some: "set (List.map_filter f xs) = {y. \<exists>x \<in> set xs. f x = Some y}"
  by (induction xs) (auto simp: List.map_filter_def)

lemma distinct_oauth_iff:
  "length (distinct_oauth ls) \<le> 1 \<longleftrightarrow>
     (\<forall>l \<in> set ls. \<forall>k \<in> set ls. \<forall>c d. oauth_of l = Some c \<and> oauth_of k = Some d \<longrightarrow> oauth_canonical c = oauth_canonical d)"
proof -
  let ?cs = "map oauth_canonical (List.map_filter oauth_of ls)"
  from distinct_accumulated[of "[]" ?cs]
  have "distinct (distinct_oauth ls)" "set (distinct_oauth ls) = set ?cs" by (simp_all add: distinct_oauth_def)
  then have "length (distinct_oauth ls) \<le> 1 \<longleftrightarrow> (\<forall>x \<in> set ?cs. \<forall>y \<in> set ?cs. x = y)"
    using at_most_one[of "distinct_oauth ls"] by simp
  then show ?thesis by (simp only: set_map set_map_filter_Some) blast
qed

lemma gssapi_agree_iff:
  "gssapi_agree prev cs \<longleftrightarrow> (\<forall>c \<in> set cs. \<forall>d \<in> set cs. c = d) \<and> (\<forall>p. prev = Some p \<longrightarrow> (\<forall>c \<in> set cs. c = p))"
  by (induction prev cs rule: gssapi_agree.induct) auto

definition oauth_mode_ok :: "oauth_config \<Rightarrow> bool" where
  "oauth_mode_ok cfg \<longleftrightarrow>
     (if oa_access_token_is_jwt cfg
      then oa_jwks_endpoint_uri cfg \<noteq> None \<and> oa_introspection_endpoint_uri cfg = None \<and> oa_user_info_endpoint_uri cfg = None
        \<and> oa_client_id cfg = None \<and> oa_client_secret cfg = None \<and> oa_introspection_http_timeout_seconds cfg = None
      else oa_jwks_endpoint_uri cfg = None \<and> oa_introspection_endpoint_uri cfg \<noteq> None \<and> oa_client_id cfg \<noteq> None
        \<and> oa_client_secret cfg \<noteq> None \<and> oa_valid_token_type cfg = None \<and> oa_jwks_min_refresh_pause_seconds cfg = None
        \<and> oa_jwks_expiry_seconds cfg = None \<and> oa_jwks_ignore_key_use cfg = None)"

lemma validate_oauth_mode_Inr: "validate_oauth_mode name cfg = Inr u \<longleftrightarrow> oauth_mode_ok cfg"
  by (cases "oa_access_token_is_jwt cfg")
    (simp_all add: validate_oauth_mode_def oauth_mode_ok_def bind_result_Inr jwks_fields_set_def Let_def del: not_None_eq)

definition oauth_ok :: "listener \<Rightarrow> oauth_config \<Rightarrow> bool" where
  "oauth_ok l cfg \<longleftrightarrow> ls_tls l \<and> oauth_mode_ok cfg \<and> oa_valid_issuer_uri cfg \<noteq> []
     \<and> (\<forall>uri. oa_jwks_endpoint_uri cfg = Some uri \<longrightarrow> starts_with ''http://'' uri \<or> starts_with ''https://'' uri)
     \<and> (\<forall>s. oa_jwks_refresh_seconds cfg = Some s \<longrightarrow> 30 \<le> s)"

definition gssapi_ok :: "(string \<Rightarrow> bool) \<Rightarrow> gssapi_config \<Rightarrow> bool" where
  "gssapi_ok rule_ok cfg \<longleftrightarrow> si_secret_name (ga_keytab_secret_ref cfg) \<noteq> []
     \<and> si_key (ga_keytab_secret_ref cfg) \<noteq> [] \<and> (\<forall>r \<in> set (ga_principal_to_local_rules cfg). rule_ok r)"

definition exposure_ok :: "listener \<Rightarrow> bool" where
  "exposure_ok l \<longleftrightarrow> (ls_type l \<in> {Ingress, Route} \<longrightarrow> ls_tls l \<and> bootstrap_host l \<noteq> None)"

definition overrides_ok :: "listener \<Rightarrow> bool" where
  "overrides_ok l \<longleftrightarrow> (\<forall>cfg. ls_configuration l = Some cfg \<longrightarrow> distinct (map bo_broker (lc_brokers cfg)))"

definition listener_ok :: "(string \<Rightarrow> bool) \<Rightarrow> listener \<Rightarrow> bool" where
  "listener_ok rule_ok l \<longleftrightarrow>
     (ls_authentication l = Some AuthTls \<longrightarrow> ls_tls l)
     \<and> (\<forall>cfg. oauth_of l = Some cfg \<longrightarrow> oauth_ok l cfg)
     \<and> (\<forall>cfg. gssapi_of l = Some cfg \<longrightarrow> gssapi_ok rule_ok cfg)
     \<and> exposure_ok l \<and> overrides_ok l"

lemma optional_check: "(case x of Some c \<Rightarrow> f c | None \<Rightarrow> Inr ()) = Inr u \<longleftrightarrow> (\<forall>c. x = Some c \<longrightarrow> f c = Inr ())"
  by (cases x) auto

lemma validate_oauth_listener_Inr: "validate_oauth_listener l cfg = Inr u \<longleftrightarrow> oauth_ok l cfg"
  by (auto simp: validate_oauth_listener_def oauth_ok_def bind_result_Inr validate_oauth_mode_Inr optional_check)

lemma validate_gssapi_listener_Inr: "validate_gssapi_listener rule_ok l cfg = Inr u \<longleftrightarrow> gssapi_ok rule_ok cfg"
  by (auto simp: validate_gssapi_listener_def gssapi_ok_def bind_result_Inr)

lemma validate_exposure_Inr: "validate_exposure l = Inr u \<longleftrightarrow> exposure_ok l"
  by (auto simp: validate_exposure_def exposure_ok_def bind_result_Inr)

lemma validate_overrides_Inr: "validate_overrides l = Inr u \<longleftrightarrow> overrides_ok l"
proof (cases "ls_configuration l")
  case (Some cfg)
  have "(case x of Some broker \<Rightarrow> Inl (e broker) | None \<Rightarrow> Inr ()) = Inr u \<longleftrightarrow> x = None" for x :: "int option" and e :: "int \<Rightarrow> validation_error"
    by (cases x) auto
  with Some show ?thesis by (simp add: validate_overrides_def overrides_ok_def)
qed (simp add: validate_overrides_def overrides_ok_def)

lemma validate_listener_Inr: "validate_listener rule_ok l = Inr u \<longleftrightarrow> listener_ok rule_ok l"
  unfolding validate_listener_def listener_ok_def
  by (simp add: bind_result_Inr optional_check validate_oauth_listener_Inr validate_gssapi_listener_Inr
      validate_exposure_Inr validate_overrides_Inr)

lemma find_SomeD: "find P xs = Some x \<Longrightarrow> x \<in> set xs \<and> P x"
  by (induction xs) (auto split: if_splits)

lemma find_by_name:
  assumes "distinct (map ls_name ls)"
  shows "find (\<lambda>l. ls_name l = n) ls = Some l \<longleftrightarrow> l \<in> set ls \<and> ls_name l = n"
  using assms by (induction ls) auto

lemma named_internal:
  assumes "distinct (map ls_name ls)"
  shows "(case find (\<lambda>l. ls_name l = n) ls of
            None \<Rightarrow> Inl e | Some l \<Rightarrow> require (ls_type l = Internal) e') = Inr u
     \<longleftrightarrow> (\<exists>l \<in> set ls. ls_name l = n \<and> ls_type l = Internal)"
proof (cases "find (\<lambda>l. ls_name l = n) ls")
  case None
  then have "\<not> (\<exists>l \<in> set ls. ls_name l = n)" by (auto simp: find_None_iff)
  with None show ?thesis by auto
next
  case (Some l)
  then have "k = l" if "k \<in> set ls" "ls_name k = n" for k
    using find_by_name[OF assms, of n k] that by simp
  moreover have "l \<in> set ls" "ls_name l = n" using Some find_by_name[OF assms, of n l] by simp_all
  ultimately have "(\<exists>k \<in> set ls. ls_name k = n \<and> ls_type k = Internal) \<longleftrightarrow> ls_type l = Internal" by blast
  with Some show ?thesis by simp
qed

lemma validate_inter_broker_Inr:
  assumes "distinct (map ls_name ls)"
  shows "validate_inter_broker ls ib = Inr u \<longleftrightarrow>
    ls = [] \<or> ((\<exists>l \<in> set ls. ls_type l = Internal)
      \<and> (\<forall>n. ib = Some n \<longrightarrow> (\<exists>l \<in> set ls. ls_name l = n \<and> ls_type l = Internal)))"
  by (cases ib) (auto simp: validate_inter_broker_def bind_result_Inr list_ex_iff named_internal[OF assms])

lemma validate_listeners_iff:
  "validate_listeners rule_ok ls ib = Inr u \<longleftrightarrow>
     distinct (map ls_name ls) \<and> distinct (map ls_port ls) \<and> (\<forall>l \<in> set ls. listener_ok rule_ok l)
     \<and> (\<forall>l \<in> set ls. \<forall>k \<in> set ls. \<forall>c d. oauth_of l = Some c \<and> oauth_of k = Some d \<longrightarrow> oauth_canonical c = oauth_canonical d)
     \<and> (\<forall>l \<in> set ls. \<forall>k \<in> set ls. \<forall>c d. gssapi_of l = Some c \<and> gssapi_of k = Some d \<longrightarrow> c = d)
     \<and> (ls = [] \<or> ((\<exists>l \<in> set ls. ls_type l = Internal)
          \<and> (\<forall>n. ib = Some n \<longrightarrow> (\<exists>l \<in> set ls. ls_name l = n \<and> ls_type l = Internal))))"
proof -
  have gss: "gssapi_agree None (List.map_filter gssapi_of ls)
      \<longleftrightarrow> (\<forall>l \<in> set ls. \<forall>k \<in> set ls. \<forall>c d. gssapi_of l = Some c \<and> gssapi_of k = Some d \<longrightarrow> c = d)"
    unfolding gssapi_agree_iff by (simp only: set_map_filter_Some) blast
  show ?thesis
    unfolding validate_listeners_def bind_result_Inr require_Inr validate_unique_listeners_Inr each_ok_Inr
      validate_listener_Inr distinct_oauth_iff gss
    using validate_inter_broker_Inr[of ls ib u] by blast
qed

section \<open>Freshness of the operator listener\<close>

lemma fresh_name_fresh: "fresh_name taken name \<notin> set taken"
  by (induction taken name rule: fresh_name.induct) (subst fresh_name.simps, simp)

lemma fresh_name_prefix: "\<exists>n. fresh_name taken name = name @ replicate n CHR ''_''"
proof (induction taken name rule: fresh_name.induct)
  case (1 taken name)
  show ?case
  proof (cases "name \<in> set taken")
    case True
    with 1 obtain n where "fresh_name taken (name @ ''_'') = name @ CHR ''_'' # replicate n CHR ''_''" by auto
    with True show ?thesis by (subst fresh_name.simps) (metis replicate_Suc)
  next
    case False
    then show ?thesis by (subst fresh_name.simps) (simp add: exI[of _ 0])
  qed
qed

lemma fresh_port_fresh: "fresh_port taken port \<notin> set reserved_ports \<union> set taken"
  by (induction taken port rule: fresh_port.induct) (subst fresh_port.simps, simp)

lemma fresh_port_bounds:
  "port \<le> fresh_port taken port
   \<and> fresh_port taken port \<le> port + int (length (filter (\<lambda>t. port \<le> t) (reserved_ports @ taken)))"
proof (induction taken port rule: fresh_port.induct)
  case (1 taken port)
  show ?case
  proof (cases "port \<in> set (reserved_ports @ taken)")
    case True
    let ?n = "\<lambda>q. length (filter (\<lambda>t. q \<le> t) (reserved_ports @ taken))"
    have "filter (\<lambda>t. port + 1 \<le> t) (reserved_ports @ taken)
        = filter (\<lambda>t. port + 1 \<le> t) (filter (\<lambda>t. port \<le> t) (reserved_ports @ taken))"
      unfolding filter_filter by (rule filter_cong) auto
    also have "length \<dots> < ?n port"
      using True by (intro length_filter_less[of port]) auto
    finally have less: "?n (port + 1) < ?n port" .
    from True 1 have "port + 1 \<le> fresh_port taken (port + 1)"
      "fresh_port taken (port + 1) \<le> port + 1 + int (?n (port + 1))" by auto
    moreover have "fresh_port taken port = fresh_port taken (port + 1)"
      using True by (subst fresh_port.simps) auto
    ultimately show ?thesis using less by linarith
  next
    case False
    then show ?thesis by (subst (1 2) fresh_port.simps) auto
  qed
qed

text \<open>C29: The reserved listener of the operator never collides with a listener of the
  cluster or with the controller and broker ports, whatever listeners the user declares: its name is
  \<open>OPERATOR\<close> followed by underscores and is taken by no listener, its port is free, at least
  9091 and at most two more than 9091 plus the number of listeners (so the 32-bit port does not
  overflow), and it is internal and encrypted.\<close>

theorem operator_listener_fresh:
  "ls_name (operator_listener ls) \<notin> ls_name ` set ls
   \<and> (\<exists>n. ls_name (operator_listener ls) = ''OPERATOR'' @ replicate n CHR ''_'')
   \<and> ls_port (operator_listener ls) \<notin> ls_port ` set ls \<union> {9092, 9093}
   \<and> 9091 \<le> ls_port (operator_listener ls) \<and> ls_port (operator_listener ls) \<le> 9093 + int (length ls)
   \<and> ls_type (operator_listener ls) = Internal \<and> ls_tls (operator_listener ls)"
proof -
  have "length (filter (\<lambda>t. 9091 \<le> t) (reserved_ports @ map ls_port ls)) \<le> length (reserved_ports @ map ls_port ls)"
    by (rule length_filter_le)
  also have "\<dots> = 2 + length ls" by (simp add: reserved_ports_def)
  finally have "fresh_port (map ls_port ls) 9091 \<le> 9093 + int (length ls)"
    using fresh_port_bounds[of 9091 "map ls_port ls"] by linarith
  then show ?thesis
    using fresh_name_fresh[of "map ls_name ls" "''OPERATOR''"] fresh_name_prefix[of "map ls_name ls" "''OPERATOR''"]
      fresh_port_fresh[of "map ls_port ls" 9091] fresh_port_bounds[of 9091 "map ls_port ls"]
    by (auto simp: operator_listener_def reserved_ports_def)
qed

section \<open>What validated listeners guarantee\<close>

text \<open>C25: What listener validation accepts: exactly the lists in which names and ports are unique, every listener
  is well formed by itself (client certificates, OAuth tokens and SNI routing only over TLS; a bootstrap host for
  ingresses and routes; OAuth fields of one mode only, with a usable endpoint and refresh interval; a keytab and
  parsable name rules for Kerberos; one override per broker), all OAuth listeners agree up to whether they offer the
  mechanism, all Kerberos listeners agree, and a non-empty list has an internal listener and names an internal one,
  if any, for the traffic between brokers.\<close>

theorem listeners_accepted_iff:
  "validate_listeners rule_ok ls ib = Inr () \<longleftrightarrow>
     distinct (map ls_name ls) \<and> distinct (map ls_port ls) \<and> (\<forall>l \<in> set ls. listener_ok rule_ok l)
     \<and> (\<forall>l \<in> set ls. \<forall>k \<in> set ls. \<forall>c d. oauth_of l = Some c \<and> oauth_of k = Some d \<longrightarrow> oauth_canonical c = oauth_canonical d)
     \<and> (\<forall>l \<in> set ls. \<forall>k \<in> set ls. \<forall>c d. gssapi_of l = Some c \<and> gssapi_of k = Some d \<longrightarrow> c = d)
     \<and> (ls = [] \<or> ((\<exists>l \<in> set ls. ls_type l = Internal)
          \<and> (\<forall>n. ib = Some n \<longrightarrow> (\<exists>l \<in> set ls. ls_name l = n \<and> ls_type l = Internal))))"
  by (rule validate_listeners_iff)

lemma map_filter_first:
  "x \<in> set xs \<Longrightarrow> f x = Some y \<Longrightarrow> \<exists>z \<in> set xs. \<exists>c cs. f z = Some c \<and> List.map_filter f xs = c # cs"
  by (induction xs) (auto simp: List.map_filter_def split: option.splits)

lemma effective_name_internal:
  assumes "validate_listeners rule_ok ls ib = Inr ()" "ls \<noteq> []"
  shows "\<exists>l \<in> set ls. ls_name l = effective_inter_broker_listener_name ls ib \<and> ls_type l = Internal"
proof (cases ib)
  case None
  from assms have "\<exists>l \<in> set ls. ls_type l = Internal" by (simp add: validate_listeners_iff)
  then obtain l where "find (\<lambda>l. ls_type l = Internal) ls = Some l"
    by (cases "find (\<lambda>l. ls_type l = Internal) ls") (auto simp: find_None_iff)
  with None assms(2) find_SomeD[OF this] show ?thesis
    by (auto simp: effective_inter_broker_listener_name_def)
next
  case (Some n)
  with assms show ?thesis by (auto simp: validate_listeners_iff effective_inter_broker_listener_name_def)
qed

text \<open>The code behind validation relies on it. In an accepted list every listener has a protocol (the
  \<open>unreachable!\<close> arm of \<open>listener_protocol\<close> is), OAuth tokens only travel over SASL_SSL, the broker-wide
  OAuth and Kerberos settings, which are taken from the first such listener, are those of every other one up to
  whether it offers the mechanism, and the effective inter-broker listener exists and is internal.\<close>

theorem validated_listeners_typed:
  assumes "validate_listeners rule_ok ls ib = Inr ()" "ls \<noteq> []"
  shows "(\<forall>l \<in> set ls. listener_protocol l \<noteq> None)
    \<and> (\<forall>l \<in> set ls. \<forall>c. oauth_of l = Some c \<longrightarrow> listener_protocol l = Some SaslSsl
         \<and> map_option oauth_canonical (canonical_oauth_config ls) = Some (oauth_canonical c))
    \<and> (\<forall>l \<in> set ls. \<forall>c. gssapi_of l = Some c \<longrightarrow> canonical_gssapi_config ls = Some c)
    \<and> (\<exists>l \<in> set ls. ls_name l = effective_inter_broker_listener_name ls ib \<and> ls_type l = Internal)"
proof (intro conjI ballI allI impI)
  note v = assms(1)[unfolded validate_listeners_iff]
  fix l assume l: "l \<in> set ls"
  from v l have ok: "listener_ok rule_ok l" by blast
  then show "listener_protocol l \<noteq> None"
    by (auto simp: listener_ok_def listener_protocol_def split: bool.splits option.splits listener_authentication.splits)
  show "listener_protocol l = Some SaslSsl" if "oauth_of l = Some c" for c
    using ok that by (auto simp: listener_ok_def oauth_ok_def listener_protocol_def oauth_of_def
        split: option.splits listener_authentication.splits)
  show "map_option oauth_canonical (canonical_oauth_config ls) = Some (oauth_canonical c)" if c: "oauth_of l = Some c" for c
  proof -
    from map_filter_first[OF l, of oauth_of, OF c] obtain z d ds
      where z: "z \<in> set ls" "oauth_of z = Some d" "List.map_filter oauth_of ls = d # ds" by blast
    with v l c have "oauth_canonical d = oauth_canonical c" by blast
    with z(3) show ?thesis by (simp add: canonical_oauth_config_def)
  qed
  show "canonical_gssapi_config ls = Some c" if c: "gssapi_of l = Some c" for c
  proof -
    from map_filter_first[OF l, of gssapi_of, OF c] obtain z d ds
      where z: "z \<in> set ls" "gssapi_of z = Some d" "List.map_filter gssapi_of ls = d # ds" by blast
    with v l c have "d = c" by blast
    with z(3) show ?thesis by (simp add: canonical_gssapi_config_def)
  qed
next
  show "\<exists>l \<in> set ls. ls_name l = effective_inter_broker_listener_name ls ib \<and> ls_type l = Internal"
    using effective_name_internal[OF assms] .
qed

definition sample_listener :: "string \<Rightarrow> int \<Rightarrow> bool \<Rightarrow> listener_authentication option \<Rightarrow> listener" where
  "sample_listener name port tls auth = \<lparr>ls_name = name, ls_port = port, ls_type = Internal, ls_tls = tls,
     ls_authentication = auth, ls_configuration = None, ls_network_policy_peers = None\<rparr>"

definition sample_keytab :: gssapi_config where
  "sample_keytab = \<lparr>ga_keytab_secret_ref = \<lparr>si_secret_name = ''kt'', si_key = ''k''\<rparr>, ga_service_name = None,
     ga_principal_to_local_rules = [''DEFAULT''], ga_realm = None, ga_kdc = None, ga_max_time_skew = None\<rparr>"

definition sample_listeners :: "listener list" where
  "sample_listeners = [sample_listener ''TLS'' 9094 True (Some AuthTls), sample_listener ''KRB'' 9095 False (Some (AuthGssapi sample_keytab))]"

theorem listeners_accepted_iff_witness:
  "validate_listeners (\<lambda>r. r = ''DEFAULT'') sample_listeners (Some ''KRB'') = Inr ()
   \<and> \<not> listener_ok (\<lambda>r. False) (sample_listener ''KRB'' 9095 False (Some (AuthGssapi sample_keytab)))"
proof
  show ok: "validate_listeners (\<lambda>r. r = ''DEFAULT'') sample_listeners (Some ''KRB'') = Inr ()" by code_simp
  let ?krb = "sample_listener ''KRB'' 9095 False (Some (AuthGssapi sample_keytab))"
  have "\<not> (\<forall>l \<in> set [?krb]. listener_ok (\<lambda>r. False) l)"
  proof
    assume "\<forall>l \<in> set [?krb]. listener_ok (\<lambda>r. False) l"
    then have "validate_listeners (\<lambda>r. False) [?krb] None = Inr ()"
      unfolding listeners_accepted_iff by (auto simp: sample_listener_def gssapi_of_def oauth_of_def)
    moreover have "validate_listeners (\<lambda>r. False) [?krb] None \<noteq> Inr ()" by code_simp
    ultimately show False by simp
  qed
  then show "\<not> listener_ok (\<lambda>r. False) ?krb" by simp
qed

theorem validated_listeners_typed_witness:
  "canonical_gssapi_config sample_listeners = Some sample_keytab
   \<and> (\<exists>l \<in> set sample_listeners. ls_name l = ''TLS'' \<and> ls_type l = Internal)"
proof -
  have "validate_listeners (\<lambda>r. r = ''DEFAULT'') sample_listeners None = Inr ()" by code_simp
  from validated_listeners_typed[OF this] show ?thesis
    by (auto simp: sample_listeners_def sample_listener_def gssapi_of_def effective_inter_broker_listener_name_def)
qed

end
