(* ===== verification/Topic.thy ===== *)
theory Topic
  imports Listeners Rebalancer_Client
begin

text \<open>
  \<open>controller/topic.rs\<close>: one-way synchronisation of a \<open>KafkaTopic\<close> resource with
  the cluster. The environment of a
  pass says what the Kubernetes API and the admin client answer; the admin
  client (\<open>krabka_client_admin\<close>) is library code.
\<close>

section \<open>Topics\<close>

type_synonym configs = "(string, string) bmap"

record kafka_topic_spec =
  kt_topic_name :: "string option"
  kt_partitions :: int
  kt_replicas :: int
  kt_config :: "configs option"
  kt_preserve :: bool

record kafka_topic_status =
  kt_conditions :: "kafka_condition list"
  kt_observed_generation :: "int option"
  kt_status_name :: "string option"
  kt_topic_id :: "string option"

record kafka_topic =
  kt_meta :: object_meta
  kt_spec :: kafka_topic_spec
  kt_status :: "kafka_topic_status option"

definition FINALIZER :: string where
  "FINALIZER = ''krabka.io/topic-finalizer''"

definition validate_kafka_topic_name :: "string \<Rightarrow> string + unit" where
  "validate_kafka_topic_name name =
     (if name = [] then Inl ''topic name is empty''
      else if length name > 249 then
        Inl (''topic name length '' @ nat_to_string (length name) @ '' exceeds 249'')
      else if name = ''.'' \<or> name = ''..'' then
        Inl (''topic name cannot be '' @ debug_str ''.'' @ '' or '' @ debug_str ''..'')
      else if \<not> list_all (\<lambda>c. is_ascii_alphanumeric c \<or> c = CHR ''.'' \<or> c = CHR ''_'' \<or> c = CHR ''-'') name then
        Inl (''topic name '' @ debug_str name @ '' contains invalid characters'')
      else Inr ())"

definition has_finalizer :: "kafka_topic \<Rightarrow> bool" where
  "has_finalizer obj =
     (case meta_finalizers (kt_meta obj) of None \<Rightarrow> False | Some f \<Rightarrow> list_ex (\<lambda>s. s = FINALIZER) f)"

datatype alter_config_op = SetConfig string string | DeleteConfig string

definition diff_configs :: "configs \<Rightarrow> configs \<Rightarrow> alter_config_op list" where
  "diff_configs current desired =
     map (\<lambda>(k, v). SetConfig k v) (filter (\<lambda>(k, v). bm_get current k \<noteq> Some v) desired)
     @ map DeleteConfig (filter (\<lambda>k. bm_get desired k = None) (map fst current))"

section \<open>The admin client\<close>

record kafka_error =
  kerr_code :: int
  kerr_name :: string
  kerr_message :: "string option"

datatype admin_error =
    AdminTransport string
  | AdminBroker string int string "string option"
  | AdminProtocol string
  | AdminOther string

record topic_metadata =
  tm_name :: string
  tm_error :: "kafka_error option"
  tm_partition_count :: int
  tm_topic_id :: "string option"

datatype replication_status = InSync | ReassignmentSubmitted | ReassignmentInProgress

record topic_config =
  tcf_error_requeue :: time
  tcf_drift_requeue :: time
  tcf_invalid_requeue :: time
  tcf_dependency_requeue :: time

record topic_env =
  te_now :: string
  te_get_kafka :: "string \<Rightarrow> kube_error + cluster_view option"
  te_patch_status :: "kube_error option"
  te_patch_meta :: "kube_error option"
  te_connect :: "admin_error option"
  te_metadata :: "string \<Rightarrow> admin_error + topic_metadata list"
  te_create_topics :: "string \<Rightarrow> int \<Rightarrow> int \<Rightarrow> configs \<Rightarrow> admin_error + (kafka_error option \<times> string option) list"
  te_create_partitions :: "string \<Rightarrow> int \<Rightarrow> admin_error + kafka_error option list"
  te_replication :: "string \<Rightarrow> int \<Rightarrow> admin_error + replication_status"
  te_describe_configs :: "string \<Rightarrow> admin_error + (kafka_error + configs) option"
  te_alter_configs :: "string \<Rightarrow> alter_config_op list \<Rightarrow> admin_error + kafka_error option list"

datatype topic_effect =
    PatchTopicStatus kafka_topic_status
  | SetFinalizers "string list"
  | DeleteTopics string
  | CreateTopic string int int configs
  | CreatePartitions string int
  | ReconcileReplication string int
  | AlterConfigs string "alter_config_op list"
  | DropAdminClient string

type_synonym topic_step = "(reconcile_error, action, topic_effect) logged"

definition is_transport :: "admin_error \<Rightarrow> bool" where
  "is_transport e = (case e of AdminTransport _ \<Rightarrow> True | _ \<Rightarrow> False)"

section \<open>One reconcile pass\<close>

definition topic_status ::
  "string \<Rightarrow> kafka_topic \<Rightarrow> string \<times> string \<times> string \<Rightarrow> string option \<Rightarrow> bool \<Rightarrow> kafka_topic_status" where
  "topic_status t obj state topic_id advance =
     (case state of (status, reason, message) \<Rightarrow>
       \<lparr>kt_conditions = [condition t ''Ready'' status reason message],
        kt_observed_generation =
          (if advance then meta_generation (kt_meta obj)
           else Option.bind (kt_status obj) kt_observed_generation),
        kt_status_name = Some (unwrap_or (meta_name (kt_meta obj)) (kt_topic_name (kt_spec obj))),
        kt_topic_id = topic_id\<rparr>)"

definition patch_topic_status ::
  "topic_env \<Rightarrow> kafka_topic \<Rightarrow> string \<times> string \<times> string \<Rightarrow> string option \<Rightarrow> bool
     \<Rightarrow> (reconcile_error, unit, topic_effect) logged" where
  "patch_topic_status env obj state topic_id advance =
     attempt Kube (te_patch_status env) (PatchTopicStatus (topic_status (te_now env) obj state topic_id advance))"

definition add_finalizer :: "topic_env \<Rightarrow> (reconcile_error, unit, topic_effect) logged" where
  "add_finalizer env = attempt Kube (te_patch_meta env) (SetFinalizers [FINALIZER])"

definition remove_finalizer :: "topic_env \<Rightarrow> (reconcile_error, unit, topic_effect) logged" where
  "remove_finalizer env = attempt Kube (te_patch_meta env) (SetFinalizers [])"

text \<open>An admin call that failed: drop the client on a transport error and retry later.\<close>

definition admin_failed :: "topic_config \<Rightarrow> string \<Rightarrow> admin_error \<Rightarrow> topic_step" where
  "admin_failed cfg cluster e =
     then_log (if is_transport e then emit (DropAdminClient cluster) else ret_log ())
       (ret_log (requeue (tcf_error_requeue cfg)))"

definition broker_error_text :: "string \<Rightarrow> kafka_error \<Rightarrow> string" where
  "broker_error_text api e = api @ '': '' @ kerr_name e @ '' ('' @ int_to_string (kerr_code e) @ '')''"

definition create_topic :: "topic_config \<Rightarrow> topic_env \<Rightarrow> string \<Rightarrow> kafka_topic \<Rightarrow> string \<Rightarrow> topic_step" where
  "create_topic cfg env cluster obj topic_name =
     (let partitions = kt_partitions (kt_spec obj); replicas = kt_replicas (kt_spec obj);
          configs = unwrap_or [] (kt_config (kt_spec obj))
      in then_log (emit (CreateTopic topic_name partitions replicas configs))
           (case te_create_topics env topic_name partitions replicas configs of
              Inl e \<Rightarrow> admin_failed cfg cluster e
            | Inr [] \<Rightarrow> fail_log (Panic ''one spec produces one outcome'')
            | Inr outcomes \<Rightarrow>
                (case last outcomes of
                   (Some err, _) \<Rightarrow>
                     then_log (patch_topic_status env obj
                         (''False'', ''BrokerError'', broker_error_text ''CreateTopics'' err) None False)
                       (ret_log (requeue (tcf_error_requeue cfg)))
                 | (None, topic_id) \<Rightarrow>
                     then_log (patch_topic_status env obj (''True'', ''Ready'', ''topic created'') topic_id True)
                       (ret_log (requeue (tcf_drift_requeue cfg))))))"

datatype topic_preparation = TopicReady string string string | TopicDone action

definition report_topic ::
  "topic_env \<Rightarrow> kafka_topic \<Rightarrow> string \<Rightarrow> string \<Rightarrow> time
     \<Rightarrow> (reconcile_error, topic_preparation, topic_effect) logged" where
  "report_topic env obj reason message delay =
     then_log (patch_topic_status env obj (''False'', reason, message) None False)
       (ret_log (TopicDone (requeue delay)))"

definition finalize_topic ::
  "topic_env \<Rightarrow> kafka_topic \<Rightarrow> string \<Rightarrow> (reconcile_error, topic_preparation, topic_effect) logged" where
  "finalize_topic env obj topic_name =
     then_log (if \<not> kt_preserve (kt_spec obj) \<and> te_connect env = None then emit (DeleteTopics topic_name)
               else ret_log ())
       (then_log (remove_finalizer env) (ret_log (TopicDone AwaitChange)))"

definition prepare_topic ::
  "topic_config \<Rightarrow> topic_env \<Rightarrow> kafka_topic \<Rightarrow> (reconcile_error, topic_preparation, topic_effect) logged" where
  "prepare_topic cfg env obj =
     (let name = meta_name (kt_meta obj) in
      case meta_label (kt_meta obj) ''krabka.io/cluster'' of
        None \<Rightarrow> report_topic env obj ''MissingClusterLabel''
          (''metadata.labels['' @ debug_str ''krabka.io/cluster'' @ ''] is required'') (tcf_drift_requeue cfg)
      | Some cluster \<Rightarrow>
          (let topic_name = unwrap_or name (kt_topic_name (kt_spec obj)) in
           case validate_kafka_topic_name topic_name of
             Inl message \<Rightarrow> report_topic env obj ''InvalidTopicName'' message (tcf_invalid_requeue cfg)
           | Inr () \<Rightarrow>
               bind_log (lift_log (map_sum Kube id (te_get_kafka env cluster))) (\<lambda>kafka.
                 case Option.bind kafka operator_listener_bootstrap of
                   None \<Rightarrow> report_topic env obj ''ClusterNotReady''
                     (''Kafka/'' @ cluster @ '' not Ready or no internal listener'') (tcf_dependency_requeue cfg)
                 | Some bootstrap \<Rightarrow>
                     if meta_deletion_timestamp (kt_meta obj) \<noteq> None then finalize_topic env obj topic_name
                     else if \<not> has_finalizer obj then
                       then_log (add_finalizer env) (ret_log (TopicDone (Requeue 0)))
                     else ret_log (TopicReady cluster bootstrap topic_name))))"

definition reconcile_replication_factor ::
  "topic_config \<Rightarrow> topic_env \<Rightarrow> string \<Rightarrow> kafka_topic \<Rightarrow> string \<Rightarrow> string option
     \<Rightarrow> (reconcile_error, action option, topic_effect) logged" where
  "reconcile_replication_factor cfg env cluster obj topic_name topic_id =
     (let replicas = kt_replicas (kt_spec obj);
          reassigning = (\<lambda>message. then_log
            (patch_topic_status env obj (''False'', ''Reassigning'', message) topic_id False)
            (ret_log (Some (requeue (tcf_dependency_requeue cfg)))))
      in then_log (emit (ReconcileReplication topic_name replicas))
        (case te_replication env topic_name replicas of
           Inr InSync \<Rightarrow> ret_log None
         | Inr ReassignmentInProgress \<Rightarrow> reassigning ''partition reassignment in progress''
         | Inr ReassignmentSubmitted \<Rightarrow> reassigning ''partition reassignment submitted''
         | Inl (AdminBroker api code name message) \<Rightarrow>
             then_log (patch_topic_status env obj (''False'', ''BrokerError'',
                 api @ '': '' @ name @ '' ('' @ int_to_string code @ '')''
                   @ (case message of None \<Rightarrow> [] | Some d \<Rightarrow> '': '' @ d)) topic_id False)
               (ret_log (Some (requeue (tcf_error_requeue cfg))))
         | Inl e \<Rightarrow> bind_log (admin_failed cfg cluster e) (\<lambda>a. ret_log (Some a))))"

definition topic_config_overrides :: "(kafka_error + configs) option \<Rightarrow> admin_error + configs" where
  "topic_config_overrides result =
     (case result of
        None \<Rightarrow> Inl (AdminProtocol ''DescribeConfigs omitted the topic'')
      | Some (Inr c) \<Rightarrow> Inr c
      | Some (Inl e) \<Rightarrow> Inl (AdminBroker ''DescribeConfigs'' (kerr_code e) (kerr_name e) (kerr_message e)))"

text \<open>The configuration part of a pass over an existing topic, and the final status.\<close>

definition sync_configs ::
  "topic_config \<Rightarrow> topic_env \<Rightarrow> string \<Rightarrow> kafka_topic \<Rightarrow> string \<Rightarrow> topic_metadata \<Rightarrow> topic_step" where
  "sync_configs cfg env cluster obj topic_name cur =
     (let desired = unwrap_or [] (kt_config (kt_spec obj));
          in_sync = then_log (patch_topic_status env obj (''True'', ''Ready'', ''topic in sync'') (tm_topic_id cur) True)
                      (ret_log (requeue (tcf_drift_requeue cfg)))
      in case bind_result (te_describe_configs env topic_name) topic_config_overrides of
           Inl e \<Rightarrow> admin_failed cfg cluster e
         | Inr overrides \<Rightarrow>
             (let ops = diff_configs overrides desired in
              if ops = [] then in_sync
              else then_log (emit (AlterConfigs topic_name ops))
                (case te_alter_configs env topic_name ops of
                   Inl e \<Rightarrow> admin_failed cfg cluster e
                 | Inr outcomes \<Rightarrow>
                     (case find (\<lambda>x. x \<noteq> None) outcomes of
                        Some (Some err) \<Rightarrow>
                          then_log (patch_topic_status env obj
                              (''False'', ''BrokerError'', broker_error_text ''IncrementalAlterConfigs'' err)
                              (tm_topic_id cur) False)
                            (ret_log (requeue (tcf_error_requeue cfg)))
                      | _ \<Rightarrow> in_sync))))"

definition after_partitions ::
  "topic_config \<Rightarrow> topic_env \<Rightarrow> string \<Rightarrow> kafka_topic \<Rightarrow> string \<Rightarrow> topic_metadata \<Rightarrow> topic_step" where
  "after_partitions cfg env cluster obj topic_name cur =
     bind_log (reconcile_replication_factor cfg env cluster obj topic_name (tm_topic_id cur)) (\<lambda>stop.
       case stop of Some a \<Rightarrow> ret_log a | None \<Rightarrow> sync_configs cfg env cluster obj topic_name cur)"

definition update_topic ::
  "topic_config \<Rightarrow> topic_env \<Rightarrow> string \<Rightarrow> kafka_topic \<Rightarrow> string \<Rightarrow> topic_metadata \<Rightarrow> topic_step" where
  "update_topic cfg env cluster obj topic_name cur =
     (let wanted = kt_partitions (kt_spec obj); existing = tm_partition_count cur in
      if existing > wanted then
        then_log (patch_topic_status env obj (''False'', ''ImmutableFieldChanged'',
            ''spec.partitions decrease is not supported by Kafka'') (tm_topic_id cur) False)
          (ret_log (requeue (tcf_invalid_requeue cfg)))
      else if existing < wanted then
        then_log (emit (CreatePartitions topic_name wanted))
          (case te_create_partitions env topic_name wanted of
             Inl e \<Rightarrow> admin_failed cfg cluster e
           | Inr [] \<Rightarrow> fail_log (Panic ''one op produces one outcome'')
           | Inr outcomes \<Rightarrow>
               (case last outcomes of
                  Some err \<Rightarrow>
                    then_log (patch_topic_status env obj
                        (''False'', ''BrokerError'', broker_error_text ''CreatePartitions'' err) (tm_topic_id cur) False)
                      (ret_log (requeue (tcf_error_requeue cfg)))
                | None \<Rightarrow> after_partitions cfg env cluster obj topic_name cur))
      else after_partitions cfg env cluster obj topic_name cur)"

definition existing_topic :: "topic_metadata list \<Rightarrow> string \<Rightarrow> topic_metadata option" where
  "existing_topic topics topic_name =
     (case find (\<lambda>t. tm_name t = topic_name) topics of
        Some t \<Rightarrow> if tm_error t = None then Some t else None
      | None \<Rightarrow> None)"

definition reconcile_topic :: "topic_config \<Rightarrow> topic_env \<Rightarrow> kafka_topic \<Rightarrow> topic_step" where
  "reconcile_topic cfg env obj =
     bind_log (prepare_topic cfg env obj) (\<lambda>preparation.
       case preparation of
         TopicDone a \<Rightarrow> ret_log a
       | TopicReady cluster bootstrap topic_name \<Rightarrow>
           (case te_connect env of
              Some e \<Rightarrow> ret_log (requeue (tcf_error_requeue cfg))
            | None \<Rightarrow>
                (case te_metadata env topic_name of
                   Inl e \<Rightarrow> admin_failed cfg cluster e
                 | Inr topics \<Rightarrow>
                     (case existing_topic topics topic_name of
                        None \<Rightarrow> create_topic cfg env cluster obj topic_name
                      | Some cur \<Rightarrow> update_topic cfg env cluster obj topic_name cur))))"

section \<open>Configuration synchronisation\<close>

text \<open>What the broker does with one operation of an incremental alteration.\<close>

definition exec_config :: "alter_config_op \<Rightarrow> configs \<Rightarrow> configs" where
  "exec_config op m = (case op of SetConfig k v \<Rightarrow> bm_insert k v m | DeleteConfig k \<Rightarrow> bm_remove k m)"

primrec config_key :: "alter_config_op \<Rightarrow> string" where
  "config_key (SetConfig k v) = k"
| "config_key (DeleteConfig k) = k"

lemma exec_config_simps [simp]:
  "exec_config (SetConfig k v) m = bm_insert k v m"
  "exec_config (DeleteConfig k) m = bm_remove k m"
  by (simp_all add: exec_config_def)

lemma bm_ok_exec_config: "bm_ok m \<Longrightarrow> bm_ok (fold exec_config ops m)"
proof (induction ops arbitrary: m)
  case (Cons op ops)
  then show ?case by (cases op) simp_all
qed simp

lemma get_set_configs:
  "bm_get (fold exec_config (map (\<lambda>(k, v). SetConfig k v) kvs) m) = bm_get m ++ map_of (rev kvs)"
  by (induction kvs arbitrary: m) auto

lemma get_delete_configs:
  "bm_get (fold exec_config (map DeleteConfig ks) m) = (bm_get m) |` (- set ks)"
proof (induction ks arbitrary: m)
  case (Cons k ks)
  then show ?case by (auto simp: restrict_map_def fun_eq_iff)
qed (simp add: restrict_map_def)

lemma map_of_rev_distinct: "distinct (map fst kvs) \<Longrightarrow> map_of (rev kvs) = map_of kvs"
  by (rule map_of_inject_set [THEN iffD2]) (simp_all add: rev_map [symmetric])

lemma exec_diff_configs:
  assumes "bm_ok current" "bm_ok desired"
  shows "fold exec_config (diff_configs current desired) current = desired"
proof (rule bm_ext)
  let ?changed = "filter (\<lambda>(k, v). bm_get current k \<noteq> Some v) desired"
  have d: "distinct (map fst desired)" using assms(2) by (rule bm_ok_distinct)
  then have dc: "distinct (map fst ?changed)" by (rule distinct_map_filter)
  show "bm_get (fold exec_config (diff_configs current desired) current) = bm_get desired"
  proof
    fix k
    let ?sets = "map (\<lambda>(k, v). SetConfig k v) ?changed"
    let ?gone = "filter (\<lambda>k. bm_get desired k = None) (map fst current)"
    have changed: "bm_get ?changed k = (if bm_get current k = bm_get desired k then None else bm_get desired k)"
    proof (cases "bm_get ?changed k")
      case None
      then have "(k, b) \<in> set desired \<Longrightarrow> bm_get current k = Some b" for b
        by (auto simp: map_of_eq_None_iff image_iff)
      with None show ?thesis by (cases "bm_get desired k") (auto dest: map_of_SomeD)
    next
      case (Some v)
      then show ?thesis using d dc by (auto simp: map_of_eq_Some_iff)
    qed
    have gone: "k \<in> set ?gone \<longleftrightarrow> bm_get desired k = None \<and> bm_get current k \<noteq> None"
      by (auto simp: map_of_eq_None_iff)
    have "bm_get (fold exec_config (diff_configs current desired) current) k
        = (if k \<in> set ?gone then None else (bm_get current ++ bm_get ?changed) k)"
      unfolding diff_configs_def fold_append comp_def get_delete_configs get_set_configs
        map_of_rev_distinct[OF dc] by (simp add: restrict_map_def)
    also have "\<dots> = bm_get desired k"
      unfolding gone map_add_def changed by (simp split: option.splits)
    finally show "bm_get (fold exec_config (diff_configs current desired) current) k = bm_get desired k" .
  qed
qed (use assms in \<open>auto intro: bm_ok_exec_config\<close>)

lemma diff_configs_same: "bm_ok m \<Longrightarrow> diff_configs m m = []"
  using bm_ok_distinct[of m] by (auto simp: diff_configs_def filter_empty_conv map_of_eq_None_iff)

interpretation tc: state_sync diff_configs exec_config bm_ok
  by unfold_locales (simp_all add: diff_configs_same exec_diff_configs)

lemma diff_configs_minimal:
  assumes "bm_ok desired" "op \<in> set (diff_configs current desired)"
  shows "bm_get current (config_key op) \<noteq> bm_get desired (config_key op)"
  using assms bm_ok_distinct[of desired]
  by (auto simp: diff_configs_def map_of_eq_Some_iff) (metis map_of_eq_None_iff image_eqI fst_conv option.simps(3))+

lemma diff_configs_distinct:
  assumes "bm_ok current" "bm_ok desired"
  shows "distinct (map config_key (diff_configs current desired))"
proof -
  have d: "distinct (map fst desired)" "distinct (map fst current)"
    using assms by (auto intro: bm_ok_distinct)
  have set_part: "map config_key (map (\<lambda>(k, v). SetConfig k v) kvs) = map fst kvs" for kvs
    by (induction kvs) auto
  have del_part: "map config_key (map DeleteConfig ks) = ks" for ks
    by (induction ks) auto
  show ?thesis
    unfolding diff_configs_def map_append set_part del_part
    using d by (auto simp: distinct_map_filter map_of_eq_None_iff)
qed

text \<open>Applying the operations that \<open>diff_configs\<close> computes brings the overrides of a
  topic exactly to the configuration of its resource, after which there is nothing left to
  do; no key is altered twice, and only keys whose value differs are altered.\<close>

theorem topic_configs_converge:
  assumes "bm_ok current" "bm_ok desired"
  shows "fold exec_config (diff_configs current desired) current = desired
    \<and> diff_configs (fold exec_config (diff_configs current desired) current) desired = []
    \<and> (diff_configs current desired = [] \<longleftrightarrow> current = desired)
    \<and> distinct (map config_key (diff_configs current desired))
    \<and> (\<forall>op \<in> set (diff_configs current desired).
          bm_get current (config_key op) \<noteq> bm_get desired (config_key op))"
  using tc.exec_diff[OF assms] tc.converges[OF assms] tc.diff_empty_iff[OF assms]
    diff_configs_distinct[OF assms] diff_configs_minimal[OF assms(2)] by blast

theorem topic_configs_converge_witness:
  "fold exec_config (diff_configs [(''a'', ''1''), (''b'', ''2'')] [(''b'', ''3''), (''c'', ''4'')])
     [(''a'', ''1''), (''b'', ''2'')] = [(''b'', ''3''), (''c'', ''4'')]"
  by (rule topic_configs_converge [THEN conjunct1]) (simp_all add: bm_ok_def)

section \<open>What a pass does to the topic\<close>

text \<open>The topic as the cluster holds it, and what the broker makes of an accepted request.\<close>

record live_topic =
  lt_partitions :: int
  lt_configs :: configs

definition live_after :: "topic_env \<Rightarrow> topic_effect \<Rightarrow> live_topic option \<Rightarrow> live_topic option" where
  "live_after env eff live =
     (case eff of
        CreateTopic n p r c \<Rightarrow>
          (case te_create_topics env n p r c of
             Inr (x # xs) \<Rightarrow>
               if fst (last (x # xs)) = None then Some \<lparr>lt_partitions = p, lt_configs = c\<rparr> else live
           | _ \<Rightarrow> live)
      | CreatePartitions n p \<Rightarrow>
          (case te_create_partitions env n p of
             Inr (x # xs) \<Rightarrow>
               if last (x # xs) = None then map_option (lt_partitions_update (\<lambda>_. p)) live else live
           | _ \<Rightarrow> live)
      | AlterConfigs n ops \<Rightarrow>
          (case te_alter_configs env n ops of
             Inr outcomes \<Rightarrow>
               if list_all (\<lambda>x. x = None) outcomes
               then map_option (lt_configs_update (fold exec_config ops)) live else live
           | _ \<Rightarrow> live)
      | _ \<Rightarrow> live)"

lemma live_after_simps [simp]:
  "live_after env (PatchTopicStatus st) = id"
  "live_after env (SetFinalizers fs) = id"
  "live_after env (ReconcileReplication n r) = id"
  "live_after env (DropAdminClient c) = id"
  by (simp_all add: live_after_def fun_eq_iff)

text \<open>The answers of the broker describe the topic it holds.\<close>

definition reports :: "topic_env \<Rightarrow> string \<Rightarrow> live_topic option \<Rightarrow> bool" where
  "reports env name live \<longleftrightarrow>
     (case te_metadata env name of
        Inl _ \<Rightarrow> True
      | Inr topics \<Rightarrow>
          map_option tm_partition_count (existing_topic topics name) = map_option lt_partitions live)
     \<and> (case (live, te_describe_configs env name) of
          (Some lt, Inr (Some (Inr c))) \<Rightarrow> c = lt_configs lt
        | _ \<Rightarrow> True)"

definition wanted_topic :: "kafka_topic \<Rightarrow> live_topic" where
  "wanted_topic obj = \<lparr>lt_partitions = kt_partitions (kt_spec obj),
     lt_configs = unwrap_or [] (kt_config (kt_spec obj))\<rparr>"

definition claims_ready :: "topic_effect \<Rightarrow> bool" where
  "claims_ready eff =
     (case eff of PatchTopicStatus st \<Rightarrow> list_ex (\<lambda>c. cond_status c = ''True'') (kt_conditions st) | _ \<Rightarrow> False)"

definition topic_name_of :: "kafka_topic \<Rightarrow> string" where
  "topic_name_of obj = unwrap_or (meta_name (kt_meta obj)) (kt_topic_name (kt_spec obj))"

lemma claims_ready_patch:
  "list_ex claims_ready (snd (patch_topic_status env obj (s, r, m) tid adv))
     \<longleftrightarrow> te_patch_status env = None \<and> s = ''True''"
  by (auto simp: patch_topic_status_def attempt_def claims_ready_def topic_status_def condition_def
      split: option.splits)

lemma live_after_patch [simp]:
  "fold (live_after env) (snd (patch_topic_status env obj state tid adv)) live = live"
  by (auto simp: patch_topic_status_def attempt_def split: option.splits)

lemma admin_failed_log [simp]:
  "\<not> list_ex claims_ready (snd (admin_failed cfg cluster e))"
  "fold (live_after env) (snd (admin_failed cfg cluster e)) live = live"
  by (auto simp: admin_failed_def snd_then_log claims_ready_def)

lemma live_after_finalizers [simp]:
  "fold (live_after env) (snd (attempt w failure (SetFinalizers fs))) live = live"
  "\<not> list_ex claims_ready (snd (attempt w failure (SetFinalizers fs)))"
  by (auto simp: attempt_def claims_ready_def split: option.splits)

lemma create_topic_ready:
  assumes "list_ex claims_ready (snd (create_topic cfg env cluster obj name))"
  shows "fold (live_after env) (snd (create_topic cfg env cluster obj name)) live = Some (wanted_topic obj)"
proof (cases "te_create_topics env name (kt_partitions (kt_spec obj)) (kt_replicas (kt_spec obj))
    (unwrap_or [] (kt_config (kt_spec obj)))")
  case (Inl e)
  with assms show ?thesis by (simp add: create_topic_def snd_then_log Let_def claims_ready_def)
next
  case (Inr outcomes)
  show ?thesis
  proof (cases outcomes)
    case Nil
    with assms Inr show ?thesis by (simp add: create_topic_def snd_then_log Let_def claims_ready_def)
  next
    case (Cons x xs)
    obtain err tid where l: "last (x # xs) = (err, tid)" by force
    with assms Inr Cons have "err = None"
      by (cases err) (auto simp: create_topic_def snd_then_log Let_def claims_ready_patch claims_ready_def
          split: sum.splits)
    with l Inr Cons show ?thesis
      by (simp add: create_topic_def snd_then_log Let_def wanted_topic_def live_after_def split: sum.splits)
  qed
qed


lemma claims_ready_admin [simp]:
  "\<not> claims_ready (CreatePartitions n p)" "\<not> claims_ready (AlterConfigs n ops)"
  "\<not> claims_ready (ReconcileReplication n r)" "\<not> claims_ready (DeleteTopics n)"
  by (simp_all add: claims_ready_def)

definition described :: "topic_env \<Rightarrow> string \<Rightarrow> admin_error + configs" where
  "described env name = bind_result (te_describe_configs env name) topic_config_overrides"

lemma described_Inr: "described env name = Inr c \<longleftrightarrow> te_describe_configs env name = Inr (Some (Inr c))"
proof (cases "te_describe_configs env name")
  case (Inr r)
  then show ?thesis
    by (cases r) (auto simp: described_def topic_config_overrides_def split: sum.splits)
qed (simp add: described_def)

lemma find_error_None: "find (\<lambda>x. x \<noteq> None) xs = None \<longleftrightarrow> list_all (\<lambda>x. x = None) xs"
  by (auto simp: find_None_iff list_all_iff)

lemma find_error_Some: "find (\<lambda>x. x \<noteq> None) xs \<noteq> Some None"
  by (auto simp: find_Some_iff)

lemma sync_configs_ready:
  assumes ready: "list_ex claims_ready (snd (sync_configs cfg env cluster obj name cur))"
    and configs: "\<And>c. described env name = Inr c \<Longrightarrow> c = lt_configs lt"
    and ok: "bm_ok (lt_configs lt)" "bm_ok (unwrap_or [] (kt_config (kt_spec obj)))"
    and parts: "lt_partitions lt = kt_partitions (kt_spec obj)"
  shows "fold (live_after env) (snd (sync_configs cfg env cluster obj name cur)) (Some lt)
           = Some (wanted_topic obj)"
proof -
  let ?desired = "unwrap_or [] (kt_config (kt_spec obj))"
  note unf = sync_configs_def Let_def described_def [symmetric]
  from ready have "\<not> isl (described env name)"
    by (cases "described env name") (simp_all add: unf)
  then obtain c where "described env name = Inr c" by (cases "described env name") auto
  with configs have c: "described env name = Inr (lt_configs lt)" by simp
  let ?ops = "diff_configs (lt_configs lt) ?desired"
  have done_: "(Some (lt_configs_update (fold exec_config ?ops) lt)) = Some (wanted_topic obj)"
    using parts tc.exec_diff[OF ok] by (cases lt) (simp add: wanted_topic_def)
  show ?thesis
  proof (cases "?ops = []")
    case True
    with done_ have "lt = wanted_topic obj" by (cases lt) simp
    with True c show ?thesis by (auto simp: unf snd_then_log split: sum.splits)
  next
    case False
    from ready c False obtain outcomes where o: "te_alter_configs env name ?ops = Inr outcomes"
      by (cases "te_alter_configs env name ?ops") (simp_all add: unf snd_then_log)
    have "find (\<lambda>x. x \<noteq> None) outcomes = None"
    proof (rule ccontr)
      assume "find (\<lambda>x. x \<noteq> None) outcomes \<noteq> None"
      then obtain err where "find (\<lambda>x. x \<noteq> None) outcomes = Some (Some err)"
        using find_error_Some[of outcomes] by (metis not_None_eq)
      with ready c False o show False
        by (auto simp: unf snd_then_log claims_ready_patch split: sum.splits)
    qed
    moreover from this have "list_all (\<lambda>x. x = None) outcomes" by (simp only: find_error_None)
    ultimately show ?thesis using done_ c False o
      by (simp add: unf snd_then_log live_after_def split: sum.splits)
  qed
qed

lemma replication_log:
  "fold (live_after env) (snd (reconcile_replication_factor cfg env cluster obj name tid)) live = live"
  "\<not> list_ex claims_ready (snd (reconcile_replication_factor cfg env cluster obj name tid))"
  by (auto simp: reconcile_replication_factor_def snd_then_log snd_bind_log Let_def claims_ready_patch
      split: sum.splits admin_error.splits replication_status.splits)

lemma replication_continues:
  "fst (reconcile_replication_factor cfg env cluster obj name tid) = Inr None
     \<longleftrightarrow> te_replication env name (kt_replicas (kt_spec obj)) = Inr InSync"
  by (auto simp: reconcile_replication_factor_def fst_then_log fst_bind_log Let_def admin_failed_def
      split: sum.splits admin_error.splits replication_status.splits)

lemma after_partitions_ready:
  assumes "list_ex claims_ready (snd (after_partitions cfg env cluster obj name cur))"
    and "\<And>c. described env name = Inr c \<Longrightarrow> c = lt_configs lt"
    and "bm_ok (lt_configs lt)" "bm_ok (unwrap_or [] (kt_config (kt_spec obj)))"
    and "lt_partitions lt = kt_partitions (kt_spec obj)"
  shows "te_replication env name (kt_replicas (kt_spec obj)) = Inr InSync"
    and "fold (live_after env) (snd (after_partitions cfg env cluster obj name cur)) (Some lt)
           = Some (wanted_topic obj)"
proof -
  let ?r = "reconcile_replication_factor cfg env cluster obj name (tm_topic_id cur)"
  from assms(1) have stop: "fst ?r = Inr None" and
    ready: "list_ex claims_ready (snd (sync_configs cfg env cluster obj name cur))"
    by (auto simp: after_partitions_def snd_bind_log replication_log split: sum.splits option.splits)
  then show "te_replication env name (kt_replicas (kt_spec obj)) = Inr InSync"
    by (simp add: replication_continues)
  show "fold (live_after env) (snd (after_partitions cfg env cluster obj name cur)) (Some lt)
          = Some (wanted_topic obj)"
    using stop sync_configs_ready[OF ready assms(2-5)]
    by (simp add: after_partitions_def snd_bind_log replication_log)
qed

lemma update_topic_ready:
  assumes ready: "list_ex claims_ready (snd (update_topic cfg env cluster obj name cur))"
    and "\<And>c. described env name = Inr c \<Longrightarrow> c = lt_configs lt"
    and "bm_ok (lt_configs lt)" "bm_ok (unwrap_or [] (kt_config (kt_spec obj)))"
    and parts: "tm_partition_count cur = lt_partitions lt"
  shows "te_replication env name (kt_replicas (kt_spec obj)) = Inr InSync"
    and "fold (live_after env) (snd (update_topic cfg env cluster obj name cur)) (Some lt)
           = Some (wanted_topic obj)"
proof -
  let ?wanted = "kt_partitions (kt_spec obj)"
  let ?grown = "lt\<lparr>lt_partitions := ?wanted\<rparr>"
  let ?rest = "after_partitions cfg env cluster obj name cur"
  note rest = after_partitions_ready[of cfg env cluster obj name cur ?grown, simplified, OF _ assms(2-4)]
  consider "lt_partitions lt > ?wanted" | "lt_partitions lt = ?wanted" | "lt_partitions lt < ?wanted" by linarith
  then have "list_ex claims_ready (snd ?rest)
    \<and> fold (live_after env) (snd (update_topic cfg env cluster obj name cur)) (Some lt)
        = fold (live_after env) (snd ?rest) (Some ?grown)"
  proof cases
    case 1
    with ready parts show ?thesis
      by (simp add: update_topic_def snd_then_log claims_ready_patch split: sum.splits)
  next
    case 2
    then have grown: "?grown = lt" by (cases lt) simp
    from 2 ready parts show ?thesis unfolding grown by (simp add: update_topic_def)
  next
    case 3
    show ?thesis
    proof (cases "te_create_partitions env name ?wanted")
      case (Inl e)
      with 3 ready parts show ?thesis by (simp add: update_topic_def snd_then_log Let_def)
    next
      case (Inr outcomes)
      show ?thesis
      proof (cases outcomes)
        case Nil
        with 3 Inr ready parts show ?thesis by (simp add: update_topic_def snd_then_log Let_def)
      next
        case (Cons x xs)
        with 3 Inr ready parts have "last (x # xs) = None"
          by (cases "last (x # xs)")
            (auto simp: update_topic_def snd_then_log Let_def claims_ready_patch split: sum.splits)
        with 3 Inr Cons ready parts show ?thesis
          by (simp add: update_topic_def snd_then_log Let_def live_after_def)
      qed
    qed
  qed
  with rest show "te_replication env name (kt_replicas (kt_spec obj)) = Inr InSync"
    and "fold (live_after env) (snd (update_topic cfg env cluster obj name cur)) (Some lt) = Some (wanted_topic obj)"
    by simp_all
qed


text \<open>The way through the preparation: every early return is one of three shapes.\<close>

definition early_return :: "topic_env \<Rightarrow> kafka_topic \<Rightarrow> (reconcile_error, topic_preparation, topic_effect) logged \<Rightarrow> bool" where
  "early_return env obj r \<longleftrightarrow>
     (\<exists>reason message delay. r = report_topic env obj reason message delay) \<or> (\<exists>e. r = fail_log e)
     \<or> r = then_log (add_finalizer env) (ret_log (TopicDone (Requeue 0)))"

lemma report_topic_log [simp]:
  "\<not> list_ex claims_ready (snd (report_topic env obj reason message delay))"
  "fold (live_after env) (snd (report_topic env obj reason message delay)) live = live"
  "fst (report_topic env obj reason message delay) \<noteq> Inr (TopicReady c b n)"
  by (auto simp: report_topic_def snd_then_log fst_then_log claims_ready_patch split: sum.splits)

lemma report_topic_effects:
  "eff \<in> set (snd (report_topic env obj reason message delay)) \<Longrightarrow> \<exists>st. eff = PatchTopicStatus st"
  by (auto simp: report_topic_def snd_then_log patch_topic_status_def set_snd_attempt
      split: sum.splits if_splits)

lemma early_return_log:
  assumes "early_return env obj r"
  shows "\<not> list_ex claims_ready (snd r)" "fst r \<noteq> Inr (TopicReady c b n)"
    "eff \<in> set (snd r) \<Longrightarrow> (\<exists>st. eff = PatchTopicStatus st) \<or> eff = SetFinalizers [FINALIZER]"
proof -
  let ?add = "then_log (add_finalizer env) (ret_log (TopicDone (Requeue 0)))
      :: (reconcile_error, topic_preparation, topic_effect) logged"
  have add: "\<not> list_ex claims_ready (snd ?add)" "fst ?add \<noteq> Inr (TopicReady c b n)"
    "eff \<in> set (snd ?add) \<Longrightarrow> eff = SetFinalizers [FINALIZER]"
    by (auto simp: add_finalizer_def fst_then_log snd_then_log attempt_def claims_ready_def
        split: sum.splits option.splits)
  from assms show "\<not> list_ex claims_ready (snd r)" "fst r \<noteq> Inr (TopicReady c b n)"
    "eff \<in> set (snd r) \<Longrightarrow> (\<exists>st. eff = PatchTopicStatus st) \<or> eff = SetFinalizers [FINALIZER]"
    unfolding early_return_def using add by (auto dest: report_topic_effects)
qed

lemma finalize_log:
  "\<not> list_ex claims_ready (snd (finalize_topic env obj name))"
  "fst (finalize_topic env obj name) \<noteq> Inr (TopicReady c b n)"
  by (auto simp: finalize_topic_def remove_finalizer_def fst_then_log snd_then_log attempt_def claims_ready_def
      split: sum.splits option.splits)

lemma prepare_cases:
  obtains (early) "early_return env obj (prepare_topic cfg env obj)"
  | (finalize) cluster kafka bootstrap where
      "meta_label (kt_meta obj) ''krabka.io/cluster'' = Some cluster"
      "validate_kafka_topic_name (topic_name_of obj) = Inr ()"
      "te_get_kafka env cluster = Inr (Some kafka)" "operator_listener_bootstrap kafka = Some bootstrap"
      "meta_deletion_timestamp (kt_meta obj) \<noteq> None"
      "prepare_topic cfg env obj = finalize_topic env obj (topic_name_of obj)"
  | (ready) cluster kafka bootstrap where
      "meta_label (kt_meta obj) ''krabka.io/cluster'' = Some cluster"
      "validate_kafka_topic_name (topic_name_of obj) = Inr ()"
      "te_get_kafka env cluster = Inr (Some kafka)" "operator_listener_bootstrap kafka = Some bootstrap"
      "meta_deletion_timestamp (kt_meta obj) = None" "has_finalizer obj"
      "prepare_topic cfg env obj = ret_log (TopicReady cluster bootstrap (topic_name_of obj))"
proof (cases "meta_label (kt_meta obj) ''krabka.io/cluster''")
  case None
  then show thesis by (intro early) (auto simp: prepare_topic_def early_return_def)
next
  case (Some cluster)
  note label = this
  show thesis
  proof (cases "validate_kafka_topic_name (topic_name_of obj)")
    case (Inl message)
    with label show thesis
      by (intro early) (auto simp: prepare_topic_def Let_def topic_name_of_def early_return_def)
  next
    case (Inr u)
    note valid = this
    show thesis
    proof (cases "te_get_kafka env cluster")
      case (Inl e)
      with label valid have "prepare_topic cfg env obj = fail_log (Kube e)"
        by (auto simp: prepare_topic_def Let_def topic_name_of_def split: unit.splits)
      then show thesis by (intro early) (auto simp: early_return_def)
    next
      case (Inr kafka)
      note got = this
      show thesis
      proof (cases "Option.bind kafka operator_listener_bootstrap")
        case None
        with label valid got have "prepare_topic cfg env obj = report_topic env obj ''ClusterNotReady''
            (''Kafka/'' @ cluster @ '' not Ready or no internal listener'') (tcf_dependency_requeue cfg)"
          by (simp add: prepare_topic_def Let_def topic_name_of_def split: unit.splits)
        then show thesis by (intro early) (unfold early_return_def, blast)
      next
        case (Some bootstrap)
        then obtain k where k: "kafka = Some k" "operator_listener_bootstrap k = Some bootstrap"
          by (auto simp: bind_eq_Some_conv)
        show thesis
        proof (cases "meta_deletion_timestamp (kt_meta obj) = None")
          case True
          show thesis
          proof (cases "has_finalizer obj")
            case True': True
            with True label valid got k
            have "prepare_topic cfg env obj = ret_log (TopicReady cluster bootstrap (topic_name_of obj))"
              by (simp add: prepare_topic_def Let_def topic_name_of_def split: unit.splits)
            with True True' label valid got k show thesis by (intro ready) simp_all
          next
            case False
            with True label valid got k
            have "prepare_topic cfg env obj = then_log (add_finalizer env) (ret_log (TopicDone (Requeue 0)))"
              by (simp add: prepare_topic_def Let_def topic_name_of_def split: unit.splits)
            then show thesis by (intro early) (simp add: early_return_def)
          qed
        next
          case False
          with label valid got k
          have "prepare_topic cfg env obj = finalize_topic env obj (topic_name_of obj)"
            by (simp add: prepare_topic_def Let_def topic_name_of_def split: unit.splits)
          with False label valid got k show thesis by (intro finalize) simp_all
        qed
      qed
    qed
  qed
qed

lemma reconcile_ready:
  assumes "list_ex claims_ready (snd (reconcile_topic cfg env obj))"
  obtains cluster bootstrap where
    "prepare_topic cfg env obj = ret_log (TopicReady cluster bootstrap (topic_name_of obj))"
proof (cases rule: prepare_cases[of env obj cfg])
  case early
  from early_return_log[OF this] assms show thesis
    by (auto simp: reconcile_topic_def snd_bind_log split: sum.splits topic_preparation.splits)
next
  case finalize
  with finalize_log[of env obj "topic_name_of obj"] assms show thesis
    by (auto simp: reconcile_topic_def snd_bind_log split: sum.splits topic_preparation.splits)
qed (rule that)

text \<open>C6: A pass that reports \<open>Ready=True\<close> leaves the topic as the resource asks for:
  where the broker's answers describe the topic it holds and accepted requests take effect, the
  topic then exists with exactly the wanted partition count and configuration, and an already
  existing topic has the wanted replication factor on every partition.\<close>

theorem ready_topic_matches_spec:
  assumes "list_ex claims_ready (snd (reconcile_topic cfg env obj))"
    and "reports env (topic_name_of obj) live"
    and "\<forall>lt. live = Some lt \<longrightarrow> bm_ok (lt_configs lt)"
    and "bm_ok (unwrap_or [] (kt_config (kt_spec obj)))"
  shows "fold (live_after env) (snd (reconcile_topic cfg env obj)) live = Some (wanted_topic obj)
    \<and> (live \<noteq> None \<longrightarrow> te_replication env (topic_name_of obj) (kt_replicas (kt_spec obj)) = Inr InSync)"
proof -
  from assms(1) obtain cluster bootstrap where
    p: "prepare_topic cfg env obj = ret_log (TopicReady cluster bootstrap (topic_name_of obj))"
    by (elim reconcile_ready)
  note unf = reconcile_topic_def p
  from assms(1) obtain topics where t: "te_connect env = None" "te_metadata env (topic_name_of obj) = Inr topics"
    by (cases "te_metadata env (topic_name_of obj)") (auto simp: unf split: option.splits)
  show ?thesis
  proof (cases live)
    case None
    with assms(2) t have "existing_topic topics (topic_name_of obj) = None" by (simp add: reports_def)
    with assms(1) t create_topic_ready None show ?thesis
      by (simp add: unf)
  next
    case (Some lt)
    with assms(2) t obtain cur where cur: "existing_topic topics (topic_name_of obj) = Some cur"
      "tm_partition_count cur = lt_partitions lt" by (auto simp: reports_def)
    from assms(2) Some have c: "\<And>c. described env (topic_name_of obj) = Inr c \<Longrightarrow> c = lt_configs lt"
      by (simp add: reports_def described_Inr)
    from assms(1) t cur have "list_ex claims_ready (snd (update_topic cfg env cluster obj (topic_name_of obj) cur))"
      by (simp add: unf)
    from update_topic_ready[OF this c] assms(3,4) Some t cur show ?thesis
      by (simp add: unf)
  qed
qed


section \<open>Guards of the mutations\<close>

primrec mutates :: "topic_effect \<Rightarrow> bool" where
  "mutates (PatchTopicStatus st) = False"
| "mutates (SetFinalizers fs) = False"
| "mutates (DeleteTopics n) = True"
| "mutates (CreateTopic n p r c) = True"
| "mutates (CreatePartitions n p) = True"
| "mutates (ReconcileReplication n r) = True"
| "mutates (AlterConfigs n ops) = True"
| "mutates (DropAdminClient c) = False"

lemma patch_topic_status_effects:
  "set (snd (patch_topic_status env obj state tid adv)) \<subseteq> range PatchTopicStatus"
  by (auto simp: patch_topic_status_def set_snd_attempt)

lemma patch_not_mutates:
  "eff \<in> set (snd (patch_topic_status env obj state tid adv)) \<Longrightarrow> \<not> mutates eff"
  using patch_topic_status_effects by fastforce

lemma admin_failed_not_mutates: "eff \<in> set (snd (admin_failed cfg cluster e)) \<Longrightarrow> \<not> mutates eff"
  by (auto simp: admin_failed_def set_snd_then_log split: if_splits)

lemmas not_mutates = patch_not_mutates admin_failed_not_mutates

lemma create_topic_mutates:
  assumes "eff \<in> set (snd (create_topic cfg env cluster obj name))" "mutates eff"
  shows "eff = CreateTopic name (kt_partitions (kt_spec obj)) (kt_replicas (kt_spec obj))
           (unwrap_or [] (kt_config (kt_spec obj)))"
  using assms
  by (auto simp: create_topic_def Let_def set_snd_then_log dest: not_mutates
      split: sum.splits list.splits prod.splits option.splits)

lemma replication_mutates:
  assumes "eff \<in> set (snd (reconcile_replication_factor cfg env cluster obj name tid))" "mutates eff"
  shows "eff = ReconcileReplication name (kt_replicas (kt_spec obj))"
  using assms
  by (auto simp: reconcile_replication_factor_def Let_def set_snd_then_log set_snd_bind_log dest: not_mutates
      split: sum.splits admin_error.splits replication_status.splits)

lemma sync_configs_mutates:
  assumes "eff \<in> set (snd (sync_configs cfg env cluster obj name cur))" "mutates eff"
  shows "\<exists>overrides. described env name = Inr overrides
           \<and> eff = AlterConfigs name (diff_configs overrides (unwrap_or [] (kt_config (kt_spec obj))))
           \<and> diff_configs overrides (unwrap_or [] (kt_config (kt_spec obj))) \<noteq> []"
  using assms unfolding sync_configs_def Let_def described_def [symmetric]
  by (cases "described env name")
    (auto simp: set_snd_then_log dest: not_mutates split: sum.splits option.splits if_splits)

lemma update_topic_mutates:
  assumes "eff \<in> set (snd (update_topic cfg env cluster obj name cur))" "mutates eff"
  shows "tm_partition_count cur \<le> kt_partitions (kt_spec obj)
    \<and> (eff = CreatePartitions name (kt_partitions (kt_spec obj)) \<and> tm_partition_count cur < kt_partitions (kt_spec obj)
       \<or> eff = ReconcileReplication name (kt_replicas (kt_spec obj))
       \<or> (\<exists>ops. eff = AlterConfigs name ops \<and> ops \<noteq> []))"
proof -
  have rest: "eff' \<in> set (snd (after_partitions cfg env cluster obj name cur)) \<Longrightarrow> mutates eff' \<Longrightarrow>
      eff' = ReconcileReplication name (kt_replicas (kt_spec obj)) \<or> (\<exists>ops. eff' = AlterConfigs name ops \<and> ops \<noteq> [])"
    for eff'
    by (auto simp: after_partitions_def set_snd_bind_log dest: replication_mutates sync_configs_mutates
        split: sum.splits option.splits)
  show ?thesis
    using assms unfolding update_topic_def Let_def
    by (auto simp: set_snd_then_log dest: not_mutates rest split: sum.splits list.splits option.splits if_splits)
qed

text \<open>C17: Requests that change a topic are guarded. Deletion is requested only for a
  resource that is being deleted and does not preserve its topic; everything else only for a
  resource that is not being deleted and holds the finalizer. A topic is created only when the
  cluster does not report it, with exactly the figures of the resource; its partition count is only
  ever raised, to the wanted figure; and a topic with more partitions than wanted is left
  alone. All requests name the topic of the resource.\<close>

theorem topic_mutations_guarded:
  assumes "eff \<in> set (snd (reconcile_topic cfg env obj))" "mutates eff"
  shows "if meta_deletion_timestamp (kt_meta obj) \<noteq> None
         then eff = DeleteTopics (topic_name_of obj) \<and> \<not> kt_preserve (kt_spec obj) \<and> te_connect env = None
         else has_finalizer obj \<and> (\<exists>topics. te_metadata env (topic_name_of obj) = Inr topics \<and>
           (case existing_topic topics (topic_name_of obj) of
              None \<Rightarrow> eff = CreateTopic (topic_name_of obj) (kt_partitions (kt_spec obj)) (kt_replicas (kt_spec obj))
                        (unwrap_or [] (kt_config (kt_spec obj)))
            | Some cur \<Rightarrow>
                tm_partition_count cur \<le> kt_partitions (kt_spec obj) \<and>
                (eff = CreatePartitions (topic_name_of obj) (kt_partitions (kt_spec obj))
                   \<and> tm_partition_count cur < kt_partitions (kt_spec obj)
                 \<or> eff = ReconcileReplication (topic_name_of obj) (kt_replicas (kt_spec obj))
                 \<or> (\<exists>ops. eff = AlterConfigs (topic_name_of obj) ops \<and> ops \<noteq> []))))"
proof (cases rule: prepare_cases[of env obj cfg])
  case early
  with assms(1) have "eff \<in> set (snd (prepare_topic cfg env obj))"
    by (auto simp: reconcile_topic_def set_snd_bind_log early_return_log(2)
        split: sum.splits topic_preparation.splits)
  from early_return_log(3)[OF early this] assms(2) show ?thesis by auto
next
  case finalize
  then show ?thesis
    using assms
    by (auto simp: reconcile_topic_def set_snd_bind_log set_snd_then_log fst_bind_log fst_then_log
        finalize_topic_def remove_finalizer_def set_snd_attempt split: sum.splits if_splits)
next
  case (ready cluster kafka bootstrap)
  with assms obtain topics where t: "te_connect env = None" "te_metadata env (topic_name_of obj) = Inr topics"
    by (cases "te_metadata env (topic_name_of obj)")
      (auto simp: reconcile_topic_def dest: not_mutates split: option.splits)
  with ready assms show ?thesis
    by (auto simp: reconcile_topic_def dest: create_topic_mutates update_topic_mutates split: option.splits)
qed


section \<open>Deletion\<close>

text \<open>A pass over a resource that is being deleted. While its cluster has no ready
  operator listener (also when the cluster itself is gone) the pass only writes a status, so the
  finalizer stays and the resource cannot go away. Otherwise it asks the broker to delete the topic
  (not when the topic is to be preserved or no connection can be made) and then replaces the whole
  list of finalizers by the empty one, whatever other controllers put there.\<close>

theorem deleted_topic_pass:
  assumes "meta_deletion_timestamp (kt_meta obj) \<noteq> None"
    and "meta_label (kt_meta obj) ''krabka.io/cluster'' = Some cluster"
    and "validate_kafka_topic_name (topic_name_of obj) = Inr ()"
    and "te_get_kafka env cluster = Inr kafka"
    and "te_patch_status env = None" "te_patch_meta env = None"
  shows "case Option.bind kafka operator_listener_bootstrap of
      None \<Rightarrow> fst (reconcile_topic cfg env obj) = Inr (Requeue (tcf_dependency_requeue cfg))
        \<and> (\<exists>st. snd (reconcile_topic cfg env obj) = [PatchTopicStatus st])
    | Some bootstrap \<Rightarrow> reconcile_topic cfg env obj
        = (Inr AwaitChange,
           (if kt_preserve (kt_spec obj) \<or> te_connect env \<noteq> None then [] else [DeleteTopics (topic_name_of obj)])
             @ [SetFinalizers []])"
proof (cases "Option.bind kafka operator_listener_bootstrap")
  case None
  with assms have "prepare_topic cfg env obj = report_topic env obj ''ClusterNotReady''
      (''Kafka/'' @ cluster @ '' not Ready or no internal listener'') (tcf_dependency_requeue cfg)"
    by (simp add: prepare_topic_def Let_def topic_name_of_def split: unit.splits)
  with None assms(5) show ?thesis
    by (simp add: reconcile_topic_def report_topic_def fst_bind_log snd_bind_log fst_then_log snd_then_log
        patch_topic_status_def attempt_def requeue_def)
next
  case (Some bootstrap)
  with assms have "prepare_topic cfg env obj = finalize_topic env obj (topic_name_of obj)"
    by (simp add: prepare_topic_def Let_def topic_name_of_def split: unit.splits)
  with Some assms(6) show ?thesis
    by (simp add: reconcile_topic_def finalize_topic_def remove_finalizer_def then_log_def attempt_def)
      (simp add: bind_log_def emit_def ret_log_def)
qed

section \<open>Instances\<close>

definition sample_cluster :: cluster_view where
  "sample_cluster = \<lparr>cv_listeners = [], cv_inter_broker = None,
     cv_status = Some \<lparr>cst_conditions = [condition ''t'' ''Ready'' ''True'' ''Ready'' ''ready''],
       cst_listeners = [\<lparr>lst_name = ''OPERATOR'', lst_type = Internal, lst_bootstrap_servers = ''kafka:9091''\<rparr>]\<rparr>\<rparr>"

definition sample_topic_env :: topic_env where
  "sample_topic_env = \<lparr>te_now = ''t'', te_get_kafka = (\<lambda>_. Inr (Some sample_cluster)), te_patch_status = None,
     te_patch_meta = None, te_connect = None,
     te_metadata = (\<lambda>n. Inr [\<lparr>tm_name = n, tm_error = None, tm_partition_count = 3, tm_topic_id = Some ''id''\<rparr>]),
     te_create_topics = (\<lambda>_ _ _ _. Inr [(None, None)]), te_create_partitions = (\<lambda>_ _. Inr [None]),
     te_replication = (\<lambda>_ _. Inr InSync),
     te_describe_configs = (\<lambda>_. Inr (Some (Inr [(''retention.ms'', ''1'')]))),
     te_alter_configs = (\<lambda>_ _. Inr [None])\<rparr>"

definition sample_topic_config :: topic_config where
  "sample_topic_config = \<lparr>tcf_error_requeue = 10, tcf_drift_requeue = 60, tcf_invalid_requeue = 300,
     tcf_dependency_requeue = 15\<rparr>"

definition sample_topic :: kafka_topic where
  "sample_topic = \<lparr>kt_meta = (plain_meta ''orders'')\<lparr>meta_labels := Some [(''krabka.io/cluster'', ''prod'')],
       meta_finalizers := Some [FINALIZER]\<rparr>,
     kt_spec = \<lparr>kt_topic_name = None, kt_partitions = 6, kt_replicas = 3,
       kt_config = Some [(''cleanup.policy'', ''compact'')], kt_preserve = False\<rparr>, kt_status = None\<rparr>"

definition dying_topic :: kafka_topic where
  "dying_topic = sample_topic\<lparr>kt_meta := (kt_meta sample_topic)\<lparr>meta_deletion_timestamp := Some ''t'',
     meta_finalizers := Some [FINALIZER, ''other.io/guard'']\<rparr>\<rparr>"

theorem ready_topic_matches_spec_witness:
  "fold (live_after sample_topic_env) (snd (reconcile_topic sample_topic_config sample_topic_env sample_topic))
     (Some \<lparr>lt_partitions = 3, lt_configs = [(''retention.ms'', ''1'')]\<rparr>)
   = Some \<lparr>lt_partitions = 6, lt_configs = [(''cleanup.policy'', ''compact'')]\<rparr>"
proof -
  have "list_ex claims_ready (snd (reconcile_topic sample_topic_config sample_topic_env sample_topic))"
    by code_simp
  moreover have "reports sample_topic_env (topic_name_of sample_topic)
      (Some \<lparr>lt_partitions = 3, lt_configs = [(''retention.ms'', ''1'')]\<rparr>)"
    by code_simp
  moreover have "wanted_topic sample_topic = \<lparr>lt_partitions = 6, lt_configs = [(''cleanup.policy'', ''compact'')]\<rparr>"
    "bm_ok (unwrap_or [] (kt_config (kt_spec sample_topic)))"
    by (code_simp, code_simp)
  ultimately show ?thesis
    using ready_topic_matches_spec[of sample_topic_config sample_topic_env sample_topic
        "Some \<lparr>lt_partitions = 3, lt_configs = [(''retention.ms'', ''1'')]\<rparr>"]
    by (simp add: bm_ok_def)
qed

theorem topic_mutations_guarded_witness:
  "mutates (CreatePartitions ''orders'' 6)
   \<and> CreatePartitions ''orders'' 6 \<in> set (snd (reconcile_topic sample_topic_config sample_topic_env sample_topic))
   \<and> has_finalizer sample_topic"
proof -
  have eff: "CreatePartitions ''orders'' 6 \<in> set (snd (reconcile_topic sample_topic_config sample_topic_env sample_topic))"
    by code_simp
  moreover have "mutates (CreatePartitions ''orders'' 6)" by simp
  moreover have "meta_deletion_timestamp (kt_meta sample_topic) = None" by code_simp
  ultimately show ?thesis
    using topic_mutations_guarded[OF eff] by simp
qed

theorem deleted_topic_pass_witness:
  "reconcile_topic sample_topic_config sample_topic_env dying_topic
     = (Inr AwaitChange, [DeleteTopics ''orders'', SetFinalizers []])"
proof -
  have "meta_deletion_timestamp (kt_meta dying_topic) \<noteq> None" "validate_kafka_topic_name (topic_name_of dying_topic) = Inr ()"
    "meta_label (kt_meta dying_topic) ''krabka.io/cluster'' = Some ''prod''"
    "te_patch_status sample_topic_env = None" "te_patch_meta sample_topic_env = None"
    "te_connect sample_topic_env = None" "\<not> kt_preserve (kt_spec dying_topic)" "topic_name_of dying_topic = ''orders''"
    "operator_listener_bootstrap sample_cluster = Some ''kafka:9091''"
    by (code_simp, code_simp, code_simp, code_simp, code_simp, code_simp, code_simp, code_simp, code_simp)
  moreover have "te_get_kafka sample_topic_env ''prod'' = Inr (Some sample_cluster)"
    by (simp add: sample_topic_env_def)
  ultimately show ?thesis
    using deleted_topic_pass[of dying_topic "''prod''" sample_topic_env "Some sample_cluster" sample_topic_config]
    by simp
qed

end
