(* ===== verification/User_Credentials.thy ===== *)
theory User_Credentials
  imports Topic Cluster_Ca Complex_Main
begin

text \<open>
  The \<open>KafkaUser\<close> resource (\<open>crd/user.rs\<close>) and the Secrets with the credentials of
  its password and certificate users: \<open>controller/user_tls.rs\<close> and the Secret
  section of \<open>controller/user.rs\<close>. Random numbers, base64, certificate signing
  and X.509 parsing are library code, so they are fields of the environment.
  Quota values are the rational numbers that finite \<open>f64\<close> values denote.
\<close>

section \<open>The resource\<close>

datatype acl_resource_kind = AclTopic | AclGroup | AclCluster | AclTransactionalId

datatype acl_pattern_type = Literal | Prefixed

datatype acl_op =
    OpAll | OpRead | OpWrite | OpCreate | OpDelete | OpAlter | OpDescribe | OpClusterAction
  | OpDescribeConfigs | OpAlterConfigs | OpIdempotentWrite

datatype acl_permission = Allow | Deny

record acl_resource =
  ar_kind :: acl_resource_kind
  ar_name :: string
  ar_pattern_type :: acl_pattern_type

record acl_rule =
  rule_resource :: acl_resource
  rule_operations :: "acl_op list"
  rule_host :: string
  rule_permission :: acl_permission

datatype authorization = Simple "acl_rule list"

record scram_auth =
  sc_iterations :: "int option"
  sc_password_length :: "nat option"

record tls_auth =
  ta_validity_days :: "u32 option"
  ta_renewal_days :: "u32 option"

record delegation_token_auth =
  dt_renewers :: "string list"
  dt_max_lifetime :: "time option"
  dt_renew_before_expiry :: "time option"

datatype authentication =
    ScramSha512 scram_auth
  | ScramSha256 scram_auth
  | Tls tls_auth
  | TlsExternal
  | DelegationToken delegation_token_auth

record kafka_user_quotas =
  q_producer_byte_rate :: "int option"
  q_consumer_byte_rate :: "int option"
  q_request_percentage :: "int option"
  q_controller_mutation_rate :: "rat option"

type_synonym quota_map = "(string, rat) bmap"

definition insert_opt :: "string \<Rightarrow> rat option \<Rightarrow> quota_map \<Rightarrow> quota_map" where
  "insert_opt k v m = (case v of None \<Rightarrow> m | Some x \<Rightarrow> bm_insert k x m)"

definition to_quota_map :: "kafka_user_quotas \<Rightarrow> quota_map" where
  "to_quota_map q =
     insert_opt ''controller_mutation_rate'' (q_controller_mutation_rate q)
       (insert_opt ''request_percentage'' (map_option of_int (q_request_percentage q))
         (insert_opt ''consumer_byte_rate'' (map_option of_int (q_consumer_byte_rate q))
           (insert_opt ''producer_byte_rate'' (map_option of_int (q_producer_byte_rate q)) [])))"

record kafka_user_spec =
  us_authentication :: authentication
  us_authorization :: "authorization option"
  us_quotas :: "kafka_user_quotas option"

record kafka_user_status =
  ust_conditions :: "kafka_condition list"
  ust_observed_generation :: "int option"
  ust_username :: "string option"
  ust_secret :: "string option"
  ust_scram_sha512 :: bool
  ust_scram_sha256 :: bool
  ust_quotas_in_sync :: bool
  ust_tls :: bool
  ust_external :: bool
  ust_tls_cert_not_after :: "string option"
  ust_tls_principal :: "string option"
  ust_delegation_token_id :: "string option"
  ust_delegation_token_expiry_ms :: "int option"
  ust_delegation_token_max_ms :: "int option"

record kafka_user =
  ku_meta :: object_meta
  ku_spec :: kafka_user_spec
  ku_status :: "kafka_user_status option"

section \<open>Access control entries of the admin client\<close>

text \<open>
  The types of \<open>krabka_client_admin\<close> as far as the controller builds their values; a
  broker may report others.
\<close>

datatype admin_resource_type = RtTopic | RtGroup | RtCluster | RtTransactionalId | RtOther nat
datatype admin_pattern_type = PtLiteral | PtPrefixed | PtOther nat
datatype admin_operation =
    AoAll | AoRead | AoWrite | AoCreate | AoDelete | AoAlter | AoDescribe | AoClusterAction
  | AoDescribeConfigs | AoAlterConfigs | AoIdempotentWrite | AoOther nat
datatype admin_permission = ApAllow | ApDeny | ApOther nat

record acl_entry =
  ae_resource_type :: admin_resource_type
  ae_resource_name :: string
  ae_pattern_type :: admin_pattern_type
  ae_principal :: string
  ae_host :: string
  ae_operation :: admin_operation
  ae_permission_type :: admin_permission

section \<open>Environment and effects of a pass over a user\<close>

record delegation_token =
  tok_id :: string
  tok_owner :: string
  tok_renewers :: "string list"
  tok_hmac :: string
  tok_expiry_ms :: int
  tok_max_ms :: int

datatype quota_op = SetQuota string rat | RemoveQuota string

record user_cert =
  uct_cert_pem :: string
  uct_key_pem :: string
  uct_not_after :: string

text \<open>
  The merge patches on the status: the whole status of a password or certificate user, the
  access fields, the conditions alone, and the identity of a token.
\<close>

record full_status =
  fs_conditions :: "kafka_condition list"
  fs_observed_generation :: "int option"
  fs_username :: string
  fs_secret :: "string option"
  fs_scram_sha512 :: bool
  fs_scram_sha256 :: bool
  fs_tls :: bool
  fs_external :: bool
  fs_tls_cert_not_after :: "string option"
  fs_tls_principal :: "string option"
  fs_quotas_in_sync :: bool

record token_identity =
  ti_username :: string
  ti_secret :: string
  ti_token_id :: string
  ti_expiry_ms :: int
  ti_max_ms :: int
  ti_conditions :: "kafka_condition list option"

datatype user_status_patch =
    FullStatus full_status
  | AccessStatus "kafka_condition list" "int option" bool
  | ConditionsStatus "kafka_condition list"
  | TokenIdentity token_identity

record user_env =
  ue_now :: string
  ue_time :: time
  ue_now_ms :: int
  ue_get_kafka :: "string \<Rightarrow> kube_error + (cluster_view \<times> kafka_owner) option"
  ue_ca :: ca_env
  ue_merge_secret :: "string \<Rightarrow> kube_error option"
  ue_patch_status :: "user_status_patch \<Rightarrow> kube_error option"
  ue_patch_meta :: "kube_error option"
  ue_random :: "nat \<Rightarrow> string"
  ue_base64_url :: "string \<Rightarrow> string"
  ue_base64 :: "string \<Rightarrow> string"
  ue_issue_user_cert :: "string \<Rightarrow> string \<Rightarrow> string \<Rightarrow> u32 \<Rightarrow> string + user_cert"
  ue_cert_not_after :: "string \<Rightarrow> time option"
  ue_signed_by :: "string \<Rightarrow> string \<Rightarrow> bool"
  ue_common_name :: "string \<Rightarrow> string option"
  ue_matches_key :: "string \<Rightarrow> string \<Rightarrow> bool"
  ue_connect :: "admin_error option"
  ue_error_text :: "admin_error \<Rightarrow> string"
  ue_upsert_scram :: "bool \<Rightarrow> string \<Rightarrow> string \<Rightarrow> int \<Rightarrow> admin_error + kafka_error option list"
  ue_describe_acls :: "string \<Rightarrow> admin_error + acl_entry list"
  ue_create_acls :: "acl_entry set \<Rightarrow> admin_error + kafka_error option list"
  ue_delete_acls :: "acl_entry set \<Rightarrow> admin_error + kafka_error option list"
  ue_describe_quotas :: "string \<Rightarrow> admin_error + quota_map"
  ue_diff_quotas :: "quota_map \<Rightarrow> quota_map \<Rightarrow> quota_op list"
  ue_alter_quotas :: "string \<Rightarrow> quota_op list \<Rightarrow> admin_error + kafka_error option"
  ue_describe_tokens :: "string \<Rightarrow> admin_error + delegation_token list"
  ue_create_token :: "string \<Rightarrow> string list \<Rightarrow> time option \<Rightarrow> admin_error + delegation_token"
  ue_renew_token :: "string \<Rightarrow> admin_error + int"
  ue_expire_token :: "string \<Rightarrow> admin_error option"

datatype user_effect =
    PatchUserStatus user_status_patch
  | SetUserFinalizers "string list"
  | UserCa ca_effect
  | ApplyUserSecret string secret
  | MergeUserSecret string "(string, string) bmap"
  | UpsertScram bool string string int
  | DeleteScram bool string
  | CreateAcls "acl_entry set"
  | DeleteAcls "acl_entry set"
  | DeleteAclsOf string
  | AlterQuotas string "quota_op list"
  | CreateToken string "string list" "time option"
  | RenewToken string
  | ExpireToken string
  | DropUserAdmin string

type_synonym 'a user_step = "(reconcile_error, 'a, user_effect) logged"

definition get_user_secret :: "user_env \<Rightarrow> string \<Rightarrow> secret option user_step" where
  "get_user_secret env name = lift_log (map_sum Kube id (ce_get_secret (ue_ca env) name))"

definition apply_user_secret :: "user_env \<Rightarrow> string \<Rightarrow> secret \<Rightarrow> unit user_step" where
  "apply_user_secret env name s = attempt Kube (ce_patch_secret (ue_ca env) name) (ApplyUserSecret name s)"

definition merge_user_secret :: "user_env \<Rightarrow> string \<Rightarrow> (string, string) bmap \<Rightarrow> unit user_step" where
  "merge_user_secret env name entries =
     attempt Kube (ue_merge_secret env name) (MergeUserSecret name entries)"

section \<open>Labels and owners of the Secrets\<close>

definition user_owner_ref :: "kafka_user \<Rightarrow> reconcile_error + owner_reference" where
  "user_owner_ref obj = owner_ref ''krabka.io/v1alpha1'' ''KafkaUser'' (ku_meta obj)"

definition user_labels :: "kafka_user \<Rightarrow> (string \<times> string) list \<Rightarrow> (string, string) bmap" where
  "user_labels obj extra =
     bm_collect ([(''app.kubernetes.io/name'', ''krabka-broker''),
                  (''app.kubernetes.io/managed-by'', ''krabka-operator'')]
       @ (case meta_label (ku_meta obj) ''krabka.io/cluster'' of
            None \<Rightarrow> [] | Some c \<Rightarrow> [(''krabka.io/cluster'', c)])
       @ (''krabka.io/user'', meta_name (ku_meta obj)) # extra)"

definition render_user_secret ::
  "kafka_user \<Rightarrow> (string \<times> string) list \<Rightarrow> (string \<times> string) list \<Rightarrow> reconcile_error + secret" where
  "render_user_secret obj extra_labels entries =
     bind_result (user_owner_ref obj) (\<lambda>owner.
       Inr \<lparr>secret_meta = (plain_meta (meta_name (ku_meta obj)))
              \<lparr>meta_namespace := meta_namespace (ku_meta obj),
               meta_labels := Some (user_labels obj extra_labels), meta_owner_references := [owner]\<rparr>,
            secret_type = Some ''Opaque'', secret_data = Some (bm_collect entries)\<rparr>)"

section \<open>Passwords\<close>

definition read_password :: "secret \<Rightarrow> string option" where
  "read_password s = Option.bind (secret_value s ''password'') (\<lambda>b. result_ok (from_utf8 b))"

definition random_password :: "user_env \<Rightarrow> nat \<Rightarrow> string" where
  "random_password env len_bytes = ue_base64_url env (ue_random env len_bytes)"

definition scram_module :: string where
  "scram_module = ''org.apache.kafka.common.security.scram.ScramLoginModule required ''"

definition quoted :: "string \<Rightarrow> string \<Rightarrow> string" where
  "quoted key v = key @ ''='' @ [CHR 0x22] @ v @ [CHR 0x22]"

definition render_password_secret :: "kafka_user \<Rightarrow> string \<Rightarrow> reconcile_error + secret" where
  "render_password_secret obj password =
     (let name = meta_name (ku_meta obj);
          jaas = scram_module @ quoted ''username'' name @ '' '' @ quoted ''password'' password @ '';''
      in render_user_secret obj [] [(''password'', password), (''sasl.jaas.config'', jaas)])"

definition ensure_password_secret :: "user_env \<Rightarrow> kafka_user \<Rightarrow> nat \<Rightarrow> string user_step" where
  "ensure_password_secret env obj password_len_bytes =
     (let name = meta_name (ku_meta obj) in
      bind_log (get_user_secret env name) (\<lambda>existing.
        case Option.bind existing read_password of
          Some p \<Rightarrow> ret_log p
        | None \<Rightarrow>
            (let password = random_password env password_len_bytes in
             bind_log (lift_log (render_password_secret obj password)) (\<lambda>s.
               then_log (apply_user_secret env name s) (ret_log password)))))"

section \<open>Client certificates\<close>

definition DEFAULT_VALIDITY_DAYS :: u32 where
  "DEFAULT_VALIDITY_DAYS = 365"

definition DEFAULT_RENEWAL_DAYS :: u32 where
  "DEFAULT_RENEWAL_DAYS = 30"

definition OPERATOR_IDENTITY :: string where
  "OPERATOR_IDENTITY = ''krabka-operator@internal''"

definition OPERATOR_IDENTITY_ANNOTATION :: string where
  "OPERATOR_IDENTITY_ANNOTATION = ''krabka.io/internal-operator-identity''"

definition operator_secret_name :: "string \<Rightarrow> string" where
  "operator_secret_name cluster = cluster @ ''-operator-identity''"

definition is_operator_identity_secret :: "secret \<Rightarrow> bool" where
  "is_operator_identity_secret s \<longleftrightarrow>
     meta_annotation (secret_meta s) OPERATOR_IDENTITY_ANNOTATION = Some ''true''"

record user_cert_status =
  ucs_not_after :: string
  ucs_issued_new :: bool

definition tls_principal :: "string \<Rightarrow> string" where
  "tls_principal name = ''User:CN='' @ name"

definition is_cert_expiring_soon :: "time \<Rightarrow> u32 \<Rightarrow> time \<Rightarrow> bool" where
  "is_cert_expiring_soon not_after renewal_days t \<longleftrightarrow> not_after \<le> t + days renewal_days"

definition read_user_cert_not_after :: "user_env \<Rightarrow> secret \<Rightarrow> time option" where
  "read_user_cert_not_after env s = Option.bind (read_pem_key s ''user.crt'') (ue_cert_not_after env)"

text \<open>The certificate of an existing Secret that may stay, by its expiry instant.\<close>

definition reusable_cert ::
  "user_env \<Rightarrow> u32 \<Rightarrow> (secret \<Rightarrow> string \<Rightarrow> bool) \<Rightarrow> secret option \<Rightarrow> (secret \<times> time) option" where
  "reusable_cert env renewal accepts existing =
     (case existing of
        None \<Rightarrow> None
      | Some s \<Rightarrow>
          (case read_user_cert_not_after env s of
             None \<Rightarrow> None
           | Some not_after \<Rightarrow>
               if \<not> is_cert_expiring_soon not_after renewal (ue_time env)
                  \<and> (case read_pem_key s ''user.crt'' of None \<Rightarrow> False | Some cert \<Rightarrow> accepts s cert)
               then Some (s, not_after) else None))"

text \<open>Keeping a certificate: only the trust bundle beside it is brought up to date.\<close>

definition keep_cert :: "user_env \<Rightarrow> string \<Rightarrow> secret \<Rightarrow> time \<Rightarrow> string \<Rightarrow> user_cert_status user_step" where
  "keep_cert env name s not_after trust =
     then_log (if read_pem_key s ''ca.crt'' \<noteq> Some trust then merge_user_secret env name [(''ca.crt'', trust)]
               else ret_log ())
       (bind_log (lift_log (map_sum CertParse id (ce_format (ue_ca env) not_after))) (\<lambda>text.
          ret_log \<lparr>ucs_not_after = text, ucs_issued_new = False\<rparr>))"

definition render_user_cert_secret :: "kafka_user \<Rightarrow> user_cert \<Rightarrow> string \<Rightarrow> reconcile_error + secret" where
  "render_user_cert_secret obj cert ca_cert_pem =
     render_user_secret obj [(''krabka.io/auth'', ''tls'')]
       [(''user.crt'', uct_cert_pem cert), (''user.key'', uct_key_pem cert), (''ca.crt'', ca_cert_pem)]"

definition ensure_user_cert_secret ::
  "user_env \<Rightarrow> kafka_user \<Rightarrow> ca_material \<Rightarrow> string \<Rightarrow> tls_auth \<Rightarrow> user_cert_status user_step" where
  "ensure_user_cert_secret env obj ca trust auth =
     (let name = meta_name (ku_meta obj);
          validity = unwrap_or DEFAULT_VALIDITY_DAYS (ta_validity_days auth);
          renewal = unwrap_or DEFAULT_RENEWAL_DAYS (ta_renewal_days auth)
      in bind_log (get_user_secret env name) (\<lambda>existing.
           case reusable_cert env renewal (\<lambda>_ cert. ue_signed_by env cert (cm_cert_pem ca)) existing of
             Some (s, not_after) \<Rightarrow> keep_cert env name s not_after trust
           | None \<Rightarrow>
               bind_log (lift_log (map_sum Ca id
                   (ue_issue_user_cert env (cm_cert_pem ca) (cm_key_pem ca) name validity))) (\<lambda>cert.
                 bind_log (lift_log (render_user_cert_secret obj cert trust)) (\<lambda>s.
                   then_log (apply_user_secret env name s)
                     (ret_log \<lparr>ucs_not_after = uct_not_after cert, ucs_issued_new = True\<rparr>)))))"

definition reconcile_user_cert_secret ::
  "user_env \<Rightarrow> kafka_user \<Rightarrow> kafka_owner \<Rightarrow> tls_auth \<Rightarrow> user_cert_status user_step" where
  "reconcile_user_cert_secret env obj kafka auth =
     bind_log (map_log UserCa (reconcile_ca (ue_ca env) kafka Clients False False False (ue_time env))) (\<lambda>ca.
       ensure_user_cert_secret env obj (co_signing ca) (co_trust_bundle ca) auth)"

fun reissue_tls_user_cert_secrets ::
  "user_env \<Rightarrow> kafka_user list \<Rightarrow> ca_material \<Rightarrow> string \<Rightarrow> nat user_step" where
  "reissue_tls_user_cert_secrets env [] ca trust = ret_log 0"
| "reissue_tls_user_cert_secrets env (u # users) ca trust =
     (case (meta_deletion_timestamp (ku_meta u), us_authentication (ku_spec u)) of
        (None, Tls auth) \<Rightarrow>
          bind_log (ensure_user_cert_secret env u ca trust auth) (\<lambda>status.
            bind_log (reissue_tls_user_cert_secrets env users ca trust) (\<lambda>issued.
              ret_log ((if ucs_issued_new status then 1 else 0) + issued)))
      | _ \<Rightarrow> reissue_tls_user_cert_secrets env users ca trust)"

definition render_operator_secret :: "kafka_owner \<Rightarrow> string \<Rightarrow> user_cert \<Rightarrow> string \<Rightarrow> reconcile_error + secret" where
  "render_operator_secret kafka name cert trust =
     bind_result (owner_ref ''krabka.io/v1alpha1'' ''Kafka'' (ko_meta kafka)) (\<lambda>owner.
       Inr \<lparr>secret_meta = (plain_meta name)
              \<lparr>meta_namespace := meta_namespace (ko_meta kafka),
               meta_labels := Some (bm_collect [(''app.kubernetes.io/managed-by'', ''krabka-operator''),
                 (''krabka.io/cluster'', meta_name (ko_meta kafka)), (''krabka.io/auth'', ''tls'')]),
               meta_annotations := Some [(OPERATOR_IDENTITY_ANNOTATION, ''true'')],
               meta_owner_references := [owner]\<rparr>,
            secret_type = Some ''Opaque'',
            secret_data = Some (bm_collect [(''user.crt'', uct_cert_pem cert), (''user.key'', uct_key_pem cert),
              (''ca.crt'', trust)])\<rparr>)"

definition ensure_operator_cert_secret ::
  "user_env \<Rightarrow> kafka_owner \<Rightarrow> ca_material \<Rightarrow> string \<Rightarrow> user_cert_status user_step" where
  "ensure_operator_cert_secret env kafka ca trust =
     (let name = operator_secret_name (meta_name (ko_meta kafka)) in
      bind_log (get_user_secret env name) (\<lambda>existing.
        if (case existing of None \<Rightarrow> False | Some s \<Rightarrow> \<not> is_operator_identity_secret s) then
          fail_log (Malformed (''Secret '' @ debug_str name @ '' already exists and is not an operator identity''))
        else
          case reusable_cert env DEFAULT_RENEWAL_DAYS (\<lambda>s cert.
              ue_signed_by env cert (cm_cert_pem ca) \<and> ue_common_name env cert = Some OPERATOR_IDENTITY
              \<and> (case read_pem_key s ''user.key'' of None \<Rightarrow> False | Some key \<Rightarrow> ue_matches_key env cert key))
              existing of
            Some (s, not_after) \<Rightarrow> keep_cert env name s not_after trust
          | None \<Rightarrow>
              bind_log (lift_log (map_sum Ca id (ue_issue_user_cert env (cm_cert_pem ca) (cm_key_pem ca)
                  OPERATOR_IDENTITY DEFAULT_VALIDITY_DAYS))) (\<lambda>cert.
                bind_log (lift_log (render_operator_secret kafka name cert trust)) (\<lambda>s.
                  then_log (apply_user_secret env name s)
                    (ret_log \<lparr>ucs_not_after = uct_not_after cert, ucs_issued_new = True\<rparr>)))))"

section \<open>What the calls leave in the Secrets\<close>

definition secret_after :: "user_effect \<Rightarrow> (string \<Rightarrow> secret option) \<Rightarrow> string \<Rightarrow> secret option" where
  "secret_after eff store =
     (case eff of
        ApplyUserSecret n s \<Rightarrow> store(n \<mapsto> s)
      | MergeUserSecret n entries \<Rightarrow> store(n := map_option (merge_data entries) (store n))
      | _ \<Rightarrow> store)"

lemma secret_value_render:
  assumes "render_user_secret obj labels entries = Inr s"
  shows "secret_value s k = map_of (rev entries) k"
  using assms by (auto simp: render_user_secret_def bind_result_Inr secret_value_def bm_get_collect)

lemma snd_apply_user_secret:
  "fst (apply_user_secret env n s) = Inr () \<Longrightarrow> snd (apply_user_secret env n s) = [ApplyUserSecret n s]"
  by (auto simp: apply_user_secret_def attempt_def split: option.splits)

lemma snd_merge_user_secret:
  "fst (merge_user_secret env n e) = Inr () \<Longrightarrow> snd (merge_user_secret env n e) = [MergeUserSecret n e]"
  by (auto simp: merge_user_secret_def attempt_def split: option.splits)

lemma reusable_certD:
  assumes "reusable_cert env renewal accepts existing = Some (s, na)"
  obtains cert where "existing = Some s" "read_pem_key s ''user.crt'' = Some cert" "accepts s cert"
    "ue_cert_not_after env cert = Some na" "\<not> is_cert_expiring_soon na renewal (ue_time env)"
  using assms
  by (auto simp: reusable_cert_def read_user_cert_not_after_def bind_eq_Some_conv split: option.splits if_splits)

text \<open>A certificate that may serve: current signer and trust bundle in the Secret.\<close>

definition serves :: "user_env \<Rightarrow> ca_material \<Rightarrow> string \<Rightarrow> secret \<Rightarrow> string \<Rightarrow> bool" where
  "serves env ca trust s cert \<longleftrightarrow> read_pem_key s ''user.crt'' = Some cert
     \<and> ue_signed_by env cert (cm_cert_pem ca) \<and> read_pem_key s ''ca.crt'' = Some trust"

text \<open>Signing is sound: what it returns is text and signed by the given authority.\<close>

definition sound_user_signer :: "user_env \<Rightarrow> ca_material \<Rightarrow> bool" where
  "sound_user_signer env ca \<longleftrightarrow>
     (\<forall>name validity c. ue_issue_user_cert env (cm_cert_pem ca) (cm_key_pem ca) name validity = Inr c
        \<longrightarrow> ue_signed_by env (uct_cert_pem c) (cm_cert_pem ca) \<and> from_utf8 (uct_cert_pem c) = Inr (uct_cert_pem c))"

lemma keep_cert_serves:
  assumes "fst (keep_cert env name s na trust) = Inr st" "store name = Some s"
    and "read_pem_key s ''user.crt'' = Some cert" "ue_signed_by env cert (cm_cert_pem ca)"
    and "from_utf8 trust = Inr trust"
  shows "\<not> ucs_issued_new st"
    and "\<exists>s'. fold secret_after (snd (keep_cert env name s na trust)) store name = Some s'
          \<and> serves env ca trust s' cert"
proof -
  show "\<not> ucs_issued_new st"
    using assms(1) by (auto simp: keep_cert_def fst_then_log fst_bind_log split: sum.splits)
  show "\<exists>s'. fold secret_after (snd (keep_cert env name s na trust)) store name = Some s' \<and> serves env ca trust s' cert"
  proof (cases "read_pem_key s ''ca.crt'' = Some trust")
    case True
    with assms show ?thesis
      by (auto simp: keep_cert_def snd_then_log snd_bind_log serves_def split: sum.splits)
  next
    case False
    with assms(1) have "fst (merge_user_secret env name [(''ca.crt'', trust)]) = Inr ()"
      by (auto simp: keep_cert_def fst_then_log split: sum.splits)
    with False assms(2) have "fold secret_after (snd (keep_cert env name s na trust)) store name
        = Some (merge_data [(''ca.crt'', trust)] s)"
      by (auto simp: keep_cert_def snd_then_log snd_bind_log snd_merge_user_secret secret_after_def split: sum.splits)
    moreover have "serves env ca trust (merge_data [(''ca.crt'', trust)] s) cert"
      using assms(3-5) by (simp add: serves_def read_pem_key_def secret_value_merge1)
    ultimately show ?thesis by blast
  qed
qed

lemma ensure_user_cert_cases:
  assumes "fst (ensure_user_cert_secret env obj ca trust auth) = Inr st"
    and "ce_get_secret (ue_ca env) (meta_name (ku_meta obj)) = Inr (store (meta_name (ku_meta obj)))"
  obtains (keep) s na cert where "store (meta_name (ku_meta obj)) = Some s"
      "read_pem_key s ''user.crt'' = Some cert" "ue_signed_by env cert (cm_cert_pem ca)"
      "ue_cert_not_after env cert = Some na"
      "\<not> is_cert_expiring_soon na (unwrap_or DEFAULT_RENEWAL_DAYS (ta_renewal_days auth)) (ue_time env)"
      "ensure_user_cert_secret env obj ca trust auth = keep_cert env (meta_name (ku_meta obj)) s na trust"
  | (issue) c s where
      "ue_issue_user_cert env (cm_cert_pem ca) (cm_key_pem ca) (meta_name (ku_meta obj))
         (unwrap_or DEFAULT_VALIDITY_DAYS (ta_validity_days auth)) = Inr c"
      "render_user_cert_secret obj c trust = Inr s"
      "st = \<lparr>ucs_not_after = uct_not_after c, ucs_issued_new = True\<rparr>"
      "snd (ensure_user_cert_secret env obj ca trust auth) = [ApplyUserSecret (meta_name (ku_meta obj)) s]"
proof (cases "reusable_cert env (unwrap_or DEFAULT_RENEWAL_DAYS (ta_renewal_days auth))
    (\<lambda>_ cert. ue_signed_by env cert (cm_cert_pem ca)) (store (meta_name (ku_meta obj)))")
  case (Some p)
  obtain s na where p: "p = (s, na)" by force
  from Some p obtain cert where "store (meta_name (ku_meta obj)) = Some s"
    "read_pem_key s ''user.crt'' = Some cert" "ue_signed_by env cert (cm_cert_pem ca)"
    "ue_cert_not_after env cert = Some na"
    "\<not> is_cert_expiring_soon na (unwrap_or DEFAULT_RENEWAL_DAYS (ta_renewal_days auth)) (ue_time env)"
    by (metis (no_types, lifting) reusable_certD)
  moreover have "ensure_user_cert_secret env obj ca trust auth = keep_cert env (meta_name (ku_meta obj)) s na trust"
    using Some p assms(2) by (simp add: ensure_user_cert_secret_def get_user_secret_def Let_def)
  ultimately show thesis by (rule keep)
next
  case None
  let ?issue = "ue_issue_user_cert env (cm_cert_pem ca) (cm_key_pem ca) (meta_name (ku_meta obj))
      (unwrap_or DEFAULT_VALIDITY_DAYS (ta_validity_days auth))"
  from assms None obtain c where c: "?issue = Inr c"
    by (cases ?issue) (auto simp: ensure_user_cert_secret_def get_user_secret_def Let_def)
  from assms None c obtain s where s: "render_user_cert_secret obj c trust = Inr s"
    by (cases "render_user_cert_secret obj c trust")
      (auto simp: ensure_user_cert_secret_def get_user_secret_def Let_def)
  from assms None c s have a: "fst (apply_user_secret env (meta_name (ku_meta obj)) s) = Inr ()"
    by (auto simp: ensure_user_cert_secret_def get_user_secret_def Let_def fst_then_log split: sum.splits)
  show thesis
    using assms None c s a
    by (intro issue[OF c s])
      (auto simp: ensure_user_cert_secret_def get_user_secret_def Let_def fst_then_log snd_then_log
        snd_apply_user_secret)
qed

text \<open>After a successful pass over the certificate of a TLS user, its Secret holds a
  certificate signed by the current clients authority together with the current trust bundle. A
  certificate that was kept is outside its renewal window; a Secret is rewritten only when there was no
  such certificate, and then it holds the certificate just signed.\<close>

theorem user_certificate_serves:
  assumes "fst (ensure_user_cert_secret env obj ca trust auth) = Inr st"
    and "ce_get_secret (ue_ca env) (meta_name (ku_meta obj)) = Inr (store (meta_name (ku_meta obj)))"
    and "sound_user_signer env ca" "from_utf8 trust = Inr trust"
  shows "\<exists>s cert. fold secret_after (snd (ensure_user_cert_secret env obj ca trust auth)) store
             (meta_name (ku_meta obj)) = Some s
      \<and> serves env ca trust s cert
      \<and> (if ucs_issued_new st
         then ue_issue_user_cert env (cm_cert_pem ca) (cm_key_pem ca) (meta_name (ku_meta obj))
                (unwrap_or DEFAULT_VALIDITY_DAYS (ta_validity_days auth))
              = Inr \<lparr>uct_cert_pem = cert, uct_key_pem = the (secret_value s ''user.key''),
                     uct_not_after = ucs_not_after st\<rparr>
         else \<exists>na. ue_cert_not_after env cert = Some na
              \<and> \<not> is_cert_expiring_soon na (unwrap_or DEFAULT_RENEWAL_DAYS (ta_renewal_days auth)) (ue_time env))"
  using assms(1,2)
proof (cases rule: ensure_user_cert_cases)
  case (keep s na cert)
  from keep assms(1) have "fst (keep_cert env (meta_name (ku_meta obj)) s na trust) = Inr st" by simp
  from keep_cert_serves[where store = store and ca = ca, OF this keep(1-3) assms(4)] keep show ?thesis by auto
next
  case (issue c s)
  note val = secret_value_render[OF issue(2)[unfolded render_user_cert_secret_def]]
  show ?thesis
    using issue assms(3,4)
    by (intro exI[of _ s] exI[of _ "uct_cert_pem c"])
      (simp add: secret_after_def serves_def read_pem_key_def val sound_user_signer_def)
qed

section \<open>An instance\<close>

definition sample_owner :: kafka_owner where
  "sample_owner = \<lparr>ko_meta = (plain_meta ''prod'')\<lparr>meta_uid := Some ''u1''\<rparr>, ko_cluster_ca = None, ko_clients_ca = None\<rparr>"

definition sample_ca_answers :: ca_env where
  "sample_ca_answers = \<lparr>ce_get_secret = (\<lambda>_. Inr None), ce_patch_secret = (\<lambda>_. None),
     ce_generate_ca = (\<lambda>_ _ _. Inr \<lparr>cm_cert_pem = ''C'', cm_key_pem = ''K''\<rparr>),
     ce_renew_ca = (\<lambda>_ _ _ _. Inr ''C''), ce_not_after = (\<lambda>_. Inr 0), ce_format = (\<lambda>_. Inr ''date'')\<rparr>"

definition sample_user_env :: user_env where
  "sample_user_env = \<lparr>ue_now = ''t'', ue_time = 0, ue_now_ms = 0,
     ue_get_kafka = (\<lambda>_. Inr (Some (sample_cluster, sample_owner))), ue_ca = sample_ca_answers,
     ue_merge_secret = (\<lambda>_. None), ue_patch_status = (\<lambda>_. None), ue_patch_meta = None,
     ue_random = (\<lambda>n. replicate n CHR ''r''), ue_base64_url = id, ue_base64 = id,
     ue_issue_user_cert = (\<lambda>ca key name days. Inr \<lparr>uct_cert_pem = ''cert by '' @ ca, uct_key_pem = ''key'',
       uct_not_after = ''later''\<rparr>),
     ue_cert_not_after = (\<lambda>_. Some 0), ue_signed_by = (\<lambda>cert ca. cert = ''cert by '' @ ca),
     ue_common_name = (\<lambda>_. None), ue_matches_key = (\<lambda>_ _. True), ue_connect = None, ue_error_text = (\<lambda>_. ''e''),
     ue_upsert_scram = (\<lambda>_ _ _ _. Inr [None]), ue_describe_acls = (\<lambda>_. Inr []),
     ue_create_acls = (\<lambda>_. Inr [None]), ue_delete_acls = (\<lambda>_. Inr [None]),
     ue_describe_quotas = (\<lambda>_. Inr [(''request_percentage'', 5)]),
     ue_diff_quotas = (\<lambda>cur des. map (\<lambda>(k, v). RemoveQuota k) cur @ map (\<lambda>(k, v). SetQuota k v) des),
     ue_alter_quotas = (\<lambda>_ _. Inr None), ue_describe_tokens = (\<lambda>_. Inr []),
     ue_create_token = (\<lambda>owner rs _. Inr \<lparr>tok_id = ''id'', tok_owner = owner, tok_renewers = rs, tok_hmac = ''hmac'',
       tok_expiry_ms = 604800000, tok_max_ms = 604800000\<rparr>),
     ue_renew_token = (\<lambda>_. Inr 604800000), ue_expire_token = (\<lambda>_. None)\<rparr>"

definition sample_user :: "authentication \<Rightarrow> kafka_user" where
  "sample_user auth = \<lparr>ku_meta = (plain_meta ''alice'')\<lparr>meta_uid := Some ''u2'', meta_generation := Some 1,
       meta_labels := Some [(''krabka.io/cluster'', ''prod'')], meta_finalizers := Some [''krabka.io/user-finalizer'']\<rparr>,
     ku_spec = \<lparr>us_authentication = auth, us_authorization = Some (Simple [\<lparr>
         rule_resource = \<lparr>ar_kind = AclTopic, ar_name = ''orders'', ar_pattern_type = Literal\<rparr>,
         rule_operations = [OpRead, OpDescribe], rule_host = ''*'', rule_permission = Allow\<rparr>]),
       us_quotas = Some \<lparr>q_producer_byte_rate = Some 1024, q_consumer_byte_rate = None,
         q_request_percentage = None, q_controller_mutation_rate = None\<rparr>\<rparr>,
     ku_status = None\<rparr>"

definition no_tls_options :: tls_auth where
  "no_tls_options = \<lparr>ta_validity_days = None, ta_renewal_days = None\<rparr>"

theorem user_certificate_serves_witness:
  "\<exists>s cert. fold secret_after (snd (ensure_user_cert_secret sample_user_env (sample_user (Tls no_tls_options))
       \<lparr>cm_cert_pem = ''C'', cm_key_pem = ''K''\<rparr> ''T'' no_tls_options)) (\<lambda>_. None) ''alice'' = Some s
     \<and> serves sample_user_env \<lparr>cm_cert_pem = ''C'', cm_key_pem = ''K''\<rparr> ''T'' s cert"
proof -
  let ?obj = "sample_user (Tls no_tls_options)" and ?ca = "\<lparr>cm_cert_pem = ''C'', cm_key_pem = ''K''\<rparr>"
  have "fst (ensure_user_cert_secret sample_user_env ?obj ?ca ''T'' no_tls_options)
      = Inr \<lparr>ucs_not_after = ''later'', ucs_issued_new = True\<rparr>"
    by code_simp
  moreover have name: "meta_name (ku_meta ?obj) = ''alice''" by code_simp
  moreover have "sound_user_signer sample_user_env ?ca"
  proof -
    have "from_utf8 ''cert by C'' = Inr ''cert by C''" by code_simp
    then show ?thesis by (simp add: sound_user_signer_def sample_user_env_def)
  qed
  moreover have "from_utf8 ''T'' = Inr ''T''" by code_simp
  moreover have "ce_get_secret (ue_ca sample_user_env) ''alice'' = Inr None" by code_simp
  ultimately show ?thesis
    using user_certificate_serves[of sample_user_env ?obj ?ca "''T''" no_tls_options
        "\<lparr>ucs_not_after = ''later'', ucs_issued_new = True\<rparr>" "\<lambda>_. None"]
    by (simp only: name) blast
qed

end
