(* ===== verification/User_Token.thy ===== *)
theory User_Token
  imports User_Credentials
begin

text \<open>
  \<open>controller/user_delegation_token.rs\<close>: one delegation token per user, kept alive by
  renewal and replaced when its renewers change. Token instants are
  milliseconds; the difference of two of them becomes a span by
  \<open>from_millis\<close>. The calls of the admin client are fields of the environment.
\<close>

section \<open>Deciding\<close>

definition from_millis :: "int \<Rightarrow> time" where
  "from_millis ms = ms * 1000000"

definition DEFAULT_RENEW_BEFORE_EXPIRY :: time where
  "DEFAULT_RENEW_BEFORE_EXPIRY = 24 * 3600 * 1000000000"

datatype token_decision = TokenCreate | TokenNoOp | TokenRenew | TokenCycle

definition renew_before :: "delegation_token_auth \<Rightarrow> time" where
  "renew_before auth = unwrap_or DEFAULT_RENEW_BEFORE_EXPIRY (dt_renew_before_expiry auth)"

definition token_decide :: "delegation_token_auth \<Rightarrow> delegation_token option \<Rightarrow> int \<Rightarrow> token_decision" where
  "token_decide auth existing now_ms =
     (case existing of
        None \<Rightarrow> TokenCreate
      | Some token \<Rightarrow>
          if set (dt_renewers auth) \<noteq> set (tok_renewers token) then TokenCycle
          else if from_millis (tok_expiry_ms token - now_ms) \<le> renew_before auth then TokenRenew
          else TokenNoOp)"

definition compute_requeue ::
  "delegation_token \<Rightarrow> delegation_token_auth \<Rightarrow> int \<Rightarrow> time \<Rightarrow> time \<Rightarrow> time" where
  "compute_requeue token auth now_ms min_requeue max_requeue =
     min (max (from_millis (tok_expiry_ms token - now_ms) - renew_before auth) min_requeue) max_requeue"

section \<open>Conditions\<close>

definition token_conditions ::
  "string \<Rightarrow> delegation_token \<Rightarrow> delegation_token_auth \<Rightarrow> int \<Rightarrow> bool \<Rightarrow> (string \<times> string) option
     \<Rightarrow> kafka_condition list" where
  "token_conditions t token auth now_ms issued_ok issued_reason =
     (if issued_ok then
        [condition t ''Ready'' ''True'' ''TokenReady'' ''delegation token, Secret, ACLs, and quotas in sync'',
         condition t ''TokenIssued'' ''True'' ''Issued'' ''delegation token in sync'']
      else
        (case unwrap_or (''IssueFailed'', ''issue failed'') issued_reason of (reason, msg) \<Rightarrow>
          [condition t ''Ready'' ''False'' reason msg, condition t ''TokenIssued'' ''False'' reason msg]))
     @ [if from_millis (tok_expiry_ms token - now_ms) < renew_before auth + renew_before auth
        then condition t ''TokenExpiring'' ''True'' ''WithinRenewalHorizon''
               (''expiry < 2'' @ [CHR 0xC3, CHR 0x97] @ '' renewBeforeExpiry from now'')
        else condition t ''TokenExpiring'' ''False'' ''Healthy'' ''expiry comfortably outside renewal horizon'']"

text \<open>\<open>iter_mut().find(..)\<close> followed by an assignment: the first element that matches.\<close>

fun update_first :: "('a \<Rightarrow> bool) \<Rightarrow> ('a \<Rightarrow> 'a) \<Rightarrow> 'a list \<Rightarrow> 'a list option" where
  "update_first P f [] = None"
| "update_first P f (x # xs) = (if P x then Some (f x # xs) else map_option ((#) x) (update_first P f xs))"

definition replace_condition ::
  "string \<Rightarrow> kafka_condition list \<Rightarrow> string \<Rightarrow> string \<Rightarrow> string \<Rightarrow> string \<Rightarrow> kafka_condition list" where
  "replace_condition t conditions ty status reason message =
     (let replacement = condition t ty status reason message in
      case update_first (\<lambda>c. cond_type c = ty)
             (\<lambda>existing. if cond_status existing = status
                then replacement\<lparr>cond_last_transition_time := cond_last_transition_time existing\<rparr>
                else replacement) conditions of
        Some updated \<Rightarrow> updated
      | None \<Rightarrow> if ty = ''Ready'' then replacement # conditions else conditions @ [replacement])"

definition replace_ready_condition ::
  "string \<Rightarrow> kafka_condition list \<Rightarrow> string \<Rightarrow> string \<Rightarrow> string \<Rightarrow> kafka_condition list" where
  "replace_ready_condition t conditions status reason message =
     replace_condition t conditions ''Ready'' status reason message"

definition transition_ready_condition ::
  "string \<Rightarrow> kafka_condition list \<Rightarrow> string \<Rightarrow> string \<Rightarrow> string \<Rightarrow> kafka_condition list" where
  "transition_ready_condition t conditions status reason message =
     (let ready = condition t ''Ready'' status reason message in
      case update_first (\<lambda>c. cond_type c = ''Ready'') (\<lambda>_. ready) conditions of
        Some updated \<Rightarrow> updated | None \<Rightarrow> ready # conditions)"

definition with_history :: "kafka_condition list \<Rightarrow> kafka_condition \<Rightarrow> kafka_condition" where
  "with_history previous current =
     (if cond_type current = ''Ready'' then
        (case find (\<lambda>p. cond_type p = ''Ready'') previous of None \<Rightarrow> current | Some p \<Rightarrow> p)
      else
        (case find (\<lambda>p. cond_type p = cond_type current \<and> cond_status p = cond_status current) previous of
           None \<Rightarrow> current
         | Some p \<Rightarrow> current\<lparr>cond_last_transition_time := cond_last_transition_time p\<rparr>))"

definition conditions_with_history ::
  "string \<Rightarrow> kafka_user \<Rightarrow> delegation_token \<Rightarrow> delegation_token_auth \<Rightarrow> int \<Rightarrow> kafka_condition list" where
  "conditions_with_history t obj token auth now_ms =
     (let conditions = token_conditions t token auth now_ms True None in
      case ku_status obj of
        None \<Rightarrow> conditions | Some status \<Rightarrow> map (with_history (ust_conditions status)) conditions)"

definition inherit_published_ready ::
  "kafka_condition list \<Rightarrow> kafka_condition list \<Rightarrow> kafka_condition list" where
  "inherit_published_ready conditions published =
     (case find (\<lambda>c. cond_type c = ''Ready'') published of
        None \<Rightarrow> conditions
      | Some ready \<Rightarrow>
          (case update_first (\<lambda>c. cond_type c = ''Ready'') (\<lambda>_. ready) conditions of
             Some updated \<Rightarrow> updated | None \<Rightarrow> ready # conditions))"

definition status_has_current_ready_token :: "kafka_user \<Rightarrow> delegation_token \<Rightarrow> bool" where
  "status_has_current_ready_token obj token =
     (case ku_status obj of
        None \<Rightarrow> False
      | Some status \<Rightarrow>
          ust_delegation_token_id status = Some (tok_id token)
          \<and> ust_delegation_token_expiry_ms status = Some (tok_expiry_ms token)
          \<and> ust_delegation_token_max_ms status = Some (tok_max_ms token)
          \<and> ust_observed_generation status = meta_generation (ku_meta obj)
          \<and> list_ex (\<lambda>c. cond_type c = ''Ready'' \<and> cond_status c = ''True'' \<and> cond_reason c = ''TokenReady'')
              (ust_conditions status)
          \<and> list_ex (\<lambda>c. cond_type c = ''TokenIssued'' \<and> cond_status c = ''True'') (ust_conditions status))"

definition existing_token_conditions :: "kafka_user \<Rightarrow> kafka_condition list option" where
  "existing_token_conditions obj =
     (case ku_status obj of
        None \<Rightarrow> None
      | Some status \<Rightarrow>
          if ust_delegation_token_id status = None then None
          else if \<not> list_ex (\<lambda>c. cond_type c = ''TokenIssued'' \<and> cond_status c = ''True'')
                        (ust_conditions status) then None
          else Some (ust_conditions status))"

section \<open>The Secret\<close>

definition build_secret_data :: "user_env \<Rightarrow> delegation_token \<Rightarrow> (string \<times> string) list" where
  "build_secret_data env token =
     (let hmac_b64 = ue_base64 env (tok_hmac token);
          jaas = scram_module @ quoted ''username'' (tok_id token) @ '' '' @ quoted ''password'' hmac_b64
                 @ '' '' @ quoted ''tokenauth'' ''true'' @ '';''
      in [(''token-id'', tok_id token), (''hmac'', tok_hmac token), (''password'', hmac_b64),
          (''sasl.jaas.config'', jaas)])"

definition build_secret :: "user_env \<Rightarrow> kafka_user \<Rightarrow> delegation_token \<Rightarrow> reconcile_error + secret" where
  "build_secret env obj token = render_user_secret obj [] (build_secret_data env token)"

section \<open>Status patches and failures\<close>

record token_config =
  tkc_min_requeue :: time
  tkc_max_requeue :: time
  tkc_invalid_requeue :: time
  tkc_transient_backoff :: time

record token_outcome =
  to_action :: action
  to_conditions :: "kafka_condition list option"
  to_token_requeue :: "time option"
  to_pending_published :: bool

definition patch_user_status :: "user_env \<Rightarrow> user_status_patch \<Rightarrow> unit user_step" where
  "patch_user_status env body = attempt Kube (ue_patch_status env body) (PatchUserStatus body)"

definition build_token_identity_patch ::
  "delegation_token \<Rightarrow> kafka_condition list option \<Rightarrow> user_status_patch" where
  "build_token_identity_patch token conditions = TokenIdentity \<lparr>ti_username = tok_owner token,
     ti_secret = tok_owner token, ti_token_id = tok_id token, ti_expiry_ms = tok_expiry_ms token,
     ti_max_ms = tok_max_ms token, ti_conditions = conditions\<rparr>"

text \<open>What a failure or a pending token does to the token conditions when no token is live.\<close>

definition token_not_live :: "string \<Rightarrow> kafka_condition list \<Rightarrow> string \<Rightarrow> string \<Rightarrow> kafka_condition list" where
  "token_not_live t conditions reason message =
     filter (\<lambda>c. cond_type c \<noteq> ''TokenExpiring'')
       (replace_condition t conditions ''TokenIssued'' ''False'' reason message)"

definition publish_token_pending ::
  "user_env \<Rightarrow> kafka_condition list \<Rightarrow> bool \<Rightarrow> kafka_condition list user_step" where
  "publish_token_pending env prior token_live =
     (let ready = replace_ready_condition (ue_now env) prior ''False'' ''TokenPending''
                    ''delegation-token credential and access reconciliation pending'';
          conditions = (if token_live then ready
                        else token_not_live (ue_now env) ready ''TokenPending'' ''delegation token not yet issued'')
      in then_log (patch_user_status env (ConditionsStatus conditions)) (ret_log conditions))"

definition admin_error_report ::
  "user_env \<Rightarrow> token_config \<Rightarrow> admin_error \<Rightarrow> string \<Rightarrow> string \<times> string \<times> time" where
  "admin_error_report env cfg err op =
     (case err of
        AdminBroker api code code_name message \<Rightarrow>
          if code = 42 then (''InvalidSpec'', op @ '': INVALID_REQUEST (42)'', tkc_invalid_requeue cfg)
          else if code = 61 then
            (''BrokerAuthDisabled'', op @ '': DELEGATION_TOKEN_AUTH_DISABLED (61)'', tkc_transient_backoff cfg)
          else if code = 64 then
            (''OperatorTokenAuthed'', op @ '': DELEGATION_TOKEN_REQUEST_NOT_ALLOWED (64)'', tkc_transient_backoff cfg)
          else if code = 65 then
            (''OperatorNotSuperUser'', op @ '': DELEGATION_TOKEN_AUTHORIZATION_FAILED (65)'', tkc_transient_backoff cfg)
          else
            (''BrokerError'', op @ '': '' @ code_name @ '' ('' @ int_to_string code @ '')'', tkc_transient_backoff cfg)
      | other \<Rightarrow> (''Transport'', op @ '': '' @ ue_error_text env other, tkc_transient_backoff cfg))"

definition on_admin_error ::
  "user_env \<Rightarrow> token_config \<Rightarrow> admin_error \<Rightarrow> string \<Rightarrow> kafka_condition list option \<Rightarrow> bool
     \<Rightarrow> token_outcome user_step" where
  "on_admin_error env cfg err op prior token_live =
     (case admin_error_report env cfg err op of (reason, message, delay) \<Rightarrow>
       (let ready = replace_ready_condition (ue_now env) (unwrap_or [] prior) ''False'' reason message;
            conds = (if token_live then ready else token_not_live (ue_now env) ready reason message)
        in then_log (patch_user_status env (ConditionsStatus conds))
             (ret_log \<lparr>to_action = Requeue delay, to_conditions = None, to_token_requeue = None,
                to_pending_published = False\<rparr>)))"

section \<open>One pass over the token\<close>

text \<open>
  The arms of the decision. Each yields the live token and the pending conditions it
  published, or the outcome of a failure (\<open>Inl\<close>), with which the pass ends.
\<close>

type_synonym token_arm = "(token_outcome + delegation_token \<times> kafka_condition list option) user_step"

definition stop_with :: "token_outcome user_step \<Rightarrow> token_arm" where
  "stop_with m = bind_log m (\<lambda>out. ret_log (Inl out))"

definition issue_new_token ::
  "user_env \<Rightarrow> string \<Rightarrow> delegation_token_auth \<Rightarrow> (admin_error + delegation_token) user_step" where
  "issue_new_token env name auth =
     then_log (emit (CreateToken name (dt_renewers auth) (dt_max_lifetime auth)))
       (ret_log (ue_create_token env name (dt_renewers auth) (dt_max_lifetime auth)))"

definition issue_arm ::
  "user_env \<Rightarrow> token_config \<Rightarrow> string \<Rightarrow> delegation_token_auth \<Rightarrow> kafka_condition list \<Rightarrow> token_arm" where
  "issue_arm env cfg name auth pending =
     bind_log (issue_new_token env name auth) (\<lambda>answer.
       case answer of
         Inr token \<Rightarrow> ret_log (Inr (token, Some pending))
       | Inl e \<Rightarrow> stop_with (on_admin_error env cfg e ''CreateDelegationToken'' (Some pending) False))"

definition create_arm ::
  "user_env \<Rightarrow> token_config \<Rightarrow> kafka_user \<Rightarrow> delegation_token_auth \<Rightarrow> token_arm" where
  "create_arm env cfg obj auth =
     bind_log (publish_token_pending env
         (case ku_status obj of None \<Rightarrow> [] | Some s \<Rightarrow> ust_conditions s) False) (\<lambda>pending.
       issue_arm env cfg (meta_name (ku_meta obj)) auth pending)"

definition renew_arm ::
  "user_env \<Rightarrow> token_config \<Rightarrow> kafka_user \<Rightarrow> delegation_token_auth \<Rightarrow> delegation_token \<Rightarrow> token_arm" where
  "renew_arm env cfg obj auth token =
     then_log (emit (RenewToken (tok_hmac token)))
       (case ue_renew_token env (tok_hmac token) of
          Inr expiry \<Rightarrow> ret_log (Inr (token\<lparr>tok_expiry_ms := expiry\<rparr>, None))
        | Inl e \<Rightarrow> stop_with (on_admin_error env cfg e ''RenewDelegationToken''
                     (Some (conditions_with_history (ue_now env) obj token auth (ue_now_ms env))) True))"

definition cycle_arm ::
  "user_env \<Rightarrow> token_config \<Rightarrow> kafka_user \<Rightarrow> delegation_token_auth \<Rightarrow> delegation_token \<Rightarrow> token_arm" where
  "cycle_arm env cfg obj auth token =
     (let live = conditions_with_history (ue_now env) obj token auth (ue_now_ms env) in
      bind_log (publish_token_pending env live True) (\<lambda>pending.
        then_log (emit (ExpireToken (tok_hmac token)))
          (case ue_expire_token env (tok_hmac token) of
             Some e \<Rightarrow> stop_with (on_admin_error env cfg e ''ExpireDelegationToken'' (Some live) True)
           | None \<Rightarrow> issue_arm env cfg (meta_name (ku_meta obj)) auth pending)))"

definition matching_token :: "kafka_user \<Rightarrow> delegation_token list \<Rightarrow> delegation_token option" where
  "matching_token obj existing =
     or_else (Option.bind (Option.bind (ku_status obj) ust_delegation_token_id)
                (\<lambda>i. find (\<lambda>t. tok_id t = i) existing))
       (case existing of [] \<Rightarrow> None | t # _ \<Rightarrow> Some t)"

definition run_decision ::
  "user_env \<Rightarrow> token_config \<Rightarrow> kafka_user \<Rightarrow> delegation_token_auth \<Rightarrow> delegation_token option \<Rightarrow> token_arm" where
  "run_decision env cfg obj auth matching =
     (case (token_decide auth matching (ue_now_ms env), matching) of
        (TokenCreate, _) \<Rightarrow> create_arm env cfg obj auth
      | (TokenNoOp, Some token) \<Rightarrow> ret_log (Inr (token, None))
      | (TokenNoOp, None) \<Rightarrow> fail_log (Panic ''NoOp implies existing token'')
      | (TokenRenew, Some token) \<Rightarrow> renew_arm env cfg obj auth token
      | (TokenRenew, None) \<Rightarrow> fail_log (Panic ''Renew implies existing token'')
      | (TokenCycle, Some token) \<Rightarrow> cycle_arm env cfg obj auth token
      | (TokenCycle, None) \<Rightarrow> fail_log (Panic ''Cycle implies existing token''))"

text \<open>Publishing a live token: conditions, then the identity in the status, then the Secret.\<close>

definition publish_token ::
  "user_env \<Rightarrow> token_config \<Rightarrow> (reconcile_error \<Rightarrow> string) \<Rightarrow> kafka_user \<Rightarrow> delegation_token_auth
     \<Rightarrow> delegation_token \<Rightarrow> kafka_condition list option \<Rightarrow> token_outcome user_step" where
  "publish_token env cfg error_text obj auth token pending0 =
     (let fresh = conditions_with_history (ue_now env) obj token auth (ue_now_ms env);
          delay = compute_requeue token auth (ue_now_ms env) (tkc_min_requeue cfg) (tkc_max_requeue cfg)
      in bind_log (if pending0 = None \<and> \<not> status_has_current_ready_token obj token
                   then bind_log (publish_token_pending env fresh True) (\<lambda>p. ret_log (Some p))
                   else ret_log pending0) (\<lambda>pending.
           let conditions = (case pending of None \<Rightarrow> fresh | Some p \<Rightarrow> inherit_published_ready fresh p) in
           then_log (patch_user_status env (build_token_identity_patch token pending))
             (bind_log (lift_log (build_secret env obj token)) (\<lambda>s.
               try_log (apply_user_secret env (meta_name (secret_meta s)) s)
                 (\<lambda>_. ret_log \<lparr>to_action = Requeue delay, to_conditions = Some conditions,
                        to_token_requeue = Some delay, to_pending_published = (pending \<noteq> None)\<rparr>)
                 (\<lambda>e. then_log (patch_user_status env (ConditionsStatus
                          (replace_ready_condition (ue_now env) (unwrap_or conditions pending) ''False''
                             ''SecretWriteFailed'' (error_text e))))
                        (fail_log e))))))"

definition reconcile_token ::
  "user_env \<Rightarrow> token_config \<Rightarrow> (reconcile_error \<Rightarrow> string) \<Rightarrow> kafka_user \<Rightarrow> delegation_token_auth
     \<Rightarrow> token_outcome user_step" where
  "reconcile_token env cfg error_text obj auth =
     (case ue_describe_tokens env (''User:'' @ meta_name (ku_meta obj)) of
        Inl e \<Rightarrow> on_admin_error env cfg e ''DescribeDelegationToken'' (existing_token_conditions obj)
                    (existing_token_conditions obj \<noteq> None)
      | Inr existing \<Rightarrow>
          bind_log (run_decision env cfg obj auth (matching_token obj existing)) (\<lambda>r.
            case r of
              Inl out \<Rightarrow> ret_log out
            | Inr (token, pending) \<Rightarrow> publish_token env cfg error_text obj auth token pending))"

text \<open>The cleanup of a deleted user: it stops at the first token that cannot be expired.\<close>

fun expire_tokens :: "user_env \<Rightarrow> delegation_token list \<Rightarrow> (admin_error, unit, user_effect) logged" where
  "expire_tokens env [] = ret_log ()"
| "expire_tokens env (t # ts) =
     then_log (emit (ExpireToken (tok_hmac t)))
       (case ue_expire_token env (tok_hmac t) of Some e \<Rightarrow> fail_log e | None \<Rightarrow> expire_tokens env ts)"

definition expire_owned_tokens :: "user_env \<Rightarrow> string \<Rightarrow> (admin_error, unit, user_effect) logged" where
  "expire_owned_tokens env name =
     bind_log (lift_log (ue_describe_tokens env (''User:'' @ name))) (expire_tokens env)"

section \<open>Conditions\<close>

abbreviation of_type :: "string \<Rightarrow> kafka_condition list \<Rightarrow> kafka_condition option" where
  "of_type ty \<equiv> find (\<lambda>c. cond_type c = ty)"

lemma update_first_Some:
  assumes "update_first P f xs = Some ys"
  obtains pre x post where "xs = pre @ x # post" "\<forall>y \<in> set pre. \<not> P y" "P x" "ys = pre @ f x # post"
  using assms
proof (induction xs arbitrary: ys thesis)
  case (Cons a xs)
  show ?case
  proof (cases "P a")
    case True
    with Cons.prems show ?thesis by (intro Cons.prems(1)[of "[]" a xs]) auto
  next
    case False
    with Cons.prems obtain zs where z: "update_first P f xs = Some zs" "ys = a # zs" by auto
    then obtain pre x post where "xs = pre @ x # post" "\<forall>y \<in> set pre. \<not> P y" "P x" "zs = pre @ f x # post"
      using Cons.IH by blast
    with False z show ?thesis by (intro Cons.prems(1)[of "a # pre" x post]) auto
  qed
qed simp

lemma update_first_None: "update_first P f xs = None \<longleftrightarrow> (\<forall>x \<in> set xs. \<not> P x)"
  by (induction xs) auto

lemma find_append:
  "find P (xs @ ys) = (case find P xs of None \<Rightarrow> find P ys | Some x \<Rightarrow> Some x)"
  by (induction xs) auto

lemma find_skip: "\<forall>y \<in> set pre. \<not> P y \<Longrightarrow> find P (pre @ xs) = find P xs"
  by (induction pre) auto

lemma update_first_find:
  assumes "update_first P f xs = Some ys" "\<And>x. P x \<Longrightarrow> Q (f x) \<longleftrightarrow> Q x" "\<And>x. P x \<Longrightarrow> \<not> Q x"
  shows "find Q ys = find Q xs"
  using assms by (elim update_first_Some) (auto simp: find_append split: option.splits)

text \<open>Where the replacement goes: in place of the first condition of the type, or at an end.\<close>

lemma replace_condition_cases:
  obtains (missing) "\<forall>x \<in> set cs. cond_type x \<noteq> ty"
      "replace_condition t cs ty status reason message =
         (if ty = ''Ready'' then condition t ty status reason message # cs
          else cs @ [condition t ty status reason message])"
  | (present) pre x post where "cs = pre @ x # post" "\<forall>y \<in> set pre. cond_type y \<noteq> ty" "cond_type x = ty"
      "replace_condition t cs ty status reason message =
         pre @ condition (if cond_status x = status then cond_last_transition_time x else t) ty status reason message
           # post"
proof (cases "update_first (\<lambda>c. cond_type c = ty)
    (\<lambda>existing. if cond_status existing = status
       then (condition t ty status reason message)\<lparr>cond_last_transition_time := cond_last_transition_time existing\<rparr>
       else condition t ty status reason message) cs")
  case None
  then have "replace_condition t cs ty status reason message =
         (if ty = ''Ready'' then condition t ty status reason message # cs
          else cs @ [condition t ty status reason message])"
    unfolding replace_condition_def Let_def by simp
  with None show thesis by (intro missing) (simp_all add: update_first_None)
next
  case (Some ys)
  then obtain pre x post where x: "cs = pre @ x # post" "\<forall>y \<in> set pre. cond_type y \<noteq> ty" "cond_type x = ty"
    and ys: "ys = pre @ (if cond_status x = status
       then (condition t ty status reason message)\<lparr>cond_last_transition_time := cond_last_transition_time x\<rparr>
       else condition t ty status reason message) # post"
    by (rule update_first_Some)
  from Some ys have "replace_condition t cs ty status reason message =
         pre @ condition (if cond_status x = status then cond_last_transition_time x else t) ty status reason message
           # post"
  proof -
    from Some have "replace_condition t cs ty status reason message = ys"
      unfolding replace_condition_def Let_def by simp
    with ys show ?thesis by (simp add: condition_def)
  qed
  with x show thesis by (rule present)
qed

lemma of_type_replaced:
  "of_type ty (replace_condition t cs ty status reason message) =
     Some (condition (case of_type ty cs of
         Some old \<Rightarrow> if cond_status old = status then cond_last_transition_time old else t
       | None \<Rightarrow> t) ty status reason message)"
proof (cases rule: replace_condition_cases[of cs ty t status reason message])
  case missing
  then have "of_type ty cs = None" by (auto simp: find_None_iff)
  with missing show ?thesis by (auto simp: find_append condition_def)
next
  case (present pre x post)
  then have "of_type ty cs = Some x" by (simp add: find_skip)
  with present show ?thesis by (simp add: find_skip condition_def)
qed

lemma of_type_other:
  assumes "ty' \<noteq> ty"
  shows "of_type ty' (replace_condition t cs ty status reason message) = of_type ty' cs"
  using assms
  by (cases rule: replace_condition_cases[of cs ty t status reason message])
    (auto simp: find_append condition_def split: option.splits)

lemma distinct_replaced:
  assumes "distinct (map cond_type cs)"
  shows "distinct (map cond_type (replace_condition t cs ty status reason message))"
  using assms
  by (cases rule: replace_condition_cases[of cs ty t status reason message]) (auto simp: condition_def)

text \<open>Replacing a condition. The first condition of the type then has the given status,
  reason and message, and its transition time is the old one exactly when the status did not change;
  conditions of other types keep their values, and a list with at most one condition of each type keeps
  that shape.\<close>

theorem replace_condition_spec:
  "of_type ty (replace_condition t cs ty status reason message) =
     Some (condition (case of_type ty cs of
         Some old \<Rightarrow> if cond_status old = status then cond_last_transition_time old else t
       | None \<Rightarrow> t) ty status reason message)
   \<and> (\<forall>ty'. ty' = ty \<or> of_type ty' (replace_condition t cs ty status reason message) = of_type ty' cs)
   \<and> (if distinct (map cond_type cs)
      then distinct (map cond_type (replace_condition t cs ty status reason message)) else True)"
  using of_type_replaced of_type_other distinct_replaced by metis

definition ready_status :: "kafka_condition list \<Rightarrow> string option" where
  "ready_status cs = map_option cond_status (of_type ''Ready'' cs)"

lemma ready_replace [simp]:
  "ready_status (replace_ready_condition t cs status reason message) = Some status"
  by (simp add: ready_status_def replace_ready_condition_def of_type_replaced condition_def)

lemma find_filter: "(\<And>x. Q x \<Longrightarrow> P x) \<Longrightarrow> find Q (filter P xs) = find Q xs"
  by (induction xs) auto

lemma ready_not_live [simp]: "ready_status (token_not_live t cs reason message) = ready_status cs"
  unfolding ready_status_def token_not_live_def
  by (subst find_filter) (auto simp: of_type_other)

section \<open>Readiness is not announced by the token phase\<close>

primrec patch_conditions :: "user_status_patch \<Rightarrow> kafka_condition list option" where
  "patch_conditions (FullStatus f) = Some (fs_conditions f)"
| "patch_conditions (AccessStatus cs g q) = Some cs"
| "patch_conditions (ConditionsStatus cs) = Some cs"
| "patch_conditions (TokenIdentity ti) = ti_conditions ti"

definition announces_ready :: "user_effect \<Rightarrow> bool" where
  "announces_ready eff =
     (case eff of
        PatchUserStatus p \<Rightarrow>
          (case patch_conditions p of None \<Rightarrow> False | Some cs \<Rightarrow> ready_status cs = Some ''True'')
      | _ \<Rightarrow> False)"

lemma snd_patch_user_status:
  "snd (patch_user_status env p) = (if ue_patch_status env p = None then [PatchUserStatus p] else [])"
  "fst (patch_user_status env p) = (case ue_patch_status env p of None \<Rightarrow> Inr () | Some e \<Rightarrow> Inl (Kube e))"
  by (auto simp: patch_user_status_def attempt_def split: option.splits)

abbreviation quiet :: "'a user_step \<Rightarrow> bool" where
  "quiet m \<equiv> \<not> list_ex announces_ready (snd m)"

lemma quiet_bind: "quiet m \<Longrightarrow> (\<And>x. fst m = Inr x \<Longrightarrow> quiet (f x)) \<Longrightarrow> quiet (bind_log m f)"
  by (cases "fst m") (auto simp: snd_bind_log)

lemma quiet_then: "quiet m \<Longrightarrow> quiet k \<Longrightarrow> quiet (then_log m k)"
  by (cases "fst m") (auto simp: snd_then_log)

lemma quiet_simps [simp]:
  "quiet (ret_log x)" "quiet (fail_log e)" "quiet (lift_log r)"
  by simp_all

lemma quiet_conditions:
  "ready_status cs \<noteq> Some ''True'' \<Longrightarrow> quiet (patch_user_status env (ConditionsStatus cs))"
  by (simp add: snd_patch_user_status announces_ready_def)

lemma pending_published:
  "quiet (publish_token_pending env prior live)"
  "fst (publish_token_pending env prior live) = Inr cs \<Longrightarrow> ready_status cs = Some ''False''"
  by (auto simp: publish_token_pending_def Let_def fst_then_log snd_patch_user_status announces_ready_def
      snd_then_log split: sum.splits option.splits)

lemma quiet_on_admin_error: "quiet (on_admin_error env cfg err op prior live)"
  by (cases "admin_error_report env cfg err op")
    (simp add: on_admin_error_def Let_def, intro conjI impI quiet_then quiet_conditions; simp)

lemma ready_inherit:
  assumes "ready_status published = Some v"
  shows "ready_status (inherit_published_ready cs published) = Some v"
proof -
  from assms obtain ready where r: "of_type ''Ready'' published = Some ready" "cond_status ready = v"
    by (auto simp: ready_status_def)
  then have ty: "cond_type ready = ''Ready''" by (auto simp: find_Some_iff)
  show ?thesis
  proof (cases "update_first (\<lambda>c. cond_type c = ''Ready'') (\<lambda>_. ready) cs")
    case None
    with r ty show ?thesis by (simp add: inherit_published_ready_def ready_status_def)
  next
    case (Some ys)
    with r ty show ?thesis
      by (auto simp: inherit_published_ready_def ready_status_def find_skip elim!: update_first_Some)
  qed
qed

lemma quiet_stop: "quiet m \<Longrightarrow> quiet (stop_with m)"
  unfolding stop_with_def by (rule quiet_bind) auto

lemma quiet_emit: "(case eff of PatchUserStatus p \<Rightarrow> False | _ \<Rightarrow> True) \<Longrightarrow> quiet (emit eff)"
  by (auto simp: announces_ready_def split: user_effect.splits)

text \<open>An arm that ends with a live token has published pending conditions or none.\<close>

abbreviation pending_false :: "token_arm \<Rightarrow> bool" where
  "pending_false m \<equiv>
     (\<forall>token cs. fst m = Inr (Inr (token, Some cs)) \<longrightarrow> ready_status cs = Some ''False'')"

lemma issue_arm_quiet:
  assumes "ready_status pending = Some ''False''"
  shows "quiet (issue_arm env cfg name auth pending)" "pending_false (issue_arm env cfg name auth pending)"
  using assms quiet_stop[OF quiet_on_admin_error]
  by (auto simp: issue_arm_def issue_new_token_def fst_bind_log snd_bind_log fst_then_log snd_then_log
      announces_ready_def stop_with_def split: sum.splits)

lemma create_arm_quiet:
  "quiet (create_arm env cfg obj auth)" "pending_false (create_arm env cfg obj auth)"
proof -
  let ?p = "publish_token_pending env (case ku_status obj of None \<Rightarrow> [] | Some s \<Rightarrow> ust_conditions s) False"
  show "quiet (create_arm env cfg obj auth)"
    unfolding create_arm_def by (intro quiet_bind pending_published issue_arm_quiet) auto
  show "pending_false (create_arm env cfg obj auth)"
    using issue_arm_quiet(2)[OF pending_published(2)]
    by (auto simp: create_arm_def fst_bind_log split: sum.splits)
qed

lemma renew_arm_quiet:
  "quiet (renew_arm env cfg obj auth token)" "pending_false (renew_arm env cfg obj auth token)"
  using quiet_stop[OF quiet_on_admin_error]
  by (auto simp: renew_arm_def fst_then_log snd_then_log announces_ready_def stop_with_def fst_bind_log
      split: sum.splits)

lemma cycle_arm_quiet:
  "quiet (cycle_arm env cfg obj auth token)" "pending_false (cycle_arm env cfg obj auth token)"
proof -
  show "quiet (cycle_arm env cfg obj auth token)"
    unfolding cycle_arm_def Let_def
    by (intro quiet_bind quiet_then pending_published quiet_emit)
      (use quiet_stop[OF quiet_on_admin_error] issue_arm_quiet(1)[OF pending_published(2)] in
        \<open>simp_all split: option.splits\<close>)
  show "pending_false (cycle_arm env cfg obj auth token)"
    using issue_arm_quiet(2)[OF pending_published(2)]
    by (auto simp: cycle_arm_def Let_def fst_bind_log fst_then_log stop_with_def split: sum.splits option.splits)
qed

lemma run_decision_quiet:
  "quiet (run_decision env cfg obj auth matching)" "pending_false (run_decision env cfg obj auth matching)"
  using create_arm_quiet renew_arm_quiet cycle_arm_quiet
  by (auto simp: run_decision_def split: token_decision.splits option.splits)


lemma quiet_apply_secret: "quiet (apply_user_secret env n s)"
  by (auto simp: apply_user_secret_def attempt_def announces_ready_def split: option.splits)

lemma quiet_try:
  "quiet m \<Longrightarrow> (\<And>x. quiet (f x)) \<Longrightarrow> (\<And>e. quiet (h e)) \<Longrightarrow> quiet (try_log m f h)"
  by (simp add: try_log_simps split: sum.splits)

lemma quiet_identity:
  assumes "\<And>cs. pending = Some cs \<Longrightarrow> ready_status cs = Some ''False''"
  shows "quiet (patch_user_status env (build_token_identity_patch token pending))"
  using assms
  by (auto simp: snd_patch_user_status announces_ready_def build_token_identity_patch_def split: option.splits)

definition pending_step ::
  "user_env \<Rightarrow> kafka_user \<Rightarrow> delegation_token_auth \<Rightarrow> delegation_token \<Rightarrow> kafka_condition list option
     \<Rightarrow> kafka_condition list option user_step" where
  "pending_step env obj auth token pending0 =
     (if pending0 = None \<and> \<not> status_has_current_ready_token obj token
      then bind_log (publish_token_pending env
             (conditions_with_history (ue_now env) obj token auth (ue_now_ms env)) True) (\<lambda>p. ret_log (Some p))
      else ret_log pending0)"

lemma pending_step_quiet:
  assumes "\<And>cs. pending0 = Some cs \<Longrightarrow> ready_status cs = Some ''False''"
  shows "quiet (pending_step env obj auth token pending0)"
    and "fst (pending_step env obj auth token pending0) = Inr (Some cs) \<Longrightarrow> ready_status cs = Some ''False''"
proof -
  show "quiet (pending_step env obj auth token pending0)"
    unfolding pending_step_def by (simp add: quiet_bind pending_published)
  show "fst (pending_step env obj auth token pending0) = Inr (Some cs) \<Longrightarrow> ready_status cs = Some ''False''"
    using assms pending_published(2)
    by (auto simp: pending_step_def fst_bind_log split: if_splits sum.splits)
qed

lemma publish_token_quiet:
  assumes "\<And>cs. pending0 = Some cs \<Longrightarrow> ready_status cs = Some ''False''"
  shows "quiet (publish_token env cfg error_text obj auth token pending0)"
  unfolding publish_token_def Let_def pending_step_def [symmetric]
proof (rule quiet_bind)
  show "quiet (pending_step env obj auth token pending0)"
    by (rule pending_step_quiet(1)) (rule assms)
next
  fix pending
  assume "fst (pending_step env obj auth token pending0) = Inr pending"
  then have pend: "ready_status cs = Some ''False''" if "pending = Some cs" for cs
    using that by (auto intro: pending_step_quiet(2) assms)
  show "quiet (then_log (patch_user_status env (build_token_identity_patch token pending))
      (bind_log (lift_log (build_secret env obj token)) (\<lambda>s.
         try_log (apply_user_secret env (meta_name (secret_meta s)) s)
           (\<lambda>_. ret_log (ok s)) (\<lambda>e. then_log (patch_user_status env (ConditionsStatus
             (replace_ready_condition (ue_now env) cs ''False'' ''SecretWriteFailed'' (error_text e)))) (fail_log e)))))"
    for ok and cs
    by (intro quiet_then quiet_identity pend quiet_bind quiet_try quiet_apply_secret quiet_conditions) simp_all
qed

lemma reconcile_token_quiet: "quiet (reconcile_token env cfg error_text obj auth)"
proof (cases "ue_describe_tokens env (''User:'' @ meta_name (ku_meta obj))")
  case (Inl e)
  then show ?thesis by (simp add: reconcile_token_def quiet_on_admin_error)
next
  case (Inr existing)
  let ?run = "run_decision env cfg obj auth (matching_token obj existing)"
  have "quiet (case r of Inl out \<Rightarrow> ret_log out
      | Inr (token, pending) \<Rightarrow> publish_token env cfg error_text obj auth token pending)"
    if "fst ?run = Inr r" for r
    using that run_decision_quiet(2)[of env cfg obj auth "matching_token obj existing"]
    by (auto intro!: publish_token_quiet split: sum.splits prod.splits)
  with Inr show ?thesis
    unfolding reconcile_token_def by (simp add: quiet_bind run_decision_quiet(1))
qed

section \<open>The Secret follows the identity\<close>

abbreviation no_secret :: "'a user_step \<Rightarrow> bool" where
  "no_secret m \<equiv> (\<forall>n s. ApplyUserSecret n s \<notin> set (snd m))"

lemma no_secret_pending: "no_secret (publish_token_pending env prior live)"
  by (auto simp: publish_token_pending_def Let_def set_snd_then_log snd_patch_user_status split: sum.splits if_splits)

lemma no_secret_admin_error: "no_secret (on_admin_error env cfg err op prior live)"
  by (auto simp: on_admin_error_def Let_def set_snd_then_log snd_patch_user_status
      split: prod.splits sum.splits if_splits)

lemma no_secret_issue: "no_secret (issue_arm env cfg name auth pending)"
  using no_secret_admin_error
  by (auto simp: issue_arm_def issue_new_token_def stop_with_def set_snd_bind_log set_snd_then_log split: sum.splits)

lemma no_secret_decision: "no_secret (run_decision env cfg obj auth matching)"
  using no_secret_pending no_secret_admin_error no_secret_issue
  by (auto simp: run_decision_def create_arm_def renew_arm_def cycle_arm_def Let_def stop_with_def
      set_snd_bind_log set_snd_then_log split: token_decision.splits option.splits sum.splits)

lemma no_secret_pending_step: "no_secret (pending_step env obj auth token pending0)"
  using no_secret_pending by (auto simp: pending_step_def set_snd_bind_log split: sum.splits)

lemma build_secret_values:
  assumes "build_secret env obj token = Inr s"
  shows "secret_value s ''token-id'' = Some (tok_id token)" "secret_value s ''hmac'' = Some (tok_hmac token)"
    "secret_value s ''password'' = Some (ue_base64 env (tok_hmac token))"
  using secret_value_render[OF assms[unfolded build_secret_def]]
  by (simp_all add: build_secret_data_def Let_def)

lemma publish_token_secret:
  assumes "ApplyUserSecret n s \<in> set (snd (publish_token env cfg error_text obj auth token pending0))"
  shows "build_secret env obj token = Inr s
     \<and> (\<exists>before pending. snd (publish_token env cfg error_text obj auth token pending0)
          = before @ [PatchUserStatus (build_token_identity_patch token pending), ApplyUserSecret n s])"
proof -
  let ?step = "pending_step env obj auth token pending0"
  from assms obtain pending s' where p: "fst ?step = Inr pending"
    and i: "ue_patch_status env (build_token_identity_patch token pending) = None"
    and b: "build_secret env obj token = Inr s'"
    and a: "ce_patch_secret (ue_ca env) (meta_name (secret_meta s')) = None"
    and eq: "n = meta_name (secret_meta s')" "s = s'"
    unfolding publish_token_def Let_def pending_step_def [symmetric]
    using no_secret_pending_step[of env obj auth token pending0]
    by (auto simp: snd_bind_log snd_then_log snd_patch_user_status try_log_simps apply_user_secret_def attempt_def
        split: sum.splits option.splits if_splits) metis
  have "snd (publish_token env cfg error_text obj auth token pending0)
      = snd ?step @ [PatchUserStatus (build_token_identity_patch token pending), ApplyUserSecret n s]"
    unfolding publish_token_def Let_def pending_step_def [symmetric]
    using p i b a eq
    by (simp add: snd_bind_log snd_then_log snd_patch_user_status try_log_simps apply_user_secret_def attempt_def)
  with b eq show ?thesis by blast
qed

text \<open>C19: A pass over a delegation token never hands out credentials that the status does not
  name, and never announces readiness itself. Whenever it writes the Secret, the call directly before it
  recorded the identity of the same token in the status, and the Secret holds the id of that token; no
  status it writes has a \<open>Ready\<close> condition with status \<open>True\<close>.\<close>

theorem token_identity_before_secret:
  assumes "ApplyUserSecret n s \<in> set (snd (reconcile_token env cfg error_text obj auth))"
  shows "(\<exists>before ti. snd (reconcile_token env cfg error_text obj auth)
            = before @ [PatchUserStatus (TokenIdentity ti), ApplyUserSecret n s]
          \<and> secret_value s ''token-id'' = Some (ti_token_id ti))
     \<and> \<not> list_ex announces_ready (snd (reconcile_token env cfg error_text obj auth))"
proof -
  from assms obtain existing where e: "ue_describe_tokens env (''User:'' @ meta_name (ku_meta obj)) = Inr existing"
    using no_secret_admin_error by (auto simp: reconcile_token_def split: sum.splits)
  let ?run = "run_decision env cfg obj auth (matching_token obj existing)"
  from assms e no_secret_decision[of env cfg obj auth "matching_token obj existing"]
  obtain token pending0 where r: "fst ?run = Inr (Inr (token, pending0))"
    and s: "ApplyUserSecret n s \<in> set (snd (publish_token env cfg error_text obj auth token pending0))"
    by (auto simp: reconcile_token_def set_snd_bind_log split: sum.splits prod.splits)
  from publish_token_secret[OF s] obtain before pending where b: "build_secret env obj token = Inr s"
    and log: "snd (publish_token env cfg error_text obj auth token pending0)
      = before @ [PatchUserStatus (build_token_identity_patch token pending), ApplyUserSecret n s]" by blast
  have "snd (reconcile_token env cfg error_text obj auth)
      = (snd ?run @ before) @ [PatchUserStatus (build_token_identity_patch token pending), ApplyUserSecret n s]"
    using e r log by (simp add: reconcile_token_def snd_bind_log)
  then show ?thesis
    using build_secret_values(1)[OF b] reconcile_token_quiet[of env cfg error_text obj auth]
    by (auto simp: build_token_identity_patch_def)
qed

section \<open>Scheduling and lifetime\<close>

text \<open>The next pass over a token is scheduled inside the configured bounds, and not after
  the instant at which the renewal horizon begins, unless the lower bound forces it: with ordered bounds
  the delay lies between them, and a delay above the lower bound ends before the expiry by at least the
  renewal lead time. The token is then renewed by that pass at the latest.\<close>

theorem token_requeue_bounds:
  assumes "lo \<le> hi"
  shows "lo \<le> compute_requeue token auth now_ms lo hi \<and> compute_requeue token auth now_ms lo hi \<le> hi
     \<and> (compute_requeue token auth now_ms lo hi = lo
        \<or> from_millis now_ms + compute_requeue token auth now_ms lo hi
            \<le> from_millis (tok_expiry_ms token) - renew_before auth)"
  using assms by (auto simp: compute_requeue_def from_millis_def min_def max_def algebra_simps)

theorem token_requeue_bounds_witness:
  "(10 :: int) \<le> 20 \<and> 10 \<le> compute_requeue \<lparr>tok_id = ''id'', tok_owner = ''o'', tok_renewers = [], tok_hmac = ''h'',
     tok_expiry_ms = 5, tok_max_ms = 5\<rparr> \<lparr>dt_renewers = [], dt_max_lifetime = None, dt_renew_before_expiry = Some 1\<rparr> 0 10 20"
  using token_requeue_bounds[of 10 20 "\<lparr>tok_id = ''id'', tok_owner = ''o'', tok_renewers = [], tok_hmac = ''h'',
     tok_expiry_ms = 5, tok_max_ms = 5\<rparr>" "\<lparr>dt_renewers = [], dt_max_lifetime = None, dt_renew_before_expiry = Some 1\<rparr>" 0]
  by simp

lemma pending_step_effects:
  "eff \<in> set (snd (pending_step env obj auth token pending0)) \<Longrightarrow> \<exists>p. eff = PatchUserStatus p"
  by (auto simp: pending_step_def publish_token_pending_def Let_def set_snd_bind_log set_snd_then_log
      snd_patch_user_status split: sum.splits if_splits)

lemma publish_token_effects:
  assumes "eff \<in> set (snd (publish_token env cfg error_text obj auth token pending0))"
  shows "(\<exists>p. eff = PatchUserStatus p) \<or> (\<exists>n s. eff = ApplyUserSecret n s)"
  using assms unfolding publish_token_def Let_def pending_step_def [symmetric]
  by (auto simp: snd_bind_log snd_then_log snd_patch_user_status try_log_simps apply_user_secret_def attempt_def
      dest: pending_step_effects split: sum.splits option.splits if_splits)

lemma token_decide_owned:
  assumes "set (dt_renewers auth) = set (tok_renewers token)"
  shows "token_decide auth (Some token) now_ms \<in> {TokenRenew, TokenNoOp}"
  using assms by (simp add: token_decide_def)

text \<open>A token at the end of its life is not replaced while it still lives. When its expiry
  has reached the hard upper bound, the renewers are unchanged and the broker answers a renewal with
  that bound, every pass inside the renewal horizon sends another renewal and no pass creates a token,
  so the credentials lapse at the bound; the passes follow each other at the lower requeue bound.\<close>

theorem exhausted_token_not_replaced:
  assumes "ue_describe_tokens env (''User:'' @ meta_name (ku_meta obj)) = Inr [token]"
    and "set (dt_renewers auth) = set (tok_renewers token)" "tok_expiry_ms token = tok_max_ms token"
    and "ue_renew_token env (tok_hmac token) = Inr (tok_max_ms token)"
    and "from_millis (tok_expiry_ms token - ue_now_ms env) \<le> renew_before auth" "0 \<le> tkc_min_requeue cfg"
  shows "RenewToken (tok_hmac token) \<in> set (snd (reconcile_token env cfg error_text obj auth))
     \<and> (\<forall>owner rs life. CreateToken owner rs life \<notin> set (snd (reconcile_token env cfg error_text obj auth)))
     \<and> (\<forall>out. fst (reconcile_token env cfg error_text obj auth) = Inr out
          \<longrightarrow> to_token_requeue out = Some (min (tkc_min_requeue cfg) (tkc_max_requeue cfg)))"
proof -
  have m: "matching_token obj [token] = Some token"
    by (cases "ku_status obj")
      (auto simp: matching_token_def or_else_def split: option.splits Option.bind_splits)
  have "token\<lparr>tok_expiry_ms := tok_max_ms token\<rparr> = token" using assms(3) by (cases token) simp
  then have r: "run_decision env cfg obj auth (Some token)
      = (Inr (Inr (token, None)), [RenewToken (tok_hmac token)])"
    using assms(2,4,5) by (simp add: run_decision_def token_decide_def renew_arm_def then_log_def ret_log_def)
  then have pass: "reconcile_token env cfg error_text obj auth =
      (let p = publish_token env cfg error_text obj auth token None
       in (fst p, RenewToken (tok_hmac token) # snd p))"
    using assms(1) m by (simp add: reconcile_token_def bind_log_def split: prod.splits)
  have c: "CreateToken w rs life \<notin> set (snd (publish_token env cfg error_text obj auth token None))" for w rs life
    using publish_token_effects by blast
  have q: "compute_requeue token auth (ue_now_ms env) (tkc_min_requeue cfg) (tkc_max_requeue cfg)
      = min (tkc_min_requeue cfg) (tkc_max_requeue cfg)"
    using assms(5,6) by (simp add: compute_requeue_def max_def)
  have "to_token_requeue out = Some (min (tkc_min_requeue cfg) (tkc_max_requeue cfg))"
    if "fst (publish_token env cfg error_text obj auth token None) = Inr out" for out
    using that q
    by (auto simp: publish_token_def Let_def fst_bind_log fst_then_log try_log_simps split: sum.splits if_splits)
  with pass c show ?thesis by (auto simp: Let_def)
qed

section \<open>Instances\<close>

definition no_token_options :: delegation_token_auth where
  "no_token_options = \<lparr>dt_renewers = [], dt_max_lifetime = None, dt_renew_before_expiry = None\<rparr>"

definition sample_token_config :: token_config where
  "sample_token_config = \<lparr>tkc_min_requeue = 30, tkc_max_requeue = 3600, tkc_invalid_requeue = 600,
     tkc_transient_backoff = 300\<rparr>"

definition sample_token :: delegation_token where
  "sample_token = \<lparr>tok_id = ''id'', tok_owner = ''alice'', tok_renewers = [], tok_hmac = ''hmac'',
     tok_expiry_ms = 604800000, tok_max_ms = 604800000\<rparr>"

definition late_env :: user_env where
  "late_env = sample_user_env\<lparr>ue_now_ms := 604700000, ue_describe_tokens := (\<lambda>_. Inr [sample_token])\<rparr>"

theorem exhausted_token_not_replaced_witness:
  "RenewToken ''hmac'' \<in> set (snd (reconcile_token late_env sample_token_config (\<lambda>_. [])
      (sample_user (DelegationToken no_token_options)) no_token_options))"
proof -
  let ?obj = "sample_user (DelegationToken no_token_options)"
  have "ue_describe_tokens late_env (''User:'' @ meta_name (ku_meta ?obj)) = Inr [sample_token]"
    by (simp add: late_env_def)
  moreover have "ue_renew_token late_env (tok_hmac sample_token) = Inr (tok_max_ms sample_token)"
    "from_millis (tok_expiry_ms sample_token - ue_now_ms late_env) \<le> renew_before no_token_options"
    by (code_simp, code_simp)
  ultimately show ?thesis
    using exhausted_token_not_replaced[of late_env ?obj sample_token no_token_options sample_token_config "\<lambda>_. []"]
    by (simp add: no_token_options_def sample_token_def sample_token_config_def)
qed

theorem token_identity_before_secret_witness:
  "\<exists>before ti s. snd (reconcile_token sample_user_env sample_token_config (\<lambda>_. [])
      (sample_user (DelegationToken no_token_options)) no_token_options)
    = before @ [PatchUserStatus (TokenIdentity ti), ApplyUserSecret ''alice'' s]
    \<and> secret_value s ''token-id'' = Some (ti_token_id ti)"
proof -
  let ?log = "snd (reconcile_token sample_user_env sample_token_config (\<lambda>_. [])
      (sample_user (DelegationToken no_token_options)) no_token_options)"
  have "list_ex (\<lambda>eff. case eff of ApplyUserSecret n s \<Rightarrow> n = ''alice'' | _ \<Rightarrow> False) ?log" by code_simp
  then obtain eff where "eff \<in> set ?log" "case eff of ApplyUserSecret n s \<Rightarrow> n = ''alice'' | _ \<Rightarrow> False"
    by (auto simp: list_ex_iff)
  then obtain s where "ApplyUserSecret ''alice'' s \<in> set ?log" by (cases eff rule: user_effect.exhaust) simp_all
  from token_identity_before_secret[OF this] show ?thesis by blast
qed

end
