(* ===== verification/User.thy ===== *)
theory User
  imports User_Token
begin

text \<open>
  \<open>controller/user.rs\<close>: the reconcile pass of a \<open>KafkaUser\<close>. It prepares (label,
  reserved names, validation, cluster), handles deletion and the finalizer,
  provisions the credentials of the authentication type, and then brings the
  access control entries and quotas of the user's principal in line with the
  resource. A set of entries is a \<open>BTreeSet<AclEntry>\<close> of the code; the order of
  the entries within one request is that of the library type. The quota diff
  is library code and a field of the environment.
\<close>

section \<open>Access control entries\<close>

definition resource_kind_to_admin :: "acl_resource_kind \<Rightarrow> admin_resource_type" where
  "resource_kind_to_admin k =
     (case k of AclTopic \<Rightarrow> RtTopic | AclGroup \<Rightarrow> RtGroup | AclCluster \<Rightarrow> RtCluster
      | AclTransactionalId \<Rightarrow> RtTransactionalId)"

definition pattern_to_admin :: "acl_pattern_type \<Rightarrow> admin_pattern_type" where
  "pattern_to_admin p = (case p of Literal \<Rightarrow> PtLiteral | Prefixed \<Rightarrow> PtPrefixed)"

definition permission_to_admin :: "acl_permission \<Rightarrow> admin_permission" where
  "permission_to_admin p = (case p of Allow \<Rightarrow> ApAllow | Deny \<Rightarrow> ApDeny)"

definition op_to_admin :: "acl_op \<Rightarrow> admin_operation" where
  "op_to_admin p =
     (case p of OpAll \<Rightarrow> AoAll | OpRead \<Rightarrow> AoRead | OpWrite \<Rightarrow> AoWrite | OpCreate \<Rightarrow> AoCreate
      | OpDelete \<Rightarrow> AoDelete | OpAlter \<Rightarrow> AoAlter | OpDescribe \<Rightarrow> AoDescribe
      | OpClusterAction \<Rightarrow> AoClusterAction | OpDescribeConfigs \<Rightarrow> AoDescribeConfigs
      | OpAlterConfigs \<Rightarrow> AoAlterConfigs | OpIdempotentWrite \<Rightarrow> AoIdempotentWrite)"

definition expand_rule :: "string \<Rightarrow> acl_rule \<Rightarrow> acl_entry list" where
  "expand_rule who rule = map (\<lambda>p. \<lparr>ae_resource_type = resource_kind_to_admin (ar_kind (rule_resource rule)),
     ae_resource_name = ar_name (rule_resource rule),
     ae_pattern_type = pattern_to_admin (ar_pattern_type (rule_resource rule)), ae_principal = who,
     ae_host = rule_host rule, ae_operation = op_to_admin p,
     ae_permission_type = permission_to_admin (rule_permission rule)\<rparr>) (rule_operations rule)"

definition expand_spec_acls :: "authorization option \<Rightarrow> string \<Rightarrow> acl_entry list" where
  "expand_spec_acls auth who =
     (case auth of None \<Rightarrow> [] | Some (Simple rules) \<Rightarrow> concat (map (expand_rule who) rules))"

definition diff_acls :: "acl_entry set \<Rightarrow> acl_entry set \<Rightarrow> acl_entry set \<times> acl_entry set" where
  "diff_acls current desired = (desired - current, current - desired)"

section \<open>Identities and validation\<close>

definition principal_for :: "string \<Rightarrow> authentication \<Rightarrow> string" where
  "principal_for name auth = (case auth of Tls _ \<Rightarrow> tls_principal name | _ \<Rightarrow> ''User:'' @ name)"

definition quota_username_of :: "string \<Rightarrow> string" where
  "quota_username_of who = (if starts_with ''User:'' who then drop 5 who else who)"

definition validate_reserved_identity :: "string \<Rightarrow> string \<Rightarrow> string + unit" where
  "validate_reserved_identity name cluster =
     (if name = ''krabka-operator'' \<or> name = OPERATOR_IDENTITY \<or> name = cluster @ ''-operator-admin''
         \<or> name = operator_secret_name cluster \<or> ends_with ''-operator-identity'' name
      then Inl (''KafkaUser name '' @ debug_str name @ '' is reserved for the operator'')
      else Inr ())"

text \<open>The span printer of the units library is the parameter \<open>human\<close>.\<close>

definition validate_delegation_token_time ::
  "(time \<Rightarrow> string) \<Rightarrow> string \<Rightarrow> time \<Rightarrow> time \<Rightarrow> string + unit" where
  "validate_delegation_token_time human path v minimum =
     (if v \<ge> minimum \<and> v mod 1000000 = 0 then Inr ()
      else Inl (path @ '' must be finite, at least '' @ human minimum @ '', and a whole number of milliseconds''))"

definition validate_token_times :: "(time \<Rightarrow> string) \<Rightarrow> delegation_token_auth \<Rightarrow> string + unit" where
  "validate_token_times human auth =
     bind_result
       (case dt_max_lifetime auth of
          None \<Rightarrow> Inr ()
        | Some v \<Rightarrow> validate_delegation_token_time human ''spec.authentication.maxLifetime'' v (from_millis 1))
       (\<lambda>_. case dt_renew_before_expiry auth of
          None \<Rightarrow> Inr ()
        | Some v \<Rightarrow> validate_delegation_token_time human ''spec.authentication.renewBeforeExpiry'' v
                      (from_millis 60000))"

fun validate_rules :: "nat \<Rightarrow> acl_rule list \<Rightarrow> string + unit" where
  "validate_rules i [] = Inr ()"
| "validate_rules i (rule # rules) =
     (if rule_operations rule = [] then Inl (''acls['' @ nat_to_string i @ ''].operations is empty'')
      else if ar_name (rule_resource rule) = [] then Inl (''acls['' @ nat_to_string i @ ''].resource.name is empty'')
      else validate_rules (Suc i) rules)"

definition validate_user_spec :: "(time \<Rightarrow> string) \<Rightarrow> kafka_user_spec \<Rightarrow> string + unit" where
  "validate_user_spec human spec =
     bind_result
       (case us_authentication spec of DelegationToken auth \<Rightarrow> validate_token_times human auth | _ \<Rightarrow> Inr ())
       (\<lambda>_. case us_authorization spec of None \<Rightarrow> Inr () | Some (Simple rules) \<Rightarrow> validate_rules 0 rules)"

section \<open>Status\<close>

definition USER_FINALIZER :: string where
  "USER_FINALIZER = ''krabka.io/user-finalizer''"

record user_config =
  uc_error_requeue :: time
  uc_drift_requeue :: time
  uc_invalid_requeue :: time
  uc_dependency_requeue :: time
  uc_tls_drift_requeue :: time
  uc_default_iterations :: int
  uc_token :: token_config
  uc_human :: "time \<Rightarrow> string"
  uc_reconcile_error_text :: "reconcile_error \<Rightarrow> string"

text \<open>\<open>CredentialStatus\<close>: four flags, of which a failure reports the earlier ones.\<close>

record credential_status =
  cr_scram_sha512 :: bool
  cr_scram_sha256 :: bool
  cr_tls :: bool
  cr_external :: bool

definition status_flag :: "kafka_user \<Rightarrow> (kafka_user_status \<Rightarrow> bool) \<Rightarrow> bool" where
  "status_flag obj f = (case ku_status obj of None \<Rightarrow> False | Some s \<Rightarrow> f s)"

definition prior_credentials :: "kafka_user \<Rightarrow> credential_status" where
  "prior_credentials obj = \<lparr>cr_scram_sha512 = False, cr_scram_sha256 = False,
     cr_tls = status_flag obj ust_tls, cr_external = status_flag obj ust_external\<rparr>"

definition user_status ::
  "user_env \<Rightarrow> kafka_user \<Rightarrow> string \<times> string \<times> string \<Rightarrow> credential_status \<Rightarrow> string option \<Rightarrow> string option
     \<Rightarrow> bool \<Rightarrow> bool \<Rightarrow> full_status" where
  "user_status env obj state cred tls_not_after tls_prin advance quotas_in_sync =
     (case state of (status, reason, message) \<Rightarrow>
       (let name = meta_name (ku_meta obj) in
        \<lparr>fs_conditions = [condition (ue_now env) ''Ready'' status reason message],
         fs_observed_generation =
           (if advance then meta_generation (ku_meta obj) else Option.bind (ku_status obj) ust_observed_generation),
         fs_username = name,
         fs_secret = (if cr_scram_sha512 cred \<or> cr_scram_sha256 cred \<or> cr_tls cred then Some name
                      else Option.bind (ku_status obj) ust_secret),
         fs_scram_sha512 = (cr_scram_sha512 cred \<or> status_flag obj ust_scram_sha512),
         fs_scram_sha256 = (cr_scram_sha256 cred \<or> status_flag obj ust_scram_sha256),
         fs_tls = (cr_tls cred \<or> status_flag obj ust_tls),
         fs_external = (cr_external cred \<or> status_flag obj ust_external),
         fs_tls_cert_not_after = tls_not_after, fs_tls_principal = tls_prin,
         fs_quotas_in_sync = quotas_in_sync\<rparr>))"

text \<open>A failure report keeps the credential and quota fields of the status as they are.\<close>

definition report_user :: "user_env \<Rightarrow> kafka_user \<Rightarrow> string \<Rightarrow> string \<Rightarrow> unit user_step" where
  "report_user env obj reason message =
     patch_user_status env (FullStatus (user_status env obj (''False'', reason, message) (prior_credentials obj)
       (Option.bind (ku_status obj) ust_tls_cert_not_after) (Option.bind (ku_status obj) ust_tls_principal)
       False (status_flag obj ust_quotas_in_sync)))"

definition user_has_finalizer :: "kafka_user \<Rightarrow> bool" where
  "user_has_finalizer obj =
     (case meta_finalizers (ku_meta obj) of None \<Rightarrow> False | Some f \<Rightarrow> list_ex (\<lambda>s. s = USER_FINALIZER) f)"

definition user_add_finalizer :: "user_env \<Rightarrow> unit user_step" where
  "user_add_finalizer env = attempt Kube (ue_patch_meta env) (SetUserFinalizers [USER_FINALIZER])"

definition user_remove_finalizer :: "user_env \<Rightarrow> unit user_step" where
  "user_remove_finalizer env = attempt Kube (ue_patch_meta env) (SetUserFinalizers [])"

section \<open>Deletion and the finalizer\<close>

text \<open>The cleanup is best effort: a failure is logged and the next call is made.\<close>

definition cleanup_credentials :: "user_env \<Rightarrow> kafka_user \<Rightarrow> unit user_step" where
  "cleanup_credentials env obj =
     (let name = meta_name (ku_meta obj) in
      case us_authentication (ku_spec obj) of
        ScramSha512 _ \<Rightarrow> emit (DeleteScram True name)
      | ScramSha256 _ \<Rightarrow> emit (DeleteScram False name)
      | DelegationToken _ \<Rightarrow> try_log (expire_owned_tokens env name) ret_log (\<lambda>_. ret_log ())
      | _ \<Rightarrow> ret_log ())"

definition cleanup_quotas :: "user_env \<Rightarrow> string \<Rightarrow> unit user_step" where
  "cleanup_quotas env quota_username =
     (case ue_describe_quotas env quota_username of
        Inr cur \<Rightarrow> if cur = [] then ret_log ()
                    else emit (AlterQuotas quota_username (map (\<lambda>(k, _). RemoveQuota k) cur))
      | Inl _ \<Rightarrow> ret_log ())"

definition handle_user_lifecycle :: "user_env \<Rightarrow> kafka_user \<Rightarrow> string \<Rightarrow> string \<Rightarrow> action option user_step" where
  "handle_user_lifecycle env obj who quota_username =
     (if meta_deletion_timestamp (ku_meta obj) \<noteq> None then
        then_log (if ue_connect env = None then
                    then_log (cleanup_credentials env obj)
                      (then_log (emit (DeleteAclsOf who)) (cleanup_quotas env quota_username))
                  else ret_log ())
          (then_log (user_remove_finalizer env) (ret_log (Some AwaitChange)))
      else if \<not> user_has_finalizer obj then
        then_log (user_add_finalizer env) (ret_log (Some (Requeue 0)))
      else ret_log None)"

section \<open>Access\<close>

record token_access_state =
  tas_requeue :: time
  tas_conditions :: "kafka_condition list"
  tas_pending_published :: bool

definition broker_detail :: "user_env \<Rightarrow> admin_error \<Rightarrow> string \<Rightarrow> string" where
  "broker_detail env err op =
     (case err of
        AdminBroker _ code name _ \<Rightarrow> op @ '': '' @ name @ '' ('' @ int_to_string code @ '')''
      | other \<Rightarrow> op @ '': '' @ ue_error_text env other)"

definition token_access_error_reason :: "admin_error \<Rightarrow> string" where
  "token_access_error_reason err = (case err of AdminBroker _ _ _ _ \<Rightarrow> ''BrokerError'' | _ \<Rightarrow> ''Transport'')"

definition user_broker_error ::
  "user_config \<Rightarrow> user_env \<Rightarrow> kafka_user \<Rightarrow> admin_error \<Rightarrow> string \<Rightarrow> action user_step" where
  "user_broker_error cfg env obj err op =
     then_log (report_user env obj ''BrokerError'' (broker_detail env err op))
       (ret_log (requeue (uc_error_requeue cfg)))"

definition user_access_broker_error ::
  "user_config \<Rightarrow> user_env \<Rightarrow> kafka_user \<Rightarrow> admin_error \<Rightarrow> string \<Rightarrow> token_access_state option
     \<Rightarrow> action user_step" where
  "user_access_broker_error cfg env obj err op token_access =
     (case token_access of
        Some token \<Rightarrow>
          then_log (patch_user_status env (ConditionsStatus (replace_ready_condition (ue_now env)
              (tas_conditions token) ''False'' (token_access_error_reason err) (broker_detail env err op))))
            (ret_log (requeue (min (uc_error_requeue cfg) (tas_requeue token))))
      | None \<Rightarrow> user_broker_error cfg env obj err op)"

definition drop_on_transport :: "string \<Rightarrow> admin_error \<Rightarrow> unit user_step" where
  "drop_on_transport cluster e = (if is_transport e then emit (DropUserAdmin cluster) else ret_log ())"

text \<open>A read that failed: only a token user learns of it in the status.\<close>

definition user_read_failed ::
  "user_config \<Rightarrow> user_env \<Rightarrow> string \<Rightarrow> kafka_user \<Rightarrow> admin_error \<Rightarrow> string \<Rightarrow> token_access_state option
     \<Rightarrow> action user_step" where
  "user_read_failed cfg env cluster obj e op token_access =
     then_log (drop_on_transport cluster e)
       (if token_access \<noteq> None then user_access_broker_error cfg env obj e op token_access
        else ret_log (requeue (uc_error_requeue cfg)))"

definition user_write_failed ::
  "user_config \<Rightarrow> user_env \<Rightarrow> string \<Rightarrow> kafka_user \<Rightarrow> admin_error \<Rightarrow> string \<Rightarrow> token_access_state option
     \<Rightarrow> action user_step" where
  "user_write_failed cfg env cluster obj e op token_access =
     then_log (drop_on_transport cluster e) (user_access_broker_error cfg env obj e op token_access)"

definition ensure_token_access_pending ::
  "user_env \<Rightarrow> token_access_state option \<Rightarrow> token_access_state option user_step" where
  "ensure_token_access_pending env token_access =
     (case token_access of
        None \<Rightarrow> ret_log None
      | Some token \<Rightarrow>
          if tas_pending_published token then ret_log (Some token)
          else
            (let conditions = replace_ready_condition (ue_now env) (tas_conditions token) ''False''
                   ''AccessPending'' ''delegation token issued; ACL and quota reconciliation pending''
             in then_log (patch_user_status env (ConditionsStatus conditions))
                  (ret_log (Some (token\<lparr>tas_conditions := conditions, tas_pending_published := True\<rparr>)))))"

text \<open>
  The outcome of a batch of entries: the first broker error counts as an error of the call
  (\<open>apply_create_acls\<close>, \<open>apply_delete_acls\<close>, \<open>apply_alter_user_quotas\<close>).
\<close>

definition batch_result :: "string \<Rightarrow> admin_error + kafka_error option list \<Rightarrow> admin_error option" where
  "batch_result api r =
     (case r of
        Inl e \<Rightarrow> Some e
      | Inr outcomes \<Rightarrow>
          (case find (\<lambda>x. x \<noteq> None) outcomes of
             Some (Some err) \<Rightarrow> Some (AdminBroker api (kerr_code err) (kerr_name err) (kerr_message err))
           | _ \<Rightarrow> None))"

definition apply_create_acls :: "user_env \<Rightarrow> acl_entry set \<Rightarrow> admin_error option user_step" where
  "apply_create_acls env additions =
     (if additions = {} then ret_log None
      else then_log (emit (CreateAcls additions)) (ret_log (batch_result ''CreateAcls'' (ue_create_acls env additions))))"

definition apply_delete_acls :: "user_env \<Rightarrow> acl_entry set \<Rightarrow> admin_error option user_step" where
  "apply_delete_acls env deletions =
     (if deletions = {} then ret_log None
      else then_log (emit (DeleteAcls deletions)) (ret_log (batch_result ''DeleteAcls'' (ue_delete_acls env deletions))))"

definition apply_alter_user_quotas :: "user_env \<Rightarrow> string \<Rightarrow> quota_op list \<Rightarrow> admin_error option user_step" where
  "apply_alter_user_quotas env username ops =
     (if ops = [] then ret_log None
      else then_log (emit (AlterQuotas username ops))
        (ret_log (batch_result ''AlterClientQuotas'' (map_sum id (\<lambda>e. [e]) (ue_alter_quotas env username ops)))))"

text \<open>A stage ends the pass with an action (\<open>Inl\<close>) or hands the token state on.\<close>

type_synonym 'a user_stage = "(action + 'a) user_step"

definition stop_user :: "action user_step \<Rightarrow> 'a user_stage" where
  "stop_user m = bind_log m (\<lambda>a. ret_log (Inl a))"

definition sync_acls ::
  "user_config \<Rightarrow> user_env \<Rightarrow> string \<Rightarrow> kafka_user \<Rightarrow> string \<Rightarrow> token_access_state option
     \<Rightarrow> token_access_state option user_stage" where
  "sync_acls cfg env cluster obj who token_access =
     (if us_authorization (ku_spec obj) = None then ret_log (Inr token_access)
      else
        (let desired = set (expand_spec_acls (us_authorization (ku_spec obj)) who) in
         case ue_describe_acls env who of
           Inl e \<Rightarrow> stop_user (user_read_failed cfg env cluster obj e ''DescribeAcls'' token_access)
         | Inr current \<Rightarrow>
             (case diff_acls (set current) desired of (additions, deletions) \<Rightarrow>
               bind_log (if additions \<noteq> {} \<or> deletions \<noteq> {} then ensure_token_access_pending env token_access
                         else ret_log token_access) (\<lambda>token_access.
                 bind_log (apply_create_acls env additions) (\<lambda>failed.
                   case failed of
                     Some e \<Rightarrow> stop_user (user_write_failed cfg env cluster obj e ''CreateAcls'' token_access)
                   | None \<Rightarrow>
                       bind_log (apply_delete_acls env deletions) (\<lambda>failed.
                         case failed of
                           Some e \<Rightarrow> stop_user (user_write_failed cfg env cluster obj e ''DeleteAcls'' token_access)
                         | None \<Rightarrow> ret_log (Inr token_access)))))))"

definition sync_quotas ::
  "user_config \<Rightarrow> user_env \<Rightarrow> string \<Rightarrow> kafka_user \<Rightarrow> string \<Rightarrow> token_access_state option
     \<Rightarrow> (bool \<times> token_access_state option) user_stage" where
  "sync_quotas cfg env cluster obj quota_username token_access =
     (case us_quotas (ku_spec obj) of
        None \<Rightarrow> ret_log (Inr (False, token_access))
      | Some quotas \<Rightarrow>
          (case ue_describe_quotas env quota_username of
             Inl e \<Rightarrow> stop_user (user_read_failed cfg env cluster obj e ''DescribeClientQuotas'' token_access)
           | Inr current \<Rightarrow>
               (let ops = ue_diff_quotas env current (to_quota_map quotas) in
                bind_log (if ops \<noteq> [] then ensure_token_access_pending env token_access else ret_log token_access)
                  (\<lambda>token_access.
                    bind_log (apply_alter_user_quotas env quota_username ops) (\<lambda>failed.
                      case failed of
                        Some e \<Rightarrow> stop_user (user_write_failed cfg env cluster obj e ''AlterClientQuotas'' token_access)
                      | None \<Rightarrow> ret_log (Inr (True, token_access)))))))"

definition user_requeue :: "user_config \<Rightarrow> authentication \<Rightarrow> reconcile_error + time" where
  "user_requeue cfg auth =
     (case auth of
        ScramSha512 _ \<Rightarrow> Inr (uc_drift_requeue cfg) | ScramSha256 _ \<Rightarrow> Inr (uc_drift_requeue cfg)
      | TlsExternal \<Rightarrow> Inr (uc_drift_requeue cfg) | Tls _ \<Rightarrow> Inr (uc_tls_drift_requeue cfg)
      | DelegationToken _ \<Rightarrow> Inl (Panic ''delegation-token arm returns after common access reconciliation''))"

definition in_sync_credentials :: "authentication \<Rightarrow> string option \<Rightarrow> credential_status" where
  "in_sync_credentials auth tls_not_after = \<lparr>
     cr_scram_sha512 = (case auth of ScramSha512 _ \<Rightarrow> True | _ \<Rightarrow> False),
     cr_scram_sha256 = (case auth of ScramSha256 _ \<Rightarrow> True | _ \<Rightarrow> False),
     cr_tls = (case auth of Tls _ \<Rightarrow> tls_not_after \<noteq> None | _ \<Rightarrow> False),
     cr_external = (auth = TlsExternal)\<rparr>"

definition publish_user ::
  "user_config \<Rightarrow> user_env \<Rightarrow> kafka_user \<Rightarrow> string \<Rightarrow> string option \<Rightarrow> bool \<Rightarrow> token_access_state option
     \<Rightarrow> action user_step" where
  "publish_user cfg env obj who tls_not_after quotas_in_sync token_access =
     (case token_access of
        Some token \<Rightarrow>
          (let final = (if tas_pending_published token then transition_ready_condition else replace_ready_condition)
                 (ue_now env) (tas_conditions token) ''True'' ''TokenReady''
                 ''delegation token, Secret, ACLs, and quotas in sync''
           in then_log (patch_user_status env (AccessStatus final (meta_generation (ku_meta obj)) quotas_in_sync))
                (ret_log (requeue (min (tas_requeue token) (uc_drift_requeue cfg)))))
      | None \<Rightarrow>
          (let auth = us_authentication (ku_spec obj);
               prin = (case auth of Tls _ \<Rightarrow> Some who | TlsExternal \<Rightarrow> Some who
                       | _ \<Rightarrow> Option.bind (ku_status obj) ust_tls_principal)
           in then_log (patch_user_status env (FullStatus (user_status env obj (''True'', ''Ready'', ''user in sync'')
                  (in_sync_credentials auth tls_not_after) tls_not_after prin True quotas_in_sync)))
                (bind_log (lift_log (user_requeue cfg auth)) (\<lambda>d. ret_log (requeue d)))))"

definition continue_user :: "'a user_stage \<Rightarrow> ('a \<Rightarrow> action user_step) \<Rightarrow> action user_step" where
  "continue_user m f = bind_log m (\<lambda>r. case r of Inl a \<Rightarrow> ret_log a | Inr x \<Rightarrow> f x)"

definition reconcile_access ::
  "user_config \<Rightarrow> user_env \<Rightarrow> string \<Rightarrow> kafka_user \<Rightarrow> string \<Rightarrow> string \<Rightarrow> string option
     \<Rightarrow> token_access_state option \<Rightarrow> action user_step" where
  "reconcile_access cfg env cluster obj who quota_username tls_not_after token_access =
     (case ue_connect env of
        Some e \<Rightarrow>
          if token_access \<noteq> None then user_access_broker_error cfg env obj e ''Connect'' token_access
          else ret_log (requeue (uc_error_requeue cfg))
      | None \<Rightarrow>
          continue_user (sync_acls cfg env cluster obj who token_access) (\<lambda>token_access.
            continue_user (sync_quotas cfg env cluster obj quota_username token_access) (\<lambda>(quotas_in_sync, token_access).
              publish_user cfg env obj who tls_not_after quotas_in_sync token_access)))"

section \<open>Credentials\<close>

definition provision_scram ::
  "user_config \<Rightarrow> user_env \<Rightarrow> string \<Rightarrow> kafka_user \<Rightarrow> bool \<Rightarrow> scram_auth \<Rightarrow> unit user_stage" where
  "provision_scram cfg env cluster obj is_sha512 auth =
     (let name = meta_name (ku_meta obj);
          iterations = unwrap_or (uc_default_iterations cfg) (sc_iterations auth);
          retry = ret_log (Inl (requeue (uc_error_requeue cfg)))
      in try_log (ensure_password_secret env obj (unwrap_or 32 (sc_password_length auth)))
           (\<lambda>password.
             if ue_connect env \<noteq> None then retry
             else then_log (emit (UpsertScram is_sha512 name password iterations))
               (case ue_upsert_scram env is_sha512 name password iterations of
                  Inl e \<Rightarrow> then_log (drop_on_transport cluster e) retry
                | Inr outcomes \<Rightarrow>
                    (case find (\<lambda>x. x \<noteq> None) outcomes of
                       Some (Some err) \<Rightarrow>
                         then_log (report_user env obj ''BrokerError''
                             (broker_error_text ''AlterUserScramCredentials'' err)) retry
                     | _ \<Rightarrow> ret_log (Inr ()))))
           (\<lambda>_. retry))"

definition provision_token ::
  "user_config \<Rightarrow> user_env \<Rightarrow> kafka_user \<Rightarrow> delegation_token_auth \<Rightarrow> token_access_state user_stage" where
  "provision_token cfg env obj auth =
     (case ue_connect env of
        Some e \<Rightarrow>
          bind_log (on_admin_error env (uc_token cfg) e ''Connect'' (existing_token_conditions obj)
              (existing_token_conditions obj \<noteq> None)) (\<lambda>out. ret_log (Inl (to_action out)))
      | None \<Rightarrow>
          bind_log (reconcile_token env (uc_token cfg) (uc_reconcile_error_text cfg) obj auth) (\<lambda>out.
            case (to_conditions out, to_token_requeue out) of
              (Some conditions, Some delay) \<Rightarrow>
                ret_log (Inr \<lparr>tas_requeue = delay, tas_conditions = conditions,
                              tas_pending_published = to_pending_published out\<rparr>)
            | _ \<Rightarrow> ret_log (Inl (to_action out))))"

text \<open>Credentials of every type: the expiry of the certificate and the state of the token.\<close>

definition provision ::
  "user_config \<Rightarrow> user_env \<Rightarrow> string \<Rightarrow> kafka_owner \<Rightarrow> kafka_user
     \<Rightarrow> (string option \<times> token_access_state option) user_stage" where
  "provision cfg env cluster kafka obj =
     (case us_authentication (ku_spec obj) of
        ScramSha512 auth \<Rightarrow>
          bind_log (provision_scram cfg env cluster obj True auth) (\<lambda>r. ret_log (map_sum id (\<lambda>_. (None, None)) r))
      | ScramSha256 auth \<Rightarrow>
          bind_log (provision_scram cfg env cluster obj False auth) (\<lambda>r. ret_log (map_sum id (\<lambda>_. (None, None)) r))
      | Tls auth \<Rightarrow>
          try_log (reconcile_user_cert_secret env obj kafka auth)
            (\<lambda>status. ret_log (Inr (Some (ucs_not_after status), None)))
            (\<lambda>_. ret_log (Inl (requeue (uc_error_requeue cfg))))
      | TlsExternal \<Rightarrow> ret_log (Inr (None, None))
      | DelegationToken auth \<Rightarrow>
          bind_log (provision_token cfg env obj auth) (\<lambda>r. ret_log (map_sum id (\<lambda>t. (None, Some t)) r)))"

section \<open>The pass\<close>

datatype user_preparation = UserReady string string kafka_owner | UserDone action

definition refuse_user ::
  "user_env \<Rightarrow> kafka_user \<Rightarrow> string \<Rightarrow> string \<Rightarrow> time \<Rightarrow> user_preparation user_step" where
  "refuse_user env obj reason message delay =
     then_log (report_user env obj reason message) (ret_log (UserDone (requeue delay)))"

definition prepare_user :: "user_config \<Rightarrow> user_env \<Rightarrow> kafka_user \<Rightarrow> user_preparation user_step" where
  "prepare_user cfg env obj =
     (let name = meta_name (ku_meta obj) in
      case meta_label (ku_meta obj) ''krabka.io/cluster'' of
        None \<Rightarrow> refuse_user env obj ''MissingClusterLabel''
          (''metadata.labels['' @ debug_str ''krabka.io/cluster'' @ ''] is required'') (uc_drift_requeue cfg)
      | Some cluster \<Rightarrow>
          (case (if meta_deletion_timestamp (ku_meta obj) = None then validate_reserved_identity name cluster
                 else Inr ()) of
             Inl message \<Rightarrow> refuse_user env obj ''InvalidSpec'' message (uc_invalid_requeue cfg)
           | Inr _ \<Rightarrow>
               (case validate_user_spec (uc_human cfg) (ku_spec obj) of
                  Inl message \<Rightarrow> refuse_user env obj ''InvalidSpec'' message (uc_invalid_requeue cfg)
                | Inr _ \<Rightarrow>
                    bind_log (lift_log (map_sum Kube id (ue_get_kafka env cluster))) (\<lambda>kafka.
                      case kafka of
                        Some (view, owner) \<Rightarrow>
                          (case operator_listener_bootstrap view of
                             Some bootstrap \<Rightarrow> ret_log (UserReady cluster bootstrap owner)
                           | None \<Rightarrow> refuse_user env obj ''ClusterNotReady''
                               (''Kafka/'' @ cluster @ '' not Ready or no internal listener'') (uc_dependency_requeue cfg))
                      | None \<Rightarrow> refuse_user env obj ''ClusterNotReady''
                          (''Kafka/'' @ cluster @ '' not Ready or no internal listener'') (uc_dependency_requeue cfg)))))"

definition reconcile_user :: "user_config \<Rightarrow> user_env \<Rightarrow> kafka_user \<Rightarrow> action user_step" where
  "reconcile_user cfg env obj =
     bind_log (prepare_user cfg env obj) (\<lambda>preparation.
       case preparation of
         UserDone a \<Rightarrow> ret_log a
       | UserReady cluster bootstrap kafka \<Rightarrow>
           (let who = principal_for (meta_name (ku_meta obj)) (us_authentication (ku_spec obj));
                quota_username = quota_username_of who
            in bind_log (handle_user_lifecycle env obj who quota_username) (\<lambda>lifecycle.
                 case lifecycle of
                   Some a \<Rightarrow> ret_log a
                 | None \<Rightarrow>
                     continue_user (provision cfg env cluster kafka obj) (\<lambda>(tls_not_after, token_access).
                       reconcile_access cfg env cluster obj who quota_username tls_not_after token_access))))"

end
