(* ===== verification/User_Access.thy ===== *)
theory User_Access
  imports User
begin

text \<open>
  What the pass of \<open>User\<close> guarantees: a user reported ready has exactly the access its
  resource asks for, every request is guarded, and two ways in which names and
  Secrets collide.
\<close>

section \<open>Synchronising sets of entries\<close>

text \<open>The additions and deletions that the controller computes bring the entries of a principal
  exactly to the wanted ones, and none of them is idle: additions are missing, deletions are present,
  and no entry is both added and deleted. When nothing differs, both are empty.\<close>

theorem acl_diff_exact:
  "(case diff_acls current desired of (additions, deletions) \<Rightarrow>
     (current \<union> additions) - deletions = desired
     \<and> additions \<inter> current = {} \<and> deletions \<subseteq> current \<and> additions \<inter> deletions = {}
     \<and> (additions = {} \<and> deletions = {} \<longleftrightarrow> current = desired))"
  by (auto simp: diff_acls_def)

definition acl_plan :: "acl_entry set \<Rightarrow> acl_entry set \<Rightarrow> user_effect list" where
  "acl_plan current desired =
     (case diff_acls current desired of (additions, deletions) \<Rightarrow>
       (if additions = {} then [] else [CreateAcls additions]) @ (if deletions = {} then [] else [DeleteAcls deletions]))"

definition exec_acl :: "user_effect \<Rightarrow> acl_entry set \<Rightarrow> acl_entry set" where
  "exec_acl eff acls = (case eff of CreateAcls a \<Rightarrow> acls \<union> a | DeleteAcls d \<Rightarrow> acls - d | _ \<Rightarrow> acls)"

interpretation ua: state_sync acl_plan exec_acl "\<lambda>_. True"
  by unfold_locales (auto simp: acl_plan_def exec_acl_def diff_acls_def)

section \<open>What a pass does to the access of the user\<close>

record live_access =
  la_acls :: "acl_entry set"
  la_quotas :: quota_map

definition exec_quota :: "quota_op \<Rightarrow> quota_map \<Rightarrow> quota_map" where
  "exec_quota p m = (case p of SetQuota k v \<Rightarrow> bm_insert k v m | RemoveQuota k \<Rightarrow> bm_remove k m)"

definition access_after :: "user_env \<Rightarrow> user_effect \<Rightarrow> live_access \<Rightarrow> live_access" where
  "access_after env eff live =
     (case eff of
        CreateAcls a \<Rightarrow> if batch_result ''CreateAcls'' (ue_create_acls env a) = None
                         then live\<lparr>la_acls := la_acls live \<union> a\<rparr> else live
      | DeleteAcls d \<Rightarrow> if batch_result ''DeleteAcls'' (ue_delete_acls env d) = None
                         then live\<lparr>la_acls := la_acls live - d\<rparr> else live
      | AlterQuotas u ops \<Rightarrow>
          if batch_result ''AlterClientQuotas'' (map_sum id (\<lambda>e. [e]) (ue_alter_quotas env u ops)) = None
          then live\<lparr>la_quotas := fold exec_quota ops (la_quotas live)\<rparr> else live
      | _ \<Rightarrow> live)"

lemma access_after_other [simp]:
  "access_after env (PatchUserStatus p) = id" "access_after env (SetUserFinalizers f) = id"
  "access_after env (UserCa x) = id" "access_after env (ApplyUserSecret n s) = id"
  "access_after env (MergeUserSecret n e) = id" "access_after env (UpsertScram b n w i) = id"
  "access_after env (CreateToken w rs l) = id" "access_after env (RenewToken h) = id"
  "access_after env (ExpireToken h) = id" "access_after env (DropUserAdmin c) = id"
  by (simp_all add: access_after_def fun_eq_iff)

text \<open>
  The broker's answers describe the access it holds; the quota diff of the admin client
  leads from the first map to the second.
\<close>

definition reports_access :: "user_env \<Rightarrow> string \<Rightarrow> string \<Rightarrow> live_access \<Rightarrow> bool" where
  "reports_access env who quota_username live \<longleftrightarrow>
     (case ue_describe_acls env who of Inl _ \<Rightarrow> True | Inr l \<Rightarrow> set l = la_acls live)
     \<and> (case ue_describe_quotas env quota_username of Inl _ \<Rightarrow> True | Inr q \<Rightarrow> q = la_quotas live)"

definition sound_quota_diff :: "user_env \<Rightarrow> bool" where
  "sound_quota_diff env \<longleftrightarrow>
     (\<forall>cur des. bm_ok cur \<and> bm_ok des \<longrightarrow> fold exec_quota (ue_diff_quotas env cur des) cur = des)"

text \<open>Effects that touch neither entries nor quotas.\<close>

definition idle :: "user_effect \<Rightarrow> bool" where
  "idle eff = (case eff of CreateAcls _ \<Rightarrow> False | DeleteAcls _ \<Rightarrow> False | DeleteAclsOf _ \<Rightarrow> False
                | AlterQuotas _ _ \<Rightarrow> False | _ \<Rightarrow> True)"

lemma idle_access: "list_all idle effs \<Longrightarrow> fold (access_after env) effs live = live"
  by (induction effs) (auto simp: idle_def access_after_def split: user_effect.splits)

abbreviation idle_step :: "'a user_step \<Rightarrow> bool" where
  "idle_step m \<equiv> logs idle m"

lemma idle_basic [simp]:
  "idle_step (ret_log x)" "idle_step (fail_log e)" "idle_step (lift_log r)"
  "idle_step (patch_user_status env p)" "idle_step (apply_user_secret env n s)"
  "idle_step (merge_user_secret env n d)" "idle_step (get_user_secret env n)"
  "idle_step (map_log UserCa m)"
  by (auto simp: idle_def snd_patch_user_status apply_user_secret_def merge_user_secret_def get_user_secret_def
      attempt_def list_all_iff split: option.splits)

lemma idle_ca [simp]: "list_all idle (map UserCa xs)"
  by (simp add: list_all_iff idle_def)

lemma idle_emit [simp]: "idle_step (emit eff) = idle eff"
  by simp

lemma idle_user_effects [simp]:
  "idle (UpsertScram b n w i)" "idle (CreateToken w rs l)" "idle (RenewToken h)" "idle (ExpireToken h)"
  "idle (DropUserAdmin c)"
  by (simp_all add: idle_def)

lemma idle_report: "idle_step (report_user env obj reason message)"
  by (simp add: report_user_def)

lemma idle_on_admin_error: "idle_step (on_admin_error env cfg err op prior live)"
  by (cases "admin_error_report env cfg err op") (simp add: on_admin_error_def Let_def logs_then)

lemma idle_pending: "idle_step (publish_token_pending env prior live)"
  by (simp add: publish_token_pending_def Let_def logs_then)

lemma idle_issue: "idle_step (issue_arm env cfg name auth pending)"
  unfolding issue_arm_def issue_new_token_def stop_with_def
  by (intro logs_intros) (simp_all add: logs_bind idle_on_admin_error split: sum.splits)

lemma idle_decision: "idle_step (run_decision env cfg obj auth matching)"
proof -
  have "idle_step (create_arm env cfg obj auth)"
    unfolding create_arm_def by (intro logs_intros idle_pending idle_issue)
  moreover have "idle_step (renew_arm env cfg obj auth token)" for token
    by (simp add: renew_arm_def stop_with_def logs_then logs_bind idle_on_admin_error split: sum.splits)
  moreover have "idle_step (cycle_arm env cfg obj auth token)" for token
    unfolding cycle_arm_def Let_def stop_with_def
    by (intro logs_intros idle_pending)
      (simp_all add: logs_bind idle_on_admin_error idle_issue split: option.splits)
  ultimately show ?thesis
    by (auto simp: run_decision_def split: token_decision.splits option.splits)
qed

lemma idle_publish_token: "idle_step (publish_token env cfg error_text obj auth token pending0)"
  by (auto simp: list_all_iff idle_def dest!: publish_token_effects)

lemma idle_token: "idle_step (reconcile_token env cfg error_text obj auth)"
proof (cases "ue_describe_tokens env (''User:'' @ meta_name (ku_meta obj))")
  case (Inr existing)
  show ?thesis
    using Inr unfolding reconcile_token_def
    by (auto intro!: logs_bind idle_decision idle_publish_token split: sum.splits prod.splits)
qed (simp add: reconcile_token_def idle_on_admin_error)


lemma idle_provision: "idle_step (provision cfg env cluster kafka obj)"
proof -
  have "idle_step (ensure_password_secret env obj len)" for len
    unfolding ensure_password_secret_def Let_def
    by (intro logs_intros) (simp_all add: logs_bind logs_then split: option.splits)
  then have scram: "idle_step (provision_scram cfg env cluster obj sha auth)" for sha auth
    unfolding provision_scram_def Let_def
    by (intro logs_intros)
      (simp_all add: logs_then idle_report drop_on_transport_def split: sum.splits option.splits)
  have "idle_step (keep_cert env name s na trust)" for name s na trust
    unfolding keep_cert_def by (intro logs_intros) simp_all
  then have "idle_step (ensure_user_cert_secret env obj ca trust auth)" for ca trust auth
    unfolding ensure_user_cert_secret_def Let_def
    by (intro logs_intros) (simp_all add: logs_bind logs_then split: option.splits)
  then have tls: "idle_step (reconcile_user_cert_secret env obj kafka auth)" for auth
    unfolding reconcile_user_cert_secret_def by (intro logs_intros) simp_all
  have token: "idle_step (provision_token cfg env obj auth)" for auth
    unfolding provision_token_def
    by (auto intro!: logs_bind idle_on_admin_error idle_token split: option.splits)
  show ?thesis
    unfolding provision_def using scram tls token
    by (simp add: logs_bind logs_try split: authentication.splits)
qed

lemma idle_errors:
  "idle_step (user_read_failed cfg env cluster obj e op ta)" "idle_step (user_write_failed cfg env cluster obj e op ta)"
  "idle_step (user_access_broker_error cfg env obj e op ta)"
  by (auto simp: user_read_failed_def user_write_failed_def user_access_broker_error_def user_broker_error_def
      drop_on_transport_def idle_report intro!: logs_then split: option.splits)

lemma idle_pending_access: "idle_step (ensure_token_access_pending env ta)"
  by (auto simp: ensure_token_access_pending_def Let_def intro!: logs_then split: option.splits)

section \<open>A user reported ready has the access it asks for\<close>

text \<open>A stage that stops announces nothing; one that goes on has done its part.\<close>

lemma error_quiet:
  "quiet (user_read_failed cfg env cluster obj e op ta)" "quiet (user_write_failed cfg env cluster obj e op ta)"
  "quiet (user_access_broker_error cfg env obj e op ta)" "quiet (report_user env obj reason message)"
proof -
  have r: "quiet (report_user env obj reason message)" for reason message
    by (simp add: report_user_def snd_patch_user_status announces_ready_def user_status_def ready_status_def
        condition_def Let_def)
  then have a: "quiet (user_access_broker_error cfg env obj e op ta)"
    by (simp add: user_access_broker_error_def user_broker_error_def quiet_then quiet_conditions
        split: option.splits)
  have d: "quiet (drop_on_transport cluster e)"
    by (simp add: drop_on_transport_def announces_ready_def)
  show "quiet (user_read_failed cfg env cluster obj e op ta)"
    unfolding user_read_failed_def by (simp add: quiet_then d a)
  show "quiet (user_write_failed cfg env cluster obj e op ta)"
    unfolding user_write_failed_def by (rule quiet_then[OF d a])
  show "quiet (user_access_broker_error cfg env obj e op ta)" by (rule a)
  show "quiet (report_user env obj reason message)" by (rule r)
qed

lemma apply_acls_effect:
  "fst (apply_create_acls env a) = Inr None \<Longrightarrow>
     fold (access_after env) (snd (apply_create_acls env a)) live = live\<lparr>la_acls := la_acls live \<union> a\<rparr>"
  "fst (apply_delete_acls env d) = Inr None \<Longrightarrow>
     fold (access_after env) (snd (apply_delete_acls env d)) live = live\<lparr>la_acls := la_acls live - d\<rparr>"
  by (auto simp: apply_create_acls_def apply_delete_acls_def fst_then_log snd_then_log access_after_def
      split: if_splits)

lemma apply_quota_effect:
  "fst (apply_alter_user_quotas env u ops) = Inr None \<Longrightarrow>
     fold (access_after env) (snd (apply_alter_user_quotas env u ops)) live
       = live\<lparr>la_quotas := fold exec_quota ops (la_quotas live)\<rparr>"
  by (auto simp: apply_alter_user_quotas_def fst_then_log snd_then_log access_after_def split: if_splits)

lemma bm_ok_insert_opt: "bm_ok m \<Longrightarrow> bm_ok (insert_opt k v m)"
  by (cases v) (simp_all add: insert_opt_def)

lemma bm_ok_quota_map: "bm_ok (to_quota_map q)"
  unfolding to_quota_map_def by (intro bm_ok_insert_opt) simp

lemma stop_user_result: "fst (stop_user m) \<noteq> Inr (Inr x)"
  by (auto simp: stop_user_def fst_bind_log split: sum.splits)

lemma sync_acls_stage:
  assumes go: "fst (sync_acls cfg env cluster obj who ta) = Inr (Inr ta')"
    and cur: "case ue_describe_acls env who of Inl _ \<Rightarrow> True | Inr l \<Rightarrow> set l = la_acls live"
  shows "fold (access_after env) (snd (sync_acls cfg env cluster obj who ta)) live
    = (if us_authorization (ku_spec obj) = None then live
       else live\<lparr>la_acls := set (expand_spec_acls (us_authorization (ku_spec obj)) who)\<rparr>)"
proof (cases "us_authorization (ku_spec obj) = None")
  case True
  then show ?thesis by (simp add: sync_acls_def)
next
  case False
  then obtain au where au: "us_authorization (ku_spec obj) = Some au" by blast
  let ?des = "set (expand_spec_acls (Some au) who)"
  let ?add = "?des - la_acls live" and ?del = "la_acls live - ?des"
  let ?pend = "if ?add \<noteq> {} \<or> ?del \<noteq> {} then ensure_token_access_pending env ta else ret_log ta"
  from False go obtain l where "ue_describe_acls env who = Inr l"
    by (cases "ue_describe_acls env who") (auto simp: sync_acls_def Let_def stop_user_result)
  with cur have l: "ue_describe_acls env who = Inr l" "set l = la_acls live" by auto
  let ?rest = "\<lambda>ta. bind_log (apply_create_acls env ?add) (\<lambda>failed.
      case failed of Some e \<Rightarrow> stop_user (user_write_failed cfg env cluster obj e ''CreateAcls'' ta)
      | None \<Rightarrow> bind_log (apply_delete_acls env ?del) (\<lambda>failed.
          case failed of Some e \<Rightarrow> stop_user (user_write_failed cfg env cluster obj e ''DeleteAcls'' ta)
          | None \<Rightarrow> ret_log (Inr ta)))"
  have eq: "sync_acls cfg env cluster obj who ta = bind_log ?pend ?rest"
    using au l by (simp add: sync_acls_def Let_def diff_acls_def)
  have p: "fold (access_after env) (snd ?pend) x = x" for x
    by (rule idle_access) (simp add: idle_pending_access)
  from go eq obtain ta1 where t: "fst ?pend = Inr ta1" "fst (?rest ta1) = Inr (Inr ta')"
    by (cases "fst ?pend") (auto simp: fst_bind_log)
  from t(2) have c: "fst (apply_create_acls env ?add) = Inr None"
    by (auto simp: fst_bind_log stop_user_result split: sum.splits option.splits)
  from t(2) c have d: "fst (apply_delete_acls env ?del) = Inr None"
    by (auto simp: fst_bind_log stop_user_result split: sum.splits option.splits)
  have "snd (sync_acls cfg env cluster obj who ta)
      = snd ?pend @ snd (apply_create_acls env ?add) @ snd (apply_delete_acls env ?del)"
    unfolding eq snd_bind_log t(1) using c d by (simp add: snd_bind_log)
  then have "fold (access_after env) (snd (sync_acls cfg env cluster obj who ta)) live
      = live\<lparr>la_acls := (la_acls live \<union> ?add) - ?del\<rparr>"
    using p apply_acls_effect c d by simp
  moreover have "(la_acls live \<union> ?add) - ?del = ?des" by auto
  ultimately show ?thesis using au by simp
qed

lemma sync_quotas_stage:
  assumes go: "fst (sync_quotas cfg env cluster obj quser ta) = Inr (Inr (q, ta'))"
    and cur: "case ue_describe_quotas env quser of Inl _ \<Rightarrow> True | Inr m \<Rightarrow> m = la_quotas live"
    and sound: "sound_quota_diff env" and ok: "bm_ok (la_quotas live)"
  shows "fold (access_after env) (snd (sync_quotas cfg env cluster obj quser ta)) live
    = (case us_quotas (ku_spec obj) of None \<Rightarrow> live | Some quotas \<Rightarrow> live\<lparr>la_quotas := to_quota_map quotas\<rparr>)"
proof (cases "us_quotas (ku_spec obj)")
  case None
  then show ?thesis by (simp add: sync_quotas_def)
next
  case (Some quotas)
  let ?ops = "ue_diff_quotas env (la_quotas live) (to_quota_map quotas)"
  let ?pend = "if ?ops \<noteq> [] then ensure_token_access_pending env ta else ret_log ta"
  from Some go obtain m where "ue_describe_quotas env quser = Inr m"
    by (cases "ue_describe_quotas env quser") (auto simp: sync_quotas_def Let_def stop_user_result)
  with cur have m: "ue_describe_quotas env quser = Inr (la_quotas live)" by auto
  let ?rest = "\<lambda>ta. bind_log (apply_alter_user_quotas env quser ?ops) (\<lambda>failed.
      case failed of Some e \<Rightarrow> stop_user (user_write_failed cfg env cluster obj e ''AlterClientQuotas'' ta)
      | None \<Rightarrow> ret_log (Inr (True, ta)))"
  have eq: "sync_quotas cfg env cluster obj quser ta = bind_log ?pend ?rest"
    using Some m by (simp add: sync_quotas_def Let_def)
  have p: "fold (access_after env) (snd ?pend) x = x" for x
    by (rule idle_access) (simp add: idle_pending_access)
  from go eq obtain ta1 where t: "fst ?pend = Inr ta1" "fst (?rest ta1) = Inr (Inr (q, ta'))"
    by (cases "fst ?pend") (auto simp: fst_bind_log)
  from t(2) have a: "fst (apply_alter_user_quotas env quser ?ops) = Inr None"
    by (auto simp: fst_bind_log stop_user_result split: sum.splits option.splits)
  have "snd (sync_quotas cfg env cluster obj quser ta) = snd ?pend @ snd (apply_alter_user_quotas env quser ?ops)"
    unfolding eq snd_bind_log t(1) using a by (simp add: snd_bind_log)
  then have "fold (access_after env) (snd (sync_quotas cfg env cluster obj quser ta)) live
      = live\<lparr>la_quotas := fold exec_quota ?ops (la_quotas live)\<rparr>"
    using p apply_quota_effect[OF a] by simp
  moreover have "fold exec_quota ?ops (la_quotas live) = to_quota_map quotas"
    using sound ok unfolding sound_quota_diff_def by (simp add: bm_ok_quota_map)
  ultimately show ?thesis using Some by simp
qed


lemma quiet_stop_user: "quiet m \<Longrightarrow> quiet (stop_user m)"
  unfolding stop_user_def by (rule quiet_bind) simp_all

lemma quiet_pending_access: "quiet (ensure_token_access_pending env ta)"
  by (simp add: ensure_token_access_pending_def Let_def quiet_then quiet_conditions split: option.splits)

lemma quiet_apply:
  "quiet (apply_create_acls env a)" "quiet (apply_delete_acls env d)" "quiet (apply_alter_user_quotas env u ops)"
  by (simp_all add: apply_create_acls_def apply_delete_acls_def apply_alter_user_quotas_def snd_then_log
      announces_ready_def)

lemma quiet_sync_acls: "quiet (sync_acls cfg env cluster obj who ta)"
  unfolding sync_acls_def Let_def diff_acls_def
  by (simp split: sum.splits option.splits
      add: quiet_bind quiet_stop_user quiet_pending_access quiet_apply error_quiet)

lemma quiet_sync_quotas: "quiet (sync_quotas cfg env cluster obj quser ta)"
  unfolding sync_quotas_def Let_def
  by (simp split: sum.splits option.splits
      add: quiet_bind quiet_stop_user quiet_pending_access quiet_apply error_quiet)

lemma quiet_upsert [simp]: "\<not> announces_ready (UpsertScram b n w i)" "\<not> announces_ready (DropUserAdmin c)"
  "\<not> announces_ready (UserCa x)" "\<not> announces_ready (MergeUserSecret n d)"
  by (simp_all add: announces_ready_def)

lemma quiet_drop: "quiet (drop_on_transport cluster e)"
  by (simp add: drop_on_transport_def)

lemma quiet_secrets: "quiet (get_user_secret env n)" "quiet (merge_user_secret env n d)"
  by (auto simp: get_user_secret_def merge_user_secret_def attempt_def split: option.splits)

lemma quiet_provision_scram: "quiet (provision_scram cfg env cluster obj sha auth)"
proof -
  have "quiet (ensure_password_secret env obj len)" for len
    unfolding ensure_password_secret_def Let_def
    by (simp add: quiet_bind quiet_then quiet_secrets quiet_apply_secret split: option.splits)
  then show ?thesis
    unfolding provision_scram_def Let_def
    by (intro quiet_try)
      (simp_all add: quiet_then error_quiet quiet_drop split: sum.splits option.splits)
qed

lemma quiet_provision_tls: "quiet (reconcile_user_cert_secret env obj kafka auth)"
proof -
  have "quiet (keep_cert env name s na trust)" for name s na trust
    unfolding keep_cert_def by (intro quiet_then quiet_bind) (simp_all add: quiet_secrets)
  then have e: "quiet (ensure_user_cert_secret env obj ca trust auth)" for ca trust
    unfolding ensure_user_cert_secret_def Let_def
    by (simp add: quiet_bind quiet_then quiet_secrets quiet_apply_secret split: option.splits)
  have "\<not> list_ex announces_ready (map UserCa xs)" for xs
    by (simp add: list_ex_iff)
  with e show ?thesis unfolding reconcile_user_cert_secret_def by (simp add: quiet_bind)
qed

lemma quiet_provision: "quiet (provision cfg env cluster kafka obj)"
proof -
  have token: "quiet (provision_token cfg env obj auth)" for auth
    unfolding provision_token_def
    by (simp add: quiet_bind quiet_on_admin_error reconcile_token_quiet split: option.splits)
  show ?thesis
    unfolding provision_def
    by (simp add: quiet_bind quiet_try quiet_provision_scram quiet_provision_tls token split: authentication.splits)
qed

lemma continue_userE:
  assumes "list_ex announces_ready (snd (continue_user m f))" "quiet m"
  obtains x where "fst m = Inr (Inr x)" "list_ex announces_ready (snd (f x))"
    "snd (continue_user m f) = snd m @ snd (f x)"
  using assms by (auto simp: continue_user_def snd_bind_log split: sum.splits)

lemma idle_publish_user: "idle_step (publish_user cfg env obj who na q ta)"
  by (auto simp: publish_user_def Let_def intro!: logs_then logs_bind split: option.splits)

lemma access_ready:
  assumes ready: "list_ex announces_ready (snd (reconcile_access cfg env cluster obj who quser na ta))"
    and rep: "reports_access env who quser live" and sound: "sound_quota_diff env" "bm_ok (la_quotas live)"
  shows "fold (access_after env) (snd (reconcile_access cfg env cluster obj who quser na ta)) live
    = live\<lparr>la_acls := (if us_authorization (ku_spec obj) = None then la_acls live
                      else set (expand_spec_acls (us_authorization (ku_spec obj)) who)),
           la_quotas := (case us_quotas (ku_spec obj) of None \<Rightarrow> la_quotas live | Some q \<Rightarrow> to_quota_map q)\<rparr>"
proof -
  from ready have "ue_connect env = None"
    by (auto simp: reconcile_access_def error_quiet split: option.splits if_splits)
  then have eq: "reconcile_access cfg env cluster obj who quser na ta =
      continue_user (sync_acls cfg env cluster obj who ta) (\<lambda>ta.
        continue_user (sync_quotas cfg env cluster obj quser ta) (\<lambda>(q, ta). publish_user cfg env obj who na q ta))"
    by (simp add: reconcile_access_def)
  from ready eq obtain ta1 where 1: "fst (sync_acls cfg env cluster obj who ta) = Inr (Inr ta1)"
    and r1: "list_ex announces_ready (snd (continue_user (sync_quotas cfg env cluster obj quser ta1)
               (\<lambda>(q, ta). publish_user cfg env obj who na q ta)))"
    and s1: "snd (reconcile_access cfg env cluster obj who quser na ta) = snd (sync_acls cfg env cluster obj who ta)
        @ snd (continue_user (sync_quotas cfg env cluster obj quser ta1) (\<lambda>(q, ta). publish_user cfg env obj who na q ta))"
    using quiet_sync_acls by (metis (no_types, lifting) continue_userE)
  from r1 obtain x where 2: "fst (sync_quotas cfg env cluster obj quser ta1) = Inr (Inr x)"
    and s2: "snd (continue_user (sync_quotas cfg env cluster obj quser ta1) (\<lambda>(q, ta). publish_user cfg env obj who na q ta))
        = snd (sync_quotas cfg env cluster obj quser ta1) @ snd ((\<lambda>(q, ta). publish_user cfg env obj who na q ta) x)"
    using quiet_sync_quotas by (metis (no_types, lifting) continue_userE)
  obtain q ta2 where x: "x = (q, ta2)" by force
  let ?live1 = "fold (access_after env) (snd (sync_acls cfg env cluster obj who ta)) live"
  have l1: "?live1 = (if us_authorization (ku_spec obj) = None then live
       else live\<lparr>la_acls := set (expand_spec_acls (us_authorization (ku_spec obj)) who)\<rparr>)"
    using rep by (intro sync_acls_stage[OF 1]) (simp add: reports_access_def)
  then have q1: "la_quotas ?live1 = la_quotas live" by simp
  have "fold (access_after env) (snd (sync_quotas cfg env cluster obj quser ta1)) ?live1
    = (case us_quotas (ku_spec obj) of None \<Rightarrow> ?live1 | Some quotas \<Rightarrow> ?live1\<lparr>la_quotas := to_quota_map quotas\<rparr>)"
    using rep sound q1 2 x by (intro sync_quotas_stage) (auto simp: reports_access_def split: sum.splits)
  then show ?thesis
    unfolding s1 s2 x using l1 idle_access[OF idle_publish_user]
    by (cases live) (simp split: option.splits)
qed


definition refusal :: "user_env \<Rightarrow> kafka_user \<Rightarrow> user_preparation user_step \<Rightarrow> bool" where
  "refusal env obj r \<longleftrightarrow>
     (\<exists>reason message delay. r = refuse_user env obj reason message delay) \<or> (\<exists>e. r = fail_log e)"

lemma refusal_log:
  assumes "refusal env obj r"
  shows "quiet r" "idle_step r" "fst r \<noteq> Inr (UserReady c b k)"
    "eff \<in> set (snd r) \<Longrightarrow> \<exists>p. eff = PatchUserStatus p"
proof -
  have r: "quiet (refuse_user env obj reason message delay)" "idle_step (refuse_user env obj reason message delay)"
    "fst (refuse_user env obj reason message delay) \<noteq> Inr (UserReady c b k)"
    "eff \<in> set (snd (refuse_user env obj reason message delay)) \<Longrightarrow> \<exists>p. eff = PatchUserStatus p"
    for reason message delay
    using error_quiet(4)[of env obj reason message] idle_report[of env obj reason message]
    by (auto simp: refuse_user_def quiet_then logs_then fst_then_log snd_then_log report_user_def
        snd_patch_user_status split: sum.splits if_splits)
  from assms show "quiet r" "idle_step r" "fst r \<noteq> Inr (UserReady c b k)"
    "eff \<in> set (snd r) \<Longrightarrow> \<exists>p. eff = PatchUserStatus p"
    unfolding refusal_def using r by auto
qed

lemma prepare_user_cases:
  obtains (refused) "refusal env obj (prepare_user cfg env obj)"
  | (ready) cluster bootstrap owner where
      "prepare_user cfg env obj = ret_log (UserReady cluster bootstrap owner)"
      "meta_label (ku_meta obj) ''krabka.io/cluster'' = Some cluster"
      "meta_deletion_timestamp (ku_meta obj) = None \<Longrightarrow>
         validate_reserved_identity (meta_name (ku_meta obj)) cluster = Inr ()"
      "validate_user_spec (uc_human cfg) (ku_spec obj) = Inr ()"
proof (cases "meta_label (ku_meta obj) ''krabka.io/cluster''")
  case None
  then show thesis by (intro refused) (unfold prepare_user_def Let_def refusal_def, auto)
next
  case (Some cluster)
  note label = this
  let ?reserved = "if meta_deletion_timestamp (ku_meta obj) = None
    then validate_reserved_identity (meta_name (ku_meta obj)) cluster else Inr ()"
  show thesis
  proof (cases ?reserved)
    case (Inl message)
    with label have "prepare_user cfg env obj = refuse_user env obj ''InvalidSpec'' message (uc_invalid_requeue cfg)"
      unfolding prepare_user_def Let_def by simp
    then show thesis by (intro refused) (unfold refusal_def, blast)
  next
    case (Inr u)
    note free = this
    show thesis
    proof (cases "validate_user_spec (uc_human cfg) (ku_spec obj)")
      case (Inl message)
      with label free
      have "prepare_user cfg env obj = refuse_user env obj ''InvalidSpec'' message (uc_invalid_requeue cfg)"
        unfolding prepare_user_def Let_def by simp
      then show thesis by (intro refused) (unfold refusal_def, blast)
    next
      case (Inr v)
      note valid = this
      define tail where "tail = (\<lambda>kafka. case kafka of
                        Some (view, owner) \<Rightarrow>
                          (case operator_listener_bootstrap view of
                             Some bootstrap \<Rightarrow> ret_log (UserReady cluster bootstrap owner)
                           | None \<Rightarrow> refuse_user env obj ''ClusterNotReady''
                               (''Kafka/'' @ cluster @ '' not Ready or no internal listener'') (uc_dependency_requeue cfg))
                      | None \<Rightarrow> refuse_user env obj ''ClusterNotReady''
                          (''Kafka/'' @ cluster @ '' not Ready or no internal listener'') (uc_dependency_requeue cfg))"
      have eq: "prepare_user cfg env obj = bind_log (lift_log (map_sum Kube id (ue_get_kafka env cluster))) tail"
        using label free valid unfolding prepare_user_def Let_def tail_def by simp
      have tails: "(\<exists>b owner. tail kafka = ret_log (UserReady cluster b owner)) \<or> refusal env obj (tail kafka)" for kafka
        unfolding tail_def refusal_def by (cases kafka) (auto split: option.splits prod.splits)
      have "(\<exists>b owner. prepare_user cfg env obj = ret_log (UserReady cluster b owner))
          \<or> refusal env obj (prepare_user cfg env obj)"
        using tails unfolding eq by (cases "ue_get_kafka env cluster") (auto simp: refusal_def)
      then show thesis
      proof
        assume "\<exists>b owner. prepare_user cfg env obj = ret_log (UserReady cluster b owner)"
        then show thesis
          using label free valid by (auto intro!: ready split: if_splits)
      qed (rule refused)
    qed
  qed
qed

lemma lifecycle_none:
  assumes "fst (handle_user_lifecycle env obj who quser) = Inr None"
  shows "snd (handle_user_lifecycle env obj who quser) = [] \<and> meta_deletion_timestamp (ku_meta obj) = None
    \<and> user_has_finalizer obj"
  using assms
  by (auto simp: handle_user_lifecycle_def fst_then_log split: sum.splits if_splits)

lemma quiet_cleanup: "\<not> list_ex announces_ready (snd (expire_tokens env ts))"
  by (induction ts) (auto simp: snd_then_log announces_ready_def split: option.splits)

lemma quiet_lifecycle: "quiet (handle_user_lifecycle env obj who quser)"
proof -
  have "quiet (cleanup_credentials env obj)"
    by (auto simp: cleanup_credentials_def Let_def try_log_simps expire_owned_tokens_def snd_bind_log announces_ready_def
        quiet_cleanup split: authentication.splits sum.splits)
  moreover have "quiet (cleanup_quotas env quser)"
    by (simp add: cleanup_quotas_def announces_ready_def split: sum.splits)
  moreover have "quiet (emit (DeleteAclsOf who))" by (simp add: announces_ready_def)
  moreover have "quiet (user_remove_finalizer env)" "quiet (user_add_finalizer env)"
    by (simp_all add: user_remove_finalizer_def user_add_finalizer_def attempt_def announces_ready_def split: option.splits)
  ultimately show ?thesis
    unfolding handle_user_lifecycle_def by (simp add: quiet_then)
qed

abbreviation principal_of :: "kafka_user \<Rightarrow> string" where
  "principal_of obj \<equiv> principal_for (meta_name (ku_meta obj)) (us_authentication (ku_spec obj))"

lemma reconcile_user_path:
  assumes "list_ex announces_ready (snd (reconcile_user cfg env obj))"
  obtains cluster owner na ta where
    "fst (provision cfg env cluster owner obj) = Inr (Inr (na, ta))"
    "snd (reconcile_user cfg env obj) = snd (provision cfg env cluster owner obj)
       @ snd (reconcile_access cfg env cluster obj (principal_of obj) (quota_username_of (principal_of obj)) na ta)"
    "list_ex announces_ready (snd (reconcile_access cfg env cluster obj (principal_of obj)
       (quota_username_of (principal_of obj)) na ta))"
proof (cases rule: prepare_user_cases[of env obj cfg])
  case refused
  from refusal_log[OF this] assms show thesis
    by (auto simp: reconcile_user_def snd_bind_log split: sum.splits user_preparation.splits)
next
  case (ready cluster bootstrap owner)
  let ?who = "principal_of obj"
  let ?life = "handle_user_lifecycle env obj ?who (quota_username_of ?who)"
  let ?go = "continue_user (provision cfg env cluster owner obj) (\<lambda>(na, ta).
      reconcile_access cfg env cluster obj ?who (quota_username_of ?who) na ta)"
  have eq: "reconcile_user cfg env obj
      = bind_log ?life (\<lambda>l. case l of Some a \<Rightarrow> ret_log a | None \<Rightarrow> ?go)"
    using ready(1) by (simp add: reconcile_user_def Let_def)
  from assms eq have l: "fst ?life = Inr None"
    using quiet_lifecycle[of env obj ?who "quota_username_of ?who"]
    by (auto simp: snd_bind_log split: sum.splits option.splits)
  with eq lifecycle_none[OF l] have s: "snd (reconcile_user cfg env obj) = snd ?go" by (simp add: snd_bind_log)
  with assms obtain x where "fst (provision cfg env cluster owner obj) = Inr (Inr x)"
    "list_ex announces_ready (snd ((\<lambda>(na, ta).
      reconcile_access cfg env cluster obj ?who (quota_username_of ?who) na ta) x))"
    "snd ?go = snd (provision cfg env cluster owner obj) @ snd ((\<lambda>(na, ta).
      reconcile_access cfg env cluster obj ?who (quota_username_of ?who) na ta) x)"
    using quiet_provision by (metis (no_types, lifting) continue_userE)
  with s show thesis by (cases x) (auto intro: that)
qed

text \<open>C3: A pass that reports a user as ready leaves exactly the access that the resource asks for.
  Where the broker's answers describe the access it holds and accepted requests take effect, a managed
  authorization leaves exactly the entries of the resource for the user's principal, managed quotas leave
  exactly the quotas of the resource, and what the resource does not manage stays as it was.\<close>

theorem ready_user_in_sync:
  assumes "list_ex announces_ready (snd (reconcile_user cfg env obj))"
    and "reports_access env (principal_of obj) (quota_username_of (principal_of obj)) live"
    and "sound_quota_diff env" "bm_ok (la_quotas live)"
  shows "fold (access_after env) (snd (reconcile_user cfg env obj)) live
    = \<lparr>la_acls = (if us_authorization (ku_spec obj) = None then la_acls live
                 else set (expand_spec_acls (us_authorization (ku_spec obj)) (principal_of obj))),
       la_quotas = (case us_quotas (ku_spec obj) of None \<Rightarrow> la_quotas live | Some q \<Rightarrow> to_quota_map q)\<rparr>"
proof -
  from assms(1) obtain cluster owner na ta where
    s: "snd (reconcile_user cfg env obj) = snd (provision cfg env cluster owner obj)
       @ snd (reconcile_access cfg env cluster obj (principal_of obj) (quota_username_of (principal_of obj)) na ta)"
    and r: "list_ex announces_ready (snd (reconcile_access cfg env cluster obj (principal_of obj)
       (quota_username_of (principal_of obj)) na ta))"
    by (rule reconcile_user_path)
  show ?thesis
    unfolding s using access_ready[OF r assms(2-4)] idle_access[OF idle_provision] by (cases live) simp
qed


section \<open>Guards of the requests\<close>

text \<open>What a pass over a live user may ask of the broker.\<close>

definition permitted :: "user_env \<Rightarrow> kafka_user \<Rightarrow> user_effect \<Rightarrow> bool" where
  "permitted env obj eff =
     (let name = meta_name (ku_meta obj); who = principal_of obj;
          wanted = set (expand_spec_acls (us_authorization (ku_spec obj)) who)
      in case eff of
           CreateAcls a \<Rightarrow> us_authorization (ku_spec obj) \<noteq> None \<and> a \<noteq> {} \<and> a \<subseteq> wanted
         | DeleteAcls d \<Rightarrow> us_authorization (ku_spec obj) \<noteq> None \<and> d \<noteq> {} \<and> d \<inter> wanted = {}
             \<and> (case ue_describe_acls env who of Inl _ \<Rightarrow> False | Inr l \<Rightarrow> d \<subseteq> set l)
         | AlterQuotas u ops \<Rightarrow> us_quotas (ku_spec obj) \<noteq> None \<and> u = quota_username_of who \<and> ops \<noteq> []
         | UpsertScram sha512 n w i \<Rightarrow> n = name
             \<and> (case us_authentication (ku_spec obj) of
                  ScramSha512 _ \<Rightarrow> sha512 | ScramSha256 _ \<Rightarrow> \<not> sha512 | _ \<Rightarrow> False)
         | CreateToken owner rs life \<Rightarrow> owner = name
             \<and> (case us_authentication (ku_spec obj) of
                  DelegationToken auth \<Rightarrow> rs = dt_renewers auth \<and> life = dt_max_lifetime auth | _ \<Rightarrow> False)
         | DeleteAclsOf _ \<Rightarrow> False | DeleteScram _ _ \<Rightarrow> False | SetUserFinalizers _ \<Rightarrow> False
         | _ \<Rightarrow> True)"

definition cleans_up :: "kafka_user \<Rightarrow> user_effect \<Rightarrow> bool" where
  "cleans_up obj eff =
     (case eff of
        DeleteScram _ n \<Rightarrow> n = meta_name (ku_meta obj)
      | DeleteAclsOf who \<Rightarrow> who = principal_of obj
      | AlterQuotas u ops \<Rightarrow> u = quota_username_of (principal_of obj)
          \<and> list_all (\<lambda>p. case p of RemoveQuota _ \<Rightarrow> True | _ \<Rightarrow> False) ops
      | ExpireToken _ \<Rightarrow> True | SetUserFinalizers fs \<Rightarrow> fs = []
      | _ \<Rightarrow> False)"

lemma permitted_basic [simp]:
  "permitted env obj (PatchUserStatus p)" "permitted env obj (UserCa x)" "permitted env obj (ApplyUserSecret n s)"
  "permitted env obj (MergeUserSecret n d)" "permitted env obj (RenewToken h)" "permitted env obj (ExpireToken h)"
  "permitted env obj (DropUserAdmin c)"
  by (simp_all add: permitted_def)

lemma permitted_steps [simp]:
  "logs (permitted env obj) (patch_user_status env' p)" "logs (permitted env obj) (apply_user_secret env' n s)"
  "logs (permitted env obj) (merge_user_secret env' n d)" "logs (permitted env obj) (get_user_secret env' n)"
  "list_all (permitted env obj) (map UserCa xs)"
  by (auto simp: snd_patch_user_status apply_user_secret_def merge_user_secret_def get_user_secret_def
      attempt_def list_all_iff split: option.splits)

lemma permitted_errors:
  "logs (permitted env obj) (report_user env' obj' reason message)"
  "logs (permitted env obj) (user_read_failed cfg env' cluster obj' e op ta)"
  "logs (permitted env obj) (user_write_failed cfg env' cluster obj' e op ta)"
  "logs (permitted env obj) (user_access_broker_error cfg env' obj' e op ta)"
  "logs (permitted env obj) (ensure_token_access_pending env' ta)"
  by (auto simp: report_user_def user_read_failed_def user_write_failed_def user_access_broker_error_def
      user_broker_error_def drop_on_transport_def ensure_token_access_pending_def Let_def
      intro!: logs_then split: option.splits)

lemma permitted_sync_acls: "logs (permitted env obj) (sync_acls cfg env cluster obj (principal_of obj) ta)"
proof (cases "us_authorization (ku_spec obj)")
  case None
  then show ?thesis by (simp add: sync_acls_def)
next
  case (Some au)
  let ?des = "set (expand_spec_acls (Some au) (principal_of obj))"
  show ?thesis
  proof (cases "ue_describe_acls env (principal_of obj)")
    case (Inl e)
    with Some show ?thesis by (simp add: sync_acls_def Let_def stop_user_def logs_bind permitted_errors)
  next
    case (Inr l)
    have c: "logs (permitted env obj) (apply_create_acls env (?des - set l))"
      using Some by (auto simp: apply_create_acls_def permitted_def snd_then_log Let_def)
    have d: "logs (permitted env obj) (apply_delete_acls env (set l - ?des))"
      using Some Inr by (auto simp: apply_delete_acls_def permitted_def snd_then_log Let_def)
    show ?thesis
      using Some Inr unfolding sync_acls_def Let_def diff_acls_def stop_user_def
      by (simp add: logs_bind c d permitted_errors split: option.splits)
  qed
qed

lemma permitted_sync_quotas:
  "logs (permitted env obj) (sync_quotas cfg env cluster obj (quota_username_of (principal_of obj)) ta)"
proof -
  have q: "logs (permitted env obj) (apply_alter_user_quotas env (quota_username_of (principal_of obj)) ops)"
    if "us_quotas (ku_spec obj) \<noteq> None" for ops
    using that by (auto simp: apply_alter_user_quotas_def permitted_def snd_then_log Let_def)
  then show ?thesis
    unfolding sync_quotas_def Let_def stop_user_def
    by (simp add: logs_bind permitted_errors split: option.splits sum.splits)
qed

lemma permitted_access:
  "logs (permitted env obj)
     (reconcile_access cfg env cluster obj (principal_of obj) (quota_username_of (principal_of obj)) na ta)"
proof -
  have p: "logs (permitted env obj) (publish_user cfg env obj who na q ta)" for who q ta
    by (auto simp: publish_user_def Let_def intro!: logs_then logs_bind split: option.splits)
  show ?thesis
    unfolding reconcile_access_def continue_user_def
    by (auto intro!: logs_bind permitted_sync_acls permitted_sync_quotas p permitted_errors
        split: option.splits sum.splits)
qed


lemma permitted_scram:
  assumes "case us_authentication (ku_spec obj) of ScramSha512 _ \<Rightarrow> sha | ScramSha256 _ \<Rightarrow> \<not> sha | _ \<Rightarrow> False"
  shows "logs (permitted env obj) (provision_scram cfg env cluster obj sha auth)"
proof -
  have u: "permitted env obj (UpsertScram sha (meta_name (ku_meta obj)) w i)" for w i
    using assms by (simp add: permitted_def)
  have "logs (permitted env obj) (ensure_password_secret env obj len)" for len
    unfolding ensure_password_secret_def Let_def
    by (intro logs_intros) (simp_all add: logs_bind logs_then split: option.splits)
  then show ?thesis
    unfolding provision_scram_def Let_def
    by (intro logs_intros)
      (simp_all add: u logs_then permitted_errors drop_on_transport_def split: sum.splits option.splits)
qed

lemma permitted_tls: "logs (permitted env obj) (reconcile_user_cert_secret env obj kafka auth)"
proof -
  have "logs (permitted env obj) (keep_cert env name s na trust)" for name s na trust
    unfolding keep_cert_def by (intro logs_intros) simp_all
  then have "logs (permitted env obj) (ensure_user_cert_secret env obj ca trust auth)" for ca trust
    unfolding ensure_user_cert_secret_def Let_def
    by (intro logs_intros) (simp_all add: logs_bind logs_then split: option.splits)
  then show ?thesis unfolding reconcile_user_cert_secret_def by (intro logs_intros) simp_all
qed

lemma permitted_token:
  assumes "us_authentication (ku_spec obj) = DelegationToken auth"
  shows "logs (permitted env obj) (provision_token cfg env obj auth)"
proof -
  have e: "logs (permitted env obj) (on_admin_error env tcfg err op prior live)" for tcfg err op prior live
    by (cases "admin_error_report env tcfg err op") (simp add: on_admin_error_def Let_def logs_then)
  have p: "logs (permitted env obj) (publish_token_pending env prior live)" for prior live
    by (simp add: publish_token_pending_def Let_def logs_then)
  have i: "logs (permitted env obj) (issue_arm env tcfg (meta_name (ku_meta obj)) auth pending)" for tcfg pending
    unfolding issue_arm_def issue_new_token_def stop_with_def
    using assms by (intro logs_intros) (simp_all add: permitted_def logs_bind e split: sum.splits)
  have "logs (permitted env obj) (run_decision env tcfg obj auth m)" for tcfg m
    by (auto simp: run_decision_def create_arm_def renew_arm_def cycle_arm_def Let_def stop_with_def e p i
        intro!: logs_bind logs_then split: token_decision.splits option.splits sum.splits)
  moreover have "logs (permitted env obj) (publish_token env tcfg et obj auth token pending0)" for tcfg et token pending0
    by (auto simp: list_all_iff dest!: publish_token_effects)
  ultimately have "logs (permitted env obj) (reconcile_token env tcfg et obj auth)" for tcfg et
    unfolding reconcile_token_def by (auto intro!: logs_bind e split: sum.splits prod.splits)
  then show ?thesis
    unfolding provision_token_def by (auto intro!: logs_bind e split: option.splits)
qed

lemma expire_tokens_effects: "eff \<in> set (snd (expire_tokens env ts)) \<Longrightarrow> \<exists>h. eff = ExpireToken h"
  by (induction ts) (auto simp: set_snd_then_log split: option.splits)

lemma lifecycle_effects:
  assumes "eff \<in> set (snd (handle_user_lifecycle env obj (principal_of obj) (quota_username_of (principal_of obj))))"
  shows "if meta_deletion_timestamp (ku_meta obj) \<noteq> None then cleans_up obj eff
         else \<not> user_has_finalizer obj \<and> eff = SetUserFinalizers [USER_FINALIZER]"
proof -
  have c: "e \<in> set (snd (cleanup_credentials env obj)) \<Longrightarrow> cleans_up obj e" for e
    by (auto simp: cleanup_credentials_def Let_def try_log_simps expire_owned_tokens_def snd_bind_log cleans_up_def
        dest!: expire_tokens_effects split: authentication.splits sum.splits)
  have q: "e \<in> set (snd (cleanup_quotas env (quota_username_of (principal_of obj)))) \<Longrightarrow> cleans_up obj e" for e
    by (auto simp: cleanup_quotas_def cleans_up_def list_all_iff split: sum.splits if_splits)
  show ?thesis
    using assms
    by (auto simp: handle_user_lifecycle_def set_snd_then_log user_add_finalizer_def user_remove_finalizer_def
        set_snd_attempt cleans_up_def dest!: c q split: if_splits sum.splits)
qed

lemma permitted_provision: "logs (permitted env obj) (provision cfg env cluster kafka obj)"
proof (cases "us_authentication (ku_spec obj)")
  case (ScramSha512 auth)
  then show ?thesis by (simp add: provision_def logs_bind permitted_scram)
next
  case (ScramSha256 auth)
  then show ?thesis by (simp add: provision_def logs_bind permitted_scram)
next
  case (Tls auth)
  then show ?thesis by (simp add: provision_def logs_try permitted_tls)
next
  case TlsExternal
  then show ?thesis by (simp add: provision_def)
next
  case (DelegationToken auth)
  then show ?thesis by (simp add: provision_def logs_bind permitted_token)
qed



section \<open>Names and Secrets that collide\<close>

text \<open>A password user takes over the secret of an earlier delegation token. When the Secret of
  the user's name is one that the token phase wrote, no new password is generated: the encoded HMAC of the token,
  which every renewer of the token may hold, becomes the SCRAM password, and the Secret keeps its token
  login configuration.\<close>

theorem token_hmac_becomes_password:
  assumes "build_secret env old token = Inr s"
    and "ce_get_secret (ue_ca env) (meta_name (ku_meta obj)) = Inr (Some s)"
    and "from_utf8 (ue_base64 env (tok_hmac token)) = Inr (ue_base64 env (tok_hmac token))" "ue_connect env = None"
  shows "UpsertScram sha (meta_name (ku_meta obj)) (ue_base64 env (tok_hmac token))
           (unwrap_or (uc_default_iterations cfg) (sc_iterations auth))
         \<in> set (snd (provision_scram cfg env cluster obj sha auth))
     \<and> (\<forall>n s'. ApplyUserSecret n s' \<notin> set (snd (provision_scram cfg env cluster obj sha auth)))"
proof -
  have "read_password s = Some (ue_base64 env (tok_hmac token))"
    using build_secret_values(3)[OF assms(1)] assms(3) by (simp add: read_password_def)
  then have e: "ensure_password_secret env obj len = ret_log (ue_base64 env (tok_hmac token))" for len
    using assms(2) by (simp add: ensure_password_secret_def get_user_secret_def Let_def)
  show ?thesis
    unfolding provision_scram_def Let_def e using assms(4)
    by (auto simp: try_log_simps set_snd_then_log report_user_def snd_patch_user_status drop_on_transport_def
        split: sum.splits option.splits if_splits)
qed

lemma last_append_string: "ys \<noteq> [] \<Longrightarrow> xs @ ys = zs \<Longrightarrow> last zs = last ys"
  by auto

lemma ca_name_not_reserved: "validate_reserved_identity (cluster_ca_key_name cluster) cluster = Inr ()"
proof -
  have l: "last (cluster_ca_key_name cluster) = CHR ''a''" by (simp add: cluster_ca_key_name_def)
  then have "cluster_ca_key_name cluster \<noteq> ''krabka-operator''" "cluster_ca_key_name cluster \<noteq> OPERATOR_IDENTITY"
    by (auto simp: OPERATOR_IDENTITY_def)
  moreover have "cluster_ca_key_name cluster \<noteq> cluster @ ''-operator-admin''"
    "cluster_ca_key_name cluster \<noteq> operator_secret_name cluster"
    by (simp_all add: cluster_ca_key_name_def operator_secret_name_def)
  moreover have "\<not> ends_with ''-operator-identity'' (cluster_ca_key_name cluster)"
    using l by (auto simp: ends_with_iff)
  ultimately show ?thesis by (simp add: validate_reserved_identity_def)
qed

text \<open>The reserved names do not cover the Secrets of the cluster. A password user may carry the
  name of the Secret with the cluster CA key: the name check accepts it for every cluster, and when that Secret
  has no password, the pass applies the user's Secret, which has no CA key, over it, with the field manager
  that also owns the CA key.\<close>

theorem ca_named_user_overwrites_key:
  assumes "meta_name (ku_meta obj) = cluster_ca_key_name cluster" "meta_uid (ku_meta obj) = Some uid"
    and "ce_get_secret (ue_ca env) (cluster_ca_key_name cluster) = Inr (Some ca_secret)" "read_password ca_secret = None"
    and "ce_patch_secret (ue_ca env) (cluster_ca_key_name cluster) = None"
  shows "validate_reserved_identity (cluster_ca_key_name cluster) cluster = Inr ()
     \<and> (\<exists>s. snd (ensure_password_secret env obj len) = [ApplyUserSecret (cluster_ca_key_name cluster) s]
          \<and> secret_value s ''ca.key'' = None)"
proof -
  obtain s where s: "render_password_secret obj (random_password env len) = Inr s"
    using assms(2)
    by (auto simp: render_password_secret_def render_user_secret_def user_owner_ref_def owner_ref_def Let_def)
  have "snd (ensure_password_secret env obj len) = [ApplyUserSecret (cluster_ca_key_name cluster) s]"
    using assms s
    by (simp add: ensure_password_secret_def get_user_secret_def Let_def snd_then_log apply_user_secret_def attempt_def)
  moreover have "secret_value s ''ca.key'' = None"
    using secret_value_render[OF s[unfolded render_password_secret_def Let_def]] by simp
  ultimately show ?thesis using ca_name_not_reserved by blast
qed

section \<open>Instances\<close>

definition sample_user_config :: user_config where
  "sample_user_config = \<lparr>uc_error_requeue = 10, uc_drift_requeue = 60, uc_invalid_requeue = 300,
     uc_dependency_requeue = 15, uc_tls_drift_requeue = 600, uc_default_iterations = 8192,
     uc_token = sample_token_config, uc_human = (\<lambda>_. []), uc_reconcile_error_text = (\<lambda>_. [])\<rparr>"

definition no_scram_options :: scram_auth where
  "no_scram_options = \<lparr>sc_iterations = None, sc_password_length = None\<rparr>"

lemma exec_quota_removes:
  "bm_get (fold exec_quota (map (\<lambda>(k, v). RemoveQuota k) kvs) m) = (bm_get m) |` (- fst ` set kvs)"
proof (induction kvs arbitrary: m)
  case (Cons kv kvs)
  then show ?case by (cases kv) (auto simp: exec_quota_def restrict_map_def fun_eq_iff)
qed (simp add: restrict_map_def)

lemma exec_quota_sets:
  "bm_get (fold exec_quota (map (\<lambda>(k, v). SetQuota k v) kvs) m) = bm_get m ++ map_of (rev kvs)"
  by (induction kvs arbitrary: m) (auto simp: exec_quota_def)

lemma bm_ok_exec_quota: "bm_ok m \<Longrightarrow> bm_ok (fold exec_quota ops m)"
proof (induction ops arbitrary: m)
  case (Cons p ops)
  then show ?case by (cases p) (simp_all add: exec_quota_def)
qed simp

lemma sample_quota_diff: "sound_quota_diff sample_user_env"
  unfolding sound_quota_diff_def
proof (intro allI impI bm_ext)
  fix cur des :: quota_map
  assume ok: "bm_ok cur \<and> bm_ok des"
  then show "bm_ok (fold exec_quota (ue_diff_quotas sample_user_env cur des) cur)" by (simp add: bm_ok_exec_quota)
  have "bm_get cur |` (- fst ` set cur) = Map.empty"
    by (auto simp: restrict_map_def fun_eq_iff map_of_eq_None_iff)
  then show "bm_get (fold exec_quota (ue_diff_quotas sample_user_env cur des) cur) = bm_get des"
    using ok bm_ok_distinct[of des]
    by (simp add: sample_user_env_def exec_quota_removes exec_quota_sets map_of_rev_distinct)
qed simp

theorem ready_user_in_sync_witness:
  "la_acls (fold (access_after sample_user_env)
      (snd (reconcile_user sample_user_config sample_user_env (sample_user (ScramSha512 no_scram_options))))
      \<lparr>la_acls = {}, la_quotas = [(''request_percentage'', 5)]\<rparr>)
    = set (expand_spec_acls (us_authorization (ku_spec (sample_user (ScramSha512 no_scram_options)))) ''User:alice'')"
proof -
  let ?obj = "sample_user (ScramSha512 no_scram_options)"
  have "list_ex announces_ready (snd (reconcile_user sample_user_config sample_user_env ?obj))" by code_simp
  moreover have who: "principal_of ?obj = ''User:alice''" by code_simp
  moreover have "quota_username_of ''User:alice'' = ''alice''" by code_simp
  moreover have "reports_access sample_user_env ''User:alice'' ''alice''
      \<lparr>la_acls = {}, la_quotas = [(''request_percentage'', 5)]\<rparr>"
    by (simp add: reports_access_def sample_user_env_def)
  moreover have "us_authorization (ku_spec ?obj) \<noteq> None" by (simp add: sample_user_def)
  ultimately show ?thesis
    using ready_user_in_sync[of sample_user_config sample_user_env ?obj
        "\<lparr>la_acls = {}, la_quotas = [(''request_percentage'', 5)]\<rparr>", OF _ _ sample_quota_diff]
    by (auto simp: bm_ok_def)
qed


theorem token_hmac_becomes_password_witness:
  "\<exists>env s. build_secret env (sample_user (DelegationToken no_token_options)) sample_token = Inr s
     \<and> UpsertScram True ''alice'' ''hmac'' 8192
         \<in> set (snd (provision_scram sample_user_config env ''prod'' (sample_user (ScramSha512 no_scram_options)) True
             no_scram_options))"
proof -
  let ?obj = "sample_user (ScramSha512 no_scram_options)"
  obtain s where s: "build_secret sample_user_env (sample_user (DelegationToken no_token_options)) sample_token = Inr s"
    by (auto simp: build_secret_def render_user_secret_def user_owner_ref_def owner_ref_def sample_user_def)
  define env where "env = sample_user_env\<lparr>ue_ca := sample_ca_answers\<lparr>ce_get_secret := (\<lambda>_. Inr (Some s))\<rparr>\<rparr>"
  have b: "build_secret env (sample_user (DelegationToken no_token_options)) sample_token = Inr s"
    using s by (simp add: build_secret_def build_secret_data_def env_def)
  have "ue_base64 env (tok_hmac sample_token) = ''hmac''"
    by (simp add: env_def sample_user_env_def sample_token_def)
  moreover have "from_utf8 ''hmac'' = Inr ''hmac''" by code_simp
  moreover have "ce_get_secret (ue_ca env) (meta_name (ku_meta ?obj)) = Inr (Some s)" "ue_connect env = None"
    by (simp_all add: env_def sample_user_env_def)
  moreover have "meta_name (ku_meta ?obj) = ''alice''" by (simp add: sample_user_def plain_meta_def)
  moreover have "unwrap_or (uc_default_iterations sample_user_config) (sc_iterations no_scram_options) = 8192"
    by (simp add: sample_user_config_def no_scram_options_def)
  ultimately show ?thesis
    using b token_hmac_becomes_password[OF b, of ?obj True sample_user_config no_scram_options "''prod''"]
    by (intro exI[of _ env] exI[of _ s]) simp
qed

theorem ca_named_user_overwrites_key_witness:
  "\<exists>env obj s. meta_name (ku_meta obj) = ''prod-cluster-ca''
     \<and> snd (ensure_password_secret env obj 32) = [ApplyUserSecret ''prod-cluster-ca'' s] \<and> secret_value s ''ca.key'' = None"
proof -
  define ca_secret where "ca_secret = \<lparr>secret_meta = plain_meta ''prod-cluster-ca'', secret_type = Some ''Opaque'',
    secret_data = Some [(''ca.key'', ''K'')]\<rparr>"
  define env where "env = sample_user_env\<lparr>ue_ca := sample_ca_answers\<lparr>ce_get_secret := (\<lambda>_. Inr (Some ca_secret))\<rparr>\<rparr>"
  define obj where "obj = (sample_user (ScramSha512 no_scram_options))
    \<lparr>ku_meta := (plain_meta ''prod-cluster-ca'')\<lparr>meta_uid := Some ''u''\<rparr>\<rparr>"
  have "meta_name (ku_meta obj) = cluster_ca_key_name ''prod''" "meta_uid (ku_meta obj) = Some ''u''"
    "cluster_ca_key_name ''prod'' = ''prod-cluster-ca''"
    by (simp_all add: obj_def plain_meta_def cluster_ca_key_name_def)
  moreover have "ce_get_secret (ue_ca env) (cluster_ca_key_name ''prod'') = Inr (Some ca_secret)"
    "ce_patch_secret (ue_ca env) (cluster_ca_key_name ''prod'') = None"
    by (simp_all add: env_def sample_ca_answers_def)
  moreover have "read_password ca_secret = None"
    by (simp add: ca_secret_def read_password_def secret_value_def)
  ultimately show ?thesis
    using ca_named_user_overwrites_key[of obj "''prod''" "''u''" env ca_secret 32] by metis
qed

end
