(* ===== verification/Quantity.thy ===== *)
theory Quantity
  imports Operator_Prelude
begin

text \<open>
  Storage sizes: \<open>parse_quantity\<close> of \<open>controller/common.rs\<close>, with the
  128-bit overflow checks of the code.
\<close>

section \<open>Quantities\<close>

definition in_i128 :: "int \<Rightarrow> bool" where
  "in_i128 x \<longleftrightarrow> - (2 ^ 127) \<le> x \<and> x < 2 ^ 127"

definition quantity_suffixes :: "(string \<times> int) list" where
  "quantity_suffixes =
     [(''Ki'', 1024), (''Mi'', 1024 ^ 2), (''Gi'', 1024 ^ 3), (''Ti'', 1024 ^ 4), (''Pi'', 1024 ^ 5), (''Ei'', 1024 ^ 6),
      (''K'', 1000), (''M'', 1000000), (''G'', 1000000000), (''T'', 1000000000000), (''P'', 1000000000000000),
      (''E'', 1000000000000000000)]"

definition split_suffix :: "string \<Rightarrow> string \<times> int" where
  "split_suffix s =
     (case find (\<lambda>(sfx, _). ends_with sfx s) quantity_suffixes of
        Some (sfx, multiplier) \<Rightarrow> (take (length s - length sfx) s, multiplier)
      | None \<Rightarrow> (s, 1))"

definition overflow_i128 :: "int \<Rightarrow> string + int" where
  "overflow_i128 x = (if in_i128 x then Inr x else Inl ''quantity overflows i128'')"

definition digits_i128 :: "string \<Rightarrow> string + int" where
  "digits_i128 s = (case digits_value 0 s of None \<Rightarrow> Inl ''quantity overflows i128'' | Some n \<Rightarrow> overflow_i128 (int n))"

definition scaled_quantity :: "string \<Rightarrow> string \<Rightarrow> int \<Rightarrow> string + int" where
  "scaled_quantity whole fraction multiplier =
     bind_result (if whole = [] then Inr 0 else digits_i128 whole) (\<lambda>w.
     bind_result (overflow_i128 (10 ^ length fraction)) (\<lambda>scale.
     bind_result (if fraction = [] then Inr 0 else digits_i128 fraction) (\<lambda>f.
     bind_result (overflow_i128 (w * scale)) (\<lambda>v.
     bind_result (overflow_i128 (v + f)) (\<lambda>scaled.
       if scaled = 0 then Inl ''quantity must be strictly positive''
       else bind_result (overflow_i128 (scaled * multiplier)) (\<lambda>v. Inr (v div scale)))))))"

definition parse_quantity :: "string \<Rightarrow> string + int" where
  "parse_quantity s =
     (if s = [] then Inl ''empty quantity string''
      else case split_suffix s of (mantissa, multiplier) \<Rightarrow>
        if mantissa = [] then Inl ''missing numeric mantissa before suffix''
        else if list_ex (\<lambda>c. c = CHR ''e'' \<or> c = CHR ''E'') mantissa then Inl ''scientific notation not supported''
        else if starts_with ''-'' mantissa then Inl ''negative quantity rejected''
        else case (case split_once ''.'' mantissa of Some p \<Rightarrow> p | None \<Rightarrow> (mantissa, [])) of (whole, fraction) \<Rightarrow>
          if whole = [] \<and> fraction = [] then Inl ''mantissa is not a valid number''
          else if \<not> list_all is_ascii_digit whole \<or> \<not> list_all is_ascii_digit fraction
          then Inl ''mantissa is not a valid number''
          else scaled_quantity whole fraction multiplier)"

lemma overflow_i128_nonneg: "0 \<le> x \<Longrightarrow> x < 2 ^ 127 \<Longrightarrow> overflow_i128 x = Inr x"
  by (simp add: overflow_i128_def in_i128_def)

lemma digits_value_all:
  "list_all is_ascii_digit s \<longleftrightarrow> digits_value acc s \<noteq> None"
  by (induction s arbitrary: acc) (auto simp: char_digit_def split: if_splits)

lemma digits_value_acc:
  "digits_value acc s = map_option (\<lambda>v. acc * 10 ^ length s + v) (digits_value 0 s)"
proof (induction s arbitrary: acc)
  case (Cons c s)
  show ?case
  proof (cases "char_digit c")
    case (Some d)
    then have "digits_value acc (c # s) = digits_value (acc * 10 + d) s" "digits_value 0 (c # s) = digits_value d s"
      by simp_all
    then show ?thesis
      unfolding Cons[of "acc * 10 + d"] Cons[of d] by (simp only:) (cases "digits_value 0 s"; simp add: algebra_simps)
  qed simp
qed simp

lemma digits_value_app:
  assumes "digits_value 0 a = Some x" "digits_value 0 b = Some y"
  shows "digits_value 0 (a @ b) = Some (x * 10 ^ length b + y)"
  using assms digits_value_acc[of x b] by (simp add: digits_value_append)

lemma number_marks:
  assumes "list_all is_ascii_digit s"
  shows "CHR ''.'' \<notin> set s" "CHR ''e'' \<notin> set s" "CHR ''E'' \<notin> set s" "CHR ''-'' \<notin> set s"
  using assms by (auto simp: list_all_iff is_ascii_digit_def)

lemma plain_mantissa:
  assumes "CHR ''e'' \<notin> set m" "CHR ''E'' \<notin> set m" "CHR ''-'' \<notin> set m"
  shows "\<not> list_ex (\<lambda>c. c = CHR ''e'' \<or> c = CHR ''E'') m" "\<not> starts_with ''-'' m"
  using assms by (auto simp: list_ex_iff starts_with_iff)

lemma split_suffix_append:
  assumes "is_ascii_digit c"
  shows "split_suffix (r @ [c]) = (r @ [c], 1)"
    "(sfx, k) \<in> set quantity_suffixes \<Longrightarrow> split_suffix ((r @ [c]) @ sfx) = (r @ [c], k)"
proof -
  have ne: "c \<noteq> CHR ''i''" "c \<noteq> CHR ''K''" "c \<noteq> CHR ''M''" "c \<noteq> CHR ''G''" "c \<noteq> CHR ''T''" "c \<noteq> CHR ''P''"
    "c \<noteq> CHR ''E''"
    using assms by (auto simp: is_ascii_digit_def)
  show "split_suffix (r @ [c]) = (r @ [c], 1)"
    using ne by (simp add: split_suffix_def quantity_suffixes_def ends_with_def starts_with_def)
  show "split_suffix ((r @ [c]) @ sfx) = (r @ [c], k)" if "(sfx, k) \<in> set quantity_suffixes"
  proof -
    have "list_all (\<lambda>(sfx, k). split_suffix ((r @ [c]) @ sfx) = (r @ [c], k)) quantity_suffixes"
      using ne by (simp add: split_suffix_def quantity_suffixes_def ends_with_def starts_with_def)
    with that show ?thesis by (auto simp: list_all_iff)
  qed
qed

lemma find_dot: "CHR ''.'' \<notin> set a \<Longrightarrow> find_sub ''.'' a = None"
  "CHR ''.'' \<notin> set a \<Longrightarrow> find_sub ''.'' (a @ ''.'' @ b) = Some (length a)"
  by (induction a) auto

text \<open>A quantity means its decimal number times its suffix, rounded down to whole bytes: for every
  mantissa, with or without fraction, of positive value that fits 128 bits together with its scale, and
  every suffix of the table or none.\<close>

theorem quantity_value:
  assumes digits: "list_all is_ascii_digit whole" "list_all is_ascii_digit fraction"
    and N: "digits_value 0 (whole @ fraction) = Some N" "0 < N"
    and sfx: "(sfx, k) \<in> insert ([], 1) (set quantity_suffixes)"
    and fits: "int N * k < 2 ^ 127" "(10 :: int) ^ length fraction < 2 ^ 127"
  shows "parse_quantity (whole @ (if fraction = [] then [] else ''.'' @ fraction) @ sfx)
    = Inr (int N * k div 10 ^ length fraction)"
proof -
  let ?m = "whole @ (if fraction = [] then [] else ''.'' @ fraction)"
  have ne: "whole \<noteq> [] \<or> fraction \<noteq> []" using N by auto
  then obtain r c where m: "?m = r @ [c]" and c: "is_ascii_digit c"
    using digits by (cases fraction rule: rev_cases; cases whole rule: rev_cases) auto
  have split: "split_suffix (?m @ sfx) = (?m, k)"
    unfolding m using split_suffix_append[OF c] sfx by auto
  have once: "(case split_once ''.'' ?m of Some p \<Rightarrow> p | None \<Rightarrow> (?m, [])) = (whole, fraction)"
    using number_marks(1)[OF digits(1)] find_dot(1)[of whole] find_dot(2)[of whole fraction]
    by (auto simp: split_once_def)
  obtain x y where x: "digits_value 0 whole = Some x" and y: "digits_value 0 fraction = Some y"
    using digits digits_value_all by blast
  have Nxy: "N = x * 10 ^ length fraction + y"
    using digits_value_app[OF x y] N by simp
  have k: "1 \<le> k" using sfx by (auto simp: quantity_suffixes_def)
  have "int N \<le> int N * k" using k by (simp add: mult_le_cancel_left1)
  then have bound: "int N < 2 ^ 127" using fits(1) by linarith
  have xs: "int x * 10 ^ length fraction \<le> int N" "int y \<le> int N" using Nxy by simp_all
  moreover have "int x \<le> int x * 10 ^ length fraction" by (simp add: mult_le_cancel_left1)
  ultimately have b: "int x < 2 ^ 127" "int x * 10 ^ length fraction < 2 ^ 127" "int y < 2 ^ 127"
    using bound by linarith+
  have s: "scaled_quantity whole fraction k = Inr (int N * k div 10 ^ length fraction)"
  proof -
    have "(if whole = [] then Inr 0 else digits_i128 whole) = Inr (int x)"
      using x b by (auto simp: digits_i128_def overflow_i128_def in_i128_def)
    moreover have "(if fraction = [] then Inr 0 else digits_i128 fraction) = Inr (int y)"
      using y b by (auto simp: digits_i128_def overflow_i128_def in_i128_def)
    moreover have "overflow_i128 (int x * 10 ^ length fraction + int y) = Inr (int N)"
      using bound Nxy by (simp add: overflow_i128_nonneg)
    moreover have "overflow_i128 (int N * k) = Inr (int N * k)"
      using fits k by (intro overflow_i128_nonneg) simp_all
    ultimately show ?thesis
      using b fits N(2) by (simp add: scaled_quantity_def overflow_i128_nonneg)
  qed
  have "CHR ''e'' \<notin> set ?m" "CHR ''E'' \<notin> set ?m" "CHR ''-'' \<notin> set ?m"
    using number_marks[OF digits(1)] number_marks[OF digits(2)] by simp_all
  from plain_mantissa[OF this]
  have ok: "\<not> list_ex (\<lambda>c. c = CHR ''e'' \<or> c = CHR ''E'') ?m" "\<not> starts_with ''-'' ?m" .
  have step: "parse_quantity (t @ sfx) = scaled_quantity whole fraction k"
    if "t \<noteq> []" "split_suffix (t @ sfx) = (t, k)" "\<not> list_ex (\<lambda>c. c = CHR ''e'' \<or> c = CHR ''E'') t"
      "\<not> starts_with ''-'' t" "(case split_once ''.'' t of Some p \<Rightarrow> p | None \<Rightarrow> (t, [])) = (whole, fraction)" for t
    using that digits ne by (cases "whole = []") (simp_all add: parse_quantity_def)
  have "?m \<noteq> []" using m by simp
  from step[OF this split ok once] s show ?thesis by (simp only: append_assoc)
qed

theorem quantity_value_witness: "parse_quantity ''1.5Gi'' = Inr 1610612736"
proof -
  have "digits_value 0 (''1'' @ ''5'') = Some 15" by code_simp
  moreover have "(''Gi'', 1024 ^ 3) \<in> insert ([], 1) (set quantity_suffixes)" by (simp add: quantity_suffixes_def)
  moreover have "list_all is_ascii_digit ''1''" "list_all is_ascii_digit ''5''" by (code_simp, code_simp)
  ultimately show ?thesis using quantity_value[of "''1''" "''5''" 15 "''Gi''" "1024 ^ 3"] by simp
qed

end
