(* ===== verification/Kafka_Resource.thy ===== *)
theory Kafka_Resource
  imports Listeners Quantity Complex_Main
begin

text \<open>
  The \<open>Kafka\<close> resource (\<open>crd/kafka.rs\<close>, \<open>crd/metrics.rs\<close>, \<open>crd/logging.rs\<close>): its data, the
  validation of its tiered storage and tracing sections, the labels that every owned object
  carries (\<open>controller/common.rs\<close>), and the Secrets that broker pods mount, which the \<open>Kafka\<close> and
  the node pool controllers derive from it independently (\<open>controller/kafka.rs\<close>). The policy of
  the topic-backed metadata manager is checked by \<open>krabka_broker\<close>, a parameter.
\<close>

section \<open>The resource\<close>

record secret_key_ref =
  skr_name :: string
  skr_key :: "string option"

record inter_broker_kerberos =
  ibk_client_principal :: string
  ibk_service_name :: "string option"
  ibk_kdc_url :: string

datatype tiered_storage_type = Local | S3 | Gcs

record s3_credentials =
  s3c_access_key_id :: secret_key_ref
  s3c_secret_access_key :: secret_key_ref

record s3_storage =
  s3_bucket :: string
  s3_region :: string
  s3_prefix :: "string option"
  s3_endpoint :: "string option"
  s3_credentials :: "s3_credentials option"
  s3_allow_http :: bool
  s3_multipart_threshold :: "64 word option"
  s3_multipart_chunk_size :: "64 word option"

record gcs_storage =
  gcs_bucket :: string
  gcs_prefix :: "string option"
  gcs_endpoint :: "string option"
  gcs_service_account_key :: "secret_key_ref option"
  gcs_allow_http :: bool
  gcs_multipart_threshold :: "64 word option"
  gcs_multipart_chunk_size :: "64 word option"

datatype metadata_manager_type = InMemory | TopicBacked

record topic_metadata_manager =
  tmm_bootstrap :: string
  tmm_num_partitions :: "int option"
  tmm_replication :: "int option"
  tmm_topic_create_timeout :: "int option"
  tmm_fetch_max_wait :: "int option"
  tmm_fetch_max_bytes :: "nat option"
  tmm_fetch_retry_backoff :: "int option"
  tmm_event_queue_capacity :: "nat option"
  tmm_snapshot_interval :: "int option"

record metadata_manager =
  mm_kind :: metadata_manager_type
  mm_topic :: "topic_metadata_manager option"

record tier_persistence =
  tp_size :: string
  tp_class :: "string option"
  tp_delete_claim :: bool

record tiered_storage =
  ts_kind :: tiered_storage_type
  ts_s3 :: "s3_storage option"
  ts_gcs :: "gcs_storage option"
  ts_metadata_manager :: "metadata_manager option"
  ts_persistence :: "tier_persistence option"

datatype otlp_protocol = Grpc | HttpProtobuf

text \<open>The sampling ratio is a floating point number in the code; it is kept with the text it prints as.\<close>

record sample_ratio =
  sr_value :: rat
  sr_text :: string

record otlp_tracing =
  otlp_endpoint :: string
  otlp_protocol :: "otlp_protocol option"
  otlp_sample_ratio :: "sample_ratio option"
  otlp_service_name :: "string option"
  otlp_timeout :: "(int \<times> string) option"

text \<open>\<open>TracingType\<close> has the one value \<open>Otlp\<close>.\<close>

record tracing =
  tr_otlp :: "otlp_tracing option"

datatype kafka_authorization =
    SimpleAcl "string list"
  | Opa string "bool option" "32 word option" "32 word option" "int option" "string list"

record monitor_spec =
  mon_interval :: "string option"
  mon_scrape_timeout :: "string option"
  mon_labels :: "(string, string) bmap"

record metrics_config =
  mc_pod_monitor :: "monitor_spec option"
  mc_service_monitor :: "monitor_spec option"

datatype logging_type = InlineLogging | ExternalLogging

record logging =
  lg_type :: logging_type
  lg_loggers :: "(string, string) bmap"
  lg_value_from :: "secret_item option"

text \<open>\<open>BrokerTuning\<close> has over a hundred optional fields, generated by a macro; it is a finite map from their names. Times count milliseconds, sizes bytes; the rounding and the infinities of floating point numbers are left out.\<close>

datatype tuning_value =
    TuneTime rat
  | TuneSize rat
  | TuneRatio rat
  | TuneInt int
  | TuneString string
  | TuneBool bool

type_synonym broker_tuning = "(string, tuning_value) bmap"

record kafka_spec =
  kspec_kafka_version :: string
  kspec_metadata_version :: "string option"
  kspec_config :: "(string, string) bmap option"
  kspec_listeners :: "listener list"
  kspec_inter_broker_listener_name :: "string option"
  kspec_metrics_config :: "metrics_config option"
  kspec_network_policy :: bool
  kspec_logging :: "logging option"
  kspec_delegation_token :: "secret_key_ref option"
  kspec_authorization :: "kafka_authorization option"
  kspec_tiered_storage :: "tiered_storage option"
  kspec_inter_broker_kerberos :: "inter_broker_kerberos option"
  kspec_krb5_conf_secret_ref :: "secret_item option"
  kspec_tracing :: "tracing option"
  kspec_broker_tuning :: "broker_tuning option"

record kafka_status =
  kst_conditions :: "kafka_condition list"
  kst_listeners :: "listener_status list"
  kst_metadata_version :: "string option"
  kst_target_metadata_version :: "string option"

record kafka =
  kf_meta :: object_meta
  kf_spec :: kafka_spec
  kf_status :: "kafka_status option"

abbreviation kafka_name :: "kafka \<Rightarrow> string" where
  "kafka_name k \<equiv> meta_name (kf_meta k)"

definition owner_of_kafka :: "kafka \<Rightarrow> reconcile_error + owner_reference" where
  "owner_of_kafka k = owner_ref ''krabka.io/v1alpha1'' ''Kafka'' (kf_meta k)"

text \<open>The listeners of a cluster that declares none.\<close>

definition base_listeners :: "kafka \<Rightarrow> listener list" where
  "base_listeners k = (if kspec_listeners (kf_spec k) = [] then [synthesized_default_listener] else kspec_listeners (kf_spec k))"

section \<open>Validation of sections\<close>

definition blank :: "string \<Rightarrow> bool" where
  "blank s \<longleftrightarrow> trim_str s = []"

definition validate_topic_metadata_manager :: "(topic_metadata_manager \<Rightarrow> string + unit) \<Rightarrow> topic_metadata_manager \<Rightarrow> string + unit" where
  "validate_topic_metadata_manager policy t =
     bind_result (require (\<not> blank (tmm_bootstrap t)) ''metadataManager.topic.bootstrap is required and must be non-empty'') (\<lambda>_.
     bind_result (case tmm_num_partitions t of
         Some p \<Rightarrow> require (0 < p) (''metadataManager.topic.numPartitions must be > 0 (got '' @ int_to_string p @ '')'')
       | None \<Rightarrow> Inr ()) (\<lambda>_.
     bind_result (case tmm_replication t of
         Some r \<Rightarrow> require (0 < r) (''metadataManager.topic.replication must be > 0 (got '' @ int_to_string r @ '')'')
       | None \<Rightarrow> Inr ()) (\<lambda>_.
     bind_result (case tmm_event_queue_capacity t of
         Some c \<Rightarrow> require (0 < c) ''metadataManager.topic.event_queue_capacity''
       | None \<Rightarrow> Inr ()) (\<lambda>_.
       case policy t of Inl e \<Rightarrow> Inl (''metadataManager.topic: '' @ e) | Inr u \<Rightarrow> Inr ()))))"

definition validate_metadata_manager :: "(topic_metadata_manager \<Rightarrow> string + unit) \<Rightarrow> metadata_manager \<Rightarrow> string + unit" where
  "validate_metadata_manager policy m =
     (case (mm_kind m, mm_topic m) of
        (InMemory, Some _) \<Rightarrow> Inl ''metadataManager.type=InMemory must not set `topic`''
      | (_, None) \<Rightarrow> Inr ()
      | (TopicBacked, Some t) \<Rightarrow> validate_topic_metadata_manager policy t)"

definition validate_backend :: "tiered_storage \<Rightarrow> string + unit" where
  "validate_backend t =
     (case ts_kind t of
        Local \<Rightarrow>
          bind_result (require (ts_s3 t = None) ''type=Local must not set `s3`'') (\<lambda>_.
            require (ts_gcs t = None) ''type=Local must not set `gcs`'')
      | S3 \<Rightarrow>
          bind_result (require (ts_gcs t = None) ''type=S3 must not set `gcs`'') (\<lambda>_.
          bind_result (ok_or ''type=S3 requires `s3` (bucket + region at minimum)'' (ts_s3 t)) (\<lambda>s3.
          bind_result (require (\<not> blank (s3_bucket s3)) ''s3.bucket is required and must be non-empty'') (\<lambda>_.
            require (\<not> blank (s3_region s3)) ''s3.region is required and must be non-empty'')))
      | Gcs \<Rightarrow>
          bind_result (require (ts_s3 t = None) ''type=Gcs must not set `s3`'') (\<lambda>_.
          bind_result (ok_or ''type=Gcs requires `gcs` (bucket at minimum)'' (ts_gcs t)) (\<lambda>gcs.
            require (\<not> blank (gcs_bucket gcs)) ''gcs.bucket is required and must be non-empty'')))"

definition validate_tiered_storage :: "(topic_metadata_manager \<Rightarrow> string + unit) \<Rightarrow> tiered_storage \<Rightarrow> string + unit" where
  "validate_tiered_storage policy t =
     bind_result (validate_backend t) (\<lambda>_.
     bind_result (case ts_metadata_manager t of Some m \<Rightarrow> validate_metadata_manager policy m | None \<Rightarrow> Inr ()) (\<lambda>_.
       case ts_persistence t of
         None \<Rightarrow> Inr ()
       | Some p \<Rightarrow>
           bind_result (require (ts_kind t = Local) ''persistence is only valid with type=Local'') (\<lambda>_.
             require (\<not> blank (tp_size p)) ''persistence.size is required and must be non-empty'')))"

definition as_env_value :: "otlp_protocol \<Rightarrow> string" where
  "as_env_value p = (case p of Grpc \<Rightarrow> ''grpc'' | HttpProtobuf \<Rightarrow> ''http/protobuf'')"

text \<open>Durations that Rust can represent: up to \<open>2^64\<close> seconds, in nanoseconds.\<close>

definition representable_duration :: "int \<Rightarrow> bool" where
  "representable_duration ns \<longleftrightarrow> 0 \<le> ns \<and> ns < 2 ^ 64 * 10 ^ 9"

definition validate_tracing :: "tracing \<Rightarrow> string + unit" where
  "validate_tracing t =
     (case tr_otlp t of
        None \<Rightarrow> Inl ''type=Otlp requires `otlp` (endpoint at minimum)''
      | Some otlp \<Rightarrow>
          bind_result (require (\<not> blank (otlp_endpoint otlp)) ''otlp.endpoint is required and must be non-empty'') (\<lambda>_.
          bind_result (case otlp_sample_ratio otlp of
              Some r \<Rightarrow> require (0 \<le> sr_value r \<and> sr_value r \<le> 1) (''otlp.sampleRatio must be in [0.0, 1.0] (got '' @ sr_text r @ '')'')
            | None \<Rightarrow> Inr ()) (\<lambda>_.
          bind_result (case otlp_service_name otlp of
              Some s \<Rightarrow> require (\<not> blank s) ''otlp.serviceName, when set, must be non-empty''
            | None \<Rightarrow> Inr ()) (\<lambda>_.
            case otlp_timeout otlp of
              Some (ns, _) \<Rightarrow> require (0 < ns \<and> representable_duration ns) ''otlp.timeout, when set, must be positive and representable''
            | None \<Rightarrow> Inr ()))))"

section \<open>Labels\<close>

definition APP_LABEL :: string where
  "APP_LABEL = ''krabka-broker''"

definition common_labels :: "string \<Rightarrow> string \<Rightarrow> string option \<Rightarrow> (string, string) bmap" where
  "common_labels name version pool =
     (let m = bm_collect [(''app.kubernetes.io/name'', APP_LABEL), (''app.kubernetes.io/instance'', name),
                (''app.kubernetes.io/version'', version), (''app.kubernetes.io/managed-by'', ''krabka-operator'')]
      in case pool of None \<Rightarrow> m | Some p \<Rightarrow> bm_insert ''krabka.io/pool'' p m)"

text \<open>\<open>entry(k).or_insert_with(v)\<close>: user labels fill in what the operator does not own.\<close>

definition insert_absent :: "(string, string) bmap \<Rightarrow> (string, string) bmap \<Rightarrow> (string, string) bmap" where
  "insert_absent extra m = foldl (\<lambda>m (k, v). if bm_get m k = None then bm_insert k v m else m) m extra"

lemma bm_get_insert_absent:
  "bm_get (insert_absent extra m) k = or_else (bm_get m k) (map_of extra k)"
  unfolding insert_absent_def
  by (induction extra arbitrary: m) (auto simp: or_else_def split: option.splits)

lemma bm_ok_insert_absent [simp]: "bm_ok m \<Longrightarrow> bm_ok (insert_absent extra m)"
  unfolding insert_absent_def by (induction extra arbitrary: m) auto

section \<open>Secrets that broker pods mount\<close>

definition oauth_jwks_trust_secret_name :: "kafka \<Rightarrow> string option" where
  "oauth_jwks_trust_secret_name k =
     Option.bind (canonical_oauth_config (kspec_listeners (kf_spec k))) (\<lambda>c.
       if oa_tls_trusted_certificates c = [] then None else Some (kafka_name k @ ''-oauth-jwks-trust''))"

definition oauth_introspection_secret_mount :: "kafka \<Rightarrow> secret_item option" where
  "oauth_introspection_secret_mount k =
     Option.bind (canonical_oauth_config (kspec_listeners (kf_spec k))) (\<lambda>c.
       if oa_access_token_is_jwt c then None else oa_client_secret c)"

definition gssapi_keytab_mount :: "kafka \<Rightarrow> secret_item option" where
  "gssapi_keytab_mount k = map_option ga_keytab_secret_ref (canonical_gssapi_config (kspec_listeners (kf_spec k)))"

definition krb5_conf_mount :: "kafka \<Rightarrow> (string \<times> string) option" where
  "krb5_conf_mount k = map_option (\<lambda>r. (si_secret_name r, si_key r)) (kspec_krb5_conf_secret_ref (kf_spec k))"

section \<open>A small cluster\<close>

definition sample_kafka_spec :: kafka_spec where
  "sample_kafka_spec = \<lparr>kspec_kafka_version = ''4.0.0'', kspec_metadata_version = None, kspec_config = Some [(''a.b'', ''c'')],
     kspec_listeners = [], kspec_inter_broker_listener_name = None, kspec_metrics_config = None, kspec_network_policy = False,
     kspec_logging = None, kspec_delegation_token = None, kspec_authorization = None, kspec_tiered_storage = None,
     kspec_inter_broker_kerberos = None, kspec_krb5_conf_secret_ref = None, kspec_tracing = None,
     kspec_broker_tuning = Some [(''inter_broker_server_name'', TuneString ''k'')]\<rparr>"

definition sample_kafka :: kafka where
  "sample_kafka = \<lparr>kf_meta = (plain_meta ''k'')\<lparr>meta_uid := Some ''u'', meta_namespace := Some ''ns''\<rparr>, kf_spec = sample_kafka_spec, kf_status = None\<rparr>"

end
