(* ===== verification/Workloads.thy ===== *)
theory Workloads
  imports Topic Rebalance Kafka_Resource
begin

text \<open>
  The workload objects that the controllers read and render (StatefulSets, pods,
  claims), the \<open>KafkaNodePool\<close> resource (\<open>crd/kafka_node_pool.rs\<close>), and the
  32-bit arithmetic and the searches that the node pool code uses.
\<close>

section \<open>Workloads\<close>

datatype env_source =
    FieldRef string
  | SecretKeyRef string string
  | ConfigMapKeyRef string string bool

record env_var =
  ev_name :: string
  ev_value :: "string option"
  ev_from :: "env_source option"

record volume_mount =
  vm_name :: string
  vm_path :: string
  vm_read_only :: bool

type_synonym resources = "(string, string) bmap \<times> (string, string) bmap"

record container =
  ct_name :: string
  ct_image :: string
  ct_command :: "string list"
  ct_args :: "string list"
  ct_env :: "env_var list option"
  ct_ports :: "(int \<times> string) list"
  ct_mounts :: "volume_mount list"
  ct_resources :: "resources option"
  ct_readiness :: "(string \<times> int) option"
  ct_liveness :: "(string \<times> int) option"
  ct_startup_port :: "int option"

datatype volume_source =
    EmptyDir
  | ConfigMapVolume string
  | SecretVolume string "(string \<times> string) list"

record volume =
  vol_name :: string
  vol_source :: volume_source

record pod_spec =
  ps_init_containers :: "container list option"
  ps_containers :: "container list"
  ps_volumes :: "volume list"
  ps_grace_seconds :: "int option"
  ps_spread_labels :: "(string, string) bmap option"
  ps_seccomp :: "string \<times> string option"
  ps_affinity :: "string option"
  ps_tolerations :: "string list"
  ps_node_selector :: "(string, string) bmap option"
  ps_node_name :: "string option"

record pod_template =
  pt_meta :: "object_meta option"
  pt_spec :: "pod_spec option"

record pvc_spec =
  pvc_access_modes :: "string list"
  pvc_requests :: "(string, string) bmap option"
  pvc_class :: "string option"

record persistent_volume_claim =
  pvc_meta :: object_meta
  pvc_spec :: "pvc_spec option"

record stateful_set_spec =
  ss_service_name :: string
  ss_replicas :: "int option"
  ss_pod_management_policy :: "string option"
  ss_selector :: "(string, string) bmap"
  ss_template :: pod_template
  ss_volume_claim_templates :: "persistent_volume_claim list option"
  ss_retention_policy :: "(string \<times> string) option"

record stateful_set_status =
  sss_replicas :: int
  sss_available :: "int option"
  sss_current :: "int option"
  sss_ready :: "int option"
  sss_updated :: "int option"
  sss_observed_generation :: "int option"
  sss_current_revision :: "string option"
  sss_update_revision :: "string option"

record stateful_set =
  sts_meta :: object_meta
  sts_spec :: "stateful_set_spec option"
  sts_status :: "stateful_set_status option"

record pod =
  pod_meta :: object_meta
  pod_spec :: "pod_spec option"
  pod_ip :: "string option"

section \<open>Node pools\<close>

datatype node_role = Controller | Broker

record persistent_claim =
  pc_size :: string
  pc_class :: "string option"
  pc_delete_claim :: bool

record jbod_volume =
  jv_id :: int
  jv_size :: string
  jv_class :: "string option"

datatype storage =
    Ephemeral
  | PersistentClaim persistent_claim
  | Jbod "jbod_volume list" bool

datatype seccomp_type = RuntimeDefault | Localhost

record seccomp_profile =
  sp_type :: seccomp_type
  sp_localhost :: "string option"

record metadata_template =
  mt_labels :: "(string, string) bmap"
  mt_annotations :: "(string, string) bmap"

text \<open>Affinity and tolerations are copied, so they stand for their serialized form.\<close>

record pod_customization =
  pcu_metadata :: "metadata_template option"
  pcu_affinity :: "string option"
  pcu_tolerations :: "string list"
  pcu_node_selector :: "(string, string) bmap option"
  pcu_seccomp :: "seccomp_profile option"

record node_pool_spec =
  np_roles :: "node_role list"
  np_replicas :: int
  np_node_id_start :: int
  np_image :: "string option"
  np_resources :: "resources option"
  np_dispatch_queue :: "nat option"
  np_frame_max :: "nat option"
  np_template :: "pod_customization option"
  np_storage :: "storage option"

record node_pool_status =
  nps_conditions :: "kafka_condition list"
  nps_replicas :: "int option"
  nps_ready_replicas :: "int option"

record node_pool =
  knp_meta :: object_meta
  knp_spec :: node_pool_spec
  knp_status :: "node_pool_status option"

abbreviation pool_name :: "node_pool \<Rightarrow> string" where
  "pool_name pool \<equiv> meta_name (knp_meta pool)"

section \<open>Arithmetic of 32-bit integers\<close>

definition checked_i32 :: "int \<Rightarrow> int option" where
  "checked_i32 x = (if in_i32 x then Some x else None)"

definition saturating_i32 :: "int \<Rightarrow> int" where
  "saturating_i32 x = max (- (2 ^ 31)) (min (2 ^ 31 - 1) x)"

lemma checked_i32_Some [simp]: "checked_i32 x = Some y \<longleftrightarrow> in_i32 x \<and> y = x"
  by (auto simp: checked_i32_def)

end
