(* ===== verification/Pool_Topology.thy ===== *)
theory Pool_Topology
  imports Workloads
begin

text \<open>
  Validation of node pools and of the node ids of a cluster
  (\<open>controller/kafka_node_pool.rs\<close>): the checks of one pool, what is observed of
  the live objects of a pool, and the cluster-wide check, with an exact
  characterization of the clusters that pass it.
\<close>

section \<open>Validation of one pool\<close>

datatype pool_validation_error =
    RolesEmpty
  | DuplicateRole node_role
  | ReplicasInvalid int
  | NodeIdOutOfRange int
  | NodeIdRangeOutOfRange string int int
  | NodeIdRangeOverlap string string
  | NodeIdStartChanged string int int
  | RolesChanged string string string
  | NoControllerNodes
  | MissingClusterLabel
  | StorageSizeInvalid string string
  | StorageTypeChanged string string
  | StorageClassChanged "string option" "string option"
  | StorageShrinkNotAllowed string string
  | JbodNeedsTwoVolumes nat
  | JbodDuplicateVolumeId int
  | JbodVolumesImmutable
  | SeccompLocalhostProfileMissing
  | SeccompLocalhostProfileUnexpected
  | SeccompLocalhostProfileInvalid string

definition MAX_NODE_ID :: int where
  "MAX_NODE_ID = 999999"

definition NODE_ID_START_ANNOTATION :: string where
  "NODE_ID_START_ANNOTATION = ''krabka.io/node-id-start''"

definition PROCESS_ROLES_ANNOTATION :: string where
  "PROCESS_ROLES_ANNOTATION = ''krabka.io/process-roles''"

definition node_id_end_for_replicas :: "node_pool \<Rightarrow> int \<Rightarrow> pool_validation_error + int" where
  "node_id_end_for_replicas pool replicas =
     ok_or (NodeIdRangeOutOfRange (pool_name pool) (np_node_id_start (knp_spec pool)) replicas)
       (Option.bind (checked_i32 (replicas - 1)) (\<lambda>last_ordinal.
          Option.bind (checked_i32 (np_node_id_start (knp_spec pool) + last_ordinal)) (\<lambda>e.
            if e \<le> MAX_NODE_ID then Some e else None)))"

definition node_id_end :: "node_pool \<Rightarrow> pool_validation_error + int" where
  "node_id_end pool = node_id_end_for_replicas pool (np_replicas (knp_spec pool))"

definition validate_seccomp_profile :: "seccomp_profile \<Rightarrow> pool_validation_error + unit" where
  "validate_seccomp_profile profile =
     (case (sp_type profile, sp_localhost profile) of
        (RuntimeDefault, None) \<Rightarrow> Inr ()
      | (RuntimeDefault, Some _) \<Rightarrow> Inl SeccompLocalhostProfileUnexpected
      | (Localhost, None) \<Rightarrow> Inl SeccompLocalhostProfileMissing
      | (Localhost, Some path) \<Rightarrow>
          if path = [] \<or> starts_with ''/'' path \<or> list_ex (\<lambda>part. part = ''..'') (split_on (CHR ''/'') path)
          then Inl (SeccompLocalhostProfileInvalid path) else Inr ())"

definition validate_size :: "string \<Rightarrow> pool_validation_error + unit" where
  "validate_size sz =
     (case parse_quantity sz of Inl why \<Rightarrow> Inl (StorageSizeInvalid sz why) | Inr _ \<Rightarrow> Inr ())"

fun validate_volumes :: "int list \<Rightarrow> jbod_volume list \<Rightarrow> pool_validation_error + unit" where
  "validate_volumes seen [] = Inr ()"
| "validate_volumes seen (v # vs) =
     (if jv_id v \<in> set seen then Inl (JbodDuplicateVolumeId (jv_id v))
      else bind_result (validate_size (jv_size v)) (\<lambda>_. validate_volumes (jv_id v # seen) vs))"

definition validate_storage :: "storage option \<Rightarrow> pool_validation_error + unit" where
  "validate_storage storage =
     (case storage of
        Some (PersistentClaim pc) \<Rightarrow> validate_size (pc_size pc)
      | Some (Jbod volumes _) \<Rightarrow>
          if length volumes < 2 then Inl (JbodNeedsTwoVolumes (length volumes)) else validate_volumes [] volumes
      | _ \<Rightarrow> Inr ())"

definition validate_pool :: "node_pool \<Rightarrow> pool_validation_error + unit" where
  "validate_pool pool =
     (let spec = knp_spec pool in
      if np_roles spec = [] then Inl RolesEmpty
      else case first_repeated [] (np_roles spec) of
        Some role \<Rightarrow> Inl (DuplicateRole role)
      | None \<Rightarrow>
          if np_replicas spec < 1 then Inl (ReplicasInvalid (np_replicas spec))
          else if \<not> (0 \<le> np_node_id_start spec \<and> np_node_id_start spec \<le> MAX_NODE_ID)
          then Inl (NodeIdOutOfRange (np_node_id_start spec))
          else bind_result (node_id_end pool) (\<lambda>_.
               bind_result (validate_storage (np_storage spec)) (\<lambda>_.
               case Option.bind (np_template spec) pcu_seccomp of
                 None \<Rightarrow> Inr ()
               | Some profile \<Rightarrow> validate_seccomp_profile profile)))"

section \<open>What is observed of a pool\<close>

definition max_or_zero :: "int list \<Rightarrow> int" where
  "max_or_zero xs = (case xs of [] \<Rightarrow> 0 | x # r \<Rightarrow> fold max r x)"

definition observed_statefulset_replicas :: "stateful_set \<Rightarrow> int" where
  "observed_statefulset_replicas sts =
     (let replicas = unwrap_or 0 (Option.bind (sts_spec sts) ss_replicas);
          live = (case sts_status sts of
                    None \<Rightarrow> replicas
                  | Some st \<Rightarrow>
                      max (max (max (max (max replicas (sss_replicas st)) (unwrap_or 0 (sss_available st)))
                        (unwrap_or 0 (sss_current st))) (unwrap_or 0 (sss_ready st))) (unwrap_or 0 (sss_updated st)))
      in max live 0)"

definition labels_match :: "object_meta \<Rightarrow> string \<Rightarrow> bool" where
  "labels_match m name \<longleftrightarrow> meta_label m ''krabka.io/pool'' = Some name"

definition observed_pool_replicas :: "node_pool \<Rightarrow> stateful_set list \<Rightarrow> int" where
  "observed_pool_replicas pool stss =
     max_or_zero (map observed_statefulset_replicas (filter (\<lambda>s. labels_match (sts_meta s) (pool_name pool)) stss))"

definition next_ordinal :: "string \<Rightarrow> int option" where
  "next_ordinal s = Option.bind (parse_i32 s) (\<lambda>n. checked_i32 (n + 1))"

definition observed_pool_pod_replicas :: "pod list \<Rightarrow> string \<Rightarrow> int" where
  "observed_pool_pod_replicas pods sts_name =
     max_or_zero (List.map_filter (\<lambda>p. Option.bind (strip_prefix (sts_name @ ''-'') (meta_name (pod_meta p))) next_ordinal) pods)"

definition observed_pool_pods_replicas :: "node_pool \<Rightarrow> pod list \<Rightarrow> int" where
  "observed_pool_pods_replicas pool pods =
     max_or_zero (List.map_filter (\<lambda>p. Option.bind (rsplit_once (CHR ''-'') (meta_name (pod_meta p))) (\<lambda>(_, n). next_ordinal n))
       (filter (\<lambda>p. labels_match (pod_meta p) (pool_name pool)) pods))"

definition env_value_of :: "container list \<Rightarrow> string \<Rightarrow> string option" where
  "env_value_of containers name =
     Option.bind (find (\<lambda>e. ev_name e = name) (concat (map (\<lambda>c. unwrap_or [] (ct_env c)) containers))) ev_value"

definition node_id_start_from_pod_spec :: "pod_spec option \<Rightarrow> int option" where
  "node_id_start_from_pod_spec spec =
     Option.bind spec (\<lambda>s. Option.bind (ps_init_containers s) (\<lambda>cs.
       Option.bind (env_value_of cs ''NODE_ID_START'') parse_i32))"

text \<open>Roles as two bits of a byte: the broker bit and the controller bit.\<close>

definition role_mask :: "node_role list \<Rightarrow> nat" where
  "role_mask roles = of_bool (Broker \<in> set roles) + 2 * of_bool (Controller \<in> set roles)"

definition role_mask_name :: "nat \<Rightarrow> string" where
  "role_mask_name bits =
     (if bits = 1 then ''broker'' else if bits = 2 then ''controller''
      else if bits = 3 then ''broker,controller'' else ''none'')"

definition parse_role_mask :: "string \<Rightarrow> nat option" where
  "parse_role_mask value =
     (let parts = map trim_str (split_on (CHR '','') value);
          bits = of_bool (''broker'' \<in> set parts) + 2 * of_bool (''controller'' \<in> set parts)
      in if bits \<noteq> 0 then Some bits else None)"

definition role_mask_from_labels :: "object_meta \<Rightarrow> nat option" where
  "role_mask_from_labels m =
     (let broker = (meta_label m ''krabka.io/broker-role'' = Some ''true'');
          controller = (meta_label m ''krabka.io/controller-role'' = Some ''true'')
      in if broker \<or> controller then Some (of_bool broker + 2 * of_bool controller) else None)"

definition role_mask_from_pod_spec :: "pod_spec option \<Rightarrow> nat option" where
  "role_mask_from_pod_spec spec =
     Option.bind spec (\<lambda>s. case env_value_of (ps_containers s) ''KRABKA_PROCESS_ROLES'' of
       Some value \<Rightarrow> parse_role_mask value | None \<Rightarrow> Some 3)"

definition template_annotation :: "stateful_set \<Rightarrow> string \<Rightarrow> string option" where
  "template_annotation sts key =
     Option.bind (sts_spec sts) (\<lambda>s. Option.bind (pt_meta (ss_template s)) (\<lambda>m. meta_annotation m key))"

definition observed_statefulset_identity :: "stateful_set \<Rightarrow> int option \<times> nat option" where
  "observed_statefulset_identity sts =
     (let template = map_option ss_template (sts_spec sts);
          annotation = (\<lambda>key. or_else (meta_annotation (sts_meta sts) key) (template_annotation sts key))
      in (or_else (Option.bind (annotation NODE_ID_START_ANNOTATION) parse_i32)
            (node_id_start_from_pod_spec (Option.bind template pt_spec)),
          or_else (or_else (Option.bind (annotation PROCESS_ROLES_ANNOTATION) parse_role_mask)
              (Option.bind template (\<lambda>t. Option.bind (pt_meta t) role_mask_from_labels)))
            (Option.bind template (\<lambda>t. role_mask_from_pod_spec (pt_spec t)))))"

definition observed_pod_identity :: "pod \<Rightarrow> int option \<times> nat option" where
  "observed_pod_identity p =
     (or_else (Option.bind (meta_annotation (pod_meta p) NODE_ID_START_ANNOTATION) parse_i32)
        (node_id_start_from_pod_spec (pod_spec p)),
      or_else (or_else (Option.bind (meta_annotation (pod_meta p) PROCESS_ROLES_ANNOTATION) parse_role_mask)
          (role_mask_from_labels (pod_meta p)))
        (role_mask_from_pod_spec (pod_spec p)))"

definition observed_pool_identity :: "node_pool \<Rightarrow> stateful_set list \<Rightarrow> pod list \<Rightarrow> int option \<times> nat option" where
  "observed_pool_identity pool stss pods =
     (let from_sts = unwrap_or (None, None)
            (map_option observed_statefulset_identity (find (\<lambda>s. labels_match (sts_meta s) (pool_name pool)) stss));
          from_pod = unwrap_or (None, None)
            (map_option observed_pod_identity (find (\<lambda>p. labels_match (pod_meta p) (pool_name pool)) pods))
      in (or_else (fst from_sts) (fst from_pod), or_else (snd from_sts) (snd from_pod)))"

section \<open>The topology of a cluster\<close>

definition occupied_replicas :: "node_pool \<Rightarrow> stateful_set list \<Rightarrow> pod list \<Rightarrow> int" where
  "occupied_replicas pool stss pods =
     max (max (np_replicas (knp_spec pool)) (observed_pool_replicas pool stss)) (observed_pool_pods_replicas pool pods)"

definition unchanged :: "('a \<Rightarrow> pool_validation_error) \<Rightarrow> 'a option \<Rightarrow> 'a \<Rightarrow> pool_validation_error + unit" where
  "unchanged err observed desired =
     (case observed of Some x \<Rightarrow> if x \<noteq> desired then Inl (err x) else Inr () | None \<Rightarrow> Inr ())"

definition pool_range ::
  "stateful_set list \<Rightarrow> pod list \<Rightarrow> node_pool \<Rightarrow> pool_validation_error + (int \<times> int \<times> string)" where
  "pool_range stss pods pool =
     (let name = pool_name pool; start = np_node_id_start (knp_spec pool); desired = role_mask (np_roles (knp_spec pool));
          observed = observed_pool_identity pool stss pods
      in bind_result (validate_pool pool) (\<lambda>_.
         bind_result (unchanged (\<lambda>s. NodeIdStartChanged name s start) (fst observed) start) (\<lambda>_.
         bind_result (unchanged (\<lambda>r. RolesChanged name (role_mask_name r) (role_mask_name desired)) (snd observed) desired) (\<lambda>_.
         bind_result (node_id_end_for_replicas pool (occupied_replicas pool stss pods)) (\<lambda>e.
           Inr (start, e, name))))))"

fun pool_ranges ::
  "stateful_set list \<Rightarrow> pod list \<Rightarrow> node_pool list \<Rightarrow> pool_validation_error + (int \<times> int \<times> string) list" where
  "pool_ranges stss pods [] = Inr []"
| "pool_ranges stss pods (pool # pools) =
     bind_result (pool_range stss pods pool) (\<lambda>r.
       bind_result (pool_ranges stss pods pools) (\<lambda>rs. Inr (r # rs)))"

fun check_overlap :: "(int \<times> int \<times> string) list \<Rightarrow> pool_validation_error + unit" where
  "check_overlap ((a, b, n) # (c, d, k) # rest) =
     (if c \<le> b then Inl (NodeIdRangeOverlap n k) else check_overlap ((c, d, k) # rest))"
| "check_overlap _ = Inr ()"

definition is_controller :: "node_pool \<Rightarrow> bool" where
  "is_controller pool \<longleftrightarrow> Controller \<in> set (np_roles (knp_spec pool))"

definition validate_topology ::
  "node_pool list \<Rightarrow> stateful_set list \<Rightarrow> pod list \<Rightarrow> pool_validation_error + unit" where
  "validate_topology pools stss pods =
     (if pools = [] then Inr ()
      else bind_result (pool_ranges stss pods pools) (\<lambda>ranges.
        if \<not> list_ex is_controller pools then Inl NoControllerNodes
        else check_overlap (sort_key (\<lambda>(start, _, name). (start, name)) ranges)))"

definition pool_is_available :: "node_pool \<Rightarrow> bool" where
  "pool_is_available pool =
     (case knp_status pool of
        None \<Rightarrow> False
      | Some status \<Rightarrow> np_replicas (knp_spec pool) \<le> unwrap_or 0 (nps_ready_replicas status)
          \<and> list_ex (\<lambda>c. cond_type c = ''Ready'' \<and> cond_status c = ''True'') (nps_conditions status))"

section \<open>Disjoint node ids\<close>

definition node_ids :: "stateful_set list \<Rightarrow> pod list \<Rightarrow> node_pool \<Rightarrow> int set" where
  "node_ids stss pods pool =
     {np_node_id_start (knp_spec pool) .. np_node_id_start (knp_spec pool) + occupied_replicas pool stss pods - 1}"

definition keeps_identity :: "stateful_set list \<Rightarrow> pod list \<Rightarrow> node_pool \<Rightarrow> bool" where
  "keeps_identity stss pods pool \<longleftrightarrow>
     (case observed_pool_identity pool stss pods of (s, r) \<Rightarrow>
        s \<in> {None, Some (np_node_id_start (knp_spec pool))} \<and> r \<in> {None, Some (role_mask (np_roles (knp_spec pool)))})"

lemma validate_pool_bounds:
  assumes "validate_pool pool = Inr ()"
  shows "1 \<le> np_replicas (knp_spec pool)" "0 \<le> np_node_id_start (knp_spec pool)"
    "np_node_id_start (knp_spec pool) \<le> MAX_NODE_ID"
  using assms by (auto simp: validate_pool_def Let_def split: if_splits option.splits)

lemma node_id_end_Inr:
  assumes "1 \<le> replicas" "0 \<le> np_node_id_start (knp_spec pool)" "np_node_id_start (knp_spec pool) \<le> MAX_NODE_ID"
  shows "node_id_end_for_replicas pool replicas = Inr e
     \<longleftrightarrow> e = np_node_id_start (knp_spec pool) + replicas - 1 \<and> e \<le> MAX_NODE_ID"
  using assms
  by (auto simp: node_id_end_for_replicas_def checked_i32_def in_i32_def MAX_NODE_ID_def split: if_splits)

lemma unchanged_Inr: "unchanged err observed desired = Inr () \<longleftrightarrow> observed \<in> {None, Some desired}"
  by (auto simp: unchanged_def split: option.splits if_splits)

lemma pool_range_Inr:
  "pool_range stss pods pool = Inr r \<longleftrightarrow>
     validate_pool pool = Inr () \<and> keeps_identity stss pods pool \<and> node_ids stss pods pool \<subseteq> {0..MAX_NODE_ID}
     \<and> r = (np_node_id_start (knp_spec pool), np_node_id_start (knp_spec pool) + occupied_replicas pool stss pods - 1,
            pool_name pool)"
proof (cases "validate_pool pool = Inr ()")
  case True
  note b = validate_pool_bounds[OF True]
  have o: "1 \<le> occupied_replicas pool stss pods" using b by (auto simp: occupied_replicas_def)
  have ids: "node_ids stss pods pool \<subseteq> {0..MAX_NODE_ID}
      \<longleftrightarrow> np_node_id_start (knp_spec pool) + occupied_replicas pool stss pods - 1 \<le> MAX_NODE_ID"
    using o b by (auto simp: node_ids_def)
  show ?thesis
    using True node_id_end_Inr[OF o b(2,3)] ids
    by (auto simp: pool_range_def Let_def bind_result_Inr unchanged_Inr keeps_identity_def split: prod.splits)
next
  case False
  then show ?thesis by (auto simp: pool_range_def Let_def bind_result_Inr)
qed

lemma pool_ranges_Inr:
  "pool_ranges stss pods pools = Inr rs \<longleftrightarrow> list_all2 (\<lambda>pool r. pool_range stss pods pool = Inr r) pools rs"
  by (induction pools arbitrary: rs) (auto simp: bind_result_Inr list_all2_Cons1)

text \<open>A symmetric relation between the members of a list, in whatever order.\<close>

lemma sorted_wrt_sym:
  assumes "\<And>x y. P x y \<Longrightarrow> P y x" "\<And>x. x \<in> set xs \<Longrightarrow> \<not> P x x"
  shows "sorted_wrt P xs \<longleftrightarrow> distinct xs \<and> (\<forall>x \<in> set xs. \<forall>y \<in> set xs. x \<noteq> y \<longrightarrow> P x y)"
  using assms(2)
proof (induction xs)
  case (Cons x xs)
  then have "sorted_wrt P (x # xs) \<longleftrightarrow> x \<notin> set xs \<and> (\<forall>y \<in> set xs. P x y) \<and> sorted_wrt P xs"
    using Cons.prems by fastforce
  with Cons show ?case using assms(1) by fastforce
qed simp

abbreviation range_ids :: "int \<times> int \<times> string \<Rightarrow> int set" where
  "range_ids r \<equiv> {fst r .. fst (snd r)}"

lemma check_overlap_Inr: "check_overlap rs = Inr () \<longleftrightarrow> successively (\<lambda>r q. fst (snd r) < fst q) rs"
  by (induction rs rule: check_overlap.induct) auto

lemma sorted_ranges:
  assumes "sorted (map fst rs)" "\<And>r. r \<in> set rs \<Longrightarrow> fst r \<le> fst (snd r)"
  shows "successively (\<lambda>r q. fst (snd r) < fst q) rs \<longleftrightarrow> sorted_wrt (\<lambda>r q. range_ids r \<inter> range_ids q = {}) rs"
  using assms
proof (induction rs rule: induct_list012)
  case (3 x y rs)
  have "fst x \<le> fst y" "fst x \<le> fst (snd x)" "fst y \<le> fst (snd y)" using 3(3,4) by auto
  then have xy: "range_ids x \<inter> range_ids y = {} \<longleftrightarrow> fst (snd x) < fst y" by auto
  have later: "fst y \<le> fst r" if "r \<in> set rs" for r using 3(3) that by auto
  have "fst (snd x) < fst y \<Longrightarrow> r \<in> set rs \<Longrightarrow> range_ids x \<inter> range_ids r = {}" for r
    using later[of r] by auto
  then show ?case using 3(2)[OF _ 3(4)] 3(3) xy by auto
qed auto

abbreviation range_of :: "stateful_set list \<Rightarrow> pod list \<Rightarrow> node_pool \<Rightarrow> int \<times> int \<times> string" where
  "range_of stss pods pool \<equiv> (np_node_id_start (knp_spec pool),
     np_node_id_start (knp_spec pool) + occupied_replicas pool stss pods - 1, pool_name pool)"

abbreviation well_placed :: "stateful_set list \<Rightarrow> pod list \<Rightarrow> node_pool \<Rightarrow> bool" where
  "well_placed stss pods pool \<equiv>
     validate_pool pool = Inr () \<and> keeps_identity stss pods pool \<and> node_ids stss pods pool \<subseteq> {0..MAX_NODE_ID}"

lemma pool_ranges_map:
  "pool_ranges stss pods pools = Inr rs
     \<longleftrightarrow> (\<forall>pool \<in> set pools. well_placed stss pods pool) \<and> rs = map (range_of stss pods) pools"
  unfolding pool_ranges_Inr pool_range_Inr
  by (induction pools arbitrary: rs) (auto simp: list_all2_Cons1)

lemma check_sorted_ranges:
  fixes rs :: "(int \<times> int \<times> string) list"
  assumes "\<And>r. r \<in> set rs \<Longrightarrow> fst r \<le> fst (snd r)"
  shows "check_overlap (sort_key (\<lambda>(start, _, name). (start, name)) rs) = Inr ()
     \<longleftrightarrow> sorted_wrt (\<lambda>r q. range_ids r \<inter> range_ids q = {}) rs"
proof -
  let ?k = "\<lambda>(start, _ :: int, name :: string). (start :: int, name)" and ?P = "\<lambda>r q. range_ids r \<inter> range_ids q = {}"
  have "sorted (map ?k (sort_key ?k rs))" by simp
  then have s: "sorted (map fst (sort_key ?k rs))"
    unfolding sorted_map by (rule sorted_wrt_mono_rel[rotated]) (auto simp: less_eq_prod_def)
  have ne: "\<not> ?P r r" if "r \<in> set rs" for r using assms[OF that] by auto
  have "successively (\<lambda>r q. fst (snd r) < fst q) (sort_key ?k rs) \<longleftrightarrow> sorted_wrt ?P (sort_key ?k rs)"
    using assms by (intro sorted_ranges[OF s]) simp
  also have "\<dots> \<longleftrightarrow> sorted_wrt ?P rs"
    using ne by (subst (1 2) sorted_wrt_sym) auto
  finally show ?thesis by (simp add: check_overlap_Inr)
qed

text \<open>C8: What the topology check accepts. A cluster passes exactly when it has no pools, or every pool
  is valid by itself, keeps the start id and the roles that its live objects show, and occupies ids in the
  range 0 to 999999, some pool has the controller role, and no two pools share a node id. A pool occupies
  the ids of its replicas and of every replica or pod ordinal that is still live, so ids of pods that are
  not yet gone cannot be handed to another pool.\<close>

theorem topology_accepted_iff:
  "validate_topology pools stss pods = Inr () \<longleftrightarrow>
     pools = []
     \<or> ((\<forall>pool \<in> set pools. well_placed stss pods pool) \<and> (\<exists>pool \<in> set pools. is_controller pool)
        \<and> (\<forall>j < length pools. \<forall>i < j. node_ids stss pods (pools ! i) \<inter> node_ids stss pods (pools ! j) = {}))"
proof (cases "\<forall>pool \<in> set pools. well_placed stss pods pool")
  case True
  let ?rs = "map (range_of stss pods) pools"
  have r: "pool_ranges stss pods pools = Inr ?rs" using True pool_ranges_map by blast
  have "fst r \<le> fst (snd r)" if "r \<in> set ?rs" for r
    using that True validate_pool_bounds(1) by (fastforce simp: occupied_replicas_def)
  from check_sorted_ranges[of ?rs, OF this]
  have "check_overlap (sort_key (\<lambda>(start, _, name). (start, name)) ?rs) = Inr ()
      \<longleftrightarrow> (\<forall>j < length pools. \<forall>i < j. node_ids stss pods (pools ! i) \<inter> node_ids stss pods (pools ! j) = {})"
    by (auto simp: sorted_wrt_map sorted_wrt_iff_nth_less node_ids_def)
  with r True show ?thesis
    by (auto simp: validate_topology_def list_ex_iff)
next
  case False
  then have "pool_ranges stss pods pools \<noteq> Inr rs" for rs using pool_ranges_map by blast
  with False show ?thesis
    by (cases "pool_ranges stss pods pools") (auto simp: validate_topology_def)
qed

section \<open>Instances\<close>

definition sample_pool :: "string \<Rightarrow> int \<Rightarrow> int \<Rightarrow> node_role list \<Rightarrow> node_pool" where
  "sample_pool name start replicas roles = \<lparr>
     knp_meta = (plain_meta name)\<lparr>meta_uid := Some ''uid'', meta_namespace := Some ''ns'',
       meta_labels := Some [(''krabka.io/cluster'', ''c'')],
       meta_finalizers := Some [''krabka.io/kafka-node-pool-finalizer'']\<rparr>,
     knp_spec = \<lparr>np_roles = roles, np_replicas = replicas, np_node_id_start = start, np_image = None,
       np_resources = None, np_dispatch_queue = None, np_frame_max = None, np_template = None, np_storage = None\<rparr>,
     knp_status = None\<rparr>"

theorem topology_accepted_iff_witness:
  "node_ids [] [] (sample_pool ''ctl'' 0 3 [Controller]) \<inter> node_ids [] [] (sample_pool ''brk'' 3 2 [Broker]) = {}"
proof -
  have "validate_topology [sample_pool ''ctl'' 0 3 [Controller], sample_pool ''brk'' 3 2 [Broker]] [] [] = Inr ()"
    by code_simp
  then have "\<forall>j < 2. \<forall>i < j. node_ids [] [] ([sample_pool ''ctl'' 0 3 [Controller], sample_pool ''brk'' 3 2 [Broker]] ! i)
      \<inter> node_ids [] [] ([sample_pool ''ctl'' 0 3 [Controller], sample_pool ''brk'' 3 2 [Broker]] ! j) = {}"
    unfolding topology_accepted_iff by (simp add: numeral_2_eq_2)
  then have "\<forall>i < 1. node_ids [] [] ([sample_pool ''ctl'' 0 3 [Controller], sample_pool ''brk'' 3 2 [Broker]] ! i)
      \<inter> node_ids [] [] ([sample_pool ''ctl'' 0 3 [Controller], sample_pool ''brk'' 3 2 [Broker]] ! 1) = {}"
    by (elim allE[of _ 1]) simp
  then show ?thesis by simp
qed

end
