(* ===== verification/Quorum_Bootstrap.thy ===== *)
theory Quorum_Bootstrap
  imports Pool_Topology
begin

text \<open>
  The bootstrap of the metadata quorum (\<open>controller/common.rs\<close>, with the choice
  of the candidate and the init script of \<open>controller/kafka_node_pool.rs\<close>): the
  cluster Secret records one controller that formats a standalone quorum, whether that
  happened, and the directory id of every node. The steps that passes take on this Secret
  are a machine whose invariants give that a cluster forms at most one quorum.
\<close>

section \<open>Parsing a 32-bit integer with its error\<close>

text \<open>\<open>i32::from_str\<close> reads the digits from the left and stops at the first bad digit or overflow.\<close>

fun scan_i32 :: "bool \<Rightarrow> int \<Rightarrow> string \<Rightarrow> string + int" where
  "scan_i32 neg acc [] = Inr acc"
| "scan_i32 neg acc (c # cs) =
     (case char_digit c of
        None \<Rightarrow> Inl ''invalid digit found in string''
      | Some d \<Rightarrow>
          (let v = acc * 10 + (if neg then - int d else int d) in
           if in_i32 (acc * 10) \<and> in_i32 v then scan_i32 neg v cs
           else Inl (if neg then ''number too small to fit in target type''
                     else ''number too large to fit in target type'')))"

definition i32_from_str :: "string \<Rightarrow> string + int" where
  "i32_from_str s =
     (case s of
        [] \<Rightarrow> Inl ''cannot parse integer from empty string''
      | c # cs \<Rightarrow>
          if (c = CHR ''+'' \<or> c = CHR ''-'') \<and> cs = [] then Inl ''invalid digit found in string''
          else if c = CHR ''-'' then scan_i32 True 0 cs
          else if c = CHR ''+'' then scan_i32 False 0 cs
          else scan_i32 False 0 (c # cs))"

section \<open>The bootstrap state in the cluster Secret\<close>

type_synonym uuid = "128 word"

record quorum_bootstrap_controller =
  qc_node_id :: int
  qc_pool :: string

record quorum_bootstrap_state =
  qs_controller :: quorum_bootstrap_controller
  qs_initialized :: bool

definition NODE_ID_KEY :: string where
  "NODE_ID_KEY = ''quorumBootstrapNodeId''"

definition POOL_KEY :: string where
  "POOL_KEY = ''quorumBootstrapPool''"

definition INITIALIZED_KEY :: string where
  "INITIALIZED_KEY = ''quorumBootstrapInitialized''"

definition secret_text :: "string \<Rightarrow> string \<Rightarrow> reconcile_error + string" where
  "secret_text key value =
     (case from_utf8 value of Inl e \<Rightarrow> Inl (MalformedSecret (key @ '' not UTF-8: '' @ e)) | Inr s \<Rightarrow> Inr s)"

definition secret_i32 :: "string \<Rightarrow> string \<Rightarrow> reconcile_error + int" where
  "secret_i32 key s = (case i32_from_str s of Inl e \<Rightarrow> Inl (MalformedSecret (key @ '' not an i32: '' @ e)) | Inr n \<Rightarrow> Inr n)"

definition initialized_flag :: "string option \<Rightarrow> reconcile_error + bool" where
  "initialized_flag v =
     (case v of
        None \<Rightarrow> Inr False
      | Some s \<Rightarrow> if s = ''true'' then Inr True else if s = ''false'' then Inr False
                  else Inl (MalformedSecret (INITIALIZED_KEY @ '' must be true or false'')))"

definition quorum_bootstrap_state_from_secret :: "secret \<Rightarrow> reconcile_error + quorum_bootstrap_state option" where
  "quorum_bootstrap_state_from_secret s =
     (case (secret_value s NODE_ID_KEY, secret_value s POOL_KEY) of
        (None, None) \<Rightarrow> Inr None
      | (Some node, Some pool) \<Rightarrow>
          bind_result (secret_text NODE_ID_KEY node) (\<lambda>node.
          bind_result (secret_i32 NODE_ID_KEY node) (\<lambda>node_id.
            if \<not> (0 \<le> node_id \<and> node_id \<le> 999999)
            then Inl (MalformedSecret (NODE_ID_KEY @ '' is out of range 0..=999999''))
            else bind_result (secret_text POOL_KEY pool) (\<lambda>pool.
              if pool = [] then Inl (MalformedSecret (POOL_KEY @ '' is empty''))
              else bind_result (initialized_flag (secret_value s INITIALIZED_KEY)) (\<lambda>initialized.
                Inr (Some \<lparr>qs_controller = \<lparr>qc_node_id = node_id, qc_pool = pool\<rparr>, qs_initialized = initialized\<rparr>)))))
      | _ \<Rightarrow> Inl (MalformedSecret (NODE_ID_KEY @ '' and '' @ POOL_KEY @ '' must both be present'')))"

text \<open>What the Secret calls answer; the UUID parser is outside code.\<close>

record quorum_env =
  qe_get_secret :: "string \<Rightarrow> kube_error + secret"
  qe_patch_secret :: "string \<Rightarrow> kube_error option"
  qe_parse_uuid :: "string \<Rightarrow> string + uuid"
  qe_print_uuid :: "uuid \<Rightarrow> string"
  qe_new_uuid :: "int \<Rightarrow> uuid"

datatype quorum_effect = MergeStringData string "(string \<times> string) list"

type_synonym 'a quorum_step = "(reconcile_error, 'a, quorum_effect) logged"

definition cluster_secret_name :: "string \<Rightarrow> string" where
  "cluster_secret_name kafka = kafka @ ''-cluster-id''"

definition merge_string_data :: "quorum_env \<Rightarrow> string \<Rightarrow> (string \<times> string) list \<Rightarrow> unit quorum_step" where
  "merge_string_data env name entries = attempt Kube (qe_patch_secret env name) (MergeStringData name entries)"

definition get_cluster_secret :: "quorum_env \<Rightarrow> string \<Rightarrow> secret quorum_step" where
  "get_cluster_secret env kafka = lift_log (map_sum Kube id (qe_get_secret env (cluster_secret_name kafka)))"

definition ensure_quorum_bootstrap_state ::
  "quorum_env \<Rightarrow> string \<Rightarrow> quorum_bootstrap_controller \<Rightarrow> quorum_bootstrap_state quorum_step" where
  "ensure_quorum_bootstrap_state env kafka candidate =
     bind_log (get_cluster_secret env kafka) (\<lambda>s.
     bind_log (lift_log (quorum_bootstrap_state_from_secret s)) (\<lambda>stored.
       case stored of
         Some state \<Rightarrow> ret_log state
       | None \<Rightarrow>
           then_log (merge_string_data env (cluster_secret_name kafka)
               [(NODE_ID_KEY, int_to_string (qc_node_id candidate)), (POOL_KEY, qc_pool candidate),
                (INITIALIZED_KEY, ''false'')])
             (ret_log \<lparr>qs_controller = candidate, qs_initialized = False\<rparr>)))"

definition mark_quorum_bootstrap_initialized :: "quorum_env \<Rightarrow> string \<Rightarrow> unit quorum_step" where
  "mark_quorum_bootstrap_initialized env kafka =
     merge_string_data env (cluster_secret_name kafka) [(INITIALIZED_KEY, ''true'')]"

definition quorum_directory_id_key :: "int \<Rightarrow> string" where
  "quorum_directory_id_key node_id = ''quorumDirectoryId-'' @ int_to_string node_id"

definition quorum_directory_id_from_secret :: "quorum_env \<Rightarrow> secret \<Rightarrow> int \<Rightarrow> reconcile_error + uuid option" where
  "quorum_directory_id_from_secret env s node_id =
     (let key = quorum_directory_id_key node_id in
      case secret_value s key of
        None \<Rightarrow> Inr None
      | Some value \<Rightarrow>
          bind_result (secret_text key value) (\<lambda>text.
            case qe_parse_uuid env text of
              Inl e \<Rightarrow> Inl (MalformedSecret (key @ '': '' @ e))
            | Inr u \<Rightarrow> Inr (Some u)))"

definition ensure_quorum_directory_id :: "quorum_env \<Rightarrow> string \<Rightarrow> int \<Rightarrow> uuid quorum_step" where
  "ensure_quorum_directory_id env kafka node_id =
     bind_log (get_cluster_secret env kafka) (\<lambda>s.
     bind_log (lift_log (quorum_directory_id_from_secret env s node_id)) (\<lambda>stored.
       case stored of
         Some u \<Rightarrow> ret_log u
       | None \<Rightarrow>
           (let u = qe_new_uuid env node_id in
            then_log (merge_string_data env (cluster_secret_name kafka)
                [(quorum_directory_id_key node_id, qe_print_uuid env u)])
              (ret_log u))))"

definition uuid_from_secret :: "(string \<Rightarrow> string + uuid) \<Rightarrow> secret \<Rightarrow> reconcile_error + uuid" where
  "uuid_from_secret parse s =
     (case secret_data s of
        None \<Rightarrow> Inl (MalformedSecret ''Secret.data is empty'')
      | Some d \<Rightarrow>
          (case bm_get d ''clusterId'' of
             None \<Rightarrow> Inl (MalformedSecret ''missing clusterId key'')
           | Some bytes \<Rightarrow>
               bind_result (secret_text ''clusterId'' bytes) (\<lambda>text.
                 case parse text of
                   Inl e \<Rightarrow> Inl (MalformedSecret (''clusterId not a UUID: '' @ e))
                 | Inr u \<Rightarrow> Inr u)))"

definition select_quorum_bootstrap :: "node_pool list \<Rightarrow> quorum_bootstrap_controller option" where
  "select_quorum_bootstrap pools =
     map_option (\<lambda>pool. \<lparr>qc_node_id = np_node_id_start (knp_spec pool), qc_pool = pool_name pool\<rparr>)
       (min_by (\<lambda>pool. (np_node_id_start (knp_spec pool), pool_name pool))
         (filter (\<lambda>pool. validate_pool pool = Inr () \<and> is_controller pool) pools))"

text \<open>
  The choice that the init script of a pod makes when it formats an empty volume: it compares the
  texts of the Secret keys, and the pod does not start while one of them is missing.
\<close>

definition formats_standalone :: "secret \<Rightarrow> string \<Rightarrow> int \<Rightarrow> bool" where
  "formats_standalone s pool node_id \<longleftrightarrow>
     (case (secret_value s INITIALIZED_KEY, secret_value s NODE_ID_KEY, secret_value s POOL_KEY) of
        (Some i, Some n, Some p) \<Rightarrow> i \<noteq> ''true'' \<and> n = int_to_string node_id \<and> p = pool
      | _ \<Rightarrow> False)"

section \<open>The choice is permanent\<close>

definition secret_merged :: "quorum_effect \<Rightarrow> secret \<Rightarrow> secret" where
  "secret_merged eff s = (case eff of MergeStringData _ entries \<Rightarrow> merge_data entries s)"

definition valid_controller :: "quorum_bootstrap_controller \<Rightarrow> bool" where
  "valid_controller c \<longleftrightarrow> 0 \<le> qc_node_id c \<and> qc_node_id c \<le> 999999 \<and> qc_pool c \<noteq> []
     \<and> from_utf8 (qc_pool c) = Inr (qc_pool c)"

inductive q_step :: "string \<Rightarrow> secret \<Rightarrow> secret \<Rightarrow> bool" for kafka :: string where
  q_ensure: "qe_get_secret env (cluster_secret_name kafka) = Inr s \<Longrightarrow> valid_controller c
    \<Longrightarrow> q_step kafka s (fold secret_merged (snd (ensure_quorum_bootstrap_state env kafka c)) s)"
| q_directory: "qe_get_secret env (cluster_secret_name kafka) = Inr s
    \<Longrightarrow> q_step kafka s (fold secret_merged (snd (ensure_quorum_directory_id env kafka n)) s)"
| q_mark: "q_step kafka s (fold secret_merged (snd (mark_quorum_bootstrap_initialized env kafka)) s)"

lemma scan_i32_digits:
  assumes "digits_value acc s = Some v" "in_i32 (int v)"
  shows "scan_i32 False (int acc) s = Inr (int v)"
  using assms
proof (induction s arbitrary: acc)
  case (Cons c s)
  then obtain d where d: "char_digit c = Some d" "digits_value (acc * 10 + d) s = Some v"
    by (auto split: option.splits)
  from d(2) have "acc * 10 + d \<le> v"
    using digits_value_acc[of "acc * 10 + d" s] by (auto intro: order_trans[OF _ le_add1])
  then have "in_i32 (int acc * 10)" "in_i32 (int acc * 10 + int d)" using Cons.prems(2) by (auto simp: in_i32_def)
  with Cons.IH[OF d(2) Cons.prems(2)] d(1) show ?case by simp
qed simp

lemma i32_from_str_print:
  assumes "0 \<le> n" "in_i32 n"
  shows "i32_from_str (int_to_string n) = Inr n"
proof -
  obtain c cs where s: "nat_to_string (nat n) = c # cs" by (meson list.exhaust nat_to_string_not_Nil)
  then have "c \<noteq> CHR ''-''" "c \<noteq> CHR ''+''"
    using nat_to_string_digits[of c "nat n"] by (auto simp: is_ascii_digit_def)
  moreover have "scan_i32 False (int 0) (nat_to_string (nat n)) = Inr (int (nat n))"
    by (rule scan_i32_digits) (use assms digits_value_nat_to_string in simp_all)
  ultimately show ?thesis
    using assms by (simp add: i32_from_str_def int_to_string_def s del: scan_i32.simps)
qed

definition chosen :: "quorum_bootstrap_controller \<Rightarrow> bool \<Rightarrow> secret \<Rightarrow> bool" where
  "chosen c b s \<longleftrightarrow> valid_controller c \<and> secret_value s NODE_ID_KEY = Some (int_to_string (qc_node_id c))
     \<and> secret_value s POOL_KEY = Some (qc_pool c)
     \<and> (secret_value s INITIALIZED_KEY = Some ''true'' \<or> \<not> b \<and> secret_value s INITIALIZED_KEY = Some ''false'')"

lemma ascii_digits_utf8: "from_utf8 (int_to_string n) = Inr (int_to_string n)" if "0 \<le> n"
proof -
  have "of_char c < (128 :: nat)" if "c \<in> set (nat_to_string (nat n))" for c
    using nat_to_string_digits[OF that] by (auto simp: is_ascii_digit_def)
  then have "utf8_error (nat_to_string (nat n)) = None" by (auto simp: utf8_error_def intro!: utf8_check_ascii)
  then show ?thesis using that by (simp add: from_utf8_def int_to_string_def)
qed

lemma chosen_state:
  assumes "chosen c b s"
  shows "quorum_bootstrap_state_from_secret s
    = Inr (Some \<lparr>qs_controller = c, qs_initialized = (secret_value s INITIALIZED_KEY = Some ''true'')\<rparr>)"
proof -
  have c: "0 \<le> qc_node_id c" "qc_node_id c \<le> 999999" "qc_pool c \<noteq> []" "from_utf8 (qc_pool c) = Inr (qc_pool c)"
    using assms by (simp_all add: chosen_def valid_controller_def)
  then have "i32_from_str (int_to_string (qc_node_id c)) = Inr (qc_node_id c)"
    by (intro i32_from_str_print) (auto simp: in_i32_def)
  with assms c ascii_digits_utf8[OF c(1)] show ?thesis
    by (auto simp: chosen_def quorum_bootstrap_state_from_secret_def secret_text_def secret_i32_def initialized_flag_def)
qed

lemma directory_keys [simp]:
  "quorum_directory_id_key n \<noteq> NODE_ID_KEY" "quorum_directory_id_key n \<noteq> POOL_KEY"
  "quorum_directory_id_key n \<noteq> INITIALIZED_KEY" "NODE_ID_KEY \<noteq> quorum_directory_id_key n"
  "POOL_KEY \<noteq> quorum_directory_id_key n" "INITIALIZED_KEY \<noteq> quorum_directory_id_key n"
  by (simp_all add: quorum_directory_id_key_def NODE_ID_KEY_def POOL_KEY_def INITIALIZED_KEY_def)

lemma bootstrap_keys [simp]:
  "NODE_ID_KEY \<noteq> POOL_KEY" "NODE_ID_KEY \<noteq> INITIALIZED_KEY" "POOL_KEY \<noteq> INITIALIZED_KEY"
  "POOL_KEY \<noteq> NODE_ID_KEY" "INITIALIZED_KEY \<noteq> NODE_ID_KEY" "INITIALIZED_KEY \<noteq> POOL_KEY"
  by (simp_all add: NODE_ID_KEY_def POOL_KEY_def INITIALIZED_KEY_def)

lemma merge_effects:
  "fold secret_merged (snd (merge_string_data env name entries)) s \<in> {s, merge_data entries s}"
  by (auto simp: merge_string_data_def attempt_def secret_merged_def split: option.splits)

lemma directory_effects:
  assumes "qe_get_secret env (cluster_secret_name kafka) = Inr s"
  shows "fold secret_merged (snd (ensure_quorum_directory_id env kafka n)) s
    \<in> {s} \<union> {merge_data [(quorum_directory_id_key n, v)] s | v. secret_value s (quorum_directory_id_key n) = None}"
proof (cases "quorum_directory_id_from_secret env s n")
  case (Inr stored)
  show ?thesis
  proof (cases stored)
    case None
    with Inr have "secret_value s (quorum_directory_id_key n) = None"
      by (auto simp: quorum_directory_id_from_secret_def Let_def bind_result_Inr split: option.splits sum.splits;
          metis sum.exhaust)
    with Inr None assms merge_effects[of env "cluster_secret_name kafka"
        "[(quorum_directory_id_key n, qe_print_uuid env (qe_new_uuid env n))]" s] show ?thesis
      by (auto simp: ensure_quorum_directory_id_def get_cluster_secret_def Let_def snd_then_log split: sum.splits)
  qed (use Inr assms in \<open>simp add: ensure_quorum_directory_id_def get_cluster_secret_def\<close>)
qed (use assms in \<open>simp add: ensure_quorum_directory_id_def get_cluster_secret_def\<close>)

lemma ensure_effects:
  assumes "qe_get_secret env (cluster_secret_name kafka) = Inr s"
  shows "fold secret_merged (snd (ensure_quorum_bootstrap_state env kafka c)) s
    \<in> {s} \<union> (if quorum_bootstrap_state_from_secret s = Inr None
              then {merge_data [(NODE_ID_KEY, int_to_string (qc_node_id c)), (POOL_KEY, qc_pool c),
                      (INITIALIZED_KEY, ''false'')] s} else {})"
  using assms merge_effects[of env "cluster_secret_name kafka"
      "[(NODE_ID_KEY, int_to_string (qc_node_id c)), (POOL_KEY, qc_pool c), (INITIALIZED_KEY, ''false'')]" s]
  by (auto simp: ensure_quorum_bootstrap_state_def get_cluster_secret_def bind_log_def lift_log_def snd_then_log
      split: sum.splits option.splits)

interpretation qb: invariant_machine "chosen c b" "q_step kafka" "chosen c b" for c b kafka
proof
  show "chosen c b t" if inv: "chosen c b s" and "q_step kafka s t" for s t
    using \<open>q_step kafka s t\<close>
  proof cases
    case (q_ensure env c')
    with ensure_effects[OF q_ensure(2), of c'] chosen_state[OF inv] inv show ?thesis by simp
  next
    case (q_directory env n)
    with directory_effects[OF q_directory(2), of n] inv show ?thesis
      by (auto simp: chosen_def secret_value_merge1)
  next
    case (q_mark env)
    with merge_effects[of env "cluster_secret_name kafka" "[(INITIALIZED_KEY, ''true'')]" s] inv show ?thesis
      by (auto simp: mark_quorum_bootstrap_initialized_def chosen_def secret_value_merge1)
  qed
qed

definition unchosen :: "secret \<Rightarrow> bool" where
  "unchosen s \<longleftrightarrow> secret_value s NODE_ID_KEY = None \<and> secret_value s POOL_KEY = None"

interpretation qf: invariant_machine unchosen "q_step kafka" "\<lambda>s. unchosen s \<or> (\<exists>c. chosen c False s)" for kafka
proof
  show "unchosen t \<or> (\<exists>c. chosen c False t)" if "unchosen s \<or> (\<exists>c. chosen c False s)" and "q_step kafka s t" for s t
  proof (cases "unchosen s")
    case False
    with that show ?thesis using qb.inv_step by blast
  next
    case True
    from \<open>q_step kafka s t\<close> show ?thesis
    proof cases
      case (q_ensure env c)
      with ensure_effects[OF q_ensure(2), of c] True show ?thesis
        by (auto simp: unchosen_def chosen_def secret_value_merge split: if_splits)
    next
      case (q_directory env n)
      with directory_effects[OF q_directory(2), of n] True show ?thesis
        by (auto simp: unchosen_def secret_value_merge1)
    next
      case (q_mark env)
      with merge_effects[of env "cluster_secret_name kafka" "[(INITIALIZED_KEY, ''true'')]" s] True show ?thesis
        by (auto simp: mark_quorum_bootstrap_initialized_def unchosen_def secret_value_merge1)
    qed
  qed
qed auto

lemma directory_kept:
  assumes "q_step kafka s t" "secret_value s (quorum_directory_id_key n) = Some v"
  shows "secret_value t (quorum_directory_id_key n) = Some v"
  using assms(1)
proof cases
  case (q_ensure env c)
  with ensure_effects[OF q_ensure(2), of c] assms(2) show ?thesis
    by (auto simp: secret_value_merge split: if_splits)
next
  case (q_directory env m)
  with directory_effects[OF q_directory(2), of m] assms(2) show ?thesis
    by (auto simp: secret_value_merge1)
next
  case (q_mark env)
  with merge_effects[of env "cluster_secret_name kafka" "[(INITIALIZED_KEY, ''true'')]" s] assms(2) show ?thesis
    by (auto simp: mark_quorum_bootstrap_initialized_def secret_value_merge1)
qed

interpretation qd: invariant_machine "\<lambda>s. secret_value s (quorum_directory_id_key n) = Some v" "q_step kafka"
  "\<lambda>s. secret_value s (quorum_directory_id_key n) = Some v" for n v kafka
  by unfold_locales (auto intro: directory_kept)


section \<open>Instances\<close>

definition sample_quorum_env :: "secret \<Rightarrow> quorum_env" where
  "sample_quorum_env s = \<lparr>qe_get_secret = (\<lambda>_. Inr s), qe_patch_secret = (\<lambda>_. None),
     qe_parse_uuid = (\<lambda>_. Inr 7), qe_print_uuid = (\<lambda>_. ''7''), qe_new_uuid = (\<lambda>_. 7)\<rparr>"

definition fresh_cluster_secret :: secret where
  "fresh_cluster_secret = \<lparr>secret_meta = plain_meta ''c-cluster-id'', secret_type = Some ''Opaque'',
     secret_data = Some [(''clusterId'', ''7'')]\<rparr>"

definition sample_controller :: quorum_bootstrap_controller where
  "sample_controller = \<lparr>qc_node_id = 0, qc_pool = ''ctl''\<rparr>"

definition chosen_cluster_secret :: secret where
  "chosen_cluster_secret = fold secret_merged
     (snd (ensure_quorum_bootstrap_state (sample_quorum_env fresh_cluster_secret) ''c'' sample_controller)) fresh_cluster_secret"


end
