(* ===== verification/Toml.thy ===== *)
theory Toml
  imports Operator_Prelude
begin

text \<open>
  TOML as the operator writes it and as a broker reads it. The operator writes a configuration file
  line by line (\<open>controller/listeners.rs\<close>, \<open>crd/kafka.rs\<close>); \<open>toml_item\<close> has one constructor per
  form of line and \<open>print_item\<close> its text. The text of a \<open>Foreign\<close> value is written by the \<open>toml\<close> package. \<open>read_toml\<close> is the reader that the TOML 1.0 specification
  prescribes for these forms: basic and literal strings, integers, booleans, arrays of strings,
  inline tables, bare and quoted keys, headers. Unicode escapes, comments, floats, dates and values
  that span lines, which the operator does not write, are not read. The round trip theorem gives the conditions
  on the texts under which a file is read as it was meant.
\<close>

section \<open>Writing\<close>

abbreviation quote_char :: char where "quote_char \<equiv> CHR 0x22"
abbreviation backslash :: char where "backslash \<equiv> CHR 0x5C"
abbreviation line_feed :: char where "line_feed \<equiv> CHR 0x0A"

definition replace_char :: "char \<Rightarrow> string \<Rightarrow> string \<Rightarrow> string" where
  "replace_char c r s = concat (map (\<lambda>x. if x = c then r else [x]) s)"

definition toml_escape :: "string \<Rightarrow> string" where
  "toml_escape s = replace_char quote_char [backslash, quote_char] (replace_char backslash [backslash, backslash] s)"

definition basic_string :: "string \<Rightarrow> string" where
  "basic_string s = quote_char # s @ [quote_char]"

definition toml_string_array :: "string list \<Rightarrow> string" where
  "toml_string_array items = ''['' @ join_with '', '' (map basic_string items) @ '']''"

datatype inline_value = InlineText string | InlineTexts "string list"

datatype toml_item =
    Header string
  | ArrayHeader string
  | Blank
  | Text string string
  | Escaped string string
  | LiteralText string string
  | Number string int
  | Flag string bool
  | Texts string "string list"
  | Quoted string string
  | Inline string "(string \<times> inline_value) list"
  | Foreign string string string

definition literal_quotes :: string where
  "literal_quotes = [CHR 0x27, CHR 0x27, CHR 0x27]"

definition print_bool :: "bool \<Rightarrow> string" where
  "print_bool b = (if b then ''true'' else ''false'')"

definition print_inline :: "string \<times> inline_value \<Rightarrow> string" where
  "print_inline f = fst f @ '' = ''
     @ (case snd f of InlineText v \<Rightarrow> basic_string v | InlineTexts vs \<Rightarrow> toml_string_array vs)"

definition item_text :: "toml_item \<Rightarrow> string" where
  "item_text i =
     (case i of
        Header n \<Rightarrow> ''['' @ n @ '']''
      | ArrayHeader n \<Rightarrow> ''[['' @ n @ '']]''
      | Blank \<Rightarrow> []
      | Text k v \<Rightarrow> k @ '' = '' @ basic_string v
      | Escaped k v \<Rightarrow> k @ '' = '' @ basic_string (toml_escape v)
      | LiteralText k v \<Rightarrow> k @ '' = '' @ literal_quotes @ v @ literal_quotes
      | Number k v \<Rightarrow> k @ '' = '' @ int_to_string v
      | Flag k b \<Rightarrow> k @ '' = '' @ print_bool b
      | Texts k vs \<Rightarrow> k @ '' = '' @ toml_string_array vs
      | Quoted k v \<Rightarrow> basic_string k @ '' = '' @ basic_string v
      | Inline k fs \<Rightarrow> k @ '' = { '' @ join_with '', '' (map print_inline fs) @ '' }''
      | Foreign k _ text \<Rightarrow> k @ '' = '' @ text)"

definition print_item :: "toml_item \<Rightarrow> string" where
  "print_item i = item_text i @ [line_feed]"

definition print_items :: "toml_item list \<Rightarrow> string" where
  "print_items is = concat (map print_item is)"

section \<open>Reading\<close>

datatype toml_value = VText string | VNumber int | VFlag bool | VTexts "string list" | VTable "(string \<times> toml_value) list"

datatype toml_statement = TableHead string | TablesHead string | Entry string toml_value

definition is_control :: "char \<Rightarrow> bool" where
  "is_control c \<longleftrightarrow> (let n = (of_char c :: nat) in n < 32 \<and> n \<noteq> 9 \<or> n = 127)"

definition is_blank :: "char \<Rightarrow> bool" where
  "is_blank c \<longleftrightarrow> c = CHR 0x20 \<or> c = CHR 0x09"

definition skip_blanks :: "string \<Rightarrow> string" where
  "skip_blanks = dropWhile is_blank"

definition bare_char :: "char \<Rightarrow> bool" where
  "bare_char c \<longleftrightarrow> is_ascii_alphanumeric c \<or> c = CHR ''_'' \<or> c = CHR ''-''"

definition unescape_char :: "char \<Rightarrow> char option" where
  "unescape_char c =
     (if c = quote_char then Some quote_char else if c = backslash then Some backslash
      else if c = CHR ''b'' then Some (CHR 0x08) else if c = CHR ''t'' then Some (CHR 0x09)
      else if c = CHR ''n'' then Some line_feed else if c = CHR ''f'' then Some (CHR 0x0C)
      else if c = CHR ''r'' then Some (CHR 0x0D) else None)"

text \<open>The rest of a basic string after its opening quote, with what follows the closing one.\<close>

fun read_basic :: "string \<Rightarrow> (string \<times> string) option" where
  "read_basic [] = None"
| "read_basic (c # s) =
     (if c = quote_char then Some ([], s)
      else if c = backslash then
        (case s of
           [] \<Rightarrow> None
         | e # r \<Rightarrow> Option.bind (unescape_char e) (\<lambda>x. map_option (apfst ((#) x)) (read_basic r)))
      else if is_control c then None
      else map_option (apfst ((#) c)) (read_basic s))"

lemma read_basic_length: "read_basic s = Some (v, r) \<Longrightarrow> length r < length s"
proof (induction s arbitrary: v r rule: read_basic.induct)
  case (2 c s)
  then show ?case
    by (fastforce split: if_splits list.splits simp: bind_eq_Some_conv)
qed simp

lemma skip_blanks_length [termination_simp]: "length (skip_blanks s) \<le> length s"
  by (simp add: skip_blanks_def length_dropWhile_le)

lemma element_length:
  assumes "skip_blanks s = c # r" "read_basic r = Some (v, r')" "skip_blanks r' = c' # r''"
  shows "length r'' < length s"
  using read_basic_length[OF assms(2)] skip_blanks_length[of s] skip_blanks_length[of r'] assms(1,3) by simp

text \<open>The elements of an array after its opening bracket, or after a comma.\<close>

function read_elements :: "string \<Rightarrow> (string list \<times> string) option" where
  "read_elements s =
     (case skip_blanks s of
        [] \<Rightarrow> None
      | c # r \<Rightarrow>
          if c = CHR '']'' then Some ([], r)
          else if c \<noteq> quote_char then None
          else case read_basic r of
                 None \<Rightarrow> None
               | Some (v, r') \<Rightarrow>
                   (case skip_blanks r' of
                      [] \<Rightarrow> None
                    | c' # r'' \<Rightarrow>
                        if c' = CHR '']'' then Some ([v], r'')
                        else if c' = CHR '','' then map_option (apfst ((#) v)) (read_elements r'')
                        else None))"
  by pat_completeness auto
termination
  by (relation "measure length") (auto intro: element_length)

declare read_elements.simps [simp del]

definition read_number :: "string \<Rightarrow> (toml_value \<times> string) option" where
  "read_number s =
     (let neg = (s \<noteq> [] \<and> hd s = CHR ''-''); r = (if neg then tl s else s);
          ds = takeWhile is_ascii_digit r; rest = dropWhile is_ascii_digit r
      in case digits_value 0 ds of
           None \<Rightarrow> None
         | Some n \<Rightarrow> if ds = nat_to_string n then Some (VNumber (if neg then - int n else int n), rest) else None)"

definition read_simple :: "string \<Rightarrow> (toml_value \<times> string) option" where
  "read_simple s =
     (case s of
        [] \<Rightarrow> None
      | c # r \<Rightarrow>
          if starts_with literal_quotes s then map_option (apfst VText) (split_once literal_quotes (drop 3 s))
          else if c = quote_char then map_option (apfst VText) (read_basic r)
          else if c = CHR ''['' then map_option (apfst VTexts) (read_elements r)
          else if starts_with ''true'' s then Some (VFlag True, drop 4 s)
          else if starts_with ''false'' s then Some (VFlag False, drop 5 s)
          else read_number s)"

definition read_key :: "string \<Rightarrow> (string \<times> string) option" where
  "read_key s =
     (case s of
        [] \<Rightarrow> None
      | c # r \<Rightarrow> if c = quote_char then read_basic r
                else let k = takeWhile bare_char s in if k = [] then None else Some (k, drop (length k) s))"

definition expect_char :: "char \<Rightarrow> string \<Rightarrow> string option" where
  "expect_char c s = (case skip_blanks s of [] \<Rightarrow> None | x # r \<Rightarrow> if x = c then Some (skip_blanks r) else None)"

text \<open>A key with a simple value, as in an inline table.\<close>

definition read_field :: "string \<Rightarrow> ((string \<times> toml_value) \<times> string) option" where
  "read_field s = Option.bind (read_key (skip_blanks s)) (\<lambda>(k, r). Option.bind (expect_char (CHR ''='') r) (\<lambda>r'.
     map_option (apfst (Pair k)) (read_simple r')))"

text \<open>The fields of an inline table. Every field uses up text, so as much fuel as there are characters is enough.\<close>

fun read_fields :: "nat \<Rightarrow> string \<Rightarrow> ((string \<times> toml_value) list \<times> string) option" where
  "read_fields 0 s = None"
| "read_fields (Suc n) s =
     (case read_field s of
        None \<Rightarrow> None
      | Some (f, r) \<Rightarrow>
          (case skip_blanks r of
             [] \<Rightarrow> None
           | c # r' \<Rightarrow> if c = CHR ''}'' then Some ([f], r')
                      else if c = CHR '','' then map_option (apfst ((#) f)) (read_fields n r') else None))"

definition read_value :: "string \<Rightarrow> (toml_value \<times> string) option" where
  "read_value s =
     (case s of
        [] \<Rightarrow> None
      | c # r \<Rightarrow> if c = CHR ''{'' then Option.bind (read_fields (length r) r) (\<lambda>(fs, r').
                    if distinct (map fst fs) then Some (VTable fs, r') else None)
                else read_simple s)"

definition header_char :: "char \<Rightarrow> bool" where
  "header_char c \<longleftrightarrow> bare_char c \<or> c = CHR ''.''"

definition read_header :: "string \<Rightarrow> (string \<times> string) option" where
  "read_header s = (let n = takeWhile header_char s in if n = [] then None else Some (n, drop (length n) s))"

definition read_line :: "string \<Rightarrow> toml_statement list option" where
  "read_line l =
     (let s = skip_blanks l
      in if s = [] then Some []
         else if starts_with ''[['' s then
           (case read_header (drop 2 s) of
              Some (n, r) \<Rightarrow> if starts_with '']]'' r \<and> skip_blanks (drop 2 r) = [] then Some [TablesHead n] else None
            | None \<Rightarrow> None)
         else if starts_with ''['' s then
           (case read_header (drop 1 s) of
              Some (n, r) \<Rightarrow> if starts_with '']'' r \<and> skip_blanks (drop 1 r) = [] then Some [TableHead n] else None
            | None \<Rightarrow> None)
         else
           Option.bind (read_key s) (\<lambda>(k, r). Option.bind (expect_char (CHR ''='') r) (\<lambda>r'.
             Option.bind (read_value r') (\<lambda>(v, r''). if skip_blanks r'' = [] then Some [Entry k v] else None))))"

fun read_lines :: "string list \<Rightarrow> toml_statement list option" where
  "read_lines [] = Some []"
| "read_lines (l # ls) = Option.bind (read_line l) (\<lambda>s. map_option ((@) s) (read_lines ls))"

definition read_toml :: "string \<Rightarrow> toml_statement list option" where
  "read_toml text = read_lines (split_on line_feed text)"

section \<open>What a line means, and when it is read so\<close>

definition plain_text :: "string \<Rightarrow> bool" where
  "plain_text s \<longleftrightarrow> (\<forall>c \<in> set s. c \<noteq> quote_char \<and> c \<noteq> backslash \<and> \<not> is_control c)"

definition clean_text :: "string \<Rightarrow> bool" where
  "clean_text s \<longleftrightarrow> (\<forall>c \<in> set s. \<not> is_control c)"

definition bare_key :: "string \<Rightarrow> bool" where
  "bare_key k \<longleftrightarrow> k \<noteq> [] \<and> (\<forall>c \<in> set k. bare_char c)"

definition literal_ok :: "string \<Rightarrow> bool" where
  "literal_ok s \<longleftrightarrow> clean_text s \<and> find_sub literal_quotes (s @ [CHR 0x27, CHR 0x27]) = None"

definition inline_meaning :: "inline_value \<Rightarrow> toml_value" where
  "inline_meaning v = (case v of InlineText s \<Rightarrow> VText s | InlineTexts ss \<Rightarrow> VTexts ss)"

definition item_meaning :: "toml_item \<Rightarrow> toml_statement list" where
  "item_meaning i =
     (case i of
        Header n \<Rightarrow> [TableHead n]
      | ArrayHeader n \<Rightarrow> [TablesHead n]
      | Blank \<Rightarrow> []
      | Text k v \<Rightarrow> [Entry k (VText v)]
      | Escaped k v \<Rightarrow> [Entry k (VText v)]
      | LiteralText k v \<Rightarrow> [Entry k (VText v)]
      | Number k v \<Rightarrow> [Entry k (VNumber v)]
      | Flag k b \<Rightarrow> [Entry k (VFlag b)]
      | Texts k vs \<Rightarrow> [Entry k (VTexts vs)]
      | Quoted k v \<Rightarrow> [Entry k (VText v)]
      | Inline k fs \<Rightarrow> [Entry k (VTable (map (apsnd inline_meaning) fs))]
      | Foreign k v _ \<Rightarrow> [Entry k (VText v)])"

definition inline_ok :: "string \<times> inline_value \<Rightarrow> bool" where
  "inline_ok f \<longleftrightarrow> bare_key (fst f)
     \<and> (case snd f of InlineText v \<Rightarrow> plain_text v | InlineTexts vs \<Rightarrow> list_all plain_text vs)"

definition item_ok :: "toml_item \<Rightarrow> bool" where
  "item_ok i =
     (case i of
        Header n \<Rightarrow> n \<noteq> [] \<and> list_all header_char n
      | ArrayHeader n \<Rightarrow> n \<noteq> [] \<and> list_all header_char n
      | Blank \<Rightarrow> True
      | Text k v \<Rightarrow> bare_key k \<and> plain_text v
      | Escaped k v \<Rightarrow> bare_key k \<and> clean_text v
      | LiteralText k v \<Rightarrow> bare_key k \<and> literal_ok v
      | Number k v \<Rightarrow> bare_key k
      | Flag k b \<Rightarrow> bare_key k
      | Texts k vs \<Rightarrow> bare_key k \<and> list_all plain_text vs
      | Quoted k v \<Rightarrow> plain_text k \<and> plain_text v
      | Inline k fs \<Rightarrow> bare_key k \<and> fs \<noteq> [] \<and> list_all inline_ok fs \<and> distinct (map fst fs)
      | Foreign k v text \<Rightarrow> bare_key k \<and> line_feed \<notin> set text \<and> skip_blanks text = text \<and> read_value text = Some (VText v, []))"

section \<open>The round trip\<close>

lemma char_facts [simp]:
  "\<not> bare_char quote_char" "\<not> bare_char (CHR '' '')" "\<not> bare_char (CHR ''['')" "\<not> bare_char (CHR 0x09)" "\<not> bare_char line_feed"
  "\<not> header_char (CHR '']'')" "\<not> header_char line_feed" "\<not> header_char (CHR ''['')" "is_control line_feed" "\<not> is_blank quote_char"
  by (simp_all add: bare_char_def header_char_def is_control_def is_blank_def is_ascii_alphanumeric_def is_ascii_digit_def
      is_ascii_lower_def is_ascii_upper_def)

lemma bare_not_blank: "bare_char c \<Longrightarrow> \<not> is_blank c"
  by (auto simp: is_blank_def)

lemma skip_blanks_simps [simp]:
  "skip_blanks [] = []" "skip_blanks (CHR '' '' # s) = skip_blanks s" "\<not> is_blank c \<Longrightarrow> skip_blanks (c # s) = c # s"
  by (simp_all add: skip_blanks_def is_blank_def)

lemma skip_to_basic [simp]: "skip_blanks (basic_string v @ r) = basic_string v @ r" "skip_blanks (basic_string v) = basic_string v"
  by (simp_all add: basic_string_def)

lemma skip_to_array [simp]:
  "skip_blanks (toml_string_array vs @ r) = toml_string_array vs @ r" "skip_blanks (toml_string_array vs) = toml_string_array vs"
  by (simp_all add: toml_string_array_def is_blank_def)

lemma read_basic_plain: "plain_text v \<Longrightarrow> read_basic (v @ quote_char # r) = Some (v, r)"
  by (induction v) (auto simp: plain_text_def)

lemma toml_escape_simps [simp]:
  "toml_escape [] = []"
  "toml_escape (c # s) = (if c = quote_char then [backslash, quote_char] else if c = backslash then [backslash, backslash] else [c])
     @ toml_escape s"
  by (simp_all add: toml_escape_def replace_char_def)

lemma read_basic_escaped: "clean_text v \<Longrightarrow> read_basic (toml_escape v @ quote_char # r) = Some (v, r)"
  by (induction v) (auto simp: clean_text_def unescape_char_def)

lemma read_elements_blank: "read_elements (CHR '' '' # s) = read_elements s"
  by (subst (1 2) read_elements.simps) simp

lemma read_elements_array:
  "list_all plain_text vs \<Longrightarrow> read_elements (join_with '', '' (map basic_string vs) @ CHR '']'' # r) = Some (vs, r)"
proof (induction vs)
  case Nil
  then show ?case by (subst read_elements.simps) (simp add: is_blank_def)
next
  case (Cons v vs)
  then have v: "plain_text v" and IH: "read_elements (join_with '', '' (map basic_string vs) @ CHR '']'' # r) = Some (vs, r)" by auto
  show ?case
  proof (cases vs)
    case Nil
    with v show ?thesis
      by (subst read_elements.simps) (simp add: basic_string_def read_basic_plain is_blank_def)
  next
    case (Cons w ws)
    with v IH show ?thesis
      by (subst read_elements.simps) (simp add: basic_string_def read_basic_plain is_blank_def read_elements_blank)
  qed
qed

lemma digits_span: "\<forall>c \<in> set ds. is_ascii_digit c \<Longrightarrow> takeWhile is_ascii_digit ds = ds \<and> dropWhile is_ascii_digit ds = []"
  by (simp add: takeWhile_eq_all_conv)

lemma read_number_print: "read_number (int_to_string v) = Some (VNumber v, [])"
proof -
  have d: "takeWhile is_ascii_digit (nat_to_string n) = nat_to_string n" "dropWhile is_ascii_digit (nat_to_string n) = []" for n
    using digits_span nat_to_string_digits by blast+
  have h: "hd (nat_to_string n) \<noteq> CHR ''-''" for n
    using nat_to_string_digits[OF hd_in_set[OF nat_to_string_not_Nil]] non_digits by metis
  show ?thesis
    by (simp add: read_number_def int_to_string_def Let_def d h digits_value_nat_to_string)
qed

lemma span_bare:
  assumes "bare_key k"
  shows "takeWhile bare_char (k @ CHR '' '' # r) = k"
  using assms by (simp add: bare_key_def takeWhile_append)

lemma read_key_bare: "bare_key k \<Longrightarrow> read_key (k @ CHR '' '' # r) = Some (k, CHR '' '' # r)"
  using span_bare[of k r] by (cases k) (auto simp: read_key_def bare_key_def)

lemma read_key_quoted: "plain_text k \<Longrightarrow> read_key (basic_string k @ r) = Some (k, r)"
  by (simp add: read_key_def basic_string_def read_basic_plain)

lemma expect_equals: "expect_char (CHR ''='') ('' = '' @ r) = Some (skip_blanks r)"
  by (simp add: expect_char_def is_blank_def)

lemma not_literal [simp]: "\<not> starts_with literal_quotes (quote_char # s)" "\<not> starts_with literal_quotes (CHR ''['' # s)"
  by (simp_all add: starts_with_def literal_quotes_def)

lemma read_simple_basic: "plain_text v \<Longrightarrow> read_simple (basic_string v @ r) = Some (VText v, r)"
  by (simp add: read_simple_def basic_string_def read_basic_plain)

lemma read_simple_escaped: "clean_text v \<Longrightarrow> read_simple (basic_string (toml_escape v)) = Some (VText v, [])"
  using read_basic_escaped[of v "[]"] by (simp add: read_simple_def basic_string_def)

lemma read_simple_array: "list_all plain_text vs \<Longrightarrow> read_simple (toml_string_array vs @ r) = Some (VTexts vs, r)"
  using read_elements_array[of vs r] by (simp add: read_simple_def toml_string_array_def)

lemma find_sub_literal:
  "find_sub literal_quotes (v @ [CHR 0x27, CHR 0x27]) = None \<Longrightarrow> find_sub literal_quotes (v @ literal_quotes) = Some (length v)"
proof (induction v)
  case Nil
  then show ?case by (simp add: literal_quotes_def)
next
  case (Cons c v)
  then have "find_sub literal_quotes (v @ [CHR 0x27, CHR 0x27]) = None" by (simp add: literal_quotes_def split: if_splits)
  moreover have "\<not> starts_with literal_quotes (c # v @ literal_quotes)"
  proof
    assume "starts_with literal_quotes (c # v @ literal_quotes)"
    then have "starts_with literal_quotes (c # v @ [CHR 0x27, CHR 0x27])"
      by (cases v; cases "tl v") (auto simp: starts_with_def literal_quotes_def)
    with Cons.prems show False by (auto simp: starts_with_def literal_quotes_def split: if_splits)
  qed
  ultimately show ?case using Cons.IH by (auto simp: starts_with_def literal_quotes_def)
qed

lemma read_simple_literal:
  assumes "literal_ok v"
  shows "read_simple (literal_quotes @ v @ literal_quotes) = Some (VText v, [])"
proof -
  have "find_sub literal_quotes (v @ literal_quotes) = Some (length v)"
    using assms find_sub_literal by (simp add: literal_ok_def)
  moreover have "starts_with literal_quotes (literal_quotes @ v @ literal_quotes)" by (simp add: starts_with_iff)
  ultimately show ?thesis
    by (simp add: read_simple_def split_once_def literal_quotes_def split: list.splits)
qed

lemma int_text_head: "\<exists>c r. int_to_string v = c # r \<and> (is_ascii_digit c \<or> c = CHR ''-'')"
proof (cases "v < 0")
  case False
  obtain c r where "nat_to_string (nat v) = c # r" by (cases "nat_to_string (nat v)") auto
  moreover from this have "is_ascii_digit c" using nat_to_string_digits[of c "nat v"] by simp
  ultimately show ?thesis using False by (simp add: int_to_string_def)
qed (simp add: int_to_string_def)

lemma read_simple_number: "read_simple (int_to_string v) = Some (VNumber v, [])"
proof -
  obtain c r where c: "int_to_string v = c # r" "is_ascii_digit c \<or> c = CHR ''-''" using int_text_head by blast
  then have "c \<noteq> CHR 0x27" "c \<noteq> quote_char" "c \<noteq> CHR ''[''" "c \<noteq> CHR ''t''" "c \<noteq> CHR ''f''"
    by (auto simp: is_ascii_digit_def)
  then have "read_simple (c # r) = read_number (c # r)"
    by (simp add: read_simple_def starts_with_def literal_quotes_def)
  with c read_number_print[of v] show ?thesis by simp
qed

lemma read_simple_bool: "read_simple (print_bool b) = Some (VFlag b, [])"
  by (simp add: read_simple_def print_bool_def starts_with_def literal_quotes_def)

lemma read_field_print:
  assumes "inline_ok f"
  shows "read_field (print_inline f @ r) = Some (apsnd inline_meaning f, r)"
proof -
  obtain k v where f: "f = (k, v)" by (cases f)
  with assms have k: "bare_key k" by (simp add: inline_ok_def)
  then have "skip_blanks (k @ s) = k @ s" for s
    by (cases k) (auto simp: bare_key_def bare_not_blank)
  with k assms show ?thesis unfolding f
    by (cases v) (simp_all add: read_field_def print_inline_def inline_ok_def read_key_bare expect_equals[simplified]
        read_simple_basic read_simple_array inline_meaning_def)
qed

lemma read_field_blank: "read_field (CHR '' '' # s) = read_field s"
  by (simp add: read_field_def)

lemma read_fields_blank: "read_fields n (CHR '' '' # s) = read_fields n s"
  by (cases n) (simp_all add: read_field_blank)

lemma print_inline_not_Nil: "inline_ok f \<Longrightarrow> print_inline f \<noteq> []"
  by (simp add: print_inline_def)

lemma read_fields_print:
  "fs \<noteq> [] \<Longrightarrow> list_all inline_ok fs \<Longrightarrow> length fs \<le> n \<Longrightarrow>
     read_fields n (join_with '', '' (map print_inline fs) @ '' }'' @ r) = Some (map (apsnd inline_meaning) fs, r)"
proof (induction fs arbitrary: n)
  case (Cons f fs)
  then obtain m where n: "n = Suc m" by (cases n) auto
  from Cons.prems have f: "inline_ok f" by simp
  show ?case
  proof (cases fs)
    case Nil
    with f show ?thesis unfolding n by (simp add: read_field_print is_blank_def)
  next
    case (Cons g gs)
    with Cons.IH[of m] Cons.prems n have "read_fields m (join_with '', '' (map print_inline fs) @ '' }'' @ r) = Some (map (apsnd inline_meaning) fs, r)"
      by auto
    with f Cons show ?thesis unfolding n by (simp add: read_field_print is_blank_def read_fields_blank)
  qed
qed simp

lemma join_length: "list_all inline_ok fs \<Longrightarrow> length fs \<le> length (join_with '', '' (map print_inline fs))"
proof (induction fs)
  case (Cons f fs)
  then have "1 \<le> length (print_inline f)" using print_inline_not_Nil[of f] by (cases "print_inline f") auto
  with Cons show ?case by (cases fs) auto
qed simp

lemma read_value_inline:
  assumes "fs \<noteq> []" "list_all inline_ok fs" "distinct (map fst fs)"
  shows "read_value (''{ '' @ join_with '', '' (map print_inline fs) @ '' }'') = Some (VTable (map (apsnd inline_meaning) fs), [])"
proof -
  have "map fst (map (apsnd inline_meaning) fs) = map fst fs" by simp
  with assms read_fields_print[of fs "Suc (Suc (Suc (length (join_with '', '' (map print_inline fs)))))" "[]"]
    join_length[OF assms(2)]
  show ?thesis by (simp add: read_value_def read_fields_blank del: read_fields.simps)
qed

lemma read_entry:
  assumes "read_key s = Some (k, '' = '' @ t)" "skip_blanks s = s" "s \<noteq> []" "hd s \<noteq> CHR ''[''"
    and "skip_blanks t = t" "read_value t = Some (v, [])"
  shows "read_line s = Some [Entry k v]"
  using assms expect_equals[of t] by (cases s) (auto simp: read_line_def Let_def starts_with_def)

lemma read_bare_entry:
  assumes "bare_key k" "skip_blanks t = t" "read_value t = Some (v, [])"
  shows "read_line (k @ '' = '' @ t) = Some [Entry k v]"
proof (rule read_entry)
  show "read_key (k @ '' = '' @ t) = Some (k, '' = '' @ t)" using read_key_bare[OF assms(1)] by simp
  show "skip_blanks (k @ '' = '' @ t) = k @ '' = '' @ t" "hd (k @ '' = '' @ t) \<noteq> CHR ''[''" "k @ '' = '' @ t \<noteq> []"
    using assms(1) by (cases k; auto simp: bare_key_def bare_not_blank)+
qed (use assms in auto)

lemma read_value_simple: "read_simple s = Some (v, r) \<Longrightarrow> s \<noteq> [] \<Longrightarrow> hd s \<noteq> CHR ''{'' \<Longrightarrow> read_value s = Some (v, r)"
  by (cases s) (auto simp: read_value_def)

lemma read_head_name:
  "n \<noteq> [] \<Longrightarrow> list_all header_char n \<Longrightarrow> read_header (n @ CHR '']'' # r) = Some (n, CHR '']'' # r)"
  by (simp add: read_header_def takeWhile_append list_all_iff)

lemma read_item:
  assumes "item_ok i"
  shows "read_line (item_text i) = Some (item_meaning i)"
proof (cases i)
  case (Header n)
  with assms have n: "n \<noteq> []" "list_all header_char n" by (simp_all add: item_ok_def)
  then have "\<not> starts_with ''[['' (''['' @ n @ '']'')" by (cases n) (auto simp: starts_with_def)
  moreover have "starts_with ''['' (''['' @ n @ '']'')" "starts_with '']'' '']''" by (simp_all add: starts_with_def)
  ultimately show ?thesis
    using Header read_head_name[OF n, of "[]"] by (simp add: item_text_def item_meaning_def read_line_def is_blank_def Let_def)
next
  case (ArrayHeader n)
  with assms show ?thesis
    by (simp add: item_ok_def item_text_def item_meaning_def read_line_def is_blank_def starts_with_def read_head_name)
next
  case Blank
  then show ?thesis by (simp add: item_text_def item_meaning_def read_line_def)
next
  case (Text k v)
  with assms read_simple_basic[of v "[]"] show ?thesis
    by (auto simp: item_ok_def item_text_def item_meaning_def basic_string_def[of v]
        intro!: read_bare_entry[simplified] read_value_simple)
next
  case (Escaped k v)
  with assms read_simple_escaped[of v] show ?thesis
    by (auto simp: item_ok_def item_text_def item_meaning_def basic_string_def intro!: read_bare_entry[simplified] read_value_simple)
next
  case (LiteralText k v)
  with assms read_simple_literal[of v] show ?thesis
    by (auto simp: item_ok_def item_text_def item_meaning_def literal_quotes_def is_blank_def
        intro!: read_bare_entry[simplified] read_value_simple)
next
  case (Number k v)
  obtain c r where c: "int_to_string v = c # r" "is_ascii_digit c \<or> c = CHR ''-''" using int_text_head by blast
  then have "\<not> is_blank c" "c \<noteq> CHR ''{''" by (auto simp: is_blank_def is_ascii_digit_def)
  with c have "skip_blanks (int_to_string v) = int_to_string v" "hd (int_to_string v) \<noteq> CHR ''{''" "int_to_string v \<noteq> []"
    by simp_all
  with Number assms read_simple_number[of v] show ?thesis
    by (auto simp: item_ok_def item_text_def item_meaning_def intro!: read_bare_entry[simplified] read_value_simple)
next
  case (Flag k b)
  with assms read_simple_bool[of b] show ?thesis
    by (auto simp: item_ok_def item_text_def item_meaning_def print_bool_def is_blank_def
        intro!: read_bare_entry[simplified] read_value_simple split: if_splits)
next
  case (Texts k vs)
  with assms read_simple_array[of vs "[]"] show ?thesis
    by (auto simp: item_ok_def item_text_def item_meaning_def toml_string_array_def is_blank_def
        intro!: read_bare_entry[simplified] read_value_simple)
next
  case (Quoted k v)
  with assms read_simple_basic[of v "[]"] read_key_quoted[of k "'' = '' @ basic_string v"] show ?thesis
    by (auto simp: item_ok_def item_text_def item_meaning_def basic_string_def intro!: read_entry[simplified] read_value_simple)
next
  case (Inline k fs)
  with assms read_value_inline[of fs] show ?thesis
    by (auto simp: item_ok_def item_text_def item_meaning_def is_blank_def intro!: read_bare_entry[simplified])
next
  case (Foreign k v t)
  with assms show ?thesis
    by (auto simp: item_ok_def item_text_def item_meaning_def intro!: read_bare_entry[simplified])
qed

lemma item_text_one_line:
  assumes "item_ok i"
  shows "line_feed \<notin> set (item_text i)"
proof -
  have bare: "bare_key k \<Longrightarrow> line_feed \<notin> set k" for k
    unfolding bare_key_def using char_facts(5) by blast
  have plain: "plain_text v \<Longrightarrow> line_feed \<notin> set v" for v
    unfolding plain_text_def using char_facts(9) by blast
  have clean: "clean_text v \<Longrightarrow> line_feed \<notin> set v" for v
    unfolding clean_text_def using char_facts(9) by blast
  have escape: "line_feed \<notin> set v \<Longrightarrow> line_feed \<notin> set (toml_escape v)" for v by (induction v) auto
  have join: "\<forall>s \<in> set ss. line_feed \<notin> set s \<Longrightarrow> line_feed \<notin> set (join_with '', '' ss)" for ss
    by (induction "'', ''" ss rule: join_with.induct) auto
  have array: "line_feed \<notin> set (toml_string_array vs)" if "list_all plain_text vs" for vs
  proof -
    have "\<forall>s \<in> set (map basic_string vs). line_feed \<notin> set s"
      using that plain by (simp add: basic_string_def list_all_iff)
    from join[OF this] show ?thesis by (simp add: toml_string_array_def)
  qed
  have "inline_ok f \<Longrightarrow> line_feed \<notin> set (print_inline f)" for f
    using bare plain array by (auto simp: inline_ok_def print_inline_def basic_string_def split: inline_value.splits)
  then have inline: "list_all inline_ok fs \<Longrightarrow> line_feed \<notin> set (join_with '', '' (map print_inline fs))" for fs
    using join[of "map print_inline fs"] by (auto simp: list_all_iff)
  have heads: "list_all header_char n \<Longrightarrow> line_feed \<notin> set n" for n
    unfolding list_all_iff using char_facts(7) by blast
  have digits: "line_feed \<notin> set (int_to_string v)" for v
    using nat_to_string_digits[of line_feed] by (auto simp: int_to_string_def is_ascii_digit_def)
  from assms show ?thesis
    by (cases i) (auto simp: item_ok_def item_text_def basic_string_def literal_quotes_def literal_ok_def print_bool_def digits
        dest: bare plain clean escape array inline heads split: if_splits)
qed

theorem read_printed_items:
  assumes "\<forall>i \<in> set is. item_ok i"
  shows "read_toml (print_items is) = Some (concat (map item_meaning is))"
  using assms
proof (induction "is")
  case Nil
  then show ?case by (simp add: read_toml_def print_items_def read_line_def)
next
  case (Cons i "is")
  then have "split_on line_feed (print_items (i # is)) = item_text i # split_on line_feed (print_items is)"
    using item_text_one_line[of i] by (simp add: print_items_def print_item_def split_on_append)
  with Cons show ?case by (simp add: read_toml_def read_item)
qed

end
