(* ===== verification/Broker_Tuning.thy ===== *)
theory Broker_Tuning
  imports Toml Kafka_Resource
begin

text \<open>
  The tuning section of the \<open>Kafka\<close> resource (\<open>BrokerTuning\<close> of \<open>crd/kafka.rs\<close>): the table of its
  fields, which a macro expands into a struct, its validation and its rendering as the \<open>runtime\<close>
  table of the broker file. Parameters stand for the packages that print units and refuse values.
\<close>

section \<open>Fields\<close>

datatype tuning_kind =
    KTime | KTimeNonnegative | KTimeI32 | KTimeI64 | KTimeVoter | KTimeTransactionMax
  | KSizeI32 | KSizeU32 | KSizeUsize | KSizeU64 | KSizeSnapshotFetch
  | KRatioPositive | KRatioUnit | KRefined int | KPlain | KString

definition tuning_fields :: "(tuning_kind \<times> string) list" where
  "tuning_fields = [
    (KTime, ''startup_leader_wait_timeout''), (KTime, ''self_registration_backoff_min''), (KTime, ''self_registration_backoff_max''),
    (KTime, ''observer_poll_interval''), (KTime, ''audit_spool_replay_interval''), (KTime, ''audit_stats_poll_interval''),
    (KTime, ''audit_partition_wait_timeout''), (KTime, ''liveness_tick_interval''), (KTime, ''gauge_poll_interval''), (KTime, ''cleaner_interval''),
    (KTime, ''isr_scan_interval''), (KTime, ''future_log_move_retry_backoff''), (KTime, ''client_metrics_eviction_tick''),
    (KTime, ''client_metrics_stale_floor''), (KTimeI32, ''client_metrics_default_interval''), (KSizeI32, ''client_metrics_telemetry_max''),
    (KTime, ''client_metrics_prom_snapshot_ttl''), (KTime, ''rlmm_reconcile_tick''), (KTime, ''rlmm_bootstrap_backoff_initial''),
    (KTime, ''rlmm_bootstrap_backoff_max''), (KTime, ''connection_creation_throttle_max''), (KTime, ''opa_http_timeout''),
    (KTime, ''oauth_jwks_http_timeout''), (KTime, ''auto_join_retry_backoff''), (KTimeVoter, ''auto_join_voter_request_timeout''),
    (KSizeI32, ''replication_fetch_max''), (KTimeI32, ''replication_fetch_max_wait''), (KSizeI32, ''replication_fetch_min''),
    (KTime, ''replication_throttle_exhausted_backoff''), (KTime, ''replication_send_error_backoff''),
    (KTime, ''replication_unknown_topic_retry_delay''), (KTime, ''replication_epoch_fence_backoff''),
    (KTime, ''replication_unexpected_error_backoff''), (KTime, ''replication_reconnect_initial_delay''),
    (KTime, ''replication_reconnect_delay_cap''), (KTime, ''coordinator_session_expiry_tick''), (KTime, ''coordinator_shutdown_ack_timeout''),
    (KTime, ''consumer_group_session_timeout''), (KTime, ''consumer_group_heartbeat_interval''), (KTime, ''consumer_group_min_session_timeout''),
    (KTime, ''consumer_group_max_session_timeout''), (KTime, ''consumer_group_min_heartbeat_interval''),
    (KTime, ''consumer_group_max_heartbeat_interval''), (KRefined 1, ''consumer_group_max_size''),
    (KTime, ''classic_group_initial_rebalance_delay''), (KTime, ''sync_group_follower_wait''), (KTime, ''unclean_recovery_aggressive_deadline''),
    (KTime, ''unclean_recovery_balanced_deadline''), (KTime, ''operator_recovery_deadline''), (KTime, ''quota_throttle_max''),
    (KRefined 1, ''self_registration_max_attempts''), (KSizeU32, ''observer_fetch_max''), (KRefined 1, ''audit_event_queue_capacity''),
    (KRefined 1, ''audit_tail_window_offsets''), (KSizeUsize, ''audit_tail_read_max''), (KTime, ''offsets_topic_metadata_wait_timeout''),
    (KRefined 1, ''client_metrics_stale_push_intervals''), (KRefined 1, ''client_metrics_otlp_queue_capacity''),
    (KRefined 1, ''coordinator_actor_mailbox_capacity''), (KRefined 1, ''diskless_wal_local_replica_count''),
    (KTime, ''diskless_wal_flush_interval''), (KSizeUsize, ''diskless_wal_flush_max_size''), (KRefined 0, ''diskless_wal_trim_safety_lag''),
    (KTime, ''diskless_wal_index_projection_timeout''), (KRefined 1, ''unclean_recovery_queue_capacity''), (KSizeUsize, ''share_recovery_read_max''),
    (KRefined 1, ''share_session_cache_max_when_unlimited''), (KSizeUsize, ''log_read_buffer_cap''), (KSizeUsize, ''log_timestamp_scan_window''),
    (KSizeU32, ''socket_request_max''), (KSizeUsize, ''sendfile_min''), (KSizeUsize, ''socket_send_buffer''),
    (KSizeUsize, ''socket_receive_buffer''), (KSizeUsize, ''acl_max_principal''), (KSizeUsize, ''acl_max_resource_name''),
    (KRatioPositive, ''telemetry_max_decompression_ratio''), (KSizeUsize, ''telemetry_decompressed_output_floor''),
    (KSizeUsize, ''telemetry_decompressed_output_ceiling''), (KRatioPositive, ''record_decompression_max_ratio''),
    (KSizeU64, ''record_decompression_output_floor''), (KSizeU64, ''record_decompression_output_ceiling''), (KString, ''inter_broker_server_name''),
    (KTimeI64, ''producer_id_expiration''), (KTime, ''producer_id_expiration_scan_interval''), (KRefined 1, ''max_produce_group''),
    (KRefined 1, ''partition_writer_queue_depth''), (KRefined 1, ''default_min_insync_replicas''), (KSizeUsize, ''future_log_move_read_chunk''),
    (KRefined 1, ''share_state_num_partitions''), (KRefined 1, ''share_state_replication_factor''),
    (KRefined 1, ''transaction_state_num_partitions''), (KSizeUsize, ''transaction_recovery_read_max''),
    (KRefined 1, ''transaction_state_replication_factor''), (KTimeI32, ''transaction_min_timeout''),
    (KTimeTransactionMax, ''transaction_max_timeout''), (KTimeNonnegative, ''partition_disk_scan_interval''), (KPlain, ''observer_lag_bound''),
    (KTime, ''heartbeat_interval''), (KTime, ''heartbeat_timeout''), (KTime, ''replica_lag_time_max''), (KTime, ''controller_election_timeout''),
    (KTime, ''controller_heartbeat_interval''), (KRefined 1, ''controller_fetch_miss_limit''),
    (KRefined 1, ''metadata_raft_command_queue_capacity''), (KSizeI32, ''metadata_raft_fetch_max''), (KTime, ''controlled_shutdown_drain_timeout''),
    (KSizeU64, ''metadata_max_between_snapshots''), (KTimeNonnegative, ''metadata_max_snapshot_interval''),
    (KRefined 1, ''metadata_snapshot_interval_records''), (KSizeSnapshotFetch, ''metadata_snapshot_fetch_max''),
    (KTimeNonnegative, ''txn_abort_cleanup_interval''), (KTime, ''leader_imbalance_check_interval''), (KRatioUnit, ''leader_imbalance_per_broker''),
    (KTimeNonnegative, ''tls_reload_interval''), (KPlain, ''max_incremental_fetch_session_cache_slots''), (KPlain, ''max_connections''),
    (KPlain, ''max_connections_per_ip''), (KTimeI64, ''delegation_token_max_lifetime''), (KTimeI64, ''delegation_token_expiry_check_interval''),
    (KTimeI64, ''delegation_token_default_renew_period''), (KTime, ''remote_log_manager_interval''), (KPlain, ''share_group_enable''),
    (KTime, ''share_group_session_timeout''), (KTime, ''share_group_heartbeat_interval''), (KRefined 1, ''share_group_max_size''),
    (KTime, ''share_group_record_lock_duration''), (KRefined 1, ''share_group_max_delivery_attempts''),
    (KRefined 1, ''share_group_max_inflight_records''), (KString, ''share_group_isolation_level''), (KPlain, ''streams_group_enable''),
    (KTime, ''streams_group_session_timeout''), (KTime, ''streams_group_heartbeat_interval''), (KRefined 1, ''streams_group_max_size''),
    (KRefined 1, ''streams_internal_topic_replication_factor''), (KRefined 0, ''streams_group_num_standby_replicas''),
    (KRefined 0, ''streams_group_num_warmup_replicas''), (KRefined 0, ''streams_group_acceptable_recovery_lag''),
    (KTime, ''streams_group_task_offset_interval''), (KString, ''streams_group_assignor'')]"

record tuning_env =
  tu_refined_error :: "int \<Rightarrow> int \<Rightarrow> string"
  tu_empty_error :: string
  tu_snapshot_fetch :: "rat \<Rightarrow> string option"
  tu_decompression :: "rat \<Rightarrow> rat \<Rightarrow> rat \<Rightarrow> string option"
  tu_default_ratio :: rat
  tu_default_floor :: rat
  tu_default_ceiling :: rat
  tu_human :: "tuning_value \<Rightarrow> string"
  tu_toml_text :: "string \<Rightarrow> string"

section \<open>Validation of a field\<close>

definition capitalize :: "string \<Rightarrow> string" where
  "capitalize s = (case s of [] \<Rightarrow> [] | c # r \<Rightarrow> (if is_ascii_lower c then char_of ((of_char c :: nat) - 32) else c) # r)"

definition camel_case :: "string \<Rightarrow> string" where
  "camel_case field = (case split_on (CHR ''_'') field of [] \<Rightarrow> [] | p # ps \<Rightarrow> p @ concat (map capitalize ps))"

definition tuning_path :: "string \<Rightarrow> string" where
  "tuning_path field = ''spec.brokerTuning.'' @ camel_case field"

definition tuning_invalid :: "string \<Rightarrow> string \<Rightarrow> string" where
  "tuning_invalid field error = tuning_path field @ '': '' @ error"

definition invalid_relation :: "string \<Rightarrow> string \<Rightarrow> string \<Rightarrow> string" where
  "invalid_relation left right message = tuning_path left @ '' and '' @ tuning_path right @ '': '' @ message"

definition whole :: "rat \<Rightarrow> bool" where
  "whole v \<longleftrightarrow> of_int \<lfloor>v\<rfloor> = v"

definition validate_nonnegative_tuning_time :: "string \<Rightarrow> rat \<Rightarrow> string + unit" where
  "validate_nonnegative_tuning_time field v = require (v \<ge> 0) (tuning_invalid field ''must be finite and nonnegative'')"

definition validate_positive_tuning_time :: "string \<Rightarrow> rat \<Rightarrow> string + unit" where
  "validate_positive_tuning_time field v =
     bind_result (validate_nonnegative_tuning_time field v) (\<lambda>_. require (v > 0) (tuning_invalid field ''must be positive''))"

text \<open>\<open>millis_i64\<close> truncates and saturates, so a value beyond 64 bits is not a whole number of milliseconds.\<close>

definition validate_whole_millis_tuning_time :: "string \<Rightarrow> rat \<Rightarrow> string + unit" where
  "validate_whole_millis_tuning_time field v =
     bind_result (validate_positive_tuning_time field v) (\<lambda>_.
       require (whole v \<and> v < 2 ^ 63) (tuning_invalid field ''must be a whole number of milliseconds''))"

definition validate_bounded_tuning_time :: "string \<Rightarrow> rat \<Rightarrow> int \<Rightarrow> string + unit" where
  "validate_bounded_tuning_time field v max_ms =
     bind_result (validate_whole_millis_tuning_time field v) (\<lambda>_.
       require (\<lfloor>v\<rfloor> \<le> max_ms) (tuning_invalid field (''must be at most '' @ int_to_string max_ms @ ''ms'')))"

definition validate_tuning_size :: "string \<Rightarrow> rat \<Rightarrow> int \<Rightarrow> string + unit" where
  "validate_tuning_size field v limit =
     bind_result (require (v > 0 \<and> whole v \<and> v < 2 ^ 64) (tuning_invalid field ''must be a positive whole number of bytes'')) (\<lambda>_.
       require (\<lfloor>v\<rfloor> \<le> limit) (tuning_invalid field (''must be at most '' @ int_to_string limit @ '' bytes'')))"

definition validate_positive_tuning_ratio :: "string \<Rightarrow> rat \<Rightarrow> string + unit" where
  "validate_positive_tuning_ratio field v = require (v > 0) (tuning_invalid field ''must be finite and positive'')"

definition validate_unit_interval_tuning_ratio :: "string \<Rightarrow> rat \<Rightarrow> string + unit" where
  "validate_unit_interval_tuning_ratio field v = require (0 \<le> v \<and> v \<le> 1) (tuning_invalid field ''must be between 0% and 100%'')"

definition refuse :: "string \<Rightarrow> string option \<Rightarrow> string + unit" where
  "refuse field e = (case e of None \<Rightarrow> Inr () | Some why \<Rightarrow> Inl (tuning_invalid field why))"

definition validate_tuning_field :: "tuning_env \<Rightarrow> tuning_kind \<Rightarrow> string \<Rightarrow> tuning_value \<Rightarrow> string + unit" where
  "validate_tuning_field env kind field value =
     (case (kind, value) of
        (KRefined least, TuneInt v) \<Rightarrow> refuse field (if v \<ge> least then None else Some (tu_refined_error env least v))
      | (KTime, TuneTime v) \<Rightarrow> validate_positive_tuning_time field v
      | (KTimeNonnegative, TuneTime v) \<Rightarrow> validate_nonnegative_tuning_time field v
      | (KTimeVoter, TuneTime v) \<Rightarrow> validate_bounded_tuning_time field v (2 ^ 31 - 1)
      | (KTimeTransactionMax, TuneTime v) \<Rightarrow> validate_bounded_tuning_time field v (2 ^ 31 - 2)
      | (KTimeI32, TuneTime v) \<Rightarrow> validate_bounded_tuning_time field v (2 ^ 31 - 1)
      | (KTimeI64, TuneTime v) \<Rightarrow> validate_whole_millis_tuning_time field v
      | (KSizeI32, TuneSize v) \<Rightarrow> validate_tuning_size field v (2 ^ 31 - 1)
      | (KSizeU32, TuneSize v) \<Rightarrow> validate_tuning_size field v (2 ^ 32 - 1)
      | (KSizeUsize, TuneSize v) \<Rightarrow> validate_tuning_size field v (2 ^ 64 - 1)
      | (KSizeU64, TuneSize v) \<Rightarrow> validate_tuning_size field v (2 ^ 64 - 1)
      | (KSizeSnapshotFetch, TuneSize v) \<Rightarrow> refuse field (tu_snapshot_fetch env v)
      | (KRatioPositive, TuneRatio v) \<Rightarrow> validate_positive_tuning_ratio field v
      | (KRatioUnit, TuneRatio v) \<Rightarrow> validate_unit_interval_tuning_ratio field v
      | _ \<Rightarrow> Inr ())"

definition validate_tuning_strings :: "tuning_env \<Rightarrow> broker_tuning \<Rightarrow> string + unit" where
  "validate_tuning_strings env t =
     bind_result (require (bm_get t ''inter_broker_server_name'' \<noteq> Some (TuneString []))
         (tuning_invalid ''inter_broker_server_name'' (tu_empty_error env))) (\<lambda>_.
       bind_result (case bm_get t ''share_group_isolation_level'' of
           Some (TuneString v) \<Rightarrow> require (v \<in> {''read-uncommitted'', ''read-committed''})
             (tuning_invalid ''share_group_isolation_level'' ''expected `read-uncommitted` or `read-committed`'')
         | _ \<Rightarrow> Inr ()) (\<lambda>_.
       case bm_get t ''streams_group_assignor'' of
           Some (TuneString v) \<Rightarrow> require (v \<in> {''auto'', ''sticky'', ''highly-available''})
             (tuning_invalid ''streams_group_assignor'' ''expected `auto`, `sticky`, or `highly-available`'')
         | _ \<Rightarrow> Inr ()))"

section \<open>Relations between fields\<close>

definition tuned :: "broker_tuning \<Rightarrow> string \<Rightarrow> rat \<Rightarrow> rat" where
  "tuned t field fallback =
     (case bm_get t field of Some (TuneTime v) \<Rightarrow> v | Some (TuneSize v) \<Rightarrow> v | Some (TuneRatio v) \<Rightarrow> v | _ \<Rightarrow> fallback)"

datatype tuning_relation =
    AtMost string rat string rat
  | Below string rat string rat
  | Within string rat string rat string rat
  | InRange string rat rat rat string

definition relation_holds :: "broker_tuning \<Rightarrow> tuning_relation \<Rightarrow> bool" where
  "relation_holds t r =
     (case r of
        AtMost a da b db \<Rightarrow> tuned t a da \<le> tuned t b db
      | Below a da b db \<Rightarrow> tuned t a da < tuned t b db
      | Within v dv lo dlo hi dhi \<Rightarrow> tuned t lo dlo \<le> tuned t v dv \<and> tuned t v dv \<le> tuned t hi dhi
      | InRange v dv lo hi _ \<Rightarrow> lo \<le> tuned t v dv \<and> tuned t v dv \<le> hi)"

definition relation_error :: "tuning_relation \<Rightarrow> string" where
  "relation_error r =
     (case r of
        AtMost a _ b _ \<Rightarrow> invalid_relation a b ''minimum or initial value exceeds maximum''
      | Below a _ b _ \<Rightarrow> invalid_relation a b ''left value must be below right value''
      | Within v _ lo _ hi _ \<Rightarrow> tuning_path v @ '' must be within '' @ tuning_path lo @ '' and '' @ tuning_path hi
      | InRange v _ _ _ bounds \<Rightarrow> tuning_invalid v (''must be within '' @ bounds))"

definition first_relations :: "tuning_relation list" where
  "first_relations = [
    AtMost ''self_registration_backoff_min'' 100 ''self_registration_backoff_max'' 5000,
    AtMost ''rlmm_bootstrap_backoff_initial'' 250 ''rlmm_bootstrap_backoff_max'' 10000,
    AtMost ''replication_fetch_min'' 1 ''replication_fetch_max'' 1048576,
    AtMost ''replication_reconnect_initial_delay'' 100 ''replication_reconnect_delay_cap'' 5000,
    Below ''heartbeat_interval'' 3000 ''heartbeat_timeout'' 9000,
    Below ''controller_heartbeat_interval'' 500 ''controller_election_timeout'' 5000,
    AtMost ''delegation_token_default_renew_period'' 86400000 ''delegation_token_max_lifetime'' 604800000,
    AtMost ''client_metrics_eviction_tick'' 60000 ''client_metrics_stale_floor'' 600000,
    AtMost ''unclean_recovery_aggressive_deadline'' 2000 ''unclean_recovery_balanced_deadline'' 30000,
    AtMost ''telemetry_decompressed_output_floor'' 16777216 ''telemetry_decompressed_output_ceiling'' 1073741824]"

definition last_relations :: "tuning_relation list" where
  "last_relations = [
    Below ''transaction_min_timeout'' 1000 ''transaction_max_timeout'' 900000,
    AtMost ''consumer_group_min_session_timeout'' 45000 ''consumer_group_max_session_timeout'' 60000,
    Within ''consumer_group_session_timeout'' 45000 ''consumer_group_min_session_timeout'' 45000 ''consumer_group_max_session_timeout'' 60000,
    AtMost ''consumer_group_min_heartbeat_interval'' 5000 ''consumer_group_max_heartbeat_interval'' 15000,
    Within ''consumer_group_heartbeat_interval'' 5000 ''consumer_group_min_heartbeat_interval'' 5000
      ''consumer_group_max_heartbeat_interval'' 15000,
    InRange ''share_group_session_timeout'' 45000 45000 60000 ''45000..=60000'',
    InRange ''share_group_heartbeat_interval'' 5000 5000 15000 ''5000..=15000'',
    InRange ''streams_group_session_timeout'' 45000 45000 60000 ''45000..=60000'',
    InRange ''streams_group_heartbeat_interval'' 5000 5000 15000 ''5000..=15000'']"

definition check_relation :: "broker_tuning \<Rightarrow> tuning_relation \<Rightarrow> string + unit" where
  "check_relation t r = require (relation_holds t r) (relation_error r)"

definition validate_record_decompression :: "tuning_env \<Rightarrow> broker_tuning \<Rightarrow> string + unit" where
  "validate_record_decompression env t =
     (case tu_decompression env (tuned t ''record_decompression_max_ratio'' (tu_default_ratio env))
          (tuned t ''record_decompression_output_floor'' (tu_default_floor env))
          (tuned t ''record_decompression_output_ceiling'' (tu_default_ceiling env)) of
        None \<Rightarrow> Inr ()
      | Some error \<Rightarrow> Inl (tuning_path ''record_decompression_max_ratio'' @ '', '' @ tuning_path ''record_decompression_output_floor''
          @ '', and '' @ tuning_path ''record_decompression_output_ceiling'' @ '': '' @ error))"

definition validate_relations :: "tuning_env \<Rightarrow> broker_tuning \<Rightarrow> string + unit" where
  "validate_relations env t =
     bind_result (each_ok (check_relation t) first_relations) (\<lambda>_.
       bind_result (validate_record_decompression env t) (\<lambda>_. each_ok (check_relation t) last_relations))"

definition validate_broker_tuning :: "tuning_env \<Rightarrow> broker_tuning \<Rightarrow> string + unit" where
  "validate_broker_tuning env t =
     bind_result (each_ok (\<lambda>(kind, field). case bm_get t field of None \<Rightarrow> Inr () | Some v \<Rightarrow> validate_tuning_field env kind field v)
         tuning_fields) (\<lambda>_.
       bind_result (validate_tuning_strings env t) (\<lambda>_. validate_relations env t))"

section \<open>Rendering\<close>

definition render_tuning_value :: "tuning_env \<Rightarrow> string \<Rightarrow> tuning_value \<Rightarrow> toml_item" where
  "render_tuning_value env field v =
     (case v of
        TuneInt n \<Rightarrow> Number field n
      | TuneBool b \<Rightarrow> Flag field b
      | TuneString s \<Rightarrow> Foreign field s (tu_toml_text env s)
      | _ \<Rightarrow> Foreign field (tu_human env v) (tu_toml_text env (tu_human env v)))"

definition render_runtime_toml :: "tuning_env \<Rightarrow> broker_tuning \<Rightarrow> toml_item list" where
  "render_runtime_toml env t =
     (let values = List.map_filter (\<lambda>(_, field). map_option (render_tuning_value env field) (bm_get t field)) tuning_fields
      in if values = [] then [] else [Header ''runtime''] @ values @ [Blank])"

section \<open>The table of fields\<close>

lemma tuning_names_distinct: "distinct (map snd tuning_fields)"
  by (simp only: tuning_fields_def list.map snd_conv distinct.simps list.set insert_iff empty_iff list.inject list.distinct
      char.inject simp_thms)

definition name_chars :: string where
  "name_chars = ''etnasiroclpumdgyhbfqvkzwxj_0123456789''"

lemma name_chars_bare: "list_all bare_char name_chars"
  by code_simp

lemma tuning_names_chars: "list_all (\<lambda>k. k \<noteq> [] \<and> list_all (\<lambda>c. c \<in> set name_chars) k) (map snd tuning_fields)"
  by code_simp

lemma tuning_names_bare: "(kind, field) \<in> set tuning_fields \<Longrightarrow> bare_key field"
  using tuning_names_chars name_chars_bare unfolding list_all_iff bare_key_def by force

end
