(* ===== verification/Listener_Objects.thy ===== *)
theory Listener_Objects
  imports Workloads Broker_Keystore
begin

text \<open>
  The Kubernetes objects behind listeners: Services, Ingresses and Routes
  (\<open>controller/listeners.rs\<close>, \<open>controller/common.rs\<close>), the addresses that brokers
  advertise to clients, and the names that their certificates carry
  (\<open>controller/kafka.rs\<close>). The parser of IP addresses is a parameter.
\<close>

section \<open>Services, Ingresses and Routes\<close>

record service_port =
  svp_name :: string
  svp_port :: int
  svp_target :: string
  svp_node_port :: "int option"

record lb_entry =
  lbe_hostname :: "string option"
  lbe_ip :: "string option"

record service =
  svc_meta :: object_meta
  svc_type :: "string option"
  svc_cluster_ip :: "string option"
  svc_publish_not_ready :: bool
  svc_selector :: "(string, string) bmap"
  svc_ports :: "service_port list"
  svc_load_balancer_ip :: "string option"
  svc_lb_ingress :: "lb_entry list option"

record ingress =
  ing_meta :: object_meta
  ing_class :: "string option"
  ing_host :: string
  ing_backend :: "string \<times> int"

record route =
  rt_meta :: object_meta
  rt_host :: string
  rt_target_port :: int
  rt_service :: string

definition CONTROLLER_PORT :: int where
  "CONTROLLER_PORT = 9093"

definition BROKER_PORT :: int where
  "BROKER_PORT = 9092"

definition METRICS_PORT :: int where
  "METRICS_PORT = 9404"

definition INGRESS_PORT :: int where
  "INGRESS_PORT = 443"

text \<open>Metadata of an owned object in the namespace of its owner.\<close>

definition owned_meta :: "object_meta \<Rightarrow> string \<Rightarrow> (string, string) bmap \<Rightarrow> owner_reference \<Rightarrow> object_meta" where
  "owned_meta parent name labels owner = (plain_meta name)\<lparr>meta_namespace := meta_namespace parent,
     meta_labels := Some labels, meta_owner_references := [owner]\<rparr>"

definition cluster_selector :: "string \<Rightarrow> (string, string) bmap" where
  "cluster_selector name = bm_collect [(''app.kubernetes.io/name'', APP_LABEL), (''app.kubernetes.io/instance'', name)]"

definition plain_port :: "string \<Rightarrow> int \<Rightarrow> service_port" where
  "plain_port name port = \<lparr>svp_name = name, svp_port = port, svp_target = int_to_string port, svp_node_port = None\<rparr>"

definition render_service :: "kafka \<Rightarrow> reconcile_error + service" where
  "render_service k =
     (let name = kafka_name k; operator = operator_listener (base_listeners k)
      in bind_result (owner_of_kafka k) (\<lambda>owner.
        Inr \<lparr>svc_meta = owned_meta (kf_meta k) (name @ ''-broker-headless'')
               (common_labels name (kspec_kafka_version (kf_spec k)) None) owner,
             svc_type = None, svc_cluster_ip = Some ''None'', svc_publish_not_ready = True,
             svc_selector = cluster_selector name,
             svc_ports = [plain_port ''operator-admin'' (ls_port operator), plain_port ''kafka-internal'' BROKER_PORT,
                plain_port ''controller'' CONTROLLER_PORT],
             svc_load_balancer_ip = None, svc_lb_ingress = None\<rparr>))"

definition render_controller_bootstrap_service :: "kafka \<Rightarrow> reconcile_error + service" where
  "render_controller_bootstrap_service k =
     (let name = kafka_name k
      in bind_result (owner_of_kafka k) (\<lambda>owner.
        Inr \<lparr>svc_meta = owned_meta (kf_meta k) (name @ ''-controller-bootstrap'')
               (common_labels name (kspec_kafka_version (kf_spec k)) None) owner,
             svc_type = None, svc_cluster_ip = None, svc_publish_not_ready = False,
             svc_selector = bm_insert ''krabka.io/controller-role'' ''true'' (cluster_selector name),
             svc_ports = [plain_port ''controller'' CONTROLLER_PORT],
             svc_load_balancer_ip = None, svc_lb_ingress = None\<rparr>))"

definition override_for :: "listener \<Rightarrow> int \<Rightarrow> broker_override option" where
  "override_for l broker = Option.bind (ls_configuration l) (\<lambda>c. find (\<lambda>o'. bo_broker o' = broker) (lc_brokers c))"

definition bootstrap_of :: "listener \<Rightarrow> bootstrap_config option" where
  "bootstrap_of l = Option.bind (ls_configuration l) lc_bootstrap"

definition external_service_type :: "listener \<Rightarrow> reconcile_error + string" where
  "external_service_type l =
     (case ls_type l of
        Nodeport \<Rightarrow> Inr ''NodePort''
      | Loadbalancer \<Rightarrow> Inr ''LoadBalancer''
      | Ingress \<Rightarrow> Inr ''ClusterIP''
      | Route \<Rightarrow> Inr ''ClusterIP''
      | Internal \<Rightarrow> Inl (Panic ''service rendered for an internal listener''))"

definition listener_labels :: "string \<Rightarrow> listener \<Rightarrow> (string, string) bmap" where
  "listener_labels name l = bm_insert ''krabka.io/listener'' (ls_name l) (cluster_selector name)"

definition broker_object_name :: "string \<Rightarrow> listener \<Rightarrow> int \<Rightarrow> string" where
  "broker_object_name cluster l broker = cluster @ ''-'' @ ls_name l @ ''-'' @ int_to_string broker"

definition bootstrap_object_name :: "string \<Rightarrow> listener \<Rightarrow> string" where
  "bootstrap_object_name cluster l = cluster @ ''-'' @ ls_name l @ ''-bootstrap''"

definition render_broker_service :: "kafka \<Rightarrow> listener \<Rightarrow> int \<Rightarrow> string \<Rightarrow> reconcile_error + service" where
  "render_broker_service k l broker pod =
     (let name = kafka_name k
      in bind_result (external_service_type l) (\<lambda>ty.
         bind_result (owner_of_kafka k) (\<lambda>owner.
           Inr \<lparr>svc_meta = owned_meta (kf_meta k) (broker_object_name name l broker)
                  (bm_insert ''krabka.io/broker'' (int_to_string broker) (listener_labels name l)) owner,
                svc_type = Some ty, svc_cluster_ip = None, svc_publish_not_ready = False,
                svc_selector = [(''statefulset.kubernetes.io/pod-name'', pod)],
                svc_ports = [(plain_port (ls_name l) (ls_port l))\<lparr>svp_node_port := Option.bind (override_for l broker) bo_node_port\<rparr>],
                svc_load_balancer_ip = Option.bind (override_for l broker) bo_load_balancer_ip, svc_lb_ingress = None\<rparr>)))"

definition render_bootstrap_service :: "kafka \<Rightarrow> listener \<Rightarrow> reconcile_error + service" where
  "render_bootstrap_service k l =
     (let name = kafka_name k; b = bootstrap_of l;
          labels = bm_insert ''krabka.io/role'' ''bootstrap'' (listener_labels name l);
          annotations = (case b of None \<Rightarrow> [] | Some c \<Rightarrow> bm_collect (bc_annotations c))
      in bind_result (external_service_type l) (\<lambda>ty.
         bind_result (owner_of_kafka k) (\<lambda>owner.
           Inr \<lparr>svc_meta = (owned_meta (kf_meta k) (bootstrap_object_name name l)
                    (case b of None \<Rightarrow> labels | Some c \<Rightarrow> insert_absent (bc_labels c) labels) owner)
                  \<lparr>meta_annotations := (if annotations = [] then None else Some annotations)\<rparr>,
                svc_type = Some ty, svc_cluster_ip = None, svc_publish_not_ready = False,
                svc_selector = bm_insert ''krabka.io/broker-role'' ''true'' (cluster_selector name),
                svc_ports = [(plain_port (ls_name l) (ls_port l))\<lparr>svp_node_port := Option.bind b bc_node_port\<rparr>],
                svc_load_balancer_ip = Option.bind b bc_load_balancer_ip, svc_lb_ingress = None\<rparr>)))"

definition ingress_broker_host :: "listener \<Rightarrow> int \<Rightarrow> string option" where
  "ingress_broker_host l broker = Option.bind (override_for l broker) (\<lambda>o'. or_else (bo_advertised_host o') (bo_host o'))"

definition ingress_bootstrap_host :: "listener \<Rightarrow> string option" where
  "ingress_bootstrap_host l = bootstrap_host l"

definition SSL_PASSTHROUGH_ANNOTATION :: string where
  "SSL_PASSTHROUGH_ANNOTATION = ''nginx.ingress.kubernetes.io/ssl-passthrough''"

definition build_ingress ::
  "kafka \<Rightarrow> listener \<Rightarrow> string \<Rightarrow> string \<Rightarrow> string \<Rightarrow> (string, string) bmap \<Rightarrow> (string, string) bmap \<Rightarrow> reconcile_error + ingress" where
  "build_ingress k l name host service labels extra =
     bind_result (owner_of_kafka k) (\<lambda>owner.
       Inr \<lparr>ing_meta = (owned_meta (kf_meta k) name (insert_absent [(''app.kubernetes.io/name'', APP_LABEL)] labels) owner)
              \<lparr>meta_annotations := Some (foldl (\<lambda>m (a, v). bm_insert a v m) [(SSL_PASSTHROUGH_ANNOTATION, ''true'')] extra)\<rparr>,
            ing_class = Option.bind (ls_configuration l) lc_ingress_class,
            ing_host = host, ing_backend = (service, ls_port l)\<rparr>)"

definition render_broker_ingress :: "kafka \<Rightarrow> listener \<Rightarrow> int \<Rightarrow> string \<Rightarrow> reconcile_error + ingress" where
  "render_broker_ingress k l broker host =
     (let name = broker_object_name (kafka_name k) l broker
      in build_ingress k l name host name
           (bm_insert ''krabka.io/broker'' (int_to_string broker) (listener_labels (kafka_name k) l)) [])"

definition render_bootstrap_ingress :: "kafka \<Rightarrow> listener \<Rightarrow> string \<Rightarrow> reconcile_error + ingress" where
  "render_bootstrap_ingress k l host =
     (let name = bootstrap_object_name (kafka_name k) l
      in build_ingress k l name host name
           (bm_insert ''krabka.io/role'' ''bootstrap'' (listener_labels (kafka_name k) l))
           (case bootstrap_of l of None \<Rightarrow> [] | Some c \<Rightarrow> bc_annotations c))"

definition build_route :: "kafka \<Rightarrow> listener \<Rightarrow> string \<Rightarrow> string \<Rightarrow> (string, string) bmap \<Rightarrow> reconcile_error + route" where
  "build_route k l name host labels =
     bind_result (owner_of_kafka k) (\<lambda>owner.
       Inr \<lparr>rt_meta = owned_meta (kf_meta k) name (insert_absent [(''app.kubernetes.io/name'', APP_LABEL)] labels) owner,
            rt_host = host, rt_target_port = ls_port l, rt_service = name\<rparr>)"

definition render_broker_route :: "kafka \<Rightarrow> listener \<Rightarrow> int \<Rightarrow> string \<Rightarrow> reconcile_error + route" where
  "render_broker_route k l broker host =
     build_route k l (broker_object_name (kafka_name k) l broker) host
       (bm_insert ''krabka.io/broker'' (int_to_string broker) (listener_labels (kafka_name k) l))"

definition render_bootstrap_route :: "kafka \<Rightarrow> listener \<Rightarrow> string \<Rightarrow> reconcile_error + route" where
  "render_bootstrap_route k l host =
     build_route k l (bootstrap_object_name (kafka_name k) l) host
       (bm_insert ''krabka.io/role'' ''bootstrap'' (listener_labels (kafka_name k) l))"

section \<open>Nodes of a cluster\<close>

record node_info =
  ni_broker_id :: int
  ni_pod_name :: string
  ni_pod_fqdn :: string
  ni_roles :: "node_role list"

definition is_broker :: "node_info \<Rightarrow> bool" where
  "is_broker n \<longleftrightarrow> Broker \<in> set (ni_roles n)"

definition pool_nodes :: "string \<Rightarrow> string \<Rightarrow> node_pool \<Rightarrow> node_info list" where
  "pool_nodes cluster namespace pool =
     (let replicas = max (unwrap_or 0 (Option.bind (knp_status pool) nps_replicas)) (np_replicas (knp_spec pool))
      in List.map_filter (\<lambda>ordinal.
           map_option (\<lambda>broker.
             let pod = cluster @ ''-'' @ pool_name pool @ ''-'' @ int_to_string ordinal
             in \<lparr>ni_broker_id = broker, ni_pod_name = pod,
                 ni_pod_fqdn = pod @ ''.'' @ cluster @ ''-broker-headless.'' @ namespace @ ''.svc.cluster.local'',
                 ni_roles = np_roles (knp_spec pool)\<rparr>)
             (checked_i32 (np_node_id_start (knp_spec pool) + ordinal)))
           [0..replicas - 1])"

definition enumerate_nodes :: "string \<Rightarrow> string \<Rightarrow> node_pool list \<Rightarrow> node_info list" where
  "enumerate_nodes cluster namespace pools = concat (map (pool_nodes cluster namespace) (sort_key pool_name pools))"

record node_inventory =
  inv_all :: "node_info list"
  inv_brokers :: "node_info list"
  inv_roles :: "(int, node_role list) bmap"
  inv_broker_ids :: "int list"

definition inventory_nodes :: "string \<Rightarrow> string \<Rightarrow> node_pool list \<Rightarrow> node_inventory" where
  "inventory_nodes cluster namespace pools =
     (let all = enumerate_nodes cluster namespace pools; brokers = filter is_broker all
      in \<lparr>inv_all = all, inv_brokers = brokers, inv_roles = bm_collect (map (\<lambda>n. (ni_broker_id n, ni_roles n)) all),
          inv_broker_ids = map ni_broker_id brokers\<rparr>)"

section \<open>Advertised addresses\<close>

record kube_node =
  kn_name :: string
  kn_addresses :: "(string \<times> string) list option"

record advertised_address =
  aa_host :: string
  aa_port :: int

datatype advertised_error =
    PodNotScheduled int
  | NodeNotFound int string
  | NodeHasNoAddress int string
  | ServiceMissing int string
  | NodePortNotAllocated int
  | LoadBalancerPending int string
  | IngressBrokerHostMissing int string

definition advertised_message :: "advertised_error \<Rightarrow> string" where
  "advertised_message e =
     (case e of
        PodNotScheduled b \<Rightarrow> ''pod for broker '' @ int_to_string b @ '' not yet scheduled''
      | NodeNotFound b n \<Rightarrow> ''node '' @ n @ '' for broker '' @ int_to_string b @ '' not visible''
      | NodeHasNoAddress b n \<Rightarrow> ''node '' @ n @ '' for broker '' @ int_to_string b @ '' has no addresses''
      | ServiceMissing b s \<Rightarrow> ''service '' @ s @ '' for broker '' @ int_to_string b @ '' missing''
      | NodePortNotAllocated b \<Rightarrow> ''nodePort for broker '' @ int_to_string b @ '' not allocated yet''
      | LoadBalancerPending b s \<Rightarrow>
          ''loadBalancer for service '' @ s @ '' (broker '' @ int_to_string b @ '') not provisioned''
      | IngressBrokerHostMissing b l \<Rightarrow>
          ''listener '' @ quote_name l @ '' broker '' @ int_to_string b
          @ '' has no configuration.brokers[].host (or advertisedHost); ingress/route listeners require a hostname per broker'')"

text \<open>The external address of a node, or else its internal one.\<close>

definition node_address :: "kube_node \<Rightarrow> string option" where
  "node_address n = Option.bind (kn_addresses n) (\<lambda>a.
     map_option snd (or_else (find (\<lambda>x. fst x = ''ExternalIP'') a) (find (\<lambda>x. fst x = ''InternalIP'') a)))"

definition nodeport_host ::
  "broker_override option \<Rightarrow> int \<Rightarrow> string option \<Rightarrow> kube_node list \<Rightarrow> advertised_error + string" where
  "nodeport_host ov broker pod_node nodes =
     (case Option.bind ov bo_advertised_host of
        Some h \<Rightarrow> Inr h
      | None \<Rightarrow>
          bind_result (ok_or (PodNotScheduled broker) pod_node) (\<lambda>node_name.
          bind_result (ok_or (NodeNotFound broker node_name) (find (\<lambda>n. kn_name n = node_name) nodes)) (\<lambda>node.
            ok_or (NodeHasNoAddress broker node_name) (node_address node))))"

definition nodeport_port :: "broker_override option \<Rightarrow> int \<Rightarrow> service option \<Rightarrow> advertised_error + int" where
  "nodeport_port ov broker svc =
     (case or_else (Option.bind ov bo_advertised_port) (Option.bind ov bo_node_port) of
        Some p \<Rightarrow> Inr p
      | None \<Rightarrow>
          bind_result (ok_or (ServiceMissing broker []) svc) (\<lambda>s.
            ok_or (NodePortNotAllocated broker) (case svc_ports s of [] \<Rightarrow> None | p # _ \<Rightarrow> svp_node_port p)))"

definition loadbalancer_host :: "broker_override option \<Rightarrow> int \<Rightarrow> service option \<Rightarrow> advertised_error + string" where
  "loadbalancer_host ov broker svc =
     (case Option.bind ov bo_advertised_host of
        Some h \<Rightarrow> Inr h
      | None \<Rightarrow>
          bind_result (ok_or (ServiceMissing broker []) svc) (\<lambda>s.
          bind_result (ok_or (LoadBalancerPending broker (meta_name (svc_meta s)))
              (case svc_lb_ingress s of Some (e # _) \<Rightarrow> Some e | _ \<Rightarrow> None)) (\<lambda>e.
            ok_or (LoadBalancerPending broker (meta_name (svc_meta s))) (or_else (lbe_hostname e) (lbe_ip e)))))"

definition compute_advertised ::
  "listener \<Rightarrow> int \<Rightarrow> string \<Rightarrow> string option \<Rightarrow> kube_node list \<Rightarrow> service option \<Rightarrow> advertised_error + advertised_address" where
  "compute_advertised l broker pod_fqdn pod_node nodes svc =
     (let ov = override_for l broker
      in case ls_type l of
           Internal \<Rightarrow> Inr \<lparr>aa_host = pod_fqdn, aa_port = ls_port l\<rparr>
         | Nodeport \<Rightarrow>
             bind_result (nodeport_host ov broker pod_node nodes) (\<lambda>host.
             bind_result (nodeport_port ov broker svc) (\<lambda>port. Inr \<lparr>aa_host = host, aa_port = port\<rparr>))
         | Loadbalancer \<Rightarrow>
             bind_result (loadbalancer_host ov broker svc) (\<lambda>host.
               Inr \<lparr>aa_host = host, aa_port = unwrap_or (ls_port l) (Option.bind ov bo_advertised_port)\<rparr>)
         | _ \<Rightarrow>
             bind_result (ok_or (IngressBrokerHostMissing broker (ls_name l)) (ingress_broker_host l broker)) (\<lambda>host.
               Inr \<lparr>aa_host = host, aa_port = unwrap_or INGRESS_PORT (Option.bind ov bo_advertised_port)\<rparr>))"

text \<open>The Services that were read back, by the name of their listener and broker.\<close>

record external_state =
  xs_nodes :: "kube_node list"
  xs_pods :: "pod list"
  xs_bootstrap_services :: "(string \<times> service) list"
  xs_broker_services :: "((string \<times> int) \<times> service) list"

definition pod_node_name :: "pod list \<Rightarrow> string \<Rightarrow> string option" where
  "pod_node_name pods name = Option.bind (find (\<lambda>p. meta_name (pod_meta p) = name) pods)
     (\<lambda>p. Option.bind (pod_spec p) ps_node_name)"

fun node_addresses ::
  "external_state \<Rightarrow> node_info \<Rightarrow> (string, advertised_address) bmap \<Rightarrow> listener list
    \<Rightarrow> advertised_error + (string, advertised_address) bmap" where
  "node_addresses st n m [] = Inr m"
| "node_addresses st n m (l # ls) =
     bind_result (compute_advertised l (ni_broker_id n) (ni_pod_fqdn n) (pod_node_name (xs_pods st) (ni_pod_name n))
         (xs_nodes st) (map_of (xs_broker_services st) (ls_name l, ni_broker_id n))) (\<lambda>addr.
       node_addresses st n (bm_insert (ls_name l) addr m) ls)"

fun resolve_each ::
  "listener list \<Rightarrow> string \<Rightarrow> string \<Rightarrow> external_state \<Rightarrow> (int, (string, advertised_address) bmap) bmap \<Rightarrow> node_info list
    \<Rightarrow> advertised_error + (int, (string, advertised_address) bmap) bmap" where
  "resolve_each ls inter_broker operator st out [] = Inr out"
| "resolve_each ls inter_broker operator st out (n # ns) =
     bind_result (node_addresses st n []
         (filter (\<lambda>l. is_broker n \<or> ls_name l = inter_broker \<or> ls_name l = operator) ls)) (\<lambda>m.
       resolve_each ls inter_broker operator st (bm_insert (ni_broker_id n) m out) ns)"

definition resolve_addresses_per_broker ::
  "listener list \<Rightarrow> string \<Rightarrow> string \<Rightarrow> node_info list \<Rightarrow> external_state
    \<Rightarrow> advertised_error + (int, (string, advertised_address) bmap) bmap" where
  "resolve_addresses_per_broker ls inter_broker operator nodes st = resolve_each ls inter_broker operator st [] nodes"

definition resolve_bootstrap_servers :: "external_state \<Rightarrow> string \<Rightarrow> string \<Rightarrow> listener \<Rightarrow> string option" where
  "resolve_bootstrap_servers st cluster namespace l =
     (case ls_type l of
        Internal \<Rightarrow>
          Some (cluster @ ''-broker-headless.'' @ namespace @ ''.svc.cluster.local:'' @ int_to_string (ls_port l))
      | Nodeport \<Rightarrow>
          Option.bind (map_of (xs_bootstrap_services st) (bootstrap_object_name cluster l)) (\<lambda>s.
          Option.bind (case svc_ports s of [] \<Rightarrow> None | p # _ \<Rightarrow> svp_node_port p) (\<lambda>port.
          Option.bind (case List.map_filter node_address (xs_nodes st) of [] \<Rightarrow> None | h # _ \<Rightarrow> Some h) (\<lambda>host.
            Some (host @ '':'' @ int_to_string port))))
      | Loadbalancer \<Rightarrow>
          Option.bind (map_of (xs_bootstrap_services st) (bootstrap_object_name cluster l)) (\<lambda>s.
          Option.bind (case svc_lb_ingress s of Some (e # _) \<Rightarrow> Some e | _ \<Rightarrow> None) (\<lambda>e.
          Option.bind (or_else (lbe_hostname e) (lbe_ip e)) (\<lambda>host.
            Some (host @ '':'' @ int_to_string (ls_port l)))))
      | _ \<Rightarrow>
          Option.bind (ingress_bootstrap_host l) (\<lambda>host. Some (host @ '':'' @ int_to_string INGRESS_PORT)))"

text \<open>The status entries; the sorted list of per-broker addresses of an entry is kept beside it.\<close>

definition listener_addresses ::
  "(int, (string, advertised_address) bmap) bmap \<Rightarrow> listener \<Rightarrow> (string \<times> int) list" where
  "listener_addresses per_broker l =
     sort (List.map_filter (\<lambda>(_, m). map_option (\<lambda>a. (aa_host a, aa_port a)) (bm_get m (ls_name l))) per_broker)"

definition build_listener_status ::
  "listener list \<Rightarrow> (int, (string, advertised_address) bmap) bmap \<Rightarrow> external_state \<Rightarrow> string \<Rightarrow> string
    \<Rightarrow> (listener_status \<times> (string \<times> int) list) list" where
  "build_listener_status ls per_broker st cluster namespace =
     List.map_filter (\<lambda>l. map_option (\<lambda>b. (\<lparr>lst_name = ls_name l, lst_type = ls_type l, lst_bootstrap_servers = b\<rparr>,
         listener_addresses per_broker l)) (resolve_bootstrap_servers st cluster namespace l)) ls"

section \<open>Names in broker certificates\<close>

datatype node_address_name = ExternalIp ip_addr | ExternalDns string

datatype lb_name = LbIp ip_addr | LbHostname string

record observed_addresses =
  oba_nodes :: "node_address_name list"
  oba_lb_per_broker :: "(int, lb_name list) bmap"
  oba_lb_bootstrap :: "lb_name list"

definition lb_san :: "lb_name \<Rightarrow> subject_alt_name" where
  "lb_san n = (case n of LbIp ip \<Rightarrow> Ip ip | LbHostname h \<Rightarrow> Dns h)"

definition node_san :: "node_address_name \<Rightarrow> subject_alt_name" where
  "node_san n = (case n of ExternalIp ip \<Rightarrow> Ip ip | ExternalDns h \<Rightarrow> Dns h)"

datatype san_error = SansNotReady int string

definition listener_sans :: "int \<Rightarrow> observed_addresses \<Rightarrow> listener \<Rightarrow> san_error + subject_alt_name list" where
  "listener_sans broker obs l =
     (if \<not> ls_tls l then Inr []
      else case ls_type l of
             Internal \<Rightarrow> Inr []
           | Nodeport \<Rightarrow>
               Inr (map node_san (oba_nodes obs)
                 @ (case ls_configuration l of
                      None \<Rightarrow> []
                    | Some cfg \<Rightarrow> List.map_filter (\<lambda>o'. if bo_broker o' = broker then map_option Dns (bo_advertised_host o') else None)
                                    (lc_brokers cfg)))
           | Loadbalancer \<Rightarrow>
               (case bm_get (oba_lb_per_broker obs) broker of
                  Some (e # es) \<Rightarrow> Inr (map lb_san ((e # es) @ oba_lb_bootstrap obs))
                | _ \<Rightarrow> Inl (SansNotReady broker (ls_name l)))
           | _ \<Rightarrow>
               Inr ((case ingress_broker_host l broker of Some h \<Rightarrow> [Dns h] | None \<Rightarrow> [])
                 @ (case ingress_bootstrap_host l of Some h \<Rightarrow> [Dns h] | None \<Rightarrow> [])))"

fun collect_sans :: "int \<Rightarrow> observed_addresses \<Rightarrow> listener list \<Rightarrow> san_error + subject_alt_name list" where
  "collect_sans broker obs [] = Inr []"
| "collect_sans broker obs (l # ls) =
     bind_result (listener_sans broker obs l) (\<lambda>s. map_sum id (\<lambda>r. s @ r) (collect_sans broker obs ls))"

definition compute_extra_sans :: "int \<Rightarrow> listener list \<Rightarrow> observed_addresses \<Rightarrow> san_error + subject_alt_name list" where
  "compute_extra_sans broker ls obs = map_sum id (\<lambda>s. remdups_adj (sort s)) (collect_sans broker obs ls)"

text \<open>Reading the addresses back. A failed read of a Service is ignored.\<close>

record address_env =
  ae_list_nodes :: "kube_error + kube_node list"
  ae_get_service :: "string \<Rightarrow> kube_error + service"
  ae_parse_ip :: "string \<Rightarrow> ip_addr option"

definition node_names :: "(string \<Rightarrow> ip_addr option) \<Rightarrow> kube_node \<Rightarrow> node_address_name list" where
  "node_names parse_ip n = List.map_filter (\<lambda>(ty, a).
     if ty = ''ExternalIP'' then map_option ExternalIp (parse_ip a)
     else if ty = ''ExternalDNS'' \<or> ty = ''Hostname'' then Some (ExternalDns a) else None) (unwrap_or [] (kn_addresses n))"

definition lb_names :: "(string \<Rightarrow> ip_addr option) \<Rightarrow> kube_error + service \<Rightarrow> lb_name list" where
  "lb_names parse_ip got =
     (case got of
        Inl _ \<Rightarrow> []
      | Inr s \<Rightarrow> concat (map (\<lambda>e.
          (case Option.bind (lbe_ip e) parse_ip of Some ip \<Rightarrow> [LbIp ip] | None \<Rightarrow> [])
          @ (case lbe_hostname e of Some h \<Rightarrow> [LbHostname h] | None \<Rightarrow> [])) (unwrap_or [] (svc_lb_ingress s))))"

definition add_lb_names :: "int \<Rightarrow> lb_name list \<Rightarrow> (int, lb_name list) bmap \<Rightarrow> (int, lb_name list) bmap" where
  "add_lb_names broker names m =
     (if names = [] then m else bm_insert broker (unwrap_or [] (bm_get m broker) @ names) m)"

definition observe_listener_addresses ::
  "address_env \<Rightarrow> string \<Rightarrow> listener list \<Rightarrow> int list \<Rightarrow> reconcile_error + observed_addresses" where
  "observe_listener_addresses env cluster ls brokers =
     bind_result (if list_ex (\<lambda>l. ls_type l = Nodeport \<and> ls_tls l) ls then map_sum Kube id (ae_list_nodes env) else Inr []) (\<lambda>nodes.
       let lbs = filter (\<lambda>l. ls_type l = Loadbalancer \<and> ls_tls l) ls
       in Inr \<lparr>oba_nodes = concat (map (node_names (ae_parse_ip env)) nodes),
           oba_lb_per_broker = foldl (\<lambda>m l. foldl (\<lambda>m b.
               add_lb_names b (lb_names (ae_parse_ip env) (ae_get_service env (broker_object_name cluster l b))) m) m brokers) [] lbs,
           oba_lb_bootstrap = concat (map (\<lambda>l. lb_names (ae_parse_ip env) (ae_get_service env (bootstrap_object_name cluster l))) lbs)\<rparr>)"

text \<open>The certificate that is requested for a node (\<open>prepare_listener_tls\<close>): without the extra names when a load
  balancer is not ready.\<close>

definition localhost_ip :: ip_addr where
  "localhost_ip = V4 [127, 0, 0, 1]"

definition broker_extra_sans :: "listener list \<Rightarrow> observed_addresses \<Rightarrow> node_info \<Rightarrow> subject_alt_name list" where
  "broker_extra_sans ls obs n =
     (if is_broker n then (case compute_extra_sans (ni_broker_id n) ls obs of Inr sans \<Rightarrow> sans | Inl _ \<Rightarrow> []) else [])"

definition cert_request :: "string \<Rightarrow> string \<Rightarrow> listener list \<Rightarrow> observed_addresses \<Rightarrow> node_info \<Rightarrow> broker_cert_request" where
  "cert_request cluster namespace ls obs n =
     \<lparr>br_broker_id = ni_broker_id n, br_cn = ni_pod_name n,
      br_sans = [Dns (ni_pod_fqdn n), Dns (ni_pod_name n),
        Dns (cluster @ ''-broker-headless.'' @ namespace @ ''.svc.cluster.local''), Ip localhost_ip],
      br_extra_sans = broker_extra_sans ls obs n\<rparr>"

section \<open>Advertised hosts are in the certificate\<close>

text \<open>What a TLS client checks: the host it dialled is a DNS name or an IP address of the certificate.\<close>

definition certifies :: "(string \<Rightarrow> ip_addr option) \<Rightarrow> broker_cert_request \<Rightarrow> string \<Rightarrow> bool" where
  "certifies parse_ip req host \<longleftrightarrow>
     (let sans = set (br_sans req) \<union> set (br_extra_sans req)
      in Dns host \<in> sans \<or> (\<exists>ip. parse_ip host = Some ip \<and> Ip ip \<in> sans))"

text \<open>The cluster state that both computations read: the nodes, and the Services by name.\<close>

definition sees :: "address_env \<Rightarrow> string \<Rightarrow> external_state \<Rightarrow> bool" where
  "sees env cluster st \<longleftrightarrow> ae_list_nodes env = Inr (xs_nodes st)
     \<and> (\<forall>l b s. map_of (xs_broker_services st) (ls_name l, b) = Some s \<longrightarrow> ae_get_service env (broker_object_name cluster l b) = Inr s)"

definition external_ip :: "(string \<Rightarrow> ip_addr option) \<Rightarrow> kube_node \<Rightarrow> bool" where
  "external_ip parse_ip n \<longleftrightarrow>
     (\<exists>a. Option.bind (kn_addresses n) (find (\<lambda>x. fst x = ''ExternalIP'')) = Some (''ExternalIP'', a) \<and> parse_ip a \<noteq> None)"

lemma collect_sans_Inr:
  assumes "collect_sans broker obs ls = Inr sans" "l \<in> set ls"
  shows "\<exists>s. listener_sans broker obs l = Inr s \<and> set s \<subseteq> set sans"
  using assms by (induction ls arbitrary: sans) (auto simp: bind_result_Inr map_sum_def split: sum.splits, fastforce+)

lemma extra_sans_Inr:
  assumes "compute_extra_sans broker ls obs = Inr sans" "l \<in> set ls"
  shows "\<exists>s. listener_sans broker obs l = Inr s \<and> set s \<subseteq> set sans"
proof -
  from assms(1) obtain r where r: "collect_sans broker obs ls = Inr r" "sans = remdups_adj (sort r)"
    by (cases "collect_sans broker obs ls") (auto simp: compute_extra_sans_def)
  from collect_sans_Inr[OF r(1) assms(2)] r(2) show ?thesis by simp
qed

lemma lb_names_kept:
  "n \<in> set (unwrap_or [] (bm_get m b)) \<Longrightarrow> n \<in> set (unwrap_or [] (bm_get (add_lb_names b' ns m) b))"
  by (auto simp: add_lb_names_def)

lemma lb_names_fold_kept:
  "n \<in> set (unwrap_or [] (bm_get m b)) \<Longrightarrow>
     n \<in> set (unwrap_or [] (bm_get (foldl (\<lambda>m b'. add_lb_names b' (f b') m) m bs) b))"
  by (induction bs arbitrary: m) (auto intro: lb_names_kept)

lemma lb_names_fold_added:
  "b \<in> set bs \<Longrightarrow> n \<in> set (f b) \<Longrightarrow>
     n \<in> set (unwrap_or [] (bm_get (foldl (\<lambda>m b'. add_lb_names b' (f b') m) m bs) b))"
proof (induction bs arbitrary: m)
  case (Cons c bs)
  show ?case
  proof (cases "b = c")
    case True
    with Cons.prems(2) have "n \<in> set (unwrap_or [] (bm_get (add_lb_names c (f c) m) b))"
      by (auto simp: add_lb_names_def)
    then show ?thesis by (simp add: lb_names_fold_kept)
  qed (use Cons in auto)
qed simp

lemma lb_names_fold2_kept:
  "n \<in> set (unwrap_or [] (bm_get m b)) \<Longrightarrow>
     n \<in> set (unwrap_or [] (bm_get (foldl (\<lambda>m l. foldl (\<lambda>m b'. add_lb_names b' (f l b') m) m bs) m ls) b))"
  by (induction ls arbitrary: m) (auto intro: lb_names_fold_kept)

lemma lb_names_observed:
  assumes "l \<in> set ls" "b \<in> set bs" "n \<in> set (f l b)"
  shows "n \<in> set (unwrap_or [] (bm_get (foldl (\<lambda>m l. foldl (\<lambda>m b'. add_lb_names b' (f l b') m) m bs) m ls) b))"
  using assms(1)
proof (induction ls arbitrary: m)
  case (Cons k ls)
  show ?case
  proof (cases "l = k")
    case True
    then show ?thesis
      using lb_names_fold2_kept[OF lb_names_fold_added[of b bs n "f k" m]] assms(2,3) by simp
  qed (use Cons in auto)
qed simp


lemma observed:
  assumes "observe_listener_addresses env cluster ls brokers = Inr obs"
  shows "(ls_type l = Nodeport \<and> ls_tls l \<and> l \<in> set ls
           \<longrightarrow> (\<exists>nodes. ae_list_nodes env = Inr nodes \<and> oba_nodes obs = concat (map (node_names (ae_parse_ip env)) nodes)))
    \<and> (ls_type l = Loadbalancer \<and> ls_tls l \<and> l \<in> set ls \<and> b \<in> set brokers
           \<and> x \<in> set (lb_names (ae_parse_ip env) (ae_get_service env (broker_object_name cluster l b)))
           \<longrightarrow> x \<in> set (unwrap_or [] (bm_get (oba_lb_per_broker obs) b)))"
proof (intro conjI impI)
  assume "ls_type l = Nodeport \<and> ls_tls l \<and> l \<in> set ls"
  then have "list_ex (\<lambda>l. ls_type l = Nodeport \<and> ls_tls l) ls" by (auto simp: list_ex_iff)
  with assms show "\<exists>nodes. ae_list_nodes env = Inr nodes \<and> oba_nodes obs = concat (map (node_names (ae_parse_ip env)) nodes)"
    by (cases "ae_list_nodes env") (auto simp: observe_listener_addresses_def Let_def)
next
  assume x: "ls_type l = Loadbalancer \<and> ls_tls l \<and> l \<in> set ls \<and> b \<in> set brokers
    \<and> x \<in> set (lb_names (ae_parse_ip env) (ae_get_service env (broker_object_name cluster l b)))"
  then have "l \<in> set (filter (\<lambda>l. ls_type l = Loadbalancer \<and> ls_tls l) ls)" "b \<in> set brokers" by auto
  note n = lb_names_observed[OF this, of x "\<lambda>l b. lb_names (ae_parse_ip env) (ae_get_service env (broker_object_name cluster l b))" "[]"]
  from assms have "oba_lb_per_broker obs = foldl (\<lambda>m l. foldl (\<lambda>m b.
               add_lb_names b (lb_names (ae_parse_ip env) (ae_get_service env (broker_object_name cluster l b))) m) m brokers) []
             (filter (\<lambda>l. ls_type l = Loadbalancer \<and> ls_tls l) ls)"
    by (auto simp: observe_listener_addresses_def Let_def bind_result_Inr)
  with n x show "x \<in> set (unwrap_or [] (bm_get (oba_lb_per_broker obs) b))" by simp
qed

lemma external_address_observed:
  assumes "external_ip parse_ip k" "node_address k = Some host"
  shows "\<exists>ip. parse_ip host = Some ip \<and> ExternalIp ip \<in> set (node_names parse_ip k)"
proof -
  from assms(1) obtain as a ip where as: "kn_addresses k = Some as" "find (\<lambda>x. fst x = ''ExternalIP'') as = Some (''ExternalIP'', a)"
    "parse_ip a = Some ip" by (auto simp: external_ip_def bind_eq_Some_conv)
  from find_SomeD[OF as(2)] have "(''ExternalIP'', a) \<in> set as" by simp
  moreover from as assms(2) have "host = a" by (simp add: node_address_def)
  ultimately show ?thesis
    using as by (force simp: node_names_def set_map_filter_Some)
qed

lemma nodeport_host_certified:
  assumes "nodeport_host (override_for l b) b pod_node nodes = Inr host" "\<forall>k \<in> set nodes. external_ip parse_ip k"
    and "ls_type l = Nodeport" "ls_tls l" "listener_sans b obs l = Inr s"
    and "oba_nodes obs = concat (map (node_names parse_ip) nodes)"
  shows "Dns host \<in> set s \<or> (\<exists>ip. parse_ip host = Some ip \<and> Ip ip \<in> set s)"
proof (cases "Option.bind (override_for l b) bo_advertised_host")
  case None
  with assms(1) obtain nm k where "find (\<lambda>n. kn_name n = nm) nodes = Some k" "node_address k = Some host"
    by (auto simp: nodeport_host_def bind_result_Inr)
  then have "k \<in> set nodes" "node_address k = Some host" using find_SomeD by fast+
  moreover from this obtain ip where "parse_ip host = Some ip" "ExternalIp ip \<in> set (node_names parse_ip k)"
    using external_address_observed[of parse_ip k host] assms(2) by blast
  ultimately have "Ip ip \<in> set (map node_san (oba_nodes obs))" unfolding assms(6) by (force simp: node_san_def)
  with \<open>parse_ip host = Some ip\<close> assms(3-5) show ?thesis by (auto simp: listener_sans_def)
next
  case (Some h)
  then obtain cfg ov where cfg: "ls_configuration l = Some cfg" "find (\<lambda>x. bo_broker x = b) (lc_brokers cfg) = Some ov"
    "bo_advertised_host ov = Some h" by (auto simp: override_for_def bind_eq_Some_conv)
  from find_SomeD[OF cfg(2)] cfg(3)
  have "Dns h \<in> set (List.map_filter (\<lambda>x. if bo_broker x = b then map_option Dns (bo_advertised_host x) else None) (lc_brokers cfg))"
    by (auto simp: set_map_filter_Some)
  with Some assms(1,3-5) cfg(1) show ?thesis by (auto simp: listener_sans_def nodeport_host_def)
qed

lemma loadbalancer_host_certified:
  assumes "loadbalancer_host (override_for l b) b (Some sv) = Inr host"
    and "Option.bind (override_for l b) bo_advertised_host = None"
    and "\<forall>e \<in> set (unwrap_or [] (svc_lb_ingress sv)). lbe_hostname e \<noteq> None \<or> Option.bind (lbe_ip e) parse_ip \<noteq> None"
  shows "LbHostname host \<in> set (lb_names parse_ip (Inr sv))
    \<or> (\<exists>ip. parse_ip host = Some ip \<and> LbIp ip \<in> set (lb_names parse_ip (Inr sv)))"
proof -
  from assms(1,2) obtain e es where e: "svc_lb_ingress sv = Some (e # es)" "or_else (lbe_hostname e) (lbe_ip e) = Some host"
    by (auto simp: loadbalancer_host_def bind_result_Inr split: option.splits list.splits)
  show ?thesis
  proof (cases "lbe_hostname e")
    case None
    with e assms(3) obtain ip where "lbe_ip e = Some host" "parse_ip host = Some ip" by (auto simp: or_else_def)
    with None e show ?thesis by (auto simp: lb_names_def)
  next
    case (Some h)
    with e show ?thesis by (auto simp: lb_names_def or_else_def)
  qed
qed

lemma lb_listener_sans:
  assumes "ls_type l = Loadbalancer" "ls_tls l" "listener_sans b obs l = Inr s"
    and "x \<in> set (unwrap_or [] (bm_get (oba_lb_per_broker obs) b))"
  shows "lb_san x \<in> set s"
  using assms by (auto simp: listener_sans_def split: option.splits list.splits)

text \<open>C26: Clients can verify the address they are sent to. When the names of a broker's certificate are complete
  (no load balancer is pending), the host that any of its TLS listeners advertises is a name or address of the
  certificate that is requested for it, provided that every node has a usable external address, that load balancers
  report host names or parsable addresses, and that a load balancer listener has no host override.\<close>

theorem advertised_host_certified:
  assumes l: "l \<in> set ls" "ls_tls l" and n: "is_broker n" "ni_broker_id n \<in> set brokers"
    and st: "sees env cluster st" and obs: "observe_listener_addresses env cluster ls brokers = Inr obs"
    and sans: "compute_extra_sans (ni_broker_id n) ls obs = Inr sans"
    and addr: "compute_advertised l (ni_broker_id n) (ni_pod_fqdn n) pod_node (xs_nodes st)
        (map_of (xs_broker_services st) (ls_name l, ni_broker_id n)) = Inr addr"
    and np: "ls_type l = Nodeport \<Longrightarrow> \<forall>k \<in> set (xs_nodes st). external_ip (ae_parse_ip env) k"
    and lb: "ls_type l = Loadbalancer \<Longrightarrow> Option.bind (override_for l (ni_broker_id n)) bo_advertised_host = None
        \<and> (\<forall>(_, sv) \<in> set (xs_broker_services st). \<forall>e \<in> set (unwrap_or [] (svc_lb_ingress sv)).
             lbe_hostname e \<noteq> None \<or> Option.bind (lbe_ip e) (ae_parse_ip env) \<noteq> None)"
  shows "certifies (ae_parse_ip env) (cert_request cluster namespace ls obs n) (aa_host addr)"
proof -
  let ?b = "ni_broker_id n" and ?p = "ae_parse_ip env"
  from extra_sans_Inr[OF sans l(1)] obtain s where s: "listener_sans ?b obs l = Inr s" "set s \<subseteq> set sans" by blast
  have extra: "br_extra_sans (cert_request cluster namespace ls obs n) = sans"
    using n sans by (simp add: cert_request_def broker_extra_sans_def)
  have goal: "certifies ?p (cert_request cluster namespace ls obs n) h"
    if "Dns h \<in> set s \<or> (\<exists>ip. ?p h = Some ip \<and> Ip ip \<in> set s)" for h
    using that s(2) extra by (auto simp: certifies_def)
  show ?thesis
  proof (cases "ls_type l")
    case Internal
    with addr show ?thesis by (auto simp: compute_advertised_def certifies_def cert_request_def Let_def)
  next
    case Nodeport
    with addr obtain port where h: "nodeport_host (override_for l ?b) ?b pod_node (xs_nodes st) = Inr (aa_host addr)"
      by (auto simp: compute_advertised_def Let_def bind_result_Inr)
    have "oba_nodes obs = concat (map (node_names ?p) (xs_nodes st))"
      using observed[OF obs, of l] Nodeport l st by (auto simp: sees_def)
    from goal[OF nodeport_host_certified[OF h np[OF Nodeport] Nodeport l(2) s(1) this]] show ?thesis .
  next
    case Loadbalancer
    with addr have h: "loadbalancer_host (override_for l ?b) ?b (map_of (xs_broker_services st) (ls_name l, ?b)) = Inr (aa_host addr)"
      by (auto simp: compute_advertised_def Let_def bind_result_Inr)
    with lb[OF Loadbalancer] obtain sv where sv: "map_of (xs_broker_services st) (ls_name l, ?b) = Some sv"
      by (auto simp: loadbalancer_host_def bind_result_Inr split: option.splits)
    with lb[OF Loadbalancer] have "\<forall>e \<in> set (unwrap_or [] (svc_lb_ingress sv)). lbe_hostname e \<noteq> None \<or> Option.bind (lbe_ip e) ?p \<noteq> None"
      by (fastforce dest: map_of_SomeD)
    from loadbalancer_host_certified[OF h[unfolded sv] conjunct1[OF lb[OF Loadbalancer]] this]
    have names: "LbHostname (aa_host addr) \<in> set (lb_names ?p (Inr sv))
      \<or> (\<exists>ip. ?p (aa_host addr) = Some ip \<and> LbIp ip \<in> set (lb_names ?p (Inr sv)))" .
    have "ae_get_service env (broker_object_name cluster l ?b) = Inr sv" using st sv by (simp add: sees_def)
    then have "x \<in> set (lb_names ?p (Inr sv)) \<Longrightarrow> lb_san x \<in> set s" for x
      using lb_listener_sans[OF Loadbalancer l(2) s(1)] observed[OF obs, of l ?b x] Loadbalancer l n(2) by simp
    from this[of "LbHostname (aa_host addr)"] this names goal show ?thesis by (fastforce simp: lb_san_def)
  next
    case Ingress
    with addr s(1) l(2) goal show ?thesis
      by (auto simp: compute_advertised_def Let_def bind_result_Inr listener_sans_def)
  next
    case Route
    with addr s(1) l(2) goal show ?thesis
      by (auto simp: compute_advertised_def Let_def bind_result_Inr listener_sans_def)
  qed
qed

section \<open>Addresses that the certificate does not have\<close>

text \<open>A node port listener of a cluster whose nodes only have internal addresses, as on-premise nodes do,
  advertises the internal address of the node, but only external addresses and host names enter the certificate: a
  TLS client that follows the advertised address cannot verify the broker.\<close>

theorem internal_address_not_certified:
  assumes "ls_type l = Nodeport" "ls_tls l" "override_for l (ni_broker_id n) = None"
    and "\<forall>k \<in> set nodes. \<forall>x \<in> set (unwrap_or [] (kn_addresses k)). fst x = ''InternalIP''"
    and "find (\<lambda>k. kn_name k = node) nodes = Some k" "node_address k = Some a" "ls_configuration l = None"
    and "svc_ports sv = p # ps" "svp_node_port p = Some port"
    and "ae_list_nodes env = Inr nodes" "observe_listener_addresses env cluster [l] brokers = Inr obs"
    and "a \<notin> {ni_pod_fqdn n, ni_pod_name n, cluster @ ''-broker-headless.'' @ namespace @ ''.svc.cluster.local''}"
    and "ae_parse_ip env a \<noteq> Some localhost_ip"
  shows "compute_advertised l (ni_broker_id n) (ni_pod_fqdn n) (Some node) nodes (Some sv) = Inr \<lparr>aa_host = a, aa_port = port\<rparr>
    \<and> \<not> certifies (ae_parse_ip env) (cert_request cluster namespace [l] obs n) a"
proof -
  have "node_names (ae_parse_ip env) k' = []" if "k' \<in> set nodes" for k'
  proof -
    have "List.map_filter (\<lambda>(ty, x). if ty = ''ExternalIP'' then map_option ExternalIp (ae_parse_ip env x)
        else if ty = ''ExternalDNS'' \<or> ty = ''Hostname'' then Some (ExternalDns x) else None) xs = []"
      if "\<forall>x \<in> set xs. fst x = ''InternalIP''" for xs
      using that by (induction xs) (auto simp: List.map_filter_def)
    with assms(4) that show ?thesis by (simp add: node_names_def)
  qed
  then have "concat (map (node_names (ae_parse_ip env)) nodes) = []" by simp
  with observed[OF assms(11), of l] assms(1,2,10) have "oba_nodes obs = []" by auto
  then have "compute_extra_sans b [l] obs = Inr []" for b
    using assms(1,2,7) by (simp add: compute_extra_sans_def listener_sans_def)
  then have "br_extra_sans (cert_request cluster namespace [l] obs n) = []"
    by (simp add: cert_request_def broker_extra_sans_def)
  then have "\<not> certifies (ae_parse_ip env) (cert_request cluster namespace [l] obs n) a"
    using assms(12,13) by (auto simp: certifies_def cert_request_def)
  with assms show ?thesis
    by (simp add: compute_advertised_def nodeport_host_def nodeport_port_def Let_def)
qed

text \<open>A load balancer listener with a host override advertises that host, but unlike for a node port listener the
  override does not enter the certificate.\<close>

theorem balancer_override_not_certified:
  assumes "ls_type l = Loadbalancer" "ls_tls l" "Option.bind (override_for l (ni_broker_id n)) bo_advertised_host = Some h"
    and "observe_listener_addresses env cluster [l] brokers = Inr obs"
    and "\<forall>x \<in> set (unwrap_or [] (bm_get (oba_lb_per_broker obs) (ni_broker_id n))) \<union> set (oba_lb_bootstrap obs). x \<noteq> LbHostname h"
    and "h \<notin> {ni_pod_fqdn n, ni_pod_name n, cluster @ ''-broker-headless.'' @ namespace @ ''.svc.cluster.local''}"
    and "ae_parse_ip env h = None"
  shows "(\<exists>port. compute_advertised l (ni_broker_id n) (ni_pod_fqdn n) node nodes sv = Inr \<lparr>aa_host = h, aa_port = port\<rparr>)
    \<and> \<not> certifies (ae_parse_ip env) (cert_request cluster namespace [l] obs n) h"
proof -
  have "Dns h \<notin> set (broker_extra_sans [l] obs n)"
  proof
    assume "Dns h \<in> set (broker_extra_sans [l] obs n)"
    then obtain r where r: "listener_sans (ni_broker_id n) obs l = Inr r" "Dns h \<in> set r"
      by (cases "is_broker n"; cases "listener_sans (ni_broker_id n) obs l")
        (simp_all add: broker_extra_sans_def compute_extra_sans_def)
    with assms(1,2) have "Dns h \<in> lb_san ` (set (unwrap_or [] (bm_get (oba_lb_per_broker obs) (ni_broker_id n))) \<union> set (oba_lb_bootstrap obs))"
      by (auto simp: listener_sans_def split: option.splits list.splits)
    then show False using assms(5) by (auto simp: lb_san_def split: lb_name.splits)
  qed
  with assms(6,7) have "\<not> certifies (ae_parse_ip env) (cert_request cluster namespace [l] obs n) h"
    by (auto simp: certifies_def cert_request_def)
  moreover have "\<exists>port. compute_advertised l (ni_broker_id n) (ni_pod_fqdn n) node nodes sv = Inr \<lparr>aa_host = h, aa_port = port\<rparr>"
    using assms(1,3) by (simp add: compute_advertised_def loadbalancer_host_def Let_def)
  ultimately show ?thesis by blast
qed

lemma lb_fold_empty: "(\<And>l b. f l b = []) \<Longrightarrow> foldl (\<lambda>m l. foldl (\<lambda>m b. add_lb_names b (f l b) m) m bs) m ls = m"
proof (induction ls arbitrary: m)
  case (Cons l ls)
  have "foldl (\<lambda>m b. add_lb_names b (f l b) m) m bs = m" for m
    by (induction bs arbitrary: m) (simp_all add: Cons.prems add_lb_names_def)
  with Cons show ?case by simp
qed simp

text \<open>Failed reads of Services are taken for missing addresses. When the per-broker Services of a TLS load
  balancer listener cannot be read, a pass does not stop: it asks for certificates without any of the extra names, those
  of other listeners included, and the keystore replaces a healthy leaf that has them, which restarts the brokers.\<close>

theorem lost_read_drops_names:
  assumes "l \<in> set ls" "ls_type l = Loadbalancer" "ls_tls l"
    and "\<forall>l b. \<exists>e. ae_get_service env (broker_object_name cluster l b) = Inl e"
    and "observe_listener_addresses env cluster ls brokers = Inr obs"
    and "bm_get m (digest_key_of (ni_broker_id n)) = Some d" "from_utf8 d = Inr d"
    and "d \<noteq> compute_san_digest (ke_sha256_hex kenv) (br_sans (cert_request cluster namespace ls obs n)) []"
    and "leaf_expiring kenv renewal m (ni_broker_id n) = Inr False"
  shows "br_extra_sans (cert_request cluster namespace ls obs n) = []
    \<and> needs_reissue kenv renewal False m (cert_request cluster namespace ls obs n) = Inr True"
proof -
  have none: "lb_names (ae_parse_ip env) (ae_get_service env (broker_object_name cluster l b)) = []" for l b
  proof -
    from assms(4) obtain e where "ae_get_service env (broker_object_name cluster l b) = Inl e" by blast
    then show ?thesis by (simp add: lb_names_def)
  qed
  from assms(5) have "oba_lb_per_broker obs = foldl (\<lambda>m l. foldl (\<lambda>m b.
               add_lb_names b (lb_names (ae_parse_ip env) (ae_get_service env (broker_object_name cluster l b))) m) m brokers) []
             (filter (\<lambda>l. ls_type l = Loadbalancer \<and> ls_tls l) ls)"
    by (auto simp: observe_listener_addresses_def Let_def bind_result_Inr)
  also have "\<dots> = []" by (rule lb_fold_empty[OF none])
  finally have pending: "listener_sans b obs l = Inl (SansNotReady b (ls_name l))" for b
    using assms(2,3) by (simp add: listener_sans_def)
  have "\<exists>e. compute_extra_sans b ls obs = Inl e" for b
  proof (cases "compute_extra_sans b ls obs")
    case (Inr sans)
    from extra_sans_Inr[OF this assms(1)] pending show ?thesis by simp
  qed auto
  from this[of "ni_broker_id n"] have "broker_extra_sans ls obs n = []"
    by (auto simp: broker_extra_sans_def)
  then have "br_extra_sans (cert_request cluster namespace ls obs n) = []" by (simp add: cert_request_def)
  with assms(6-9) show ?thesis by (simp add: needs_reissue_def Let_def cert_request_def)
qed

section \<open>Instances\<close>

definition port_listener :: "listener_type \<Rightarrow> listener" where
  "port_listener ty = (sample_listener ''EXT'' 9094 True None)\<lparr>ls_type := ty\<rparr>"

definition sample_node_info :: node_info where
  "sample_node_info = \<lparr>ni_broker_id = 0, ni_pod_name = ''c-p-0'', ni_pod_fqdn = ''c-p-0.svc'', ni_roles = [Broker]\<rparr>"

definition octet_parser :: "string \<Rightarrow> ip_addr option" where
  "octet_parser s = (if s = ''10.0.0.5'' then Some (V4 [10, 0, 0, 5]) else if s = ''1.2.3.4'' then Some (V4 [1, 2, 3, 4]) else None)"

definition sample_kube_node :: "string \<Rightarrow> string \<Rightarrow> kube_node" where
  "sample_kube_node ty a = \<lparr>kn_name = ''n'', kn_addresses = Some [(ty, a)]\<rparr>"

definition sample_address_env :: "kube_node \<Rightarrow> address_env" where
  "sample_address_env k = \<lparr>ae_list_nodes = Inr [k], ae_get_service = (\<lambda>_. Inl (ApiStatus 500 ''down'')), ae_parse_ip = octet_parser\<rparr>"

definition sample_port_service :: service where
  "sample_port_service = \<lparr>svc_meta = plain_meta ''c-EXT-0'', svc_type = Some ''NodePort'', svc_cluster_ip = None,
     svc_publish_not_ready = False, svc_selector = [], svc_ports = [(plain_port ''EXT'' 9094)\<lparr>svp_node_port := Some 31000\<rparr>],
     svc_load_balancer_ip = None, svc_lb_ingress = None\<rparr>"

definition observed_nothing :: observed_addresses where
  "observed_nothing = \<lparr>oba_nodes = [], oba_lb_per_broker = [], oba_lb_bootstrap = []\<rparr>"

definition overriding_listener :: listener where
  "overriding_listener = (port_listener Loadbalancer)\<lparr>ls_configuration := Some \<lparr>lc_bootstrap = None,
     lc_brokers = [\<lparr>bo_broker = 0, bo_advertised_host = Some ''kafka.example.com'', bo_advertised_port = None, bo_node_port = None,
       bo_load_balancer_ip = None, bo_host = None\<rparr>], lc_ingress_class = None\<rparr>\<rparr>"

lemmas listener_samples = port_listener_def sample_listener_def override_for_def sample_kube_node_def node_address_def
  sample_port_service_def sample_address_env_def observe_listener_addresses_def node_names_def observed_nothing_def
  sample_node_info_def octet_parser_def localhost_ip_def List.map_filter_def

theorem advertised_host_certified_witness:
  "certifies octet_parser (cert_request ''c'' ''ns'' [port_listener Nodeport]
     \<lparr>oba_nodes = [ExternalIp (V4 [1, 2, 3, 4])], oba_lb_per_broker = [], oba_lb_bootstrap = []\<rparr> sample_node_info) ''1.2.3.4''"
proof -
  let ?k = "sample_kube_node ''ExternalIP'' ''1.2.3.4''" and ?l = "port_listener Nodeport"
  have "is_broker sample_node_info" by (simp add: is_broker_def sample_node_info_def)
  moreover have "compute_advertised ?l 0 ''c-p-0.svc'' (Some ''n'') [?k] (Some sample_port_service)
    = Inr \<lparr>aa_host = ''1.2.3.4'', aa_port = 31000\<rparr>"
    by (simp add: listener_samples compute_advertised_def nodeport_host_def nodeport_port_def)
  moreover have "external_ip octet_parser ?k" by (simp add: external_ip_def listener_samples)
  moreover have "sees (sample_address_env ?k\<lparr>ae_get_service := (\<lambda>_. Inr sample_port_service)\<rparr>) ''c''
      \<lparr>xs_nodes = [?k], xs_pods = [], xs_bootstrap_services = [], xs_broker_services = [((''EXT'', 0), sample_port_service)]\<rparr>"
    by (simp add: sees_def sample_address_env_def)
  ultimately show ?thesis
    using advertised_host_certified[of ?l "[?l]" sample_node_info "[0]"
      "sample_address_env ?k\<lparr>ae_get_service := (\<lambda>_. Inr sample_port_service)\<rparr>" "''c''"
      "\<lparr>xs_nodes = [?k], xs_pods = [], xs_bootstrap_services = [], xs_broker_services = [((''EXT'', 0), sample_port_service)]\<rparr>"
      "\<lparr>oba_nodes = [ExternalIp (V4 [1, 2, 3, 4])], oba_lb_per_broker = [], oba_lb_bootstrap = []\<rparr>"
      "[Ip (V4 [1, 2, 3, 4])]" "Some ''n''" "\<lparr>aa_host = ''1.2.3.4'', aa_port = 31000\<rparr>" "''ns''"]
    by (simp add: listener_samples compute_extra_sans_def listener_sans_def node_san_def)
qed

theorem internal_address_not_certified_witness:
  "\<not> certifies octet_parser (cert_request ''c'' ''ns'' [port_listener Nodeport] observed_nothing sample_node_info) ''10.0.0.5''"
  using internal_address_not_certified[of "port_listener Nodeport" sample_node_info "[sample_kube_node ''InternalIP'' ''10.0.0.5'']"
      "''n''" "sample_kube_node ''InternalIP'' ''10.0.0.5''" "''10.0.0.5''" sample_port_service
      "(plain_port ''EXT'' 9094)\<lparr>svp_node_port := Some 31000\<rparr>" "[]" 31000
      "sample_address_env (sample_kube_node ''InternalIP'' ''10.0.0.5'')" "''c''" "[0]" observed_nothing "''ns''"]
  by (simp add: listener_samples)

theorem balancer_override_not_certified_witness:
  "\<not> certifies octet_parser (cert_request ''c'' ''ns'' [overriding_listener] observed_nothing sample_node_info) ''kafka.example.com''"
  using balancer_override_not_certified[of overriding_listener sample_node_info "''kafka.example.com''"
      "sample_address_env (sample_kube_node ''InternalIP'' ''10.0.0.5'')" "''c''" "[0]" observed_nothing "''ns''"]
  by (simp add: listener_samples overriding_listener_def add_lb_names_def lb_names_def)

theorem lost_read_drops_names_witness:
  "needs_reissue (ks_env (Inr None)) 0 False [(''0.crt'', ''c''), (''0.key'', ''k''), (''0.sans-digest'', ''x'')]
     (cert_request ''c'' ''ns'' [port_listener Loadbalancer] observed_nothing sample_node_info) = Inr True"
proof -
  have keys: "digest_key_of 0 = ''0.sans-digest''" "crt_key_of 0 = ''0.crt''"
    by (simp_all add: digest_key_of_def crt_key_of_def int_to_string_def eval_simps)
  show ?thesis
    using lost_read_drops_names[of "port_listener Loadbalancer" "[port_listener Loadbalancer]"
        "sample_address_env (sample_kube_node ''InternalIP'' ''10.0.0.5'')" "''c''" "[0]" observed_nothing
        "[(''0.crt'', ''c''), (''0.key'', ''k''), (''0.sans-digest'', ''x'')]" sample_node_info "''x''" "ks_env (Inr None)" "''ns''" 0]
    by (simp add: listener_samples add_lb_names_def lb_names_def keys ks_utf8 ks_env_def compute_san_digest_def
        leaf_expiring_def renew_if_expiring_def)
qed

end
