(* ===== verification/Broker_Toml.thy ===== *)
theory Broker_Toml
  imports Broker_Tuning Listener_Objects User_Credentials
begin

text \<open>
  The configuration file of a broker (\<open>controller/listeners.rs\<close>, \<open>render_configmap\<close> of
  \<open>controller/common.rs\<close>): its header, one section per listener, the server properties, tiered
  storage, authorization, OAuth and Kerberos sections, and the ConfigMap with one file per node. A
  file is a list of lines (\<open>toml_item\<close>), printed by \<open>print_items\<close>. A \<open>None\<close> stands for the panics of the code. The texts of durations
  and sizes (\<open>krabka_units\<close>) and the names of SASL mechanisms (\<open>krabka_security\<close>) are parameters.
\<close>

section \<open>Authorization\<close>

record render_env =
  re_human_time :: "int \<Rightarrow> string"
  re_human_size :: "nat \<Rightarrow> string"
  re_wire_name :: "sasl_mechanism \<Rightarrow> string"

record broker_tls_render =
  btr_controller_listener_protocol :: string
  btr_cert_path :: string
  btr_key_path :: string
  btr_client_ca_path :: string
  btr_client_auth :: string
  btr_trust_roots_path :: string

record opa_render =
  opr_url :: string
  opr_allow_on_error :: "bool option"
  opr_maximum_cache_size :: "32 word option"
  opr_expire_after_ms :: "int option"

record authorization_render =
  azr_kind :: string
  azr_super_users :: "string list"
  azr_opa :: "opa_render option"

definition merge_operator_principals :: "string list \<Rightarrow> bool \<Rightarrow> string list" where
  "merge_operator_principals base include_anonymous =
     (let out = (if include_anonymous \<and> ''ANONYMOUS'' \<notin> set base then base @ [''ANONYMOUS''] else base);
          principal = tls_principal OPERATOR_IDENTITY
      in if principal \<in> set out then out else out @ [principal])"

definition authorization_from_spec :: "kafka_authorization \<Rightarrow> bool \<Rightarrow> authorization_render" where
  "authorization_from_spec a include_anonymous =
     (case a of
        SimpleAcl users \<Rightarrow>
          \<lparr>azr_kind = ''simple'', azr_super_users = merge_operator_principals users include_anonymous, azr_opa = None\<rparr>
      | Opa url allow_on_error initial_cache maximum_cache expire users \<Rightarrow>
          \<lparr>azr_kind = ''opa'', azr_super_users = merge_operator_principals users include_anonymous,
           azr_opa = Some \<lparr>opr_url = url, opr_allow_on_error = allow_on_error, opr_maximum_cache_size = maximum_cache,
             opr_expire_after_ms = expire\<rparr>\<rparr>)"

definition operator_simple :: authorization_render where
  "operator_simple = \<lparr>azr_kind = ''simple'', azr_super_users = [''ANONYMOUS'', tls_principal OPERATOR_IDENTITY], azr_opa = None\<rparr>"

definition optional_item :: "('a \<Rightarrow> toml_item) \<Rightarrow> 'a option \<Rightarrow> toml_item list" where
  "optional_item f v = (case v of None \<Rightarrow> [] | Some x \<Rightarrow> [f x])"

definition render_authorization :: "authorization_render \<Rightarrow> toml_item list" where
  "render_authorization r =
     [Header ''authorization'', Text ''type'' (azr_kind r), Texts ''super_users'' (azr_super_users r), Blank]
     @ (case azr_opa r of
          None \<Rightarrow> []
        | Some opa \<Rightarrow>
            [Header ''authorization.opa'', Text ''url'' (opr_url opa)]
            @ optional_item (Flag ''allow_on_error'') (opr_allow_on_error opa)
            @ optional_item (\<lambda>n. Number ''maximum_cache_size'' (uint n)) (opr_maximum_cache_size opa)
            @ optional_item (Number ''expire_after_ms'') (opr_expire_after_ms opa)
            @ [Blank])"

section \<open>Tiered storage\<close>

definition TIER_STORAGE_PATH :: string where
  "TIER_STORAGE_PATH = ''/var/lib/krabka/remote''"

definition GSSAPI_KEYTAB_PATH :: string where
  "GSSAPI_KEYTAB_PATH = ''/etc/krabka/gssapi-keytab/keytab''"

definition GCS_CREDENTIALS_DIR :: string where
  "GCS_CREDENTIALS_DIR = ''/etc/krabka/gcs-credentials''"

definition GCS_CREDENTIALS_FILE :: string where
  "GCS_CREDENTIALS_FILE = ''key.json''"

definition render_backend :: "tiered_storage \<Rightarrow> toml_item list option" where
  "render_backend ts =
     (case ts_kind ts of
        Local \<Rightarrow> Some [Header ''remote_storage'', Text ''storage_dir'' TIER_STORAGE_PATH, Blank]
      | S3 \<Rightarrow> map_option (\<lambda>s3.
          [Header ''remote_storage'', Blank, Header ''remote_storage.s3'', Escaped ''bucket'' (s3_bucket s3), Escaped ''region'' (s3_region s3)]
          @ optional_item (Escaped ''prefix'') (s3_prefix s3)
          @ optional_item (Escaped ''endpoint'') (s3_endpoint s3)
          @ (if s3_allow_http s3 then [Flag ''allow_http'' True] else [])
          @ optional_item (\<lambda>n. Number ''multipart_threshold'' (uint n)) (s3_multipart_threshold s3)
          @ optional_item (\<lambda>n. Number ''multipart_chunk_size'' (uint n)) (s3_multipart_chunk_size s3)
          @ [Blank]) (ts_s3 ts)
      | Gcs \<Rightarrow> map_option (\<lambda>gcs.
          [Header ''remote_storage'', Blank, Header ''remote_storage.gcs'', Escaped ''bucket'' (gcs_bucket gcs)]
          @ optional_item (Escaped ''prefix'') (gcs_prefix gcs)
          @ optional_item (Escaped ''endpoint'') (gcs_endpoint gcs)
          @ (if gcs_allow_http gcs then [Flag ''allow_http'' True] else [])
          @ (if gcs_service_account_key gcs \<noteq> None
             then [Text ''service_account_path'' (GCS_CREDENTIALS_DIR @ ''/'' @ GCS_CREDENTIALS_FILE)] else [])
          @ optional_item (\<lambda>n. Number ''multipart_threshold'' (uint n)) (gcs_multipart_threshold gcs)
          @ optional_item (\<lambda>n. Number ''multipart_chunk_size'' (uint n)) (gcs_multipart_chunk_size gcs)
          @ [Blank]) (ts_gcs ts))"

definition render_metadata_topic :: "render_env \<Rightarrow> topic_metadata_manager \<Rightarrow> toml_item list" where
  "render_metadata_topic env t =
     [Escaped ''bootstrap'' (tmm_bootstrap t)]
     @ optional_item (Number ''num_partitions'') (tmm_num_partitions t)
     @ optional_item (Number ''replication'') (tmm_replication t)
     @ optional_item (\<lambda>v. Text ''topic_create_timeout'' (re_human_time env v)) (tmm_topic_create_timeout t)
     @ optional_item (\<lambda>v. Text ''fetch_max_wait'' (re_human_time env v)) (tmm_fetch_max_wait t)
     @ optional_item (\<lambda>v. Text ''fetch_max_bytes'' (re_human_size env v)) (tmm_fetch_max_bytes t)
     @ optional_item (\<lambda>v. Text ''fetch_retry_backoff'' (re_human_time env v)) (tmm_fetch_retry_backoff t)
     @ optional_item (\<lambda>v. Number ''event_queue_capacity'' (int v)) (tmm_event_queue_capacity t)
     @ optional_item (\<lambda>v. Text ''snapshot_interval'' (re_human_time env v)) (tmm_snapshot_interval t)"

definition render_remote_storage :: "render_env \<Rightarrow> tiered_storage option \<Rightarrow> toml_item list option" where
  "render_remote_storage env tiered =
     (case tiered of
        None \<Rightarrow> Some []
      | Some ts \<Rightarrow> map_option (\<lambda>backend.
          backend @ [Header ''remote_storage.kafka_metadata'']
          @ (if (case ts_metadata_manager ts of Some mm \<Rightarrow> mm_kind mm = InMemory | None \<Rightarrow> False) then [Flag ''in_memory'' True]
             else case Option.bind (ts_metadata_manager ts) mm_topic of None \<Rightarrow> [] | Some t \<Rightarrow> render_metadata_topic env t)
          @ [Blank]) (render_backend ts))"

section \<open>Listeners and header\<close>

definition protocol_name :: "listener_protocol \<Rightarrow> string" where
  "protocol_name p =
     (case p of Plaintext \<Rightarrow> ''Plaintext'' | Ssl \<Rightarrow> ''Ssl'' | SaslPlaintext \<Rightarrow> ''SaslPlaintext'' | SaslSsl \<Rightarrow> ''SaslSsl'')"

definition leaf_path :: "int \<Rightarrow> string \<Rightarrow> string" where
  "leaf_path broker_id ext = ''/etc/krabka/broker-tls/'' @ int_to_string broker_id @ ext"

definition render_listener ::
  "render_env \<Rightarrow> int \<Rightarrow> (string, advertised_address) bmap \<Rightarrow> string option \<Rightarrow> string option \<Rightarrow> listener \<Rightarrow> toml_item list option" where
  "render_listener env broker_id addresses clients_ca_path operator_listener_name l =
     map_option (\<lambda>proto.
       [ArrayHeader ''listeners'', Text ''name'' (ls_name l), Text ''bind_addr'' (''0.0.0.0:'' @ int_to_string (ls_port l)),
        Text ''advertised'' (case bm_get addresses (ls_name l) of None \<Rightarrow> [] | Some a \<Rightarrow> aa_host a @ '':'' @ int_to_string (aa_port a)),
        Text ''protocol'' (protocol_name proto)]
       @ (if \<not> ls_tls l then []
          else if ls_authentication l = Some AuthTls then
            [Inline ''tls_config''
               [(''cert_path'', InlineText (leaf_path broker_id ''.crt'')), (''key_path'', InlineText (leaf_path broker_id ''.key'')),
                (''client_ca_path'', InlineText (if operator_listener_name = Some (ls_name l) then ''/etc/krabka/cluster-ca/ca.crt''
                   else unwrap_or ''/etc/krabka/clients-ca/ca.crt'' clients_ca_path)),
                (''client_auth'', InlineText ''Required'')]]
          else
            [Inline ''tls_config''
               [(''cert_path'', InlineText (leaf_path broker_id ''.crt'')), (''key_path'', InlineText (leaf_path broker_id ''.key'')),
                (''client_auth'', InlineText ''Disabled'')]])
       @ optional_item (\<lambda>mech. Inline ''sasl_config'' [(''enabled_mechanisms'', InlineTexts [re_wire_name env mech])])
           (Option.bind (ls_authentication l) sasl_mechanism)
       @ [Blank]) (listener_protocol l)"

fun concat_options :: "'a list option list \<Rightarrow> 'a list option" where
  "concat_options [] = Some []"
| "concat_options (x # xs) = Option.bind x (\<lambda>a. map_option ((@) a) (concat_options xs))"

definition render_listener_sections ::
  "render_env \<Rightarrow> int \<Rightarrow> listener list \<Rightarrow> (string, advertised_address) bmap \<Rightarrow> string option \<Rightarrow> string option \<Rightarrow> toml_item list option" where
  "render_listener_sections env broker_id listeners addresses clients_ca_path operator_listener_name =
     concat_options (map (render_listener env broker_id addresses clients_ca_path operator_listener_name) listeners)"

definition render_broker_header :: "int \<Rightarrow> string \<Rightarrow> broker_tls_render option \<Rightarrow> string list \<Rightarrow> string \<Rightarrow> toml_item list" where
  "render_broker_header broker_id inter_broker_listener_name tls voters server_name =
     [Number ''broker_id'' broker_id, Text ''log_dir'' ''/var/lib/krabka/data'', Text ''heartbeat_interval'' ''500ms'',
      Text ''heartbeat_timeout'' ''3s'', Text ''replica_lag_time_max'' ''2s'', Text ''controller_election_timeout'' ''500ms'',
      Text ''controller_heartbeat_interval'' ''100ms'', Text ''inter_broker_listener_name'' inter_broker_listener_name]
     @ optional_item (\<lambda>t. Text ''controller_listener_protocol'' (btr_controller_listener_protocol t)) tls
     @ (if voters = [] then [] else [Texts ''controller_quorum_voters'' voters])
     @ (if server_name = [] then [] else [Text ''controller_server_name'' server_name])
     @ [Blank]"

section \<open>OAuth and Kerberos\<close>

definition render_oauth_source :: "oauth_config \<Rightarrow> toml_item list" where
  "render_oauth_source c =
     (if oa_access_token_is_jwt c then optional_item (Text ''jwks_endpoint_uri'') (oa_jwks_endpoint_uri c)
      else optional_item (Text ''introspection_endpoint_uri'') (oa_introspection_endpoint_uri c)
        @ optional_item (Text ''userinfo_endpoint_uri'') (oa_user_info_endpoint_uri c)
        @ optional_item (Text ''introspection_client_id'') (oa_client_id c)
        @ [Text ''introspection_client_secret_path'' ''/etc/krabka/oauth-introspection/client-secret'']
        @ optional_item (\<lambda>s. Number ''introspection_http_timeout_ms'' (uint s * 1000)) (oa_introspection_http_timeout_seconds c))"

definition render_oauth :: "oauth_config \<Rightarrow> toml_item list" where
  "render_oauth c =
     [Header ''oauthbearer''] @ render_oauth_source c
     @ [Text ''valid_issuer_uri'' (oa_valid_issuer_uri c)]
     @ optional_item (Text ''expected_audience'') (oa_valid_audience c)
     @ optional_item (Text ''principal_claim_name'') (oa_user_name_claim c)
     @ optional_item (\<lambda>s. Number ''jwks_refresh_interval_ms'' (uint s * 1000)) (oa_jwks_refresh_seconds c)
     @ optional_item (\<lambda>s. Number ''allowable_clock_skew_ms'' (uint s * 1000)) (oa_max_clock_skew_seconds c)
     @ (if oa_tls_trusted_certificates c = [] then [] else [Text ''idp_tls_trust'' ''/etc/krabka/oauth-jwks-trust/ca.crt''])
     @ optional_item (\<lambda>s. Number ''max_session_lifetime_seconds'' (uint s)) (oa_max_seconds_without_reauthentication c)
     @ optional_item (LiteralText ''custom_claim_check'') (oa_custom_claim_check c)
     @ optional_item (Text ''valid_token_type'') (oa_valid_token_type c)
     @ optional_item (Text ''fallback_user_name_claim'') (oa_fallback_user_name_claim c)
     @ optional_item (Text ''fallback_user_name_prefix'') (oa_fallback_user_name_prefix c)
     @ optional_item (LiteralText ''groups_claim'') (oa_groups_claim c)
     @ optional_item (Text ''groups_claim_delimiter'') (oa_groups_claim_delimiter c)
     @ optional_item (\<lambda>s. Number ''jwks_min_refresh_pause_seconds'' (uint s)) (oa_jwks_min_refresh_pause_seconds c)
     @ optional_item (\<lambda>s. Number ''jwks_expiry_seconds'' (uint s)) (oa_jwks_expiry_seconds c)
     @ optional_item (Flag ''jwks_ignore_key_use'') (oa_jwks_ignore_key_use c)
     @ [Blank]"

definition render_gssapi :: "render_env \<Rightarrow> gssapi_config \<Rightarrow> toml_item list" where
  "render_gssapi env g =
     [Header ''gssapi'', Text ''keytab_path'' GSSAPI_KEYTAB_PATH, Escaped ''service_name'' (unwrap_or ''kafka'' (ga_service_name g)),
      Texts ''principal_to_local_rules'' (ga_principal_to_local_rules g)]
     @ optional_item (Escaped ''realm'') (ga_realm g)
     @ optional_item (Escaped ''kdc'') (ga_kdc g)
     @ optional_item (\<lambda>t. Text ''max_time_skew'' (re_human_time env t)) (ga_max_time_skew g)
     @ [Blank]"

definition render_credentials :: "inter_broker_kerberos \<Rightarrow> toml_item list" where
  "render_credentials ibk =
     [Header ''inter_broker_credentials'', Text ''type'' ''gssapi'', Text ''keytab_path'' GSSAPI_KEYTAB_PATH,
      Escaped ''client_principal'' (ibk_client_principal ibk), Escaped ''service_name'' (unwrap_or ''kafka'' (ibk_service_name ibk)),
      Escaped ''kdc_url'' (ibk_kdc_url ibk), Blank]"

definition render_tls_config :: "broker_tls_render \<Rightarrow> toml_item list" where
  "render_tls_config t =
     [Header ''tls_config'', Text ''cert_path'' (btr_cert_path t), Text ''key_path'' (btr_key_path t),
      Text ''trust_roots_path'' (btr_trust_roots_path t), Text ''client_ca_path'' (btr_client_ca_path t), Text ''client_auth'' (btr_client_auth t)]"

section \<open>The file\<close>

record file_input =
  fi_broker_id :: int
  fi_listeners :: "listener list"
  fi_addresses :: "(string, advertised_address) bmap"
  fi_inter_broker :: string
  fi_server_properties :: "(string, string) bmap"
  fi_tls :: "broker_tls_render option"
  fi_clients_ca_path :: "string option"
  fi_delegation_token :: bool
  fi_authorization :: "kafka_authorization option"
  fi_kerberos :: "inter_broker_kerberos option"
  fi_tiered_storage :: "tiered_storage option"
  fi_voters :: "string list"
  fi_server_name :: string
  fi_operator_listener :: "string option"

definition anonymous_inter_broker :: "file_input \<Rightarrow> bool" where
  "anonymous_inter_broker i \<longleftrightarrow> fi_delegation_token i
     \<and> (case find (\<lambda>l. ls_name l = fi_inter_broker i) (fi_listeners i) of Some l \<Rightarrow> ls_authentication l = None | None \<Rightarrow> False)"

definition authorization_block :: "file_input \<Rightarrow> authorization_render option" where
  "authorization_block i =
     (case fi_authorization i of
        Some a \<Rightarrow> Some (authorization_from_spec a (anonymous_inter_broker i))
      | None \<Rightarrow> if fi_delegation_token i then Some operator_simple else None)"

definition render_properties :: "(string, string) bmap \<Rightarrow> toml_item list" where
  "render_properties ps = (if ps = [] then [] else [Header ''server_properties''] @ map (\<lambda>(k, v). Quoted k v) ps @ [Blank])"

definition render_broker_toml_with_operator :: "render_env \<Rightarrow> file_input \<Rightarrow> toml_item list option" where
  "render_broker_toml_with_operator env i =
     Option.bind (render_listener_sections env (fi_broker_id i) (fi_listeners i) (fi_addresses i) (fi_clients_ca_path i)
         (fi_operator_listener i)) (\<lambda>sections.
       Option.bind (render_remote_storage env (fi_tiered_storage i)) (\<lambda>remote.
         Some (render_broker_header (fi_broker_id i) (fi_inter_broker i) (fi_tls i) (fi_voters i) (fi_server_name i)
           @ sections @ render_properties (fi_server_properties i) @ remote
           @ (case authorization_block i of None \<Rightarrow> [] | Some r \<Rightarrow> render_authorization r)
           @ (case canonical_oauth_config (fi_listeners i) of None \<Rightarrow> [] | Some c \<Rightarrow> render_oauth c)
           @ (case canonical_gssapi_config (fi_listeners i) of None \<Rightarrow> [] | Some g \<Rightarrow> render_gssapi env g)
           @ (if list_ex (\<lambda>l. ls_name l = fi_inter_broker i \<and> gssapi_of l \<noteq> None) (fi_listeners i)
              then (case fi_kerberos i of None \<Rightarrow> [] | Some k \<Rightarrow> render_credentials k) else [])
           @ (case fi_tls i of None \<Rightarrow> [] | Some t \<Rightarrow> render_tls_config t))))"

definition controller_tls_per_node :: "node_info list \<Rightarrow> (int, broker_tls_render) bmap" where
  "controller_tls_per_node nodes = bm_collect (map (\<lambda>n. (ni_broker_id n,
     \<lparr>btr_controller_listener_protocol = ''Ssl'', btr_cert_path = leaf_path (ni_broker_id n) ''.crt'',
      btr_key_path = leaf_path (ni_broker_id n) ''.key'', btr_client_ca_path = ''/etc/krabka/cluster-ca/ca.crt'',
      btr_client_auth = ''Required'', btr_trust_roots_path = ''/etc/krabka/cluster-ca/ca.crt''\<rparr>)) nodes)"

record config_map =
  cfgm_meta :: object_meta
  cfgm_data :: "(string, string) bmap"

type_synonym addresses_per_node = "(int, (string, advertised_address) bmap) bmap"
type_synonym roles_per_node = "(int, node_role list) bmap"

record configmap_input =
  ci_listeners :: "listener list"
  ci_operator_listener :: "string option"
  ci_addresses :: addresses_per_node
  ci_roles :: roles_per_node
  ci_inter_broker :: string
  ci_tls :: "(int, broker_tls_render) bmap option"
  ci_clients_ca_path :: "string option"
  ci_logging_filter :: "string option"

definition quorum_voters :: "configmap_input \<Rightarrow> string list" where
  "quorum_voters c = List.map_filter (\<lambda>(b, addrs).
     if (case bm_get (ci_roles c) b of Some roles \<Rightarrow> Controller \<in> set roles | None \<Rightarrow> False)
     then map_option (\<lambda>a. int_to_string b @ ''@'' @ aa_host a @ '':'' @ int_to_string CONTROLLER_PORT)
       (bm_get addrs (ci_inter_broker c))
     else None) (ci_addresses c)"

text \<open>Controllers only serve the inter-broker and the operator listener.\<close>

definition node_listeners :: "configmap_input \<Rightarrow> int \<Rightarrow> listener list" where
  "node_listeners c b =
     (if (case bm_get (ci_roles c) b of Some roles \<Rightarrow> Broker \<in> set roles | None \<Rightarrow> True) then ci_listeners c
      else filter (\<lambda>l. ls_name l = ci_inter_broker c \<or> ci_operator_listener c = Some (ls_name l)) (ci_listeners c))"

definition node_file_input :: "kafka \<Rightarrow> configmap_input \<Rightarrow> int \<Rightarrow> (string, advertised_address) bmap \<Rightarrow> file_input" where
  "node_file_input k c b addrs =
     \<lparr>fi_broker_id = b, fi_listeners = node_listeners c b, fi_addresses = addrs, fi_inter_broker = ci_inter_broker c,
      fi_server_properties = unwrap_or [] (kspec_config (kf_spec k)), fi_tls = Option.bind (ci_tls c) (\<lambda>m. bm_get m b),
      fi_clients_ca_path = ci_clients_ca_path c, fi_delegation_token = (kspec_delegation_token (kf_spec k) \<noteq> None),
      fi_authorization = kspec_authorization (kf_spec k), fi_kerberos = kspec_inter_broker_kerberos (kf_spec k),
      fi_tiered_storage = kspec_tiered_storage (kf_spec k), fi_voters = quorum_voters c,
      fi_server_name = kafka_name k @ ''-broker-headless.'' @ unwrap_or [] (meta_namespace (kf_meta k)) @ ''.svc.cluster.local'',
      fi_operator_listener = ci_operator_listener c\<rparr>"

text \<open>The bootstrap servers are printed by \<open>serde_json\<close>, which agrees with \<open>toml_string_array\<close> on the one name here.\<close>

definition dynamic_quorum_config :: "kafka \<Rightarrow> toml_item list" where
  "dynamic_quorum_config k =
     [Texts ''bootstrap_servers'' [kafka_name k @ ''-controller-bootstrap.'' @ unwrap_or [] (meta_namespace (kf_meta k))
        @ ''.svc.cluster.local:'' @ int_to_string CONTROLLER_PORT], Flag ''auto_join'' True]"

definition node_file :: "render_env \<Rightarrow> tuning_env \<Rightarrow> kafka \<Rightarrow> configmap_input \<Rightarrow> int \<Rightarrow> (string, advertised_address) bmap \<Rightarrow> toml_item list option" where
  "node_file env tenv k c b addrs =
     map_option (\<lambda>rendered. dynamic_quorum_config k @ rendered
         @ (case kspec_broker_tuning (kf_spec k) of None \<Rightarrow> [] | Some t \<Rightarrow> render_runtime_toml tenv t))
       (render_broker_toml_with_operator env (node_file_input k c b addrs))"

definition file_key :: "int \<Rightarrow> string" where
  "file_key b = ''broker-'' @ int_to_string b @ ''.toml''"

fun add_files ::
  "render_env \<Rightarrow> tuning_env \<Rightarrow> kafka \<Rightarrow> configmap_input \<Rightarrow> addresses_per_node \<Rightarrow> (string, string) bmap \<Rightarrow> (string, string) bmap option" where
  "add_files env tenv k c [] data = Some data"
| "add_files env tenv k c ((b, addrs) # rest) data =
     Option.bind (node_file env tenv k c b addrs) (\<lambda>items. add_files env tenv k c rest (bm_insert (file_key b) (print_items items) data))"

definition render_configmap :: "render_env \<Rightarrow> tuning_env \<Rightarrow> kafka \<Rightarrow> configmap_input \<Rightarrow> (reconcile_error + config_map) option" where
  "render_configmap env tenv k c =
     Option.bind (add_files env tenv k c (ci_addresses c)
         (case ci_logging_filter c of None \<Rightarrow> [] | Some f \<Rightarrow> [(''rust.log'', f)])) (\<lambda>data.
       Some (bind_result (owner_of_kafka k) (\<lambda>owner.
         Inr \<lparr>cfgm_meta = owned_meta (kf_meta k) (kafka_name k @ ''-broker-config'')
                (common_labels (kafka_name k) (kspec_kafka_version (kf_spec k)) None) owner,
              cfgm_data = data\<rparr>)))"

section \<open>What a broker reads\<close>

text \<open>A document: the root table, then the tables in the order of their headers.\<close>

fun toml_sections :: "toml_statement option \<Rightarrow> (string \<times> toml_value) list \<Rightarrow> toml_statement list
    \<Rightarrow> (toml_statement option \<times> (string \<times> toml_value) list) list" where
  "toml_sections h es [] = [(h, es)]"
| "toml_sections h es (Entry k v # ss) = toml_sections h (es @ [(k, v)]) ss"
| "toml_sections h es (s # ss) = (h, es) # toml_sections (Some s) [] ss"

definition document :: "toml_statement list \<Rightarrow> (toml_statement option \<times> (string \<times> toml_value) list) list" where
  "document ss = toml_sections None [] ss"

text \<open>TOML refuses a key or a table that is defined twice.\<close>

definition well_formed_document :: "toml_statement list \<Rightarrow> bool" where
  "well_formed_document ss \<longleftrightarrow> (\<forall>(h, es) \<in> set (document ss). distinct (map fst es))
     \<and> distinct (filter (\<lambda>s. case s of TableHead _ \<Rightarrow> True | _ \<Rightarrow> False) ss)
     \<and> (\<forall>n. TableHead n \<in> set ss \<longrightarrow> TablesHead n \<notin> set ss)"

end
