(* ===== verification/Broker_Files.thy ===== *)
theory Broker_Files
  imports Broker_Toml
begin

text \<open>
  Theorems about the configuration files of \<open>Broker_Toml\<close>: a TOML reader finds exactly what was
  rendered, with every table and key defined once, when the texts need no escaping; mutual TLS
  listeners trust the right CA; validated resources never reach a panic of the renderer; and
  Kerberos rules with a backslash make the file unreadable.
\<close>

section \<open>Keys and tables are defined once\<close>

definition item_keys :: "toml_item \<Rightarrow> string list" where
  "item_keys i =
     (case i of Header _ \<Rightarrow> [] | ArrayHeader _ \<Rightarrow> [] | Blank \<Rightarrow> []
      | Text k _ \<Rightarrow> [k] | Escaped k _ \<Rightarrow> [k] | LiteralText k _ \<Rightarrow> [k] | Number k _ \<Rightarrow> [k] | Flag k _ \<Rightarrow> [k] | Texts k _ \<Rightarrow> [k]
      | Quoted k _ \<Rightarrow> [k] | Inline k _ \<Rightarrow> [k] | Foreign k _ _ \<Rightarrow> [k])"

definition item_heads :: "toml_item \<Rightarrow> string list" where
  "item_heads i = (case i of Header n \<Rightarrow> [n] | _ \<Rightarrow> [])"

definition is_head :: "toml_item \<Rightarrow> bool" where
  "is_head i = (case i of Header _ \<Rightarrow> True | ArrayHeader _ \<Rightarrow> True | _ \<Rightarrow> False)"

abbreviation keys_of :: "toml_item list \<Rightarrow> string list" where "keys_of is \<equiv> concat (map item_keys is)"
abbreviation heads_of :: "toml_item list \<Rightarrow> string list" where "heads_of is \<equiv> concat (map item_heads is)"

lemma item_parts [simp]:
  "item_keys (Header n) = []" "item_keys (ArrayHeader n) = []" "item_keys Blank = []" "item_keys (Text k v) = [k]"
  "item_keys (Escaped k v) = [k]" "item_keys (LiteralText k v) = [k]" "item_keys (Number k n') = [k]" "item_keys (Flag k b) = [k]"
  "item_keys (Texts k vs) = [k]" "item_keys (Quoted k v) = [k]" "item_keys (Inline k fs) = [k]" "item_keys (Foreign k v t) = [k]"
  "item_heads (Header n) = [n]" "item_heads (ArrayHeader n) = []" "item_heads Blank = []" "item_heads (Text k v) = []"
  "item_heads (Escaped k v) = []" "item_heads (LiteralText k v) = []" "item_heads (Number k n') = []" "item_heads (Flag k b) = []"
  "item_heads (Texts k vs) = []" "item_heads (Quoted k v) = []" "item_heads (Inline k fs) = []" "item_heads (Foreign k v t) = []"
  "is_head (Header n)" "is_head (ArrayHeader n)" "\<not> is_head Blank" "\<not> is_head (Text k v)" "\<not> is_head (Escaped k v)"
  "\<not> is_head (LiteralText k v)" "\<not> is_head (Number k n')" "\<not> is_head (Flag k b)" "\<not> is_head (Texts k vs)" "\<not> is_head (Quoted k v)"
  "\<not> is_head (Inline k fs)" "\<not> is_head (Foreign k v t)"
  by (simp_all add: item_keys_def item_heads_def is_head_def)

text \<open>A list of entries, all in the same table; tables, each from its header on.\<close>

definition one_table :: "toml_item list \<Rightarrow> bool" where
  "one_table is \<longleftrightarrow> (\<forall>i \<in> set is. \<not> is_head i) \<and> distinct (keys_of is)"

inductive table_list :: "toml_item list \<Rightarrow> bool" where
  no_table: "table_list []"
| add_table: "is_head h \<Longrightarrow> one_table body \<Longrightarrow> table_list rest \<Longrightarrow> table_list (h # body @ rest)"

lemma table_list_append [intro]: "table_list a \<Longrightarrow> table_list b \<Longrightarrow> table_list (a @ b)"
  by (induction rule: table_list.induct) (auto intro: table_list.intros)

lemma single_table: "is_head h \<Longrightarrow> one_table body \<Longrightarrow> table_list (h # body)"
  using add_table[OF _ _ no_table] by simp

lemma table_list_concat: "(\<And>x. x \<in> set xs \<Longrightarrow> table_list (f x)) \<Longrightarrow> table_list (concat (map f xs))"
  by (induction xs) (auto intro: no_table)

fun entries_of :: "toml_statement list \<Rightarrow> (string \<times> toml_value) list" where
  "entries_of [] = []"
| "entries_of (Entry k v # ss) = (k, v) # entries_of ss"
| "entries_of (s # ss) = entries_of ss"

abbreviation meanings :: "toml_item list \<Rightarrow> toml_statement list" where "meanings is \<equiv> concat (map item_meaning is)"

lemma entries_keys: "map fst (entries_of (meanings is)) = keys_of is"
proof (induction "is")
  case (Cons i "is")
  then show ?case by (cases i) (auto simp: item_meaning_def)
qed simp

lemma sections_of_table:
  "\<forall>i \<in> set is. \<not> is_head i \<Longrightarrow> toml_sections h es (meanings is @ ss) = toml_sections h (es @ entries_of (meanings is)) ss"
proof (induction "is" arbitrary: es)
  case (Cons i "is")
  then show ?case by (cases i) (auto simp: item_meaning_def)
qed simp

lemma sections_distinct:
  "table_list ts \<Longrightarrow> distinct (map fst es) \<Longrightarrow> (h', es') \<in> set (toml_sections h es (meanings ts)) \<Longrightarrow> distinct (map fst es')"
proof (induction arbitrary: h es rule: table_list.induct)
  case (add_table i body rest)
  have heads: "\<forall>x \<in> set body. \<not> is_head x" and keys: "distinct (keys_of body)" using add_table.hyps(2) by (simp_all add: one_table_def)
  obtain s where s: "item_meaning i = [s]" "\<And>h es ss. toml_sections h es (s # ss) = (h, es) # toml_sections (Some s) [] ss"
    using add_table.hyps(1) by (cases i) (auto simp: item_meaning_def)
  have "toml_sections h es (meanings (i # body @ rest)) = (h, es) # toml_sections (Some s) (entries_of (meanings body)) (meanings rest)"
    using sections_of_table[OF heads, of "Some s" "[]" "meanings rest"] s by simp
  moreover have "distinct (map fst (entries_of (meanings body)))" using keys by (simp add: entries_keys)
  ultimately show ?case using add_table.IH[of "entries_of (meanings body)" "Some s"] add_table.prems by auto
qed auto

lemma table_heads: "filter (\<lambda>s. case s of TableHead _ \<Rightarrow> True | _ \<Rightarrow> False) (meanings is) = map TableHead (heads_of is)"
proof (induction "is")
  case (Cons i "is")
  then show ?case by (cases i) (auto simp: item_meaning_def)
qed simp

lemma arrays_of_items: "TablesHead n \<in> set (meanings is) \<longleftrightarrow> ArrayHeader n \<in> set is"
proof (induction "is")
  case (Cons i "is")
  then show ?case by (cases i) (auto simp: item_meaning_def)
qed simp

lemma heads_of_items: "TableHead n \<in> set (meanings is) \<longleftrightarrow> n \<in> set (heads_of is)"
proof (induction "is")
  case (Cons i "is")
  then show ?case by (cases i) (auto simp: item_meaning_def)
qed simp

lemma well_formedI:
  assumes "one_table rt" "table_list ts" "distinct (heads_of ts)"
    and "\<And>n. ArrayHeader n \<in> set ts \<Longrightarrow> n \<notin> set (heads_of ts)"
  shows "well_formed_document (meanings (rt @ ts))"
proof -
  have rt: "\<forall>i \<in> set rt. \<not> is_head i" and keys: "distinct (map fst (entries_of (meanings rt)))"
    using assms(1) by (simp_all add: one_table_def entries_keys)
  have "document (meanings (rt @ ts)) = toml_sections None (entries_of (meanings rt)) (meanings ts)"
    using sections_of_table[OF rt, of None "[]" "meanings ts"] by (simp add: document_def)
  then have D: "\<forall>(h, es) \<in> set (document (meanings (rt @ ts))). distinct (map fst es)"
    using sections_distinct[OF assms(2) keys] by auto
  have H: "heads_of (rt @ ts) = heads_of ts"
    using rt by (auto simp: is_head_def item_heads_def split: toml_item.splits)
  have A: "ArrayHeader n \<in> set (rt @ ts) \<longleftrightarrow> ArrayHeader n \<in> set ts" for n using rt by auto
  have "distinct (map TableHead (heads_of ts))" using assms(3) by (simp add: distinct_map inj_on_def)
  with D assms(4) show ?thesis
    unfolding well_formed_document_def table_heads arrays_of_items heads_of_items H A by blast
qed

section \<open>The file is well formed\<close>

definition when_key :: "bool \<Rightarrow> string \<Rightarrow> string list" where
  "when_key b k = (if b then [k] else [])"

lemma when_key_simps:
  "x \<in> set (when_key b k) \<longleftrightarrow> b \<and> x = k"
  "distinct (when_key b k @ ks) \<longleftrightarrow> (b \<longrightarrow> k \<notin> set ks) \<and> distinct ks" "distinct (when_key b k)"
  by (auto simp: when_key_def)

lemma keys_optional:
  "keys_of (optional_item (\<lambda>x. Text k (f x)) v) = when_key (v \<noteq> None) k"
  "keys_of (optional_item (\<lambda>x. Escaped k (f x)) v) = when_key (v \<noteq> None) k"
  "keys_of (optional_item (\<lambda>x. LiteralText k (f x)) v) = when_key (v \<noteq> None) k"
  "keys_of (optional_item (\<lambda>x. Number k (h x)) v) = when_key (v \<noteq> None) k"
  "keys_of (optional_item (\<lambda>x. Flag k (p x)) v) = when_key (v \<noteq> None) k"
  "keys_of (optional_item (\<lambda>x. Inline k (q x)) v) = when_key (v \<noteq> None) k"
  by (auto simp: when_key_def optional_item_def split: option.splits)

lemma keys_if: "keys_of (if b then [Flag k v] else []) = when_key b k" "keys_of (if b then [Text k t] else []) = when_key b k"
  "keys_of (if b then [] else [Text k t]) = when_key (\<not> b) k" "keys_of (if b then [] else [Texts k ts]) = when_key (\<not> b) k"
  by (simp_all add: when_key_def)

lemma heads_optional:
  "(\<forall>i \<in> set (optional_item f v). \<not> is_head i) \<longleftrightarrow> (\<forall>x. v = Some x \<longrightarrow> \<not> is_head (f x))"
  by (auto simp: optional_item_def split: option.splits)

lemmas table_simps = one_table_def keys_optional keys_if heads_optional ball_Un when_key_simps

lemma header_table: "one_table (render_broker_header b ib tls voters server)"
  by (simp add: table_simps render_broker_header_def del: distinct_append)

lemma source_keys:
  "keys_of (render_oauth_source c) =
     when_key (oa_access_token_is_jwt c \<and> oa_jwks_endpoint_uri c \<noteq> None) ''jwks_endpoint_uri''
     @ when_key (\<not> oa_access_token_is_jwt c \<and> oa_introspection_endpoint_uri c \<noteq> None) ''introspection_endpoint_uri''
     @ when_key (\<not> oa_access_token_is_jwt c \<and> oa_user_info_endpoint_uri c \<noteq> None) ''userinfo_endpoint_uri''
     @ when_key (\<not> oa_access_token_is_jwt c \<and> oa_client_id c \<noteq> None) ''introspection_client_id''
     @ when_key (\<not> oa_access_token_is_jwt c) ''introspection_client_secret_path''
     @ when_key (\<not> oa_access_token_is_jwt c \<and> oa_introspection_http_timeout_seconds c \<noteq> None) ''introspection_http_timeout_ms''"
  by (cases "oa_access_token_is_jwt c") (simp_all add: render_oauth_source_def keys_optional when_key_def)

lemma oauth_table: "table_list (render_oauth c)"
proof -
  have heads: "\<forall>i \<in> set (render_oauth_source c). \<not> is_head i"
    by (simp add: render_oauth_source_def heads_optional ball_Un)
  have "one_table (tl (render_oauth c))"
    by (simp add: table_simps render_oauth_def source_keys heads del: distinct_append)
  moreover have "render_oauth c = Header ''oauthbearer'' # tl (render_oauth c)" by (simp add: render_oauth_def)
  ultimately show ?thesis using single_table[OF item_parts(25)] by metis
qed

lemma table_of_header: "one_table is \<Longrightarrow> table_list (Header n # is)" "one_table is \<Longrightarrow> table_list (ArrayHeader n # is)"
  by (auto intro: single_table)

lemma blank_table: "one_table is \<Longrightarrow> one_table (is @ [Blank])" "one_table [Blank]" "one_table []" "one_table [Flag k v]"
  by (auto simp: one_table_def)

lemma gssapi_table: "table_list (render_gssapi env g)"
  by (simp add: render_gssapi_def table_of_header table_simps del: distinct_append)

lemma credentials_table: "table_list (render_credentials k)"
  by (simp add: render_credentials_def table_of_header table_simps)

lemma tls_table: "table_list (render_tls_config t)"
  by (simp add: render_tls_config_def table_of_header table_simps)

lemma authorization_tables: "table_list (render_authorization r)"
proof -
  have "table_list [Header ''authorization'', Text ''type'' (azr_kind r), Texts ''super_users'' (azr_super_users r), Blank]"
    by (simp add: table_of_header table_simps)
  moreover have "table_list ([Header ''authorization.opa'', Text ''url'' (opr_url opa)]
            @ optional_item (Flag ''allow_on_error'') (opr_allow_on_error opa)
            @ optional_item (\<lambda>n. Number ''maximum_cache_size'' (uint n)) (opr_maximum_cache_size opa)
            @ optional_item (Number ''expire_after_ms'') (opr_expire_after_ms opa)
            @ [Blank])" for opa
    by (simp add: table_of_header table_simps del: distinct_append)
  ultimately show ?thesis
    unfolding render_authorization_def by (auto split: option.splits simp del: append.simps intro: no_table)
qed

lemma nested_table: "one_table b \<Longrightarrow> table_list (Header n # Blank # Header m # b)"
  using add_table[of "Header n" "[Blank]" "Header m # b"] table_of_header(1)[of b m] by (simp add: blank_table)

lemma backend_tables:
  assumes "render_backend ts = Some is"
  shows "table_list is"
proof (cases "ts_kind ts")
  case Local
  with assms show ?thesis by (auto simp: render_backend_def table_of_header table_simps)
next
  case S3
  then show ?thesis
    using assms by (auto simp: render_backend_def table_simps intro!: nested_table simp del: distinct_append)
next
  case Gcs
  then show ?thesis
    using assms by (auto simp: render_backend_def table_simps intro!: nested_table simp del: distinct_append)
qed

lemma metadata_table: "one_table (render_metadata_topic env t)"
  by (simp add: render_metadata_topic_def table_simps del: distinct_append)

lemma remote_tables:
  assumes "render_remote_storage env ts = Some is"
  shows "table_list is"
proof (cases ts)
  case (Some t)
  with assms obtain b where b: "render_backend t = Some b" and is_eq: "is = b @ Header ''remote_storage.kafka_metadata''
          # ((if (case ts_metadata_manager t of Some mm \<Rightarrow> mm_kind mm = InMemory | None \<Rightarrow> False) then [Flag ''in_memory'' True]
             else case Option.bind (ts_metadata_manager t) mm_topic of None \<Rightarrow> [] | Some t \<Rightarrow> render_metadata_topic env t)
          @ [Blank])" by (auto simp: render_remote_storage_def)
  have "one_table ((if (case ts_metadata_manager t of Some mm \<Rightarrow> mm_kind mm = InMemory | None \<Rightarrow> False) then [Flag ''in_memory'' True]
             else case Option.bind (ts_metadata_manager t) mm_topic of None \<Rightarrow> [] | Some t \<Rightarrow> render_metadata_topic env t) @ [Blank])"
    by (rule blank_table) (auto simp: blank_table metadata_table split: option.splits)
  then show ?thesis unfolding is_eq using backend_tables[OF b] table_of_header(1) by blast
qed (use assms in \<open>auto simp: render_remote_storage_def intro: no_table\<close>)

lemma listener_table:
  assumes "render_listener env b addrs ca op l = Some is"
  shows "table_list is"
  using assms by (auto simp: render_listener_def table_simps intro!: table_of_header simp del: distinct_append)

lemma concat_optionsD: "concat_options xs = Some is \<Longrightarrow> \<exists>ys. xs = map Some ys \<and> is = concat ys"
proof (induction xs arbitrary: "is")
  case (Cons x xs)
  then obtain a r where "x = Some a" "concat_options xs = Some r" "is = a @ r" by (auto simp: bind_eq_Some_conv)
  with Cons.IH[of r] show ?case by (metis concat.simps(2) list.simps(9))
qed simp

lemma listener_tables:
  assumes "render_listener_sections env b ls addrs ca op = Some is"
  shows "table_list is"
proof -
  from concat_optionsD[OF assms[unfolded render_listener_sections_def]]
  obtain ys where ys: "map (render_listener env b addrs ca op) ls = map Some ys" "is = concat (map (\<lambda>y. y) ys)" by auto
  have "table_list y" if "y \<in> set ys" for y
  proof -
    from that have "Some y \<in> set (map (render_listener env b addrs ca op) ls)" unfolding ys(1) by simp
    then show ?thesis using listener_table by force
  qed
  then show ?thesis unfolding ys(2) by (rule table_list_concat)
qed

lemma properties_table: "bm_ok ps \<Longrightarrow> table_list (render_properties ps)"
proof -
  assume "bm_ok ps"
  moreover have "keys_of (map (\<lambda>(k, v). Quoted k v) ps) = map fst ps" by (induction ps) auto
  ultimately have "one_table (map (\<lambda>(k, v). Quoted k v) ps @ [Blank])"
    by (intro blank_table) (auto simp: one_table_def dest: bm_ok_distinct)
  then show ?thesis by (auto simp: render_properties_def intro: no_table table_of_header)
qed

lemma runtime_values:
  "keys_of (List.map_filter (\<lambda>(_, field). map_option (render_tuning_value env field) (bm_get t field)) fs)
     = filter (\<lambda>f. bm_get t f \<noteq> None) (map snd fs)"
proof (induction fs)
  case (Cons f fs)
  have "item_keys (render_tuning_value env n v) = [n]" for n v by (cases v) (simp_all add: render_tuning_value_def)
  with Cons show ?case by (cases "bm_get t (snd f)") (auto simp: List.map_filter_def split: prod.splits)
qed (simp add: List.map_filter_def)

lemma runtime_table: "table_list (render_runtime_toml env t)"
proof -
  have "\<not> is_head (render_tuning_value env n v)" for n v by (cases v) (simp_all add: render_tuning_value_def)
  then have "one_table (List.map_filter (\<lambda>(_, field). map_option (render_tuning_value env field) (bm_get t field)) tuning_fields)"
    using tuning_names_distinct by (auto simp: one_table_def runtime_values set_map_filter_Some)
  from blank_table(1)[OF this] show ?thesis
    by (auto simp: render_runtime_toml_def Let_def intro: no_table table_of_header)
qed

lemma heads_of_optional:
  "heads_of (optional_item (\<lambda>x. Text k (f x)) v) = []" "heads_of (optional_item (\<lambda>x. Escaped k (f x)) v) = []"
  "heads_of (optional_item (\<lambda>x. LiteralText k (f x)) v) = []" "heads_of (optional_item (\<lambda>x. Number k (h x)) v) = []"
  "heads_of (optional_item (\<lambda>x. Flag k (p x)) v) = []" "heads_of (optional_item (\<lambda>x. Inline k (q x)) v) = []"
  by (auto simp: optional_item_def split: option.splits)

lemma heads_of_table: "one_table is \<Longrightarrow> heads_of is = []"
  by (auto simp: one_table_def is_head_def item_heads_def split: toml_item.splits)

lemma heads_if: "heads_of (if b then [Flag k v] else []) = []" "heads_of (if b then [Text k t] else []) = []"
  "heads_of (if b then [] else [Text k t]) = []"
  by simp_all

lemmas head_simps = heads_of_optional heads_if

lemma heads_oauth: "heads_of (render_oauth c) = [''oauthbearer'']"
proof -
  have "heads_of (render_oauth_source c) = []" by (simp add: render_oauth_source_def head_simps del: concat_eq_Nil_conv)
  then show ?thesis by (simp add: render_oauth_def head_simps del: concat_eq_Nil_conv)
qed

lemma heads_gssapi: "heads_of (render_gssapi env g) = [''gssapi'']"
  by (simp add: render_gssapi_def head_simps)

lemma heads_authorization:
  "heads_of (render_authorization r) = ''authorization'' # (if azr_opa r = None then [] else [''authorization.opa''])"
  by (simp add: render_authorization_def head_simps split: option.splits)

lemma heads_backend:
  assumes "render_backend ts = Some is"
  shows "heads_of is \<in> {[''remote_storage''], [''remote_storage'', ''remote_storage.s3''], [''remote_storage'', ''remote_storage.gcs'']}"
proof (cases "ts_kind ts")
  case S3
  with assms have "heads_of is = [''remote_storage'', ''remote_storage.s3'']" by (auto simp: render_backend_def head_simps)
  then show ?thesis by simp
next
  case Gcs
  with assms have "heads_of is = [''remote_storage'', ''remote_storage.gcs'']" by (auto simp: render_backend_def head_simps)
  then show ?thesis by simp
qed (use assms in \<open>auto simp: render_backend_def\<close>)

lemma heads_remote:
  assumes "render_remote_storage env ts = Some is"
  shows "set (heads_of is) \<subseteq> {''remote_storage'', ''remote_storage.s3'', ''remote_storage.gcs'', ''remote_storage.kafka_metadata''}
    \<and> distinct (heads_of is)"
proof (cases ts)
  case (Some t)
  with assms obtain b m where b: "render_backend t = Some b" and is_eq: "is = b @ [Header ''remote_storage.kafka_metadata''] @ m @ [Blank]"
    and m: "m = (if (case ts_metadata_manager t of Some mm \<Rightarrow> mm_kind mm = InMemory | None \<Rightarrow> False) then [Flag ''in_memory'' True]
             else case Option.bind (ts_metadata_manager t) mm_topic of None \<Rightarrow> [] | Some t \<Rightarrow> render_metadata_topic env t)"
    by (auto simp: render_remote_storage_def)
  have "heads_of m = []" unfolding m by (rule heads_of_table) (auto simp: blank_table metadata_table split: option.splits)
  then have "heads_of is = heads_of b @ [''remote_storage.kafka_metadata'']" unfolding is_eq by (simp del: concat_eq_Nil_conv)
  moreover obtain hs where hs: "hs = heads_of b" by blast
  moreover from heads_backend[OF b] have "set (hs @ [''remote_storage.kafka_metadata'']) \<subseteq> {''remote_storage'', ''remote_storage.s3'', ''remote_storage.gcs'',
      ''remote_storage.kafka_metadata''} \<and> distinct (hs @ [''remote_storage.kafka_metadata''])"
    unfolding hs[symmetric] by auto
  ultimately show ?thesis by metis
qed (use assms in \<open>auto simp: render_remote_storage_def\<close>)

lemma heads_listener: "render_listener env b addrs ca op l = Some is \<Longrightarrow> heads_of is = []"
  by (auto simp: render_listener_def head_simps simp del: concat_eq_Nil_conv)

lemma heads_listeners:
  assumes "render_listener_sections env b ls addrs ca op = Some is"
  shows "heads_of is = []"
proof -
  from concat_optionsD[OF assms[unfolded render_listener_sections_def]]
  obtain ys where ys: "map (render_listener env b addrs ca op) ls = map Some ys" "is = concat ys" by auto
  have "heads_of y = []" if "y \<in> set ys" for y
  proof -
    from that have "Some y \<in> set (map (render_listener env b addrs ca op) ls)" unfolding ys(1) by simp
    then show ?thesis using heads_listener by force
  qed
  then show ?thesis unfolding ys(2) by auto
qed

lemma heads_runtime: "heads_of (render_runtime_toml env t) = [] \<or> heads_of (render_runtime_toml env t) = [''runtime'']"
proof -
  obtain vs where vs: "vs = List.map_filter (\<lambda>(_, field). map_option (render_tuning_value env field) (bm_get t field)) tuning_fields"
    by blast
  have "item_heads (render_tuning_value env n v) = []" for n v by (cases v) (simp_all add: render_tuning_value_def)
  then have "heads_of vs = []" by (auto simp: set_map_filter_Some vs)
  then show ?thesis unfolding render_runtime_toml_def vs[symmetric] by (simp add: Let_def del: concat_eq_Nil_conv)
qed

section \<open>Plain input\<close>

definition plain_char :: "char \<Rightarrow> bool" where
  "plain_char c \<longleftrightarrow> c \<noteq> quote_char \<and> c \<noteq> backslash \<and> \<not> is_control c"

lemma literal_chars: "list_all plain_char (''/.-:@=_ '' @ ''0123456789'' @ ''abcdefghijklmnopqrstuvwxyz'' @ ''ABCDEFGHIJKLMNOPQRSTUVWXYZ'')"
  by code_simp

lemma key_chars: "list_all bare_char (''0123456789_'' @ ''abcdefghijklmnopqrstuvwxyz'')"
  by code_simp

lemmas literal_char_facts [simp] = literal_chars[simplified] key_chars[simplified]

lemma plain_text_simps [simp]: "plain_text []" "plain_text (c # s) \<longleftrightarrow> plain_char c \<and> plain_text s"
  by (auto simp: plain_text_def plain_char_def)

lemma clean_text_simps [simp]: "clean_text ''kafka''"
  by code_simp

lemma bare_key_simps [simp]: "bare_key [c] \<longleftrightarrow> bare_char c" "bare_key (c # d # s) \<longleftrightarrow> bare_char c \<and> bare_key (d # s)"
  by (auto simp: bare_key_def)

lemma header_char_simps [simp]: "header_char (CHR ''.'')" "bare_char c \<Longrightarrow> header_char c"
  by (simp_all add: header_char_def)

lemmas path_defs = TIER_STORAGE_PATH_def GSSAPI_KEYTAB_PATH_def GCS_CREDENTIALS_DIR_def GCS_CREDENTIALS_FILE_def tls_principal_def
  OPERATOR_IDENTITY_def leaf_path_def

lemma plain_append [simp]: "plain_text (a @ b) \<longleftrightarrow> plain_text a \<and> plain_text b"
  by (auto simp: plain_text_def)

lemma plain_int [simp]: "plain_text (int_to_string v)"
proof -
  have "c \<noteq> quote_char \<and> c \<noteq> backslash \<and> \<not> is_control c" if "is_ascii_digit c \<or> c = CHR ''-''" for c
    using that by (auto simp: is_ascii_digit_def is_control_def Let_def)
  then show ?thesis
    using nat_to_string_digits by (auto simp: plain_text_def int_to_string_def)
qed

lemma plain_leaf [simp]: "plain_text (leaf_path b ''.crt'')" "plain_text (leaf_path b ''.key'')"
  by (simp_all add: leaf_path_def)

lemma item_ok_simps [simp]:
  "item_ok (Header n) \<longleftrightarrow> n \<noteq> [] \<and> list_all header_char n" "item_ok (ArrayHeader n) \<longleftrightarrow> n \<noteq> [] \<and> list_all header_char n"
  "item_ok Blank" "item_ok (Text k v) \<longleftrightarrow> bare_key k \<and> plain_text v" "item_ok (Escaped k v) \<longleftrightarrow> bare_key k \<and> clean_text v"
  "item_ok (LiteralText k v) \<longleftrightarrow> bare_key k \<and> literal_ok v" "item_ok (Number k n') \<longleftrightarrow> bare_key k" "item_ok (Flag k b) \<longleftrightarrow> bare_key k"
  "item_ok (Texts k vs) \<longleftrightarrow> bare_key k \<and> list_all plain_text vs" "item_ok (Quoted k v) \<longleftrightarrow> plain_text k \<and> plain_text v"
  "item_ok (Inline k fs) \<longleftrightarrow> bare_key k \<and> fs \<noteq> [] \<and> list_all inline_ok fs \<and> distinct (map fst fs)"
  by (simp_all add: item_ok_def)

abbreviation all_ok :: "toml_item list \<Rightarrow> bool" where "all_ok is \<equiv> list_all item_ok is"

lemma ok_optional [simp]: "all_ok (optional_item f v) \<longleftrightarrow> (\<forall>x. v = Some x \<longrightarrow> item_ok (f x))"
  by (auto simp: optional_item_def split: option.splits)

lemma header_ok:
  assumes "plain_text ib" "list_all plain_text voters" "plain_text server" "\<And>t. tls = Some t \<Longrightarrow> plain_text (btr_controller_listener_protocol t)"
  shows "all_ok (render_broker_header b ib tls voters server)"
  using assms by (simp add: render_broker_header_def)

abbreviation maybe :: "(string \<Rightarrow> bool) \<Rightarrow> string option \<Rightarrow> bool" where
  "maybe P v \<equiv> (\<forall>x. v = Some x \<longrightarrow> P x)"

definition plain_oauth :: "oauth_config \<Rightarrow> bool" where
  "plain_oauth c \<longleftrightarrow> plain_text (oa_valid_issuer_uri c)
     \<and> list_all (maybe plain_text) [oa_jwks_endpoint_uri c, oa_valid_audience c, oa_user_name_claim c, oa_introspection_endpoint_uri c,
          oa_user_info_endpoint_uri c, oa_client_id c, oa_valid_token_type c, oa_fallback_user_name_claim c,
          oa_fallback_user_name_prefix c, oa_groups_claim_delimiter c]
     \<and> list_all (maybe literal_ok) [oa_custom_claim_check c, oa_groups_claim c]"

definition plain_gssapi :: "gssapi_config \<Rightarrow> bool" where
  "plain_gssapi g \<longleftrightarrow> list_all plain_text (ga_principal_to_local_rules g)
     \<and> list_all (maybe clean_text) [ga_service_name g, ga_realm g, ga_kdc g]"

definition plain_kerberos :: "inter_broker_kerberos \<Rightarrow> bool" where
  "plain_kerberos k \<longleftrightarrow> clean_text (ibk_client_principal k) \<and> maybe clean_text (ibk_service_name k) \<and> clean_text (ibk_kdc_url k)"

definition plain_authorization :: "kafka_authorization \<Rightarrow> bool" where
  "plain_authorization a =
     (case a of SimpleAcl users \<Rightarrow> list_all plain_text users | Opa url _ _ _ _ users \<Rightarrow> plain_text url \<and> list_all plain_text users)"

definition plain_tiered :: "tiered_storage \<Rightarrow> bool" where
  "plain_tiered ts \<longleftrightarrow>
     (\<forall>s. ts_s3 ts = Some s \<longrightarrow> clean_text (s3_bucket s) \<and> clean_text (s3_region s) \<and> maybe clean_text (s3_prefix s) \<and> maybe clean_text (s3_endpoint s))
     \<and> (\<forall>s. ts_gcs ts = Some s \<longrightarrow> clean_text (gcs_bucket s) \<and> maybe clean_text (gcs_prefix s) \<and> maybe clean_text (gcs_endpoint s))
     \<and> (\<forall>mm t. ts_metadata_manager ts = Some mm \<and> mm_topic mm = Some t \<longrightarrow> clean_text (tmm_bootstrap t))"

definition plain_tls :: "broker_tls_render \<Rightarrow> bool" where
  "plain_tls t \<longleftrightarrow> list_all plain_text [btr_controller_listener_protocol t, btr_cert_path t, btr_key_path t, btr_client_ca_path t,
     btr_client_auth t, btr_trust_roots_path t]"

definition plain_env :: "render_env \<Rightarrow> bool" where
  "plain_env env \<longleftrightarrow> (\<forall>v. plain_text (re_human_time env v)) \<and> (\<forall>v. plain_text (re_human_size env v)) \<and> (\<forall>m. plain_text (re_wire_name env m))"

definition plain_listener :: "listener \<Rightarrow> bool" where
  "plain_listener l \<longleftrightarrow> plain_text (ls_name l) \<and> (\<forall>c. oauth_of l = Some c \<longrightarrow> plain_oauth c) \<and> (\<forall>g. gssapi_of l = Some g \<longrightarrow> plain_gssapi g)"

definition plain_addresses :: "(string, advertised_address) bmap \<Rightarrow> bool" where
  "plain_addresses m \<longleftrightarrow> (\<forall>(_, a) \<in> set m. plain_text (aa_host a))"

lemma authorization_ok:
  assumes "plain_authorization a"
  shows "all_ok (render_authorization (authorization_from_spec a anon))"
proof -
  have "list_all plain_text us \<Longrightarrow> list_all plain_text (merge_operator_principals us anon)" for us
    by (simp add: merge_operator_principals_def Let_def path_defs)
  with assms show ?thesis
    by (auto simp: plain_authorization_def render_authorization_def authorization_from_spec_def split: kafka_authorization.splits)
qed

lemma operator_simple_ok: "all_ok (render_authorization operator_simple)"
  by (simp add: render_authorization_def operator_simple_def path_defs)

lemma backend_ok:
  assumes "plain_tiered ts" "render_backend ts = Some is"
  shows "all_ok is"
proof (cases "ts_kind ts")
  case Local
  with assms show ?thesis by (auto simp: render_backend_def path_defs)
next
  case S3
  with assms obtain s where "ts_s3 ts = Some s" by (auto simp: render_backend_def)
  with S3 assms show ?thesis by (auto simp: render_backend_def plain_tiered_def)
next
  case Gcs
  with assms obtain s where "ts_gcs ts = Some s" by (auto simp: render_backend_def)
  with Gcs assms show ?thesis by (auto simp: render_backend_def plain_tiered_def path_defs)
qed

lemma remote_ok:
  assumes "\<And>t. ts = Some t \<Longrightarrow> plain_tiered t" "plain_env env" "render_remote_storage env ts = Some is"
  shows "all_ok is"
proof (cases ts)
  case (Some t)
  with assms(3) obtain b where b: "render_backend t = Some b" and is_eq: "is = b @ [Header ''remote_storage.kafka_metadata'']
          @ (if (case ts_metadata_manager t of Some mm \<Rightarrow> mm_kind mm = InMemory | None \<Rightarrow> False) then [Flag ''in_memory'' True]
             else case Option.bind (ts_metadata_manager t) mm_topic of None \<Rightarrow> [] | Some t \<Rightarrow> render_metadata_topic env t)
          @ [Blank]" by (auto simp: render_remote_storage_def)
  have "all_ok (render_metadata_topic env tp)" if "Option.bind (ts_metadata_manager t) mm_topic = Some tp" for tp
    using that assms(1)[OF Some] assms(2)
    by (auto simp: render_metadata_topic_def plain_tiered_def plain_env_def bind_eq_Some_conv)
  with backend_ok[OF assms(1)[OF Some] b] show ?thesis unfolding is_eq by (auto split: option.splits)
qed (use assms in \<open>auto simp: render_remote_storage_def\<close>)

lemma oauth_ok_items: "plain_oauth c \<Longrightarrow> all_ok (render_oauth c)"
  by (simp add: plain_oauth_def render_oauth_def render_oauth_source_def)

lemma gssapi_ok_items: "plain_env env \<Longrightarrow> plain_gssapi g \<Longrightarrow> all_ok (render_gssapi env g)"
  by (cases "ga_service_name g") (simp_all add: plain_gssapi_def plain_env_def render_gssapi_def path_defs)

lemma credentials_ok: "plain_kerberos k \<Longrightarrow> all_ok (render_credentials k)"
  by (cases "ibk_service_name k") (simp_all add: plain_kerberos_def render_credentials_def path_defs)

lemma tls_ok: "plain_tls t \<Longrightarrow> all_ok (render_tls_config t)"
  by (simp add: plain_tls_def render_tls_config_def)

lemma properties_ok: "(\<And>k v. (k, v) \<in> set ps \<Longrightarrow> plain_text k \<and> plain_text v) \<Longrightarrow> all_ok (render_properties ps)"
  by (auto simp: render_properties_def list_all_iff)

lemma listener_ok_items:
  assumes "plain_env env" "plain_addresses addrs" "maybe plain_text ca" "plain_text (ls_name l)" "render_listener env b addrs ca op l = Some is"
  shows "all_ok is"
proof -
  have host: "plain_text (aa_host a)" if "bm_get addrs (ls_name l) = Some a" for a
    using that assms(2) by (auto simp: plain_addresses_def dest: map_of_SomeD)
  have proto: "plain_text (protocol_name p)" for p by (cases p) (simp_all add: protocol_name_def)
  show ?thesis
    using assms(1,3,4,5) host proto
    by (cases ca; cases "bm_get addrs (ls_name l)") (auto simp: render_listener_def inline_ok_def plain_env_def)
qed

lemma listeners_ok_items:
  assumes "plain_env env" "plain_addresses addrs" "maybe plain_text ca" "\<And>l. l \<in> set ls \<Longrightarrow> plain_text (ls_name l)"
    and "render_listener_sections env b ls addrs ca op = Some is"
  shows "all_ok is"
proof -
  from concat_optionsD[OF assms(5)[unfolded render_listener_sections_def]]
  obtain ys where ys: "map (render_listener env b addrs ca op) ls = map Some ys" "is = concat ys" by auto
  have "all_ok y" if "y \<in> set ys" for y
  proof -
    from that have "Some y \<in> set (map (render_listener env b addrs ca op) ls)" unfolding ys(1) by simp
    then obtain l where "l \<in> set ls" "render_listener env b addrs ca op l = Some y" by auto
    then show ?thesis using listener_ok_items[OF assms(1-3)] assms(4) by blast
  qed
  then show ?thesis unfolding ys(2) by (auto simp: list_all_iff)
qed

section \<open>A file is read as it was meant\<close>

definition plain_file :: "render_env \<Rightarrow> file_input \<Rightarrow> bool" where
  "plain_file env i \<longleftrightarrow> plain_env env \<and> plain_text (fi_inter_broker i) \<and> plain_text (fi_server_name i) \<and> list_all plain_text (fi_voters i)
     \<and> maybe plain_text (fi_clients_ca_path i) \<and> plain_addresses (fi_addresses i) \<and> list_all plain_listener (fi_listeners i)
     \<and> bm_ok (fi_server_properties i) \<and> (\<forall>(k, v) \<in> set (fi_server_properties i). plain_text k \<and> plain_text v)
     \<and> (\<forall>t. fi_tls i = Some t \<longrightarrow> plain_tls t) \<and> (\<forall>a. fi_authorization i = Some a \<longrightarrow> plain_authorization a)
     \<and> (\<forall>x. fi_kerberos i = Some x \<longrightarrow> plain_kerberos x) \<and> (\<forall>t. fi_tiered_storage i = Some t \<longrightarrow> plain_tiered t)"

text \<open>What the \<open>toml\<close> package promises of the text of a string value.\<close>

definition toml_writer :: "(string \<Rightarrow> string) \<Rightarrow> bool" where
  "toml_writer f \<longleftrightarrow> (\<forall>s. clean_text s \<longrightarrow> line_feed \<notin> set (f s) \<and> skip_blanks (f s) = f s \<and> read_value (f s) = Some (VText s, []))"

definition clean_tuning :: "tuning_env \<Rightarrow> broker_tuning \<Rightarrow> bool" where
  "clean_tuning tenv t \<longleftrightarrow> toml_writer (tu_toml_text tenv) \<and> (\<forall>v. clean_text (tu_human tenv v)) \<and> (\<forall>(_, v) \<in> set t. \<forall>s. v = TuneString s \<longrightarrow> clean_text s)"

lemma runtime_ok:
  assumes "clean_tuning tenv t"
  shows "all_ok (render_runtime_toml tenv t)"
proof -
  have v: "item_ok (render_tuning_value tenv f v)" if "(kind, f) \<in> set tuning_fields" "bm_get t f = Some v" for kind f v
  proof -
    have "bare_key f" using tuning_names_bare[OF that(1)] .
    moreover have "(f, v) \<in> set t" using that(2) by (rule map_of_SomeD)
    ultimately show ?thesis
      using assms by (cases v) (auto simp: clean_tuning_def toml_writer_def render_tuning_value_def item_ok_def)
  qed
  show ?thesis
    using v by (auto simp: render_runtime_toml_def Let_def list_all_iff set_map_filter_Some)
qed

lemma canonical_configs:
  "canonical_oauth_config ls = Some c \<Longrightarrow> \<exists>l \<in> set ls. oauth_of l = Some c"
  "canonical_gssapi_config ls = Some g \<Longrightarrow> \<exists>l \<in> set ls. gssapi_of l = Some g"
proof -
  have first: "\<exists>x \<in> set xs. f x = Some y" if "(case List.map_filter f xs of [] \<Rightarrow> None | z # _ \<Rightarrow> Some z) = Some y" for f :: "'a \<Rightarrow> 'b option" and xs y
  proof -
    from that have "y \<in> set (List.map_filter f xs)" by (auto split: list.splits)
    then show ?thesis by (auto simp: set_map_filter_Some)
  qed
  show "canonical_oauth_config ls = Some c \<Longrightarrow> \<exists>l \<in> set ls. oauth_of l = Some c"
    "canonical_gssapi_config ls = Some g \<Longrightarrow> \<exists>l \<in> set ls. gssapi_of l = Some g"
    unfolding canonical_oauth_config_def canonical_gssapi_config_def by (rule first; assumption)+
qed

definition closing_items :: "render_env \<Rightarrow> file_input \<Rightarrow> toml_item list" where
  "closing_items env i =
     (case authorization_block i of None \<Rightarrow> [] | Some r \<Rightarrow> render_authorization r)
     @ (case canonical_oauth_config (fi_listeners i) of None \<Rightarrow> [] | Some c \<Rightarrow> render_oauth c)
     @ (case canonical_gssapi_config (fi_listeners i) of None \<Rightarrow> [] | Some g \<Rightarrow> render_gssapi env g)
     @ (if list_ex (\<lambda>l. ls_name l = fi_inter_broker i \<and> gssapi_of l \<noteq> None) (fi_listeners i)
        then (case fi_kerberos i of None \<Rightarrow> [] | Some k \<Rightarrow> render_credentials k) else [])
     @ (case fi_tls i of None \<Rightarrow> [] | Some t \<Rightarrow> render_tls_config t)"

lemma file_parts:
  assumes "render_broker_toml_with_operator env i = Some is"
  obtains sections remote where "render_listener_sections env (fi_broker_id i) (fi_listeners i) (fi_addresses i) (fi_clients_ca_path i)
        (fi_operator_listener i) = Some sections" "render_remote_storage env (fi_tiered_storage i) = Some remote"
    "is = render_broker_header (fi_broker_id i) (fi_inter_broker i) (fi_tls i) (fi_voters i) (fi_server_name i)
      @ sections @ render_properties (fi_server_properties i) @ remote @ closing_items env i"
  using assms by (auto simp: render_broker_toml_with_operator_def closing_items_def bind_eq_Some_conv)

lemma closing_ok:
  assumes "plain_file env i"
  shows "all_ok (closing_items env i)"
proof -
  have "all_ok (render_authorization r)" if "authorization_block i = Some r" for r
    using that assms authorization_ok operator_simple_ok by (auto simp: authorization_block_def plain_file_def split: option.splits if_splits)
  moreover have "all_ok (render_oauth c)" if "canonical_oauth_config (fi_listeners i) = Some c" for c
    using canonical_configs(1)[OF that] assms oauth_ok_items by (auto simp: plain_file_def plain_listener_def list_all_iff)
  moreover have "all_ok (render_gssapi env g)" if "canonical_gssapi_config (fi_listeners i) = Some g" for g
    using canonical_configs(2)[OF that] assms gssapi_ok_items by (auto simp: plain_file_def plain_listener_def list_all_iff)
  ultimately show ?thesis
    using assms credentials_ok tls_ok by (auto simp: closing_items_def plain_file_def split: option.splits)
qed

lemma file_ok:
  assumes "plain_file env i" "render_broker_toml_with_operator env i = Some is"
  shows "all_ok is"
proof -
  from file_parts[OF assms(2)] obtain sections remote where parts:
    "render_listener_sections env (fi_broker_id i) (fi_listeners i) (fi_addresses i) (fi_clients_ca_path i) (fi_operator_listener i) = Some sections"
    "render_remote_storage env (fi_tiered_storage i) = Some remote"
    "is = render_broker_header (fi_broker_id i) (fi_inter_broker i) (fi_tls i) (fi_voters i) (fi_server_name i)
      @ sections @ render_properties (fi_server_properties i) @ remote @ closing_items env i" .
  note p = assms(1)[unfolded plain_file_def]
  have "all_ok sections"
    by (rule listeners_ok_items[OF _ _ _ _ parts(1)]) (use p in \<open>auto simp: list_all_iff plain_listener_def\<close>)
  moreover have "all_ok remote" by (rule remote_ok[OF _ _ parts(2)]) (use p in auto)
  moreover have "all_ok (render_properties (fi_server_properties i))" by (rule properties_ok) (use p in auto)
  moreover have "all_ok (render_broker_header (fi_broker_id i) (fi_inter_broker i) (fi_tls i) (fi_voters i) (fi_server_name i))"
    by (rule header_ok) (use p in \<open>auto simp: plain_tls_def\<close>)
  ultimately show ?thesis unfolding parts(3) using closing_ok[OF assms(1)] by simp
qed

lemma closing_tables: "table_list (closing_items env i)"
  unfolding closing_items_def
  by (auto intro!: table_list_append simp: authorization_tables oauth_table gssapi_table credentials_table tls_table no_table split: option.splits)

lemma fold_when_keys: "when_key b k = map fst (filter snd [(k, b)])"
  by (simp add: when_key_def)

lemma when_keys_distinct: "distinct (map fst xs) \<Longrightarrow> set (map fst (filter snd xs)) \<subseteq> set (map fst xs) \<and> distinct (map fst (filter snd xs))"
  by (auto simp: distinct_map_filter)

lemma closing_heads:
  "set (heads_of (closing_items env i)) \<subseteq> set [''authorization'', ''authorization.opa'', ''oauthbearer'', ''gssapi'', ''inter_broker_credentials'', ''tls_config'']
   \<and> distinct (heads_of (closing_items env i))"
proof -
  have a: "heads_of (case v of None \<Rightarrow> [] | Some r \<Rightarrow> render_authorization r)
      = when_key (v \<noteq> None) ''authorization'' @ when_key (\<exists>r. v = Some r \<and> azr_opa r \<noteq> None) ''authorization.opa''" for v
    by (cases v) (simp_all add: heads_authorization when_key_def)
  have o': "heads_of (case v of None \<Rightarrow> [] | Some c \<Rightarrow> render_oauth c) = when_key (v \<noteq> None) ''oauthbearer''" for v
    by (cases v) (simp_all add: heads_oauth when_key_def)
  have g: "heads_of (case v of None \<Rightarrow> [] | Some c \<Rightarrow> render_gssapi env c) = when_key (v \<noteq> None) ''gssapi''" for v
    by (cases v) (simp_all add: heads_gssapi when_key_def)
  have k: "heads_of (if p then (case v of None \<Rightarrow> [] | Some x \<Rightarrow> render_credentials x) else []) = when_key (p \<and> v \<noteq> None) ''inter_broker_credentials''" for p v
    by (cases v; cases p) (auto simp add: render_credentials_def when_key_def)
  have t: "heads_of (case v of None \<Rightarrow> [] | Some x \<Rightarrow> render_tls_config x) = when_key (v \<noteq> None) ''tls_config''" for v
    by (cases v) (simp_all add: render_tls_config_def when_key_def)
  have keys: "set (map fst (filter snd xs)) \<subseteq> set ks \<and> distinct (map fst (filter snd xs))" if "map fst xs = ks" "distinct ks"
    for xs :: "(string \<times> bool) list" and ks
    using when_keys_distinct[of xs] that by simp
  show ?thesis
    unfolding closing_items_def map_append concat_append a o' g k t append_assoc fold_when_keys
    unfolding map_append[symmetric] filter_append[symmetric] append.simps by (rule keys) simp_all
qed

lemma listener_arrays: "render_listener_sections env b ls addrs ca op = Some is \<Longrightarrow> ArrayHeader n \<in> set is \<Longrightarrow> n = ''listeners''"
proof -
  assume a: "render_listener_sections env b ls addrs ca op = Some is" "ArrayHeader n \<in> set is"
  from concat_optionsD[OF a(1)[unfolded render_listener_sections_def]]
  obtain ys where ys: "map (render_listener env b addrs ca op) ls = map Some ys" "is = concat ys" by auto
  from a(2) ys(2) obtain y where y: "y \<in> set ys" "ArrayHeader n \<in> set y" by auto
  then have "Some y \<in> set (map (render_listener env b addrs ca op) ls)" unfolding ys(1) by simp
  then obtain l where "render_listener env b addrs ca op l = Some y" by auto
  with y(2) show "n = ''listeners''" by (auto simp: render_listener_def optional_item_def split: if_splits option.splits)
qed

lemma heads_properties: "heads_of (render_properties ps) = [] \<or> heads_of (render_properties ps) = [''server_properties'']"
proof -
  have "heads_of (map (\<lambda>(k, v). Quoted k v) ps) = []" by auto
  then show ?thesis by (simp add: render_properties_def del: concat_eq_Nil_conv)
qed

lemma not_in_if: "x \<notin> set a \<Longrightarrow> x \<notin> set b \<Longrightarrow> x \<notin> set (if p then a else b)"
  by (cases p) simp_all

lemma not_in_case: "(\<And>y. v = Some y \<Longrightarrow> x \<notin> set (f y)) \<Longrightarrow> x \<notin> set (case v of None \<Rightarrow> [] | Some y \<Rightarrow> f y)"
  by (cases v) simp_all

lemma no_arrays:
  "ArrayHeader n \<notin> set (render_properties ps)" "render_remote_storage env ts = Some is \<Longrightarrow> ArrayHeader n \<notin> set is"
  "ArrayHeader n \<notin> set (closing_items env i)" "ArrayHeader n \<notin> set (render_runtime_toml tenv t)"
proof -
  have opt: "ArrayHeader n \<notin> set (optional_item f v)" if "\<And>x. f x \<noteq> ArrayHeader n" for f :: "'a \<Rightarrow> toml_item" and v
    using that by (force simp: optional_item_def split: option.splits)
  show "ArrayHeader n \<notin> set (render_properties ps)" by (auto simp: render_properties_def)
  show "ArrayHeader n \<notin> set is" if "render_remote_storage env ts = Some is"
    using that by (auto simp: render_remote_storage_def render_backend_def render_metadata_topic_def opt
        split: option.splits tiered_storage_type.splits if_splits)
  have "ArrayHeader n \<notin> set (render_authorization r)" for r
    by (simp add: render_authorization_def opt split: option.split)
  moreover have "ArrayHeader n \<notin> set (render_oauth c)" for c
    by (simp add: render_oauth_def render_oauth_source_def opt)
  moreover have "ArrayHeader n \<notin> set (render_gssapi env g)" for g
    by (simp add: render_gssapi_def opt)
  moreover have "ArrayHeader n \<notin> set (render_credentials k)" for k
    by (simp add: render_credentials_def)
  moreover have "ArrayHeader n \<notin> set (render_tls_config x)" for x
    by (simp add: render_tls_config_def)
  ultimately show "ArrayHeader n \<notin> set (closing_items env i)"
    unfolding closing_items_def set_append Un_iff de_Morgan_disj
    by (intro conjI not_in_if not_in_case) (simp_all del: if_split_eq1)
  have "render_tuning_value tenv f v \<noteq> ArrayHeader n" for f v by (cases v) (simp_all add: render_tuning_value_def)
  then have "ArrayHeader n \<notin> set (List.map_filter (\<lambda>(_, field). map_option (render_tuning_value tenv field) (bm_get t field)) tuning_fields)"
    by (auto simp: set_map_filter_Some)
  then show "ArrayHeader n \<notin> set (render_runtime_toml tenv t)" by (simp add: render_runtime_toml_def Let_def)
qed

lemma dynamic_quorum_table: "one_table (dynamic_quorum_config k @ render_broker_header b ib tls voters server)"
  by (simp add: dynamic_quorum_config_def table_simps render_broker_header_def del: distinct_append)

lemma all_heads:
  assumes "a = [] \<or> a = [''server_properties'']" "e = [] \<or> e = [''runtime'']"
    and "set r \<subseteq> {''remote_storage'', ''remote_storage.s3'', ''remote_storage.gcs'', ''remote_storage.kafka_metadata''} \<and> distinct r"
    and "set c \<subseteq> set [''authorization'', ''authorization.opa'', ''oauthbearer'', ''gssapi'', ''inter_broker_credentials'', ''tls_config''] \<and> distinct c"
  shows "distinct (a @ r @ c @ e) \<and> ''listeners'' \<notin> set (a @ r @ c @ e)"
proof -
  have apart: "{''remote_storage'', ''remote_storage.s3'', ''remote_storage.gcs'', ''remote_storage.kafka_metadata''}
      \<inter> set [''authorization'', ''authorization.opa'', ''oauthbearer'', ''gssapi'', ''inter_broker_credentials'', ''tls_config''] = {}" by simp
  have out: "x \<notin> set r" "x \<notin> set c" if "x \<in> {''server_properties'', ''runtime'', ''listeners''}" for x
    using that assms(3,4) by fastforce+
  have "set r \<inter> set c = {}" using apart assms(3,4) by blast
  moreover have "''server_properties'' \<noteq> ''runtime''" "''server_properties'' \<noteq> ''listeners''" "''runtime'' \<noteq> ''listeners''" by simp_all
  ultimately show ?thesis
    using assms(1,2) out[of "''server_properties''"] out[of "''runtime''"] out[of "''listeners''"] assms(3,4)
    by (elim disjE) simp_all
qed

lemma node_file_well_formed:
  assumes "node_file env tenv k c b addrs = Some is" "bm_ok (unwrap_or [] (kspec_config (kf_spec k)))"
  shows "well_formed_document (meanings is)"
proof -
  obtain rendered where r: "render_broker_toml_with_operator env (node_file_input k c b addrs) = Some rendered"
    and is_eq: "is = dynamic_quorum_config k @ rendered
         @ (case kspec_broker_tuning (kf_spec k) of None \<Rightarrow> [] | Some t \<Rightarrow> render_runtime_toml tenv t)"
    using assms(1) by (auto simp: node_file_def)
  let ?i = "node_file_input k c b addrs"
  obtain runtime where rt: "runtime = (case kspec_broker_tuning (kf_spec k) of None \<Rightarrow> [] | Some t \<Rightarrow> render_runtime_toml tenv t)" by blast
  have runtime: "table_list runtime" "heads_of runtime = [] \<or> heads_of runtime = [''runtime'']" "\<And>n. ArrayHeader n \<notin> set runtime"
    using runtime_table heads_runtime no_arrays(4) unfolding rt
    by (cases "kspec_broker_tuning (kf_spec k)"; simp add: no_table del: concat_eq_Nil_conv)+
  from file_parts[OF r] obtain sections remote where parts:
    "render_listener_sections env (fi_broker_id ?i) (fi_listeners ?i) (fi_addresses ?i) (fi_clients_ca_path ?i) (fi_operator_listener ?i) = Some sections"
    "render_remote_storage env (fi_tiered_storage ?i) = Some remote"
    "rendered = render_broker_header (fi_broker_id ?i) (fi_inter_broker ?i) (fi_tls ?i) (fi_voters ?i) (fi_server_name ?i)
      @ sections @ render_properties (fi_server_properties ?i) @ remote @ closing_items env ?i" .
  let ?ts = "sections @ render_properties (fi_server_properties ?i) @ remote @ closing_items env ?i @ runtime"
  have props: "bm_ok (fi_server_properties ?i)" using assms(2) by (simp add: node_file_input_def)
  have "well_formed_document (meanings ((dynamic_quorum_config k
      @ render_broker_header (fi_broker_id ?i) (fi_inter_broker ?i) (fi_tls ?i) (fi_voters ?i) (fi_server_name ?i)) @ ?ts))"
  proof (rule well_formedI)
    show "table_list ?ts"
      by (intro table_list_append listener_tables[OF parts(1)] properties_table[OF props] remote_tables[OF parts(2)] closing_tables runtime(1))
    have heads: "heads_of ?ts = heads_of (render_properties (fi_server_properties ?i)) @ heads_of remote @ heads_of (closing_items env ?i) @ heads_of runtime"
      using heads_listeners[OF parts(1)] by (simp del: concat_eq_Nil_conv)
    note all = all_heads[OF heads_properties runtime(2) heads_remote[OF parts(2)] closing_heads]
    show "distinct (heads_of ?ts)" unfolding heads using all by blast
    show "n \<notin> set (heads_of ?ts)" if "ArrayHeader n \<in> set ?ts" for n
    proof -
      from that have "ArrayHeader n \<in> set sections"
        using no_arrays(1)[of n] no_arrays(2)[OF parts(2), of n] no_arrays(3)[of n] runtime(3)[of n] by simp
      then have "n = ''listeners''" by (rule listener_arrays[OF parts(1)])
      then show ?thesis unfolding heads using all by blast
    qed
  qed (rule dynamic_quorum_table)
  then show ?thesis unfolding is_eq rt[symmetric] parts(3) by simp
qed

lemma file_key_inj: "in_i32 a \<Longrightarrow> in_i32 b \<Longrightarrow> file_key a = file_key b \<Longrightarrow> a = b"
  using int_to_string_inj by (simp add: file_key_def)

lemma add_files_kept:
  "add_files env tenv k c l data = Some d \<Longrightarrow> x \<notin> file_key ` fst ` set l \<Longrightarrow> bm_get d x = bm_get data x"
  by (induction l arbitrary: data rule: list.induct) (auto simp: bind_eq_Some_conv)

lemma add_files_get:
  "add_files env tenv k c l data = Some d \<Longrightarrow> (b, addrs) \<in> set l \<Longrightarrow> distinct (map fst l) \<Longrightarrow> \<forall>b \<in> fst ` set l. in_i32 b \<Longrightarrow>
     \<exists>is. node_file env tenv k c b addrs = Some is \<and> bm_get d (file_key b) = Some (print_items is)"
proof (induction l arbitrary: data)
  case (Cons p l)
  obtain b' a' where p: "p = (b', a')" by (cases p)
  from Cons.prems(1) obtain is' where is': "node_file env tenv k c b' a' = Some is'"
    and rest: "add_files env tenv k c l (bm_insert (file_key b') (print_items is') data) = Some d"
    unfolding p by (auto simp: bind_eq_Some_conv)
  show ?case
  proof (cases "(b, addrs) = p")
    case True
    have "file_key b' \<notin> file_key ` fst ` set l"
    proof
      assume "file_key b' \<in> file_key ` fst ` set l"
      then obtain y where "y \<in> fst ` set l" "file_key b' = file_key y" by blast
      then show False using Cons.prems(3,4) file_key_inj[of b' y] unfolding p by auto
    qed
    from add_files_kept[OF rest this] is' True show ?thesis unfolding p by simp
  next
    case False
    with Cons.IH[OF rest] Cons.prems show ?thesis by auto
  qed
qed simp

text \<open>C23: A broker reads the file that was meant. When the texts that enter it need no escaping, the ConfigMap has a
  file for every node, a TOML reader accepts it, it finds exactly the tables and entries that were rendered, every one
  once, and every entry in the table that it was written for.\<close>

theorem broker_files_read_back:
  assumes cm: "render_configmap env tenv k c = Some (Inr cm)" and node: "(b, addrs) \<in> set (ci_addresses c)"
    and ids: "distinct (map fst (ci_addresses c))" "\<forall>b \<in> fst ` set (ci_addresses c). in_i32 b"
    and plain: "plain_file env (node_file_input k c b addrs)" "plain_text (kafka_name k)"
      "plain_text (unwrap_or [] (meta_namespace (kf_meta k)))"
    and tuning: "\<And>t. kspec_broker_tuning (kf_spec k) = Some t \<Longrightarrow> clean_tuning tenv t"
  shows "\<exists>is. node_file env tenv k c b addrs = Some is \<and> bm_get (cfgm_data cm) (file_key b) = Some (print_items is)
    \<and> read_toml (print_items is) = Some (meanings is) \<and> well_formed_document (meanings is)"
proof -
  from cm obtain d where d: "add_files env tenv k c (ci_addresses c) (case ci_logging_filter c of None \<Rightarrow> [] | Some f \<Rightarrow> [(''rust.log'', f)]) = Some d"
    "cfgm_data cm = d" by (auto simp: render_configmap_def bind_eq_Some_conv bind_result_Inr)
  from add_files_get[OF d(1) node ids] obtain "is" where f: "node_file env tenv k c b addrs = Some is"
    "bm_get d (file_key b) = Some (print_items is)" by blast
  obtain rendered where r: "render_broker_toml_with_operator env (node_file_input k c b addrs) = Some rendered"
    and is_eq: "is = dynamic_quorum_config k @ rendered
         @ (case kspec_broker_tuning (kf_spec k) of None \<Rightarrow> [] | Some t \<Rightarrow> render_runtime_toml tenv t)"
    using f(1) by (auto simp: node_file_def)
  have "all_ok (dynamic_quorum_config k)" using plain(2,3) by (simp add: dynamic_quorum_config_def)
  moreover have "all_ok rendered" using file_ok[OF plain(1) r] .
  moreover have "all_ok (case kspec_broker_tuning (kf_spec k) of None \<Rightarrow> [] | Some t \<Rightarrow> render_runtime_toml tenv t)"
    using tuning runtime_ok by (simp split: option.split)
  ultimately have "\<forall>i \<in> set is. item_ok i" unfolding is_eq list_all_iff set_append by blast
  from read_printed_items[OF this] have "read_toml (print_items is) = Some (meanings is)" .
  moreover have "well_formed_document (meanings is)"
    using node_file_well_formed[OF f(1)] plain(1) by (simp add: plain_file_def node_file_input_def)
  ultimately show ?thesis using f d(2) by blast
qed

section \<open>What the file says\<close>

lemma sections_suffix:
  assumes "\<And>h es ss. toml_sections h es (s # ss) = (h, es) # toml_sections (Some s) [] ss"
  shows "set (toml_sections (Some s) [] ss) \<subseteq> set (toml_sections h es (pre @ s # ss))"
proof (induction pre arbitrary: h es)
  case Nil
  then show ?case using assms by auto
next
  case (Cons x pre)
  then show ?case by (cases x) (auto intro: subset_trans)
qed

lemma section_present:
  assumes "is = pre @ h # body @ post" "is_head h" "item_meaning h = [s]" "\<forall>i \<in> set body. \<not> is_head i" "post = [] \<or> is_head (hd post)"
  shows "(Some s, entries_of (meanings body)) \<in> set (document (meanings is))"
proof -
  have s: "toml_sections h' es (s # ss) = (h', es) # toml_sections (Some s) [] ss" for h' es ss
    using assms(2,3) by (cases h) (auto simp: item_meaning_def)
  have "(Some s, es) \<in> set (toml_sections (Some s) es (meanings post))" for es
  proof (cases post)
    case (Cons p ps)
    with assms(5) show ?thesis by (cases p) (auto simp: item_meaning_def)
  qed simp
  then have "(Some s, entries_of (meanings body)) \<in> set (toml_sections (Some s) [] (meanings body @ meanings post))"
    using sections_of_table[OF assms(4), of "Some s" "[]" "meanings post"] by simp
  with sections_suffix[OF s, of "meanings body @ meanings post" None "[]" "meanings pre"] assms(1,3) show ?thesis
    by (auto simp: document_def)
qed

lemma tables_start: "table_list is \<Longrightarrow> is = [] \<or> is_head (hd is)"
  by (cases rule: table_list.cases) auto

lemma file_tables:
  assumes "node_file env tenv k c b addrs = Some is" "bm_ok (unwrap_or [] (kspec_config (kf_spec k)))"
  obtains front sections rest where "is = front @ sections @ rest" "table_list rest"
    "concat_options (map (render_listener env b addrs (ci_clients_ca_path c) (ci_operator_listener c)) (node_listeners c b)) = Some sections"
proof -
  obtain rendered where r: "render_broker_toml_with_operator env (node_file_input k c b addrs) = Some rendered"
    and is_eq: "is = dynamic_quorum_config k @ rendered
         @ (case kspec_broker_tuning (kf_spec k) of None \<Rightarrow> [] | Some t \<Rightarrow> render_runtime_toml tenv t)"
    using assms(1) by (auto simp: node_file_def)
  let ?i = "node_file_input k c b addrs"
  obtain runtime where rt: "runtime = (case kspec_broker_tuning (kf_spec k) of None \<Rightarrow> [] | Some t \<Rightarrow> render_runtime_toml tenv t)" by blast
  have runtime: "table_list runtime" unfolding rt using runtime_table by (simp add: no_table split: option.split)
  from file_parts[OF r] obtain sections remote where parts:
    "render_listener_sections env (fi_broker_id ?i) (fi_listeners ?i) (fi_addresses ?i) (fi_clients_ca_path ?i) (fi_operator_listener ?i) = Some sections"
    "render_remote_storage env (fi_tiered_storage ?i) = Some remote"
    "rendered = render_broker_header (fi_broker_id ?i) (fi_inter_broker ?i) (fi_tls ?i) (fi_voters ?i) (fi_server_name ?i)
      @ sections @ render_properties (fi_server_properties ?i) @ remote @ closing_items env ?i" .
  have props: "bm_ok (fi_server_properties ?i)" using assms(2) by (simp add: node_file_input_def)
  have "table_list (render_properties (fi_server_properties ?i) @ remote @ closing_items env ?i @ runtime)"
    by (intro table_list_append properties_table[OF props] remote_tables[OF parts(2)] closing_tables runtime)
  moreover have "is = (dynamic_quorum_config k @ render_broker_header (fi_broker_id ?i) (fi_inter_broker ?i) (fi_tls ?i) (fi_voters ?i) (fi_server_name ?i))
      @ sections @ (render_properties (fi_server_properties ?i) @ remote @ closing_items env ?i @ runtime)"
    unfolding is_eq rt[symmetric] parts(3) by simp
  moreover have "concat_options (map (render_listener env b addrs (ci_clients_ca_path c) (ci_operator_listener c)) (node_listeners c b)) = Some sections"
    using parts(1) by (simp add: render_listener_sections_def node_file_input_def)
  ultimately show ?thesis using that by blast
qed

lemma concat_options_split:
  assumes "concat_options (map f xs) = Some out" "x \<in> set xs"
  obtains pre item post ys where "out = pre @ item @ post" "f x = Some item" "concat_options (map f ys) = Some post" "set ys \<subseteq> set xs"
  using assms
proof (induction xs arbitrary: out thesis)
  case (Cons z zs)
  from Cons.prems(2) obtain a r where a: "f z = Some a" "concat_options (map f zs) = Some r" "out = a @ r" by (auto simp: bind_eq_Some_conv)
  show ?case
  proof (cases "x = z")
    case True
    then show ?thesis using Cons.prems(1)[of "[]" a r zs] a by auto
  next
    case False
    with Cons.prems(3) have "x \<in> set zs" by simp
    from Cons.IH[OF _ a(2) this] obtain pre item post ys where
      "r = pre @ item @ post" "f x = Some item" "concat_options (map f ys) = Some post" "set ys \<subseteq> set zs" by blast
    then show ?thesis using Cons.prems(1)[of "a @ pre" item post ys] a(3) by auto
  qed
qed simp

text \<open>C24: User certificates do not open the operator's endpoint. In the file of every node, a listener with mutual TLS
  has its own table, which demands a client certificate, of the cluster CA on the operator listener, whose key only the
  operator has, and of the clients CA on every other one.\<close>

theorem mutual_tls_listener_trust:
  assumes "node_file env tenv k c b addrs = Some is" "bm_ok (unwrap_or [] (kspec_config (kf_spec k)))"
    and "l \<in> set (node_listeners c b)" "ls_tls l" "ls_authentication l = Some AuthTls"
  shows "\<exists>es fs. (Some (TablesHead ''listeners''), es) \<in> set (document (meanings is)) \<and> map_of es ''name'' = Some (VText (ls_name l))
    \<and> map_of es ''tls_config'' = Some (VTable fs) \<and> map_of fs ''client_auth'' = Some (VText ''Required'')
    \<and> map_of fs ''client_ca_path'' = Some (VText (if ci_operator_listener c = Some (ls_name l) then ''/etc/krabka/cluster-ca/ca.crt''
        else unwrap_or ''/etc/krabka/clients-ca/ca.crt'' (ci_clients_ca_path c)))"
proof -
  let ?f = "render_listener env b addrs (ci_clients_ca_path c) (ci_operator_listener c)"
  from file_tables[OF assms(1,2)] obtain front sections rest where f: "is = front @ sections @ rest" "table_list rest"
    "concat_options (map ?f (node_listeners c b)) = Some sections" .
  from concat_options_split[OF f(3) assms(3)] obtain pre item post ys where
    i: "sections = pre @ item @ post" "?f l = Some item" "concat_options (map ?f ys) = Some post" by metis
  have "render_listener_sections env b ys addrs (ci_clients_ca_path c) (ci_operator_listener c) = Some post"
    using i(3) by (simp add: render_listener_sections_def)
  then have "table_list (post @ rest)" using listener_tables f(2) by blast
  from tables_start[OF this] have start: "post @ rest = [] \<or> is_head (hd (post @ rest))" .
  obtain body where item: "item = ArrayHeader ''listeners'' # body" and body: "\<forall>x \<in> set body. \<not> is_head x"
    "map_of (entries_of (meanings body)) ''name'' = Some (VText (ls_name l))"
    "\<exists>fs. map_of (entries_of (meanings body)) ''tls_config'' = Some (VTable fs) \<and> map_of fs ''client_auth'' = Some (VText ''Required'')
      \<and> map_of fs ''client_ca_path'' = Some (VText (if ci_operator_listener c = Some (ls_name l) then ''/etc/krabka/cluster-ca/ca.crt''
        else unwrap_or ''/etc/krabka/clients-ca/ca.crt'' (ci_clients_ca_path c)))"
    using i(2) assms(4,5)
    by (auto simp: render_listener_def sasl_mechanism_def optional_item_def item_meaning_def inline_meaning_def)
  have "(Some (TablesHead ''listeners''), entries_of (meanings body)) \<in> set (document (meanings is))"
    by (rule section_present[of "is" "front @ pre" "ArrayHeader ''listeners''" body "post @ rest"])
      (use f(1) i(1) item body(1) start in \<open>auto simp: item_meaning_def\<close>)
  with body(2,3) show ?thesis by blast
qed

section \<open>Rendering does not panic\<close>

lemma concat_options_total: "(\<And>x. x \<in> set xs \<Longrightarrow> f x \<noteq> None) \<Longrightarrow> concat_options (map f xs) \<noteq> None"
  by (induction xs) (auto simp: bind_eq_None_conv)

lemma validated_backend: "validate_backend ts = Inr () \<Longrightarrow> render_backend ts \<noteq> None"
  by (cases "ts_kind ts") (auto simp: validate_backend_def render_backend_def bind_result_Inr)

lemma add_files_total: "(\<And>b a. (b, a) \<in> set l \<Longrightarrow> node_file env tenv k c b a \<noteq> None) \<Longrightarrow> add_files env tenv k c l data \<noteq> None"
proof (induction l arbitrary: data)
  case (Cons p l)
  obtain b a where p: "p = (b, a)" by (cases p)
  with Cons.prems obtain items where "node_file env tenv k c b a = Some items" by fastforce
  moreover have "add_files env tenv k c l data' \<noteq> None" for data' using Cons by auto
  ultimately show ?case unfolding p by simp
qed simp

text \<open>C27: Validation covers what rendering relies on. For accepted listeners with the operator listener added, and an
  accepted tiered storage section, the \<open>unreachable!\<close> and \<open>expect\<close> calls of the renderer are never reached: the
  ConfigMap is rendered, or the owner reference is missing.\<close>

theorem validated_cluster_renders:
  assumes "validate_listeners rule_ok ls ib = Inr ()" "ci_listeners c = ls @ [operator_listener ls]"
    and "\<And>ts. kspec_tiered_storage (kf_spec k) = Some ts \<Longrightarrow> validate_tiered_storage policy ts = Inr ()"
  shows "\<exists>r. render_configmap env tenv k c = Some r \<and> (\<forall>e. r = Inl e \<longrightarrow> owner_of_kafka k = Inl e)"
proof -
  have proto: "listener_protocol l \<noteq> None" if "l \<in> set (ci_listeners c)" for l
  proof (cases "l = operator_listener ls")
    case False
    with that assms(2) have "l \<in> set ls" by simp
    with assms(1) have "listener_ok rule_ok l" by (simp add: validate_listeners_iff)
    then show ?thesis
      by (auto simp: listener_ok_def listener_protocol_def split: bool.splits option.splits listener_authentication.splits)
  qed (simp add: operator_listener_def listener_protocol_def)
  have "render_remote_storage env (kspec_tiered_storage (kf_spec k)) \<noteq> None"
    using assms(3) validated_backend
    by (cases "kspec_tiered_storage (kf_spec k)") (auto simp: render_remote_storage_def validate_tiered_storage_def bind_result_Inr)
  moreover have "render_listener_sections env b (node_listeners c b) a ca op \<noteq> None" for b a ca op
    unfolding render_listener_sections_def
  proof (rule concat_options_total)
    fix l assume "l \<in> set (node_listeners c b)"
    then have "l \<in> set (ci_listeners c)" by (auto simp: node_listeners_def split: if_splits)
    from proto[OF this] show "render_listener env b a ca op l \<noteq> None" by (simp add: render_listener_def)
  qed
  ultimately have "node_file env tenv k c b a \<noteq> None" for b a
    by (auto simp: node_file_def render_broker_toml_with_operator_def node_file_input_def bind_eq_None_conv)
  then have "add_files env tenv k c (ci_addresses c) data \<noteq> None" for data by (intro add_files_total) auto
  then obtain d where "add_files env tenv k c (ci_addresses c) (case ci_logging_filter c of None \<Rightarrow> [] | Some f \<Rightarrow> [(''rust.log'', f)]) = Some d"
    by blast
  then show ?thesis
    by (cases "owner_of_kafka k") (auto simp: render_configmap_def)
qed

section \<open>Texts that are not escaped\<close>

lemma split_on_any: "split_on c (a @ c # b) = split_on c a @ split_on c b"
proof (induction a)
  case (Cons x a)
  obtain p ps where "split_on c a = p # ps" by (cases "split_on c a") auto
  with Cons show ?case by simp
qed simp

lemma read_lines_None: "l \<in> set ls \<Longrightarrow> read_line l = None \<Longrightarrow> read_lines ls = None"
proof (induction ls)
  case (Cons x ls)
  then show ?case by (cases "read_line x") auto
qed simp

lemma unread_line:
  assumes "line_feed \<notin> set l" "read_line l = None" "a = [] \<or> last a = line_feed"
  shows "read_toml (a @ l @ line_feed # b) = None"
proof -
  have "l \<in> set (split_on line_feed (a @ l @ line_feed # b))"
  proof (cases "a = []")
    case True
    then show ?thesis using split_on_any[of line_feed l b] assms(1) by simp
  next
    case False
    with assms(3) obtain a' where "a = a' @ [line_feed]" by (metis append_butlast_last_id)
    then show ?thesis using split_on_any[of line_feed a' "l @ line_feed # b"] split_on_any[of line_feed l b] assms(1) by simp
  qed
  then show ?thesis using read_lines_None assms(2) by (simp add: read_toml_def)
qed

lemma print_items_end: "print_items is = [] \<or> last (print_items is) = line_feed"
  by (induction "is") (auto simp: print_items_def print_item_def)

lemma read_basic_bad_escape: "plain_text p \<Longrightarrow> unescape_char x = None \<Longrightarrow> read_basic (p @ backslash # x # q) = None"
  by (induction p) (auto simp: plain_char_def)

text \<open>C31: Kerberos rules are written without escaping. When the first rule for mapping principals has a backslash
  before a character that TOML does not escape, as the dot of a realm in a regular expression, no node can read its
  file, although every part of the resource was accepted.\<close>

theorem unescaped_rule_breaks_file:
  assumes "node_file env tenv k c b addrs = Some is" "canonical_gssapi_config (node_listeners c b) = Some g"
    and "ga_principal_to_local_rules g = (p @ backslash # x # q) # rules" "plain_text p" "unescape_char x = None" "x \<notin> set ''uUxe''"
    and "\<forall>r \<in> set (ga_principal_to_local_rules g). line_feed \<notin> set r"
  shows "read_toml (print_items is) = None"
proof -
  let ?rules = "ga_principal_to_local_rules g" and ?line = "Texts ''principal_to_local_rules'' (ga_principal_to_local_rules g)"
  obtain rendered where r: "render_broker_toml_with_operator env (node_file_input k c b addrs) = Some rendered"
    and is_eq: "is = dynamic_quorum_config k @ rendered
         @ (case kspec_broker_tuning (kf_spec k) of None \<Rightarrow> [] | Some t \<Rightarrow> render_runtime_toml tenv t)"
    using assms(1) by (auto simp: node_file_def)
  have "?line \<in> set (render_gssapi env g)" by (simp add: render_gssapi_def)
  moreover have "canonical_gssapi_config (fi_listeners (node_file_input k c b addrs)) = Some g" using assms(2) by (simp add: node_file_input_def)
  ultimately have "?line \<in> set (closing_items env (node_file_input k c b addrs))"
    by (simp only: closing_items_def set_append option.case Un_iff simp_thms)
  with file_parts[OF r] have "?line \<in> set is" unfolding is_eq by (metis UnCI set_append)
  then obtain pre post where "is = pre @ ?line # post" by (meson split_list)
  then have split: "print_items is = print_items pre @ item_text ?line @ line_feed # print_items post"
    by (simp add: print_items_def print_item_def)
  have "\<forall>s \<in> set (map basic_string ?rules). line_feed \<notin> set s" using assms(7) by (auto simp: basic_string_def)
  moreover have "\<forall>s \<in> set ss. line_feed \<notin> set s \<Longrightarrow> line_feed \<notin> set (join_with '', '' ss)" for ss
    by (induction "'', ''" ss rule: join_with.induct) auto
  ultimately have one: "line_feed \<notin> set (item_text ?line)" by (simp add: item_text_def toml_string_array_def)
  obtain z where z: "join_with '', '' (map basic_string ?rules) = quote_char # p @ backslash # x # z"
    using assms(3) by (cases rules) (simp_all add: basic_string_def)
  have "read_elements (join_with '', '' (map basic_string ?rules) @ '']'') = None"
    unfolding z using read_basic_bad_escape[OF assms(4,5), of "z @ '']''"] by (subst read_elements.simps) simp
  then have "read_value (toml_string_array ?rules) = None"
    by (simp add: read_value_def read_simple_def toml_string_array_def)
  moreover have "read_key (item_text ?line) = Some (''principal_to_local_rules'', '' = '' @ toml_string_array ?rules)"
    using read_key_bare[of "''principal_to_local_rules''" "''= '' @ toml_string_array ?rules"] by (simp add: item_text_def)
  moreover have "expect_char (CHR ''='') ('' = '' @ toml_string_array ?rules) = Some (toml_string_array ?rules)"
    using expect_equals[of "toml_string_array ?rules"] by simp
  moreover have "skip_blanks (item_text ?line) = item_text ?line" "\<not> starts_with ''[['' (item_text ?line)" "\<not> starts_with ''['' (item_text ?line)"
    by (simp_all add: item_text_def is_blank_def starts_with_def)
  moreover have "item_text ?line \<noteq> []" by (simp add: item_text_def)
  ultimately have "read_line (item_text ?line) = None" by (simp add: read_line_def Let_def)
  from unread_line[OF one this print_items_end] show ?thesis unfolding split .
qed

section \<open>Instances\<close>

lemma escape_writer: "toml_writer (\<lambda>s. basic_string (toml_escape s))"
proof -
  have "line_feed \<notin> set (toml_escape s)" if "clean_text s" for s
  proof -
    have "line_feed \<notin> set s" using that char_facts(9) unfolding clean_text_def by blast
    then show ?thesis by (induction s) auto
  qed
  then show ?thesis
    using read_simple_escaped by (auto simp: toml_writer_def basic_string_def intro!: read_value_simple)
qed

definition sample_render_env :: render_env where
  "sample_render_env = \<lparr>re_human_time = (\<lambda>_. ''1s''), re_human_size = (\<lambda>_. ''1B''), re_wire_name = (\<lambda>_. ''GSSAPI'')\<rparr>"

definition sample_tuning_env :: tuning_env where
  "sample_tuning_env = \<lparr>tu_refined_error = (\<lambda>_ _. []), tu_empty_error = [], tu_snapshot_fetch = (\<lambda>_. None),
     tu_decompression = (\<lambda>_ _ _. None), tu_default_ratio = 1, tu_default_floor = 1, tu_default_ceiling = 1,
     tu_human = (\<lambda>_. ''1s''), tu_toml_text = (\<lambda>s. basic_string (toml_escape s))\<rparr>"

definition sample_file_listeners :: "listener list" where
  "sample_file_listeners = [sample_listener ''PLAIN'' 9092 False None, sample_listener ''OPERATOR'' 9091 True (Some AuthTls)]"

definition sample_configmap_input :: "listener list \<Rightarrow> configmap_input" where
  "sample_configmap_input ls = \<lparr>ci_listeners = ls, ci_operator_listener = Some ''OPERATOR'', ci_addresses = [(0, [])],
     ci_roles = [(0, [Controller, Broker])], ci_inter_broker = ''PLAIN'', ci_tls = None, ci_clients_ca_path = None, ci_logging_filter = None\<rparr>"

lemmas file_samples = sample_render_env_def sample_kafka_def sample_kafka_spec_def sample_file_listeners_def sample_configmap_input_def
  sample_listener_def plain_meta_def

lemma sample_file_renders:
  "\<exists>cm. render_configmap sample_render_env sample_tuning_env sample_kafka (sample_configmap_input sample_file_listeners) = Some (Inr cm)"
  "\<exists>is. node_file sample_render_env sample_tuning_env sample_kafka (sample_configmap_input sample_file_listeners) 0 [] = Some is"
  by (simp_all add: render_configmap_def node_file_def render_broker_toml_with_operator_def node_file_input_def file_samples node_listeners_def
      render_listener_sections_def render_listener_def listener_protocol_def render_remote_storage_def owner_of_kafka_def owner_ref_def ok_or_def)

lemma sample_file_plain: "plain_file sample_render_env (node_file_input sample_kafka (sample_configmap_input sample_file_listeners) 0 [])"
  by (simp add: plain_file_def node_file_input_def file_samples node_listeners_def plain_env_def plain_listener_def plain_addresses_def
      oauth_of_def gssapi_of_def quorum_voters_def bm_ok_Cons List.map_filter_def)

theorem broker_files_read_back_witness:
  "\<exists>cm is. render_configmap sample_render_env sample_tuning_env sample_kafka (sample_configmap_input sample_file_listeners) = Some (Inr cm)
    \<and> bm_get (cfgm_data cm) (file_key 0) = Some (print_items is) \<and> read_toml (print_items is) = Some (meanings is)"
proof -
  obtain cm where cm: "render_configmap sample_render_env sample_tuning_env sample_kafka (sample_configmap_input sample_file_listeners) = Some (Inr cm)"
    using sample_file_renders(1) by blast
  have "clean_tuning sample_tuning_env [(''inter_broker_server_name'', TuneString ''k'')]"
    using escape_writer by (simp add: clean_tuning_def sample_tuning_env_def clean_text_def is_control_def)
  then show ?thesis
    using broker_files_read_back[OF cm _ _ _ sample_file_plain] cm
    by (force simp: sample_configmap_input_def sample_kafka_def sample_kafka_spec_def plain_meta_def in_i32_def)
qed

theorem mutual_tls_listener_trust_witness:
  "\<exists>is es fs. node_file sample_render_env sample_tuning_env sample_kafka (sample_configmap_input sample_file_listeners) 0 [] = Some is
    \<and> (Some (TablesHead ''listeners''), es) \<in> set (document (meanings is)) \<and> map_of es ''name'' = Some (VText ''OPERATOR'')
    \<and> map_of es ''tls_config'' = Some (VTable fs) \<and> map_of fs ''client_ca_path'' = Some (VText ''/etc/krabka/cluster-ca/ca.crt'')"
proof -
  obtain "is" where f: "node_file sample_render_env sample_tuning_env sample_kafka (sample_configmap_input sample_file_listeners) 0 [] = Some is"
    using sample_file_renders(2) by blast
  have "bm_ok (unwrap_or [] (kspec_config (kf_spec sample_kafka)))" by (simp add: sample_kafka_def sample_kafka_spec_def bm_ok_Cons)
  from mutual_tls_listener_trust[OF f this, of "sample_listener ''OPERATOR'' 9091 True (Some AuthTls)"] f show ?thesis
    by (auto simp: node_listeners_def sample_configmap_input_def sample_file_listeners_def sample_listener_def)
qed

theorem validated_cluster_renders_witness:
  "\<exists>cm. render_configmap sample_render_env sample_tuning_env sample_kafka
      (sample_configmap_input (sample_listeners @ [operator_listener sample_listeners])) = Some (Inr cm)"
proof -
  have "validate_listeners (\<lambda>r. r = ''DEFAULT'') sample_listeners None = Inr ()" by code_simp
  from validated_cluster_renders[OF this, of "sample_configmap_input (sample_listeners @ [operator_listener sample_listeners])" sample_kafka
      "\<lambda>_. Inr ()" sample_render_env sample_tuning_env]
  obtain r where r: "render_configmap sample_render_env sample_tuning_env sample_kafka
      (sample_configmap_input (sample_listeners @ [operator_listener sample_listeners])) = Some r"
    "\<forall>e. r = Inl e \<longrightarrow> owner_of_kafka sample_kafka = Inl e"
    by (auto simp: sample_configmap_input_def sample_kafka_def sample_kafka_spec_def)
  moreover have "owner_of_kafka sample_kafka \<noteq> Inl e" for e
    by (simp add: owner_of_kafka_def owner_ref_def ok_or_def sample_kafka_def plain_meta_def)
  ultimately show ?thesis by (cases r) auto
qed

definition realm_rule :: string where
  "realm_rule = ''RULE:[1:$1@$0](.*@EXAMPLE'' @ backslash # ''.COM)s/@.*//''"

definition rule_listeners :: "listener list" where
  "rule_listeners = [sample_listener ''PLAIN'' 9092 False (Some (AuthGssapi (sample_keytab\<lparr>ga_principal_to_local_rules := [realm_rule]\<rparr>)))]"

theorem unescaped_rule_breaks_file_witness:
  "validate_listeners (\<lambda>r. r = realm_rule) rule_listeners None = Inr ()
   \<and> (\<exists>is. node_file sample_render_env sample_tuning_env sample_kafka (sample_configmap_input rule_listeners) 0 [] = Some is
        \<and> read_toml (print_items is) = None)"
proof -
  have "validate_listeners (\<lambda>r. r = realm_rule) rule_listeners None = Inr ()" by code_simp
  moreover obtain "is" where f: "node_file sample_render_env sample_tuning_env sample_kafka (sample_configmap_input rule_listeners) 0 [] = Some is"
    by (simp add: node_file_def render_broker_toml_with_operator_def node_file_input_def file_samples node_listeners_def rule_listeners_def
      render_listener_sections_def render_listener_def listener_protocol_def render_remote_storage_def)
  moreover have "plain_text ''RULE:[1:$1@$0](.*@EXAMPLE''" by code_simp
  ultimately show ?thesis
    using unescaped_rule_breaks_file[OF f, of "sample_keytab\<lparr>ga_principal_to_local_rules := [realm_rule]\<rparr>" "''RULE:[1:$1@$0](.*@EXAMPLE''"
        "CHR ''.''" "''COM)s/@.*//''" "[]"]
    by (simp add: node_listeners_def sample_configmap_input_def rule_listeners_def sample_listener_def canonical_gssapi_config_def
        gssapi_of_def List.map_filter_def realm_rule_def sample_keytab_def unescape_char_def)
qed

end
