(* ===== verification/Rollout.thy ===== *)
theory Rollout
  imports Pool_Topology
begin

text \<open>
  How a new configuration reaches the pools (\<open>plan_rollout\<close> of
  \<open>controller/common.rs\<close>, \<open>adopt_pools\<close>, \<open>pools_converged\<close> and the roll-up of
  \<open>controller/kafka.rs\<close>): the planner, its gate, the convergence test that the
  certificate rotation waits for, and the conditions derived from the pools.
\<close>

section \<open>Planning a rollout\<close>

record pool_rollout_state =
  pr_name :: string
  pr_current_hash :: "string option"
  pr_ready :: bool

text \<open>The loop over the pools; the flag says whether every earlier pool has converged.\<close>

fun gated_targets :: "string \<Rightarrow> bool \<Rightarrow> pool_rollout_state list \<Rightarrow> (string \<times> string) list" where
  "gated_targets desired gate_open [] = []"
| "gated_targets desired gate_open (p # ps) =
     (if gate_open
      then (pr_name p, desired) # gated_targets desired (pr_current_hash p = Some desired \<and> pr_ready p) ps
      else (pr_name p, unwrap_or desired (pr_current_hash p)) # gated_targets desired False ps)"

definition non_desired :: "pool_rollout_state list \<Rightarrow> string \<Rightarrow> string list" where
  "non_desired pools desired = remdups (filter (\<lambda>h. h \<noteq> desired) (List.map_filter pr_current_hash pools))"

definition plan_rollout :: "pool_rollout_state list \<Rightarrow> string \<Rightarrow> (string \<times> string) list" where
  "plan_rollout pools desired =
     (if \<not> list_all (\<lambda>p. pr_current_hash p \<noteq> None) pools \<or> 1 < length (non_desired pools desired)
      then map (\<lambda>p. (pr_name p, desired)) pools
      else gated_targets desired True pools)"

section \<open>Adopting the pools\<close>

definition rollout_state :: "node_pool \<Rightarrow> pool_rollout_state" where
  "rollout_state pool = \<lparr>pr_name = pool_name pool,
     pr_current_hash = meta_label (knp_meta pool) ''krabka.io/config-hash'',
     pr_ready = (np_replicas (knp_spec pool) \<le> unwrap_or 0 (Option.bind (knp_status pool) nps_ready_replicas))\<rparr>"

datatype adopt_effect = AdoptPool string owner_reference string

definition adopt_order :: "node_pool list \<Rightarrow> node_pool list" where
  "adopt_order pools = sort_key (\<lambda>p. (np_node_id_start (knp_spec p), pool_name p)) pools"

fun adopt_each ::
  "(string \<Rightarrow> kube_error option) \<Rightarrow> owner_reference \<Rightarrow> (string \<times> string) list \<Rightarrow> (reconcile_error, unit, adopt_effect) logged" where
  "adopt_each failure owner [] = ret_log ()"
| "adopt_each failure owner ((name, target) # plan) =
     then_log (attempt Kube (failure name) (AdoptPool name owner target)) (adopt_each failure owner plan)"

definition adopt_pools ::
  "(string \<Rightarrow> kube_error option) \<Rightarrow> object_meta \<Rightarrow> node_pool list \<Rightarrow> string \<Rightarrow> (reconcile_error, unit, adopt_effect) logged" where
  "adopt_pools failure parent pools config_hash =
     bind_log (lift_log (owner_ref ''krabka.io/v1alpha1'' ''Kafka'' parent)) (\<lambda>owner.
       adopt_each failure owner (plan_rollout (map rollout_state (adopt_order pools)) config_hash))"

section \<open>Convergence of a rollout\<close>

definition rolled_statefulset :: "node_pool \<Rightarrow> string \<Rightarrow> string \<Rightarrow> stateful_set \<Rightarrow> bool" where
  "rolled_statefulset pool cluster hash sts \<longleftrightarrow>
     meta_label (sts_meta sts) ''app.kubernetes.io/instance'' = Some cluster
     \<and> meta_label (sts_meta sts) ''app.kubernetes.io/name'' = Some APP_LABEL
     \<and> meta_label (sts_meta sts) ''krabka.io/pool'' = Some (pool_name pool)
     \<and> (case (sts_spec sts, sts_status sts, meta_generation (sts_meta sts)) of
          (Some spec, Some status, Some generation) \<Rightarrow>
            template_annotation sts ''krabka.io/config-hash'' = Some hash
            \<and> ss_replicas spec = Some (np_replicas (knp_spec pool))
            \<and> sss_observed_generation status = Some generation
            \<and> sss_current_revision status \<noteq> None
            \<and> sss_current_revision status = sss_update_revision status
            \<and> unwrap_or 0 (sss_updated status) = np_replicas (knp_spec pool)
            \<and> unwrap_or 0 (sss_ready status) = np_replicas (knp_spec pool)
        | _ \<Rightarrow> False)"

definition pool_converged :: "stateful_set list \<Rightarrow> node_pool \<Rightarrow> bool" where
  "pool_converged stss pool =
     (case (meta_label (knp_meta pool) ''krabka.io/config-hash'', meta_label (knp_meta pool) ''krabka.io/cluster'') of
        (Some hash, Some cluster) \<Rightarrow> hash \<noteq> []
          \<and> (case find (\<lambda>s. meta_name (sts_meta s) = cluster @ ''-'' @ pool_name pool) stss of
               None \<Rightarrow> False
             | Some sts \<Rightarrow> rolled_statefulset pool cluster hash sts)
      | _ \<Rightarrow> False)"

definition pools_converged :: "node_pool list \<Rightarrow> stateful_set list \<Rightarrow> bool" where
  "pools_converged pools stss \<longleftrightarrow>
     distinct (map (\<lambda>s. meta_name (sts_meta s)) stss) \<and> list_all (pool_converged stss) pools
     \<and> (pools = [] \<or> length (remdups (map (\<lambda>p. meta_label (knp_meta p) ''krabka.io/config-hash'') pools)) = 1)"

definition pools_rolled_to_version :: "node_pool list \<Rightarrow> stateful_set list \<Rightarrow> string \<Rightarrow> bool" where
  "pools_rolled_to_version pools stss version \<longleftrightarrow>
     pools \<noteq> [] \<and> pools_converged pools stss
     \<and> list_all (\<lambda>s. meta_label (sts_meta s) ''app.kubernetes.io/version'' = Some version) stss"

section \<open>The roll-up of the pools\<close>

record cluster_rollup =
  cr_replicas :: int
  cr_ready_replicas :: int
  cr_pool_count :: nat

text \<open>The totals are 32-bit; the sums of the model are exact, which they are below 2^31.\<close>

definition aggregate_pool_status :: "node_pool list \<Rightarrow> cluster_rollup" where
  "aggregate_pool_status pools =
     foldl (\<lambda>r pool. \<lparr>cr_replicas = cr_replicas r + unwrap_or 0 (Option.bind (knp_status pool) nps_replicas),
         cr_ready_replicas = cr_ready_replicas r + unwrap_or 0 (Option.bind (knp_status pool) nps_ready_replicas),
         cr_pool_count = cr_pool_count r + 1\<rparr>)
       \<lparr>cr_replicas = 0, cr_ready_replicas = 0, cr_pool_count = 0\<rparr> pools"

definition rolling_condition_from_rollup :: "cluster_rollup \<Rightarrow> bool \<times> string \<times> string" where
  "rolling_condition_from_rollup r =
     (if 0 < cr_pool_count r \<and> cr_ready_replicas r < cr_replicas r
      then (True, ''RollingUpdate'', int_to_string (cr_ready_replicas r) @ ''/'' @ int_to_string (cr_replicas r)
              @ '' brokers ready (roll in progress)'')
      else (False, ''Stable'', ''all brokers on current revision''))"

definition rollup_condition :: "cluster_rollup \<Rightarrow> bool \<times> string \<times> string" where
  "rollup_condition r =
     (if cr_pool_count r = 0
      then (False, ''NoNodePools'', ''no KafkaNodePool with label krabka.io/cluster=<name>'')
      else if cr_ready_replicas r = cr_replicas r \<and> 0 < cr_replicas r
      then (True, ''Available'', int_to_string (cr_ready_replicas r) @ ''/'' @ int_to_string (cr_replicas r)
              @ '' brokers ready across '' @ nat_to_string (cr_pool_count r) @ '' pool(s)'')
      else (False, ''PartiallyReady'', int_to_string (cr_ready_replicas r) @ ''/'' @ int_to_string (cr_replicas r)
              @ '' brokers ready''))"

definition derive_status :: "stateful_set option \<Rightarrow> int \<Rightarrow> int option \<times> int option \<times> string \<times> string" where
  "derive_status live desired_replicas =
     (let status = Option.bind live sts_status;
          replicas = map_option sss_replicas status; ready_replicas = Option.bind status sss_ready;
          ready_count = unwrap_or 0 ready_replicas
      in if ready_count = desired_replicas
         then (replicas, ready_replicas, ''Available'', int_to_string desired_replicas @ '' broker(s) ready'')
         else if ready_count = 0
         then (replicas, ready_replicas, ''NoBrokersReady'', ''0/'' @ int_to_string desired_replicas @ '' brokers ready'')
         else (replicas, ready_replicas, ''PartiallyReady'',
               int_to_string ready_count @ ''/'' @ int_to_string desired_replicas @ '' brokers ready''))"

section \<open>One pool at a time\<close>

abbreviation converged_at :: "string \<Rightarrow> pool_rollout_state \<Rightarrow> bool" where
  "converged_at desired p \<equiv> pr_current_hash p = Some desired \<and> pr_ready p"

lemma gated_closed [simp]:
  "gated_targets desired False ps = map (\<lambda>p. (pr_name p, unwrap_or desired (pr_current_hash p))) ps"
  by (induction ps) simp_all

lemma gated_open_append:
  "list_all (converged_at desired) a
    \<Longrightarrow> gated_targets desired True (a @ b) = map (\<lambda>p. (pr_name p, desired)) a @ gated_targets desired True b"
  by (induction a) simp_all

lemma non_desired_le:
  assumes "\<forall>p \<in> set ps. pr_current_hash p \<in> {Some old, Some desired}"
  shows "length (non_desired ps desired) \<le> 1"
proof -
  have "set (non_desired ps desired) \<subseteq> {old}"
    using assms by (fastforce simp: non_desired_def map_filter_def)
  moreover have "distinct (non_desired ps desired)" by (simp add: non_desired_def)
  ultimately show ?thesis
    using distinct_card[of "non_desired ps desired"] card_mono[of "{old}" "set (non_desired ps desired)"] by simp
qed

text \<open>The planner of an established cluster advances one pool at a time. When every pool carries a
  hash and at most one of the hashes is not the desired one, the plan splits the pools, in their order, into
  pools that run ready on the desired hash, one next pool that is set to the desired hash, and later pools
  that keep the hash they have.\<close>

theorem rollout_one_at_a_time:
  assumes "\<forall>p \<in> set pools. pr_current_hash p \<noteq> None" "length (non_desired pools desired) \<le> 1"
  shows "\<exists>finished rest. pools = finished @ rest \<and> list_all (converged_at desired) finished
    \<and> plan_rollout pools desired = map (\<lambda>p. (pr_name p, desired)) (finished @ take 1 rest)
        @ map (\<lambda>p. (pr_name p, the (pr_current_hash p))) (drop 1 rest)
    \<and> (\<forall>p. rest \<noteq> [] \<and> p = hd rest \<longrightarrow> \<not> converged_at desired p)"
proof -
  let ?a = "takeWhile (converged_at desired) pools" and ?b = "dropWhile (converged_at desired) pools"
  have a: "list_all (converged_at desired) ?a" by (auto simp: list_all_iff dest: set_takeWhileD)
  have plan: "plan_rollout pools desired = gated_targets desired True (?a @ ?b)"
    using assms by (simp add: plan_rollout_def list_all_iff)
  have hd: "?b \<noteq> [] \<Longrightarrow> \<not> converged_at desired (hd ?b)" by (rule hd_dropWhile)
  have "gated_targets desired True ?b
      = map (\<lambda>p. (pr_name p, desired)) (take 1 ?b) @ map (\<lambda>p. (pr_name p, the (pr_current_hash p))) (drop 1 ?b)"
  proof (cases ?b)
    case (Cons p ps)
    then have "q \<in> set pools" if "q \<in> set ps" for q using that by (metis list.set_intros(2) set_dropWhileD)
    then have "unwrap_or desired (pr_current_hash q) = the (pr_current_hash q)" if "q \<in> set ps" for q
      using assms(1) that by fastforce
    with Cons hd show ?thesis by auto
  next
    case Nil
    then show ?thesis unfolding Nil by simp
  qed
  with plan gated_open_append[OF a]
  have "plan_rollout pools desired = map (\<lambda>p. (pr_name p, desired)) (?a @ take 1 ?b)
      @ map (\<lambda>p. (pr_name p, the (pr_current_hash p))) (drop 1 ?b)" by (simp del: takeWhile_dropWhile_id)
  moreover have "pools = ?a @ ?b" by simp
  ultimately show ?thesis using a hd by blast
qed

text \<open>Passes and pools that settle, when the planner sees the true readiness: a pool whose hash
  changes restarts.\<close>

definition roll_pass :: "string \<Rightarrow> pool_rollout_state list \<Rightarrow> pool_rollout_state list" where
  "roll_pass desired ps =
     map2 (\<lambda>p (_, h). p\<lparr>pr_current_hash := Some h, pr_ready := (pr_ready p \<and> pr_current_hash p = Some h)\<rparr>)
       ps (plan_rollout ps desired)"

inductive roll_step :: "string \<Rightarrow> pool_rollout_state list \<Rightarrow> pool_rollout_state list \<Rightarrow> bool" for desired where
  roll_plan: "roll_step desired ps (roll_pass desired ps)"
| roll_settle: "i < length ps \<Longrightarrow> roll_step desired ps (ps[i := (ps ! i)\<lparr>pr_ready := True\<rparr>])"

abbreviation steady_at :: "string \<Rightarrow> pool_rollout_state list \<Rightarrow> bool" where
  "steady_at h \<equiv> list_all (converged_at h)"

definition roll_front :: "string \<Rightarrow> string \<Rightarrow> pool_rollout_state list \<Rightarrow> bool" where
  "roll_front old desired b \<longleftrightarrow>
     (case b of [] \<Rightarrow> True
      | p # c \<Rightarrow> (pr_current_hash p = Some desired \<or> converged_at old p) \<and> steady_at old c)"

definition roll_inv :: "string \<Rightarrow> string \<Rightarrow> pool_rollout_state list \<Rightarrow> bool" where
  "roll_inv old desired ps \<longleftrightarrow> (\<exists>a b. ps = a @ b \<and> steady_at desired a \<and> roll_front old desired b)"

lemma roll_invI: "steady_at desired a \<Longrightarrow> roll_front old desired b \<Longrightarrow> roll_inv old desired (a @ b)"
  by (auto simp: roll_inv_def)

lemma map2_kept:
  "map2 f (a @ b) (map g a @ t) = map (\<lambda>p. f p (g p)) a @ map2 f b t"
  by (induction a) simp_all

lemma settled_same [simp]:
  "pr_current_hash p = Some h \<Longrightarrow> p\<lparr>pr_current_hash := Some h, pr_ready := pr_ready p\<rparr> = p"
  by (cases p) simp

lemma map2_map: "map2 f xs (map g xs) = map (\<lambda>x. f x (g x)) xs"
  by (induction xs) simp_all

lemma roll_pass_steady:
  assumes "steady_at desired a" "steady_at old c" "pr_current_hash p = Some desired \<or> converged_at old p"
    and "old \<noteq> desired"
  shows "roll_pass desired (a @ p # c) =
    (if converged_at desired p
     then a @ p # (case c of [] \<Rightarrow> [] | q # cs \<Rightarrow>
            q\<lparr>pr_current_hash := Some desired, pr_ready := (pr_ready q \<and> pr_current_hash q = Some desired)\<rparr> # cs)
     else a @ p\<lparr>pr_current_hash := Some desired, pr_ready := (pr_ready p \<and> pr_current_hash p = Some desired)\<rparr> # c)"
proof -
  let ?f = "\<lambda>p (_ :: string, h). p\<lparr>pr_current_hash := Some h, pr_ready := (pr_ready p \<and> pr_current_hash p = Some h)\<rparr>"
  have est: "plan_rollout (a @ p # c) desired = gated_targets desired True (a @ p # c)"
  proof -
    have "\<forall>q \<in> set (a @ p # c). pr_current_hash q \<in> {Some old, Some desired}"
      using assms by (auto simp: list_all_iff)
    from non_desired_le[OF this] assms show ?thesis by (auto simp: plan_rollout_def list_all_iff)
  qed
  have keep: "map (\<lambda>p. ?f p (pr_name p, unwrap_or desired (pr_current_hash p))) cs = cs" if "steady_at old cs" for cs
    using that by (auto simp: list_all_iff intro!: map_idI)
  have a: "map (\<lambda>p. ?f p (pr_name p, desired)) a = a"
    using assms(1) by (auto simp: list_all_iff intro!: map_idI)
  show ?thesis
  proof (cases "converged_at desired p")
    case True
    show ?thesis
    proof (cases c)
      case Nil
      with True a assms(1) show ?thesis
        by (simp add: roll_pass_def est[unfolded Nil] gated_open_append map2_kept map2_map)
    next
      case (Cons q cs)
      then have "\<not> converged_at desired q" using assms(2,4) by auto
      with True a assms keep[of cs] Cons show ?thesis
        by (simp add: roll_pass_def est[unfolded Cons] gated_open_append map2_kept map2_map)
    qed
  next
    case False
    with a assms keep[of c] show ?thesis
      by (auto simp: roll_pass_def est gated_open_append map2_kept map2_map)
  qed
qed

lemma roll_front_steady: "steady_at old b \<Longrightarrow> roll_front old desired b"
  by (cases b) (auto simp: roll_front_def)

lemma roll_inv_pass:
  assumes "roll_inv old desired ps" "old \<noteq> desired"
  shows "roll_inv old desired (roll_pass desired ps)"
proof -
  from assms(1) obtain a b where ps: "ps = a @ b" "steady_at desired a" "roll_front old desired b"
    by (auto simp: roll_inv_def)
  show ?thesis
  proof (cases b)
    case Nil
    have "plan_rollout a desired = gated_targets desired True (a @ [])"
      using ps(2) non_desired_le[of a desired desired] by (auto simp: plan_rollout_def list_all_iff)
    then have "roll_pass desired a = a"
      using ps(2) gated_open_append[OF ps(2), of "[]"]
      by (auto simp: roll_pass_def map2_map list_all_iff intro!: map_idI)
    with Nil ps assms(1) show ?thesis by simp
  next
    case (Cons p c)
    with ps have p: "pr_current_hash p = Some desired \<or> converged_at old p" "steady_at old c"
      by (auto simp: roll_front_def)
    note step = roll_pass_steady[OF ps(2) p(2,1) assms(2)]
    show ?thesis
    proof (cases "converged_at desired p")
      case True
      then have "steady_at desired (a @ [p])" using ps(2) by simp
      moreover have "roll_front old desired (case c of [] \<Rightarrow> [] | q # cs \<Rightarrow>
          q\<lparr>pr_current_hash := Some desired, pr_ready := (pr_ready q \<and> pr_current_hash q = Some desired)\<rparr> # cs)"
        using p(2) by (cases c) (auto simp: roll_front_def)
      ultimately show ?thesis
        unfolding ps(1) Cons step using True roll_invI[of desired "a @ [p]" old] by simp
    next
      case False
      then show ?thesis
        unfolding ps(1) Cons step using ps(2) p(2) by (auto simp: roll_front_def intro!: roll_invI)
    qed
  qed
qed

lemma roll_inv_settle:
  assumes "roll_inv old desired ps" "i < length ps"
  shows "roll_inv old desired (ps[i := (ps ! i)\<lparr>pr_ready := True\<rparr>])"
proof -
  have same: "q\<lparr>pr_ready := True\<rparr> = q" if "pr_ready q" for q :: pool_rollout_state using that by (cases q) simp
  from assms(1) obtain a b where ps: "ps = a @ b" "steady_at desired a" "roll_front old desired b"
    by (auto simp: roll_inv_def)
  show ?thesis
  proof (cases "pr_ready (ps ! i)")
    case True
    from same[OF this] assms show ?thesis by (metis list_update_id)
  next
    case False
    have "i = length a"
    proof (rule ccontr)
      assume "i \<noteq> length a"
      with assms(2) ps have "ps ! i \<in> set a \<union> set (tl b)"
        by (cases b) (auto simp: nth_append nth_Cons' split: if_splits)
      with ps False show False by (cases b) (auto simp: roll_front_def list_all_iff)
    qed
    with assms(2) ps obtain p c where "b = p # c" by (cases b) auto
    with ps \<open>i = length a\<close> show ?thesis
      by (auto simp: roll_front_def list_update_append intro!: roll_invI)
  qed
qed

interpretation rl: invariant_machine "steady_at old" "roll_step desired"
  "\<lambda>ps. old \<noteq> desired \<longrightarrow> roll_inv old desired ps" for old desired
proof
  show "old \<noteq> desired \<longrightarrow> roll_inv old desired ps" if "steady_at old ps" for ps
    using roll_invI[of desired "[]" old ps] roll_front_steady[OF that] by simp
  show "old \<noteq> desired \<longrightarrow> roll_inv old desired t"
    if "old \<noteq> desired \<longrightarrow> roll_inv old desired s" "roll_step desired s t" for s t
    using that(2,1) by cases (auto intro: roll_inv_pass roll_inv_settle)
qed


definition roll_round :: "string \<Rightarrow> pool_rollout_state list \<Rightarrow> pool_rollout_state list" where
  "roll_round desired ps = map (\<lambda>p. p\<lparr>pr_ready := True\<rparr>) (roll_pass desired ps)"

lemma set_ready_steady: "steady_at h ps \<Longrightarrow> map (\<lambda>p. p\<lparr>pr_ready := True\<rparr>) ps = ps"
  by (auto simp: list_all_iff intro!: map_idI)

lemma roll_round_steady:
  assumes "steady_at desired a" "steady_at old (p # c)" "old \<noteq> desired"
  shows "roll_round desired (a @ p # c) = a @ p\<lparr>pr_current_hash := Some desired\<rparr> # c"
proof -
  have "roll_pass desired (a @ p # c) = a @ p\<lparr>pr_current_hash := Some desired, pr_ready := False\<rparr> # c"
    using roll_pass_steady[OF assms(1) _ _ assms(3), of c p] assms(2,3) by simp
  moreover have "p\<lparr>pr_current_hash := Some desired, pr_ready := True\<rparr> = p\<lparr>pr_current_hash := Some desired\<rparr>"
    using assms(2) by (cases p) simp
  ultimately show ?thesis
    using assms set_ready_steady[OF assms(1)] set_ready_steady[of old c] by (simp add: roll_round_def)
qed

lemma roll_rounds_steady:
  assumes "steady_at old ps" "old \<noteq> desired" "k \<le> length ps"
  shows "(roll_round desired ^^ k) ps
    = map (\<lambda>p. p\<lparr>pr_current_hash := Some desired\<rparr>) (take k ps) @ drop k ps"
  using assms(3)
proof (induction k)
  case (Suc k)
  then obtain p c where d: "drop k ps = p # c" by (cases "drop k ps") auto
  have t: "take (Suc k) ps = take k ps @ [p]" "drop (Suc k) ps = c"
    using d Suc.prems by (simp_all add: take_Suc_conv_app_nth nth_via_drop drop_Suc) (metis drop_Suc list.sel(3) tl_drop)
  have "steady_at old (drop k ps)" "steady_at old (take k ps)"
    using assms(1) by (auto simp: list_all_iff dest: in_set_dropD in_set_takeD)
  then have "steady_at old (p # c)" "steady_at desired (map (\<lambda>p. p\<lparr>pr_current_hash := Some desired\<rparr>) (take k ps))"
    using d by (simp_all add: list_all_iff)
  from roll_round_steady[OF this(2,1) assms(2)] show ?case
    using Suc by (simp add: t d)
qed simp

text \<open>C30: A rollout completes. Starting from a cluster that runs ready on the old hash, when every pool
  becomes ready again after each pass, after \<open>k\<close> passes exactly the first \<open>k\<close> pools carry the desired
  hash, so one pass per pool completes the rollout.\<close>

theorem rollout_completes:
  assumes "steady_at old ps" "old \<noteq> desired"
  shows "(\<forall>k \<le> length ps. map pr_current_hash ((roll_round desired ^^ k) ps)
        = replicate k (Some desired) @ replicate (length ps - k) (Some old))
    \<and> steady_at desired ((roll_round desired ^^ length ps) ps)"
proof -
  have "map pr_current_hash (drop k ps) = replicate (length ps - k) (Some old)" for k
    using assms(1) by (intro nth_equalityI) (auto simp: list_all_length)
  then have "map pr_current_hash ((roll_round desired ^^ k) ps)
      = replicate k (Some desired) @ replicate (length ps - k) (Some old)" if "k \<le> length ps" for k
    using roll_rounds_steady[OF assms that] that by (simp add: o_def map_replicate_const)
  moreover have "steady_at desired ((roll_round desired ^^ length ps) ps)"
    using roll_rounds_steady[OF assms order_refl] assms(1) by (simp add: list_all_iff)
  ultimately show ?thesis by blast
qed

section \<open>A stale status opens the gate\<close>

definition adopted :: "adopt_effect list \<Rightarrow> node_pool \<Rightarrow> node_pool" where
  "adopted effs pool =
     (case find (\<lambda>e. case e of AdoptPool n _ _ \<Rightarrow> n = pool_name pool) effs of
        None \<Rightarrow> pool
      | Some (AdoptPool _ _ h) \<Rightarrow>
          pool\<lparr>knp_meta := (knp_meta pool)\<lparr>meta_labels :=
            Some (bm_insert ''krabka.io/config-hash'' h (unwrap_or [] (meta_labels (knp_meta pool))))\<rparr>\<rparr>)"

lemma rollout_state_adopted:
  assumes "find (\<lambda>e. case e of AdoptPool n _ _ \<Rightarrow> n = pool_name pool) effs = Some (AdoptPool n owner h)"
  shows "rollout_state (adopted effs pool) = (rollout_state pool)\<lparr>pr_current_hash := Some h\<rparr>"
  using assms by (cases "meta_labels (knp_meta pool)")
    (simp_all add: rollout_state_def adopted_def meta_label_def)

text \<open>The gate of the rollout trusts the status that the pool controller wrote before the pool was
  relabelled. In a cluster of two pools that run ready on the old hash, a first pass sets the hash of the
  first pool; when the next pass comes before the pool controller has refreshed that pool's status, it sets
  the hash of the second pool as well, although the first has not restarted yet.\<close>

theorem stale_status_rolls_ahead:
  assumes "np_node_id_start (knp_spec p) < np_node_id_start (knp_spec q)" "pool_name p \<noteq> pool_name q"
    and "converged_at old (rollout_state p)" "converged_at old (rollout_state q)" "old \<noteq> new"
    and "meta_uid parent = Some uid" "\<forall>n. failure n = None"
  shows "\<exists>owner. snd (adopt_pools failure parent [p, q] new)
        = [AdoptPool (pool_name p) owner new, AdoptPool (pool_name q) owner old]
    \<and> snd (adopt_pools failure parent (map (adopted (snd (adopt_pools failure parent [p, q] new))) [p, q]) new)
        = [AdoptPool (pool_name p) owner new, AdoptPool (pool_name q) owner new]"
proof -
  obtain owner where o: "owner_ref ''krabka.io/v1alpha1'' ''Kafka'' parent = Inr owner"
    using assms(6) by (simp add: owner_ref_def)
  have each: "snd (adopt_each failure owner plan) = map (\<lambda>(n, h). AdoptPool n owner h) plan" for plan
    using assms(7) by (induction plan) (auto simp: snd_then_log attempt_def)
  have pass: "snd (adopt_pools failure parent [a, b] new)
      = map (\<lambda>(n, h). AdoptPool n owner h) (plan_rollout [rollout_state a, rollout_state b] new)"
    if "np_node_id_start (knp_spec a) < np_node_id_start (knp_spec b)" for a b
    using that o each by (simp add: adopt_pools_def adopt_order_def less_eq_prod_def)
  have n: "pr_name (rollout_state a) = pool_name a" for a by (simp add: rollout_state_def)
  have "plan_rollout [rollout_state p, rollout_state q] new = [(pool_name p, new), (pool_name q, old)]"
    using assms(3-5) by (simp add: plan_rollout_def non_desired_def map_filter_def n)
  with pass[OF assms(1)] have first: "snd (adopt_pools failure parent [p, q] new)
      = [AdoptPool (pool_name p) owner new, AdoptPool (pool_name q) owner old]" by simp
  let ?effs = "[AdoptPool (pool_name p) owner new, AdoptPool (pool_name q) owner old]"
  have s: "rollout_state (adopted ?effs p) = (rollout_state p)\<lparr>pr_current_hash := Some new\<rparr>"
    "rollout_state (adopted ?effs q) = (rollout_state q)\<lparr>pr_current_hash := Some old\<rparr>"
    using assms(2) by (auto intro!: rollout_state_adopted)
  have k: "knp_spec (adopted ?effs a) = knp_spec a" "pool_name (adopted ?effs a) = pool_name a" for a
    by (auto simp: adopted_def split: option.splits adopt_effect.splits)
  have "plan_rollout [rollout_state (adopted ?effs p), rollout_state (adopted ?effs q)] new
      = [(pool_name p, new), (pool_name q, new)]"
    using assms(3-5) unfolding s by (simp add: plan_rollout_def non_desired_def map_filter_def n)
  with pass[of "adopted ?effs p" "adopted ?effs q"] assms(1) k
  have "snd (adopt_pools failure parent [adopted ?effs p, adopted ?effs q] new)
      = [AdoptPool (pool_name p) owner new, AdoptPool (pool_name q) owner new]" by simp
  with first show ?thesis by auto
qed

text \<open>A pool without status does not keep the cluster from being reported as available. The roll-up
  compares the observed counts only: when the pools with a status have all their observed replicas ready,
  adding a pool that has no status yet leaves the condition \<open>Available\<close>.\<close>

theorem unseen_pool_reported_available:
  assumes "rollup_condition (aggregate_pool_status pools) = (True, ''Available'', m)" "knp_status new = None"
  shows "\<exists>m'. rollup_condition (aggregate_pool_status (pools @ [new])) = (True, ''Available'', m')
    \<and> fst (rolling_condition_from_rollup (aggregate_pool_status (pools @ [new]))) = False"
proof -
  let ?r = "aggregate_pool_status pools"
  have "aggregate_pool_status (pools @ [new]) = ?r\<lparr>cr_pool_count := cr_pool_count ?r + 1\<rparr>"
    using assms(2) by (simp add: aggregate_pool_status_def)
  with assms(1) show ?thesis
    by (auto simp: rollup_condition_def rolling_condition_from_rollup_def split: if_splits)
qed

section \<open>Instances\<close>

definition sample_rollout :: "pool_rollout_state list" where
  "sample_rollout = [\<lparr>pr_name = ''a'', pr_current_hash = Some ''old'', pr_ready = True\<rparr>,
     \<lparr>pr_name = ''b'', pr_current_hash = Some ''old'', pr_ready = True\<rparr>]"

definition ready_pool :: "string \<Rightarrow> int \<Rightarrow> node_pool" where
  "ready_pool name start = (sample_pool name start 1 [Broker])
     \<lparr>knp_meta := (plain_meta name)\<lparr>meta_labels := Some [(''krabka.io/config-hash'', ''old'')]\<rparr>,
      knp_status := Some \<lparr>nps_conditions = [], nps_replicas = Some 1, nps_ready_replicas = Some 1\<rparr>\<rparr>"

theorem rollout_one_at_a_time_witness:
  "\<exists>finished rest. sample_rollout = finished @ rest
    \<and> plan_rollout sample_rollout ''new'' = map (\<lambda>p. (pr_name p, ''new'')) (finished @ take 1 rest)
        @ map (\<lambda>p. (pr_name p, the (pr_current_hash p))) (drop 1 rest)"
proof -
  have "\<forall>p \<in> set sample_rollout. pr_current_hash p \<noteq> None" "length (non_desired sample_rollout ''new'') \<le> 1"
    by (simp add: sample_rollout_def, code_simp)
  from rollout_one_at_a_time[OF this] show ?thesis by blast
qed


theorem rollout_completes_witness:
  "list_all (converged_at ''new'') ((roll_round ''new'' ^^ 2) sample_rollout)"
  using rollout_completes[of "''old''" sample_rollout "''new''"] by (simp add: sample_rollout_def numeral_2_eq_2)

theorem stale_status_rolls_ahead_witness:
  "\<exists>owner. AdoptPool ''b'' owner ''new'' \<in> set (snd (adopt_pools (\<lambda>_. None) ((plain_meta ''c'')\<lparr>meta_uid := Some ''u''\<rparr>)
     (map (adopted (snd (adopt_pools (\<lambda>_. None) ((plain_meta ''c'')\<lparr>meta_uid := Some ''u''\<rparr>)
        [ready_pool ''a'' 0, ready_pool ''b'' 1] ''new''))) [ready_pool ''a'' 0, ready_pool ''b'' 1]) ''new''))"
proof -
  have n: "pool_name (ready_pool n i) = n" "np_node_id_start (knp_spec (ready_pool n i)) = i" for n i
    by (simp_all add: ready_pool_def sample_pool_def plain_meta_def)
  have "converged_at ''old'' (rollout_state (ready_pool ''a'' 0))" "converged_at ''old'' (rollout_state (ready_pool ''b'' 1))"
    by (code_simp, code_simp)
  then obtain owner where "snd (adopt_pools (\<lambda>_. None) ((plain_meta ''c'')\<lparr>meta_uid := Some ''u''\<rparr>)
     (map (adopted (snd (adopt_pools (\<lambda>_. None) ((plain_meta ''c'')\<lparr>meta_uid := Some ''u''\<rparr>)
        [ready_pool ''a'' 0, ready_pool ''b'' 1] ''new''))) [ready_pool ''a'' 0, ready_pool ''b'' 1]) ''new'')
     = [AdoptPool ''a'' owner ''new'', AdoptPool ''b'' owner ''new'']"
    using stale_status_rolls_ahead[of "ready_pool ''a'' 0" "ready_pool ''b'' 1" "''old''" "''new''"
        "(plain_meta ''c'')\<lparr>meta_uid := Some ''u''\<rparr>" "''u''" "\<lambda>_. None"]
    by (auto simp: n)
  then show ?thesis by auto
qed

theorem unseen_pool_reported_available_witness:
  "fst (rollup_condition (aggregate_pool_status [ready_pool ''a'' 0, sample_pool ''b'' 1 3 [Broker]]))"
proof -
  have "rollup_condition (aggregate_pool_status [ready_pool ''a'' 0])
      = (True, ''Available'', ''1/1 brokers ready across 1 pool(s)'')" by code_simp
  from unseen_pool_reported_available[OF this, of "sample_pool ''b'' 1 3 [Broker]"] show ?thesis
    by (auto simp: sample_pool_def)
qed

end
