(* ===== verification/Config_Hash.thy ===== *)
theory Config_Hash
  imports Broker_Files Rollout
begin

text \<open>
  The configuration hash that decides whether brokers restart (\<open>controller/common.rs\<close>,
  \<open>canonical_listener_intent\<close> of \<open>controller/listeners.rs\<close>). SHA-256 is the parameter
  \<open>sha256_hex\<close>. Shown are that the hash follows every change of what enters it, and which changes
  of the broker file do not.
\<close>

section \<open>The hash\<close>

definition config_hash :: "(string \<Rightarrow> string) \<Rightarrow> string \<Rightarrow> string" where
  "config_hash sha256_hex content = take 16 (sha256_hex content)"

definition rollout_config_hash :: "(string \<Rightarrow> string) \<Rightarrow> string \<Rightarrow> string \<Rightarrow> string" where
  "rollout_config_hash sha256_hex base_hash leafs = config_hash sha256_hex (base_hash @ CHR 0x1E # leafs)"

definition type_debug :: "listener_type \<Rightarrow> string" where
  "type_debug t =
     (case t of Internal \<Rightarrow> ''Internal'' | Nodeport \<Rightarrow> ''Nodeport'' | Loadbalancer \<Rightarrow> ''Loadbalancer'' | Ingress \<Rightarrow> ''Ingress'' | Route \<Rightarrow> ''Route'')"

definition intent_line :: "string \<Rightarrow> string" where
  "intent_line s = s @ [line_feed]"

definition optional_line :: "('a \<Rightarrow> string) \<Rightarrow> 'a option \<Rightarrow> string" where
  "optional_line f v = (case v of None \<Rightarrow> [] | Some x \<Rightarrow> intent_line (f x))"

definition override_intent :: "broker_override \<Rightarrow> string" where
  "override_intent o' =
     (let key = (\<lambda>name. ''  broker'' @ int_to_string (bo_broker o') @ ''.'' @ name @ ''='')
      in optional_line (\<lambda>h. key ''advertisedHost'' @ h) (bo_advertised_host o')
         @ optional_line (\<lambda>p. key ''advertisedPort'' @ int_to_string p) (bo_advertised_port o')
         @ optional_line (\<lambda>p. key ''nodePort'' @ int_to_string p) (bo_node_port o')
         @ optional_line (\<lambda>ip. key ''loadBalancerIP'' @ ip) (bo_load_balancer_ip o'))"

definition listener_intent :: "listener \<Rightarrow> string" where
  "listener_intent l =
     intent_line (''listener:name='' @ ls_name l @ '',port='' @ int_to_string (ls_port l) @ '',type='' @ type_debug (ls_type l)
       @ '',tls='' @ print_bool (ls_tls l))
     @ (case ls_configuration l of
          None \<Rightarrow> []
        | Some cfg \<Rightarrow>
            (case lc_bootstrap cfg of
               None \<Rightarrow> []
             | Some bc \<Rightarrow> optional_line (\<lambda>p. ''  bootstrap.nodePort='' @ int_to_string p) (bc_node_port bc)
                 @ optional_line (\<lambda>ip. ''  bootstrap.loadBalancerIP='' @ ip) (bc_load_balancer_ip bc))
            @ concat (map override_intent (sort_key bo_broker (lc_brokers cfg))))"

definition canonical_listener_intent :: "listener list \<Rightarrow> string option \<Rightarrow> string" where
  "canonical_listener_intent ls inter_broker =
     (if ls = [] then []
      else optional_line (\<lambda>n. ''inter_broker='' @ n) inter_broker @ concat (map listener_intent ls))"

definition config_part :: "kafka_spec \<Rightarrow> string" where
  "config_part spec = concat (map (\<lambda>(k, v). k @ ''='' @ v @ [line_feed]) (unwrap_or [] (kspec_config spec)))"

text \<open>The segments that follow the configuration.\<close>

definition hash_segments :: "tuning_env \<Rightarrow> kafka_spec \<Rightarrow> string option \<Rightarrow> string option \<Rightarrow> string option \<Rightarrow> string list" where
  "hash_segments tenv spec ca pin flt =
     [canonical_listener_intent (kspec_listeners spec) (kspec_inter_broker_listener_name spec),
      if kspec_metrics_config spec \<noteq> None then ''metrics=on'' else [],
      unwrap_or [] ca, unwrap_or [] pin, unwrap_or [] flt,
      (case kspec_broker_tuning spec of None \<Rightarrow> [] | Some t \<Rightarrow> print_items (render_runtime_toml tenv t))]"

abbreviation unit_separator :: char where "unit_separator \<equiv> CHR 0x1F"

definition hash_input :: "tuning_env \<Rightarrow> kafka_spec \<Rightarrow> string option \<Rightarrow> string option \<Rightarrow> string option \<Rightarrow> string" where
  "hash_input tenv spec ca pin flt =
     (let segments = hash_segments tenv spec ca pin flt
      in if \<forall>s \<in> set segments. s = [] then config_part spec
         else config_part spec @ concat (map ((#) unit_separator) segments))"

definition combined_config_hash ::
  "(string \<Rightarrow> string) \<Rightarrow> tuning_env \<Rightarrow> kafka_spec \<Rightarrow> string option \<Rightarrow> string option \<Rightarrow> string option \<Rightarrow> string" where
  "combined_config_hash sha256_hex tenv spec ca pin flt = config_hash sha256_hex (hash_input tenv spec ca pin flt)"

section \<open>What the hash follows\<close>

lemma joined_segments:
  "length xs = length ys \<Longrightarrow> \<forall>s \<in> set (x # xs) \<union> set (y # ys). unit_separator \<notin> set s \<Longrightarrow>
   x @ concat (map ((#) unit_separator) xs) = y @ concat (map ((#) unit_separator) ys) \<Longrightarrow> x = y \<and> xs = ys"
proof (induction xs ys arbitrary: x y rule: list_induct2)
  case (Cons a xs b ys)
  have "x @ unit_separator # (a @ concat (map ((#) unit_separator) xs)) = y @ unit_separator # (b @ concat (map ((#) unit_separator) ys))"
    using Cons.prems(2) by simp
  moreover have "unit_separator \<notin> set x" "unit_separator \<notin> set y" using Cons.prems(1) by auto
  ultimately have "x = y" "a @ concat (map ((#) unit_separator) xs) = b @ concat (map ((#) unit_separator) ys)"
    by (auto simp: append_eq_append_conv2 Cons_eq_append_conv append_eq_Cons_conv)
  with Cons.IH[of a b] Cons.prems(1) show ?case by auto
qed simp

text \<open>C28: Every change of what enters the hash is seen. When the digests of two specifications agree, which SHA-256
  makes a matter of equal input, the server properties, the listener intents, the metrics switch, the CA, the pinned
  metadata version, the log filter and the rendered tuning all agree.\<close>

theorem combined_hash_separates:
  assumes "combined_config_hash sha tenv spec ca pin fl = combined_config_hash sha tenv spec' ca' pin' fl'"
    and "take 16 (sha (hash_input tenv spec ca pin fl)) = take 16 (sha (hash_input tenv spec' ca' pin' fl'))
      \<Longrightarrow> hash_input tenv spec ca pin fl = hash_input tenv spec' ca' pin' fl'"
    and "\<forall>s \<in> set (config_part spec # hash_segments tenv spec ca pin fl) \<union> set (config_part spec' # hash_segments tenv spec' ca' pin' fl').
      unit_separator \<notin> set s"
  shows "config_part spec = config_part spec' \<and> hash_segments tenv spec ca pin fl = hash_segments tenv spec' ca' pin' fl'"
proof -
  let ?s = "hash_segments tenv spec ca pin fl" and ?s' = "hash_segments tenv spec' ca' pin' fl'"
  have len: "length ?s = length ?s'" by (simp add: hash_segments_def)
  from assms(1,2) have eq: "hash_input tenv spec ca pin fl = hash_input tenv spec' ca' pin' fl'"
    by (simp add: combined_config_hash_def config_hash_def)
  have plain: "unit_separator \<notin> set (config_part spec)" "unit_separator \<notin> set (config_part spec')" using assms(3) by auto
  have joined: "unit_separator \<in> set (x @ concat (map ((#) unit_separator) ?s))" "unit_separator \<in> set (x @ concat (map ((#) unit_separator) ?s'))" for x
    by (simp_all add: hash_segments_def)
  have empty: "?s = replicate 6 []" if "\<forall>s \<in> set ?s. s = []" using that by (auto simp: hash_segments_def numeral_eq_Suc)
  have empty': "?s' = replicate 6 []" if "\<forall>s \<in> set ?s'. s = []" using that by (auto simp: hash_segments_def numeral_eq_Suc)
  show ?thesis
  proof (cases "\<forall>s \<in> set ?s. s = []"; cases "\<forall>s \<in> set ?s'. s = []")
    assume "\<forall>s \<in> set ?s. s = []" "\<forall>s \<in> set ?s'. s = []"
    with eq empty empty' show ?thesis by (simp add: hash_input_def)
  next
    assume "\<forall>s \<in> set ?s. s = []" "\<not> (\<forall>s \<in> set ?s'. s = [])"
    with eq plain(1) joined(2)[of "config_part spec'"] show ?thesis by (simp add: hash_input_def Let_def)
  next
    assume "\<not> (\<forall>s \<in> set ?s. s = [])" "\<forall>s \<in> set ?s'. s = []"
    with eq plain(2) joined(1)[of "config_part spec"] show ?thesis by (simp add: hash_input_def Let_def)
  next
    assume "\<not> (\<forall>s \<in> set ?s. s = [])" "\<not> (\<forall>s \<in> set ?s'. s = [])"
    with eq have "config_part spec @ concat (map ((#) unit_separator) ?s) = config_part spec' @ concat (map ((#) unit_separator) ?s')"
      by (simp add: hash_input_def Let_def)
    from joined_segments[OF len assms(3) this] show ?thesis .
  qed
qed

section \<open>What the hash does not follow\<close>

lemma intent_without_authentication: "listener_intent (l\<lparr>ls_authentication := a\<rparr>) = listener_intent l"
  by (simp add: listener_intent_def)

lemma intents_agree:
  assumes "map (\<lambda>l. l\<lparr>ls_authentication := None\<rparr>) ls = map (\<lambda>l. l\<lparr>ls_authentication := None\<rparr>) ls'"
  shows "canonical_listener_intent ls ib = canonical_listener_intent ls' ib"
proof -
  have "map listener_intent ls = map listener_intent (map (\<lambda>l. l\<lparr>ls_authentication := None\<rparr>) ls)" for ls
    by (simp add: intent_without_authentication)
  with assms have m: "map listener_intent ls = map listener_intent ls'" by metis
  have n: "ls = [] \<longleftrightarrow> ls' = []" using assms by (metis map_is_Nil_conv)
  show ?thesis by (simp only: canonical_listener_intent_def m n)
qed

lemma gated_same: "\<forall>p \<in> set ps. pr_current_hash p = Some d \<Longrightarrow> gated_targets d g ps = map (\<lambda>p. (pr_name p, d)) ps"
  by (induction ps arbitrary: g) auto

lemma plan_same: "\<forall>p \<in> set ps. pr_current_hash p = Some d \<Longrightarrow> plan_rollout ps d = map (\<lambda>p. (pr_name p, d)) ps"
  by (auto simp: plan_rollout_def gated_same)


section \<open>Instances\<close>

theorem combined_hash_separates_witness:
  "combined_config_hash id sample_tuning_env (sample_kafka_spec\<lparr>kspec_broker_tuning := None\<rparr>) (Some ''ca'') None None
   \<noteq> combined_config_hash id sample_tuning_env (sample_kafka_spec\<lparr>kspec_broker_tuning := None\<rparr>) (Some ''cb'') None None"
proof
  let ?spec = "sample_kafka_spec\<lparr>kspec_broker_tuning := None\<rparr>"
  assume eq: "combined_config_hash id sample_tuning_env ?spec (Some ''ca'') None None
    = combined_config_hash id sample_tuning_env ?spec (Some ''cb'') None None"
  have "hash_segments sample_tuning_env ?spec (Some ''ca'') None None = hash_segments sample_tuning_env ?spec (Some ''cb'') None None"
    using combined_hash_separates[OF eq]
    by (simp add: hash_input_def hash_segments_def sample_kafka_spec_def config_part_def canonical_listener_intent_def)
  then show False by (simp add: hash_segments_def)
qed

definition open_listeners :: "listener list" where
  "open_listeners = [sample_listener ''PLAIN'' 9092 False None]"

definition locked_listeners :: "listener list" where
  "locked_listeners = [sample_listener ''PLAIN'' 9092 False (Some AuthScramSha512)]"


end
