(* ===== verification/Side_Resources.thy ===== *)
theory Side_Resources
  imports Listener_Objects
begin

text \<open>
  The objects beside the brokers: the NetworkPolicy (\<open>controller/network_policy.rs\<close>), the
  monitors of the Prometheus operator (\<open>controller/metrics.rs\<close>) and the log filter
  (\<open>controller/logging.rs\<close>). What a NetworkPolicy admits follows the documentation of the
  Kubernetes API: a pod that is selected accepts a connection that some rule admits.
\<close>

section \<open>Network policies\<close>

record policy_peer =
  pp_pod_selector :: "label_selector option"
  pp_namespace_selector :: "label_selector option"

text \<open>An ingress rule: who may connect, and the one TCP port that every rule here has. An empty
  list of peers stands for everyone.\<close>

record ingress_rule =
  ir_from :: "policy_peer list"
  ir_port :: int

record network_policy =
  npol_meta :: object_meta
  npol_pod_selector :: label_selector
  npol_ingress :: "ingress_rule list"

definition label_equals :: "(string, string) bmap \<Rightarrow> label_selector" where
  "label_equals m = \<lparr>sel_match_labels = Some m, sel_match_expressions = None\<rparr>"

definition operator_peer :: "string \<Rightarrow> policy_peer" where
  "operator_peer ns = \<lparr>pp_pod_selector = Some (label_equals [(''app.kubernetes.io/component'', ''operator'')]),
     pp_namespace_selector = Some (label_equals [(''kubernetes.io/metadata.name'', ns)])\<rparr>"

definition self_peer :: "string \<Rightarrow> policy_peer" where
  "self_peer name = \<lparr>pp_pod_selector = Some (label_equals (cluster_selector name)), pp_namespace_selector = None\<rparr>"

definition to_k8s_peer :: "network_policy_peer \<Rightarrow> policy_peer" where
  "to_k8s_peer p = \<lparr>pp_pod_selector = peer_pod_selector p, pp_namespace_selector = peer_namespace_selector p\<rparr>"

definition listener_rules :: "string \<Rightarrow> listener \<Rightarrow> ingress_rule list" where
  "listener_rules operator_name l =
     (if ls_name l = operator_name then []
      else case ls_network_policy_peers l of
        None \<Rightarrow> [\<lparr>ir_from = [], ir_port = ls_port l\<rparr>]
      | Some [] \<Rightarrow> []
      | Some peers \<Rightarrow> [\<lparr>ir_from = map to_k8s_peer peers, ir_port = ls_port l\<rparr>])"

definition render_network_policy ::
  "kafka \<Rightarrow> listener list \<Rightarrow> int \<Rightarrow> string \<Rightarrow> bool \<Rightarrow> reconcile_error + network_policy" where
  "render_network_policy k ls inter_broker_port operator_ns metrics =
     (let name = kafka_name k; operator_name = ls_name (operator_listener (base_listeners k));
          rules = [\<lparr>ir_from = [self_peer name], ir_port = inter_broker_port\<rparr>]
            @ map (\<lambda>l. \<lparr>ir_from = [operator_peer operator_ns], ir_port = ls_port l\<rparr>) ls
            @ concat (map (listener_rules operator_name) ls)
            @ (if metrics then [\<lparr>ir_from = [], ir_port = METRICS_PORT\<rparr>] else [])
      in bind_result (owner_of_kafka k) (\<lambda>owner.
        Inr \<lparr>npol_meta = owned_meta (kf_meta k) (name @ ''-broker-policy'')
               (common_labels name (kspec_kafka_version (kf_spec k)) None) owner,
             npol_pod_selector = label_equals (cluster_selector name), npol_ingress = rules\<rparr>))"

subsection \<open>Meaning\<close>

fun requirement_holds :: "(string, string) bmap \<Rightarrow> selector_requirement \<Rightarrow> bool" where
  "requirement_holds labels r =
     (case sr_operator r of
        LabelIn \<Rightarrow> (case bm_get labels (sr_key r) of None \<Rightarrow> False | Some v \<Rightarrow> v \<in> set (sr_values r))
      | LabelNotIn \<Rightarrow> (case bm_get labels (sr_key r) of None \<Rightarrow> True | Some v \<Rightarrow> v \<notin> set (sr_values r))
      | LabelExists \<Rightarrow> bm_get labels (sr_key r) \<noteq> None
      | LabelDoesNotExist \<Rightarrow> bm_get labels (sr_key r) = None)"

definition selects :: "label_selector \<Rightarrow> (string, string) bmap \<Rightarrow> bool" where
  "selects s labels \<longleftrightarrow> list_all (\<lambda>(key, v). bm_get labels key = Some v) (unwrap_or [] (sel_match_labels s))
     \<and> list_all (requirement_holds labels) (unwrap_or [] (sel_match_expressions s))"

text \<open>The pod at the other end of a connection, with its namespace and the labels of that.\<close>

record source_pod =
  sp_namespace :: string
  sp_namespace_labels :: "(string, string) bmap"
  sp_labels :: "(string, string) bmap"

text \<open>A peer with neither selector is refused by the API server and admits no one.\<close>

definition peer_matches :: "string \<Rightarrow> policy_peer \<Rightarrow> source_pod \<Rightarrow> bool" where
  "peer_matches ns p s \<longleftrightarrow>
     (case (pp_pod_selector p, pp_namespace_selector p) of
        (None, None) \<Rightarrow> False
      | (Some pods, None) \<Rightarrow> sp_namespace s = ns \<and> selects pods (sp_labels s)
      | (None, Some nss) \<Rightarrow> selects nss (sp_namespace_labels s)
      | (Some pods, Some nss) \<Rightarrow> selects nss (sp_namespace_labels s) \<and> selects pods (sp_labels s))"

definition rule_admits :: "string \<Rightarrow> ingress_rule \<Rightarrow> source_pod \<Rightarrow> int \<Rightarrow> bool" where
  "rule_admits ns r s port \<longleftrightarrow> port = ir_port r \<and> (ir_from r = [] \<or> list_ex (\<lambda>p. peer_matches ns p s) (ir_from r))"

definition policy_admits :: "network_policy \<Rightarrow> source_pod \<Rightarrow> int \<Rightarrow> bool" where
  "policy_admits np s port \<longleftrightarrow>
     list_ex (\<lambda>r. rule_admits (unwrap_or ''default'' (meta_namespace (npol_meta np))) r s port) (npol_ingress np)"

text \<open>Who may reach a port, in terms of the resource.\<close>

definition is_cluster_pod :: "kafka \<Rightarrow> source_pod \<Rightarrow> bool" where
  "is_cluster_pod k s \<longleftrightarrow> sp_namespace s = unwrap_or ''default'' (meta_namespace (kf_meta k))
     \<and> bm_get (sp_labels s) ''app.kubernetes.io/name'' = Some APP_LABEL
     \<and> bm_get (sp_labels s) ''app.kubernetes.io/instance'' = Some (kafka_name k)"

definition is_operator_pod :: "string \<Rightarrow> source_pod \<Rightarrow> bool" where
  "is_operator_pod ns s \<longleftrightarrow> bm_get (sp_namespace_labels s) ''kubernetes.io/metadata.name'' = Some ns
     \<and> bm_get (sp_labels s) ''app.kubernetes.io/component'' = Some ''operator''"

definition listener_open_to :: "kafka \<Rightarrow> listener \<Rightarrow> source_pod \<Rightarrow> bool" where
  "listener_open_to k l s \<longleftrightarrow>
     (case ls_network_policy_peers l of
        None \<Rightarrow> True
      | Some peers \<Rightarrow> list_ex (\<lambda>p. peer_matches (unwrap_or ''default'' (meta_namespace (kf_meta k))) (to_k8s_peer p) s) peers)"

lemma selects_equals [simp]: "selects (label_equals m) labels \<longleftrightarrow> list_all (\<lambda>(key, v). bm_get labels key = Some v) m"
  by (simp add: selects_def label_equals_def)

lemma self_matches: "peer_matches (unwrap_or ''default'' (meta_namespace (kf_meta k))) (self_peer (kafka_name k)) s \<longleftrightarrow> is_cluster_pod k s"
  by (auto simp: peer_matches_def self_peer_def is_cluster_pod_def cluster_selector_def bm_collect_def)

lemma operator_matches: "peer_matches ns (operator_peer ons) s \<longleftrightarrow> is_operator_pod ons s"
  by (auto simp: peer_matches_def operator_peer_def is_operator_pod_def)

lemma listener_rules_admit: "list_ex (\<lambda>r. rule_admits (unwrap_or ''default'' (meta_namespace (kf_meta k))) r s port) (listener_rules op l)
    \<longleftrightarrow> ls_name l \<noteq> op \<and> port = ls_port l \<and> listener_open_to k l s"
proof (cases "ls_network_policy_peers l")
  case (Some peers)
  then show ?thesis
    by (cases peers) (auto simp: listener_rules_def rule_admits_def listener_open_to_def list_ex_iff)
qed (simp add: listener_rules_def rule_admits_def listener_open_to_def)

lemma list_ex_concat: "list_ex P (concat xss) \<longleftrightarrow> list_ex (list_ex P) xss"
  by (induction xss) auto

lemma rendered_policy_admits:
  assumes "render_network_policy k ls ibp ons metrics = Inr np"
  shows "policy_admits np s port \<longleftrightarrow>
     is_cluster_pod k s \<and> port = ibp
     \<or> is_operator_pod ons s \<and> port \<in> ls_port ` set ls
     \<or> metrics \<and> port = METRICS_PORT
     \<or> (\<exists>l \<in> set ls. ls_name l \<noteq> ls_name (operator_listener (base_listeners k)) \<and> port = ls_port l \<and> listener_open_to k l s)"
proof -
  let ?ns = "unwrap_or ''default'' (meta_namespace (kf_meta k))" and ?op = "ls_name (operator_listener (base_listeners k))"
  have np: "unwrap_or ''default'' (meta_namespace (npol_meta np)) = ?ns"
    "npol_ingress np = [\<lparr>ir_from = [self_peer (kafka_name k)], ir_port = ibp\<rparr>]
            @ map (\<lambda>l. \<lparr>ir_from = [operator_peer ons], ir_port = ls_port l\<rparr>) ls
            @ concat (map (listener_rules ?op) ls)
            @ (if metrics then [\<lparr>ir_from = [], ir_port = METRICS_PORT\<rparr>] else [])"
    using assms by (auto simp: render_network_policy_def Let_def bind_result_Inr owned_meta_def plain_meta_def)
  have rules: "list_ex (\<lambda>r. rule_admits ?ns r s port) (concat (map (listener_rules ?op) ls))
      \<longleftrightarrow> (\<exists>l \<in> set ls. ls_name l \<noteq> ?op \<and> port = ls_port l \<and> listener_open_to k l s)"
    unfolding list_ex_concat by (simp add: list_ex_iff[of _ "map f xs" for f xs] listener_rules_admit)
  show ?thesis
    unfolding policy_admits_def np(1) np(2) list_ex_append rules
    by (auto simp: rule_admits_def self_matches operator_matches list_ex_iff)
qed

text \<open>C33: The policy admits whom the resource names. A connection to a pod of the cluster is admitted exactly when it
  goes from a pod of the cluster to the inter-broker port, from the operator to the port of any listener, to the
  metrics port of a cluster with metrics, or to a listener other than the operator's own that is open to all or to a
  peer which the source matches.\<close>

theorem network_policy_admits_iff:
  assumes "render_network_policy k ls ibp ons metrics = Inr np"
  shows "policy_admits np s port \<longleftrightarrow>
     is_cluster_pod k s \<and> port = ibp
     \<or> is_operator_pod ons s \<and> port \<in> ls_port ` set ls
     \<or> metrics \<and> port = METRICS_PORT
     \<or> (\<exists>l \<in> set ls. ls_name l \<noteq> ls_name (operator_listener (base_listeners k)) \<and> port = ls_port l \<and> listener_open_to k l s)"
  using assms by (rule rendered_policy_admits)

text \<open>C34: A policy cuts the controller quorum. Unless a listener happens to use the controller port, no connection to that
  port is admitted, so the controllers of a cluster that enables its policy reach neither each other nor the brokers them,
  although the policy selects their pods.\<close>

theorem policy_cuts_quorum:
  assumes "render_network_policy k ls ibp ons metrics = Inr np" "CONTROLLER_PORT \<notin> insert ibp (ls_port ` set ls)"
  shows "selects (npol_pod_selector np) (common_labels (kafka_name k) version pool) \<and> (\<forall>s. \<not> policy_admits np s CONTROLLER_PORT)"
proof
  have "npol_pod_selector np = label_equals (cluster_selector (kafka_name k))"
    using assms(1) by (auto simp: render_network_policy_def Let_def bind_result_Inr)
  then show "selects (npol_pod_selector np) (common_labels (kafka_name k) version pool)"
    by (simp add: cluster_selector_def bm_collect_def common_labels_def Let_def split: option.splits)
  have "CONTROLLER_PORT \<noteq> METRICS_PORT" by (simp add: CONTROLLER_PORT_def METRICS_PORT_def)
  with assms(2) show "\<forall>s. \<not> policy_admits np s CONTROLLER_PORT"
    using rendered_policy_admits[OF assms(1)] by auto
qed

section \<open>Side effects\<close>

datatype monitor_kind = PodMonitor | ServiceMonitor

text \<open>A monitor of the Prometheus operator; both kinds have one endpoint, on the path \<open>/metrics\<close>.\<close>

record monitor =
  mo_kind :: monitor_kind
  mo_meta :: object_meta
  mo_match_names :: "string list"
  mo_selector :: "(string, string) bmap"
  mo_port :: string
  mo_interval :: string
  mo_scrape_timeout :: string

datatype side_effect =
    ApplyPolicy string network_policy
  | DeletePolicy string
  | ApplyMonitor string monitor
  | DeleteMonitor monitor_kind string
  | ApplyMetricsService string service
  | DeleteMetricsService string

text \<open>What the API server answers to each call, the operator's namespace and the clock. A \<open>ConfigMap\<close> is
  read as its data.\<close>

record side_env =
  sd_fails :: "side_effect \<Rightarrow> kube_error option"
  sd_operator_namespace :: string
  sd_config_map :: "string \<Rightarrow> kube_error + (string, string) bmap option"
  sd_time :: string

definition side_call :: "side_env \<Rightarrow> side_effect \<Rightarrow> (reconcile_error, unit, side_effect) logged" where
  "side_call env f = attempt Kube (sd_fails env f) f"

text \<open>An error that is ignored: \<open>let _ = ...\<close>, or logged and passed over.\<close>

definition ignore_errors :: "('e, unit, 'f) logged \<Rightarrow> ('d, unit, 'f) logged" where
  "ignore_errors m = (Inr (), snd m)"

definition was_rendered :: "kafka \<Rightarrow> bool" where
  "was_rendered k \<longleftrightarrow>
     (case kf_status k of
        None \<Rightarrow> False
      | Some st \<Rightarrow> list_ex (\<lambda>c. cond_type c = ''NetworkPolicyReady'' \<and> cond_reason c = ''Available'') (kst_conditions st))"

text \<open>The option of the code says whether the policy is enabled.\<close>

definition reconcile_network_policy ::
  "side_env \<Rightarrow> kafka \<Rightarrow> listener list \<Rightarrow> int \<Rightarrow> (reconcile_error + unit) option \<times> side_effect list" where
  "reconcile_network_policy env k ls inter_broker_port =
     (let policy_name = kafka_name k @ ''-broker-policy'' in
      if \<not> kspec_network_policy (kf_spec k) then
        (None, if was_rendered k then snd (side_call env (DeletePolicy policy_name)) else [])
      else
        (case bind_log (lift_log (render_network_policy k ls inter_broker_port (sd_operator_namespace env)
                 (kspec_metrics_config (kf_spec k) \<noteq> None)))
             (\<lambda>np. side_call env (ApplyPolicy policy_name np)) of
           (r, fs) \<Rightarrow> (Some r, fs)))"

definition network_policy_condition :: "side_env \<Rightarrow> (reconcile_error + unit) option \<Rightarrow> kafka_condition" where
  "network_policy_condition env r = (case r of
      None \<Rightarrow> condition (sd_time env) ''NetworkPolicyReady'' ''False'' ''Disabled'' ''spec.networkPolicy is not set''
    | Some (Inr _) \<Rightarrow> condition (sd_time env) ''NetworkPolicyReady'' ''True'' ''Available'' ''network policy reconciled''
    | Some (Inl _) \<Rightarrow> condition (sd_time env) ''NetworkPolicyReady'' ''False'' ''Error'' ''network policy reconcile failed'')"

definition inter_broker_port :: "listener list \<Rightarrow> string \<Rightarrow> int" where
  "inter_broker_port ls name = (case find (\<lambda>l. ls_name l = name) ls of None \<Rightarrow> BROKER_PORT | Some l \<Rightarrow> ls_port l)"

section \<open>Monitors\<close>

definition monitor_labels :: "kafka \<Rightarrow> monitor_spec \<Rightarrow> (string, string) bmap" where
  "monitor_labels k cfg = insert_absent (mon_labels cfg) (common_labels (kafka_name k) (kspec_kafka_version (kf_spec k)) None)"

definition render_monitor :: "monitor_kind \<Rightarrow> kafka \<Rightarrow> monitor_spec \<Rightarrow> reconcile_error + monitor" where
  "render_monitor kind k cfg = bind_result (owner_of_kafka k) (\<lambda>owner.
     let ns = unwrap_or [] (meta_namespace (kf_meta k))
     in Inr \<lparr>mo_kind = kind,
          mo_meta = (owned_meta (kf_meta k) (kafka_name k @ ''-broker'') (monitor_labels k cfg) owner)\<lparr>meta_namespace := Some ns\<rparr>,
          mo_match_names = [ns], mo_selector = cluster_selector (kafka_name k), mo_port = ''metrics'',
          mo_interval = unwrap_or ''30s'' (mon_interval cfg), mo_scrape_timeout = unwrap_or ''10s'' (mon_scrape_timeout cfg)\<rparr>)"

definition render_pod_monitor :: "kafka \<Rightarrow> monitor_spec \<Rightarrow> reconcile_error + monitor" where
  "render_pod_monitor = render_monitor PodMonitor"

definition render_service_monitor :: "kafka \<Rightarrow> monitor_spec \<Rightarrow> reconcile_error + monitor" where
  "render_service_monitor = render_monitor ServiceMonitor"

definition render_metrics_service :: "kafka \<Rightarrow> monitor_spec \<Rightarrow> reconcile_error + service" where
  "render_metrics_service k cfg = bind_result (owner_of_kafka k) (\<lambda>owner.
     Inr \<lparr>svc_meta = owned_meta (kf_meta k) (kafka_name k @ ''-broker-metrics'') (monitor_labels k cfg) owner,
          svc_type = None, svc_cluster_ip = Some ''None'', svc_publish_not_ready = False,
          svc_selector = cluster_selector (kafka_name k),
          svc_ports = [\<lparr>svp_name = ''metrics'', svp_port = METRICS_PORT, svp_target = ''metrics'', svp_node_port = None\<rparr>],
          svc_load_balancer_ip = None, svc_lb_ingress = None\<rparr>)"

text \<open>A missing resource definition answers 404 to an apply and 405 to a delete.\<close>

definition apply_dynamic :: "side_env \<Rightarrow> string \<Rightarrow> monitor \<Rightarrow> (reconcile_error, unit, side_effect) logged" where
  "apply_dynamic env name m =
     (case sd_fails env (ApplyMonitor name m) of
        None \<Rightarrow> emit (ApplyMonitor name m)
      | Some e \<Rightarrow> fail_log (case e of ApiStatus code _ \<Rightarrow> if code = 404 then PrometheusOperatorCrdsMissing else Kube e | _ \<Rightarrow> Kube e))"

definition delete_dynamic_if_exists :: "side_env \<Rightarrow> monitor_kind \<Rightarrow> string \<Rightarrow> (reconcile_error, unit, side_effect) logged" where
  "delete_dynamic_if_exists env kind name =
     (case sd_fails env (DeleteMonitor kind name) of
        None \<Rightarrow> emit (DeleteMonitor kind name)
      | Some e \<Rightarrow> (case e of
          ApiStatus code _ \<Rightarrow> if code = 404 then ret_log () else if code = 405 then fail_log PrometheusOperatorCrdsMissing else fail_log (Kube e)
        | _ \<Rightarrow> fail_log (Kube e)))"

definition reconcile_pod_monitor :: "side_env \<Rightarrow> kafka \<Rightarrow> monitor_spec \<Rightarrow> (reconcile_error, unit, side_effect) logged" where
  "reconcile_pod_monitor env k pm =
     (let name = kafka_name k @ ''-broker'' in
      bind_log (lift_log (render_pod_monitor k pm)) (\<lambda>body.
      then_log (apply_dynamic env name body)
      (then_log (ignore_errors (delete_dynamic_if_exists env ServiceMonitor name))
      (ignore_errors (side_call env (DeleteMetricsService (kafka_name k @ ''-broker-metrics'')))))))"

definition reconcile_service_monitor :: "side_env \<Rightarrow> kafka \<Rightarrow> monitor_spec \<Rightarrow> (reconcile_error, unit, side_effect) logged" where
  "reconcile_service_monitor env k sm =
     (let name = kafka_name k @ ''-broker'' in
      bind_log (lift_log (render_metrics_service k sm)) (\<lambda>svc.
      then_log (side_call env (ApplyMetricsService (kafka_name k @ ''-broker-metrics'') svc))
      (bind_log (lift_log (render_service_monitor k sm)) (\<lambda>body.
      then_log (apply_dynamic env name body)
      (ignore_errors (delete_dynamic_if_exists env PodMonitor name))))))"

definition reconcile_metrics :: "side_env \<Rightarrow> kafka \<Rightarrow> (reconcile_error + unit) option \<times> side_effect list" where
  "reconcile_metrics env k =
     (case kspec_metrics_config (kf_spec k) of
        None \<Rightarrow> (None, [])
      | Some cfg \<Rightarrow>
          (case (case (mc_pod_monitor cfg, mc_service_monitor cfg) of
              (Some _, Some _) \<Rightarrow> fail_log MetricsMutuallyExclusive
            | (Some pm, None) \<Rightarrow> reconcile_pod_monitor env k pm
            | (None, Some sm) \<Rightarrow> reconcile_service_monitor env k sm
            | (None, None) \<Rightarrow> ret_log ()) of (r, fs) \<Rightarrow> (Some r, fs)))"

definition metrics_ready_condition :: "side_env \<Rightarrow> (reconcile_error + unit) option \<Rightarrow> kafka_condition" where
  "metrics_ready_condition env r = (case r of
      None \<Rightarrow> condition (sd_time env) ''MetricsReady'' ''False'' ''Disabled'' ''spec.metricsConfig is not set''
    | Some (Inr _) \<Rightarrow> condition (sd_time env) ''MetricsReady'' ''True'' ''Available'' ''metrics resources reconciled''
    | Some (Inl MetricsMutuallyExclusive) \<Rightarrow> condition (sd_time env) ''MetricsReady'' ''False'' ''MutuallyExclusive''
        ''podMonitor and serviceMonitor are mutually exclusive''
    | Some (Inl PrometheusOperatorCrdsMissing) \<Rightarrow> condition (sd_time env) ''MetricsReady'' ''False'' ''PrometheusOperatorCrdsMissing''
        ''monitoring.coreos.com/v1 is not served by the API server''
    | Some (Inl _) \<Rightarrow> condition (sd_time env) ''MetricsReady'' ''False'' ''Error'' ''metrics reconcile failed'')"

section \<open>Log filters\<close>

definition normalize_level :: "string \<Rightarrow> string option" where
  "normalize_level level =
     (let l = to_ascii_lowercase (trim_str level) in
      if l = ''trace'' then Some ''trace''
      else if l = ''debug'' then Some ''debug''
      else if l = ''info'' then Some ''info''
      else if l = ''warn'' \<or> l = ''warning'' then Some ''warn''
      else if l = ''error'' \<or> l = ''fatal'' then Some ''error''
      else if l = ''off'' \<or> l = ''none'' then Some ''off''
      else None)"

datatype logging_error =
    EmptyLoggers
  | EmptyLoggerName
  | InvalidLevel string string
  | ExternalMissingRef
  | ExternalConfigMapNotFound string
  | ExternalKeyNotFound string string

definition logging_reason :: "logging_error \<Rightarrow> string" where
  "logging_reason e = (case e of
      EmptyLoggers \<Rightarrow> ''EmptyLoggers''
    | EmptyLoggerName \<Rightarrow> ''EmptyLoggerName''
    | InvalidLevel _ _ \<Rightarrow> ''InvalidLogLevel''
    | ExternalMissingRef \<Rightarrow> ''ExternalRefMissing''
    | ExternalConfigMapNotFound _ \<Rightarrow> ''LoggingConfigMapNotFound''
    | ExternalKeyNotFound _ _ \<Rightarrow> ''LoggingConfigMapKeyNotFound'')"

definition logging_message :: "logging_error \<Rightarrow> string" where
  "logging_message e = (case e of
      EmptyLoggers \<Rightarrow> ''logging.type=inline requires a non-empty loggers map''
    | EmptyLoggerName \<Rightarrow> ''logging.loggers contains a blank key''
    | InvalidLevel logger level \<Rightarrow> ''logger '' @ quote_name logger @ '' has invalid level '' @ quote_name level
        @ '' (want trace|debug|info|warn|error|off)''
    | ExternalMissingRef \<Rightarrow> ''logging.type=external requires valueFrom.configMapKeyRef''
    | ExternalConfigMapNotFound name \<Rightarrow> ''logging ConfigMap '' @ quote_name name @ '' not found''
    | ExternalKeyNotFound cm key \<Rightarrow> ''logging ConfigMap '' @ quote_name cm @ '' has no non-empty key '' @ quote_name key)"

definition directive :: "string \<times> string \<Rightarrow> logging_error + string" where
  "directive entry = (case entry of (key, level) \<Rightarrow>
     let logger = trim_str key in
     bind_result (require (logger \<noteq> []) EmptyLoggerName) (\<lambda>_.
     bind_result (ok_or (InvalidLevel logger level) (normalize_level level)) (\<lambda>lvl.
       Inr (if eq_ignore_ascii_case logger ''root'' then lvl else logger @ ''='' @ lvl))))"

fun directives :: "(string \<times> string) list \<Rightarrow> logging_error + string list" where
  "directives [] = Inr []"
| "directives (e # es) = bind_result (directive e) (\<lambda>d. bind_result (directives es) (\<lambda>ds. Inr (d # ds)))"

definition compose_inline_filter :: "(string, string) bmap \<Rightarrow> logging_error + string" where
  "compose_inline_filter loggers =
     (if loggers = [] then Inl EmptyLoggers
      else bind_result (directives loggers) (\<lambda>ds. Inr (join_with '','' (sort ds))))"

datatype logging_outcome = LoggingDisabled | LoggingResolved string | LoggingInvalid logging_error

fun logging_filter :: "logging_outcome \<Rightarrow> string option" where
  "logging_filter (LoggingResolved f) = Some f"
| "logging_filter _ = None"

definition resolve_logging :: "side_env \<Rightarrow> kafka \<Rightarrow> reconcile_error + logging_outcome" where
  "resolve_logging env k =
     (case kspec_logging (kf_spec k) of
        None \<Rightarrow> Inr LoggingDisabled
      | Some lg \<Rightarrow>
          (case lg_type lg of
             InlineLogging \<Rightarrow> Inr (case compose_inline_filter (lg_loggers lg) of Inr f \<Rightarrow> LoggingResolved f | Inl e \<Rightarrow> LoggingInvalid e)
           | ExternalLogging \<Rightarrow>
               (case lg_value_from lg of
                  None \<Rightarrow> Inr (LoggingInvalid ExternalMissingRef)
                | Some ref \<Rightarrow>
                    (case sd_config_map env (si_secret_name ref) of
                       Inl e \<Rightarrow> Inl (Kube e)
                     | Inr None \<Rightarrow> Inr (LoggingInvalid (ExternalConfigMapNotFound (si_secret_name ref)))
                     | Inr (Some d) \<Rightarrow>
                         Inr (case Option.bind (map_option trim_str (bm_get d (si_key ref))) (\<lambda>v. if v = [] then None else Some v) of
                            Some v \<Rightarrow> LoggingResolved v
                          | None \<Rightarrow> LoggingInvalid (ExternalKeyNotFound (si_secret_name ref) (si_key ref)))))))"

definition logging_condition :: "side_env \<Rightarrow> logging_outcome \<Rightarrow> kafka_condition" where
  "logging_condition env out = (case out of
      LoggingDisabled \<Rightarrow> condition (sd_time env) ''LoggingReady'' ''False'' ''Disabled'' ''spec.logging is not set''
    | LoggingResolved f \<Rightarrow> condition (sd_time env) ''LoggingReady'' ''True'' ''Available'' (''RUST_LOG filter resolved: '' @ f)
    | LoggingInvalid e \<Rightarrow> condition (sd_time env) ''LoggingReady'' ''False'' (logging_reason e) (logging_message e))"

section \<open>Properties\<close>

text \<open>A filter is composed exactly from named loggers with known levels.\<close>

lemma inline_filter_iff:
  "(\<exists>f. compose_inline_filter es = Inr f) \<longleftrightarrow>
     es \<noteq> [] \<and> (\<forall>(logger, level) \<in> set es. trim_str logger \<noteq> [] \<and> normalize_level level \<noteq> None)"
proof -
  have d: "(\<exists>d. directive e = Inr d) \<longleftrightarrow> trim_str (fst e) \<noteq> [] \<and> normalize_level (snd e) \<noteq> None" for e
    by (auto simp: directive_def Let_def bind_result_Inr require_def ok_or_def split: prod.splits option.splits if_splits)
  have "(\<exists>ds. directives es = Inr ds) \<longleftrightarrow> (\<forall>e \<in> set es. \<exists>d. directive e = Inr d)"
    by (induction es) (auto simp: bind_result_Inr)
  then show ?thesis unfolding d by (auto simp: compose_inline_filter_def bind_result_Inr)
qed

text \<open>A pass applies the monitor that is asked for and no other.\<close>

lemma pod_monitor_applied:
  assumes "ApplyMonitor name m \<in> set (snd (reconcile_pod_monitor env k pm))"
  shows "name = kafka_name k @ ''-broker'' \<and> render_pod_monitor k pm = Inr m"
  using assms
  by (auto simp: reconcile_pod_monitor_def Let_def set_snd_bind_log set_snd_then_log ignore_errors_def apply_dynamic_def
      delete_dynamic_if_exists_def side_call_def attempt_def split: option.splits sum.splits if_splits kube_error.splits)

lemma service_monitor_applied:
  assumes "ApplyMonitor name m \<in> set (snd (reconcile_service_monitor env k sm))"
  shows "name = kafka_name k @ ''-broker'' \<and> render_service_monitor k sm = Inr m"
  using assms
  by (auto simp: reconcile_service_monitor_def Let_def set_snd_bind_log set_snd_then_log ignore_errors_def apply_dynamic_def
      delete_dynamic_if_exists_def side_call_def attempt_def split: option.splits sum.splits if_splits kube_error.splits)

lemma metrics_pass_monitors:
  assumes "ApplyMonitor name m \<in> set (snd (reconcile_metrics env k))"
  shows "name = kafka_name k @ ''-broker''
    \<and> ((\<exists>pm. kspec_metrics_config (kf_spec k) = Some \<lparr>mc_pod_monitor = Some pm, mc_service_monitor = None\<rparr> \<and> render_pod_monitor k pm = Inr m)
     \<or> (\<exists>sm. kspec_metrics_config (kf_spec k) = Some \<lparr>mc_pod_monitor = None, mc_service_monitor = Some sm\<rparr> \<and> render_service_monitor k sm = Inr m))"
proof (cases "kspec_metrics_config (kf_spec k)")
  case (Some cfg)
  obtain p s where cfg: "cfg = \<lparr>mc_pod_monitor = p, mc_service_monitor = s\<rparr>" by (cases cfg) simp
  consider (both) x y where "p = Some x" "s = Some y" | (pod) x where "p = Some x" "s = None"
    | (service) y where "p = None" "s = Some y" | (neither) "p = None" "s = None"
    by (cases p; cases s) auto
  then show ?thesis
  proof cases
    case pod
    with Some cfg assms show ?thesis using pod_monitor_applied[of name m env k x]
      by (simp add: reconcile_metrics_def split_beta)
  next
    case service
    with Some cfg assms show ?thesis using service_monitor_applied[of name m env k y]
      by (simp add: reconcile_metrics_def split_beta)
  qed (use Some cfg assms in \<open>simp_all add: reconcile_metrics_def split_beta\<close>)
qed (use assms in \<open>simp add: reconcile_metrics_def\<close>)

text \<open>A policy that could not be deleted stays. The condition of the pass is \<open>Disabled\<close> whether the deletion failed or
  not, and later passes only delete when it says \<open>Available\<close>. The same holds when the last apply failed: its condition
  is \<open>Error\<close>.\<close>

lemma orphaned_policy_kept:
  assumes "\<not> kspec_network_policy (kf_spec k)" "kf_status k = Some st"
    and "\<forall>c \<in> set (kst_conditions st). cond_type c = ''NetworkPolicyReady'' \<longrightarrow>
      c = network_policy_condition env (fst (reconcile_network_policy env k' ls port)) \<and> fst (reconcile_network_policy env k' ls port) \<noteq> Some (Inr ())"
  shows "reconcile_network_policy env' k ls' port' = (None, [])"
proof -
  have "\<not> was_rendered k"
    using assms(2,3) by (auto simp: was_rendered_def list_ex_iff network_policy_condition_def condition_def split: option.splits sum.splits)
  with assms(1) show ?thesis by (simp add: reconcile_network_policy_def)
qed

section \<open>Instances\<close>

definition front_pod :: source_pod where
  "front_pod = \<lparr>sp_namespace = ''web'', sp_namespace_labels = [], sp_labels = [(''role'', ''front'')]\<rparr>"

definition shut_listeners :: "listener list" where
  "shut_listeners = [(sample_listener ''PLAIN'' 9092 False None)\<lparr>ls_network_policy_peers := Some []\<rparr>]"

lemma sample_policy: "\<exists>np. render_network_policy sample_kafka shut_listeners 9092 ''ops'' False = Inr np"
  by (simp add: render_network_policy_def Let_def owner_of_kafka_def owner_ref_def sample_kafka_def plain_meta_def ok_or_def)

theorem network_policy_admits_iff_witness:
  "\<exists>np. render_network_policy sample_kafka shut_listeners 9092 ''ops'' False = Inr np \<and> \<not> policy_admits np front_pod 9092"
proof -
  from sample_policy obtain np where np: "render_network_policy sample_kafka shut_listeners 9092 ''ops'' False = Inr np" by blast
  then show ?thesis
    using network_policy_admits_iff[OF np, of front_pod 9092]
    by (simp add: is_cluster_pod_def is_operator_pod_def front_pod_def shut_listeners_def listener_open_to_def METRICS_PORT_def
        sample_kafka_def plain_meta_def)
qed

theorem policy_cuts_quorum_witness:
  "\<exists>np. render_network_policy sample_kafka shut_listeners 9092 ''ops'' False = Inr np \<and> (\<forall>s. \<not> policy_admits np s CONTROLLER_PORT)"
proof -
  from sample_policy obtain np where np: "render_network_policy sample_kafka shut_listeners 9092 ''ops'' False = Inr np" by blast
  then show ?thesis
    using policy_cuts_quorum[OF np] by (simp add: CONTROLLER_PORT_def shut_listeners_def sample_listener_def)
qed

end
