(* ===== verification/Pool_Workload.thy ===== *)
theory Pool_Workload
  imports Broker_Toml Quorum_Bootstrap Kafka_Version
begin

text \<open>
  What the node pool controller renders (\<open>controller/kafka_node_pool.rs\<close>): the containers of a broker
  pod, its volumes and claims, the StatefulSet and the disruption budget, and what it refuses to change
  of the storage of a live StatefulSet. Fields that are the same in every pod and that nothing here
  depends on (security contexts, probe periods, file modes, the update strategy) are left out.
\<close>

section \<open>Disks\<close>

definition HEALTH_PORT :: int where
  "HEALTH_PORT = 9405"

definition jbod_volumes_sorted :: "storage option \<Rightarrow> jbod_volume list" where
  "jbod_volumes_sorted s = (case s of Some (Jbod vs _) \<Rightarrow> sort_key jv_id vs | _ \<Rightarrow> [])"

definition jbod_mount :: "int \<Rightarrow> bool \<Rightarrow> string \<times> string" where
  "jbod_mount volume_id is_primary =
     (if is_primary then (''data'', ''/var/lib/krabka/data'')
      else (''data-'' @ int_to_string volume_id, ''/var/lib/krabka/data-'' @ int_to_string volume_id))"

definition jbod_extra_mounts :: "storage option \<Rightarrow> (string \<times> string) list" where
  "jbod_extra_mounts s = map (\<lambda>v. jbod_mount (jv_id v) False) (tl (jbod_volumes_sorted s))"

section \<open>Scripts\<close>

abbreviation lines :: "string list \<Rightarrow> string" where
  "lines ls \<equiv> concat (map (\<lambda>l. l @ [line_feed]) ls)"

definition INIT_SCRIPT :: string where
  \<open>INIT_SCRIPT = lines
     [''set -eu'',
      ''ORDINAL="${HOSTNAME##*-}"'',
      ''NODE_ID=$((NODE_ID_START + ORDINAL))'',
      ''KRABKA_DIRECTORY_ID="$(cat "/etc/krabka/cluster-id/quorumDirectoryId-${NODE_ID}")"'',
      ''mkdir -p /var/lib/krabka/data'',
      ''rm -rf /var/lib/krabka/data/lost+found'',
      ''if [ ! -f /var/lib/krabka/data/.formatted ]; then'',
      ''  if [ "$KRABKA_QUORUM_BOOTSTRAP_INITIALIZED" != "true" ] && [ "$NODE_ID" = "$KRABKA_QUORUM_BOOTSTRAP_NODE_ID" ] && [ "$KRABKA_POOL_NAME" = "$KRABKA_QUORUM_BOOTSTRAP_POOL" ]; then'',
      ''    /usr/bin/krabka-format --log-dir /var/lib/krabka/data --cluster-id "$KRABKA_CLUSTER_ID" --release-version "$KRABKA_METADATA_VERSION" --directory-id "$KRABKA_DIRECTORY_ID" --standalone --node-id "$NODE_ID" --controller-listener "${HOSTNAME}.${KRABKA_HEADLESS_SERVICE}.${POD_NAMESPACE}.svc.cluster.local:9093"'',
      ''  else'',
      ''    /usr/bin/krabka-format --log-dir /var/lib/krabka/data --cluster-id "$KRABKA_CLUSTER_ID" --release-version "$KRABKA_METADATA_VERSION" --directory-id "$KRABKA_DIRECTORY_ID" --node-id "$NODE_ID" --no-initial-controllers'',
      ''  fi'',
      ''  touch /var/lib/krabka/data/.formatted'',
      ''fi'',
      ''printf '' @ [CHR 0x27] @ ''%s'' @ [CHR 0x27] @ '' "$NODE_ID" > /var/lib/krabka/data/.node-id'']\<close>

text \<open>The lines of the main script; the last one continues when flags follow.\<close>

definition script_start :: "string list" where
  \<open>script_start = [''set -eu'', ''NODE_ID="$(cat /var/lib/krabka/data/.node-id)"'',
     ''cp /etc/krabka/config/broker-${NODE_ID}.toml /run/krabka/broker.toml'']\<close>

definition main_flags :: "string list" where
  \<open>main_flags = [''--config-file=/run/krabka/broker.toml'', ''--broker-id="${NODE_ID}"'']\<close>

definition MAIN_SCRIPT :: string where
  \<open>MAIN_SCRIPT = lines script_start
     @ ''exec /usr/bin/krabka-broker'' @ concat (map (\<lambda>f. '' '' @ [backslash, line_feed] @ ''  '' @ f) main_flags) @ [line_feed]\<close>

definition METRICS_SCRIPT :: string where
  \<open>METRICS_SCRIPT = lines script_start
     @ ''exec /usr/bin/krabka-broker'' @ concat (map (\<lambda>f. '' '' @ [backslash, line_feed] @ ''  '' @ f)
         (main_flags @ [''--metrics-listen-addr=0.0.0.0:9404''])) @ [line_feed]\<close>

definition build_main_script :: "bool \<Rightarrow> nat option \<Rightarrow> nat option \<Rightarrow> string" where
  "build_main_script metrics queue frame =
     (if \<not> metrics \<and> queue = None \<and> frame = None then MAIN_SCRIPT
      else let script = (if metrics then METRICS_SCRIPT else MAIN_SCRIPT) in
        if queue = None \<and> frame = None then script
        else butlast script
          @ (case queue of None \<Rightarrow> [] | Some q \<Rightarrow> '' '' @ [backslash, line_feed] @ ''  --client-dispatch-queue-capacity='' @ nat_to_string q)
          @ (case frame of None \<Rightarrow> [] | Some f \<Rightarrow> '' '' @ [backslash, line_feed] @ ''  --client-frame-max='' @ nat_to_string f @ ''B'')
          @ [line_feed])"

section \<open>Containers\<close>

definition env_value :: "string \<Rightarrow> string \<Rightarrow> env_var" where
  "env_value n v = \<lparr>ev_name = n, ev_value = Some v, ev_from = None\<rparr>"

definition env_from :: "string \<Rightarrow> env_source \<Rightarrow> env_var" where
  "env_from n s = \<lparr>ev_name = n, ev_value = None, ev_from = Some s\<rparr>"

definition mount :: "string \<Rightarrow> string \<Rightarrow> volume_mount" where
  "mount n p = \<lparr>vm_name = n, vm_path = p, vm_read_only = False\<rparr>"

definition mount_ro :: "string \<Rightarrow> string \<Rightarrow> volume_mount" where
  "mount_ro n p = \<lparr>vm_name = n, vm_path = p, vm_read_only = True\<rparr>"

definition cpu_memory :: "string \<Rightarrow> string \<Rightarrow> (string, string) bmap" where
  "cpu_memory c mem = [(''cpu'', c), (''memory'', mem)]"

definition render_init_container :: "string \<Rightarrow> string \<Rightarrow> string \<Rightarrow> string \<Rightarrow> int \<Rightarrow> string \<Rightarrow> container" where
  "render_init_container broker_image secret_name pool headless node_id_start metadata_version =
     \<lparr>ct_name = ''format'', ct_image = broker_image, ct_command = [''/run/krabka/busybox'', ''sh'', ''-c''], ct_args = [INIT_SCRIPT],
      ct_env = Some [env_value ''NODE_ID_START'' (int_to_string node_id_start),
        env_from ''POD_NAMESPACE'' (FieldRef ''metadata.namespace''),
        env_value ''KRABKA_POOL_NAME'' pool,
        env_value ''KRABKA_HEADLESS_SERVICE'' headless,
        env_from ''KRABKA_CLUSTER_ID'' (SecretKeyRef secret_name ''clusterId''),
        env_from ''KRABKA_QUORUM_BOOTSTRAP_NODE_ID'' (SecretKeyRef secret_name NODE_ID_KEY),
        env_from ''KRABKA_QUORUM_BOOTSTRAP_POOL'' (SecretKeyRef secret_name POOL_KEY),
        env_from ''KRABKA_QUORUM_BOOTSTRAP_INITIALIZED'' (SecretKeyRef secret_name INITIALIZED_KEY),
        env_value ''KRABKA_METADATA_VERSION'' metadata_version,
        env_value ''PATH'' ''/run/krabka/bin''],
      ct_ports = [],
      ct_mounts = [mount ''data'' ''/var/lib/krabka/data'', mount_ro ''cluster-id'' ''/etc/krabka/cluster-id'',
        mount ''broker-runtime'' ''/run/krabka''],
      ct_resources = Some (cpu_memory ''10m'' ''32Mi'', cpu_memory ''100m'' ''128Mi''),
      ct_readiness = None, ct_liveness = None, ct_startup_port = None\<rparr>"

definition render_shell_init_container :: "string \<Rightarrow> container" where
  "render_shell_init_container shell_image =
     \<lparr>ct_name = ''install-shell'', ct_image = shell_image, ct_command = [''/bin/sh'', ''-c''],
      ct_args = [''mkdir -p /run/krabka/bin && cp /bin/busybox /run/krabka/busybox && /run/krabka/busybox --install /run/krabka/bin''],
      ct_env = None, ct_ports = [], ct_mounts = [mount ''broker-runtime'' ''/run/krabka''],
      ct_resources = Some (cpu_memory ''5m'' ''8Mi'', cpu_memory ''50m'' ''32Mi''),
      ct_readiness = None, ct_liveness = None, ct_startup_port = None\<rparr>"

record broker_container_spec =
  bcs_broker_image :: string
  bcs_secret_name :: string
  bcs_cm_name :: string
  bcs_resources :: resources
  bcs_metrics :: bool
  bcs_logging :: bool
  bcs_gssapi_keytab :: bool
  bcs_krb5_conf :: bool
  bcs_jbod_extra_mounts :: "(string \<times> string) list"
  bcs_oauth_jwks_trust_mount :: "string option"
  bcs_oauth_introspection_mount :: "string option"
  bcs_delegation_token :: "secret_key_ref option"
  bcs_tiered_storage :: "tiered_storage option"
  bcs_tracing :: "tracing option"
  bcs_process_roles :: "string option"
  bcs_queue :: "nat option"
  bcs_frame :: "nat option"

definition append_logging_env :: "bool \<Rightarrow> string \<Rightarrow> env_var list" where
  "append_logging_env enabled config_map = (if enabled then [env_from ''RUST_LOG'' (ConfigMapKeyRef config_map ''rust.log'' True)] else [])"

definition append_jbod_env :: "(string \<times> string) list \<Rightarrow> env_var list" where
  "append_jbod_env mounts = (if mounts = [] then [] else [env_value ''KRABKA_EXTRA_LOG_DIRS'' (join_with '','' (map snd mounts))])"

definition secret_env :: "string \<Rightarrow> secret_key_ref \<Rightarrow> string \<Rightarrow> env_var" where
  "secret_env n r default_key = env_from n (SecretKeyRef (skr_name r) (unwrap_or default_key (skr_key r)))"

definition s3_env :: "tiered_storage option \<Rightarrow> env_var list" where
  "s3_env t =
     (case Option.bind (Option.bind t (\<lambda>t. if ts_kind t = S3 then ts_s3 t else None)) s3_credentials of
        None \<Rightarrow> []
      | Some c \<Rightarrow> [secret_env ''AWS_ACCESS_KEY_ID'' (s3c_access_key_id c) ''access-key-id'',
                   secret_env ''AWS_SECRET_ACCESS_KEY'' (s3c_secret_access_key c) ''secret-access-key''])"

definition tracing_env :: "tracing option \<Rightarrow> env_var list" where
  "tracing_env t =
     (case Option.bind t tr_otlp of
        None \<Rightarrow> []
      | Some otlp \<Rightarrow>
          [env_value ''KRABKA_OTLP_ENABLED'' ''true'', env_value ''KRABKA_OTLP_ENDPOINT'' (otlp_endpoint otlp)]
          @ (case otlp_protocol otlp of None \<Rightarrow> [] | Some p \<Rightarrow> [env_value ''KRABKA_OTLP_PROTOCOL'' (as_env_value p)])
          @ (case otlp_sample_ratio otlp of None \<Rightarrow> [] | Some r \<Rightarrow> [env_value ''KRABKA_OTLP_SAMPLE_RATIO'' (sr_text r)])
          @ (case otlp_service_name otlp of None \<Rightarrow> [] | Some n \<Rightarrow> [env_value ''OTEL_SERVICE_NAME'' n])
          @ (case otlp_timeout otlp of None \<Rightarrow> [] | Some (_, human) \<Rightarrow> [env_value ''KRABKA_OTLP_TIMEOUT'' human]))"

definition gcs_key :: "tiered_storage option \<Rightarrow> secret_key_ref option" where
  "gcs_key t = Option.bind (Option.bind t (\<lambda>t. if ts_kind t = Gcs then ts_gcs t else None)) gcs_service_account_key"

definition tier_local :: "tiered_storage option \<Rightarrow> bool" where
  "tier_local t \<longleftrightarrow> (case t of None \<Rightarrow> False | Some t \<Rightarrow> ts_kind t = Local)"

definition GSSAPI_KEYTAB_DIR :: string where
  "GSSAPI_KEYTAB_DIR = ''/etc/krabka/gssapi-keytab''"

definition broker_env :: "broker_container_spec \<Rightarrow> env_var list" where
  "broker_env s =
     [env_from ''POD_NAME'' (FieldRef ''metadata.name''), env_from ''POD_NAMESPACE'' (FieldRef ''metadata.namespace''),
      env_from ''KRABKA_CLUSTER_ID'' (SecretKeyRef (bcs_secret_name s) ''clusterId''), env_value ''PATH'' ''/run/krabka/bin'']
     @ (case bcs_process_roles s of None \<Rightarrow> [] | Some r \<Rightarrow> [env_value ''KRABKA_PROCESS_ROLES'' r])
     @ append_logging_env (bcs_logging s) (bcs_cm_name s)
     @ append_jbod_env (bcs_jbod_extra_mounts s)
     @ (case bcs_delegation_token s of None \<Rightarrow> [] | Some r \<Rightarrow> [secret_env ''KRABKA_DELEGATION_TOKEN_SECRET_KEY'' r ''secret-key''])
     @ s3_env (bcs_tiered_storage s) @ tracing_env (bcs_tracing s)
     @ (if bcs_krb5_conf s then [env_value ''KRB5_CONFIG'' ''/etc/krabka/krb5/krb5.conf''] else [])"

definition broker_mounts :: "broker_container_spec \<Rightarrow> volume_mount list" where
  "broker_mounts s =
     [mount ''data'' ''/var/lib/krabka/data'', mount_ro ''broker-config'' ''/etc/krabka/config'', mount ''broker-runtime'' ''/run/krabka'',
      mount_ro ''cluster-ca-cert'' ''/etc/krabka/cluster-ca'', mount_ro ''broker-tls'' ''/etc/krabka/broker-tls'',
      mount_ro ''clients-ca-cert'' ''/etc/krabka/clients-ca'']
     @ map (\<lambda>(n, p). mount n p) (bcs_jbod_extra_mounts s)
     @ (case bcs_oauth_jwks_trust_mount s of None \<Rightarrow> [] | Some p \<Rightarrow> [mount_ro ''oauth-jwks-trust'' p])
     @ (case bcs_oauth_introspection_mount s of None \<Rightarrow> [] | Some p \<Rightarrow> [mount_ro ''oauth-introspection-secret'' p])
     @ (if bcs_gssapi_keytab s then [mount_ro ''gssapi-keytab'' GSSAPI_KEYTAB_DIR] else [])
     @ (if bcs_krb5_conf s then [mount_ro ''krb5-conf'' ''/etc/krabka/krb5''] else [])
     @ (if tier_local (bcs_tiered_storage s) then [mount ''tier-storage'' TIER_STORAGE_PATH] else [])
     @ (if gcs_key (bcs_tiered_storage s) \<noteq> None then [mount_ro ''gcs-credentials'' GCS_CREDENTIALS_DIR] else [])"

definition render_broker_container :: "broker_container_spec \<Rightarrow> container" where
  "render_broker_container s =
     \<lparr>ct_name = ''broker'', ct_image = bcs_broker_image s, ct_command = [''/run/krabka/busybox'', ''sh'', ''-c''],
      ct_args = [build_main_script (bcs_metrics s) (bcs_queue s) (bcs_frame s)],
      ct_env = Some (broker_env s),
      ct_ports = [(BROKER_PORT, ''kafka-internal''), (HEALTH_PORT, ''health'')] @ (if bcs_metrics s then [(METRICS_PORT, ''metrics'')] else []),
      ct_mounts = broker_mounts s, ct_resources = Some (bcs_resources s),
      ct_readiness = Some (''/readyz'', HEALTH_PORT), ct_liveness = Some (''/healthz'', HEALTH_PORT),
      ct_startup_port = Some BROKER_PORT\<rparr>"

section \<open>Volumes and claims\<close>

definition pvc_template :: "string \<Rightarrow> string \<Rightarrow> string option \<Rightarrow> (string, string) bmap \<Rightarrow> persistent_volume_claim" where
  "pvc_template name quantity class pod_labels =
     \<lparr>pvc_meta = (plain_meta name)\<lparr>meta_labels := Some pod_labels\<rparr>,
      pvc_spec = Some \<lparr>pvc_access_modes = [''ReadWriteOnce''], pvc_requests = Some [(''storage'', quantity)], pvc_class = class\<rparr>\<rparr>"

definition secret_volume :: "string \<Rightarrow> string \<Rightarrow> volume" where
  "secret_volume n s = \<lparr>vol_name = n, vol_source = SecretVolume s []\<rparr>"

definition item_volume :: "string \<Rightarrow> string \<Rightarrow> string \<Rightarrow> string \<Rightarrow> volume" where
  "item_volume n s key path = \<lparr>vol_name = n, vol_source = SecretVolume s [(key, path)]\<rparr>"

definition empty_dir :: "string \<Rightarrow> volume" where
  "empty_dir n = \<lparr>vol_name = n, vol_source = EmptyDir\<rparr>"

definition base_volumes :: "string \<Rightarrow> volume list" where
  "base_volumes parent =
     [\<lparr>vol_name = ''broker-config'', vol_source = ConfigMapVolume (parent @ ''-broker-config'')\<rparr>,
      empty_dir ''broker-runtime'',
      secret_volume ''cluster-ca-cert'' (parent @ ''-cluster-ca-cert''),
      secret_volume ''broker-tls'' (parent @ ''-kafka-brokers''),
      secret_volume ''clients-ca-cert'' (parent @ ''-clients-ca-cert''),
      secret_volume ''cluster-id'' (parent @ ''-cluster-id'')]"

definition jbod_templates :: "storage option \<Rightarrow> (string, string) bmap \<Rightarrow> persistent_volume_claim list" where
  "jbod_templates s pod_labels =
     map (\<lambda>(i, v). pvc_template (fst (jbod_mount (jv_id v) (i = 0))) (jv_size v) (jv_class v) pod_labels)
       (List.enumerate 0 (jbod_volumes_sorted s))"

definition data_storage :: "storage option \<Rightarrow> (string, string) bmap \<Rightarrow> string \<Rightarrow> volume list \<times> persistent_volume_claim list" where
  "data_storage s pod_labels parent =
     (case s of
        Some (PersistentClaim pc) \<Rightarrow> (base_volumes parent, [pvc_template ''data'' (pc_size pc) (pc_class pc) pod_labels])
      | Some (Jbod _ _) \<Rightarrow> (base_volumes parent, jbod_templates s pod_labels)
      | _ \<Rightarrow> (empty_dir ''data'' # base_volumes parent, []))"

record auth_storage =
  as_jwks_trust :: "string option"
  as_introspection :: "secret_item option"
  as_keytab :: "secret_item option"
  as_krb5 :: "(string \<times> string) option"

definition auth_volumes :: "auth_storage \<Rightarrow> volume list" where
  "auth_volumes a =
     (case as_jwks_trust a of None \<Rightarrow> [] | Some n \<Rightarrow> [secret_volume ''oauth-jwks-trust'' n])
     @ (case as_introspection a of None \<Rightarrow> [] | Some r \<Rightarrow> [item_volume ''oauth-introspection-secret'' (si_secret_name r) (si_key r) ''client-secret''])
     @ (case as_keytab a of None \<Rightarrow> [] | Some r \<Rightarrow> [item_volume ''gssapi-keytab'' (si_secret_name r) (si_key r) ''keytab''])
     @ (case as_krb5 a of None \<Rightarrow> [] | Some (n, key) \<Rightarrow> [item_volume ''krb5-conf'' n key ''krb5.conf''])"

definition render_storage ::
  "storage option \<Rightarrow> (string, string) bmap \<Rightarrow> string \<Rightarrow> auth_storage \<Rightarrow> bool \<Rightarrow> tier_persistence option \<Rightarrow> secret_key_ref option
    \<Rightarrow> volume list \<times> persistent_volume_claim list" where
  "render_storage s pod_labels parent auth local persistence gcs =
     (case data_storage s pod_labels parent of (volumes, templates) \<Rightarrow>
        (volumes @ auth_volumes auth
           @ (if local \<and> persistence = None then [empty_dir ''tier-storage''] else [])
           @ (case gcs of None \<Rightarrow> [] | Some r \<Rightarrow>
                [item_volume ''gcs-credentials'' (skr_name r) (unwrap_or ''secret-key'' (skr_key r)) GCS_CREDENTIALS_FILE]),
         templates @ (case persistence of
             Some p \<Rightarrow> if local then [pvc_template ''tier-storage'' (tp_size p) (tp_class p) pod_labels] else []
           | None \<Rightarrow> [])))"

definition storage_delete_claim :: "storage option \<Rightarrow> bool option" where
  "storage_delete_claim s = (case s of Some (PersistentClaim pc) \<Rightarrow> Some (pc_delete_claim pc) | Some (Jbod _ d) \<Rightarrow> Some d | _ \<Rightarrow> None)"

definition render_pvc_retention_policy :: "storage option \<Rightarrow> tier_persistence option \<Rightarrow> (string \<times> string) option" where
  "render_pvc_retention_policy s tier =
     map_option (\<lambda>d. if d then (''Delete'', ''Delete'') else (''Retain'', ''Retain''))
       (or_else (storage_delete_claim s) (map_option tp_delete_claim tier))"

section \<open>The StatefulSet\<close>

text \<open>What belongs to other crates: the metadata levels of \<open>krabka_metadata\<close> with the name of the newest one, the client
  limits of \<open>krabka_client_core\<close>, and whole seconds of a time.\<close>

record pool_env =
  pw_levels :: metadata_levels
  pw_max_level :: string
  pw_queue :: "nat \<Rightarrow> string + nat"
  pw_frame :: "nat \<Rightarrow> string + nat"
  pw_secs :: "rat \<Rightarrow> int"

definition resolved_metadata_version :: "pool_env \<Rightarrow> kafka \<Rightarrow> string" where
  "resolved_metadata_version env k =
     (let chosen = unwrap_or (kspec_kafka_version (kf_spec k))
            (or_else (Option.bind (kf_status k) kst_metadata_version) (kspec_metadata_version (kf_spec k)));
          normalized = (case parse_version chosen of Inl _ \<Rightarrow> chosen | Inr v \<Rightarrow> short v)
      in if from_version_string (pw_levels env) normalized \<noteq> None then normalized else pw_max_level env)"

definition separated_process_roles :: "node_role list \<Rightarrow> string option" where
  "separated_process_roles roles =
     (case (Controller \<in> set roles, Broker \<in> set roles) of
        (True, False) \<Rightarrow> Some ''controller''
      | (False, True) \<Rightarrow> Some ''broker''
      | _ \<Rightarrow> None)"

definition client_resource_policy :: "pool_env \<Rightarrow> node_pool_spec \<Rightarrow> string + nat option \<times> nat option" where
  "client_resource_policy env spec =
     bind_result (case np_dispatch_queue spec of None \<Rightarrow> Inr None | Some q \<Rightarrow>
         (case pw_queue env q of Inl e \<Rightarrow> Inl (''spec.clientDispatchQueueCapacity: '' @ e) | Inr v \<Rightarrow> Inr (Some v))) (\<lambda>queue.
     bind_result (case np_frame_max spec of None \<Rightarrow> Inr None | Some f \<Rightarrow>
         (case pw_frame env f of Inl e \<Rightarrow> Inl (''spec.clientFrameMax: '' @ e) | Inr v \<Rightarrow> Inr (Some v))) (\<lambda>frame.
       Inr (queue, frame)))"

definition template_metadata :: "node_pool \<Rightarrow> metadata_template option" where
  "template_metadata pool = Option.bind (np_template (knp_spec pool)) pcu_metadata"

text \<open>The labels of the pods and their metadata: the labels of the operator win, its annotations are written last.\<close>

definition pod_labels :: "node_pool \<Rightarrow> (string, string) bmap \<Rightarrow> (string, string) bmap" where
  "pod_labels pool labels =
     (let roles = np_roles (knp_spec pool);
          l1 = (if Controller \<in> set roles then bm_insert ''krabka.io/controller-role'' ''true'' labels else labels);
          l2 = (if Broker \<in> set roles then bm_insert ''krabka.io/broker-role'' ''true'' l1 else l1)
      in case template_metadata pool of None \<Rightarrow> l2 | Some meta \<Rightarrow> insert_absent (mt_labels meta) l2)"

definition render_pod_metadata :: "node_pool \<Rightarrow> (string, string) bmap \<Rightarrow> string \<Rightarrow> object_meta" where
  "render_pod_metadata pool labels process_roles =
     (let user = (case template_metadata pool of None \<Rightarrow> [] | Some meta \<Rightarrow> bm_collect (mt_annotations meta));
          hashed = (case meta_label (knp_meta pool) ''krabka.io/config-hash'' of
              None \<Rightarrow> user | Some h \<Rightarrow> bm_insert ''krabka.io/config-hash'' h user)
      in (plain_meta [])\<lparr>meta_labels := Some (pod_labels pool labels),
           meta_annotations := Some (bm_insert PROCESS_ROLES_ANNOTATION process_roles
             (bm_insert NODE_ID_START_ANNOTATION (int_to_string (np_node_id_start (knp_spec pool))) hashed))\<rparr>)"

definition default_resources :: resources where
  "default_resources = (cpu_memory ''100m'' ''256Mi'', cpu_memory ''1000m'' ''1Gi'')"

definition saturating_add_i64 :: "int \<Rightarrow> int \<Rightarrow> int" where
  "saturating_add_i64 a b = max (- (2 ^ 63)) (min (2 ^ 63 - 1) (a + b))"

definition grace_seconds :: "pool_env \<Rightarrow> kafka \<Rightarrow> int" where
  "grace_seconds env k =
     (case Option.bind (kspec_broker_tuning (kf_spec k)) (\<lambda>t. bm_get t ''controlled_shutdown_drain_timeout'') of
        Some (TuneTime ms) \<Rightarrow> saturating_add_i64 (pw_secs env ms) 30
      | _ \<Rightarrow> 60)"

definition seccomp_of :: "seccomp_profile option \<Rightarrow> string \<times> string option" where
  "seccomp_of p = (case p of
      None \<Rightarrow> (''RuntimeDefault'', None)
    | Some p \<Rightarrow> ((case sp_type p of RuntimeDefault \<Rightarrow> ''RuntimeDefault'' | Localhost \<Rightarrow> ''Localhost''), sp_localhost p))"

definition container_spec :: "kafka \<Rightarrow> node_pool \<Rightarrow> string \<Rightarrow> nat option \<Rightarrow> nat option \<Rightarrow> broker_container_spec" where
  "container_spec k pool img queue frame =
     (let name = kafka_name k; spec = kf_spec k in
      \<lparr>bcs_broker_image = img, bcs_secret_name = name @ ''-cluster-id'', bcs_cm_name = name @ ''-broker-config'',
       bcs_resources = unwrap_or default_resources (np_resources (knp_spec pool)),
       bcs_metrics = (kspec_metrics_config spec \<noteq> None), bcs_logging = (kspec_logging spec \<noteq> None),
       bcs_gssapi_keytab = (gssapi_keytab_mount k \<noteq> None), bcs_krb5_conf = (krb5_conf_mount k \<noteq> None),
       bcs_jbod_extra_mounts = jbod_extra_mounts (np_storage (knp_spec pool)),
       bcs_oauth_jwks_trust_mount = map_option (\<lambda>_. ''/etc/krabka/oauth-jwks-trust'') (oauth_jwks_trust_secret_name k),
       bcs_oauth_introspection_mount = map_option (\<lambda>_. ''/etc/krabka/oauth-introspection'') (oauth_introspection_secret_mount k),
       bcs_delegation_token = kspec_delegation_token spec, bcs_tiered_storage = kspec_tiered_storage spec,
       bcs_tracing = kspec_tracing spec, bcs_process_roles = separated_process_roles (np_roles (knp_spec pool)),
       bcs_queue = queue, bcs_frame = frame\<rparr>)"

definition em_dash :: string where
  "em_dash = [CHR 0xE2, CHR 0x80, CHR 0x94]"

definition owner_of_pool :: "node_pool \<Rightarrow> reconcile_error + owner_reference" where
  "owner_of_pool pool = owner_ref ''krabka.io/v1alpha1'' ''KafkaNodePool'' (knp_meta pool)"

definition claims_agree :: "node_pool \<Rightarrow> tier_persistence option \<Rightarrow> reconcile_error + unit" where
  "claims_agree pool tier =
     (case (tier, storage_delete_claim (np_storage (knp_spec pool))) of
        (Some tp, Some dc) \<Rightarrow> require (dc = tp_delete_claim tp)
          (TieredStorageInvalid (''tiered storage persistence.deleteClaim='' @ print_bool (tp_delete_claim tp) @ '' but pool ''
             @ quote_name (pool_name pool) @ '' storage.deleteClaim='' @ print_bool dc
             @ ''; K8s StatefulSets have a single set-wide PVC retention policy '' @ em_dash @ '' these must match''))
      | _ \<Rightarrow> Inr ())"

definition pool_storage :: "kafka \<Rightarrow> node_pool \<Rightarrow> (string, string) bmap \<Rightarrow> volume list \<times> persistent_volume_claim list" where
  "pool_storage k pool labels =
     render_storage (np_storage (knp_spec pool)) labels (kafka_name k)
       \<lparr>as_jwks_trust = oauth_jwks_trust_secret_name k, as_introspection = oauth_introspection_secret_mount k,
        as_keytab = gssapi_keytab_mount k, as_krb5 = krb5_conf_mount k\<rparr>
       (tier_local (kspec_tiered_storage (kf_spec k)))
       (Option.bind (kspec_tiered_storage (kf_spec k)) ts_persistence)
       (gcs_key (kspec_tiered_storage (kf_spec k)))"

definition render_pod_spec :: "pool_env \<Rightarrow> kafka \<Rightarrow> node_pool \<Rightarrow> string \<Rightarrow> string \<Rightarrow> nat option \<Rightarrow> nat option \<Rightarrow> volume list \<Rightarrow> pod_spec" where
  "render_pod_spec env k pool img shell queue frame volumes =
     (let name = kafka_name k; spec = knp_spec pool; tpl = np_template spec in
      \<lparr>ps_init_containers = Some [render_shell_init_container shell,
         render_init_container img (name @ ''-cluster-id'') (pool_name pool) (name @ ''-broker-headless'') (np_node_id_start spec)
           (resolved_metadata_version env k)],
       ps_containers = [render_broker_container (container_spec k pool img queue frame)],
       ps_volumes = volumes, ps_grace_seconds = Some (grace_seconds env k),
       ps_spread_labels = (if Controller \<in> set (np_roles spec)
          then Some (bm_collect [(''app.kubernetes.io/instance'', name), (''krabka.io/controller-role'', ''true'')]) else None),
       ps_seccomp = seccomp_of (Option.bind tpl pcu_seccomp),
       ps_affinity = Option.bind tpl pcu_affinity,
       ps_tolerations = (case tpl of None \<Rightarrow> [] | Some t \<Rightarrow> pcu_tolerations t),
       ps_node_selector = Option.bind (Option.bind tpl pcu_node_selector) (\<lambda>s. if s = [] then None else Some s),
       ps_node_name = None\<rparr>)"

definition pool_selector :: "string \<Rightarrow> string \<Rightarrow> (string, string) bmap" where
  "pool_selector cluster pool = bm_insert ''krabka.io/pool'' pool (cluster_selector cluster)"

definition render_statefulset_with_shell :: "pool_env \<Rightarrow> kafka \<Rightarrow> node_pool \<Rightarrow> string \<Rightarrow> string \<Rightarrow> reconcile_error + stateful_set" where
  "render_statefulset_with_shell env k pool img shell =
     (let name = kafka_name k; spec = knp_spec pool;
          labels = common_labels name (kspec_kafka_version (kf_spec k)) (Some (pool_name pool));
          roles = role_mask_name (role_mask (np_roles spec));
          tier = Option.bind (kspec_tiered_storage (kf_spec k)) ts_persistence
      in bind_result (case client_resource_policy env spec of Inl e \<Rightarrow> Inl (Malformed e) | Inr p \<Rightarrow> Inr p) (\<lambda>(queue, frame).
         bind_result (claims_agree pool tier) (\<lambda>_.
         case pool_storage k pool (pod_labels pool labels) of (volumes, templates) \<Rightarrow>
         bind_result (owner_of_pool pool) (\<lambda>owner.
           Inr \<lparr>sts_meta = (plain_meta (name @ ''-'' @ pool_name pool))\<lparr>
                  meta_namespace := Some (unwrap_or [] (meta_namespace (knp_meta pool))), meta_labels := Some labels,
                  meta_annotations := Some (bm_collect [(NODE_ID_START_ANNOTATION, int_to_string (np_node_id_start spec)), (PROCESS_ROLES_ANNOTATION, roles)]),
                  meta_owner_references := [owner]\<rparr>,
                sts_spec = Some \<lparr>ss_service_name = name @ ''-broker-headless'', ss_replicas = Some (np_replicas spec),
                  ss_pod_management_policy = Some ''Parallel'', ss_selector = pool_selector name (pool_name pool),
                  ss_template = \<lparr>pt_meta = Some (render_pod_metadata pool labels roles),
                    pt_spec = Some (render_pod_spec env k pool img shell queue frame volumes)\<rparr>,
                  ss_volume_claim_templates = (if templates = [] then None else Some templates),
                  ss_retention_policy = render_pvc_retention_policy (np_storage spec) tier\<rparr>,
                sts_status = None\<rparr>))))"

section \<open>The disruption budget\<close>

record disruption_budget =
  pdb_meta :: object_meta
  pdb_max_unavailable :: int
  pdb_selector :: "(string, string) bmap"

definition render_pod_disruption_budget :: "node_pool \<Rightarrow> string \<Rightarrow> string \<Rightarrow> reconcile_error + disruption_budget" where
  "render_pod_disruption_budget pool namespace cluster =
     bind_result (owner_of_pool pool) (\<lambda>owner.
       Inr \<lparr>pdb_meta = (plain_meta (cluster @ ''-'' @ pool_name pool))\<lparr>meta_namespace := Some namespace, meta_owner_references := [owner]\<rparr>,
            pdb_max_unavailable = 1, pdb_selector = pool_selector cluster (pool_name pool)\<rparr>)"

section \<open>What a live StatefulSet keeps\<close>

definition preserve_live_pod_management_policy :: "stateful_set \<Rightarrow> stateful_set option \<Rightarrow> stateful_set" where
  "preserve_live_pod_management_policy desired live =
     (case Option.bind (Option.bind live sts_spec) ss_pod_management_policy of
        None \<Rightarrow> desired
      | Some p \<Rightarrow> desired\<lparr>sts_spec := map_option (\<lambda>s. s\<lparr>ss_pod_management_policy := Some p\<rparr>) (sts_spec desired)\<rparr>)"

definition keep_claim_metadata :: "persistent_volume_claim list \<Rightarrow> persistent_volume_claim \<Rightarrow> persistent_volume_claim" where
  "keep_claim_metadata live c =
     (case find (\<lambda>l. meta_name (pvc_meta l) = meta_name (pvc_meta c)) live of
        None \<Rightarrow> c
      | Some l \<Rightarrow> c\<lparr>pvc_meta := (pvc_meta c)\<lparr>meta_labels := meta_labels (pvc_meta l), meta_annotations := meta_annotations (pvc_meta l)\<rparr>\<rparr>)"

definition preserve_live_volume_claim_template_metadata :: "stateful_set \<Rightarrow> stateful_set option \<Rightarrow> stateful_set" where
  "preserve_live_volume_claim_template_metadata desired live =
     (case Option.bind (Option.bind live sts_spec) ss_volume_claim_templates of
        None \<Rightarrow> desired
      | Some claims \<Rightarrow> desired\<lparr>sts_spec := map_option
          (\<lambda>s. s\<lparr>ss_volume_claim_templates := map_option (map (keep_claim_metadata claims)) (ss_volume_claim_templates s)\<rparr>) (sts_spec desired)\<rparr>)"

section \<open>Changes of the storage\<close>

definition storage_kind :: "storage option \<Rightarrow> string" where
  "storage_kind s = (case s of Some (PersistentClaim _) \<Rightarrow> ''PersistentClaim'' | Some (Jbod _ _) \<Rightarrow> ''Jbod'' | _ \<Rightarrow> ''Ephemeral'')"

definition observed_storage_kind :: "persistent_volume_claim list \<Rightarrow> string" where
  "observed_storage_kind ts = (if length ts = 0 then ''Ephemeral'' else if length ts = 1 then ''PersistentClaim'' else ''Jbod'')"

definition size_class_from_pvc :: "persistent_volume_claim \<Rightarrow> string \<times> string option" where
  "size_class_from_pvc c =
     (case pvc_spec c of
        None \<Rightarrow> ([], None)
      | Some s \<Rightarrow> (unwrap_or [] (Option.bind (pvc_requests s) (\<lambda>r. bm_get r ''storage'')), pvc_class s))"

definition size_bytes :: "string \<Rightarrow> int" where
  "size_bytes s = unwrap_or 0 (result_ok (parse_quantity s))"

definition check_class_and_shrink :: "string \<Rightarrow> string option \<Rightarrow> string \<Rightarrow> string option \<Rightarrow> pool_validation_error + unit" where
  "check_class_and_shrink desired_size desired_class observed_size observed_class =
     bind_result (require (desired_class = observed_class) (StorageClassChanged observed_class desired_class)) (\<lambda>_.
       require (\<not> size_bytes desired_size < size_bytes observed_size) (StorageShrinkNotAllowed observed_size desired_size))"

text \<open>The loop over the observed claims: the primary disk, and the others by their id.\<close>

definition observed_primary :: "persistent_volume_claim list \<Rightarrow> (string \<times> string option) option" where
  "observed_primary ts = map_option size_class_from_pvc (find (\<lambda>t. meta_name (pvc_meta t) = ''data'') (rev ts))"

definition extra_disk :: "persistent_volume_claim \<Rightarrow> int option" where
  "extra_disk t = (if meta_name (pvc_meta t) = ''data'' then None
     else Option.bind (strip_prefix ''data-'' (meta_name (pvc_meta t))) (\<lambda>n. result_ok (i32_from_str n)))"

definition observed_extra :: "persistent_volume_claim list \<Rightarrow> (int, string \<times> string option) bmap" where
  "observed_extra ts = foldl (\<lambda>m t. case extra_disk t of None \<Rightarrow> m | Some n \<Rightarrow> bm_insert n (size_class_from_pvc t) m) [] ts"

fun check_extras :: "(int, string \<times> string option) bmap \<Rightarrow> jbod_volume list \<Rightarrow> pool_validation_error + unit" where
  "check_extras m [] = Inr ()"
| "check_extras m (v # vs) =
     bind_result (case bm_get m (jv_id v) of None \<Rightarrow> Inr () | Some (sz, class) \<Rightarrow> check_class_and_shrink (jv_size v) (jv_class v) sz class)
       (\<lambda>_. check_extras m vs)"

definition validate_jbod_change :: "jbod_volume list \<Rightarrow> persistent_volume_claim list \<Rightarrow> pool_validation_error + unit" where
  "validate_jbod_change desired observed =
     (case sort_key jv_id desired of
        [] \<Rightarrow> Inr ()
      | primary # extras \<Rightarrow>
          bind_result (require (jv_id ` set extras = fst ` set (observed_extra observed)) JbodVolumesImmutable) (\<lambda>_.
          bind_result (case observed_primary observed of None \<Rightarrow> Inr ()
            | Some (sz, class) \<Rightarrow> check_class_and_shrink (jv_size primary) (jv_class primary) sz class) (\<lambda>_.
            check_extras (observed_extra observed) extras)))"

definition validate_storage_change :: "storage option \<Rightarrow> persistent_volume_claim list option \<Rightarrow> pool_validation_error + unit" where
  "validate_storage_change desired observed =
     (case observed of
        None \<Rightarrow> Inr ()
      | Some ts \<Rightarrow>
          bind_result (require (storage_kind desired = observed_storage_kind ts) (StorageTypeChanged (observed_storage_kind ts) (storage_kind desired))) (\<lambda>_.
          case desired of
            Some (PersistentClaim pc) \<Rightarrow>
              (case ts of [] \<Rightarrow> Inr () | t # _ \<Rightarrow>
                 check_class_and_shrink (pc_size pc) (pc_class pc) (fst (size_class_from_pvc t)) (snd (size_class_from_pvc t)))
          | Some (Jbod vs _) \<Rightarrow> validate_jbod_change vs ts
          | _ \<Rightarrow> Inr ()))"

section \<open>Reasons\<close>

definition debug_option :: "string option \<Rightarrow> string" where
  "debug_option x = (case x of None \<Rightarrow> ''None'' | Some s \<Rightarrow> ''Some('' @ debug_str s @ '')'')"

definition debug_role :: "node_role \<Rightarrow> string" where
  "debug_role r = (case r of Controller \<Rightarrow> ''Controller'' | Broker \<Rightarrow> ''Broker'')"

text \<open>\<open>Display\<close> of the seccomp errors, whose condition repeats it.\<close>

definition seccomp_message :: "pool_validation_error \<Rightarrow> string" where
  "seccomp_message e = (case e of
      SeccompLocalhostProfileMissing \<Rightarrow> ''spec.template.seccompProfile.localhostProfile is required when type is Localhost''
    | SeccompLocalhostProfileUnexpected \<Rightarrow> ''spec.template.seccompProfile.localhostProfile is set, but type is RuntimeDefault''
    | SeccompLocalhostProfileInvalid p \<Rightarrow>
        ''spec.template.seccompProfile.localhostProfile='' @ debug_str p @ '' must be a relative path without `..`''
    | _ \<Rightarrow> [])"

definition condition_for_validation_error :: "string \<Rightarrow> pool_validation_error \<Rightarrow> kafka_condition" where
  \<open>condition_for_validation_error now e =
     (let num = int_to_string in
      case (case e of
        RolesEmpty \<Rightarrow> (''RolesEmpty'', ''spec.roles must contain at least one role'')
      | DuplicateRole r \<Rightarrow> (''DuplicateRole'', ''spec.roles contains duplicate role '' @ debug_role r)
      | ReplicasInvalid n \<Rightarrow> (''InvalidReplicaCount'', ''spec.replicas='' @ num n @ '' must be at least 1'')
      | NodeIdOutOfRange n \<Rightarrow> (''NodeIdOutOfRange'', ''spec.nodeIdStart='' @ num n @ '' is out of range 0..=999999'')
      | NodeIdRangeOutOfRange p a r \<Rightarrow> (''NodeIdRangeOutOfRange'',
          ''node-id range for pool '' @ debug_str p @ '' exceeds 0..=999999 (start='' @ num a @ '', replicas='' @ num r @ '')'')
      | NodeIdRangeOverlap a b \<Rightarrow> (''NodeIdRangeOverlap'', ''node-id ranges overlap between pools '' @ debug_str a @ '' and '' @ debug_str b)
      | NodeIdStartChanged p a b \<Rightarrow> (''NodeIdStartImmutable'',
          ''spec.nodeIdStart changed for pool '' @ debug_str p @ '' from observed '' @ num a @ '' to desired '' @ num b)
      | RolesChanged p a b \<Rightarrow> (''RolesImmutable'',
          ''spec.roles changed for pool '' @ debug_str p @ '' from observed '' @ a @ '' to desired '' @ b)
      | NoControllerNodes \<Rightarrow> (''NoControllerNodes'', ''the cluster has no Controller-role node'')
      | MissingClusterLabel \<Rightarrow> (''MissingClusterLabel'', ''metadata.labels."krabka.io/cluster" missing'')
      | StorageSizeInvalid v why \<Rightarrow> (''StorageSizeInvalid'', ''spec.storage.size='' @ debug_str v @ '' ('' @ why @ '')'')
      | StorageTypeChanged a b \<Rightarrow> (''StorageImmutable'', ''spec.storage.type changed from '' @ a @ '' to '' @ b)
      | StorageClassChanged a b \<Rightarrow> (''StorageImmutable'', ''spec.storage.class changed from '' @ debug_option a @ '' to '' @ debug_option b)
      | StorageShrinkNotAllowed a b \<Rightarrow> (''StorageImmutable'', ''spec.storage.size '' @ a @ '' -> '' @ b @ '' (shrink rejected)'')
      | JbodNeedsTwoVolumes n \<Rightarrow> (''JbodNeedsTwoVolumes'',
          ''spec.storage.volumes has '' @ nat_to_string n @ '' disk(s); Jbod needs >= 2 (use PersistentClaim for one)'')
      | JbodDuplicateVolumeId i \<Rightarrow> (''JbodDuplicateVolumeId'', ''spec.storage.volumes has a duplicate id '' @ num i)
      | JbodVolumesImmutable \<Rightarrow> (''StorageImmutable'', ''spec.storage.volumes is immutable after the StatefulSet is created'')
      | _ \<Rightarrow> (''SeccompProfileInvalid'', seccomp_message e))
      of (reason, message) \<Rightarrow> condition now ''Ready'' ''False'' reason message)\<close>

end
