(* ===== verification/Pool_Storage.thy ===== *)
theory Pool_Storage
  imports Pool_Workload Broker_Files "HOL-Library.Sublist"
begin

text \<open>
  Theorems about the rendered workloads of a pool: which changes of the storage are accepted, that
  a pod template is consistent, and that it matches the configuration file of its broker.
\<close>

section \<open>Claims\<close>

lemma scan_i32_negative:
  assumes "digits_value acc s = Some v" "in_i32 (- int v)"
  shows "scan_i32 True (- int acc) s = Inr (- int v)"
  using assms
proof (induction s arbitrary: acc)
  case (Cons c s)
  then obtain d where d: "char_digit c = Some d" "digits_value (acc * 10 + d) s = Some v"
    by (auto split: option.splits)
  from d(2) have "acc * 10 + d \<le> v"
    using digits_value_acc[of "acc * 10 + d" s] by (auto intro: order_trans[OF _ le_add1])
  then have i: "in_i32 (- int acc * 10)" "in_i32 (- int acc * 10 - int d)" using Cons.prems(2) by (auto simp: in_i32_def)
  have "- int (acc * 10 + d) = - int acc * 10 - int d" by simp
  with Cons.IH[OF d(2) Cons.prems(2)] d(1) i show ?case by (simp add: diff_conv_add_uminus[symmetric] del: diff_conv_add_uminus)
qed simp

lemma i32_from_str_print_any: "in_i32 n \<Longrightarrow> i32_from_str (int_to_string n) = Inr n"
proof (cases "0 \<le> n")
  case False
  assume "in_i32 n"
  have "scan_i32 True (- int 0) (nat_to_string (nat (- n))) = Inr (- int (nat (- n)))"
    by (rule scan_i32_negative) (use \<open>in_i32 n\<close> False digits_value_nat_to_string in simp_all)
  with False show ?thesis by (simp add: i32_from_str_def int_to_string_def)
qed (simp add: i32_from_str_print)

text \<open>A claim as the comparison sees it, and when one may take the place of another.\<close>

definition claim_name :: "persistent_volume_claim \<Rightarrow> string" where
  "claim_name c = meta_name (pvc_meta c)"

definition claim_grows :: "persistent_volume_claim \<Rightarrow> persistent_volume_claim \<Rightarrow> bool" where
  "claim_grows new old \<longleftrightarrow> claim_name new = claim_name old \<and> snd (size_class_from_pvc new) = snd (size_class_from_pvc old)
     \<and> size_bytes (fst (size_class_from_pvc old)) \<le> size_bytes (fst (size_class_from_pvc new))"

definition live_claims :: "stateful_set \<Rightarrow> persistent_volume_claim list" where
  "live_claims sts = unwrap_or [] (Option.bind (sts_spec sts) ss_volume_claim_templates)"

definition disk_claim :: "bool \<Rightarrow> (string, string) bmap \<Rightarrow> jbod_volume \<Rightarrow> persistent_volume_claim" where
  "disk_claim primary labels v = pvc_template (fst (jbod_mount (jv_id v) primary)) (jv_size v) (jv_class v) labels"

definition disks_ok :: "storage option \<Rightarrow> bool" where
  "disks_ok s \<longleftrightarrow> validate_storage s = Inr () \<and> (case s of Some (Jbod vs _) \<Rightarrow> \<forall>v \<in> set vs. in_i32 (jv_id v) | _ \<Rightarrow> True)"

lemma claim_name_template [simp]: "claim_name (pvc_template n q c l) = n"
  by (simp add: claim_name_def pvc_template_def plain_meta_def)

lemma size_class_template [simp]: "size_class_from_pvc (pvc_template n q c l) = (q, c)"
  by (simp add: size_class_from_pvc_def pvc_template_def)

lemma claim_name_disk: "claim_name (disk_claim p l v) = (if p then ''data'' else ''data-'' @ int_to_string (jv_id v))"
  by (simp add: disk_claim_def jbod_mount_def)

lemma size_class_disk [simp]: "size_class_from_pvc (disk_claim p l v) = (jv_size v, jv_class v)"
  by (simp add: disk_claim_def)

lemma check_class_iff: "check_class_and_shrink s c s' c' = Inr () \<longleftrightarrow> c = c' \<and> size_bytes s' \<le> size_bytes s"
  by (auto simp: check_class_and_shrink_def bind_result_Inr)

lemma jbod_templates_disks:
  "jbod_templates s l = (case jbod_volumes_sorted s of [] \<Rightarrow> [] | v # vs \<Rightarrow> disk_claim True l v # map (disk_claim False l) vs)"
proof -
  have "map (\<lambda>(i, v). f (i = (0::nat)) v) (List.enumerate (Suc n) vs) = map (f False) vs" for n vs and f :: "bool \<Rightarrow> jbod_volume \<Rightarrow> persistent_volume_claim"
    by (induction vs arbitrary: n) auto
  from this[of "\<lambda>p. disk_claim p l"] show ?thesis
    by (simp add: jbod_templates_def disk_claim_def[symmetric] split: list.splits)
qed

lemma validate_volumes_ok: "validate_volumes seen vs = Inr () \<Longrightarrow> distinct (map jv_id vs) \<and> set seen \<inter> jv_id ` set vs = {}"
proof (induction vs arbitrary: seen)
  case (Cons v vs)
  then have "jv_id v \<notin> set seen" "validate_volumes (jv_id v # seen) vs = Inr ()" by (auto simp: bind_result_Inr split: if_splits)
  with Cons.IH[of "jv_id v # seen"] show ?case by auto
qed simp

lemma extra_disk_claim: "in_i32 (jv_id v) \<Longrightarrow> extra_disk (disk_claim p l v) = (if p then None else Some (jv_id v))"
  using claim_name_disk[of p l v]
  by (cases p) (simp_all add: extra_disk_def claim_name_def strip_prefix_def starts_with_def i32_from_str_print_any result_ok_def)

lemma observed_extra_disks:
  assumes "\<forall>v \<in> set vs. in_i32 (jv_id v)"
  shows "bm_get (foldl (\<lambda>m t. case extra_disk t of None \<Rightarrow> m | Some n \<Rightarrow> bm_insert n (size_class_from_pvc t) m) m (map (disk_claim False l) vs)) i
     = (case find (\<lambda>v. jv_id v = i) (rev vs) of Some v \<Rightarrow> Some (jv_size v, jv_class v) | None \<Rightarrow> bm_get m i)"
    and "fst ` set (foldl (\<lambda>m t. case extra_disk t of None \<Rightarrow> m | Some n \<Rightarrow> bm_insert n (size_class_from_pvc t) m) m (map (disk_claim False l) vs))
     = jv_id ` set vs \<union> fst ` set m"
proof -
  show "bm_get (foldl (\<lambda>m t. case extra_disk t of None \<Rightarrow> m | Some n \<Rightarrow> bm_insert n (size_class_from_pvc t) m) m (map (disk_claim False l) vs)) i
     = (case find (\<lambda>v. jv_id v = i) (rev vs) of Some v \<Rightarrow> Some (jv_size v, jv_class v) | None \<Rightarrow> bm_get m i)"
    using assms by (induction vs rule: rev_induct) (auto simp: extra_disk_claim)
  have k: "fst ` set (bm_insert k v m) = insert k (fst ` set m)" for k v and m :: "(int, string \<times> string option) bmap"
    using keys_bm_insert[of k v m] by simp
  show "fst ` set (foldl (\<lambda>m t. case extra_disk t of None \<Rightarrow> m | Some n \<Rightarrow> bm_insert n (size_class_from_pvc t) m) m (map (disk_claim False l) vs))
     = jv_id ` set vs \<union> fst ` set m"
    using assms by (induction vs rule: rev_induct) (auto simp: extra_disk_claim k)
qed

lemma find_app: "find P (xs @ ys) = or_else (find P xs) (find P ys)"
  by (induction xs) (auto simp: or_else_def)

lemma find_unique: "distinct (map f xs) \<Longrightarrow> x \<in> set xs \<Longrightarrow> find (\<lambda>y. f y = f x) (rev xs) = Some x"
  by (induction xs rule: rev_induct) (auto simp: rev_image_eqI)

lemma check_extras_iff:
  "check_extras m vs = Inr () \<longleftrightarrow> (\<forall>v \<in> set vs. \<forall>sz c. bm_get m (jv_id v) = Some (sz, c) \<longrightarrow> jv_class v = c \<and> size_bytes sz \<le> size_bytes (jv_size v))"
  by (induction vs) (auto simp: bind_result_Inr check_class_iff split: option.splits)

text \<open>One disk may take the place of another when it keeps the class and does not shrink.\<close>

definition disk_grows :: "jbod_volume \<Rightarrow> jbod_volume \<Rightarrow> bool" where
  "disk_grows new old \<longleftrightarrow> jv_class new = jv_class old \<and> size_bytes (jv_size old) \<le> size_bytes (jv_size new)"

lemma extras_grow:
  assumes "distinct (map jv_id old)" "map jv_id new = map jv_id old"
    and "\<And>i. bm_get m i = (case find (\<lambda>v. jv_id v = i) (rev old) of Some v \<Rightarrow> Some (jv_size v, jv_class v) | None \<Rightarrow> None)"
  shows "check_extras m new = Inr () \<longleftrightarrow> list_all2 disk_grows new old"
proof -
  have len: "length new = length old" using assms(2) map_eq_imp_length_eq by blast
  have ids: "jv_id (new ! i) = jv_id (old ! i)" if "i < length old" for i
    using assms(2) that len by (metis nth_map)
  have get: "bm_get m (jv_id (new ! i)) = Some (jv_size (old ! i), jv_class (old ! i))" if "i < length old" for i
    using find_unique[OF assms(1), of "old ! i"] that ids[OF that] by (simp add: assms(3))
  show ?thesis
    unfolding check_extras_iff list_all2_conv_all_nth disk_grows_def
    using len get by (auto simp: all_set_conv_all_nth)
qed

lemma list_all2_names:
  assumes "\<forall>v \<in> set new. in_i32 (jv_id v)" "\<forall>v \<in> set old. in_i32 (jv_id v)"
  shows "list_all2 claim_grows (map (disk_claim False l') new) (map (disk_claim False l) old)
    \<longleftrightarrow> map jv_id new = map jv_id old \<and> list_all2 disk_grows new old"
  using assms
proof (induction new arbitrary: old)
  case (Cons v vs)
  then show ?case
    by (cases old) (auto simp: claim_grows_def claim_name_disk disk_grows_def int_to_string_inj)
qed simp

lemma sorted_disks:
  assumes "validate_volumes [] vs = Inr ()"
  shows "sorted (map jv_id (sort_key jv_id vs))" "distinct (map jv_id (sort_key jv_id vs))"
  using validate_volumes_ok[OF assms] by (simp_all add: distinct_map)

lemma jbod_change_iff:
  assumes old: "sort_key jv_id ds0 = v0 # vs0" "validate_volumes [] ds0 = Inr ()" "\<forall>v \<in> set ds0. in_i32 (jv_id v)"
    and new: "sort_key jv_id ds1 = v1 # vs1" "validate_volumes [] ds1 = Inr ()" "\<forall>v \<in> set ds1. in_i32 (jv_id v)"
  shows "validate_jbod_change ds1 (disk_claim True l v0 # map (disk_claim False l) vs0) = Inr ()
    \<longleftrightarrow> list_all2 claim_grows (disk_claim True l' v1 # map (disk_claim False l') vs1) (disk_claim True l v0 # map (disk_claim False l) vs0)"
proof -
  let ?obs = "disk_claim True l v0 # map (disk_claim False l) vs0"
  have sets: "set (v0 # vs0) = set ds0" "set (v1 # vs1) = set ds1" by (simp_all flip: old(1) new(1))
  have i32: "\<forall>v \<in> set vs0. in_i32 (jv_id v)" "in_i32 (jv_id v0)" "\<forall>v \<in> set vs1. in_i32 (jv_id v)" using old(3) new(3) sets by auto
  have so: "sorted (map jv_id vs0)" "distinct (map jv_id vs0)" "sorted (map jv_id vs1)" "distinct (map jv_id vs1)"
    using sorted_disks[OF old(2)] sorted_disks[OF new(2)] by (simp_all add: old(1) new(1))
  have nodata: "find (\<lambda>t. meta_name (pvc_meta t) = ''data'') (rev (map (disk_claim False l) vs0)) = None"
    using claim_name_disk[of False l] by (auto simp: find_None_iff claim_name_def)
  have prim: "observed_primary ?obs = Some (jv_size v0, jv_class v0)"
    using nodata claim_name_disk[of True l v0] by (simp add: observed_primary_def find_app claim_name_def)
  have ext: "observed_extra ?obs = foldl (\<lambda>m t. case extra_disk t of None \<Rightarrow> m | Some n \<Rightarrow> bm_insert n (size_class_from_pvc t) m) [] (map (disk_claim False l) vs0)"
    by (simp add: observed_extra_def extra_disk_claim i32)
  have keys: "fst ` set (observed_extra ?obs) = jv_id ` set vs0" unfolding ext by (simp add: observed_extra_disks(2)[OF i32(1)])
  have same: "jv_id ` set vs1 = jv_id ` set vs0 \<longleftrightarrow> map jv_id vs1 = map jv_id vs0"
    using sorted_distinct_set_unique[OF so(3,4,1,2)] by (metis list.set_map)
  have "check_extras (observed_extra ?obs) vs1 = Inr () \<longleftrightarrow> list_all2 disk_grows vs1 vs0" if "map jv_id vs1 = map jv_id vs0"
    by (rule extras_grow[OF so(2) that]) (simp add: ext observed_extra_disks(1)[OF i32(1)] split: option.split)
  then show ?thesis
    unfolding validate_jbod_change_def new(1)
    by (auto simp: bind_result_Inr keys same prim check_class_iff list_all2_names[OF i32(3,1)] claim_grows_def claim_name_disk)
qed

section \<open>Changes of the storage\<close>

text \<open>The claim that tiered storage adds.\<close>

definition tier_claim :: "kafka \<Rightarrow> tier_persistence option" where
  "tier_claim k = (if tier_local (kspec_tiered_storage (kf_spec k)) then Option.bind (kspec_tiered_storage (kf_spec k)) ts_persistence else None)"

definition data_claims :: "storage option \<Rightarrow> (string, string) bmap \<Rightarrow> persistent_volume_claim list" where
  "data_claims s l = snd (data_storage s l [])"

lemma data_claims_cases:
  "data_claims None l = []" "data_claims (Some Ephemeral) l = []"
  "data_claims (Some (PersistentClaim pc)) l = [pvc_template ''data'' (pc_size pc) (pc_class pc) l]"
  "data_claims (Some (Jbod vs d)) l = (case sort_key jv_id vs of [] \<Rightarrow> [] | v # vs \<Rightarrow> disk_claim True l v # map (disk_claim False l) vs)"
  by (simp_all add: data_claims_def data_storage_def jbod_templates_disks jbod_volumes_sorted_def)

lemma rendered_live_claims:
  assumes "render_statefulset_with_shell env k pool img sh = Inr sts"
  shows "live_claims sts = snd (pool_storage k pool (pod_labels pool (common_labels (kafka_name k) (kspec_kafka_version (kf_spec k)) (Some (pool_name pool)))))"
  using assms by (auto simp: render_statefulset_with_shell_def Let_def bind_result_Inr live_claims_def split_beta)

lemma storage_claims: "snd (pool_storage k pool l) = data_claims (np_storage (knp_spec pool)) l
    @ (case tier_claim k of None \<Rightarrow> [] | Some p \<Rightarrow> [pvc_template ''tier-storage'' (tp_size p) (tp_class p) l])"
proof -
  have "snd (data_storage s l parent) = data_claims s l" for s parent
    by (simp add: data_claims_def data_storage_def split: option.splits storage.splits)
  then show ?thesis
    by (simp add: pool_storage_def render_storage_def split_beta tier_claim_def split: option.splits)
qed

lemma rendered_claims:
  assumes "render_statefulset_with_shell env k pool img sh = Inr sts"
  shows "\<exists>l. live_claims sts = data_claims (np_storage (knp_spec pool)) l
    @ (case tier_claim k of None \<Rightarrow> [] | Some p \<Rightarrow> [pvc_template ''tier-storage'' (tp_size p) (tp_class p) l])"
  unfolding rendered_live_claims[OF assms] storage_claims by blast

lemma disks_sorted:
  assumes "disks_ok (Some (Jbod vs d))"
  obtains v w ws where "sort_key jv_id vs = v # w # ws"
proof -
  have "2 \<le> length (sort_key jv_id vs)" using assms by (simp add: disks_ok_def validate_storage_def split: if_splits)
  then show ?thesis using that by (cases "sort_key jv_id vs" rule: remdups_adj.cases) auto
qed

text \<open>The number of claims tells the kind of the storage.\<close>

lemma observed_kind:
  assumes "disks_ok s"
  shows "observed_storage_kind (data_claims s l) = storage_kind s"
proof (cases s)
  case (Some st)
  show ?thesis
  proof (cases st)
    case (Jbod vs d)
    with assms Some disks_sorted obtain v w ws where "sort_key jv_id vs = v # w # ws" by blast
    with Some Jbod show ?thesis by (simp add: data_claims_cases observed_storage_kind_def storage_kind_def)
  qed (simp_all add: Some data_claims_cases observed_storage_kind_def storage_kind_def)
qed (simp add: data_claims_cases observed_storage_kind_def storage_kind_def)

lemma added_claim_kind: "observed_storage_kind ts \<noteq> ''Jbod'' \<Longrightarrow> observed_storage_kind (ts @ [t]) \<noteq> observed_storage_kind ts"
  by (cases ts rule: remdups_adj.cases) (simp_all add: observed_storage_kind_def)

lemma grown_kind:
  assumes "disks_ok s0" "disks_ok s1" "list_all2 claim_grows (data_claims s1 l1) (data_claims s0 l0)"
  shows "storage_kind s1 = storage_kind s0"
  using observed_kind[OF assms(1), of l0] observed_kind[OF assms(2), of l1] list_all2_lengthD[OF assms(3)]
  by (simp only: observed_storage_kind_def)

lemma storage_change_claims:
  assumes "disks_ok s0" "disks_ok s1"
  shows "validate_storage_change s1 (Some (data_claims s0 l0)) = Inr () \<longleftrightarrow> list_all2 claim_grows (data_claims s1 l1) (data_claims s0 l0)"
proof (cases "storage_kind s1 = storage_kind s0")
  case False
  then show ?thesis
    using grown_kind[OF assms] by (auto simp: validate_storage_change_def observed_kind[OF assms(1)] bind_result_Inr)
next
  case True
  have *: "validate_storage_change s1 (Some (data_claims s0 l0)) = Inr () \<longleftrightarrow>
     (case s1 of Some (PersistentClaim pc) \<Rightarrow> (case data_claims s0 l0 of [] \<Rightarrow> Inr () | t # _ \<Rightarrow>
                 check_class_and_shrink (pc_size pc) (pc_class pc) (fst (size_class_from_pvc t)) (snd (size_class_from_pvc t)))
          | Some (Jbod vs _) \<Rightarrow> validate_jbod_change vs (data_claims s0 l0)
          | _ \<Rightarrow> Inr ()) = Inr ()"
    by (simp add: validate_storage_change_def observed_kind[OF assms(1)] True)
  consider (eph) "s1 \<in> {None, Some Ephemeral}" "s0 \<in> {None, Some Ephemeral}"
    | (claim) p q where "s1 = Some (PersistentClaim p)" "s0 = Some (PersistentClaim q)"
    | (jbod) vs d ws e where "s1 = Some (Jbod vs d)" "s0 = Some (Jbod ws e)"
    using True by (auto simp: storage_kind_def split: option.splits storage.splits)
  then show ?thesis
  proof cases
    case claim
    then show ?thesis unfolding * by (simp add: data_claims_cases check_class_iff claim_grows_def)
  next
    case jbod
    from jbod assms obtain v1 w1 r1 v0 w0 r0 where so: "sort_key jv_id vs = v1 # w1 # r1" "sort_key jv_id ws = v0 # w0 # r0"
      by (metis disks_sorted)
    have ok: "validate_volumes [] vs = Inr ()" "validate_volumes [] ws = Inr ()" "\<forall>v \<in> set vs. in_i32 (jv_id v)" "\<forall>v \<in> set ws. in_i32 (jv_id v)"
      using assms jbod by (simp_all add: disks_ok_def validate_storage_def split: if_splits)
    show ?thesis unfolding * using jbod_change_iff[OF so(2) ok(2,4) so(1) ok(1,3)] jbod so by (simp add: data_claims_cases)
  qed (auto simp: * data_claims_cases)
qed

text \<open>C35: Which changes of the storage a live pool accepts. For valid storage and no tiered storage claim, the change is
  accepted exactly when the claims of the new StatefulSet are those of the live one, in the same order and with the same
  classes, and none of them shrinks; a pass over an unchanged pool is therefore never refused.\<close>

theorem storage_change_accepted_iff:
  assumes "render_statefulset_with_shell env k pool img sh = Inr live" "render_statefulset_with_shell env' k' pool' img' sh' = Inr desired"
    and "disks_ok (np_storage (knp_spec pool))" "disks_ok (np_storage (knp_spec pool'))" "tier_claim k = None" "tier_claim k' = None"
  shows "validate_storage_change (np_storage (knp_spec pool')) (Some (live_claims live)) = Inr ()
    \<longleftrightarrow> list_all2 claim_grows (live_claims desired) (live_claims live)"
  using rendered_claims[OF assms(1)] rendered_claims[OF assms(2)] storage_change_claims[OF assms(3,4)] assms(5,6) by auto

text \<open>C37: A claim for local tiered storage blocks its pool. Once a pool with ephemeral or single-claim storage has been
  created with such a claim, every later pass refuses the pool as a change of the storage type, although nothing changed.\<close>

theorem tier_claim_blocks_pool:
  assumes "render_statefulset_with_shell env k pool img sh = Inr live" "tier_claim k = Some p"
    and "disks_ok (np_storage (knp_spec pool))" "storage_kind (np_storage (knp_spec pool)) \<noteq> ''Jbod''"
  shows "\<exists>kind. validate_storage_change (np_storage (knp_spec pool)) (Some (live_claims live))
    = Inl (StorageTypeChanged kind (storage_kind (np_storage (knp_spec pool)))) \<and> kind \<noteq> storage_kind (np_storage (knp_spec pool))"
proof -
  from rendered_claims[OF assms(1)] assms(2) obtain l where
    c: "live_claims live = data_claims (np_storage (knp_spec pool)) l @ [pvc_template ''tier-storage'' (tp_size p) (tp_class p) l]" by auto
  have "observed_storage_kind (live_claims live) \<noteq> storage_kind (np_storage (knp_spec pool))"
    using added_claim_kind assms(4) unfolding c observed_kind[OF assms(3), of l, symmetric] by blast
  then show ?thesis by (simp add: validate_storage_change_def bind_result_def require_def)
qed


section \<open>Consistency of a pod template\<close>

text \<open>What the API server checks of a pod template: volumes and claims have different names, every mount names one of
  them, and no container mounts two at the same path.\<close>

definition volume_names :: "pod_spec \<Rightarrow> persistent_volume_claim list \<Rightarrow> string list" where
  "volume_names ps claims = map vol_name (ps_volumes ps) @ map claim_name claims"

definition container_mounts_ok :: "string list \<Rightarrow> container \<Rightarrow> bool" where
  "container_mounts_ok names c \<longleftrightarrow> set (map vm_name (ct_mounts c)) \<subseteq> set names \<and> distinct (map vm_path (ct_mounts c))"

definition template_consistent :: "stateful_set \<Rightarrow> bool" where
  "template_consistent sts \<longleftrightarrow>
     (\<exists>ps. Option.bind (sts_spec sts) (\<lambda>s. pt_spec (ss_template s)) = Some ps
       \<and> distinct (volume_names ps (live_claims sts))
       \<and> list_all (container_mounts_ok (volume_names ps (live_claims sts))) (unwrap_or [] (ps_init_containers ps) @ ps_containers ps))"

definition optional_volumes :: "string list" where
  "optional_volumes = [''oauth-jwks-trust'', ''oauth-introspection-secret'', ''gssapi-keytab'', ''krb5-conf'', ''tier-storage'', ''gcs-credentials'']"

definition fixed_volumes :: "string list" where
  "fixed_volumes = [''broker-config'', ''broker-runtime'', ''cluster-ca-cert'', ''broker-tls'', ''clients-ca-cert'', ''cluster-id'']"

definition extra_ids :: "storage option \<Rightarrow> int list" where
  "extra_ids s = map jv_id (tl (jbod_volumes_sorted s))"

lemma distinct_subseq: "subseq xs ys \<Longrightarrow> distinct ys \<Longrightarrow> distinct xs"
proof (induction rule: list_emb.induct)
  case (list_emb_Cons2 x y xs ys)
  then show ?case using list_emb_set[OF list_emb_Cons2(2)] by auto
qed auto

lemma subseq_if: "subseq xs zs \<Longrightarrow> subseq ((if b then [y] else []) @ xs) (y # zs)"
  by auto

text \<open>The name and the mount path of a disk other than the primary one.\<close>

definition disk_name :: "int \<Rightarrow> string" where
  "disk_name i = ''data-'' @ int_to_string i"

definition disk_path :: "int \<Rightarrow> string" where
  "disk_path i = ''/var/lib/krabka/data-'' @ int_to_string i"

lemma disk_distinct:
  assumes "distinct is" "\<forall>i \<in> set is. in_i32 i"
  shows "distinct (map disk_name is)" "distinct (map disk_path is)"
  using assms by (auto simp: distinct_map inj_on_def int_to_string_inj disk_name_def disk_path_def)

lemma auth_names: "map vol_name (auth_volumes a) =
    (if as_jwks_trust a \<noteq> None then [''oauth-jwks-trust''] else []) @ (if as_introspection a \<noteq> None then [''oauth-introspection-secret''] else [])
    @ (if as_keytab a \<noteq> None then [''gssapi-keytab''] else []) @ (if as_krb5 a \<noteq> None then [''krb5-conf''] else [])"
  by (simp add: auth_volumes_def secret_volume_def item_volume_def split: option.splits)

lemma base_names: "map vol_name (base_volumes p) = fixed_volumes"
  by (simp add: base_volumes_def fixed_volumes_def empty_dir_def secret_volume_def)

lemma data_volume_names: "map vol_name (fst (data_storage s l p)) = (if data_claims s l = [] \<and> storage_kind s = ''Ephemeral'' then [''data''] else []) @ fixed_volumes"
  by (simp add: data_storage_def data_claims_def storage_kind_def base_names empty_dir_def split: option.splits storage.splits)

lemma storage_names: "map vol_name (fst (pool_storage k pool l)) =
    (if storage_kind (np_storage (knp_spec pool)) = ''Ephemeral'' then [''data''] else []) @ fixed_volumes
    @ (if oauth_jwks_trust_secret_name k \<noteq> None then [''oauth-jwks-trust''] else [])
    @ (if oauth_introspection_secret_mount k \<noteq> None then [''oauth-introspection-secret''] else [])
    @ (if gssapi_keytab_mount k \<noteq> None then [''gssapi-keytab''] else []) @ (if krb5_conf_mount k \<noteq> None then [''krb5-conf''] else [])
    @ (if tier_local (kspec_tiered_storage (kf_spec k)) \<and> tier_claim k = None then [''tier-storage''] else [])
    @ (if gcs_key (kspec_tiered_storage (kf_spec k)) \<noteq> None then [''gcs-credentials''] else [])"
proof -
  have e: "storage_kind s = ''Ephemeral'' \<Longrightarrow> data_claims s l = []" for s
    by (auto simp: storage_kind_def data_claims_cases split: option.splits storage.splits)
  show ?thesis
    unfolding pool_storage_def render_storage_def split_beta fst_conv map_append data_volume_names auth_names
    using e by (auto simp: tier_claim_def empty_dir_def item_volume_def split: option.splits)
qed

lemma claim_names:
  assumes "disks_ok s"
  shows "map claim_name (data_claims s l) = (if storage_kind s = ''Ephemeral'' then [] else ''data'' # map disk_name (extra_ids s))"
proof (cases s)
  case (Some st)
  show ?thesis
  proof (cases st)
    case (Jbod vs d)
    with assms Some disks_sorted obtain v w ws where "sort_key jv_id vs = v # w # ws" by blast
    then show ?thesis by (simp add: Some Jbod data_claims_cases storage_kind_def extra_ids_def jbod_volumes_sorted_def claim_name_disk disk_name_def)
  qed (simp_all add: Some data_claims_cases storage_kind_def extra_ids_def jbod_volumes_sorted_def)
qed (simp add: data_claims_cases storage_kind_def)

lemma extra_ids_ok:
  assumes "disks_ok s"
  shows "distinct (extra_ids s)" "\<forall>i \<in> set (extra_ids s). in_i32 i"
proof -
  have "distinct (map jv_id (jbod_volumes_sorted s)) \<and> (\<forall>v \<in> set (jbod_volumes_sorted s). in_i32 (jv_id v))"
    using assms sorted_disks
    by (auto simp: disks_ok_def validate_storage_def jbod_volumes_sorted_def split: option.splits storage.splits if_splits)
  then show "distinct (extra_ids s)" "\<forall>i \<in> set (extra_ids s). in_i32 i"
    by (cases "jbod_volumes_sorted s"; simp add: extra_ids_def)+
qed

lemma volume_names_distinct:
  assumes "disks_ok (np_storage (knp_spec pool))"
  shows "distinct (map vol_name (fst (pool_storage k pool l)) @ map claim_name (snd (pool_storage k pool l')))"
proof -
  let ?s = "np_storage (knp_spec pool)" and ?local = "tier_local (kspec_tiered_storage (kf_spec k))"
  have vols: "subseq (map vol_name (fst (pool_storage k pool l))) (''data'' # fixed_volumes @ optional_volumes)"
    unfolding storage_names optional_volumes_def by (intro subseq_if subseq_order.order_refl list_emb_append_mono) simp
  have "distinct (''data'' # fixed_volumes @ optional_volumes)" by (simp add: fixed_volumes_def optional_volumes_def)
  with vols have dv: "distinct (map vol_name (fst (pool_storage k pool l)))" by (rule distinct_subseq)
  have dc: "distinct (map claim_name (data_claims ?s l'))"
    unfolding claim_names[OF assms] using disk_distinct(1)[OF extra_ids_ok[OF assms]] by (auto simp: disk_name_def)
  have names: "n = ''data'' \<and> storage_kind ?s \<noteq> ''Ephemeral'' \<or> (\<exists>r. n = ''data-'' @ r)" if "n \<in> set (map claim_name (data_claims ?s l'))" for n
    using that unfolding claim_names[OF assms] by (auto simp: disk_name_def split: if_splits)
  have vn: "n \<in> set fixed_volumes \<union> set optional_volumes \<or> n = ''data'' \<and> storage_kind ?s = ''Ephemeral''"
      "n = ''tier-storage'' \<longrightarrow> tier_claim k = None" if "n \<in> set (map vol_name (fst (pool_storage k pool l)))" for n
    using that unfolding storage_names by (auto simp: optional_volumes_def fixed_volumes_def split: if_splits)
  have fixed: "n \<noteq> ''data'' \<and> (\<forall>r. n \<noteq> ''data-'' @ r)" if "n \<in> set fixed_volumes \<union> set optional_volumes" for n
    using that by (auto simp: fixed_volumes_def optional_volumes_def)
  have disj: "set (map vol_name (fst (pool_storage k pool l))) \<inter> set (map claim_name (data_claims ?s l')) = {}"
    using names vn(1) fixed by fastforce
  have "''tier-storage'' \<notin> set (map claim_name (data_claims ?s l'))" using names by force
  with dv dc disj vn(2) show ?thesis
    by (cases "tier_claim k") (simp_all add: storage_claims Int_Un_distrib, blast)
qed

text \<open>The broker container.\<close>

lemma optional_mount: "map (\<lambda>m. (vm_name m, vm_path m)) (case map_option (\<lambda>_. p) x of None \<Rightarrow> [] | Some p \<Rightarrow> [mount_ro n p])
    = (if x \<noteq> None then [(n, p)] else [])"
  by (cases x) (simp_all add: mount_ro_def)

lemma broker_mount_pairs:
  "map (\<lambda>m. (vm_name m, vm_path m)) (broker_mounts (container_spec k pool img queue frame)) =
     [(''data'', ''/var/lib/krabka/data''), (''broker-config'', ''/etc/krabka/config''), (''broker-runtime'', ''/run/krabka''),
      (''cluster-ca-cert'', ''/etc/krabka/cluster-ca''), (''broker-tls'', ''/etc/krabka/broker-tls''), (''clients-ca-cert'', ''/etc/krabka/clients-ca'')]
     @ map (\<lambda>i. (disk_name i, disk_path i)) (extra_ids (np_storage (knp_spec pool)))
     @ (if oauth_jwks_trust_secret_name k \<noteq> None then [(''oauth-jwks-trust'', ''/etc/krabka/oauth-jwks-trust'')] else [])
     @ (if oauth_introspection_secret_mount k \<noteq> None then [(''oauth-introspection-secret'', ''/etc/krabka/oauth-introspection'')] else [])
     @ (if gssapi_keytab_mount k \<noteq> None then [(''gssapi-keytab'', GSSAPI_KEYTAB_DIR)] else [])
     @ (if krb5_conf_mount k \<noteq> None then [(''krb5-conf'', ''/etc/krabka/krb5'')] else [])
     @ (if tier_local (kspec_tiered_storage (kf_spec k)) then [(''tier-storage'', TIER_STORAGE_PATH)] else [])
     @ (if gcs_key (kspec_tiered_storage (kf_spec k)) \<noteq> None then [(''gcs-credentials'', GCS_CREDENTIALS_DIR)] else [])"
  unfolding broker_mounts_def map_append container_spec_def Let_def broker_container_spec.simps optional_mount
  by (intro arg_cong2[where f = append] refl)
    (simp_all add: mount_def mount_ro_def jbod_extra_mounts_def jbod_mount_def extra_ids_def disk_name_def disk_path_def)

lemma broker_mount_paths:
  assumes "disks_ok (np_storage (knp_spec pool))"
  shows "distinct (map vm_path (broker_mounts (container_spec k pool img queue frame)))"
proof -
  let ?pre = "[''/var/lib/krabka/data'', ''/etc/krabka/config'', ''/run/krabka'', ''/etc/krabka/cluster-ca'', ''/etc/krabka/broker-tls'', ''/etc/krabka/clients-ca'']"
  let ?x = "map disk_path (extra_ids (np_storage (knp_spec pool)))"
  let ?post = "[''/etc/krabka/oauth-jwks-trust'', ''/etc/krabka/oauth-introspection'', GSSAPI_KEYTAB_DIR, ''/etc/krabka/krb5'', TIER_STORAGE_PATH, GCS_CREDENTIALS_DIR]"
  have "map vm_path (broker_mounts (container_spec k pool img queue frame)) = map snd (map (\<lambda>m. (vm_name m, vm_path m)) (broker_mounts (container_spec k pool img queue frame)))"
    by simp
  also have "\<dots> = ?pre @ ?x
      @ (if oauth_jwks_trust_secret_name k \<noteq> None then [''/etc/krabka/oauth-jwks-trust''] else [])
      @ (if oauth_introspection_secret_mount k \<noteq> None then [''/etc/krabka/oauth-introspection''] else [])
      @ (if gssapi_keytab_mount k \<noteq> None then [GSSAPI_KEYTAB_DIR] else []) @ (if krb5_conf_mount k \<noteq> None then [''/etc/krabka/krb5''] else [])
      @ (if tier_local (kspec_tiered_storage (kf_spec k)) then [TIER_STORAGE_PATH] else [])
      @ (if gcs_key (kspec_tiered_storage (kf_spec k)) \<noteq> None then [GCS_CREDENTIALS_DIR] else []) @ []"
    unfolding broker_mount_pairs map_append append_Nil2 by (intro arg_cong2[where f = append] refl) simp_all
  finally have "subseq (map vm_path (broker_mounts (container_spec k pool img queue frame))) (?pre @ ?x @ ?post)"
    by (auto intro!: list_emb_append_mono subseq_if)
  moreover have "distinct (?pre @ ?x @ ?post)"
  proof -
    have "set (?pre @ ?post) \<inter> set ?x = {}"
      by (auto simp: disk_path_def GSSAPI_KEYTAB_DIR_def TIER_STORAGE_PATH_def GCS_CREDENTIALS_DIR_def)
    moreover have "distinct (?pre @ ?post)" by (simp add: GSSAPI_KEYTAB_DIR_def TIER_STORAGE_PATH_def GCS_CREDENTIALS_DIR_def)
    ultimately show ?thesis using disk_distinct(2)[OF extra_ids_ok[OF assms]] by (auto simp only: distinct_append set_append)
  qed
  ultimately show ?thesis by (rule distinct_subseq)
qed

lemma broker_mounts_resolved:
  assumes "disks_ok (np_storage (knp_spec pool))"
  shows "set (map vm_name (broker_mounts (container_spec k pool img queue frame)))
    \<subseteq> set (map vol_name (fst (pool_storage k pool l)) @ map claim_name (snd (pool_storage k pool l')))"
proof -
  let ?s = "np_storage (knp_spec pool)"
  have claims: "set (map claim_name (snd (pool_storage k pool l'))) = set (map claim_name (data_claims ?s l')) \<union> (if tier_claim k = None then {} else {''tier-storage''})"
    by (auto simp: storage_claims split: option.splits)
  have eph: "extra_ids ?s = []" if "storage_kind ?s = ''Ephemeral''"
    using that by (auto simp: storage_kind_def extra_ids_def jbod_volumes_sorted_def split: option.splits storage.splits)
  let ?N = "set (map vol_name (fst (pool_storage k pool l)) @ map claim_name (snd (pool_storage k pool l')))"
  have data: "''data'' \<in> ?N" unfolding set_append claims claim_names[OF assms] storage_names by simp
  have disks: "disk_name i \<in> ?N" if "i \<in> set (extra_ids ?s)" for i
    using that eph unfolding set_append claims claim_names[OF assms] by (cases "storage_kind ?s = ''Ephemeral''") simp_all
  have fixed: "set fixed_volumes \<subseteq> ?N" unfolding set_append storage_names by blast
  have opt: "oauth_jwks_trust_secret_name k \<noteq> None \<Longrightarrow> ''oauth-jwks-trust'' \<in> ?N"
    "oauth_introspection_secret_mount k \<noteq> None \<Longrightarrow> ''oauth-introspection-secret'' \<in> ?N"
    "gssapi_keytab_mount k \<noteq> None \<Longrightarrow> ''gssapi-keytab'' \<in> ?N" "krb5_conf_mount k \<noteq> None \<Longrightarrow> ''krb5-conf'' \<in> ?N"
    "gcs_key (kspec_tiered_storage (kf_spec k)) \<noteq> None \<Longrightarrow> ''gcs-credentials'' \<in> ?N"
    unfolding set_append storage_names by (simp_all del: Un_insert_left)
  have tier: "tier_local (kspec_tiered_storage (kf_spec k)) \<Longrightarrow> ''tier-storage'' \<in> ?N"
    unfolding set_append storage_names claims by (cases "tier_claim k") simp_all
  have "set (map vm_name (broker_mounts (container_spec k pool img queue frame))) = fst ` set (map (\<lambda>m. (vm_name m, vm_path m)) (broker_mounts (container_spec k pool img queue frame)))"
    by (simp add: image_image)
  also have "\<dots> \<subseteq> ?N"
    unfolding broker_mount_pairs set_append image_Un
    by (intro Un_least) (use data disks fixed opt tier in \<open>simp_all add: fixed_volumes_def image_subset_iff split del: if_split\<close>)
  finally show ?thesis .
qed

lemma init_mounts_ok:
  assumes "disks_ok (np_storage (knp_spec pool))" "N = map vol_name (fst (pool_storage k pool l)) @ map claim_name (snd (pool_storage k pool l'))"
  shows "container_mounts_ok N (render_shell_init_container sh)" "container_mounts_ok N (render_init_container img s p h n m)"
    "container_mounts_ok N (render_broker_container (container_spec k pool img queue frame))"
proof -
  have b: "set (map vm_name (broker_mounts (container_spec k pool img queue frame))) \<subseteq> set N" unfolding assms(2) by (rule broker_mounts_resolved[OF assms(1)])
  have "{''data'', ''broker-runtime''} \<subseteq> set (map vm_name (broker_mounts (container_spec k pool img queue frame)))"
    by (simp add: broker_mounts_def mount_def mount_ro_def)
  with b have "{''data'', ''broker-runtime''} \<subseteq> set N" by blast
  moreover have "''cluster-id'' \<in> set N" unfolding assms(2) set_append storage_names fixed_volumes_def by simp
  ultimately show "container_mounts_ok N (render_shell_init_container sh)" "container_mounts_ok N (render_init_container img s p h n m)"
    by (simp_all add: container_mounts_ok_def render_shell_init_container_def render_init_container_def mount_def mount_ro_def)
  show "container_mounts_ok N (render_broker_container (container_spec k pool img queue frame))"
    using b broker_mount_paths[OF assms(1)] by (simp add: container_mounts_ok_def render_broker_container_def)
qed

lemma rendered_pod:
  assumes "render_statefulset_with_shell env k pool img sh = Inr sts"
  obtains queue frame l where "Option.bind (sts_spec sts) (\<lambda>s. pt_spec (ss_template s)) =
      Some (render_pod_spec env k pool img sh queue frame (fst (pool_storage k pool l)))"
    "live_claims sts = snd (pool_storage k pool l)"
proof -
  have "\<exists>queue frame. Option.bind (sts_spec sts) (\<lambda>s. pt_spec (ss_template s)) =
      Some (render_pod_spec env k pool img sh queue frame (fst (pool_storage k pool (pod_labels pool (common_labels (kafka_name k) (kspec_kafka_version (kf_spec k)) (Some (pool_name pool)))))))"
    using assms by (auto simp: render_statefulset_with_shell_def Let_def bind_result_Inr split_beta) (rule exI, rule exI, rule refl)
  with rendered_live_claims[OF assms] that show ?thesis by blast
qed

text \<open>C36: The rendered pod template is consistent. For a pool with valid storage, volumes and claims have different names,
  every mount of every container names one of them, and no container mounts two at the same path, whatever combination
  of disks, OAuth, Kerberos and tiered storage the cluster has.\<close>

theorem pod_template_consistent:
  assumes "render_statefulset_with_shell env k pool img sh = Inr sts" "disks_ok (np_storage (knp_spec pool))"
  shows "template_consistent sts"
proof -
  from rendered_pod[OF assms(1)] obtain queue frame l where
    ps: "Option.bind (sts_spec sts) (\<lambda>s. pt_spec (ss_template s)) = Some (render_pod_spec env k pool img sh queue frame (fst (pool_storage k pool l)))"
    and claims: "live_claims sts = snd (pool_storage k pool l)" .
  let ?N = "map vol_name (fst (pool_storage k pool l)) @ map claim_name (snd (pool_storage k pool l))"
  have n: "volume_names (render_pod_spec env k pool img sh queue frame (fst (pool_storage k pool l))) (live_claims sts) = ?N"
    by (simp add: volume_names_def render_pod_spec_def Let_def claims)
  show ?thesis
    unfolding template_consistent_def
  proof (intro exI conjI)
    show "distinct (volume_names (render_pod_spec env k pool img sh queue frame (fst (pool_storage k pool l))) (live_claims sts))"
      unfolding n by (rule volume_names_distinct[OF assms(2)])
    show "list_all (container_mounts_ok (volume_names (render_pod_spec env k pool img sh queue frame (fst (pool_storage k pool l))) (live_claims sts)))
       (unwrap_or [] (ps_init_containers (render_pod_spec env k pool img sh queue frame (fst (pool_storage k pool l))))
        @ ps_containers (render_pod_spec env k pool img sh queue frame (fst (pool_storage k pool l))))"
      unfolding n using init_mounts_ok[OF assms(2) refl] by (simp add: render_pod_spec_def Let_def)
  qed (rule ps)
qed

section \<open>The probe of a broker\<close>

lemma no_binds:
  "Text ''bind_addr'' v \<notin> set (render_properties ps)" "render_remote_storage env ts = Some is \<Longrightarrow> Text ''bind_addr'' v \<notin> set is"
  "Text ''bind_addr'' v \<notin> set (closing_items env i)" "Text ''bind_addr'' v \<notin> set (render_runtime_toml tenv t)"
  "Text ''bind_addr'' v \<notin> set (render_broker_header b ib tls voters server)" "Text ''bind_addr'' v \<notin> set (dynamic_quorum_config k)"
proof -
  have opt: "Text ''bind_addr'' v \<notin> set (optional_item f x)" if "\<And>y. f y \<noteq> Text ''bind_addr'' v" for f :: "'a \<Rightarrow> toml_item" and x
    using that by (force simp: optional_item_def split: option.splits)
  show "Text ''bind_addr'' v \<notin> set (render_properties ps)" by (auto simp: render_properties_def)
  show "Text ''bind_addr'' v \<notin> set is" if "render_remote_storage env ts = Some is"
    using that by (auto simp: render_remote_storage_def render_backend_def render_metadata_topic_def opt
        split: option.splits tiered_storage_type.splits if_splits)
  have "Text ''bind_addr'' v \<notin> set (render_authorization r)" for r
    by (simp add: render_authorization_def opt split: option.split)
  moreover have "Text ''bind_addr'' v \<notin> set (render_oauth c)" for c
    by (simp add: render_oauth_def render_oauth_source_def opt)
  moreover have "Text ''bind_addr'' v \<notin> set (render_gssapi env g)" for g
    by (simp add: render_gssapi_def opt)
  moreover have "Text ''bind_addr'' v \<notin> set (render_credentials k)" for k
    by (simp add: render_credentials_def)
  moreover have "Text ''bind_addr'' v \<notin> set (render_tls_config x)" for x
    by (simp add: render_tls_config_def)
  ultimately show "Text ''bind_addr'' v \<notin> set (closing_items env i)"
    unfolding closing_items_def set_append Un_iff de_Morgan_disj
    by (intro conjI not_in_if not_in_case) (simp_all del: if_split_eq1)
  have "render_tuning_value tenv f w \<noteq> Text ''bind_addr'' v" for f w by (cases w) (simp_all add: render_tuning_value_def)
  then have "Text ''bind_addr'' v \<notin> set (List.map_filter (\<lambda>(_, field). map_option (render_tuning_value tenv field) (bm_get t field)) tuning_fields)"
    by (auto simp: set_map_filter_Some)
  then show "Text ''bind_addr'' v \<notin> set (render_runtime_toml tenv t)" by (simp add: render_runtime_toml_def Let_def)
  show "Text ''bind_addr'' v \<notin> set (render_broker_header b ib tls voters server)"
    by (simp add: render_broker_header_def opt)
  show "Text ''bind_addr'' v \<notin> set (dynamic_quorum_config k)" by (simp add: dynamic_quorum_config_def)
qed

text \<open>The addresses that a file binds are those of the listeners of its node.\<close>

lemma file_binds:
  assumes "node_file env tenv k c b addrs = Some is" "Text ''bind_addr'' v \<in> set is"
  shows "\<exists>l \<in> set (node_listeners c b). v = ''0.0.0.0:'' @ int_to_string (ls_port l)"
proof -
  let ?i = "node_file_input k c b addrs"
  obtain rendered where r: "render_broker_toml_with_operator env ?i = Some rendered"
    and is_eq: "is = dynamic_quorum_config k @ rendered
         @ (case kspec_broker_tuning (kf_spec k) of None \<Rightarrow> [] | Some t \<Rightarrow> render_runtime_toml tenv t)"
    using assms(1) by (auto simp: node_file_def)
  from file_parts[OF r] obtain sections remote where parts:
    "render_listener_sections env (fi_broker_id ?i) (fi_listeners ?i) (fi_addresses ?i) (fi_clients_ca_path ?i) (fi_operator_listener ?i) = Some sections"
    "render_remote_storage env (fi_tiered_storage ?i) = Some remote"
    "rendered = render_broker_header (fi_broker_id ?i) (fi_inter_broker ?i) (fi_tls ?i) (fi_voters ?i) (fi_server_name ?i)
      @ sections @ render_properties (fi_server_properties ?i) @ remote @ closing_items env ?i" .
  have "Text ''bind_addr'' v \<notin> set (case kspec_broker_tuning (kf_spec k) of None \<Rightarrow> [] | Some t \<Rightarrow> render_runtime_toml tenv t)"
    by (intro not_in_case no_binds(4))
  with assms(2) have "Text ''bind_addr'' v \<in> set sections"
    unfolding is_eq parts(3) set_append using no_binds(1,3,5,6) no_binds(2)[OF parts(2)] by blast
  moreover from concat_optionsD[OF parts(1)[unfolded render_listener_sections_def]] obtain ys where
    ys: "map (render_listener env (fi_broker_id ?i) (fi_addresses ?i) (fi_clients_ca_path ?i) (fi_operator_listener ?i)) (fi_listeners ?i) = map Some ys"
      "sections = concat ys" by auto
  ultimately obtain y where y: "y \<in> set ys" "Text ''bind_addr'' v \<in> set y" by auto
  then have "Some y \<in> set (map (render_listener env (fi_broker_id ?i) (fi_addresses ?i) (fi_clients_ca_path ?i) (fi_operator_listener ?i)) (fi_listeners ?i))"
    unfolding ys(1) by simp
  then obtain l where l: "l \<in> set (node_listeners c b)" "render_listener env b addrs (ci_clients_ca_path c) (ci_operator_listener c) l = Some y"
    by (auto simp: node_file_input_def)
  from l(2) y(2) have "v = ''0.0.0.0:'' @ int_to_string (ls_port l)"
    by (auto simp: render_listener_def optional_item_def split: if_splits option.splits)
  with l(1) show ?thesis by blast
qed

text \<open>C38: The startup probe may watch a port that no broker opens. When no listener of a node uses port 9092, its container
  is still killed unless that port answers, although no listener of its configuration file binds it.\<close>

theorem startup_probe_unserved:
  assumes "render_statefulset_with_shell penv k pool img sh = Inr sts" "node_file env tenv k c b addrs = Some is"
    and "BROKER_PORT \<notin> ls_port ` set (node_listeners c b)" "\<forall>l \<in> set (node_listeners c b). in_i32 (ls_port l)"
  shows "\<exists>ps ct. Option.bind (sts_spec sts) (\<lambda>s. pt_spec (ss_template s)) = Some ps \<and> ps_containers ps = [ct] \<and> ct_startup_port ct = Some BROKER_PORT
    \<and> Text ''bind_addr'' (''0.0.0.0:'' @ int_to_string BROKER_PORT) \<notin> set is"
proof -
  have "Text ''bind_addr'' (''0.0.0.0:'' @ int_to_string BROKER_PORT) \<notin> set is"
  proof
    assume "Text ''bind_addr'' (''0.0.0.0:'' @ int_to_string BROKER_PORT) \<in> set is"
    from file_binds[OF assms(2) this] obtain l where "l \<in> set (node_listeners c b)" "int_to_string BROKER_PORT = int_to_string (ls_port l)" by auto
    moreover have "in_i32 BROKER_PORT" by (simp add: BROKER_PORT_def in_i32_def)
    ultimately show False using assms(3,4) int_to_string_inj by fastforce
  qed
  moreover from rendered_pod[OF assms(1)] obtain queue frame l where
    "Option.bind (sts_spec sts) (\<lambda>s. pt_spec (ss_template s)) = Some (render_pod_spec penv k pool img sh queue frame (fst (pool_storage k pool l)))" .
  ultimately show ?thesis by (simp add: render_pod_spec_def Let_def render_broker_container_def)
qed

section \<open>Instances\<close>

definition sample_pool_env :: pool_env where
  "sample_pool_env = \<lparr>pw_levels = \<lparr>from_version_string = (\<lambda>_. Some 25), metadata_version_min = 7, online_downgrade_min_level = 15\<rparr>,
     pw_max_level = ''4.0'', pw_queue = Inr, pw_frame = Inr, pw_secs = (\<lambda>_. 0)\<rparr>"

definition sample_pool :: "storage option \<Rightarrow> node_pool" where
  "sample_pool s = \<lparr>knp_meta = (plain_meta ''p'')\<lparr>meta_uid := Some ''u''\<rparr>,
     knp_spec = \<lparr>np_roles = [Controller, Broker], np_replicas = 3, np_node_id_start = 0, np_image = None, np_resources = None,
       np_dispatch_queue = None, np_frame_max = None, np_template = None, np_storage = s\<rparr>, knp_status = None\<rparr>"

definition claim_of :: "string \<Rightarrow> storage option" where
  "claim_of sz = Some (PersistentClaim \<lparr>pc_size = sz, pc_class = None, pc_delete_claim = False\<rparr>)"

definition tiered_kafka :: kafka where
  "tiered_kafka = sample_kafka\<lparr>kf_spec := sample_kafka_spec\<lparr>kspec_tiered_storage := Some \<lparr>ts_kind = Local, ts_s3 = None, ts_gcs = None,
     ts_metadata_manager = None, ts_persistence = Some \<lparr>tp_size = ''1Gi'', tp_class = None, tp_delete_claim = False\<rparr>\<rparr>\<rparr>\<rparr>"

lemma sample_pool_renders:
  "\<exists>sts. render_statefulset_with_shell sample_pool_env sample_kafka (sample_pool (claim_of sz)) ''i'' ''s'' = Inr sts"
  "\<exists>sts. render_statefulset_with_shell sample_pool_env tiered_kafka (sample_pool (claim_of sz)) ''i'' ''s'' = Inr sts"
  by (simp_all add: render_statefulset_with_shell_def Let_def sample_pool_def claim_of_def client_resource_policy_def claims_agree_def
      storage_delete_claim_def owner_of_pool_def owner_ref_def plain_meta_def ok_or_def sample_kafka_def sample_kafka_spec_def tiered_kafka_def
      split_beta)

lemma sample_sizes: "parse_quantity ''1Gi'' = Inr 1073741824" "parse_quantity ''2Gi'' = Inr 2147483648"
  by code_simp+

lemma sample_disks: "disks_ok (np_storage (knp_spec (sample_pool (claim_of ''1Gi''))))" "disks_ok (np_storage (knp_spec (sample_pool (claim_of ''2Gi''))))"
  by (simp_all add: disks_ok_def sample_pool_def claim_of_def validate_storage_def validate_size_def sample_sizes)

theorem storage_change_accepted_iff_witness:
  "\<exists>live desired. render_statefulset_with_shell sample_pool_env sample_kafka (sample_pool (claim_of ''1Gi'')) ''i'' ''s'' = Inr live
    \<and> render_statefulset_with_shell sample_pool_env sample_kafka (sample_pool (claim_of ''2Gi'')) ''i'' ''s'' = Inr desired
    \<and> list_all2 claim_grows (live_claims desired) (live_claims live) \<and> \<not> list_all2 claim_grows (live_claims live) (live_claims desired)"
proof -
  from sample_pool_renders(1) obtain live desired where
    r: "render_statefulset_with_shell sample_pool_env sample_kafka (sample_pool (claim_of ''1Gi'')) ''i'' ''s'' = Inr live"
       "render_statefulset_with_shell sample_pool_env sample_kafka (sample_pool (claim_of ''2Gi'')) ''i'' ''s'' = Inr desired" by meson
  have t: "tier_claim sample_kafka = None" by (simp add: tier_claim_def tier_local_def sample_kafka_def sample_kafka_spec_def)
  obtain l l' where c: "live_claims live = [pvc_template ''data'' ''1Gi'' None l]" "live_claims desired = [pvc_template ''data'' ''2Gi'' None l']"
    using rendered_claims[OF r(1)] rendered_claims[OF r(2)] t by (auto simp: sample_pool_def claim_of_def data_claims_cases)
  have "validate_storage_change (np_storage (knp_spec (sample_pool (claim_of ''2Gi'')))) (Some (live_claims live)) = Inr ()"
    by (simp add: c validate_storage_change_def sample_pool_def claim_of_def storage_kind_def observed_storage_kind_def check_class_iff
        size_bytes_def sample_sizes result_ok_def)
  moreover have "validate_storage_change (np_storage (knp_spec (sample_pool (claim_of ''1Gi'')))) (Some (live_claims desired)) \<noteq> Inr ()"
    by (simp add: c validate_storage_change_def sample_pool_def claim_of_def storage_kind_def observed_storage_kind_def check_class_iff
        size_bytes_def sample_sizes result_ok_def)
  ultimately show ?thesis
    using storage_change_accepted_iff[OF r sample_disks t t] storage_change_accepted_iff[OF r(2,1) sample_disks(2,1) t t] r by blast
qed

theorem tier_claim_blocks_pool_witness:
  "\<exists>live kind. render_statefulset_with_shell sample_pool_env tiered_kafka (sample_pool (claim_of ''1Gi'')) ''i'' ''s'' = Inr live
    \<and> validate_storage_change (claim_of ''1Gi'') (Some (live_claims live)) = Inl (StorageTypeChanged kind ''PersistentClaim'')"
proof -
  from sample_pool_renders(2) obtain live where
    r: "render_statefulset_with_shell sample_pool_env tiered_kafka (sample_pool (claim_of ''1Gi'')) ''i'' ''s'' = Inr live" by meson
  have "tier_claim tiered_kafka = Some \<lparr>tp_size = ''1Gi'', tp_class = None, tp_delete_claim = False\<rparr>"
    by (simp add: tier_claim_def tier_local_def tiered_kafka_def)
  from tier_claim_blocks_pool[OF r this sample_disks(1)] r show ?thesis
    by (auto simp: sample_pool_def claim_of_def storage_kind_def)
qed

theorem pod_template_consistent_witness:
  "\<exists>sts. render_statefulset_with_shell sample_pool_env tiered_kafka (sample_pool (claim_of ''1Gi'')) ''i'' ''s'' = Inr sts \<and> template_consistent sts"
  using sample_pool_renders(2) pod_template_consistent[OF _ sample_disks(1)] by meson

theorem startup_probe_unserved_witness:
  "\<exists>sts is ps ct. render_statefulset_with_shell sample_pool_env sample_kafka (sample_pool (claim_of ''1Gi'')) ''i'' ''s'' = Inr sts
    \<and> node_file sample_render_env sample_tuning_env sample_kafka (sample_configmap_input [sample_listener ''EXT'' 9094 False None]) 0 [] = Some is
    \<and> Option.bind (sts_spec sts) (\<lambda>s. pt_spec (ss_template s)) = Some ps \<and> ps_containers ps = [ct] \<and> ct_startup_port ct = Some BROKER_PORT
    \<and> Text ''bind_addr'' (''0.0.0.0:'' @ int_to_string BROKER_PORT) \<notin> set is"
proof -
  let ?c = "sample_configmap_input [sample_listener ''EXT'' 9094 False None]"
  from sample_pool_renders(1) obtain sts where
    r: "render_statefulset_with_shell sample_pool_env sample_kafka (sample_pool (claim_of ''1Gi'')) ''i'' ''s'' = Inr sts" by meson
  have nl: "node_listeners ?c 0 = [sample_listener ''EXT'' 9094 False None]"
    by (simp add: node_listeners_def sample_configmap_input_def)
  obtain i where i: "render_listener sample_render_env 0 [] (ci_clients_ca_path ?c) (ci_operator_listener ?c) (sample_listener ''EXT'' 9094 False None) = Some i"
    by (simp add: render_listener_def listener_protocol_def sample_listener_def)
  have "kspec_tiered_storage (kf_spec sample_kafka) = None" by (simp add: sample_kafka_def sample_kafka_spec_def)
  then have "\<exists>is. node_file sample_render_env sample_tuning_env sample_kafka ?c 0 [] = Some is"
    by (simp add: node_file_def render_broker_toml_with_operator_def node_file_input_def nl render_listener_sections_def i render_remote_storage_def)
  then obtain "is" where f: "node_file sample_render_env sample_tuning_env sample_kafka ?c 0 [] = Some is" by blast
  from startup_probe_unserved[OF r f] r f show ?thesis
    unfolding nl by (auto simp: BROKER_PORT_def sample_listener_def in_i32_def)
qed

end
