(* ===== verification/Pool_Pass.thy ===== *)
theory Pool_Pass
  imports Pool_Workload Rollout
begin

text \<open>
  The pass of the node pool controller (\<open>controller/kafka_node_pool.rs\<close>): the drain of brokers before
  their pods go, the removal of voters before controllers go, the deletion of a pool, its readiness,
  and the pass that composes these with what \<open>Pool_Topology\<close>, \<open>Quorum_Bootstrap\<close> and \<open>Pool_Workload\<close>
  define. Errors of the admin client are the texts that they print as.
\<close>

section \<open>Environment and effects\<close>

record quorum_voter =
  qv_node_id :: int
  qv_directory_id :: uuid

record metadata_quorum =
  mq_leader :: int
  mq_voters :: "quorum_voter list"

record partition_assignment =
  pas_topic :: string
  pas_partition :: int
  pas_replicas :: "int list"

record reassignment =
  ra_replicas :: "int list"
  ra_adding :: "int list"
  ra_removing :: "int list"

datatype pool_effect =
    PatchPoolStatus node_pool_status
  | PatchPoolFinalizers "string list"
  | PatchUnregistered string
  | ApplyDrain string kafka_rebalance
  | AnnotateDrain string string
  | DeleteDrain string
  | ScaleToZero string
  | ApplyStatefulSet string stateful_set
  | ApplyBudget string disruption_budget
  | BootstrapSecret quorum_effect
  | UnregisterBroker int
  | RemoveVoter string string int uuid
  | DropAdminClient string

datatype secret_call = ForBootstrap | ForDirectory int | ForIdentity | ForInitialized

datatype metrics_error = RequestFailed string | ResponseFailed string | BodyFailed string

record pool_config =
  pcf_error_requeue :: time
  pcf_dependency_requeue :: time
  pcf_broker_image :: "string option"
  pcf_shell_image :: "string option"

text \<open>What the calls of a pass answer: reads of the API server, the failure of each write, the admin client for an
  address, the quorum it describes there (before and after the workload is applied), the metrics page of a pod, and
  the cluster Secret at each of its uses.\<close>

record pass_env =
  pe_now :: string
  pe_config :: pool_config
  pe_get_kafka :: "string \<Rightarrow> kube_error + kafka option"
  pe_list_pools :: "string \<Rightarrow> kube_error + node_pool list"
  pe_list_statefulsets :: "string \<Rightarrow> kube_error + stateful_set list"
  pe_list_pods :: "string \<Rightarrow> kube_error + pod list"
  pe_list_pool_pods :: "string \<Rightarrow> string \<Rightarrow> kube_error + pod list"
  pe_get_statefulset :: "string \<Rightarrow> kube_error + stateful_set option"
  pe_live_statefulset :: "string \<Rightarrow> kube_error + stateful_set option"
  pe_get_service :: "string \<Rightarrow> kube_error + service option"
  pe_get_drain :: "string \<Rightarrow> kube_error + kafka_rebalance option"
  pe_fails :: "pool_effect \<Rightarrow> kube_error option"
  pe_connect :: "string \<Rightarrow> string option"
  pe_quorum :: "string \<Rightarrow> string + metadata_quorum"
  pe_assignments :: "string + partition_assignment list"
  pe_reassignments :: "string + reassignment list"
  pe_unregister :: "int \<Rightarrow> string option"
  pe_remove_voter :: "string \<Rightarrow> int \<Rightarrow> string option"
  pe_live_quorum :: "string \<Rightarrow> string + metadata_quorum"
  pe_metrics :: "string \<Rightarrow> metrics_error + string"
  pe_show :: "reconcile_error \<Rightarrow> string"
  pe_secrets :: "secret_call \<Rightarrow> quorum_env"
  pe_render :: pool_env

type_synonym 'a pool_step = "(reconcile_error, 'a, pool_effect) logged"

definition send :: "pass_env \<Rightarrow> pool_effect \<Rightarrow> unit pool_step" where
  "send env f = attempt Kube (pe_fails env f) f"

definition read :: "kube_error + 'a \<Rightarrow> 'a pool_step" where
  "read r = lift_log (case r of Inl e \<Rightarrow> Inl (Kube e) | Inr x \<Rightarrow> Inr x)"

definition ask :: "string + 'a \<Rightarrow> 'a pool_step" where
  "ask r = lift_log (case r of Inl e \<Rightarrow> Inl (Admin e) | Inr x \<Rightarrow> Inr x)"

definition connect :: "pass_env \<Rightarrow> string \<Rightarrow> unit pool_step" where
  "connect env address = (case pe_connect env address of Some e \<Rightarrow> fail_log (Admin e) | None \<Rightarrow> ret_log ())"

definition pool_condition :: "pass_env \<Rightarrow> string \<Rightarrow> string \<Rightarrow> string \<Rightarrow> kafka_condition" where
  "pool_condition env status reason message = condition (pe_now env) ''Ready'' status reason message"

definition patch_status_for_pool :: "pass_env \<Rightarrow> kafka_condition \<Rightarrow> unit pool_step" where
  "patch_status_for_pool env cond =
     send env (PatchPoolStatus \<lparr>nps_conditions = [cond], nps_replicas = None, nps_ready_replicas = None\<rparr>)"

section \<open>Finalizers and addresses\<close>

definition POOL_FINALIZER :: string where
  "POOL_FINALIZER = ''krabka.io/kafka-node-pool-finalizer''"

definition UNREGISTERED_BROKERS_ANNOTATION :: string where
  "UNREGISTERED_BROKERS_ANNOTATION = ''krabka.io/unregistered-brokers''"

definition pool_has_finalizer :: "node_pool \<Rightarrow> bool" where
  "pool_has_finalizer pool \<longleftrightarrow> POOL_FINALIZER \<in> set (unwrap_or [] (meta_finalizers (knp_meta pool)))"

definition set_finalizer :: "pass_env \<Rightarrow> node_pool \<Rightarrow> bool \<Rightarrow> unit pool_step" where
  "set_finalizer env pool present =
     (let fs = unwrap_or [] (meta_finalizers (knp_meta pool))
      in send env (PatchPoolFinalizers
           (if present then (if POOL_FINALIZER \<in> set fs then fs else fs @ [POOL_FINALIZER])
            else filter (\<lambda>f. f \<noteq> POOL_FINALIZER) fs)))"

definition OPERATOR_LISTENER_PORT :: int where
  "OPERATOR_LISTENER_PORT = 9091"

definition operator_bootstrap_address :: "pass_env \<Rightarrow> string \<Rightarrow> string \<Rightarrow> reconcile_error + string" where
  "operator_bootstrap_address env cluster namespace =
     bind_result (case pe_get_service env (cluster @ ''-broker-headless'') of Inl e \<Rightarrow> Inl (Kube e) | Inr s \<Rightarrow> Inr s) (\<lambda>service.
     bind_result (case service of
         None \<Rightarrow> Inr OPERATOR_LISTENER_PORT
       | Some s \<Rightarrow> (case find (\<lambda>p. svp_name p = ''operator-admin'') (svc_ports s) of
             Some p \<Rightarrow> Inr (svp_port p)
           | None \<Rightarrow> Inl (Malformed ''operator-admin Service port missing''))) (\<lambda>port.
       Inr (cluster @ ''-broker-headless.'' @ namespace @ ''.svc.cluster.local:'' @ int_to_string port)))"

definition strip_suffix :: "string \<Rightarrow> string \<Rightarrow> string option" where
  "strip_suffix p s = (if ends_with p s then Some (take (length s - length p) s) else None)"

definition operator_admin_address_for_node :: "string \<Rightarrow> node_pool list \<Rightarrow> string \<Rightarrow> int \<Rightarrow> int \<Rightarrow> int \<Rightarrow> string option" where
  "operator_admin_address_for_node bootstrap pools current_pool current_start current_replicas node_id =
     Option.bind (rsplit_once (CHR '':'') bootstrap) (\<lambda>(host, _).
     Option.bind (strip_suffix ''-broker-headless'' (hd (split_on (CHR ''.'') host))) (\<lambda>cluster.
     Option.bind (find (\<lambda>pool.
          let (start, replicas) = (if pool_name pool = current_pool then (current_start, current_replicas)
                else (np_node_id_start (knp_spec pool), np_replicas (knp_spec pool)))
          in start \<le> node_id \<and> node_id < saturating_i32 (start + replicas)) pools) (\<lambda>pool.
       let start = (if pool_name pool = current_pool then current_start else np_node_id_start (knp_spec pool))
       in map_option (\<lambda>ordinal. cluster @ ''-'' @ pool_name pool @ ''-'' @ int_to_string ordinal @ ''.'' @ bootstrap) (checked_i32 (node_id - start)))))"

section \<open>Draining brokers\<close>

definition removed_broker_ids :: "int \<Rightarrow> int \<Rightarrow> int \<Rightarrow> int list" where
  "removed_broker_ids node_id_start observed desired = [saturating_i32 (node_id_start + desired) .. saturating_i32 (node_id_start + observed) - 1]"

definition broker_drain_name :: "string \<Rightarrow> string \<Rightarrow> int \<Rightarrow> string" where
  "broker_drain_name cluster pool desired = cluster @ ''-'' @ pool @ ''-drain-to-'' @ int_to_string desired"

definition recorded_unregistrations :: "node_pool \<Rightarrow> int list" where
  "recorded_unregistrations pool =
     (case meta_annotation (knp_meta pool) UNREGISTERED_BROKERS_ANNOTATION of
        None \<Rightarrow> []
      | Some value \<Rightarrow> sort (remdups (List.map_filter (\<lambda>v. result_ok (i32_from_str v)) (split_on (CHR '','') value))))"

definition debug_ints :: "int list \<Rightarrow> string" where
  "debug_ints xs = ''['' @ join_with '', '' (map int_to_string xs) @ '']''"

definition patch_broker_drain_condition :: "pass_env \<Rightarrow> string \<Rightarrow> string \<Rightarrow> action option pool_step" where
  "patch_broker_drain_condition env reason message =
     then_log (patch_status_for_pool env (pool_condition env ''False'' reason message)) (ret_log (Some (Requeue 1000000000)))"

definition drain_active :: "kafka_rebalance \<Rightarrow> kafka_condition option" where
  "drain_active r = active_of (case kr_status r of None \<Rightarrow> [] | Some s \<Rightarrow> kr_conditions s)"

definition broker_drain_waiting_message :: "kafka_rebalance \<Rightarrow> int list \<Rightarrow> string" where
  "broker_drain_waiting_message r brokers =
     (let waiting = ''waiting for remove-brokers proposal for '' @ debug_ints brokers
      in case drain_active r of
           Some c \<Rightarrow> if cond_message c = [] then waiting else waiting @ '': '' @ cond_message c
         | None \<Rightarrow> waiting)"

definition refresh_broker_drain :: "pass_env \<Rightarrow> string \<Rightarrow> kafka_rebalance \<Rightarrow> unit pool_step" where
  "refresh_broker_drain env name r =
     (if meta_annotation (kr_meta r) rebalance_annotation = None then send env (AnnotateDrain name ''refresh'') else ret_log ())"

definition managed_drain_matches :: "kafka_rebalance \<Rightarrow> int list \<Rightarrow> string \<times> string \<Rightarrow> bool" where
  "managed_drain_matches r brokers authorization \<longleftrightarrow>
     kr_mode (kr_spec r) = RemoveBrokers \<and> kr_brokers (kr_spec r) = brokers \<and> kr_secret_ref (kr_spec r) = Some authorization"

definition new_drain :: "string \<Rightarrow> string \<Rightarrow> string \<Rightarrow> string \<Rightarrow> int list \<Rightarrow> kafka_rebalance" where
  "new_drain rname namespace cluster pool brokers =
     \<lparr>kr_meta = (plain_meta rname)\<lparr>meta_namespace := Some namespace,
        meta_labels := Some (bm_collect [(''krabka.io/cluster'', cluster), (''krabka.io/pool'', pool), (''app.kubernetes.io/managed-by'', ''krabka-operator'')])\<rparr>,
      kr_spec = \<lparr>kr_mode = RemoveBrokers, kr_brokers = brokers, kr_secret_ref = Some (cluster @ ''-rebalancer-auth'', ''token''),
        kr_goals = None, kr_throttle = None, kr_endpoint = None\<rparr>,
      kr_status = None\<rparr>"

text \<open>The part after the proposal is complete: nothing may refer to the brokers that go, and each of them is
  unregistered once.\<close>

definition finish_drain :: "pass_env \<Rightarrow> node_pool \<Rightarrow> string \<Rightarrow> kafka_rebalance \<Rightarrow> int list \<Rightarrow> action option pool_step" where
  "finish_drain env pool rname r brokers =
     bind_log (ask (pe_assignments env)) (\<lambda>assignments.
     case find (\<lambda>a. list_ex (\<lambda>i. i \<in> set brokers) (pas_replicas a)) assignments of
       Some a \<Rightarrow>
         then_log (refresh_broker_drain env rname r)
           (patch_broker_drain_condition env ''BrokerDrainInProgress''
             (''refreshing completed remove-brokers proposal: '' @ pas_topic a @ ''-'' @ int_to_string (pas_partition a)
              @ '' still has a replica on removed brokers''))
     | None \<Rightarrow>
     bind_log (ask (pe_reassignments env)) (\<lambda>in_flight.
     if list_ex (\<lambda>a. list_ex (\<lambda>i. i \<in> set brokers) (ra_replicas a @ ra_adding a @ ra_removing a)) in_flight then
       patch_broker_drain_condition env ''BrokerDrainBlocked'' ''a reassignment still references a removed broker''
     else
       let recorded = recorded_unregistrations pool in
       case find (\<lambda>i. i \<notin> set recorded) brokers of
         Some broker \<Rightarrow>
           (case pe_unregister env broker of
              Some e \<Rightarrow> fail_log (Admin e)
            | None \<Rightarrow>
                then_log (emit (UnregisterBroker broker))
                (then_log (send env (PatchUnregistered (join_with '','' (map int_to_string (sort (broker # recorded))))))
                  (patch_broker_drain_condition env ''BrokerDrainInProgress'' (''unregistered broker '' @ int_to_string broker))))
       | None \<Rightarrow> ret_log None))"

definition reconcile_broker_drain ::
  "pass_env \<Rightarrow> node_pool \<Rightarrow> string \<Rightarrow> string \<Rightarrow> int \<Rightarrow> int \<Rightarrow> int \<Rightarrow> action option pool_step" where
  "reconcile_broker_drain env pool namespace cluster observed desired node_id_start =
     (if observed \<le> desired then ret_log None
      else
        let brokers = removed_broker_ids node_id_start observed desired;
            rname = broker_drain_name cluster (pool_name pool) desired
        in bind_log (read (pe_get_drain env rname)) (\<lambda>found.
           case found of
             None \<Rightarrow>
               then_log (send env (ApplyDrain rname (new_drain rname namespace cluster (pool_name pool) brokers)))
                 (patch_broker_drain_condition env ''BrokerDrainInProgress'' (''created remove-brokers proposal for '' @ debug_ints brokers))
           | Some r \<Rightarrow>
               if \<not> managed_drain_matches r brokers (cluster @ ''-rebalancer-auth'', ''token'') then
                 patch_broker_drain_condition env ''BrokerDrainBlocked'' ''managed remove-brokers proposal does not match the requested drain''
               else
                 (case current_state r of
                    ProposalReady \<Rightarrow>
                      then_log (send env (AnnotateDrain rname ''approve''))
                        (patch_broker_drain_condition env ''BrokerDrainInProgress'' (''approved remove-brokers proposal for '' @ debug_ints brokers))
                  | NotReady \<Rightarrow> patch_broker_drain_condition env ''BrokerDrainBlocked''
                      (case drain_active r of Some c \<Rightarrow> cond_message c
                       | None \<Rightarrow> ''remove-brokers proposal for '' @ debug_ints brokers @ '' cannot proceed'')
                  | Stopped \<Rightarrow> patch_broker_drain_condition env ''BrokerDrainBlocked''
                      (case drain_active r of Some c \<Rightarrow> cond_message c
                       | None \<Rightarrow> ''remove-brokers proposal for '' @ debug_ints brokers @ '' cannot proceed'')
                  | New \<Rightarrow> patch_broker_drain_condition env ''BrokerDrainInProgress'' (broker_drain_waiting_message r brokers)
                  | Rebalancing \<Rightarrow> patch_broker_drain_condition env ''BrokerDrainInProgress'' (broker_drain_waiting_message r brokers)
                  | Ready \<Rightarrow>
                      if Option.bind (kr_status r) kr_observed_generation \<noteq> meta_generation (kr_meta r) then
                        patch_broker_drain_condition env ''BrokerDrainInProgress'' ''waiting for the current remove-brokers proposal generation''
                      else
                        bind_log (lift_log (operator_bootstrap_address env cluster namespace)) (\<lambda>address.
                        then_log (connect env address) (finish_drain env pool rname r brokers)))))"

section \<open>Removing voters\<close>

text \<open>\<open>max_by_key\<close> of the voters in a range; of several with the same id the last one wins.\<close>

definition voter_in :: "metadata_quorum \<Rightarrow> int \<Rightarrow> int \<Rightarrow> quorum_voter option" where
  "voter_in q first last_id = foldl (\<lambda>best v. if first \<le> qv_node_id v \<and> qv_node_id v \<le> last_id
       then (case best of None \<Rightarrow> Some v | Some b \<Rightarrow> if qv_node_id v < qv_node_id b then Some b else Some v) else best) None (mq_voters q)"

definition cluster_uuid :: "pass_env \<Rightarrow> string \<Rightarrow> reconcile_error + uuid" where
  "cluster_uuid env cluster =
     bind_result (case qe_get_secret (pe_secrets env ForIdentity) (cluster_secret_name cluster) of Inl e \<Rightarrow> Inl (Kube e) | Inr s \<Rightarrow> Inr s)
       (uuid_from_secret (qe_parse_uuid (pe_secrets env ForIdentity)))"

definition remove_voter :: "pass_env \<Rightarrow> string \<Rightarrow> string \<Rightarrow> uuid \<Rightarrow> quorum_voter \<Rightarrow> (string, unit, pool_effect) logged" where
  "remove_voter env cluster address cluster_id target =
     (case pe_remove_voter env address (qv_node_id target) of
        Some e \<Rightarrow> (Inl e, [DropAdminClient cluster])
      | None \<Rightarrow> emit (RemoveVoter address (qe_print_uuid (pe_secrets env ForIdentity) cluster_id) (qv_node_id target) (qv_directory_id target)))"

definition voter_range :: "string \<Rightarrow> int \<Rightarrow> int pool_step" where
  "voter_range message x = lift_log (ok_or (Malformed message) (checked_i32 x))"

definition retire_target ::
  "pass_env \<Rightarrow> node_pool \<Rightarrow> node_pool list \<Rightarrow> string \<Rightarrow> int \<Rightarrow> int \<Rightarrow> uuid \<Rightarrow> string \<Rightarrow> metadata_quorum \<Rightarrow> quorum_voter
     \<Rightarrow> action option pool_step" where
  "retire_target env pool siblings cluster observed start cluster_id address quorum target =
     (if length (mq_voters quorum) = 1 then
        then_log (patch_status_for_pool env (pool_condition env ''False'' ''LastVoterScaleDownBlocked''
            ''cannot scale down the last metadata-quorum voter''))
          (ret_log (Some (requeue (pcf_dependency_requeue (pe_config env)))))
      else
        let leader = unwrap_or address (operator_admin_address_for_node address siblings (pool_name pool) start observed (mq_leader quorum)) in
        then_log (connect env leader)
        (try_log (remove_voter env cluster leader cluster_id target)
           (\<lambda>_. then_log (patch_status_for_pool env (pool_condition env ''False'' ''QuorumScaleDownInProgress''
                 (''removed voter '' @ int_to_string (qv_node_id target) @ ''; waiting before scaling pods'')))
               (ret_log (Some (requeue (pcf_dependency_requeue (pe_config env))))))
           (\<lambda>e. fail_log (Admin e))))"

definition remove_controllers ::
  "pass_env \<Rightarrow> node_pool \<Rightarrow> node_pool list \<Rightarrow> string \<Rightarrow> string \<Rightarrow> int \<Rightarrow> int \<Rightarrow> action option pool_step" where
  "remove_controllers env pool siblings namespace cluster observed start =
     bind_log (voter_range ''controller node-id range overflow'' (start + np_replicas (knp_spec pool))) (\<lambda>first_removed.
     bind_log (voter_range ''controller node-id range overflow'' (start + (observed - 1))) (\<lambda>removed_end.
     bind_log (lift_log (cluster_uuid env cluster)) (\<lambda>cluster_id.
     bind_log (lift_log (operator_bootstrap_address env cluster namespace)) (\<lambda>address.
     then_log (connect env address) (
     bind_log (ask (pe_quorum env address)) (\<lambda>quorum.
     case voter_in quorum first_removed removed_end of
       None \<Rightarrow> ret_log None
     | Some target \<Rightarrow>
         retire_target env pool siblings cluster observed start cluster_id address quorum target))))))"

definition reconcile_controller_scale_down ::
  "pass_env \<Rightarrow> node_pool \<Rightarrow> node_pool list \<Rightarrow> stateful_set option \<Rightarrow> string \<Rightarrow> string \<Rightarrow> action option pool_step" where
  "reconcile_controller_scale_down env pool siblings live namespace cluster =
     (case Option.bind (Option.bind live sts_spec) ss_replicas of
        None \<Rightarrow> ret_log None
      | Some observed \<Rightarrow>
          let identity = (case live of None \<Rightarrow> (None, None) | Some sts \<Rightarrow> observed_statefulset_identity sts);
              roles = unwrap_or (role_mask (np_roles (knp_spec pool))) (snd identity);
              start = unwrap_or (np_node_id_start (knp_spec pool)) (fst identity)
          in if observed \<le> np_replicas (knp_spec pool) then ret_log None
             else
               bind_log (if odd roles then reconcile_broker_drain env pool namespace cluster observed (np_replicas (knp_spec pool)) start
                         else ret_log None) (\<lambda>drain.
               case drain of
                 Some a \<Rightarrow> ret_log (Some a)
               | None \<Rightarrow> if even (roles div 2) then ret_log None
                         else remove_controllers env pool siblings namespace cluster observed start))"

section \<open>Deletion\<close>

definition delete_deletion_rebalance :: "pass_env \<Rightarrow> string \<Rightarrow> string \<Rightarrow> unit pool_step" where
  "delete_deletion_rebalance env cluster pool =
     (let name = broker_drain_name cluster pool 0 in
      bind_log (read (pe_get_drain env name)) (\<lambda>found. if found = None then ret_log () else send env (DeleteDrain name)))"

definition release_pool :: "pass_env \<Rightarrow> node_pool \<Rightarrow> string \<Rightarrow> bool \<Rightarrow> bool \<Rightarrow> bool \<Rightarrow> action pool_step" where
  "release_pool env pool cluster has_sts has_pods brokers =
     then_log (if has_sts then send env (ScaleToZero (cluster @ ''-'' @ pool_name pool)) else ret_log ())
     (if has_pods then ret_log (requeue (pcf_dependency_requeue (pe_config env)))
      else then_log (if brokers then delete_deletion_rebalance env cluster (pool_name pool) else ret_log ())
           (then_log (set_finalizer env pool False) (ret_log AwaitChange)))"

text \<open>\<open>None\<close> when no voter of the pool is left.\<close>

definition retire_voters :: "pass_env \<Rightarrow> string \<Rightarrow> string \<Rightarrow> int \<Rightarrow> int \<Rightarrow> action option pool_step" where
  "retire_voters env namespace cluster start observed =
     (let error = requeue (pcf_error_requeue (pe_config env)); later = requeue (pcf_dependency_requeue (pe_config env)) in
      bind_log (lift_log (cluster_uuid env cluster)) (\<lambda>cluster_id.
      bind_log (lift_log (operator_bootstrap_address env cluster namespace)) (\<lambda>address.
      if pe_connect env address \<noteq> None then ret_log (Some error)
      else case pe_quorum env address of
        Inl _ \<Rightarrow> then_log (emit (DropAdminClient cluster)) (ret_log (Some error))
      | Inr quorum \<Rightarrow>
          bind_log (lift_log (ok_or (Malformed ''observed controller node-id range overflow'')
              (Option.bind (checked_i32 (start + (observed - 1))) (\<lambda>e. if e \<le> MAX_NODE_ID then Some e else None)))) (\<lambda>node_id_end.
          case voter_in quorum start node_id_end of
            None \<Rightarrow> ret_log None
          | Some target \<Rightarrow>
              if length (mq_voters quorum) = 1 then
                then_log (patch_status_for_pool env (pool_condition env ''False'' ''LastVoterDeletionBlocked''
                    ''cannot delete the last metadata-quorum voter'')) (ret_log (Some later))
              else try_log (remove_voter env cluster address cluster_id target) (\<lambda>_. ret_log (Some later)) (\<lambda>_. ret_log (Some error))))))"

text \<open>What the pool still runs, and what its nodes were started with.\<close>

definition deletion_replicas :: "stateful_set option \<Rightarrow> pod list \<Rightarrow> string \<Rightarrow> int" where
  "deletion_replicas live pods sts_name =
     max (case live of None \<Rightarrow> 0 | Some sts \<Rightarrow> observed_statefulset_replicas sts) (observed_pool_pod_replicas pods sts_name)"

definition deletion_identity :: "node_pool \<Rightarrow> stateful_set option \<Rightarrow> pod list \<Rightarrow> int \<times> nat" where
  "deletion_identity pool live pods =
     (let identity = (case live of None \<Rightarrow> (None, None) | Some sts \<Rightarrow> observed_statefulset_identity sts);
          pod_identity = (case pods of [] \<Rightarrow> (None, None) | p # _ \<Rightarrow> observed_pod_identity p)
      in (unwrap_or (np_node_id_start (knp_spec pool)) (or_else (fst identity) (fst pod_identity)),
          unwrap_or (role_mask (np_roles (knp_spec pool))) (or_else (snd identity) (snd pod_identity))))"

definition retire_pool ::
  "pass_env \<Rightarrow> node_pool \<Rightarrow> kafka option \<Rightarrow> string \<Rightarrow> string \<Rightarrow> stateful_set option \<Rightarrow> pod list \<Rightarrow> action pool_step" where
  "retire_pool env pool parent namespace cluster live pods =
     (let live_replicas = deletion_replicas live pods (cluster @ ''-'' @ pool_name pool);
          observed = max (np_replicas (knp_spec pool)) live_replicas;
          start = fst (deletion_identity pool live pods); roles = snd (deletion_identity pool live pods);
          release = release_pool env pool cluster (live \<noteq> None) (pods \<noteq> []) (odd roles)
      in if (case parent of None \<Rightarrow> True | Some k \<Rightarrow> meta_deletion_timestamp (kf_meta k) \<noteq> None) then release
         else
           bind_log (if odd roles \<and> 0 < live_replicas then reconcile_broker_drain env pool namespace cluster live_replicas 0 start
                     else ret_log None) (\<lambda>drain.
           case drain of
             Some a \<Rightarrow> ret_log a
           | None \<Rightarrow>
               bind_log (if odd (roles div 2) then retire_voters env namespace cluster start observed else ret_log None) (\<lambda>step.
               case step of Some a \<Rightarrow> ret_log a | None \<Rightarrow> release)))"

definition reconcile_deletion :: "pass_env \<Rightarrow> node_pool \<Rightarrow> kafka option \<Rightarrow> string \<Rightarrow> string \<Rightarrow> action pool_step" where
  "reconcile_deletion env pool parent namespace cluster =
     (if \<not> pool_has_finalizer pool then ret_log AwaitChange
      else
        bind_log (read (pe_get_statefulset env (cluster @ ''-'' @ pool_name pool))) (\<lambda>live.
        bind_log (read (pe_list_pool_pods env cluster (pool_name pool))) (\<lambda>pods.
          retire_pool env pool parent namespace cluster live pods)))"

section \<open>Readiness\<close>

definition list_head :: "'a list \<Rightarrow> 'a option" where
  "list_head xs = (case xs of [] \<Rightarrow> None | x # _ \<Rightarrow> Some x)"

definition str_lines :: "string \<Rightarrow> string list" where
  "str_lines s =
     (let ls = split_on (CHR 0x0A) s; ls = (if last ls = [] then butlast ls else ls)
      in map (\<lambda>l. if ends_with [CHR 0x0D] l then butlast l else l) ls)"

definition parse_i64 :: "string \<Rightarrow> int option" where
  "parse_i64 s =
     (let neg = starts_with ''-'' s; ds = (if neg \<or> starts_with ''+'' s then tl s else s);
          value = Option.bind (digits_value 0 ds) (\<lambda>n. let v = (if neg then - int n else int n)
                    in if - (2 ^ 63) \<le> v \<and> v < 2 ^ 63 then Some v else None)
      in if ds = [] then None else value)"

definition prometheus_gauge :: "string \<Rightarrow> string \<Rightarrow> int option" where
  "prometheus_gauge body name =
     list_head (List.map_filter (\<lambda>line. Option.bind (split_once '' '' line) (\<lambda>(metric, value). if metric = name then parse_i64 value else None)) (str_lines body))"

definition classify_gauge :: "string \<Rightarrow> string \<Rightarrow> string \<Rightarrow> string \<Rightarrow> (string \<times> string) + unit" where
  "classify_gauge body broker metric reason =
     (case prometheus_gauge body metric of
        None \<Rightarrow> Inl (''ReplicationHealthUnknown'', ''broker '' @ broker @ '' does not publish '' @ metric)
      | Some value \<Rightarrow> if value = 0 then Inr () else Inl (reason, ''broker '' @ broker @ '' reports '' @ metric @ ''='' @ int_to_string value))"

definition classify_replication_metrics :: "string \<Rightarrow> string \<Rightarrow> (string \<times> string) + unit" where
  "classify_replication_metrics body broker =
     bind_result (classify_gauge body broker ''krabka_broker_offline_partitions_count'' ''OfflinePartitions'') (\<lambda>_.
       classify_gauge body broker ''krabka_broker_under_replicated_partitions'' ''UnderReplicatedPartitions'')"

definition metrics_message :: "string \<Rightarrow> metrics_error \<Rightarrow> string" where
  "metrics_message address e = ''broker '' @ address @
     (case e of RequestFailed m \<Rightarrow> '' metrics request failed: '' @ m | ResponseFailed m \<Rightarrow> '' metrics response failed: '' @ m
      | BodyFailed m \<Rightarrow> '' metrics body failed: '' @ m)"

fun replication_of :: "(string \<Rightarrow> metrics_error + string) \<Rightarrow> string list \<Rightarrow> (string \<times> string) + unit" where
  "replication_of fetch [] = Inr ()"
| "replication_of fetch (a # as) =
     (case fetch (''http://'' @ a @ '':'' @ int_to_string METRICS_PORT @ ''/metrics'') of
        Inl e \<Rightarrow> Inl (''ReplicationHealthUnknown'', metrics_message a e)
      | Inr body \<Rightarrow> bind_result (classify_replication_metrics body a) (\<lambda>_. replication_of fetch as))"

definition broker_addresses :: "pod list \<Rightarrow> string \<Rightarrow> string list" where
  "broker_addresses pods statefulset = List.map_filter pod_ip (filter (\<lambda>p. starts_with (statefulset @ ''-'') (meta_name (pod_meta p))) pods)"

definition broker_replication_health ::
  "(string \<Rightarrow> metrics_error + string) \<Rightarrow> pod list \<Rightarrow> string \<Rightarrow> int \<Rightarrow> (string \<times> string) + unit" where
  "broker_replication_health fetch pods statefulset replicas =
     (let addresses = broker_addresses pods statefulset in
      if int (length addresses) \<noteq> (if 0 \<le> replicas then replicas else 2 ^ 64 - 1)
      then Inl (''ReplicationHealthUnknown'', ''waiting for metrics addresses from all '' @ int_to_string replicas @ '' broker pods'')
      else replication_of fetch addresses)"

definition quorum_readiness ::
  "pass_env \<Rightarrow> string \<Rightarrow> string \<Rightarrow> (int, uuid) bmap \<Rightarrow> string \<Rightarrow> (string \<times> string \<times> string) pool_step" where
  "quorum_readiness env namespace cluster directory_ids message =
     (case operator_bootstrap_address env cluster namespace of
        Inl e \<Rightarrow> ret_log (''False'', ''AdminUnavailable'', pe_show env e)
      | Inr address \<Rightarrow>
          (case pe_connect env address of
             Some e \<Rightarrow> ret_log (''False'', ''QuorumMembershipUnknown'',
               ''pod is ready but quorum admin connection failed: '' @ e)
           | None \<Rightarrow>
               (case pe_live_quorum env address of
                  Inl e \<Rightarrow> then_log (emit (DropAdminClient cluster)) (ret_log (''False'', ''QuorumMembershipUnknown'',
                    ''pod is ready but DescribeQuorum failed: '' @ e))
                | Inr q \<Rightarrow>
                    if list_all (\<lambda>(n, d). list_ex (\<lambda>v. qv_node_id v = n \<and> qv_directory_id v = d) (mq_voters q)) directory_ids
                    then ret_log (''True'', ''Available'', message)
                    else ret_log (''False'', ''QuorumMembershipPending'',
                      ''pods are ready but not every controller voter is committed''))))"

definition evaluate_pool_readiness ::
  "pass_env \<Rightarrow> node_pool \<Rightarrow> string \<Rightarrow> string \<Rightarrow> (int, uuid) bmap \<Rightarrow> pod list \<Rightarrow> bool \<Rightarrow> string \<Rightarrow> string
     \<Rightarrow> (string \<times> string \<times> string) pool_step" where
  "evaluate_pool_readiness env pool namespace cluster directory_ids pods replication_metrics reason message =
     (if reason \<noteq> ''Available'' then ret_log (''False'', reason, message)
      else
        case (if Broker \<in> set (np_roles (knp_spec pool)) \<and> replication_metrics
              then broker_replication_health (pe_metrics env) pods (cluster @ ''-'' @ pool_name pool) (np_replicas (knp_spec pool))
              else Inr ()) of
          Inl (why, e) \<Rightarrow> ret_log (''False'', why, e)
        | Inr _ \<Rightarrow>
            if Controller \<notin> set (np_roles (knp_spec pool)) then ret_log (''True'', reason, message)
            else quorum_readiness env namespace cluster directory_ids message)"

section \<open>The pass\<close>

datatype version_gate = GateCleared | GateBlocked kafka_condition

definition version_gate :: "string \<Rightarrow> kafka \<Rightarrow> version_gate" where
  "version_gate now parent =
     (case parent_version_gate (map_option kst_conditions (kf_status parent)) (Option.bind (kf_status parent) kst_metadata_version) of
        Cleared \<Rightarrow> GateCleared
      | InvalidParent c \<Rightarrow> GateBlocked (condition now ''Ready'' ''False'' ''KafkaVersionInvalid''
          (''refusing to format brokers: parent Kafka '' @ [CHR 0x27] @ kafka_name parent @ [CHR 0x27] @ '' KafkaVersionValid='' @ cond_status c
           @ '' ('' @ cond_reason c @ ''): '' @ cond_message c))
      | Waiting \<Rightarrow> GateBlocked (condition now ''Ready'' ''False'' ''WaitingForVersionValidation''
          (''waiting for parent Kafka '' @ [CHR 0x27] @ kafka_name parent @ [CHR 0x27]
           @ '' to publish a KafkaVersionValid verdict before formatting brokers'')))"

definition BROKER_IMAGE :: string where
  "BROKER_IMAGE = ''ghcr.io/krabka-io/krabka-broker:v1.0.8''"

definition SHELL_IMAGE :: string where
  "SHELL_IMAGE = ''busybox@sha256:9db7b59979c38555a39def84a31fb98b5296952f9e3afd4f6f11f05b07adfab0''"

definition refuse :: "pass_env \<Rightarrow> kafka_condition \<Rightarrow> action \<Rightarrow> action pool_step" where
  "refuse env cond next = then_log (patch_status_for_pool env cond) (ret_log next)"

fun ensure_directories :: "pass_env \<Rightarrow> string \<Rightarrow> int list \<Rightarrow> (int, uuid) bmap \<Rightarrow> (int, uuid) bmap pool_step" where
  "ensure_directories env cluster [] m = ret_log m"
| "ensure_directories env cluster (n # ns) m =
     bind_log (map_log BootstrapSecret (ensure_quorum_directory_id (pe_secrets env (ForDirectory n)) cluster n)) (\<lambda>d.
       ensure_directories env cluster ns (bm_insert n d m))"

text \<open>Steps 5 and 6: apply the workload, read it back, and publish the status.\<close>

definition publish_pool ::
  "pass_env \<Rightarrow> node_pool \<Rightarrow> string \<Rightarrow> string \<Rightarrow> kafka \<Rightarrow> quorum_bootstrap_state \<Rightarrow> (int, uuid) bmap \<Rightarrow> pod list \<Rightarrow> action pool_step" where
  "publish_pool env pool namespace cluster parent bootstrap directory_ids pods =
     (let sts_name = cluster @ ''-'' @ pool_name pool; later = requeue (pcf_dependency_requeue (pe_config env)) in
      bind_log (read (pe_live_statefulset env sts_name)) (\<lambda>live.
      case derive_status live (np_replicas (knp_spec pool)) of (replicas, ready_replicas, reason, message) \<Rightarrow>
      bind_log (evaluate_pool_readiness env pool namespace cluster directory_ids pods
          (kspec_metrics_config (kf_spec parent) \<noteq> None) reason message) (\<lambda>(status, reason, message).
      then_log (if status = ''True'' \<and> \<not> qs_initialized bootstrap
                   \<and> qc_node_id (qs_controller bootstrap) = np_node_id_start (knp_spec pool) \<and> qc_pool (qs_controller bootstrap) = pool_name pool
                then map_log BootstrapSecret (mark_quorum_bootstrap_initialized (pe_secrets env ForInitialized) cluster)
                else ret_log ())
      (then_log (send env (PatchPoolStatus \<lparr>nps_conditions = [pool_condition env status reason message],
           nps_replicas = replicas, nps_ready_replicas = ready_replicas\<rparr>))
        (ret_log later)))))"

definition apply_workload ::
  "pass_env \<Rightarrow> node_pool \<Rightarrow> string \<Rightarrow> string \<Rightarrow> kafka \<Rightarrow> stateful_set option \<Rightarrow> unit pool_step" where
  "apply_workload env pool namespace cluster parent observed =
     (let sts_name = cluster @ ''-'' @ pool_name pool;
          image = unwrap_or BROKER_IMAGE (or_else (np_image (knp_spec pool)) (pcf_broker_image (pe_config env)));
          shell = unwrap_or SHELL_IMAGE (pcf_shell_image (pe_config env)) in
      bind_log (lift_log (render_statefulset_with_shell (pe_render env) parent pool image shell)) (\<lambda>sts.
      let sts = preserve_live_volume_claim_template_metadata (preserve_live_pod_management_policy sts observed) observed in
      then_log (send env (ApplyStatefulSet sts_name sts))
      (if Broker \<in> set (np_roles (knp_spec pool)) then
         bind_log (lift_log (render_pod_disruption_budget pool namespace cluster)) (\<lambda>pdb. send env (ApplyBudget sts_name pdb))
       else ret_log ())))"

definition observed_claims :: "stateful_set option \<Rightarrow> persistent_volume_claim list option" where
  "observed_claims = map_option (\<lambda>s. unwrap_or [] (Option.bind (sts_spec s) ss_volume_claim_templates))"

text \<open>From the check of the storage on, with the live StatefulSet.\<close>

definition replace_pods ::
  "pass_env \<Rightarrow> node_pool \<Rightarrow> node_pool list \<Rightarrow> pod list \<Rightarrow> string \<Rightarrow> string \<Rightarrow> kafka \<Rightarrow> quorum_bootstrap_state \<Rightarrow> (int, uuid) bmap
     \<Rightarrow> stateful_set option \<Rightarrow> action pool_step" where
  "replace_pods env pool siblings pods namespace cluster parent bootstrap directory_ids observed =
     (case validate_storage_change (np_storage (knp_spec pool)) (observed_claims observed) of
        Inl e \<Rightarrow> refuse env (condition_for_validation_error (pe_now env) e) AwaitChange
      | Inr _ \<Rightarrow>
          bind_log (reconcile_controller_scale_down env pool siblings observed namespace cluster) (\<lambda>step.
          case step of
            Some a \<Rightarrow> ret_log a
          | None \<Rightarrow> then_log (apply_workload env pool namespace cluster parent observed)
              (publish_pool env pool namespace cluster parent bootstrap directory_ids pods)))"

text \<open>Steps 3 to 6, once the topology is accepted and the controllers are up.\<close>

definition roll_out_pool ::
  "pass_env \<Rightarrow> node_pool \<Rightarrow> node_pool list \<Rightarrow> pod list \<Rightarrow> string \<Rightarrow> string \<Rightarrow> kafka \<Rightarrow> action pool_step" where
  "roll_out_pool env pool siblings pods namespace cluster parent =
     (let start = np_node_id_start (knp_spec pool) in
      bind_log (lift_log (ok_or (Malformed ''no valid KafkaNodePool available for quorum bootstrap'') (select_quorum_bootstrap siblings))) (\<lambda>candidate.
      bind_log (map_log BootstrapSecret (ensure_quorum_bootstrap_state (pe_secrets env ForBootstrap) cluster candidate)) (\<lambda>bootstrap.
      bind_log (ensure_directories env cluster [start .. start + np_replicas (knp_spec pool) - 1] []) (\<lambda>directory_ids.
      bind_log (read (pe_get_statefulset env (cluster @ ''-'' @ pool_name pool))) (\<lambda>observed.
        replace_pods env pool siblings pods namespace cluster parent bootstrap directory_ids observed)))))"

definition reconcile_pool_in :: "pass_env \<Rightarrow> node_pool \<Rightarrow> string \<Rightarrow> string \<Rightarrow> kafka \<Rightarrow> action pool_step" where
  "reconcile_pool_in env pool namespace cluster parent =
     (let later = requeue (pcf_dependency_requeue (pe_config env)) in
      case version_gate (pe_now env) parent of
        GateBlocked cond \<Rightarrow> refuse env cond later
      | GateCleared \<Rightarrow>
          bind_log (read (pe_list_pools env cluster)) (\<lambda>siblings.
          bind_log (read (pe_list_statefulsets env cluster)) (\<lambda>statefulsets.
          bind_log (read (pe_list_pods env cluster)) (\<lambda>pods.
          case validate_topology siblings statefulsets pods of
            Inl e \<Rightarrow> refuse env (condition_for_validation_error (pe_now env) e) AwaitChange
          | Inr _ \<Rightarrow>
              if \<not> is_controller pool \<and> list_ex (\<lambda>s. \<not> pool_is_available s) (filter is_controller siblings) then
                refuse env (pool_condition env ''False'' ''WaitingForControllers'' ''waiting for all Controller-role pools to become ready'') later
              else roll_out_pool env pool siblings pods namespace cluster parent))))"

definition pool_reconcile_inner :: "pass_env \<Rightarrow> node_pool \<Rightarrow> action pool_step" where
  \<open>pool_reconcile_inner env pool =
     (let namespace = unwrap_or ''default'' (meta_namespace (knp_meta pool)) in
      case validate_pool pool of
        Inl e \<Rightarrow> refuse env (condition_for_validation_error (pe_now env) e) AwaitChange
      | Inr _ \<Rightarrow>
      case meta_label (knp_meta pool) ''krabka.io/cluster'' of
        None \<Rightarrow> refuse env (pool_condition env ''False'' ''MissingClusterLabel''
            ''metadata.labels."krabka.io/cluster" is required to link a pool to its parent Kafka'') AwaitChange
      | Some cluster \<Rightarrow>
          bind_log (read (pe_get_kafka env cluster)) (\<lambda>parent.
          if meta_deletion_timestamp (knp_meta pool) \<noteq> None then reconcile_deletion env pool parent namespace cluster
          else case parent of
            None \<Rightarrow> refuse env (pool_condition env ''False'' ''ParentNotFound''
                (''Kafka '' @ [CHR 0x27] @ cluster @ [CHR 0x27] @ '' not found in namespace '' @ [CHR 0x27] @ namespace @ [CHR 0x27]))
                (requeue (pcf_dependency_requeue (pe_config env)))
          | Some k \<Rightarrow>
              if \<not> pool_has_finalizer pool then then_log (set_finalizer env pool True) (ret_log (Requeue 0))
              else reconcile_pool_in env pool namespace cluster k))\<close>

end
