(* ===== verification/Pool_Scaling.thy ===== *)
theory Pool_Scaling
  imports Pool_Pass
begin

text \<open>
  What the pass of \<open>Pool_Pass\<close> guarantees: pods go only after their brokers are drained and their voters
  removed, a voter is removed one at a time and never the last one, \<open>Ready\<close> says what it means, and where the
  pass gets stuck.
\<close>

section \<open>Quiet steps\<close>

text \<open>Effects that neither change pods, nor claim readiness, nor let the pool go; \<open>calm\<close> ones keep the quorum too.\<close>

fun steady :: "pool_effect \<Rightarrow> bool" where
  "steady (ApplyStatefulSet _ _) = False"
| "steady (ScaleToZero _) = False"
| "steady (PatchPoolStatus st) = list_all (\<lambda>c. cond_status c \<noteq> ''True'') (nps_conditions st)"
| "steady (PatchPoolFinalizers fs) = (POOL_FINALIZER \<in> set fs)"
| "steady _ = True"

fun is_removal :: "pool_effect \<Rightarrow> bool" where
  "is_removal (RemoveVoter _ _ _ _) = True"
| "is_removal _ = False"

abbreviation calm :: "pool_effect \<Rightarrow> bool" where
  "calm f \<equiv> steady f \<and> \<not> is_removal f"

lemma logs_send: "P f \<Longrightarrow> logs P (send env f)"
  by (simp add: send_def attempt_def split: option.splits)

lemma logs_plain: "logs P (read r)" "logs P (ask q)" "logs P (connect env a)" "logs P (voter_range m x)"
  by (simp_all add: read_def ask_def connect_def voter_range_def split: option.splits)

lemma cond_status_condition: "cond_status (condition now t s r m) = s"
  by (simp add: condition_def)

lemma logs_patch:
  "cond_status c \<noteq> ''True'' \<Longrightarrow> logs calm (patch_status_for_pool env c)"
  "cond_status c \<noteq> ''True'' \<Longrightarrow> logs steady (patch_status_for_pool env c)"
  by (auto simp: patch_status_for_pool_def intro!: logs_send)

lemma pool_condition_false: "cond_status (pool_condition env ''False'' r m) \<noteq> ''True''"
  by (simp add: pool_condition_def cond_status_condition)

lemma logs_drain_condition: "logs calm (patch_broker_drain_condition env r m)"
  unfolding patch_broker_drain_condition_def
  by (rule logs_then[OF logs_patch(1)[OF pool_condition_false]]) simp

lemma logs_refresh: "logs calm (refresh_broker_drain env n r)"
  by (simp add: refresh_broker_drain_def logs_send)

lemma logs_refuse: "cond_status c \<noteq> ''True'' \<Longrightarrow> logs calm (refuse env c a)"
  unfolding refuse_def by (rule logs_then[OF logs_patch(1)]) simp_all

lemmas calm_intros = logs_send logs_plain logs_drain_condition logs_refresh logs_patch pool_condition_false

lemma finish_drain_calm: "logs calm (finish_drain env pool n r bs)"
  unfolding finish_drain_def
  by (intro logs_intros calm_intros)
    (auto simp: Let_def split: option.splits intro!: logs_intros calm_intros)

lemma broker_drain_calm: "logs calm (reconcile_broker_drain env pool ns cluster observed desired start)"
  unfolding reconcile_broker_drain_def Let_def
  by (auto split: option.splits rebalance_state.splits intro!: logs_intros calm_intros finish_drain_calm)

lemma finalizer_calm: "logs calm (set_finalizer env pool True)"
  by (auto simp: set_finalizer_def Let_def intro!: logs_send)

lemma logs_secret: "logs calm (map_log BootstrapSecret m)"
  by (simp add: list_all_iff)

lemma directories_calm: "logs calm (ensure_directories env cluster ns m)"
  by (induction env cluster ns m rule: ensure_directories.induct) (simp_all add: logs_bind[OF logs_secret])

lemma validation_condition_false: "cond_status (condition_for_validation_error now e) \<noteq> ''True''"
  by (cases e) (simp_all add: condition_for_validation_error_def Let_def cond_status_condition)

lemma gate_condition_false: "version_gate now k = GateBlocked c \<Longrightarrow> cond_status c \<noteq> ''True''"
  by (auto simp: version_gate_def cond_status_condition split: parent_version_gate.splits)

section \<open>What has to hold before brokers go\<close>

text \<open>The proposal for exactly these brokers is complete, nothing refers to them, and each of them is unregistered.\<close>

definition drained :: "pass_env \<Rightarrow> node_pool \<Rightarrow> string \<Rightarrow> int \<Rightarrow> int list \<Rightarrow> bool" where
  "drained env pool cluster desired brokers \<longleftrightarrow>
     (\<exists>r assignments in_flight.
        pe_get_drain env (broker_drain_name cluster (pool_name pool) desired) = Inr (Some r)
        \<and> kr_mode (kr_spec r) = RemoveBrokers \<and> kr_brokers (kr_spec r) = brokers
        \<and> current_state r = Ready \<and> Option.bind (kr_status r) kr_observed_generation = meta_generation (kr_meta r)
        \<and> pe_assignments env = Inr assignments \<and> pe_reassignments env = Inr in_flight
        \<and> (\<forall>a\<in>set assignments. set (pas_replicas a) \<inter> set brokers = {})
        \<and> (\<forall>a\<in>set in_flight. (set (ra_replicas a) \<union> set (ra_adding a) \<union> set (ra_removing a)) \<inter> set brokers = {})
        \<and> set brokers \<subseteq> set (recorded_unregistrations pool))"

text \<open>The quorum that the bootstrap address describes has no voter in the range.\<close>

definition voters_gone :: "pass_env \<Rightarrow> string \<Rightarrow> string \<Rightarrow> int \<Rightarrow> int \<Rightarrow> bool" where
  "voters_gone env namespace cluster first last_id \<longleftrightarrow>
     (\<exists>address q. operator_bootstrap_address env cluster namespace = Inr address \<and> pe_quorum env address = Inr q
        \<and> (\<forall>v\<in>set (mq_voters q). \<not> (first \<le> qv_node_id v \<and> qv_node_id v \<le> last_id)))"

lemma drain_condition_result: "fst (patch_broker_drain_condition env r m) \<noteq> Inr None"
  by (simp add: patch_broker_drain_condition_def fst_then_log split: sum.splits)

lemma then_not_None: "fst k \<noteq> Inr None \<Longrightarrow> fst (then_log m k) \<noteq> Inr None"
  by (simp add: fst_then_log split: sum.splits)

lemma finish_drain_None:
  assumes "fst (finish_drain env pool n r bs) = Inr None"
  obtains assignments in_flight where "pe_assignments env = Inr assignments" "pe_reassignments env = Inr in_flight"
    "\<forall>a\<in>set assignments. set (pas_replicas a) \<inter> set bs = {}"
    "\<forall>a\<in>set in_flight. (set (ra_replicas a) \<union> set (ra_adding a) \<union> set (ra_removing a)) \<inter> set bs = {}"
    "set bs \<subseteq> set (recorded_unregistrations pool)"
proof -
  from assms obtain assignments where a: "pe_assignments env = Inr assignments"
    by (auto simp: finish_drain_def fst_bind_log ask_def split: sum.splits)
  with assms have fa: "find (\<lambda>a. list_ex (\<lambda>i. i \<in> set bs) (pas_replicas a)) assignments = None"
    by (auto simp: finish_drain_def ask_def then_not_None drain_condition_result split: option.splits)
  with assms a obtain in_flight where f: "pe_reassignments env = Inr in_flight"
    by (auto simp: finish_drain_def fst_bind_log ask_def split: sum.splits)
  with assms a fa have nf: "\<not> list_ex (\<lambda>a. list_ex (\<lambda>i. i \<in> set bs) (ra_replicas a @ ra_adding a @ ra_removing a)) in_flight"
    by (auto simp: finish_drain_def ask_def drain_condition_result split: if_splits)
  with assms a fa f have "find (\<lambda>i. i \<notin> set (recorded_unregistrations pool)) bs = None"
    by (auto simp: finish_drain_def ask_def Let_def then_not_None drain_condition_result split: option.splits)
  with fa nf show thesis
    by (intro that[OF a f]) (auto simp: find_None_iff list_ex_iff)
qed

lemma broker_drain_None:
  assumes "fst (reconcile_broker_drain env pool ns cluster observed desired start) = Inr None" "desired < observed"
  shows "drained env pool cluster desired (removed_broker_ids start observed desired)"
proof -
  let ?n = "broker_drain_name cluster (pool_name pool) desired"
  note defs = reconcile_broker_drain_def Let_def read_def fst_bind_log then_not_None drain_condition_result
  from assms obtain r where r: "pe_get_drain env ?n = Inr (Some r)"
    by (auto simp: defs split: sum.splits option.splits)
  with assms have m: "managed_drain_matches r (removed_broker_ids start observed desired) (cluster @ ''-rebalancer-auth'', ''token'')"
    by (auto simp: defs split: if_splits)
  with assms r have s: "current_state r = Ready"
    by (auto simp: defs split: rebalance_state.splits)
  with assms r m have g: "Option.bind (kr_status r) kr_observed_generation = meta_generation (kr_meta r)"
    by (auto simp: defs split: if_splits)
  with assms r m s have "fst (finish_drain env pool ?n r (removed_broker_ids start observed desired)) = Inr None"
    by (auto simp: defs fst_then_log split: sum.splits)
  then show ?thesis
    using r m s g unfolding drained_def managed_drain_matches_def by (elim finish_drain_None) blast
qed

section \<open>Voters\<close>

lemma voter_fold:
  "foldl (\<lambda>best v. if first \<le> qv_node_id v \<and> qv_node_id v \<le> l
       then (case best of None \<Rightarrow> Some v | Some b \<Rightarrow> if qv_node_id v < qv_node_id b then Some b else Some v) else best) b vs = None
   \<longleftrightarrow> b = None \<and> (\<forall>v\<in>set vs. \<not> (first \<le> qv_node_id v \<and> qv_node_id v \<le> l))"
  by (induction vs arbitrary: b) (auto split: option.splits)

lemma voter_in_None: "voter_in q first l = None \<longleftrightarrow> (\<forall>v\<in>set (mq_voters q). \<not> (first \<le> qv_node_id v \<and> qv_node_id v \<le> l))"
  by (simp add: voter_in_def voter_fold)

lemma voter_fold_Some:
  assumes "foldl (\<lambda>best v. if first \<le> qv_node_id v \<and> qv_node_id v \<le> l
       then (case best of None \<Rightarrow> Some v | Some b \<Rightarrow> if qv_node_id v < qv_node_id b then Some b else Some v) else best) b vs = Some t"
  shows "(b = Some t \<or> t \<in> set vs \<and> first \<le> qv_node_id t \<and> qv_node_id t \<le> l)
     \<and> (\<forall>v\<in>set vs. first \<le> qv_node_id v \<and> qv_node_id v \<le> l \<longrightarrow> qv_node_id v \<le> qv_node_id t)
     \<and> (\<forall>b'. b = Some b' \<longrightarrow> qv_node_id b' \<le> qv_node_id t)"
  using assms
proof (induction vs arbitrary: b)
  case (Cons v vs)
  from Cons.prems show ?case
    by (auto dest!: Cons.IH split: if_splits option.splits)
qed simp

lemma voter_in_Some:
  assumes "voter_in q first l = Some t"
  shows "t \<in> set (mq_voters q)" "first \<le> qv_node_id t" "qv_node_id t \<le> l"
  using voter_fold_Some[OF assms[unfolded voter_in_def]] by auto

text \<open>A removal step: at most one request, for a voter in the range that is not the last one.\<close>

definition removal_guarded :: "pass_env \<Rightarrow> string \<Rightarrow> string \<Rightarrow> int \<Rightarrow> int \<Rightarrow> pool_effect list \<Rightarrow> bool" where
  "removal_guarded env namespace cluster first last_id fs \<longleftrightarrow>
     length (filter is_removal fs) \<le> 1 \<and>
     (\<forall>address cid n d. RemoveVoter address cid n d \<in> set fs \<longrightarrow>
        (\<exists>boot q v. operator_bootstrap_address env cluster namespace = Inr boot \<and> pe_quorum env boot = Inr q
           \<and> v \<in> set (mq_voters q) \<and> qv_node_id v = n \<and> qv_directory_id v = d \<and> 2 \<le> length (mq_voters q)
           \<and> first \<le> n \<and> n \<le> last_id))"

lemma calm_no_removal: "list_all calm fs \<Longrightarrow> filter is_removal fs = []"
  by (auto simp: list_all_iff filter_empty_conv)

lemma calm_steady: "list_all calm fs \<Longrightarrow> list_all steady fs"
  by (auto simp: list_all_iff)

abbreviation stays :: "pool_effect \<Rightarrow> bool" where
  "stays f \<equiv> \<not> is_removal f"

lemma stays_no_removal: "list_all stays fs \<Longrightarrow> filter is_removal fs = []"
  by (auto simp: list_all_iff filter_empty_conv)

lemma logs_weaken: "logs P m \<Longrightarrow> (\<And>f. P f \<Longrightarrow> Q f) \<Longrightarrow> logs Q m"
  by (auto simp: list_all_iff)

lemma calm_guarded: "list_all calm fs \<Longrightarrow> removal_guarded env ns cluster first l fs"
  by (auto simp: removal_guarded_def calm_no_removal list_all_iff)

lemma guarded_append:
  assumes "list_all calm a" "list_all calm c" "removal_guarded env ns cluster first l b"
  shows "removal_guarded env ns cluster first l (a @ b @ c)"
proof -
  have "RemoveVoter x y n d \<notin> set a" "RemoveVoter x y n d \<notin> set c" for x y n d
    using assms by (auto simp: list_all_iff)
  with assms show ?thesis
    by (simp add: removal_guarded_def calm_no_removal)
qed

lemma two_voters: "v \<in> set vs \<Longrightarrow> length vs \<noteq> 1 \<Longrightarrow> 2 \<le> length vs"
  by (cases vs; cases "tl vs") auto

lemma remove_voter_guarded:
  assumes "operator_bootstrap_address env cluster ns = Inr boot" "pe_quorum env boot = Inr q" "voter_in q first l = Some t"
    "length (mq_voters q) \<noteq> 1"
  shows "removal_guarded env ns cluster first l (snd (remove_voter env cluster' address cid t))"
    "logs steady (remove_voter env cluster' address cid t)"
  using assms voter_in_Some[OF assms(3)] two_voters[of t "mq_voters q"]
  by (auto simp: remove_voter_def removal_guarded_def split: option.splits)

lemma guarded_parts:
  "removal_guarded env ns cluster first l fs \<Longrightarrow> list_all calm gs \<Longrightarrow> removal_guarded env ns cluster first l (fs @ gs)"
  "list_all calm gs \<Longrightarrow> removal_guarded env ns cluster first l fs \<Longrightarrow> removal_guarded env ns cluster first l (gs @ fs)"
  using guarded_append[of "[]" gs] guarded_append[of gs "[]"] by simp_all

lemma retire_target_result: "fst (retire_target env pool siblings cluster observed start cid boot q t) \<noteq> Inr None"
  by (auto simp: retire_target_def Let_def fst_then_log try_log_simps split: sum.splits)

lemma remove_controllers_None:
  assumes "fst (remove_controllers env pool siblings ns cluster observed start) = Inr None"
  shows "voters_gone env ns cluster (start + np_replicas (knp_spec pool)) (start + observed - 1)"
proof -
  note defs = remove_controllers_def fst_bind_log fst_then_log voter_range_def ask_def
  from assms obtain address q where aq: "operator_bootstrap_address env cluster ns = Inr address" "pe_quorum env address = Inr q"
    by (auto simp: defs split: sum.splits)
  with assms have "voter_in q (start + np_replicas (knp_spec pool)) (start + (observed - 1)) = None"
    by (auto simp: defs ok_or_def checked_i32_def retire_target_result split: option.splits if_splits sum.splits)
  with aq show ?thesis
    by (auto simp: voters_gone_def voter_in_None algebra_simps)
qed

definition retires :: "pass_env \<Rightarrow> string \<Rightarrow> string \<Rightarrow> int \<Rightarrow> int \<Rightarrow> 'a pool_step \<Rightarrow> bool" where
  "retires env ns cluster first l m \<longleftrightarrow> logs steady m \<and> removal_guarded env ns cluster first l (snd m)"

lemma retires_calm: "logs calm m \<Longrightarrow> retires env ns cluster first l m"
  by (simp add: retires_def calm_guarded calm_steady)

lemma retires_bind:
  "logs calm m \<Longrightarrow> (\<And>x. fst m = Inr x \<Longrightarrow> retires env ns cluster first l (f x)) \<Longrightarrow> retires env ns cluster first l (bind_log m f)"
  by (cases "fst m") (simp_all add: retires_def snd_bind_log guarded_parts calm_guarded calm_steady)

lemma retires_then:
  "logs calm m \<Longrightarrow> (fst m = Inr () \<Longrightarrow> retires env ns cluster first l k) \<Longrightarrow> retires env ns cluster first l (then_log m k)"
  by (cases "fst m") (simp_all add: retires_def snd_then_log guarded_parts calm_guarded calm_steady)

lemma retires_removal:
  assumes "operator_bootstrap_address env cluster ns = Inr boot" "pe_quorum env boot = Inr q" "voter_in q first l = Some t"
    "length (mq_voters q) \<noteq> 1" "\<And>x. logs calm (f x)" "\<And>e. logs calm (h e)"
  shows "retires env ns cluster first l (try_log (remove_voter env cluster' address cid t) f h)"
proof -
  have "list_all calm (case fst (remove_voter env cluster' address cid t) of Inr x \<Rightarrow> snd (f x) | Inl e \<Rightarrow> snd (h e))"
    using assms(5,6) by (simp split: sum.splits)
  with remove_voter_guarded[OF assms(1-4)] show ?thesis
    by (simp add: retires_def try_log_simps guarded_parts calm_steady)
qed

lemma told_calm: "logs calm (then_log (patch_status_for_pool env (pool_condition env ''False'' r m)) (ret_log x))"
  by (intro logs_then calm_intros) simp

lemma retire_target_steps:
  assumes "operator_bootstrap_address env cluster ns = Inr boot" "pe_quorum env boot = Inr q" "voter_in q first l = Some t"
  shows "retires env ns cluster first l (retire_target env pool siblings cluster observed start cid boot q t)"
  using assms unfolding retire_target_def Let_def
  by (auto simp: retires_calm told_calm simp del: append.simps intro!: retires_then[OF logs_plain(3)] retires_removal)

lemma remove_controllers_steps:
  "retires env ns cluster (start + np_replicas (knp_spec pool)) (start + observed - 1)
     (remove_controllers env pool siblings ns cluster observed start)"
proof -
  have "first = start + np_replicas (knp_spec pool)" "l = start + observed - 1"
    if "fst (voter_range m (start + np_replicas (knp_spec pool))) = Inr first" "fst (voter_range m (start + (observed - 1))) = Inr l"
    for m first l
    using that by (auto simp: voter_range_def)
  moreover have "pe_quorum env boot = Inr q" if "fst (ask (pe_quorum env boot)) = Inr q" for boot q
    using that by (auto simp: ask_def split: sum.splits)
  ultimately show ?thesis
    unfolding remove_controllers_def
    by (intro retires_bind retires_then logs_plain)
      (auto simp: retires_calm split: option.split intro!: retire_target_steps)
qed

lemma retire_voters_steps: "retires env ns cluster start (start + observed - 1) (retire_voters env ns cluster start observed)"
  unfolding retire_voters_def Let_def
  by (rule retires_bind; simp?)+
    (auto simp: retires_calm told_calm checked_i32_def add_diff_eq split: sum.split option.split if_splits
      intro!: retires_bind retires_then retires_removal)

lemma retire_voters_None:
  assumes "fst (retire_voters env ns cluster start observed) = Inr None"
  shows "voters_gone env ns cluster start (start + observed - 1)"
proof -
  note defs = retire_voters_def Let_def fst_bind_log fst_then_log
  from assms obtain address q where aq: "operator_bootstrap_address env cluster ns = Inr address" "pe_quorum env address = Inr q"
    by (auto simp: defs split: sum.splits if_splits)
  with assms have "voter_in q start (start + (observed - 1)) = None"
    by (auto simp: defs ok_or_def checked_i32_def try_log_simps split: option.splits if_splits sum.splits)
  with aq show ?thesis
    by (auto simp: voters_gone_def voter_in_None algebra_simps)
qed

section \<open>Scaling down and deleting\<close>

definition live_of :: "pass_env \<Rightarrow> string \<Rightarrow> stateful_set option" where
  "live_of env name = (case pe_get_statefulset env name of Inr live \<Rightarrow> live | Inl _ \<Rightarrow> None)"

definition live_start :: "node_pool \<Rightarrow> stateful_set option \<Rightarrow> int" where
  "live_start pool live = unwrap_or (np_node_id_start (knp_spec pool)) (fst (case live of None \<Rightarrow> (None, None) | Some s \<Rightarrow> observed_statefulset_identity s))"

definition live_roles :: "node_pool \<Rightarrow> stateful_set option \<Rightarrow> nat" where
  "live_roles pool live = unwrap_or (role_mask (np_roles (knp_spec pool))) (snd (case live of None \<Rightarrow> (None, None) | Some s \<Rightarrow> observed_statefulset_identity s))"

lemma scale_down_steps:
  assumes "Option.bind (Option.bind live sts_spec) ss_replicas = Some observed"
  shows "retires env ns cluster (live_start pool live + np_replicas (knp_spec pool)) (live_start pool live + observed - 1)
    (reconcile_controller_scale_down env pool siblings live ns cluster)"
  using assms unfolding reconcile_controller_scale_down_def live_start_def Let_def
  by (auto simp: retires_calm split: option.split intro!: retires_bind broker_drain_calm remove_controllers_steps)

lemma scale_down_none:
  assumes "Option.bind (Option.bind live sts_spec) ss_replicas = None"
  shows "reconcile_controller_scale_down env pool siblings live ns cluster = ret_log None"
  using assms by (simp add: reconcile_controller_scale_down_def)

lemma scale_down_steady: "logs steady (reconcile_controller_scale_down env pool siblings live ns cluster)"
proof (cases "Option.bind (Option.bind live sts_spec) ss_replicas")
  case (Some observed)
  from scale_down_steps[OF this] show ?thesis by (simp add: retires_def)
qed (simp add: scale_down_none)

lemma scale_down_finished:
  assumes "fst (reconcile_controller_scale_down env pool siblings live ns cluster) = Inr None"
    "Option.bind (Option.bind live sts_spec) ss_replicas = Some observed" "np_replicas (knp_spec pool) < observed"
  shows "odd (live_roles pool live) \<Longrightarrow>
      drained env pool cluster (np_replicas (knp_spec pool)) (removed_broker_ids (live_start pool live) observed (np_replicas (knp_spec pool)))"
    and "odd (live_roles pool live div 2) \<Longrightarrow>
      voters_gone env ns cluster (live_start pool live + np_replicas (knp_spec pool)) (live_start pool live + observed - 1)"
  using assms
  by (auto simp: reconcile_controller_scale_down_def live_roles_def live_start_def Let_def fst_bind_log
    split: sum.splits option.splits if_splits intro!: broker_drain_None remove_controllers_None)

lemma remove_controllers_stays:
  "fst (remove_controllers env pool siblings ns cluster observed start) = Inr None \<Longrightarrow>
     logs stays (remove_controllers env pool siblings ns cluster observed start)"
  by (auto simp: remove_controllers_def snd_bind_log snd_then_log fst_bind_log fst_then_log voter_range_def ask_def connect_def
    retire_target_result split: sum.splits option.splits)

lemma scale_down_stays:
  assumes "fst (reconcile_controller_scale_down env pool siblings live ns cluster) = Inr None"
  shows "logs stays (reconcile_controller_scale_down env pool siblings live ns cluster)"
proof -
  have drain: "logs stays (reconcile_broker_drain env pool ns cluster o' d' s')" for o' d' s'
    by (rule logs_weaken[OF broker_drain_calm]) simp
  from assms show ?thesis
    unfolding reconcile_controller_scale_down_def
    by (auto simp: Let_def fst_bind_log drain split: option.splits if_splits sum.splits
        intro!: logs_bind remove_controllers_stays)
qed

lemma retires_calm_end:
  "retires env ns cluster first l m \<Longrightarrow> (\<And>x. fst m = Inr x \<Longrightarrow> logs calm (f x)) \<Longrightarrow> retires env ns cluster first l (bind_log m f)"
  by (cases "fst m") (simp_all add: retires_def snd_bind_log guarded_parts calm_steady)

lemma apply_workload_stays: "logs stays (apply_workload env pool ns cluster parent observed)"
  unfolding apply_workload_def Let_def by (auto intro!: logs_intros logs_send)

lemma quorum_readiness_calm: "logs calm (quorum_readiness env ns cluster ids m)"
  by (auto simp: quorum_readiness_def intro!: logs_intros split: sum.split option.split)

lemma readiness_calm: "logs calm (evaluate_pool_readiness env pool ns cluster ids pods b r m)"
  by (auto simp: evaluate_pool_readiness_def quorum_readiness_calm split: sum.split)

lemma secrets_stay: "list_all stays (map BootstrapSecret qs)" "list_all calm (map BootstrapSecret qs)"
  by (induction qs) simp_all

lemma calm_stays: "logs calm m \<Longrightarrow> logs stays m"
  by (auto simp: list_all_iff)

lemma publish_logs:
  assumes "\<And>f. calm f \<Longrightarrow> P f" "\<And>st. P (PatchPoolStatus st)"
  shows "logs P (publish_pool env pool ns cluster parent bootstrap ids pods)"
proof -
  have "logs P (evaluate_pool_readiness env pool ns cluster ids pods b r m)" for b r m
    using readiness_calm assms(1) by (auto simp: list_all_iff)
  moreover have "list_all P (map BootstrapSecret qs)" for qs
    by (induction qs) (simp_all add: assms(1))
  ultimately show ?thesis
    unfolding publish_pool_def Let_def
    by (auto simp: logs_plain assms(2) intro!: logs_intros logs_send split: prod.split)
qed

lemma publish_stays: "logs stays (publish_pool env pool ns cluster parent bootstrap ids pods)"
  by (rule publish_logs) auto

section \<open>Paths through the pass\<close>

lemma read_live: "fst (read (pe_get_statefulset env n)) = Inr x \<Longrightarrow> x = live_of env n"
  by (auto simp: live_of_def read_def split: sum.splits)

text \<open>A property of the log of a pass that holds of quiet logs and survives a quiet prefix. Most of a pass is such a
  prefix: reads, refusals, the Secret, the drain.\<close>

locale calm_closed =
  fixes R :: "pool_effect list \<Rightarrow> bool"
  assumes calm_only: "list_all calm fs \<Longrightarrow> R fs"
    and calm_before: "list_all calm fs \<Longrightarrow> R gs \<Longrightarrow> R (fs @ gs)"
begin

lemma bind_calm:
  "logs calm m \<Longrightarrow> (\<And>x. fst m = Inr x \<Longrightarrow> R (snd (f x))) \<Longrightarrow> R (snd (bind_log m f))"
  by (cases "fst m") (simp_all add: snd_bind_log calm_only calm_before)

lemma refused: "cond_status c \<noteq> ''True'' \<Longrightarrow> R (snd (refuse env c a))"
  by (rule calm_only[OF logs_refuse])

lemma roll_out:
  assumes "\<And>bootstrap ids.
      fst (ensure_directories env cluster [np_node_id_start (knp_spec pool) .. np_node_id_start (knp_spec pool) + np_replicas (knp_spec pool) - 1] [])
        = Inr ids \<Longrightarrow>
      R (snd (replace_pods env pool siblings pods ns cluster parent bootstrap ids (live_of env (cluster @ ''-'' @ pool_name pool))))"
  shows "R (snd (roll_out_pool env pool siblings pods ns cluster parent))"
  unfolding roll_out_pool_def Let_def
  by (rule bind_calm; (simp add: logs_plain secrets_stay directories_calm del: append.simps)?)+ (metis assms read_live)

lemma in_cluster:
  assumes "\<And>siblings pods. pe_list_pods env cluster = Inr pods \<Longrightarrow> R (snd (roll_out_pool env pool siblings pods ns cluster parent))"
  shows "R (snd (reconcile_pool_in env pool ns cluster parent))"
proof -
  have "pe_list_pods env cluster = Inr pods" if "fst (read (pe_list_pods env cluster)) = Inr pods" for pods
    using that by (auto simp: read_def split: sum.splits)
  with assms show ?thesis
    unfolding reconcile_pool_in_def Let_def
    by (auto simp: logs_plain validation_condition_false pool_condition_false split: version_gate.split sum.split
        intro!: bind_calm refused dest: gate_condition_false)
qed

lemma deletion:
  assumes "\<And>pods. pe_list_pool_pods env cluster (pool_name pool) = Inr pods \<Longrightarrow>
      R (snd (retire_pool env pool parent ns cluster (live_of env (cluster @ ''-'' @ pool_name pool)) pods))"
  shows "R (snd (reconcile_deletion env pool parent ns cluster))"
proof -
  have pods: "pe_list_pool_pods env cluster (pool_name pool) = Inr pods"
    if "fst (read (pe_list_pool_pods env cluster (pool_name pool))) = Inr pods" for pods
    using that by (auto simp: read_def split: sum.splits)
  have "R (snd (retire_pool env pool parent ns cluster live pods))"
    if "fst (read (pe_get_statefulset env (cluster @ ''-'' @ pool_name pool))) = Inr live"
       "fst (read (pe_list_pool_pods env cluster (pool_name pool))) = Inr pods" for live pods
    using assms[OF pods] that read_live by metis
  then show ?thesis
    unfolding reconcile_deletion_def by (auto simp: calm_only logs_plain intro!: bind_calm)
qed

lemma pass:
  assumes "meta_label (knp_meta pool) ''krabka.io/cluster'' = Some cluster"
    and "\<And>parent pods. meta_deletion_timestamp (knp_meta pool) \<noteq> None \<Longrightarrow> pe_get_kafka env cluster = Inr parent \<Longrightarrow>
      pe_list_pool_pods env cluster (pool_name pool) = Inr pods \<Longrightarrow>
      R (snd (retire_pool env pool parent (unwrap_or ''default'' (meta_namespace (knp_meta pool))) cluster
        (live_of env (cluster @ ''-'' @ pool_name pool)) pods))"
    and "\<And>parent siblings pods bootstrap ids. meta_deletion_timestamp (knp_meta pool) = None \<Longrightarrow> pe_get_kafka env cluster = Inr (Some parent) \<Longrightarrow>
      pe_list_pods env cluster = Inr pods \<Longrightarrow>
      fst (ensure_directories env cluster [np_node_id_start (knp_spec pool) .. np_node_id_start (knp_spec pool) + np_replicas (knp_spec pool) - 1] [])
        = Inr ids \<Longrightarrow>
      R (snd (replace_pods env pool siblings pods (unwrap_or ''default'' (meta_namespace (knp_meta pool))) cluster parent bootstrap ids
        (live_of env (cluster @ ''-'' @ pool_name pool))))"
  shows "R (snd (pool_reconcile_inner env pool))"
proof -
  have parent: "pe_get_kafka env cluster = Inr parent" if "fst (read (pe_get_kafka env cluster)) = Inr parent" for parent
    using that by (auto simp: read_def split: sum.splits)
  have "logs calm (then_log (set_finalizer env pool True) (ret_log (Requeue 0)))"
    by (rule logs_then[OF finalizer_calm]) simp
  with assms show ?thesis
    unfolding pool_reconcile_inner_def Let_def
    by (auto simp: validation_condition_false pool_condition_false logs_plain calm_only split: sum.split option.split
        intro!: refused bind_calm deletion in_cluster roll_out dest!: parent)
qed

end

text \<open>Three uses: the StatefulSet is written only when scaling down is finished; a pass that removes a voter does
  nothing else; a deleted pool lets go of its pods and its finalizer last.\<close>

definition applied_after_drain :: "pass_env \<Rightarrow> node_pool \<Rightarrow> string \<Rightarrow> string \<Rightarrow> pool_effect \<Rightarrow> bool" where
  "applied_after_drain env pool ns cluster f \<longleftrightarrow>
     (\<forall>n sts. f = ApplyStatefulSet n sts \<longrightarrow>
        n = cluster @ ''-'' @ pool_name pool
        \<and> (\<exists>siblings. fst (reconcile_controller_scale_down env pool siblings (live_of env n) ns cluster) = Inr None))"

interpretation applied: calm_closed "list_all (applied_after_drain env pool ns cluster)" for env pool ns cluster
  by unfold_locales (auto simp: list_all_iff applied_after_drain_def)

definition removes_one :: "pass_env \<Rightarrow> node_pool \<Rightarrow> string \<Rightarrow> string \<Rightarrow> pool_effect list \<Rightarrow> bool" where
  "removes_one env pool ns cluster fs \<longleftrightarrow>
     list_all stays fs \<or> list_all steady fs \<and> (\<exists>first l. removal_guarded env ns cluster first l fs
       \<and> (meta_deletion_timestamp (knp_meta pool) = None \<longrightarrow>
            first = live_start pool (live_of env (cluster @ ''-'' @ pool_name pool)) + np_replicas (knp_spec pool)))"

lemma removes_one_stays: "list_all stays fs \<Longrightarrow> removes_one env pool ns cluster fs"
  by (simp add: removes_one_def)

lemma removes_one_retires:
  "retires env ns cluster first l m \<Longrightarrow>
     meta_deletion_timestamp (knp_meta pool) \<noteq> None
       \<or> first = live_start pool (live_of env (cluster @ ''-'' @ pool_name pool)) + np_replicas (knp_spec pool) \<Longrightarrow>
   removes_one env pool ns cluster (snd m)"
  by (auto simp: removes_one_def retires_def)

interpretation removal: calm_closed "removes_one env pool ns cluster" for env pool ns cluster
proof
  show "removes_one env pool ns cluster fs" if "list_all calm fs" for fs
    using that by (auto intro!: removes_one_stays simp: list_all_iff)
next
  fix fs gs
  assume fs: "list_all calm fs" and gs: "removes_one env pool ns cluster gs"
  show "removes_one env pool ns cluster (fs @ gs)"
  proof (cases "list_all stays gs")
    case True
    with fs show ?thesis by (auto intro!: removes_one_stays simp: list_all_iff)
  next
    case False
    with fs gs show ?thesis
      unfolding removes_one_def by (auto simp: calm_steady intro!: guarded_parts(2))
  qed
qed

definition pool_gone :: "pass_env \<Rightarrow> node_pool \<Rightarrow> string \<Rightarrow> string \<Rightarrow> pod list \<Rightarrow> bool" where
  "pool_gone env pool ns cluster pods \<longleftrightarrow>
     (let name = cluster @ ''-'' @ pool_name pool; live = live_of env name; n = deletion_replicas live pods name;
          start = fst (deletion_identity pool live pods); roles = snd (deletion_identity pool live pods)
      in (odd roles \<and> 0 < n \<longrightarrow> drained env pool cluster 0 (removed_broker_ids start n 0))
         \<and> (odd (roles div 2) \<longrightarrow> voters_gone env ns cluster start (start + max (np_replicas (knp_spec pool)) n - 1)))"

definition released_last :: "pass_env \<Rightarrow> node_pool \<Rightarrow> string \<Rightarrow> string \<Rightarrow> pool_effect \<Rightarrow> bool" where
  "released_last env pool ns cluster f \<longleftrightarrow>
     (\<forall>n fs. f = ScaleToZero n \<or> f = PatchPoolFinalizers fs \<and> POOL_FINALIZER \<notin> set fs \<longrightarrow>
        (\<exists>pods. pe_list_pool_pods env cluster (pool_name pool) = Inr pods \<and> pool_gone env pool ns cluster pods
           \<and> (f = PatchPoolFinalizers fs \<longrightarrow> pods = [])))"

interpretation released: calm_closed "list_all (released_last env pool ns cluster)" for env pool ns cluster
  by unfold_locales (auto simp: list_all_iff released_last_def)

lemma apply_workload_name:
  "ApplyStatefulSet n sts \<in> set (snd (apply_workload env pool ns cluster parent observed)) \<Longrightarrow> n = cluster @ ''-'' @ pool_name pool"
  by (auto simp: apply_workload_def Let_def log_simps send_def split: sum.splits if_splits option.splits)

lemma replace_pods_applied:
  "logs (applied_after_drain env pool ns cluster)
     (replace_pods env pool siblings pods ns cluster parent bootstrap ids (live_of env (cluster @ ''-'' @ pool_name pool)))"
proof -
  let ?live = "live_of env (cluster @ ''-'' @ pool_name pool)"
  let ?scale = "reconcile_controller_scale_down env pool siblings ?live ns cluster"
  have scale: "logs (applied_after_drain env pool ns cluster) ?scale"
    by (rule logs_weaken[OF scale_down_steady]) (auto simp: applied_after_drain_def)
  have "logs (applied_after_drain env pool ns cluster) (apply_workload env pool ns cluster parent ?live)" if "fst ?scale = Inr None"
    unfolding list_all_iff applied_after_drain_def
    by (intro ballI allI impI conjI exI[of _ siblings]) (use that apply_workload_name in blast)+
  moreover have "logs (applied_after_drain env pool ns cluster) (publish_pool env pool ns cluster parent bootstrap ids pods)"
    by (rule publish_logs) (auto simp: applied_after_drain_def)
  moreover have "logs (applied_after_drain env pool ns cluster) (refuse env (condition_for_validation_error now e) a)" for now e a
    by (rule applied.refused[OF validation_condition_false])
  ultimately show ?thesis
    unfolding replace_pods_def using scale by (auto intro!: logs_bind logs_then split: sum.split option.split)
qed

lemma drain_deletion_calm: "logs calm (delete_deletion_rebalance env cluster n)"
  by (auto simp: delete_deletion_rebalance_def Let_def logs_plain intro!: logs_bind logs_send)

lemma release_logs:
  assumes "\<And>f. calm f \<Longrightarrow> P f" "\<And>n. P (ScaleToZero n)"
    "\<not> has_pods \<Longrightarrow> P (PatchPoolFinalizers (filter (\<lambda>f. f \<noteq> POOL_FINALIZER) (unwrap_or [] (meta_finalizers (knp_meta pool)))))"
  shows "logs P (release_pool env pool cluster has_sts has_pods brokers)"
proof -
  have "logs P (delete_deletion_rebalance env cluster n)" for n
    using drain_deletion_calm assms(1) by (auto simp: list_all_iff)
  with assms(2,3) show ?thesis
    by (auto simp: release_pool_def set_finalizer_def Let_def intro!: logs_then logs_send)
qed

lemma deletion_applied: "logs (applied_after_drain env pool ns cluster) (retire_pool env pool parent ns cluster live pods)"
proof -
  have "logs (applied_after_drain env pool ns cluster) (release_pool env pool cluster a b c)" for a b c
    by (rule release_logs) (auto simp: applied_after_drain_def)
  moreover have "logs (applied_after_drain env pool ns cluster) (reconcile_broker_drain env pool ns cluster x y z)" for x y z
    by (rule applied.calm_only[OF broker_drain_calm])
  moreover have "logs (applied_after_drain env pool ns cluster) (retire_voters env ns cluster x y)" for x y
    using retire_voters_steps[of env ns cluster x y] by (auto simp: retires_def list_all_iff applied_after_drain_def)
  ultimately show ?thesis
    unfolding retire_pool_def Let_def by (auto intro!: logs_bind split: option.split)
qed


lemma replace_pods_removes_one:
  assumes "meta_deletion_timestamp (knp_meta pool) = None"
  shows "removes_one env pool ns cluster
     (snd (replace_pods env pool siblings pods ns cluster parent bootstrap ids (live_of env (cluster @ ''-'' @ pool_name pool))))"
proof -
  let ?live = "live_of env (cluster @ ''-'' @ pool_name pool)"
  let ?scale = "reconcile_controller_scale_down env pool siblings ?live ns cluster"
  let ?rest = "\<lambda>step. case step of Some a \<Rightarrow> ret_log a
          | None \<Rightarrow> then_log (apply_workload env pool ns cluster parent ?live) (publish_pool env pool ns cluster parent bootstrap ids pods)"
  have "removes_one env pool ns cluster (snd (bind_log ?scale ?rest))"
  proof (cases "fst ?scale = Inr None")
    case True
    then have "logs stays (bind_log ?scale ?rest)"
      by (intro logs_bind scale_down_stays) (auto simp: apply_workload_stays publish_stays intro!: logs_then)
    then show ?thesis by (rule removes_one_stays)
  next
    case False
    then obtain observed where o: "Option.bind (Option.bind ?live sts_spec) ss_replicas = Some observed"
      by (cases "Option.bind (Option.bind ?live sts_spec) ss_replicas") (simp_all add: scale_down_none)
    with False have "retires env ns cluster (live_start pool ?live + np_replicas (knp_spec pool)) (live_start pool ?live + observed - 1)
        (bind_log ?scale ?rest)"
      by (intro retires_calm_end scale_down_steps) (auto split: option.split)
    then show ?thesis by (rule removes_one_retires) simp
  qed
  moreover have "removes_one env pool ns cluster (snd (refuse env (condition_for_validation_error now e) a))" for now e a
    by (rule removal.refused[OF validation_condition_false])
  ultimately show ?thesis
    unfolding replace_pods_def by (auto split: sum.split simp del: append.simps)
qed

lemma retire_voters_stays: "fst (retire_voters env ns cluster start observed) = Inr None \<Longrightarrow> logs stays (retire_voters env ns cluster start observed)"
  by (auto simp: retire_voters_def Let_def snd_bind_log snd_then_log fst_bind_log fst_then_log try_log_simps
    split: sum.splits option.splits if_splits)

lemma release_stays: "logs stays (release_pool env pool cluster a b c)"
  by (rule release_logs) auto

lemma retire_pool_removes_one:
  assumes "meta_deletion_timestamp (knp_meta pool) \<noteq> None"
  shows "removes_one env pool ns cluster (snd (retire_pool env pool parent ns cluster live pods))"
proof -
  have voters: "removes_one env pool ns cluster (snd (bind_log (retire_voters env ns cluster start observed)
       (\<lambda>step. case step of Some a \<Rightarrow> ret_log a | None \<Rightarrow> release_pool env pool cluster x y z)))" for start observed x y z
  proof (cases "fst (retire_voters env ns cluster start observed) = Inr None")
    case True
    then show ?thesis
      by (intro removes_one_stays logs_bind retire_voters_stays) (auto simp: release_stays)
  next
    case False
    then have "retires env ns cluster start (start + observed - 1) (bind_log (retire_voters env ns cluster start observed)
       (\<lambda>step. case step of Some a \<Rightarrow> ret_log a | None \<Rightarrow> release_pool env pool cluster x y z))"
      by (intro retires_calm_end retire_voters_steps) (auto split: option.split)
    then show ?thesis by (rule removes_one_retires) (simp add: assms)
  qed
  have released: "removes_one env pool ns cluster (snd (release_pool env pool cluster x y z))" for x y z
    by (rule removes_one_stays[OF release_stays])
  show ?thesis
    unfolding retire_pool_def Let_def
    by (auto simp: voters released removal.calm_only broker_drain_calm split: option.split intro!: removal.bind_calm)
qed

text \<open>C11: (safety) A pass removes at most one voter from the metadata quorum, only a voter that the quorum lists, and
  never when it is the only one; outside of a deletion the node id of the voter lies beyond the replicas that the pool
  keeps. Such a pass writes no StatefulSet, scales nothing to zero, drops no finalizer and reports no readiness: the
  removal is seen to be committed in a later pass before any pod goes.\<close>

theorem voter_removal_guarded:
  assumes "RemoveVoter address cid n d \<in> set (snd (pool_reconcile_inner env pool))"
    and "meta_label (knp_meta pool) ''krabka.io/cluster'' = Some cluster"
  shows "filter is_removal (snd (pool_reconcile_inner env pool)) = [RemoveVoter address cid n d]
    \<and> list_all steady (snd (pool_reconcile_inner env pool))
    \<and> (\<exists>boot q v. pe_quorum env boot = Inr q \<and> v \<in> set (mq_voters q) \<and> qv_node_id v = n \<and> qv_directory_id v = d
         \<and> 2 \<le> length (mq_voters q))
    \<and> (meta_deletion_timestamp (knp_meta pool) = None \<longrightarrow>
         live_start pool (live_of env (cluster @ ''-'' @ pool_name pool)) + np_replicas (knp_spec pool) \<le> n)"
proof -
  let ?fs = "snd (pool_reconcile_inner env pool)"
  have "removes_one env pool (unwrap_or ''default'' (meta_namespace (knp_meta pool))) cluster ?fs"
    by (rule removal.pass[OF assms(2)]) (rule retire_pool_removes_one replace_pods_removes_one, assumption)+
  moreover have "\<not> list_all stays ?fs"
    using assms(1) by (force simp: list_all_iff)
  ultimately obtain first l where steady: "list_all steady ?fs"
    and guarded: "removal_guarded env (unwrap_or ''default'' (meta_namespace (knp_meta pool))) cluster first l ?fs"
    and first: "meta_deletion_timestamp (knp_meta pool) = None \<longrightarrow>
      first = live_start pool (live_of env (cluster @ ''-'' @ pool_name pool)) + np_replicas (knp_spec pool)"
    by (auto simp: removes_one_def)
  have "RemoveVoter address cid n d \<in> set (filter is_removal ?fs)"
    using assms(1) by simp
  moreover have "length (filter is_removal ?fs) \<le> 1"
    using guarded by (simp add: removal_guarded_def)
  ultimately have "filter is_removal ?fs = [RemoveVoter address cid n d]"
    by (cases "filter is_removal ?fs") auto
  moreover from guarded assms(1) obtain boot q v where "pe_quorum env boot = Inr q" "v \<in> set (mq_voters q)" "qv_node_id v = n"
      "qv_directory_id v = d" "2 \<le> length (mq_voters q)" "first \<le> n"
    unfolding removal_guarded_def by blast
  ultimately show ?thesis
    using steady first by blast
qed

lemma retire_pool_released:
  assumes "pe_list_pool_pods env cluster (pool_name pool) = Inr pods" "meta_deletion_timestamp (kf_meta k) = None"
  shows "logs (released_last env pool ns cluster)
     (retire_pool env pool (Some k) ns cluster (live_of env (cluster @ ''-'' @ pool_name pool)) pods)"
proof -
  let ?live = "live_of env (cluster @ ''-'' @ pool_name pool)"
  let ?n = "deletion_replicas ?live pods (cluster @ ''-'' @ pool_name pool)"
  let ?start = "fst (deletion_identity pool ?live pods)" and ?roles = "snd (deletion_identity pool ?live pods)"
  let ?L = "\<lambda>m. logs (released_last env pool ns cluster) m"
  have release: "?L (release_pool env pool cluster x (pods \<noteq> []) z)" if "pool_gone env pool ns cluster pods" for x z
    by (rule release_logs) (use that assms(1) in \<open>auto simp: released_last_def\<close>)
  have drain: "?L (reconcile_broker_drain env pool ns cluster x y z)" for x y z
    by (rule released.calm_only[OF broker_drain_calm])
  have retire: "?L (retire_voters env ns cluster x y)" for x y
    using retire_voters_steps[of env ns cluster x y] by (auto simp: retires_def list_all_iff released_last_def)
  show ?thesis
    unfolding retire_pool_def Let_def
    by (auto simp: assms(2) drain retire split: option.split intro!: logs_bind release)
      (auto simp: pool_gone_def Let_def intro!: broker_drain_None retire_voters_None)
qed

text \<open>C12: (safety) While its cluster exists and is not being deleted, a deleted pool is scaled to zero, and released by
  dropping its finalizer, only when every broker that may still run is drained and no voter of the pool is left in the
  quorum; and the finalizer goes only when no pod of the pool is left.\<close>

theorem deleted_pool_released_last:
  assumes "f \<in> set (snd (pool_reconcile_inner env pool))"
    and "f = ScaleToZero n \<or> f = PatchPoolFinalizers fs \<and> POOL_FINALIZER \<notin> set fs"
    and "meta_deletion_timestamp (knp_meta pool) \<noteq> None"
    and "meta_label (knp_meta pool) ''krabka.io/cluster'' = Some cluster"
    and "pe_get_kafka env cluster = Inr (Some k)" and "meta_deletion_timestamp (kf_meta k) = None"
  shows "\<exists>pods. pe_list_pool_pods env cluster (pool_name pool) = Inr pods
    \<and> pool_gone env pool (unwrap_or ''default'' (meta_namespace (knp_meta pool))) cluster pods
    \<and> (f = PatchPoolFinalizers fs \<longrightarrow> pods = [])"
proof -
  have "logs (released_last env pool (unwrap_or ''default'' (meta_namespace (knp_meta pool))) cluster) (pool_reconcile_inner env pool)"
    by (rule released.pass[OF assms(4)]) (use assms(3,5,6) retire_pool_released in force)+
  with assms(1,2) show ?thesis
    unfolding list_all_iff released_last_def by blast
qed

section \<open>Readiness\<close>

text \<open>A broker that answers on its metrics port and publishes no offline and no under-replicated partition.\<close>

definition replicating :: "pass_env \<Rightarrow> string \<Rightarrow> bool" where
  "replicating env address \<longleftrightarrow>
     (\<exists>body. pe_metrics env (''http://'' @ address @ '':9404/metrics'') = Inr body
        \<and> prometheus_gauge body ''krabka_broker_offline_partitions_count'' = Some 0
        \<and> prometheus_gauge body ''krabka_broker_under_replicated_partitions'' = Some 0)"

lemma replication_of_Inr: "replication_of (pe_metrics env) as = Inr () \<longleftrightarrow> (\<forall>a\<in>set as. replicating env a)"
  by (induction as)
    (auto simp: replicating_def classify_replication_metrics_def classify_gauge_def METRICS_PORT_def int_to_string_def nat_to_string.simps digit_char_eval
      split: sum.splits option.splits if_splits)

text \<open>What \<open>Ready=True\<close> stands for.\<close>

definition serving :: "pass_env \<Rightarrow> node_pool \<Rightarrow> string \<Rightarrow> string \<Rightarrow> kafka \<Rightarrow> bool" where
  "serving env pool ns cluster parent \<longleftrightarrow>
     (\<exists>live. pe_live_statefulset env (cluster @ ''-'' @ pool_name pool) = Inr live
        \<and> unwrap_or 0 (Option.bind (Option.bind live sts_status) sss_ready) = np_replicas (knp_spec pool))
     \<and> (Controller \<in> set (np_roles (knp_spec pool)) \<longrightarrow>
         (\<exists>address q. operator_bootstrap_address env cluster ns = Inr address \<and> pe_live_quorum env address = Inr q
            \<and> (\<forall>n. np_node_id_start (knp_spec pool) \<le> n \<and> n < np_node_id_start (knp_spec pool) + np_replicas (knp_spec pool)
                 \<longrightarrow> (\<exists>v\<in>set (mq_voters q). qv_node_id v = n))))
     \<and> (Broker \<in> set (np_roles (knp_spec pool)) \<and> kspec_metrics_config (kf_spec parent) \<noteq> None \<longrightarrow>
         (\<exists>pods. pe_list_pods env cluster = Inr pods
            \<and> int (length (broker_addresses pods (cluster @ ''-'' @ pool_name pool))) = np_replicas (knp_spec pool)
            \<and> (\<forall>a\<in>set (broker_addresses pods (cluster @ ''-'' @ pool_name pool)). replicating env a)))"

lemma directories_cover:
  "fst (ensure_directories env cluster ns m) = Inr ids \<Longrightarrow> fst ` set ids = set ns \<union> fst ` set m"
proof (induction env cluster ns m rule: ensure_directories.induct)
  case (2 env cluster n ns m)
  have "fst ` set (bm_insert n d m) = insert n (fst ` set m)" for d :: uuid
    using keys_bm_insert[of n d m] by simp
  with 2 show ?case by (auto simp: fst_bind_log split: sum.splits)
qed simp

lemma directories_range: "fst (ensure_directories env cluster [a .. b] []) = Inr ids \<Longrightarrow> fst ` set ids = {a .. b}"
  by (drule directories_cover) simp

lemma derive_available:
  "derive_status live n = (a, b, ''Available'', m) \<Longrightarrow> unwrap_or 0 (Option.bind (Option.bind live sts_status) sss_ready) = n"
  by (auto simp: derive_status_def Let_def split: if_splits)

lemma readiness_True:
  assumes "fst (evaluate_pool_readiness env pool ns cluster ids pods metrics reason m) = Inr (''True'', r, m')"
  shows "reason = ''Available''"
    and "Broker \<in> set (np_roles (knp_spec pool)) \<and> metrics \<longrightarrow>
      broker_replication_health (pe_metrics env) pods (cluster @ ''-'' @ pool_name pool) (np_replicas (knp_spec pool)) = Inr ()"
    and "Controller \<in> set (np_roles (knp_spec pool)) \<longrightarrow>
      (\<exists>address q. operator_bootstrap_address env cluster ns = Inr address \<and> pe_live_quorum env address = Inr q
         \<and> (\<forall>n\<in>fst ` set ids. \<exists>v\<in>set (mq_voters q). qv_node_id v = n))"
  using assms
  by (auto simp: evaluate_pool_readiness_def quorum_readiness_def fst_then_log list_all_iff list_ex_iff
    split: if_splits sum.splits option.splits) (auto dest!: bspec)

definition ready_means_serving :: "pass_env \<Rightarrow> node_pool \<Rightarrow> string \<Rightarrow> string \<Rightarrow> pool_effect \<Rightarrow> bool" where
  "ready_means_serving env pool ns cluster f \<longleftrightarrow>
     (\<forall>st c. f = PatchPoolStatus st \<and> c \<in> set (nps_conditions st) \<and> cond_status c = ''True'' \<and> 0 \<le> np_replicas (knp_spec pool) \<longrightarrow>
        (\<exists>parent. pe_get_kafka env cluster = Inr (Some parent) \<and> serving env pool ns cluster parent))"

interpretation ready: calm_closed "list_all (ready_means_serving env pool ns cluster)" for env pool ns cluster
  by unfold_locales (auto simp: list_all_iff ready_means_serving_def)

lemma serving_if_ready:
  assumes "fst (evaluate_pool_readiness env pool ns cluster ids pods (kspec_metrics_config (kf_spec parent) \<noteq> None) reason m) = Inr (''True'', r, m')"
    and "pe_live_statefulset env (cluster @ ''-'' @ pool_name pool) = Inr live" "derive_status live (np_replicas (knp_spec pool)) = (a, b, reason, m)"
    and "pe_list_pods env cluster = Inr pods" "0 \<le> np_replicas (knp_spec pool)"
    and "fst ` set ids = {np_node_id_start (knp_spec pool) .. np_node_id_start (knp_spec pool) + np_replicas (knp_spec pool) - 1}"
  shows "serving env pool ns cluster parent"
  unfolding serving_def
proof (intro conjI impI)
  note parts = readiness_True[OF assms(1)]
  show "\<exists>live. pe_live_statefulset env (cluster @ ''-'' @ pool_name pool) = Inr live
        \<and> unwrap_or 0 (Option.bind (Option.bind live sts_status) sss_ready) = np_replicas (knp_spec pool)"
    using assms(2,3) parts(1) derive_available by blast
  show "\<exists>address q. operator_bootstrap_address env cluster ns = Inr address \<and> pe_live_quorum env address = Inr q
            \<and> (\<forall>n. np_node_id_start (knp_spec pool) \<le> n \<and> n < np_node_id_start (knp_spec pool) + np_replicas (knp_spec pool)
                 \<longrightarrow> (\<exists>v\<in>set (mq_voters q). qv_node_id v = n))" if "Controller \<in> set (np_roles (knp_spec pool))"
    using parts(3) that unfolding assms(6) by fastforce
  show "\<exists>pods. pe_list_pods env cluster = Inr pods
            \<and> int (length (broker_addresses pods (cluster @ ''-'' @ pool_name pool))) = np_replicas (knp_spec pool)
            \<and> (\<forall>a\<in>set (broker_addresses pods (cluster @ ''-'' @ pool_name pool)). replicating env a)"
    if "Broker \<in> set (np_roles (knp_spec pool)) \<and> kspec_metrics_config (kf_spec parent) \<noteq> None"
    using parts(2) that assms(4,5) by (auto simp: broker_replication_health_def Let_def replication_of_Inr split: if_splits)
qed

lemma publish_ready:
  assumes "pe_list_pods env cluster = Inr pods" "pe_get_kafka env cluster = Inr (Some parent)"
    and "fst ` set ids = {np_node_id_start (knp_spec pool) .. np_node_id_start (knp_spec pool) + np_replicas (knp_spec pool) - 1}"
  shows "logs (ready_means_serving env pool ns cluster) (publish_pool env pool ns cluster parent bootstrap ids pods)"
proof -
  let ?L = "\<lambda>m. logs (ready_means_serving env pool ns cluster) m"
  have eval: "?L (evaluate_pool_readiness env pool ns cluster ids pods b r m)" for b r m
    by (rule ready.calm_only[OF readiness_calm])
  have secret: "?L (map_log BootstrapSecret x)" for x :: "unit quorum_step"
    by (rule ready.calm_only[OF logs_secret])
  have final: "?L (send env (PatchPoolStatus \<lparr>nps_conditions = [pool_condition env status r m'], nps_replicas = a, nps_ready_replicas = b\<rparr>))"
    if "fst (read (pe_live_statefulset env (cluster @ ''-'' @ pool_name pool))) = Inr live"
      "derive_status live (np_replicas (knp_spec pool)) = (a, b, reason, m)"
      "fst (evaluate_pool_readiness env pool ns cluster ids pods (kspec_metrics_config (kf_spec parent) \<noteq> None) reason m) = Inr (status, r, m')"
    for live a b reason m status r m'
  proof (rule logs_send)
    have "pe_live_statefulset env (cluster @ ''-'' @ pool_name pool) = Inr live"
      using that(1) by (auto simp: read_def split: sum.splits)
    with that assms show "ready_means_serving env pool ns cluster
        (PatchPoolStatus \<lparr>nps_conditions = [pool_condition env status r m'], nps_replicas = a, nps_ready_replicas = b\<rparr>)"
      by (auto simp: ready_means_serving_def pool_condition_def cond_status_condition simp del: append.simps intro!: exI[of _ parent] serving_if_ready)
  qed
  show ?thesis
    unfolding publish_pool_def Let_def
    by (auto simp: logs_plain eval secret simp del: append.simps map_log_simps split: prod.split intro!: logs_bind logs_then final)
qed

lemma replace_pods_ready:
  assumes "pe_list_pods env cluster = Inr pods" "pe_get_kafka env cluster = Inr (Some parent)"
    and "fst ` set ids = {np_node_id_start (knp_spec pool) .. np_node_id_start (knp_spec pool) + np_replicas (knp_spec pool) - 1}"
  shows "logs (ready_means_serving env pool ns cluster) (replace_pods env pool siblings pods ns cluster parent bootstrap ids live)"
proof -
  let ?L = "\<lambda>m. logs (ready_means_serving env pool ns cluster) m"
  have "?L (reconcile_controller_scale_down env pool siblings live ns cluster)"
    by (rule logs_weaken[OF scale_down_steady]) (auto simp: ready_means_serving_def list_all_iff)
  moreover have "?L (apply_workload env pool ns cluster parent live)"
    by (auto simp: apply_workload_def Let_def ready_means_serving_def intro!: logs_bind logs_then logs_send)
  moreover have "?L (refuse env (condition_for_validation_error now e) a)" for now e a
    by (rule ready.refused[OF validation_condition_false])
  ultimately show ?thesis
    using publish_ready[OF assms] unfolding replace_pods_def
    by (auto simp: split: sum.split option.split intro!: logs_bind logs_then)
qed

lemma retire_pool_ready: "logs (ready_means_serving env pool ns cluster) (retire_pool env pool parent ns cluster live pods)"
proof -
  let ?L = "\<lambda>m. logs (ready_means_serving env pool ns cluster) m"
  have "?L (release_pool env pool cluster a b c)" for a b c
    by (rule release_logs) (auto simp: ready_means_serving_def list_all_iff)
  moreover have "?L (reconcile_broker_drain env pool ns cluster x y z)" for x y z
    by (rule ready.calm_only[OF broker_drain_calm])
  moreover have "?L (retire_voters env ns cluster x y)" for x y
    using retire_voters_steps[of env ns cluster x y] by (auto simp: retires_def list_all_iff ready_means_serving_def)
  ultimately show ?thesis
    unfolding retire_pool_def Let_def by (auto intro!: logs_bind split: option.split)
qed

text \<open>C13: (functional) When a pass publishes \<open>Ready=True\<close> for a pool, then the StatefulSet reports all replicas ready; a
  controller pool has every one of its node ids among the voters of the metadata quorum; and a broker pool of a cluster
  with metrics has one address per replica, each of which publishes zero offline and zero under-replicated partitions.\<close>

theorem ready_pool_serves:
  assumes "PatchPoolStatus st \<in> set (snd (pool_reconcile_inner env pool))" "c \<in> set (nps_conditions st)" "cond_status c = ''True''"
    and "meta_label (knp_meta pool) ''krabka.io/cluster'' = Some cluster"
  shows "\<exists>parent. pe_get_kafka env cluster = Inr (Some parent)
    \<and> serving env pool (unwrap_or ''default'' (meta_namespace (knp_meta pool))) cluster parent"
proof -
  let ?ns = "unwrap_or ''default'' (meta_namespace (knp_meta pool))"
  have "logs (ready_means_serving env pool ?ns cluster) (pool_reconcile_inner env pool)"
    by (rule ready.pass[OF assms(4)])
      (auto intro!: retire_pool_ready replace_pods_ready[OF _ _ directories_range])
  moreover have "0 \<le> np_replicas (knp_spec pool)"
  proof (cases "validate_pool pool")
    case (Inl e)
    then have "logs calm (pool_reconcile_inner env pool)"
      using logs_refuse[OF validation_condition_false] by (simp add: pool_reconcile_inner_def)
    with assms(1-3) show ?thesis by (auto simp: list_all_iff)
  next
    case (Inr u)
    then show ?thesis using validate_pool_bounds(1)[of pool] by simp
  qed
  ultimately show ?thesis
    using assms(1-3) unfolding list_all_iff ready_means_serving_def by blast
qed

section \<open>Where the pass gets stuck\<close>

lemma removed_ids_differ:
  assumes "desired < a" "desired < b" "a \<noteq> b" "0 \<le> start" "0 \<le> desired" "start + a < 2 ^ 31" "start + b < 2 ^ 31"
  shows "removed_broker_ids start a desired \<noteq> removed_broker_ids start b desired"
proof
  assume "removed_broker_ids start a desired = removed_broker_ids start b desired"
  then have "set (removed_broker_ids start a desired) = set (removed_broker_ids start b desired)" by simp
  moreover have "start + a - 1 \<in> set (removed_broker_ids start a desired)" "start + b - 1 \<in> set (removed_broker_ids start b desired)"
    using assms by (auto simp: removed_broker_ids_def saturating_i32_def)
  ultimately show False
    using assms by (auto simp: removed_broker_ids_def saturating_i32_def)
qed

text \<open>C39: (error) The proposal that drains brokers is named after the number of replicas that stay, and only the deletion of
  the pool removes it. So when a pool that was once scaled from \<open>earlier\<close> down to \<open>desired\<close> replicas is scaled up to another size
  and down to \<open>desired\<close> again, the pass finds the old proposal, sees that its brokers are not the ones to remove, and
  reports \<open>BrokerDrainBlocked\<close>. It neither replaces nor deletes the proposal, so every later pass does the same.\<close>

theorem stale_drain_blocks_scale_down:
  assumes "pe_get_drain env (broker_drain_name cluster (pool_name pool) (np_replicas (knp_spec pool))) = Inr (Some r)"
    and "kr_spec r = kr_spec (new_drain (broker_drain_name cluster (pool_name pool) (np_replicas (knp_spec pool))) ns cluster (pool_name pool)
       (removed_broker_ids (live_start pool live) earlier (np_replicas (knp_spec pool))))"
    and "Option.bind (Option.bind live sts_spec) ss_replicas = Some observed"
    and "np_replicas (knp_spec pool) < earlier" "np_replicas (knp_spec pool) < observed" "earlier \<noteq> observed"
    and "0 \<le> np_replicas (knp_spec pool)" "0 \<le> live_start pool live" "live_start pool live + earlier < 2 ^ 31" "live_start pool live + observed < 2 ^ 31"
    and "odd (live_roles pool live)" and "\<And>st. pe_fails env (PatchPoolStatus st) = None"
  shows "reconcile_controller_scale_down env pool siblings live ns cluster =
    (Inr (Some (Requeue 1000000000)),
     [PatchPoolStatus \<lparr>nps_conditions = [condition (pe_now env) ''Ready'' ''False'' ''BrokerDrainBlocked''
        ''managed remove-brokers proposal does not match the requested drain''], nps_replicas = None, nps_ready_replicas = None\<rparr>])"
proof -
  have "\<not> managed_drain_matches r (removed_broker_ids (live_start pool live) observed (np_replicas (knp_spec pool))) (cluster @ ''-rebalancer-auth'', ''token'')"
    using removed_ids_differ[of "np_replicas (knp_spec pool)" earlier observed "live_start pool live"] assms(2,4-10)
    by (simp add: managed_drain_matches_def new_drain_def)
  then have "reconcile_broker_drain env pool ns cluster observed (np_replicas (knp_spec pool)) (live_start pool live)
      = patch_broker_drain_condition env ''BrokerDrainBlocked'' ''managed remove-brokers proposal does not match the requested drain''"
    using assms(1,5) by (simp add: reconcile_broker_drain_def Let_def read_def)
  then show ?thesis
    using assms(3,5,11,12)
    by (simp add: reconcile_controller_scale_down_def live_start_def live_roles_def Let_def patch_broker_drain_condition_def
      patch_status_for_pool_def send_def attempt_def pool_condition_def then_log_def ret_log_def emit_def bind_log_def)
qed

text \<open>C40: (error) A pass checks the spec and the cluster label of a pool before it looks at the deletion timestamp. A pool
  that is being deleted while its spec is invalid or its label is gone only gets a status: nothing is scaled down and the finalizer stays,
  and the controller waits for a change, so the deletion hangs until somebody repairs the object.\<close>

theorem invalid_pool_never_released:
  assumes "(\<exists>e. validate_pool pool = Inl e) \<or> meta_label (knp_meta pool) ''krabka.io/cluster'' = None"
  shows "(\<forall>f\<in>set (snd (pool_reconcile_inner env pool)). \<exists>st. f = PatchPoolStatus st)
    \<and> (\<forall>a. fst (pool_reconcile_inner env pool) = Inr a \<longrightarrow> a = AwaitChange)"
proof -
  have "(\<forall>f\<in>set (snd (refuse env c AwaitChange)). \<exists>st. f = PatchPoolStatus st)
      \<and> (\<forall>a. fst (refuse env c AwaitChange) = Inr a \<longrightarrow> a = AwaitChange)" for c
    by (auto simp: refuse_def patch_status_for_pool_def send_def log_simps split: sum.splits option.splits if_splits)
  with assms show ?thesis
    by (auto simp: pool_reconcile_inner_def Let_def split: sum.splits option.splits)
qed

section \<open>Instances\<close>

definition pool_kafka :: kafka where
  "pool_kafka = sample_kafka\<lparr>kf_meta := (plain_meta ''c'')\<lparr>meta_uid := Some ''u'', meta_namespace := Some ''ns''\<rparr>,
     kf_status := Some \<lparr>kst_conditions = [], kst_listeners = [], kst_metadata_version = Some ''4.0'', kst_target_metadata_version = None\<rparr>\<rparr>"

definition render_env :: pool_env where
  "render_env = \<lparr>pw_levels = \<lparr>from_version_string = (\<lambda>_. Some 25), metadata_version_min = 7, online_downgrade_min_level = 15\<rparr>,
     pw_max_level = ''4.0'', pw_queue = Inr, pw_frame = Inr, pw_secs = (\<lambda>_. 0)\<rparr>"

text \<open>A pool with one node of both roles that runs two pods, after broker 1 is drained.\<close>

definition two_to_one :: node_pool where
  "two_to_one = (let p = sample_pool ''p'' 0 1 [Controller, Broker]
     in p\<lparr>knp_meta := (knp_meta p)\<lparr>meta_annotations := Some [(''krabka.io/unregistered-brokers'', ''1'')]\<rparr>\<rparr>)"

definition live_two :: stateful_set where
  "live_two = \<lparr>sts_meta = plain_meta ''c-p'',
     sts_spec = Some \<lparr>ss_service_name = ''c-broker-headless'', ss_replicas = Some 2, ss_pod_management_policy = None, ss_selector = [],
       ss_template = \<lparr>pt_meta = Some ((plain_meta ''p'')\<lparr>meta_annotations := Some [(''krabka.io/node-id-start'', ''0''), (''krabka.io/process-roles'', ''broker,controller'')]\<rparr>),
         pt_spec = None\<rparr>,
       ss_volume_claim_templates = None, ss_retention_policy = None\<rparr>,
     sts_status = None\<rparr>"

definition done_drain :: kafka_rebalance where
  "done_drain = (new_drain ''c-p-drain-to-1'' ''ns'' ''c'' ''p'' [1])\<lparr>kr_status := Some
     \<lparr>kr_conditions = [condition ''t'' ''Ready'' ''True'' ''Ready'' []], kr_observed_generation = None, kr_session_id = None, kr_optimization = None\<rparr>\<rparr>"

definition sample_pass_env :: "quorum_voter list \<Rightarrow> stateful_set option \<Rightarrow> stateful_set option \<Rightarrow> pass_env" where
  "sample_pass_env voters got later = \<lparr>pe_now = ''t'',
     pe_config = \<lparr>pcf_error_requeue = 1, pcf_dependency_requeue = 5, pcf_broker_image = None, pcf_shell_image = None\<rparr>,
     pe_get_kafka = (\<lambda>_. Inr (Some pool_kafka)), pe_list_pools = (\<lambda>_. Inr [two_to_one]),
     pe_list_statefulsets = (\<lambda>_. Inr []), pe_list_pods = (\<lambda>_. Inr []), pe_list_pool_pods = (\<lambda>_ _. Inr []),
     pe_get_statefulset = (\<lambda>_. Inr got), pe_live_statefulset = (\<lambda>_. Inr later), pe_get_service = (\<lambda>_. Inr None),
     pe_get_drain = (\<lambda>_. Inr (Some done_drain)), pe_fails = (\<lambda>_. None), pe_connect = (\<lambda>_. None),
     pe_quorum = (\<lambda>_. Inr \<lparr>mq_leader = 0, mq_voters = voters\<rparr>),
     pe_assignments = Inr [\<lparr>pas_topic = ''t'', pas_partition = 0, pas_replicas = [0]\<rparr>], pe_reassignments = Inr [],
     pe_unregister = (\<lambda>_. None), pe_remove_voter = (\<lambda>_ _. None),
     pe_live_quorum = (\<lambda>_. Inr \<lparr>mq_leader = 0, mq_voters = voters\<rparr>), pe_metrics = (\<lambda>_. Inr []), pe_show = (\<lambda>_. []),
     pe_secrets = (\<lambda>_. sample_quorum_env fresh_cluster_secret), pe_render = render_env\<rparr>"

lemma two_to_one_checks:
  "validate_pool two_to_one = Inr ()" "meta_label (knp_meta two_to_one) ''krabka.io/cluster'' = Some ''c''"
  "meta_namespace (knp_meta two_to_one) = Some ''ns''"
  "meta_deletion_timestamp (knp_meta two_to_one) = None" "pool_has_finalizer two_to_one" "is_controller two_to_one"
  "version_gate t pool_kafka = GateCleared" "validate_topology [two_to_one] [] [] = Inr ()"
  "select_quorum_bootstrap [two_to_one] = Some \<lparr>qc_node_id = 0, qc_pool = ''p''\<rparr>"
  "np_node_id_start (knp_spec two_to_one) = 0" "np_replicas (knp_spec two_to_one) = 1"
  "validate_storage_change (np_storage (knp_spec two_to_one)) (observed_claims (Some live_two)) = Inr ()"
  "observed_statefulset_identity live_two = (Some 0, Some 3)"
  "pool_name two_to_one = ''p''" "removed_broker_ids 0 2 1 = [1]"
  "recorded_unregistrations two_to_one = [1]" "broker_drain_name ''c'' ''p'' 1 = ''c-p-drain-to-1''"
  "current_state done_drain = Ready" "managed_drain_matches done_drain [1] (''c-rebalancer-auth'', ''token'')"
  "Option.bind (kr_status done_drain) kr_observed_generation = meta_generation (kr_meta done_drain)"
  "role_mask (np_roles (knp_spec two_to_one)) = 3" "np_roles (knp_spec two_to_one) = [Controller, Broker]" "np_image (knp_spec two_to_one) = None"
  by code_simp+

lemma two_to_one_renders: "\<exists>sts. render_statefulset_with_shell render_env pool_kafka two_to_one i s = Inr sts"
  by (simp add: render_statefulset_with_shell_def Let_def two_to_one_def sample_pool_def render_env_def pool_kafka_def client_resource_policy_def
    claims_agree_def storage_delete_claim_def owner_of_pool_def owner_ref_def plain_meta_def ok_or_def sample_kafka_def sample_kafka_spec_def
    tier_local_def split: prod.split)

lemma sample_secrets:
  "ensure_quorum_bootstrap_state (sample_quorum_env fresh_cluster_secret) ''c'' \<lparr>qc_node_id = 0, qc_pool = ''p''\<rparr>
    = (Inr \<lparr>qs_controller = \<lparr>qc_node_id = 0, qc_pool = ''p''\<rparr>, qs_initialized = False\<rparr>,
       [MergeStringData ''c-cluster-id'' [(NODE_ID_KEY, ''0''), (POOL_KEY, ''p''), (INITIALIZED_KEY, ''false'')]])"
  "ensure_quorum_directory_id (sample_quorum_env fresh_cluster_secret) ''c'' 0
    = (Inr 7, [MergeStringData ''c-cluster-id'' [(''quorumDirectoryId-0'', ''7'')]])"
  "uuid_from_secret (qe_parse_uuid (sample_quorum_env fresh_cluster_secret)) fresh_cluster_secret = Inr 7"
  by code_simp+

lemma env_parts:
  "pe_now (sample_pass_env vs g l) = ''t''" "pe_get_kafka (sample_pass_env vs g l) x = Inr (Some pool_kafka)"
  "pe_list_pools (sample_pass_env vs g l) x = Inr [two_to_one]" "pe_list_statefulsets (sample_pass_env vs g l) x = Inr []"
  "pe_list_pods (sample_pass_env vs g l) x = Inr []" "pe_get_statefulset (sample_pass_env vs g l) x = Inr g"
  "pe_get_service (sample_pass_env vs g l) x = Inr None" "pe_get_drain (sample_pass_env vs g l) x = Inr (Some done_drain)"
  "pe_fails (sample_pass_env vs g l) f = None" "pe_connect (sample_pass_env vs g l) x = None"
  "pe_quorum (sample_pass_env vs g l) x = Inr \<lparr>mq_leader = 0, mq_voters = vs\<rparr>"
  "pe_assignments (sample_pass_env vs g l) = Inr [\<lparr>pas_topic = ''t'', pas_partition = 0, pas_replicas = [0]\<rparr>]"
  "pe_reassignments (sample_pass_env vs g l) = Inr []" "pe_secrets (sample_pass_env vs g l) c = sample_quorum_env fresh_cluster_secret"
  "pe_render (sample_pass_env vs g l) = render_env" "pe_remove_voter (sample_pass_env vs g l) x n = None"
  "pe_live_statefulset (sample_pass_env vs g l) x = Inr l" "pe_live_quorum (sample_pass_env vs g l) x = Inr \<lparr>mq_leader = 0, mq_voters = vs\<rparr>"
  "pe_list_pool_pods (sample_pass_env vs g l) x y = Inr []"
  by (simp_all add: sample_pass_env_def)

lemma sample_drain: "reconcile_broker_drain (sample_pass_env vs g l) two_to_one ''ns'' ''c'' 2 1 0 = ret_log None"
  by (simp add: reconcile_broker_drain_def finish_drain_def two_to_one_checks env_parts read_def ask_def connect_def Let_def
    operator_bootstrap_address_def then_log_def)

lemma live_two_replicas: "Option.bind (sts_spec live_two) ss_replicas = Some 2"
  by (simp add: live_two_def)

lemma sample_scale_down:
  "reconcile_controller_scale_down (sample_pass_env vs g l) two_to_one [two_to_one] (Some live_two) ''ns'' ''c''
    = remove_controllers (sample_pass_env vs g l) two_to_one [two_to_one] ''ns'' ''c'' 2 0"
  by (simp add: reconcile_controller_scale_down_def live_two_replicas two_to_one_checks Let_def sample_drain)

definition voter0 :: quorum_voter where
  "voter0 = \<lparr>qv_node_id = 0, qv_directory_id = 7\<rparr>"

definition voter1 :: quorum_voter where
  "voter1 = \<lparr>qv_node_id = 1, qv_directory_id = 8\<rparr>"

lemma sample_address: "operator_bootstrap_address (sample_pass_env vs g l) ''c'' ''ns'' = Inr ''c-broker-headless.ns.svc.cluster.local:9091''"
  by (simp add: operator_bootstrap_address_def env_parts OPERATOR_LISTENER_PORT_def int_to_string_def nat_to_string.simps digit_char_eval)

lemma sample_cluster_uuid: "cluster_uuid (sample_pass_env vs g l) ''c'' = Inr 7"
  by (simp add: cluster_uuid_def env_parts sample_secrets) (simp add: sample_quorum_env_def sample_secrets[unfolded sample_quorum_env_def, simplified])

lemma sample_removal:
  "remove_controllers (sample_pass_env vs g l) two_to_one [two_to_one] ''ns'' ''c'' 2 0 =
     (case voter_in \<lparr>mq_leader = 0, mq_voters = vs\<rparr> 1 1 of
        None \<Rightarrow> ret_log None
      | Some target \<Rightarrow> retire_target (sample_pass_env vs g l) two_to_one [two_to_one] ''c'' 2 0 7
          ''c-broker-headless.ns.svc.cluster.local:9091'' \<lparr>mq_leader = 0, mq_voters = vs\<rparr> target)"
  by (simp add: remove_controllers_def sample_address sample_cluster_uuid env_parts two_to_one_checks voter_range_def checked_i32_def in_i32_def
    connect_def ask_def then_log_def)

lemma sample_pass:
  "snd (pool_reconcile_inner (sample_pass_env vs g l) two_to_one) =
    map BootstrapSecret [MergeStringData ''c-cluster-id'' [(NODE_ID_KEY, ''0''), (POOL_KEY, ''p''), (INITIALIZED_KEY, ''false'')],
      MergeStringData ''c-cluster-id'' [(''quorumDirectoryId-0'', ''7'')]]
    @ snd (replace_pods (sample_pass_env vs g l) two_to_one [two_to_one] [] ''ns'' ''c'' pool_kafka
        \<lparr>qs_controller = \<lparr>qc_node_id = 0, qc_pool = ''p''\<rparr>, qs_initialized = False\<rparr> [(0, 7)] g)"
  by (simp add: pool_reconcile_inner_def Let_def two_to_one_checks env_parts read_def reconcile_pool_in_def roll_out_pool_def
    snd_bind_log fst_bind_log map_log_def sample_secrets)

lemma sample_applied:
  "\<exists>sts. ApplyStatefulSet ''c-p'' sts \<in> set (snd (pool_reconcile_inner (sample_pass_env [voter0] (Some live_two) None) two_to_one))"
proof -
  have none: "voter_in \<lparr>mq_leader = 0, mq_voters = [voter0]\<rparr> 1 1 = None"
    by (simp add: voter_in_None voter0_def)
  obtain sts where sts: "render_statefulset_with_shell render_env pool_kafka two_to_one BROKER_IMAGE SHELL_IMAGE = Inr sts"
    using two_to_one_renders by blast
  have "pcf_broker_image (pe_config (sample_pass_env [voter0] (Some live_two) None)) = None" "pcf_shell_image (pe_config (sample_pass_env [voter0] (Some live_two) None)) = None"
    by (simp_all add: sample_pass_env_def)
  then have "\<exists>sts. ApplyStatefulSet ''c-p'' sts \<in> set (snd (apply_workload (sample_pass_env [voter0] (Some live_two) None) two_to_one ''ns'' ''c'' pool_kafka (Some live_two)))"
    by (simp add: apply_workload_def Let_def two_to_one_checks env_parts sts send_def attempt_def then_log_def set_snd_bind_log or_else_def) blast
  then show ?thesis
    by (auto simp: sample_pass replace_pods_def two_to_one_checks sample_scale_down sample_removal none snd_then_log)
qed


theorem voter_removal_guarded_witness:
  "\<exists>address cid. filter is_removal (snd (pool_reconcile_inner (sample_pass_env [voter0, voter1] (Some live_two) None) two_to_one)) = [RemoveVoter address cid 1 8]"
proof -
  have some: "voter_in \<lparr>mq_leader = 0, mq_voters = [voter0, voter1]\<rparr> 1 1 = Some voter1"
    by (simp add: voter_in_def voter0_def voter1_def)
  have "\<exists>address cid. RemoveVoter address cid 1 8 \<in> set (snd (retire_target (sample_pass_env [voter0, voter1] (Some live_two) None) two_to_one [two_to_one] ''c'' 2 0 7 a
      \<lparr>mq_leader = 0, mq_voters = [voter0, voter1]\<rparr> voter1))" for a
    by (simp add: retire_target_def Let_def connect_def env_parts then_log_def remove_voter_def try_log_simps voter1_def) blast
  from this[of "''c-broker-headless.ns.svc.cluster.local:9091''"] obtain address cid
    where "RemoveVoter address cid 1 8 \<in> set (snd (retire_target (sample_pass_env [voter0, voter1] (Some live_two) None) two_to_one [two_to_one] ''c'' 2 0 7
      ''c-broker-headless.ns.svc.cluster.local:9091'' \<lparr>mq_leader = 0, mq_voters = [voter0, voter1]\<rparr> voter1))" by blast
  then have "RemoveVoter address cid 1 8 \<in> set (snd (pool_reconcile_inner (sample_pass_env [voter0, voter1] (Some live_two) None) two_to_one))"
    by (simp add: sample_pass replace_pods_def two_to_one_checks sample_scale_down sample_removal some set_snd_bind_log)
  from voter_removal_guarded[OF this two_to_one_checks(2)] show ?thesis by blast
qed

text \<open>The same pool, deleted when nothing of it runs any more, and settled with its one node.\<close>

definition dying :: node_pool where
  "dying = two_to_one\<lparr>knp_meta := (knp_meta two_to_one)\<lparr>meta_deletion_timestamp := Some ''t''\<rparr>\<rparr>"

lemma dying_checks:
  "validate_pool dying = Inr ()" "meta_label (knp_meta dying) ''krabka.io/cluster'' = Some ''c''" "meta_namespace (knp_meta dying) = Some ''ns''"
  "meta_deletion_timestamp (knp_meta dying) \<noteq> None" "pool_has_finalizer dying" "pool_name dying = ''p''"
  "meta_finalizers (knp_meta dying) = Some [POOL_FINALIZER]" "np_replicas (knp_spec dying) = 1" "deletion_identity dying None [] = (0, 3)"
  "meta_deletion_timestamp (kf_meta pool_kafka) = None"
  "deletion_replicas None [] ''c-p'' = 0"
  by code_simp+

lemma dying_released: "PatchPoolFinalizers [] \<in> set (snd (pool_reconcile_inner (sample_pass_env [] None None) dying))"
proof -
  have "retire_voters (sample_pass_env [] None None) ''ns'' ''c'' 0 1 = ret_log None"
    by (simp add: retire_voters_def Let_def sample_cluster_uuid sample_address env_parts voter_in_def checked_i32_def in_i32_def MAX_NODE_ID_def)
  then show ?thesis
    by (simp add: pool_reconcile_inner_def Let_def dying_checks env_parts read_def reconcile_deletion_def retire_pool_def release_pool_def
      delete_deletion_rebalance_def set_finalizer_def send_def attempt_def then_log_def set_snd_bind_log)
qed

theorem deleted_pool_released_last_witness:
  "PatchPoolFinalizers [] \<in> set (snd (pool_reconcile_inner (sample_pass_env [] None None) dying))
   \<and> pool_gone (sample_pass_env [] None None) dying ''ns'' ''c'' []"
  using deleted_pool_released_last[OF dying_released _ dying_checks(4,2) env_parts(2) dying_checks(10), of _ "[]"] dying_released
  by (simp add: dying_checks env_parts)

definition live_one :: stateful_set where
  "live_one = live_two\<lparr>sts_status := Some \<lparr>sss_replicas = 1, sss_available = None, sss_current = None, sss_ready = Some 1, sss_updated = None, sss_observed_generation = None,
     sss_current_revision = None, sss_update_revision = None\<rparr>\<rparr>"

theorem ready_pool_serves_witness:
  "\<exists>st c. PatchPoolStatus st \<in> set (snd (pool_reconcile_inner (sample_pass_env [voter0] None (Some live_one)) two_to_one))
     \<and> c \<in> set (nps_conditions st) \<and> cond_status c = ''True''
     \<and> serving (sample_pass_env [voter0] None (Some live_one)) two_to_one ''ns'' ''c'' pool_kafka"
proof -
  let ?env = "sample_pass_env [voter0] None (Some live_one)"
  obtain sts where sts: "render_statefulset_with_shell render_env pool_kafka two_to_one BROKER_IMAGE SHELL_IMAGE = Inr sts"
    using two_to_one_renders by blast
  have images: "pcf_broker_image (pe_config ?env) = None" "pcf_shell_image (pe_config ?env) = None"
    by (simp_all add: sample_pass_env_def)
  have pdb: "\<exists>pdb. render_pod_disruption_budget two_to_one ''ns'' ''c'' = Inr pdb"
    by (simp add: render_pod_disruption_budget_def two_to_one_def sample_pool_def owner_of_pool_def owner_ref_def Let_def)
  have applied: "fst (apply_workload ?env two_to_one ''ns'' ''c'' pool_kafka None) = Inr ()"
    using pdb by (auto simp: apply_workload_def Let_def two_to_one_checks env_parts sts images send_def attempt_def fst_then_log fst_bind_log or_else_def)
  have derived: "derive_status (Some live_one) 1 = (Some 1, Some 1, ''Available'', ''1 broker(s) ready'')"
    by code_simp
  have quorum: "evaluate_pool_readiness ?env two_to_one ''ns'' ''c'' [(0, 7)] [] False ''Available'' m = ret_log (''True'', ''Available'', m)" for m
    by (simp add: evaluate_pool_readiness_def two_to_one_checks quorum_readiness_def sample_address env_parts voter0_def)
  have metrics: "kspec_metrics_config (kf_spec pool_kafka) = None"
    by (simp add: pool_kafka_def sample_kafka_def sample_kafka_spec_def)
  have storage: "validate_storage_change (np_storage (knp_spec two_to_one)) (observed_claims None) = Inr ()"
    by code_simp
  let ?st = "\<lparr>nps_conditions = [pool_condition ?env ''True'' ''Available'' ''1 broker(s) ready''], nps_replicas = Some 1, nps_ready_replicas = Some 1\<rparr>"
  have marked: "fst (mark_quorum_bootstrap_initialized (sample_quorum_env fresh_cluster_secret) ''c'') = Inr ()"
    by (simp add: mark_quorum_bootstrap_initialized_def merge_string_data_def sample_quorum_env_def attempt_def)
  have "PatchPoolStatus ?st \<in> set (snd (publish_pool ?env two_to_one ''ns'' ''c'' pool_kafka
      \<lparr>qs_controller = \<lparr>qc_node_id = 0, qc_pool = ''p''\<rparr>, qs_initialized = False\<rparr> [(0, 7)] []))"
    by (simp add: publish_pool_def Let_def env_parts two_to_one_checks read_def derived quorum metrics set_snd_then_log marked send_def attempt_def)
  then have "PatchPoolStatus ?st \<in> set (snd (pool_reconcile_inner ?env two_to_one))"
    by (simp add: sample_pass replace_pods_def storage reconcile_controller_scale_down_def set_snd_then_log applied)
  moreover have "cond_status (pool_condition ?env ''True'' ''Available'' ''1 broker(s) ready'') = ''True''"
    by (simp add: pool_condition_def cond_status_condition)
  ultimately show ?thesis
    using ready_pool_serves[of ?st ?env two_to_one "pool_condition ?env ''True'' ''Available'' ''1 broker(s) ready''" "''c''"]
    by (auto simp: two_to_one_checks env_parts)
qed

theorem stale_drain_blocks_scale_down_witness:
  "fst (reconcile_controller_scale_down ((sample_pass_env [voter0] (Some live_two) None)\<lparr>pe_get_drain := \<lambda>_. Inr (Some
       (new_drain ''c-p-drain-to-1'' ''ns'' ''c'' ''p'' [1, 2]))\<rparr>) two_to_one [two_to_one] (Some live_two) ''ns'' ''c'') = Inr (Some (Requeue 1000000000))"
proof -
  have "removed_broker_ids 0 3 1 = [1, 2]" by code_simp
  then show ?thesis
    by (subst stale_drain_blocks_scale_down[where earlier = 3 and observed = 2 and r = "new_drain ''c-p-drain-to-1'' ''ns'' ''c'' ''p'' [1, 2]"])
      (simp_all add: two_to_one_checks live_start_def live_roles_def live_two_replicas env_parts)
qed

theorem invalid_pool_never_released_witness:
  "PatchPoolFinalizers [] \<notin> set (snd (pool_reconcile_inner (sample_pass_env [] None None) (dying\<lparr>knp_spec := (knp_spec dying)\<lparr>np_replicas := 0\<rparr>\<rparr>)))
   \<and> PatchPoolFinalizers [] \<in> set (snd (pool_reconcile_inner (sample_pass_env [] None None) dying))"
proof -
  have "\<exists>e. validate_pool (dying\<lparr>knp_spec := (knp_spec dying)\<lparr>np_replicas := 0\<rparr>\<rparr>) = Inl e"
    by (simp add: validate_pool_def dying_def two_to_one_def sample_pool_def Let_def)
  with invalid_pool_never_released[of "dying\<lparr>knp_spec := (knp_spec dying)\<lparr>np_replicas := 0\<rparr>\<rparr>" "sample_pass_env [] None None"] dying_released
  show ?thesis by blast
qed

end
