(* ===== verification/Kafka_Pass.thy ===== *)
theory Kafka_Pass
  imports Kafka_Version Config_Hash Side_Resources User_Credentials Broker_Keystore Quorum_Bootstrap
begin

text \<open>
  The pass of the Kafka controller (\<open>controller/kafka.rs\<close>): Services, listener validation, the cluster id, the version gate and
  the metadata version, both certificate authorities with the user certificates that follow them, the listener resources
  with the keystore and the ConfigMap, the adoption of the pools, and the status. It composes what the other theories
  define; their effects keep their types.
\<close>

section \<open>Environment and effects\<close>

record ca_status =
  cas_not_after :: string
  cas_generated :: bool
  cas_cert_generation :: u64
  cas_key_generation :: u64
  cas_rotation_phase :: "string option"
  cas_trust_anchors :: "nat option"

text \<open>The whole status: what other controllers read of it comes first.\<close>

record cluster_status = kafka_status +
  cls_replicas :: "int option"
  cls_ready_replicas :: "int option"
  cls_listener_addresses :: "(string \<times> int) list list"
  cls_cluster_ca :: "ca_status option"
  cls_clients_ca :: "ca_status option"
  cls_kafka_version :: "string option"

datatype upgrade_type = Upgrade | SafeDowngrade

datatype kafka_effect =
    ApplyService string service
  | ApplyIngress string ingress
  | ApplyRoute string route
  | ApplyConfigMap string config_map
  | CreateClusterId string secret
  | ApplyTrustSecret string secret
  | CaWrite ca_effect
  | CertWrite user_effect
  | KeystoreWrite keystore_effect
  | MarkLeafs string u64
  | Adopt adopt_effect
  | SideWrite side_effect
  | StripAnnotations "string list"
  | WarningEvent string string
  | UpdateMetadataVersion int upgrade_type
  | PatchKafkaStatus cluster_status

record kafka_env =
  kp_now :: string
  kp_time :: time
  kp_dependency_requeue :: time
  kp_drift_requeue :: time
  kp_levels :: metadata_levels
  kp_sha256_hex :: "string \<Rightarrow> string"
  kp_rule_ok :: "string \<Rightarrow> bool"
  kp_check_manager :: "topic_metadata_manager \<Rightarrow> string + unit"
  kp_tuning :: tuning_env
  kp_render :: render_env
  kp_status :: "kube_error + cluster_status option"
  kp_get_secret :: "string \<Rightarrow> kube_error + secret option"
  kp_parse_uuid :: "string \<Rightarrow> string + uuid"
  kp_print_uuid :: "uuid \<Rightarrow> string"
  kp_new_uuid :: uuid
  kp_pools :: "kube_error + node_pool list"
  kp_statefulsets :: "kube_error + stateful_set list"
  kp_pods :: "kube_error + pod list"
  kp_users :: "kube_error + kafka_user list"
  kp_ca :: "which_ca \<Rightarrow> ca_env"
  kp_certs :: user_env
  kp_keystore :: keystore_env
  kp_addresses :: address_env
  kp_nodes :: "kube_error + kube_node list"
  kp_cluster_pods :: "kube_error + pod list"
  kp_get_service :: "string \<Rightarrow> kube_error + service option"
  kp_side :: side_env
  kp_fails :: "kafka_effect \<Rightarrow> kube_error option"
  kp_adopt_fails :: "string \<Rightarrow> kube_error option"
  kp_connect :: "string \<Rightarrow> string option"
  kp_update_features :: "int \<Rightarrow> upgrade_type \<Rightarrow> string option"
  kp_show :: "reconcile_error \<Rightarrow> string"
  kp_show_topology :: "pool_validation_error \<Rightarrow> string"

type_synonym 'a kafka_step = "(reconcile_error, 'a, kafka_effect) logged"

datatype 'a phase_result = PhaseReady 'a | PhaseDone action

definition kafka_send :: "kafka_env \<Rightarrow> kafka_effect \<Rightarrow> unit kafka_step" where
  "kafka_send env f = attempt Kube (kp_fails env f) f"

definition kafka_read :: "kube_error + 'a \<Rightarrow> 'a kafka_step" where
  "kafka_read r = lift_log (case r of Inl e \<Rightarrow> Inl (Kube e) | Inr x \<Rightarrow> Inr x)"

definition warning_event :: "kafka_env \<Rightarrow> string \<Rightarrow> string \<Rightarrow> unit kafka_step" where
  "warning_event env reason message =
     (if kp_fails env (WarningEvent reason message) = None then emit (WarningEvent reason message) else ret_log ())"

fun warning_events :: "kafka_env \<Rightarrow> string \<Rightarrow> string list \<Rightarrow> unit kafka_step" where
  "warning_events env reason [] = ret_log ()"
| "warning_events env reason (m # ms) = then_log (warning_event env reason m) (warning_events env reason ms)"

definition default_status :: cluster_status where
  "default_status = \<lparr>kst_conditions = [], kst_listeners = [], kst_metadata_version = None, kst_target_metadata_version = None,
     cls_replicas = None, cls_ready_replicas = None, cls_listener_addresses = [], cls_cluster_ca = None, cls_clients_ca = None,
     cls_kafka_version = None\<rparr>"

definition patch_status_with_condition :: "kafka_env \<Rightarrow> kafka_condition \<Rightarrow> unit kafka_step" where
  "patch_status_with_condition env c =
     bind_log (kafka_read (kp_status env)) (\<lambda>status.
       let current = unwrap_or default_status status in
       kafka_send env (PatchKafkaStatus (current\<lparr>kst_conditions := filter (\<lambda>d. cond_type d \<noteq> cond_type c) (kst_conditions current) @ [c]\<rparr>)))"

definition dependency_missing :: "kafka_env \<Rightarrow> kafka_condition \<Rightarrow> action option kafka_step" where
  "dependency_missing env c =
     then_log (patch_status_with_condition env c) (ret_log (Some (requeue (kp_dependency_requeue env))))"

section \<open>The cluster id\<close>

definition render_secret :: "kafka_env \<Rightarrow> kafka \<Rightarrow> uuid \<Rightarrow> reconcile_error + secret" where
  "render_secret env k u =
     bind_result (owner_of_kafka k) (\<lambda>owner.
       Inr \<lparr>secret_meta = owned_meta (kf_meta k) (kafka_name k @ ''-cluster-id'') (common_labels (kafka_name k) (kspec_kafka_version (kf_spec k)) None) owner,
            secret_type = Some ''Opaque'', secret_data = Some [(''clusterId'', kp_print_uuid env u)]\<rparr>)"

definition ensure_cluster_id_secret :: "kafka_env \<Rightarrow> kafka \<Rightarrow> uuid kafka_step" where
  "ensure_cluster_id_secret env k =
     bind_log (kafka_read (kp_get_secret env (kafka_name k @ ''-cluster-id''))) (\<lambda>existing.
       case existing of
         Some s \<Rightarrow> lift_log (uuid_from_secret (kp_parse_uuid env) s)
       | None \<Rightarrow> bind_log (lift_log (render_secret env k (kp_new_uuid env))) (\<lambda>s.
           then_log (kafka_send env (CreateClusterId (kafka_name k @ ''-cluster-id'') s)) (ret_log (kp_new_uuid env))))"

section \<open>Validation of the runtime and the version\<close>

definition checked_condition :: "kafka_env \<Rightarrow> string \<Rightarrow> string \<Rightarrow> string \<Rightarrow> (string \<Rightarrow> reconcile_error) \<Rightarrow> string + unit \<Rightarrow> unit kafka_step" where
  "checked_condition env ty subject invalid wrap r =
     (case r of
        Inr _ \<Rightarrow> patch_status_with_condition env (condition (kp_now env) ty ''True'' ''Validated'' (subject @ '' spec is well-formed''))
      | Inl why \<Rightarrow> then_log (patch_status_with_condition env (condition (kp_now env) ty ''False'' invalid (subject @ '': '' @ why)))
          (fail_log (wrap why)))"

definition validate_kafka_runtime :: "kafka_env \<Rightarrow> kafka \<Rightarrow> unit kafka_step" where
  "validate_kafka_runtime env k =
     then_log (case Option.bind (kspec_broker_tuning (kf_spec k)) (\<lambda>t. case validate_broker_tuning (kp_tuning env) t of Inl why \<Rightarrow> Some why | Inr _ \<Rightarrow> None) of
         Some why \<Rightarrow> then_log (patch_status_with_condition env (condition (kp_now env) ''KafkaConfigValid'' ''False'' ''KafkaConfigInvalid'' why))
           (fail_log (KafkaConfigInvalid why))
       | None \<Rightarrow> ret_log ())
     (then_log (case kspec_tiered_storage (kf_spec k) of
         None \<Rightarrow> ret_log ()
       | Some t \<Rightarrow> checked_condition env ''TieredStorageReady'' ''tieredStorage'' ''TieredStorageInvalid'' TieredStorageInvalid
           (validate_tiered_storage (kp_check_manager env) t))
     (case kspec_tracing (kf_spec k) of
         None \<Rightarrow> ret_log ()
       | Some t \<Rightarrow> checked_condition env ''TracingReady'' ''tracing'' ''TracingInvalid'' TracingInvalid (validate_tracing t)))"

definition finalized_metadata :: "kafka \<Rightarrow> string option" where
  "finalized_metadata k = Option.bind (kf_status k) kst_metadata_version"

definition evaluate_kafka_version :: "kafka_env \<Rightarrow> kafka \<Rightarrow> kafka_condition \<times> string option" where
  "evaluate_kafka_version env k =
     (case evaluate (kp_levels env) (kspec_kafka_version (kf_spec k)) (kspec_metadata_version (kf_spec k)) (finalized_metadata k) of
        ValidVersion resolved \<Rightarrow>
          (condition (kp_now env) ''KafkaVersionValid'' ''True'' ''Valid''
             (''kafkaVersion '' @ kspec_kafka_version (kf_spec k) @ '' metadata.version '' @ resolved), Some resolved)
      | InvalidVersionOutcome reason message \<Rightarrow>
          (condition (kp_now env) ''KafkaVersionValid'' ''False'' (version_reason_str reason) message, None))"

definition update_failed :: "kafka_env \<Rightarrow> string \<Rightarrow> kafka_condition" where
  "update_failed env message = condition (kp_now env) ''KafkaVersionValid'' ''False'' ''MetadataVersionUpdateFailed'' message"

text \<open>The left value is the condition that replaces the verdict on the version.\<close>

definition reconcile_metadata_version ::
  "kafka_env \<Rightarrow> string \<Rightarrow> string \<Rightarrow> int \<Rightarrow> string option \<Rightarrow> string option \<Rightarrow> bool \<Rightarrow> (kafka_condition, string option, kafka_effect) logged" where
  "reconcile_metadata_version env namespace name port resolved finalized pools_rolled =
     (case resolved of
        None \<Rightarrow> ret_log None
      | Some target \<Rightarrow>
     (case finalized of
        None \<Rightarrow> ret_log (if pools_rolled then Some target else None)
      | Some current \<Rightarrow>
     (case (from_version_string (kp_levels env) target, from_version_string (kp_levels env) current) of
        (Some target_level, Some current_level) \<Rightarrow>
          if target_level = current_level then ret_log (Some target)
          else if \<not> pools_rolled then ret_log (Some current)
          else
            (case kp_connect env (name @ ''-broker-headless.'' @ namespace @ ''.svc.cluster.local:'' @ int_to_string port) of
               Some e \<Rightarrow> fail_log (update_failed env (''UpdateFeatures connection failed: '' @ e))
             | None \<Rightarrow>
                 let kind = (if target_level < current_level then SafeDowngrade else Upgrade) in
                 (case kp_update_features env target_level kind of
                    Some e \<Rightarrow> fail_log (update_failed env (''UpdateFeatures rejected metadata.version '' @ target @ '': '' @ e))
                  | None \<Rightarrow> then_log (emit (UpdateMetadataVersion target_level kind)) (ret_log (Some target))))
      | _ \<Rightarrow> ret_log None)))"

section \<open>The certificate authorities\<close>

definition ANN_FORCE_RENEW :: string where
  "ANN_FORCE_RENEW = ''krabka.io/force-renew-ca''"

definition ANN_FORCE_REPLACE_KEY :: string where
  "ANN_FORCE_REPLACE_KEY = ''krabka.io/force-replace-ca-key''"

definition ANN_FORCE_REPLACE_CLIENTS_KEY :: string where
  "ANN_FORCE_REPLACE_CLIENTS_KEY = ''krabka.io/force-replace-clients-ca-key''"

definition ANN_RENEW_AFTER :: string where
  "ANN_RENEW_AFTER = ''krabka.io/ca-renew-after''"

definition has_annotation :: "kafka_owner \<Rightarrow> string \<Rightarrow> bool" where
  "has_annotation owner a \<longleftrightarrow> meta_annotation (ko_meta owner) a \<noteq> None"

definition is_reserved_operator_user :: "string \<Rightarrow> kafka_user \<Rightarrow> bool" where
  "is_reserved_operator_user cluster u \<longleftrightarrow>
     (let name = meta_name (ku_meta u) in
      name = operator_secret_name cluster \<or> name = cluster @ ''-operator-admin'' \<or> ends_with ''-operator-identity'' name)"

definition exclude_reserved_operator_user :: "kafka_user list \<Rightarrow> string \<Rightarrow> kafka_user list" where
  "exclude_reserved_operator_user users cluster = filter (\<lambda>u. \<not> is_reserved_operator_user cluster u) users"

record ca_artifacts =
  caa_cluster :: ca_outcome
  caa_clients :: ca_outcome
  caa_rotation_condition :: kafka_condition
  caa_config_hash :: string

definition run_ca ::
  "kafka_env \<Rightarrow> kafka_owner \<Rightarrow> which_ca \<Rightarrow> string \<Rightarrow> bool \<Rightarrow> bool \<Rightarrow> bool \<Rightarrow> (ca_outcome \<Rightarrow> 'a phase_result kafka_step) \<Rightarrow> 'a phase_result kafka_step" where
  "run_ca env owner which field force_renew force_replace converged k =
     try_log (map_log CaWrite (reconcile_ca (kp_ca env which) owner which force_renew force_replace converged (kp_time env))) k
       (\<lambda>e. case e of
          ByoCaMissing w \<Rightarrow>
            then_log (patch_status_with_condition env (condition (kp_now env) w ''False'' ''ByoCaMissing''
                (''spec.'' @ field @ ''.generateCertificateAuthority=false but the CA Secret pair is absent'')))
              (ret_log (PhaseDone (requeue (kp_drift_requeue env))))
        | _ \<Rightarrow> fail_log e)"

definition sync_tls_user_secrets :: "kafka_env \<Rightarrow> string \<Rightarrow> ca_outcome \<Rightarrow> unit kafka_step" where
  "sync_tls_user_secrets env cluster clients =
     (if requires_reissue (co_transition clients) \<or> pruned_old_trust (co_transition clients)
         \<or> 0 < co_cert_gen clients \<or> 0 < co_key_gen clients then
        bind_log (kafka_read (kp_users env)) (\<lambda>users.
        bind_log (map_log CertWrite (reissue_tls_user_cert_secrets (kp_certs env) (exclude_reserved_operator_user users cluster)
            (co_signing clients) (co_trust_bundle clients))) (\<lambda>_.
          if requires_reissue (co_transition clients) then kafka_send env (MarkLeafs (clients_ca_cert_name cluster) (co_key_gen clients))
          else ret_log ()))
      else ret_log ())"

definition rotation_visible :: "ca_outcome \<Rightarrow> bool" where
  "rotation_visible c \<longleftrightarrow> co_in_progress c \<or> co_refused c \<noteq> None \<or> co_message c \<noteq> ''no rotation in progress''"

definition ca_rotation_condition :: "kafka_env \<Rightarrow> ca_outcome \<Rightarrow> ca_outcome \<Rightarrow> kafka_condition" where
  "ca_rotation_condition env cluster clients =
     (let c = (if \<not> rotation_visible cluster \<and> rotation_visible clients then clients else cluster)
      in condition (kp_now env) ''CaRotation'' (if co_in_progress c then ''True'' else ''False'') (co_reason c) (co_message c))"

definition ca_trust :: "ca_outcome \<Rightarrow> ca_outcome \<Rightarrow> string" where
  "ca_trust cluster clients =
     co_trust_bundle cluster @ (if co_phase clients = PhaseIdle then [] else CHR 0x1E # co_trust_bundle clients)
     @ CHR 0x1E # ''operator-admin-mtls-v1''"

definition strip_keys :: "kafka_owner \<Rightarrow> string list" where
  "strip_keys owner = filter (has_annotation owner) [ANN_FORCE_RENEW, ANN_FORCE_REPLACE_KEY, ANN_FORCE_REPLACE_CLIENTS_KEY, ANN_RENEW_AFTER]"

definition follow_cas ::
  "kafka_env \<Rightarrow> kafka \<Rightarrow> kafka_owner \<Rightarrow> string option \<Rightarrow> string option \<Rightarrow> ca_outcome \<Rightarrow> ca_outcome \<Rightarrow> ca_artifacts phase_result kafka_step" where
  "follow_cas env k owner explicit_pin flt cluster clients =
     bind_log (map_log CertWrite (ensure_operator_cert_secret (kp_certs env) owner (co_signing cluster) (co_trust_bundle cluster))) (\<lambda>_.
     then_log (sync_tls_user_secrets env (kafka_name k) clients)
     (then_log (if strip_keys owner \<noteq> [] then kafka_send env (StripAnnotations (strip_keys owner)) else ret_log ())
     (then_log (if co_refused cluster \<noteq> None then warning_event env ''CaRotationRefused'' (co_message cluster) else ret_log ())
     (then_log (if co_refused clients \<noteq> None then warning_event env ''CaRotationRefused'' (co_message clients) else ret_log ())
       (ret_log (PhaseReady \<lparr>caa_cluster = cluster, caa_clients = clients,
          caa_rotation_condition = ca_rotation_condition env cluster clients,
          caa_config_hash = combined_config_hash (kp_sha256_hex env) (kp_tuning env) (kf_spec k) (Some (ca_trust cluster clients)) explicit_pin flt\<rparr>))))))"

definition reconcile_cas ::
  "kafka_env \<Rightarrow> kafka \<Rightarrow> kafka_owner \<Rightarrow> bool \<Rightarrow> string option \<Rightarrow> string option \<Rightarrow> ca_artifacts phase_result kafka_step" where
  "reconcile_cas env k owner rollout_converged explicit_pin flt =
     run_ca env owner Cluster ''clusterCa'' (has_annotation owner ANN_FORCE_RENEW \<or> has_annotation owner ANN_RENEW_AFTER)
       (has_annotation owner ANN_FORCE_REPLACE_KEY) rollout_converged (\<lambda>cluster.
     run_ca env owner Clients ''clientsCa'' False (has_annotation owner ANN_FORCE_REPLACE_CLIENTS_KEY) rollout_converged (\<lambda>clients.
     follow_cas env k owner explicit_pin flt cluster clients))"

section \<open>Secrets that listeners depend on\<close>

fun oauth_trust_bundle :: "kafka_env \<Rightarrow> string \<Rightarrow> tls_trusted_certificate list \<Rightarrow> string kafka_step" where
  "oauth_trust_bundle env bundle [] = ret_log bundle"
| "oauth_trust_bundle env bundle (c # cs) =
     bind_log (kafka_read (kp_get_secret env (tc_secret_name c))) (\<lambda>src.
     case src of
       None \<Rightarrow> fail_log (MissingOauthTrustSecret (tc_secret_name c))
     | Some s \<Rightarrow>
         (case secret_value s (tc_certificate c) of
            None \<Rightarrow> fail_log (MissingOauthTrustKey (tc_secret_name c) (tc_certificate c))
          | Some value \<Rightarrow>
              if value = [] then fail_log (EmptyOauthTrustValue (tc_secret_name c) (tc_certificate c))
              else oauth_trust_bundle env
                (bundle @ (if bundle \<noteq> [] \<and> last bundle \<noteq> CHR 0x0A then [CHR 0x0A] else []) @ value) cs))"

definition upsert_oauth_trust_secret :: "kafka_env \<Rightarrow> kafka \<Rightarrow> string \<Rightarrow> string \<Rightarrow> unit kafka_step" where
  "upsert_oauth_trust_secret env k name bundle =
     bind_log (lift_log (owner_of_kafka k)) (\<lambda>owner.
       kafka_send env (ApplyTrustSecret name
         \<lparr>secret_meta = owned_meta (kf_meta k) name (common_labels (kafka_name k) (kspec_kafka_version (kf_spec k)) None) owner,
          secret_type = Some ''Opaque'', secret_data = Some [(''ca.crt'', bundle)]\<rparr>))"

definition reconcile_oauth_jwks_trust :: "kafka_env \<Rightarrow> kafka \<Rightarrow> oauth_config option \<Rightarrow> unit kafka_step" where
  "reconcile_oauth_jwks_trust env k canonical =
     (case canonical of
        None \<Rightarrow> ret_log ()
      | Some c \<Rightarrow>
          if oa_tls_trusted_certificates c = [] then ret_log ()
          else bind_log (oauth_trust_bundle env [] (oa_tls_trusted_certificates c)) (\<lambda>bundle.
                 upsert_oauth_trust_secret env k (kafka_name k @ ''-oauth-jwks-trust'') bundle))"

definition reconcile_oauth_introspection_secret :: "kafka_env \<Rightarrow> oauth_config option \<Rightarrow> unit kafka_step" where
  "reconcile_oauth_introspection_secret env canonical =
     (case canonical of
        None \<Rightarrow> ret_log ()
      | Some c \<Rightarrow>
          if oa_access_token_is_jwt c then ret_log ()
          else case oa_client_secret c of
            None \<Rightarrow> fail_log (InvalidListenerOauthAccessTokenIsJwt ''introspection mode requires clientSecret'')
          | Some cs \<Rightarrow>
              bind_log (kafka_read (kp_get_secret env (si_secret_name cs))) (\<lambda>src.
              case src of
                None \<Rightarrow> fail_log (MissingOauthIntrospectionSecret (si_secret_name cs))
              | Some s \<Rightarrow>
                  (case secret_value s (si_key cs) of
                     None \<Rightarrow> fail_log (MissingOauthIntrospectionKey (si_secret_name cs) (si_key cs))
                   | Some v \<Rightarrow> if v = [] then fail_log (EmptyOauthIntrospectionValue (si_secret_name cs) (si_key cs)) else ret_log ())))"

definition require_secret_key ::
  "kafka_env \<Rightarrow> (string \<Rightarrow> reconcile_error) \<Rightarrow> (string \<Rightarrow> string \<Rightarrow> reconcile_error) \<Rightarrow> string \<Rightarrow> string \<Rightarrow> unit kafka_step" where
  "require_secret_key env no_secret no_key name key =
     bind_log (kafka_read (kp_get_secret env name)) (\<lambda>src.
     case src of
       None \<Rightarrow> fail_log (no_secret name)
     | Some s \<Rightarrow> if secret_value s key = None then fail_log (no_key name key) else ret_log ())"

definition gssapi_secret_check :: "kafka_env \<Rightarrow> kafka \<Rightarrow> unit kafka_step" where
  "gssapi_secret_check env k =
     then_log (case gssapi_keytab_mount k of
         None \<Rightarrow> ret_log ()
       | Some m \<Rightarrow> require_secret_key env MissingGssapiKeytabSecret MissingGssapiKeytabKey (si_secret_name m) (si_key m))
     (case krb5_conf_mount k of
         None \<Rightarrow> ret_log ()
       | Some (name, key) \<Rightarrow> require_secret_key env MissingKrb5ConfSecret MissingKrb5ConfKey name key)"

text \<open>The errors that become a condition, with their reason; all others fail the pass.\<close>

definition dependency_reason :: "reconcile_error \<Rightarrow> string option" where
  "dependency_reason e = (case e of
      MissingOauthTrustSecret _ \<Rightarrow> Some ''MissingOauthTrustSecret''
    | MissingOauthTrustKey _ _ \<Rightarrow> Some ''MissingOauthTrustKey''
    | EmptyOauthTrustValue _ _ \<Rightarrow> Some ''EmptyOauthTrustValue''
    | InvalidListenerOauthAccessTokenIsJwt _ \<Rightarrow> Some ''InvalidListenerOauthAccessTokenIsJwt''
    | MissingOauthIntrospectionSecret _ \<Rightarrow> Some ''MissingOauthIntrospectionSecret''
    | MissingOauthIntrospectionKey _ _ \<Rightarrow> Some ''MissingOauthIntrospectionKey''
    | EmptyOauthIntrospectionValue _ _ \<Rightarrow> Some ''EmptyOauthIntrospectionValue''
    | MissingGssapiKeytabSecret _ \<Rightarrow> Some ''MissingGssapiKeytabSecret''
    | MissingGssapiKeytabKey _ _ \<Rightarrow> Some ''MissingGssapiKeytabKey''
    | MissingKrb5ConfSecret _ \<Rightarrow> Some ''MissingKrb5ConfSecret''
    | MissingKrb5ConfKey _ _ \<Rightarrow> Some ''MissingKrb5ConfKey''
    | _ \<Rightarrow> None)"

definition on_dependency :: "kafka_env \<Rightarrow> unit kafka_step \<Rightarrow> action option kafka_step \<Rightarrow> action option kafka_step" where
  "on_dependency env m k =
     try_log m (\<lambda>_. k) (\<lambda>e. case dependency_reason e of
        Some reason \<Rightarrow> dependency_missing env (condition (kp_now env) ''Ready'' ''False'' reason (kp_show env e))
      | None \<Rightarrow> fail_log e)"

definition validate_listener_dependencies ::
  "kafka_env \<Rightarrow> kafka \<Rightarrow> listener list \<Rightarrow> string \<Rightarrow> action option kafka_step" where
  "validate_listener_dependencies env k listeners inter_broker =
     (let canonical = canonical_oauth_config listeners in
      on_dependency env (reconcile_oauth_jwks_trust env k canonical)
      (on_dependency env (reconcile_oauth_introspection_secret env canonical)
      (on_dependency env (gssapi_secret_check env k)
      (case validate_inter_broker_gssapi listeners inter_broker (kspec_inter_broker_kerberos (kf_spec k) \<noteq> None) of
         Inl e \<Rightarrow> dependency_missing env (condition (kp_now env) ''ListenersValid'' ''False'' (validation_reason e) (validation_message e))
       | Inr _ \<Rightarrow> ret_log None))))"

section \<open>External objects\<close>

definition apply_rendered :: "kafka_env \<Rightarrow> ('o \<Rightarrow> kafka_effect) \<Rightarrow> reconcile_error + 'o \<Rightarrow> unit kafka_step" where
  "apply_rendered env f r = bind_log (lift_log r) (\<lambda>obj. kafka_send env (f obj))"

fun each_step :: "('a \<Rightarrow> unit kafka_step) \<Rightarrow> 'a list \<Rightarrow> unit kafka_step" where
  "each_step f [] = ret_log ()"
| "each_step f (x # xs) = then_log (f x) (each_step f xs)"

definition apply_listener_hosts ::
  "kafka_env \<Rightarrow> string \<Rightarrow> node_info list \<Rightarrow> listener
     \<Rightarrow> (string \<Rightarrow> string \<Rightarrow> unit kafka_step) \<Rightarrow> (string \<Rightarrow> int \<Rightarrow> string \<Rightarrow> unit kafka_step) \<Rightarrow> unit kafka_step" where
  "apply_listener_hosts env cluster brokers l bootstrap per_broker =
     then_log (case ingress_bootstrap_host l of None \<Rightarrow> ret_log () | Some host \<Rightarrow> bootstrap (bootstrap_object_name cluster l) host)
     (each_step (\<lambda>b. case ingress_broker_host l (ni_broker_id b) of
         None \<Rightarrow> ret_log ()
       | Some host \<Rightarrow> per_broker (broker_object_name cluster l (ni_broker_id b)) (ni_broker_id b) host) brokers)"

definition apply_external_listener :: "kafka_env \<Rightarrow> kafka \<Rightarrow> string \<Rightarrow> node_info list \<Rightarrow> listener \<Rightarrow> unit kafka_step" where
  "apply_external_listener env k cluster brokers l =
     then_log (apply_rendered env (ApplyService (bootstrap_object_name cluster l)) (render_bootstrap_service k l))
     (then_log (each_step (\<lambda>b. apply_rendered env (ApplyService (broker_object_name cluster l (ni_broker_id b)))
         (render_broker_service k l (ni_broker_id b) (ni_pod_name b))) brokers)
     (case ls_type l of
        Ingress \<Rightarrow> apply_listener_hosts env cluster brokers l
          (\<lambda>name host. apply_rendered env (ApplyIngress name) (render_bootstrap_ingress k l host))
          (\<lambda>name b host. apply_rendered env (ApplyIngress name) (render_broker_ingress k l b host))
      | Route \<Rightarrow> apply_listener_hosts env cluster brokers l
          (\<lambda>name host. apply_rendered env (ApplyRoute name) (render_bootstrap_route k l host))
          (\<lambda>name b host. apply_rendered env (ApplyRoute name) (render_broker_route k l b host))
      | _ \<Rightarrow> ret_log ()))"

definition apply_external_services :: "kafka_env \<Rightarrow> kafka \<Rightarrow> string \<Rightarrow> listener list \<Rightarrow> node_info list \<Rightarrow> unit kafka_step" where
  "apply_external_services env k cluster listeners brokers =
     each_step (apply_external_listener env k cluster brokers) (filter (\<lambda>l. ls_type l \<noteq> Internal) listeners)"

fun read_services :: "kafka_env \<Rightarrow> ('k \<times> string) list \<Rightarrow> ('k \<times> service) list kafka_step" where
  "read_services env [] = ret_log []"
| "read_services env ((key, name) # rest) =
     bind_log (kafka_read (kp_get_service env name)) (\<lambda>s.
     bind_log (read_services env rest) (\<lambda>more.
       ret_log (case s of None \<Rightarrow> more | Some x \<Rightarrow> (key, x) # more)))"

text \<open>The reads of one listener and of the next are made in this order; bootstrap and broker Services come from
  separate lists here, and no write lies between the reads.\<close>

definition read_external_state :: "kafka_env \<Rightarrow> string \<Rightarrow> listener list \<Rightarrow> node_info list \<Rightarrow> external_state kafka_step" where
  "read_external_state env cluster listeners brokers =
     (let exposed = filter (\<lambda>l. ls_type l = Nodeport \<or> ls_type l = Loadbalancer) listeners in
      bind_log (if exposed \<noteq> [] then kafka_read (kp_nodes env) else ret_log []) (\<lambda>nodes.
      bind_log (if exposed \<noteq> [] then kafka_read (kp_cluster_pods env) else ret_log []) (\<lambda>pods.
      bind_log (read_services env (map (\<lambda>l. (bootstrap_object_name cluster l, bootstrap_object_name cluster l)) exposed)) (\<lambda>bootstrap.
      bind_log (read_services env (concat (map (\<lambda>l. map (\<lambda>b. ((ls_name l, ni_broker_id b), broker_object_name cluster l (ni_broker_id b))) brokers) exposed)))
        (\<lambda>per_broker.
        ret_log \<lparr>xs_nodes = nodes, xs_pods = pods, xs_bootstrap_services = bootstrap, xs_broker_services = per_broker\<rparr>)))))"

definition load_external_listener_state :: "kafka_env \<Rightarrow> kafka \<Rightarrow> string \<Rightarrow> listener list \<Rightarrow> node_inventory \<Rightarrow> external_state kafka_step" where
  "load_external_listener_state env k cluster listeners inventory =
     (if list_all (\<lambda>l. ls_type l = Internal) listeners
      then ret_log \<lparr>xs_nodes = [], xs_pods = [], xs_bootstrap_services = [], xs_broker_services = []\<rparr>
      else then_log (apply_external_services env k cluster listeners (inv_brokers inventory))
             (read_external_state env cluster listeners (inv_brokers inventory)))"

section \<open>Listener resources\<close>

record listener_artifacts =
  lar_status :: "(listener_status \<times> (string \<times> int) list) list"
  lar_valid_condition :: kafka_condition
  lar_ready_condition :: kafka_condition
  lar_pending :: "(int \<times> string) list"

record tls_artifacts =
  tla_inventory :: node_inventory
  tla_per_node :: "(int, broker_tls_render) bmap"
  tla_clients_ca_path :: "string option"
  tla_pending :: "(int \<times> string) list"
  tla_leaf_material :: string

definition san_results :: "listener list \<Rightarrow> observed_addresses \<Rightarrow> node_info list \<Rightarrow> (int \<times> (san_error + subject_alt_name list)) list" where
  "san_results listeners observed brokers = map (\<lambda>b. (ni_broker_id b, compute_extra_sans (ni_broker_id b) listeners observed)) brokers"

definition cert_requests :: "string \<Rightarrow> string \<Rightarrow> (int, subject_alt_name list) bmap \<Rightarrow> node_info list \<Rightarrow> broker_cert_request list" where
  "cert_requests cluster namespace extra nodes = map (\<lambda>n. \<lparr>br_broker_id = ni_broker_id n, br_cn = ni_pod_name n,
     br_sans = [Dns (ni_pod_fqdn n), Dns (ni_pod_name n), Dns (cluster @ ''-broker-headless.'' @ namespace @ ''.svc.cluster.local''), Ip (V4 [127, 0, 0, 1])],
     br_extra_sans = unwrap_or [] (bm_get extra (ni_broker_id n))\<rparr>) nodes"

definition prepare_listener_tls ::
  "kafka_env \<Rightarrow> kafka_owner \<Rightarrow> string \<Rightarrow> string \<Rightarrow> listener list \<Rightarrow> node_pool list \<Rightarrow> ca_outcome \<Rightarrow> tls_artifacts kafka_step" where
  "prepare_listener_tls env owner namespace cluster listeners pools ca =
     (let inventory = inventory_nodes cluster namespace pools in
      bind_log (lift_log (observe_listener_addresses (kp_addresses env) cluster listeners (inv_broker_ids inventory))) (\<lambda>observed.
      let results = san_results listeners observed (inv_brokers inventory);
          extra = bm_collect (List.map_filter (\<lambda>(b, r). case r of Inr sans \<Rightarrow> Some (b, sans) | Inl _ \<Rightarrow> None) results)
      in bind_log (map_log KeystoreWrite (ensure_broker_keystore (kp_keystore env) owner (cert_requests cluster namespace extra (inv_all inventory))
           (co_signing ca) (requires_reissue (co_transition ca)))) (\<lambda>keystore.
         ret_log \<lparr>tla_inventory = inventory, tla_per_node = controller_tls_per_node (inv_all inventory),
           tla_clients_ca_path = (if list_ex (\<lambda>l. ls_authentication l = Some AuthTls) listeners then Some ''/etc/krabka/clients-ca/ca.crt'' else None),
           tla_pending = List.map_filter (\<lambda>(_, r). case r of Inl (SansNotReady b l) \<Rightarrow> Some (b, l) | Inr _ \<Rightarrow> None) results,
           tla_leaf_material = ks_leaf_material keystore\<rparr>)))"

definition adopt :: "kafka_env \<Rightarrow> kafka \<Rightarrow> node_pool list \<Rightarrow> string \<Rightarrow> unit kafka_step" where
  "adopt env k pools hash = map_log Adopt (adopt_pools (kp_adopt_fails env) (kf_meta k) pools hash)"

record pass_input =
  pin_namespace :: string
  pin_name :: string
  pin_listeners :: "listener list"
  pin_operator_listener :: string
  pin_inter_broker :: string
  pin_logging_filter :: "string option"
  pin_pools :: "node_pool list"

definition publish_addresses ::
  "kafka_env \<Rightarrow> kafka \<Rightarrow> pass_input \<Rightarrow> tls_artifacts \<Rightarrow> external_state \<Rightarrow> (int, (string, advertised_address) bmap) bmap
     \<Rightarrow> ((listener_status \<times> (string \<times> int) list) list \<times> kafka_condition) kafka_step" where
  "publish_addresses env k inp tls st addresses =
     (let input = \<lparr>ci_listeners = pin_listeners inp, ci_operator_listener = Some (pin_operator_listener inp), ci_addresses = addresses,
            ci_roles = inv_roles (tla_inventory tls), ci_inter_broker = pin_inter_broker inp, ci_tls = Some (tla_per_node tls),
            ci_clients_ca_path = tla_clients_ca_path tls, ci_logging_filter = pin_logging_filter inp\<rparr>
      in then_log (apply_rendered env (ApplyConfigMap (pin_name inp @ ''-broker-config''))
           (case render_configmap (kp_render env) (kp_tuning env) k input of
              None \<Rightarrow> Inl (Panic ''broker configuration'') | Some r \<Rightarrow> r))
         (ret_log (build_listener_status (pin_listeners inp)
             (filter (\<lambda>(b, _). b \<in> set (inv_broker_ids (tla_inventory tls))) addresses) st (pin_name inp) (pin_namespace inp),
           condition (kp_now env) ''ListenersReady'' ''True'' ''Ready'' (nat_to_string (length (pin_listeners inp)) @ '' listener(s) ready''))))"

definition reconcile_valid_listener_resources ::
  "kafka_env \<Rightarrow> kafka \<Rightarrow> kafka_owner \<Rightarrow> pass_input \<Rightarrow> ca_artifacts \<Rightarrow> listener_artifacts kafka_step" where
  "reconcile_valid_listener_resources env k owner inp cas =
     bind_log (prepare_listener_tls env owner (pin_namespace inp) (pin_name inp) (pin_listeners inp) (pin_pools inp) (caa_cluster cas)) (\<lambda>tls.
     bind_log (load_external_listener_state env k (pin_name inp) (pin_listeners inp) (tla_inventory tls)) (\<lambda>st.
     bind_log (case resolve_addresses_per_broker (pin_listeners inp) (pin_inter_broker inp) (pin_operator_listener inp) (inv_all (tla_inventory tls)) st of
         Inl e \<Rightarrow> ret_log ([], condition (kp_now env) ''ListenersReady'' ''False'' ''PendingExternalAddresses'' (advertised_message e))
       | Inr addresses \<Rightarrow> publish_addresses env k inp tls st addresses) (\<lambda>(status, ready).
     then_log (adopt env k (pin_pools inp) (rollout_config_hash (kp_sha256_hex env) (caa_config_hash cas) (tla_leaf_material tls)))
       (ret_log \<lparr>lar_status = status, lar_valid_condition = condition (kp_now env) ''ListenersValid'' ''True'' ''Valid'' ''listeners validated'',
          lar_ready_condition = ready, lar_pending = tla_pending tls\<rparr>))))"

definition reconcile_listener_resources ::
  "kafka_env \<Rightarrow> kafka \<Rightarrow> kafka_owner \<Rightarrow> pass_input \<Rightarrow> ca_artifacts \<Rightarrow> validation_error + unit \<Rightarrow> listener_artifacts phase_result kafka_step" where
  "reconcile_listener_resources env k owner inp cas validation =
     (case validation of
        Inl e \<Rightarrow>
          then_log (adopt env k (pin_pools inp) (caa_config_hash cas))
            (ret_log (PhaseReady \<lparr>lar_status = [],
               lar_valid_condition = condition (kp_now env) ''ListenersValid'' ''False'' (validation_reason e) (validation_message e),
               lar_ready_condition = condition (kp_now env) ''ListenersReady'' ''False'' ''ListenersInvalid'' (validation_message e),
               lar_pending = []\<rparr>))
      | Inr _ \<Rightarrow>
          bind_log (validate_listener_dependencies env k (pin_listeners inp) (pin_inter_broker inp)) (\<lambda>step.
          case step of
            Some a \<Rightarrow> ret_log (PhaseDone a)
          | None \<Rightarrow> bind_log (reconcile_valid_listener_resources env k owner inp cas) (\<lambda>a. ret_log (PhaseReady a))))"

section \<open>The status\<close>

definition ca_status_of :: "ca_outcome \<Rightarrow> ca_status" where
  "ca_status_of c = \<lparr>cas_not_after = co_not_after c, cas_generated = co_generated c, cas_cert_generation = co_cert_gen c,
     cas_key_generation = co_key_gen c, cas_rotation_phase = Some (ca_phase_str (co_phase c)), cas_trust_anchors = Some (co_anchors c)\<rparr>"

definition upgrade_condition :: "kafka_env \<Rightarrow> kafka \<Rightarrow> string option \<Rightarrow> string option \<Rightarrow> bool \<Rightarrow> kafka_condition" where
  "upgrade_condition env k target resolved finalize_failed =
     (let version = kspec_kafka_version (kf_spec k); c = condition (kp_now env) ''KafkaVersionUpgrade'' in
      case target of
        None \<Rightarrow> c ''False'' ''InvalidTarget'' ''the requested Kafka or metadata version is invalid''
      | Some t \<Rightarrow>
          if resolved = Some t then c ''True'' ''Finalized'' (''all pools run '' @ version @ '' and metadata.version '' @ t @ '' is finalized'')
          else if finalize_failed then c ''False'' ''AwaitingFinalize'' (''all pools run '' @ version @ '', but metadata.version '' @ t @ '' is not finalized'')
          else c ''False'' ''RollingImages'' (''waiting for every pool to run '' @ version @ '' before finalizing metadata.version '' @ t))"

definition load_balancer_condition :: "kafka_env \<Rightarrow> listener list \<Rightarrow> (int \<times> string) list \<Rightarrow> kafka_condition list" where
  "load_balancer_condition env listeners pending =
     (if \<not> list_ex (\<lambda>l. ls_type l = Loadbalancer \<and> ls_tls l) listeners then []
      else if pending = [] then [condition (kp_now env) ''WaitingForLoadBalancerIp'' ''False'' ''LoadBalancerReady'' ''all broker LB ingress addresses assigned'']
      else [condition (kp_now env) ''WaitingForLoadBalancerIp'' ''True'' ''LoadBalancerPending''
        (''LB ingress not ready for: '' @ join_with '', '' (map (\<lambda>(b, l). ''broker '' @ int_to_string b @ '' listener '' @ [CHR 0x27] @ l @ [CHR 0x27]) pending))])"

definition bool_text :: "bool \<Rightarrow> string" where
  "bool_text b = (if b then ''True'' else ''False'')"

record version_artifacts =
  va_condition :: kafka_condition
  va_target :: "string option"
  va_resolved :: "string option"
  va_failed :: bool

definition final_conditions ::
  "kafka_env \<Rightarrow> kafka \<Rightarrow> pass_input \<Rightarrow> listener_artifacts \<Rightarrow> ca_artifacts \<Rightarrow> version_artifacts \<Rightarrow> kafka_condition \<Rightarrow> kafka_condition \<Rightarrow> kafka_condition
     \<Rightarrow> kafka_condition list" where
  "final_conditions env k inp la cas va metrics policy logging =
     (let rollup = aggregate_pool_status (pin_pools inp) in
      case rollup_condition rollup of (ready, reason, message) \<Rightarrow>
      case rolling_condition_from_rollup rollup of (rolling, rolling_reason, rolling_message) \<Rightarrow>
      [condition (kp_now env) ''Ready'' (bool_text ready) reason message,
       condition (kp_now env) ''Rolling'' (bool_text rolling) rolling_reason rolling_message,
       lar_valid_condition la, lar_ready_condition la, metrics, policy,
       condition (kp_now env) ''ClusterCaReady'' ''True'' ''CaReady'' ''cluster CA Secret pair present and parseable'',
       condition (kp_now env) ''ClientsCaReady'' ''True'' ''CaReady'' ''clients CA Secret pair present and parseable'',
       caa_rotation_condition cas, va_condition va, upgrade_condition env k (va_target va) (va_resolved va) (va_failed va), logging]
      @ load_balancer_condition env (pin_listeners inp) (lar_pending la))"

definition finalize_kafka ::
  "kafka_env \<Rightarrow> kafka \<Rightarrow> pass_input \<Rightarrow> listener_artifacts \<Rightarrow> ca_artifacts \<Rightarrow> version_artifacts \<Rightarrow> kafka_condition \<Rightarrow> action kafka_step" where
  "finalize_kafka env k inp la cas va logging =
     (case reconcile_metrics (kp_side env) k of (metrics, metric_effects) \<Rightarrow>
      case reconcile_network_policy (kp_side env) k (pin_listeners inp) (inter_broker_port (pin_listeners inp) (pin_inter_broker inp)) of (policy, policy_effects) \<Rightarrow>
      let rollup = aggregate_pool_status (pin_pools inp);
          status = \<lparr>kst_conditions = final_conditions env k inp la cas va (metrics_ready_condition (kp_side env) metrics)
              (network_policy_condition (kp_side env) policy) logging,
            kst_listeners = map fst (lar_status la), kst_metadata_version = or_else (va_resolved va) (finalized_metadata k),
            kst_target_metadata_version = va_target va, cls_replicas = Some (cr_replicas rollup), cls_ready_replicas = Some (cr_ready_replicas rollup),
            cls_listener_addresses = map snd (lar_status la), cls_cluster_ca = Some (ca_status_of (caa_cluster cas)),
            cls_clients_ca = Some (ca_status_of (caa_clients cas)), cls_kafka_version = Some (kspec_kafka_version (kf_spec k))\<rparr>
      in then_log (Inr (), map SideWrite (metric_effects @ policy_effects))
         (then_log (kafka_send env (PatchKafkaStatus status))
         (case metrics of
            Some (Inl e) \<Rightarrow> if e = MetricsMutuallyExclusive \<or> e = PrometheusOperatorCrdsMissing
              then (case policy of Some (Inl e') \<Rightarrow> fail_log e' | _ \<Rightarrow> ret_log (requeue (kp_dependency_requeue env)))
              else fail_log e
          | _ \<Rightarrow> (case policy of Some (Inl e') \<Rightarrow> fail_log e' | _ \<Rightarrow> ret_log (requeue (kp_dependency_requeue env))))))"

section \<open>The pass\<close>

text \<open>Only an explicit pin that was resolved enters the hash.\<close>

definition explicit_pin :: "kafka \<Rightarrow> version_artifacts \<Rightarrow> string option" where
  "explicit_pin k va = (if va_resolved va \<noteq> None then kspec_metadata_version (kf_spec k) else None)"

definition finish_pass ::
  "kafka_env \<Rightarrow> kafka \<Rightarrow> kafka_owner \<Rightarrow> pass_input \<Rightarrow> validation_error + unit \<Rightarrow> version_artifacts \<Rightarrow> kafka_condition \<Rightarrow> bool \<Rightarrow> action kafka_step" where
  "finish_pass env k owner inp validation va logging converged =
     bind_log (reconcile_cas env k owner converged (explicit_pin k va) (pin_logging_filter inp)) (\<lambda>cas.
     case cas of
       PhaseDone a \<Rightarrow> ret_log a
     | PhaseReady cas \<Rightarrow>
         bind_log (reconcile_listener_resources env k owner inp cas validation) (\<lambda>la.
         case la of
           PhaseDone a \<Rightarrow> ret_log a
         | PhaseReady la \<Rightarrow> finalize_kafka env k inp la cas va logging))"

definition reconcile_version :: "kafka_env \<Rightarrow> kafka \<Rightarrow> string \<Rightarrow> int \<Rightarrow> node_pool list \<Rightarrow> stateful_set list \<Rightarrow> version_artifacts kafka_step" where
  "reconcile_version env k namespace port pools statefulsets =
     (case evaluate_kafka_version env k of (cond, target) \<Rightarrow>
      try_log (reconcile_metadata_version env namespace (kafka_name k) port target (finalized_metadata k)
          (pools_rolled_to_version pools statefulsets (kspec_kafka_version (kf_spec k))))
        (\<lambda>resolved. ret_log \<lparr>va_condition = cond, va_target = target, va_resolved = resolved, va_failed = False\<rparr>)
        (\<lambda>c. ret_log \<lparr>va_condition = c, va_target = target, va_resolved = None, va_failed = True\<rparr>))"

definition kafka_reconcile_inner :: "kafka_env \<Rightarrow> kafka \<Rightarrow> kafka_owner \<Rightarrow> action kafka_step" where
  "kafka_reconcile_inner env k owner =
     (let namespace = unwrap_or ''default'' (meta_namespace (kf_meta k)); name = kafka_name k; base = base_listeners k;
          validation = bind_result (validate_listeners (kp_rule_ok env) base (kspec_inter_broker_listener_name (kf_spec k)))
            (\<lambda>_. validate_operator_principal_isolation base (kspec_authorization (kf_spec k) \<noteq> None \<or> kspec_delegation_token (kf_spec k) \<noteq> None));
          operator = operator_listener base; listeners = base @ [operator];
          inter_broker = effective_inter_broker_listener_name (kspec_listeners (kf_spec k)) (kspec_inter_broker_listener_name (kf_spec k)) in
      then_log (apply_rendered env (ApplyService (name @ ''-broker-headless'')) (render_service k))
      (then_log (apply_rendered env (ApplyService (name @ ''-controller-bootstrap'')) (render_controller_bootstrap_service k))
      (then_log (warning_events env ''WeakAuth'' (weak_auth_warnings listeners))
      (bind_log (ensure_cluster_id_secret env k) (\<lambda>_.
       then_log (validate_kafka_runtime env k)
      (bind_log (kafka_read (kp_pools env)) (\<lambda>pools.
       bind_log (kafka_read (kp_statefulsets env)) (\<lambda>statefulsets.
       bind_log (reconcile_version env k namespace (ls_port operator) pools statefulsets) (\<lambda>va.
       bind_log (lift_log (resolve_logging (kp_side env) k)) (\<lambda>logging.
       bind_log (kafka_read (kp_pods env)) (\<lambda>pods.
       case validate_topology pools statefulsets pods of
         Inl e \<Rightarrow>
           then_log (patch_status_with_condition env (condition (kp_now env) ''NodePoolTopologyValid'' ''False'' ''InvalidNodePoolTopology'' (kp_show_topology env e)))
             (ret_log (requeue (kp_dependency_requeue env)))
       | Inr _ \<Rightarrow>
           finish_pass env k owner \<lparr>pin_namespace = namespace, pin_name = name, pin_listeners = listeners, pin_operator_listener = ls_name operator,
               pin_inter_broker = inter_broker, pin_logging_filter = logging_filter logging, pin_pools = pools\<rparr> validation va
             (logging_condition (kp_side env) logging) (pools_converged pools statefulsets))))))))))))"

end
