(* ===== verification/Spec2Isabelle.thy ===== *)
theory Spec2Isabelle
  imports Kafka_Version Leader_Election Rebalance Ca_Rotation Renewal_Check Topic User_Access
    Quorum_Bootstrap Config_Hash Side_Resources Pool_Storage Pool_Scaling Kafka_Pass
begin

text \<open>
  \<^bold>\<open>A verification library for krabka-operator.\<close> All paths below are relative to
  \<open>crates/krabka-operator/src\<close>.

  \<^bold>\<open>The program.\<close> krabka-operator is a Kubernetes operator for Kafka clusters. One replica
  at a time leads (\<open>leader_election.rs\<close>); the leader runs one controller per custom resource
  (\<open>controller/*.rs\<close>), each a \<open>reconcile\<close> function that is called again and again with the
  current object, reads what it needs from the API server, the brokers and the rebalancer service,
  writes Secrets, ConfigMaps, workloads and a status, and says when it wants to be called next. The
  \<open>Kafka\<close> controller owns the certificate authorities of a cluster (\<open>controller/cluster_ca.rs\<close>)
  and gates the version (\<open>version.rs\<close>); the topic controller mirrors \<open>KafkaTopic\<close> resources
  into the cluster and the user controller credentials, ACLs and quotas; the rebalance controller drives an external rebalancer
  (\<open>rebalancer_client.rs\<close>) through the approval workflow of \<open>KafkaRebalance\<close>; a job renews
  certificates out of band.

  \<^bold>\<open>How it is modelled.\<close> A reconcile pass is a function of the object and an environment
  record whose fields say what every outside call answers; its value is the result (an error of
  \<open>ReconcileError\<close>, or the \<open>Action\<close>) together with the list of effects, in the order the code
  issues them (\<open>logged\<close> of \<open>Kube_Objects\<close>). A failing call ends the pass where the code has a
  question mark, so a prefix of the effects is a pass that crashed there. Where the history of an
  object matters, a step relation applies those effects to the stored object and the invariants are
  proved over all reachable states (\<open>reach\<close> of \<open>Interfaces\<close>), other writers of the object and
  crashed passes included. Leader election threads an abstract API server \<open>lease_api\<close> through the
  code, with the documented optimistic concurrency (\<open>optimistic_api\<close>: a replace succeeds only on
  the version that was read) as a hypothesis that a concrete server satisfies.

  \<^bold>\<open>The theories.\<close>
  \<^item> \<open>Operator_Prelude\<close>: errors as values, what the operator uses of Rust's strings, decimal
    printing and parsing, UTF-8 validation, and the collections of simplification rules.
  \<^item> \<open>Ordered_Map\<close>: \<open>BTreeMap\<close> as a sorted association list; the interface \<open>key_store\<close> and its
    instance.
  \<^item> \<open>Interfaces\<close>: the contracts that several controllers share: \<open>text_codec\<close> (values stored
    as text), \<open>state_sync\<close> (a diff that brings an observed state to a desired one) and
    \<open>invariant_machine\<close>.
  \<^item> \<open>Kube_Objects\<close>: metadata, Secrets, conditions, \<open>ReconcileError\<close>, the parent version gate
    and logged computations (\<open>controller/common.rs\<close>).
  \<^item> \<open>Kafka_Version\<close> (\<open>version.rs\<close>): parsing, printing and the upgrade gate \<open>evaluate\<close>. The
    table of metadata levels of \<open>krabka_metadata\<close> is the parameter \<open>metadata_levels\<close>.
  \<^item> \<open>Leader_Election\<close> (\<open>leader_election.rs\<close>): \<open>acquire\<close>, \<open>renew_once\<close>, \<open>renew_loop\<close>,
    \<open>release\<close>. The theorems show that a replica only takes a lease that was vacant or expired in
    the version it replaces, that a renewal never resurrects a lost lease, that a release only
    clears one's own lease, and how the renewal deadline and the expiry overlap.
  \<^item> \<open>Rebalancer_Client\<close> (\<open>rebalancer_client.rs\<close>): the calls, their bodies and the decoding of
    answers; the HTTP transport is a parameter.
  \<^item> \<open>Rebalance\<close> (\<open>controller/rebalance.rs\<close>): the state machine \<open>decide\<close>, the outcomes, the
    endpoint guard and the whole pass. An execution is sent only for an approved, ready proposal
    computed before; the reported state is the one the answers stand for; accepted endpoints are
    cluster-internal names.
  \<^item> \<open>Trust_Bundle\<close>, \<open>Cluster_Ca\<close>, \<open>Ca_Rotation\<close> (\<open>controller/cluster_ca.rs\<close>, first part):
    PEM bundles; the planner, the execution of every plan and \<open>reconcile_ca\<close>; then the machine
    of passes, crashes and convergences, with the invariant that every peer trusts every key that
    may have signed a leaf in service, and the completion and replay of key replacements.
  \<^item> \<open>Broker_Keystore\<close>, \<open>Renewal_Check\<close> (\<open>controller/cluster_ca.rs\<close>, second part): issue,
    reuse and pruning of broker leafs, and the renewal job.
  \<^item> \<open>Topic\<close> (\<open>controller/topic.rs\<close>, \<open>operator_listener\<close> of \<open>controller/listeners.rs\<close>):
    the whole pass with its finalizer, the configuration diff (an instance of \<open>state_sync\<close>), and
    the choice of the operator's listener. A reported \<open>Ready=True\<close> means that the topic is as the
    resource asks; every change request is guarded.
  \<^item> \<open>User_Credentials\<close> (\<open>crd/user.rs\<close>, \<open>controller/user_tls.rs\<close> and the password Secrets of
    \<open>controller/user.rs\<close>): the resource, the broker's entries, and the Secrets with passwords and
    client certificates; a certificate pass leaves a Secret that serves its user.
  \<^item> \<open>User_Token\<close> (\<open>controller/user_delegation_token.rs\<close>): deciding on, issuing, renewing and
    replacing delegation tokens, with the status conditions. The status names a token before its
    Secret exposes it, and conditions keep their history.
  \<^item> \<open>User\<close>, \<open>User_Access\<close> (\<open>controller/user.rs\<close>): the whole pass, then its theorems. A
    reported \<open>Ready=True\<close> means that the broker holds exactly the entries and quotas that the
    resource manages (the entry diff is an instance of \<open>state_sync\<close>), and every request of a pass
    is one that the resource permits.
  \<^item> \<open>Quantity\<close>, \<open>Workloads\<close> (\<open>parse_quantity\<close> of \<open>controller/common.rs\<close>, \<open>crd/kafka_node_pool.rs\<close>):
    quantities at their 128 bits, the pods and StatefulSets of the API server and the node pools.
  \<^item> \<open>Pool_Topology\<close> (\<open>controller/kafka_node_pool.rs\<close>): validation of a pool, what is observed of
    its identity and size, and the check of a whole cluster, which accepts exactly the topologies
    with a controller and disjoint node ids in which every pool keeps its identity.
  \<^item> \<open>Quorum_Bootstrap\<close> (\<open>controller/common.rs\<close>): which controller formats the first quorum. The
    choice is stored in a Secret; over all passes, no second controller ever formats one.
  \<^item> \<open>Rollout\<close> (\<open>plan_rollout\<close> of \<open>controller/common.rs\<close>, \<open>adopt_pools\<close>, \<open>pools_converged\<close> and the
    roll-up of \<open>controller/kafka.rs\<close>): pools restart one after the other and a rollout completes,
    as long as the reported readiness is current; what happens when it is not is shown as well.

  \<^bold>\<open>Bounds and termination.\<close> \<open>acquire_loop\<close> and \<open>renew_loop\<close> may wait for ever, so they
  take fuel and \<open>None\<close> means that they still wait; the theorems about them hold for every amount
  of fuel, and \<open>released_lease_taken_at_once\<close> shows that one turn suffices on a released lease.
  All other loops are total functions: \<open>split_pem_certs\<close> by the length of what is left,
  \<open>fresh_name\<close> and \<open>fresh_port\<close> by the number of taken names and ports still ahead, the rest by
  structural recursion. Generations are 64-bit words and version components 32-bit words, with the
  wrap-around of the code. Instants and spans are integers counting nanoseconds: the floating
  point representation of the \<open>Time\<close> quantity is not modelled.

  \<^bold>\<open>What outside code is assumed to do.\<close> Key generation, signing, X.509 parsing and SHA-256
  are parameters; the rotation theorems rely on \<open>sound_crypto\<close> (a generated certificate is one
  normal PEM block that belongs to its key and is valid now), which a concrete signer satisfies.
  Server-side apply and merge patches replace the fields they carry. In \<open>Ca_Rotation\<close>, a pass is
  told \<open>converged\<close> only when every pod runs with the stored material. The admin client of the
  topic and user controllers is a parameter; \<open>reports\<close> and \<open>live_after\<close> of \<open>Topic\<close>, and
  \<open>reports_access\<close>, \<open>access_after\<close> and \<open>sound_quota_diff\<close> of \<open>User_Access\<close> state what its
  answers mean.

  \<^bold>\<open>Not modelled.\<close> The watch loops and task spawning, logging, tracing and metrics, the
  rendering of workloads and configuration files (\<open>controller/common.rs\<close>, \<open>controller/kafka.rs\<close>,
  \<open>controller/listeners.rs\<close>), and the other controllers: node pools, users with their ACLs,
  quotas and delegation tokens, connectors, schema registry and the gRPC gateway. The order in which
  they are to follow: user ACL and quota synchronisation (a second instance of \<open>state_sync\<close>), the
  quorum bootstrap state and node pool topology, storage and drain logic, the roll-up of the
  \<open>Kafka\<close> status, listener validation and rendering, then the remaining controllers.
\<close>

end
